(* ===== verification/Prelude.thy ===== *)
theory Prelude
  imports Main "HOL-Library.Word" "HOL-Library.Multiset" "HOL-Library.List_Lexorder"
    "HOL-Library.Char_ord"
begin

text \<open>
  The shared vocabulary of the development: the formatting verbs of Go's fmt package the code
  uses (\<open>%d\<close>, \<open>%0Nd\<close>, \<open>%t\<close>) with the facts that make formatted keys injective, growth of a
  slice by append, bits of a 64-bit word, and the lemmas on lists and maps the component
  theories share. Strings are char lists ordered bytewise (Go's string order), which is the
  order of HOL-Library's List-Lexorder over Char-ord.
\<close>

named_theorems fmt_simps \<open>rewriting of formatted text\<close>
named_theorems check_defs \<open>definitions of the final-state checks\<close>

type_synonym byte = "8 word"
type_synonym duration = int

section \<open>Formatting\<close>

fun ntoa :: "nat \<Rightarrow> string" where
  "ntoa n =
     (if n < 10 then [char_of (48 + n)] else ntoa (n div 10) @ [char_of (48 + n mod 10)])"

declare ntoa.simps [simp del]

definition itoa :: "int \<Rightarrow> string" where
  "itoa i = (if i < 0 then CHR ''-'' # ntoa (nat (- i)) else ntoa (nat i))"

definition pad0 :: "nat \<Rightarrow> string \<Rightarrow> string" where
  "pad0 w s = replicate (w - length s) (CHR ''0'') @ s"

definition itoa_pad :: "nat \<Rightarrow> int \<Rightarrow> string" where
  "itoa_pad w i =
     (if i < 0 then CHR ''-'' # pad0 (w - 1) (ntoa (nat (- i))) else pad0 w (ntoa (nat i)))"

definition btoa :: "bool \<Rightarrow> string" where
  "btoa b = (if b then ''true'' else ''false'')"

text \<open>Reading the digits back, which is what makes the formats injective.\<close>

definition digit_val :: "char \<Rightarrow> nat" where
  "digit_val c = of_char c - 48"

definition read_digits :: "nat \<Rightarrow> string \<Rightarrow> nat" where
  "read_digits a s = foldl (\<lambda>a c. 10 * a + digit_val c) a s"

definition is_digit :: "char \<Rightarrow> bool" where
  "is_digit c \<longleftrightarrow> 48 \<le> (of_char c :: nat) \<and> (of_char c :: nat) \<le> 57"

lemma digit_val_char_of: "d < 10 \<Longrightarrow> digit_val (char_of (48 + d)) = d" for d :: nat
  by (simp add: digit_val_def)

lemma is_digit_char_of: "d < 10 \<Longrightarrow> is_digit (char_of (48 + d))" for d :: nat
  by (simp add: is_digit_def)

lemma read_digits_append: "read_digits a (s @ t) = read_digits (read_digits a s) t"
  by (simp add: read_digits_def)

lemma read_digits_ntoa [fmt_simps]: "read_digits 0 (ntoa n) = n"
proof (induction n rule: ntoa.induct)
  case (1 n)
  show ?case
  proof (cases "n < 10")
    case True
    then show ?thesis
      by (subst ntoa.simps) (simp add: read_digits_def digit_val_char_of)
  next
    case False
    with 1 have "read_digits 0 (ntoa (n div 10)) = n div 10" by simp
    with False show ?thesis
      by (subst ntoa.simps)
        (simp add: read_digits_append, simp add: read_digits_def digit_val_char_of)
  qed
qed

lemma length_ntoa: "n < 10 ^ k \<Longrightarrow> 0 < k \<Longrightarrow> length (ntoa n) \<le> k"
proof (induction n arbitrary: k rule: ntoa.induct)
  case (1 n)
  show ?case
  proof (cases "n < 10")
    case False
    then obtain j where k: "k = Suc j" "0 < j"
      using "1.prems" by (cases k) (auto simp: gr0_conv_Suc split: nat.splits, metis Suc_pred neq0_conv power_0 mult_1_right)
    then have "n div 10 < 10 ^ j" using "1.prems" by (simp add: less_mult_imp_div_less)
    with 1(1)[OF False] k show ?thesis by (subst ntoa.simps) (use False in auto)
  qed (use "1.prems" in \<open>simp add: ntoa.simps\<close>)
qed

lemma ntoa_digits: "c \<in> set (ntoa n) \<Longrightarrow> is_digit c"
proof (induction n arbitrary: c rule: ntoa.induct)
  case (1 n)
  show ?case
  proof (cases "n < 10")
    case True
    with "1.prems" show ?thesis
      by (subst (asm) ntoa.simps) (simp add: is_digit_char_of)
  next
    case False
    with "1.prems" consider "c \<in> set (ntoa (n div 10))" | "c = char_of (48 + n mod 10)"
      by (subst (asm) ntoa.simps) auto
    then show ?thesis
      by cases (use False "1.IH" in \<open>auto simp: is_digit_char_of\<close>)
  qed
qed

lemma ntoa_inject [fmt_simps]: "ntoa a = ntoa b \<longleftrightarrow> a = b"
  by (metis read_digits_ntoa)

lemma ntoa_nonempty: "ntoa n \<noteq> []"
  by (subst ntoa.simps) simp

lemma minus_not_digit: "\<not> is_digit (CHR ''-'')"
  by (simp add: is_digit_def)

lemma itoa_inject [fmt_simps]: "itoa i = itoa j \<longleftrightarrow> i = j"
proof
  assume eq: "itoa i = itoa j"
  have sgn: "k < 0 \<longleftrightarrow> CHR ''-'' \<in> set (itoa k)" for k
    using ntoa_digits minus_not_digit by (auto simp: itoa_def)
  have "i < 0 \<longleftrightarrow> j < 0" using eq sgn by metis
  with eq show "i = j" by (auto simp: itoa_def fmt_simps split: if_splits)
qed simp

lemma read_digits_zeros: "read_digits 0 (replicate k (CHR ''0'') @ s) = read_digits 0 s"
  by (induction k) (simp_all add: read_digits_def digit_val_def)

lemma read_digits_pad0 [fmt_simps]: "read_digits 0 (pad0 w (ntoa n)) = n"
  by (simp add: pad0_def read_digits_zeros read_digits_ntoa)

lemma pad0_digits: "c \<in> set (pad0 w (ntoa n)) \<Longrightarrow> is_digit c"
  by (auto simp: pad0_def is_digit_def dest!: ntoa_digits split: if_splits)

text \<open>Two digit runs followed by a dash split in one way only.\<close>

lemma split_at_dash:
  assumes "\<forall>c \<in> set s. is_digit c" "\<forall>c \<in> set t. is_digit c"
    and "s @ CHR ''-'' # u = t @ CHR ''-'' # v"
  shows "s = t \<and> u = v"
  using assms
proof (induction s arbitrary: t)
  case Nil
  then show ?case using minus_not_digit by (cases t) auto
next
  case (Cons c s)
  then show ?case using minus_not_digit by (cases t) auto
qed

section \<open>Texts\<close>

text \<open>\<open>strings.Join\<close> and \<open>strings.Contains\<close>.\<close>

fun join :: "string \<Rightarrow> string list \<Rightarrow> string" where
  "join sep [] = []"
| "join sep [x] = x"
| "join sep (x # y # zs) = x @ sep @ join sep (y # zs)"

definition contains :: "string \<Rightarrow> string \<Rightarrow> bool" where
  "contains s t \<longleftrightarrow> list_ex (\<lambda>i. take (length t) (drop i s) = t) [0..<Suc (length s)]"

section \<open>Slices\<close>

text \<open>\<open>append(s, make([]T, n-len(s)+1)...)\<close> when index \<open>n\<close> is past the end.\<close>

definition grow :: "'a \<Rightarrow> nat \<Rightarrow> 'a list \<Rightarrow> 'a list" where
  "grow z n xs = (if n < length xs then xs else xs @ replicate (n - length xs + 1) z)"

lemma length_grow [simp]: "length (grow z n xs) = max (length xs) (Suc n)"
  by (simp add: grow_def)

lemma nth_grow: "i < length (grow z n xs) \<Longrightarrow>
    grow z n xs ! i = (if i < length xs then xs ! i else z)"
  by (auto simp: grow_def nth_append max_def nth_Cons' simp del: replicate_Suc)

lemma nth_grow_at [simp]: "grow z n xs ! n = (if n < length xs then xs ! n else z)"
  by (simp add: nth_grow)

section \<open>Lists and counting\<close>

lemma length_filter_split:
  "length (filter P xs) + length (filter (\<lambda>x. \<not> P x) xs) = length xs"
  by (induction xs) auto

lemma length_filter_all_iff: "length (filter P xs) = length xs \<longleftrightarrow> (\<forall>x \<in> set xs. P x)"
proof (induction xs)
  case (Cons a xs)
  have "length (filter P xs) \<noteq> Suc (length xs)" using length_filter_le[of P xs] by linarith
  with Cons show ?case by auto
qed simp

lemma card_set_snoc: "card (set (xs @ [x])) = (if x \<in> set xs then card (set xs) else Suc (card (set xs)))"
  by (simp add: insert_absorb)

lemma sum_list_update:
  fixes xs :: "'a::comm_monoid_add list"
  assumes "i < length xs"
  shows "sum_list (xs[i := y]) + xs ! i = sum_list xs + y"
  using assms
proof (induction xs arbitrary: i)
  case (Cons a xs)
  show ?case
  proof (cases i)
    case (Suc j)
    with Cons have "sum_list (xs[j := y]) + xs ! j = sum_list xs + y" by simp
    with Suc show ?thesis by (simp add: add.assoc)
  qed (simp add: ac_simps)
qed simp

lemma find_append: "find P (xs @ ys) = (case find P xs of None \<Rightarrow> find P ys | Some x \<Rightarrow> Some x)"
  by (induction xs) auto

section \<open>Bits of a 64-bit word\<close>

definition bit64 :: "nat \<Rightarrow> 64 word" where
  "bit64 n = push_bit n 1"

lemma bit_bit64: "n < 64 \<Longrightarrow> bit (bit64 n) k \<longleftrightarrow> k = n"
  by (auto simp: bit64_def bit_simps)

lemma and_bit64_eq_0: "n < 64 \<Longrightarrow> and w (bit64 n) = 0 \<longleftrightarrow> \<not> bit w n"
proof -
  assume n: "n < 64"
  have "and w (bit64 n) = 0 \<longleftrightarrow> (\<forall>k. \<not> bit (and w (bit64 n)) k)"
    by (metis bit_0_eq bit_eqI bot_apply bot_bool_def)
  with n show ?thesis by (auto simp: bit_and_iff bit_bit64)
qed

end
