(* ===== verification/GoErrors.thy ===== *)
theory GoErrors
  imports Prelude
begin

text \<open>
  Go error values as the repository inspects them: the chain that \<open>errors.Is\<close> and
  \<open>errors.As\<close> walk, the two context sentinels, the sentinel \<open>mongo.ErrNoDocuments\<close>, and the
  driver's structured errors with the fields the code reads. The text a driver error prints is
  computed by the driver, so it is carried as a field of the value. \<open>ErrSuffix\<close> is the part of a
  \<open>%w\<close> format after the wrapped error.
\<close>

record command_error =
  ce_Code :: int
  ce_Name :: string
  ce_Labels :: "string list"
  ce_Text :: string

record write_error =
  we_Code :: int
  we_Name :: string

record write_exception =
  wx_WriteConcernError :: "write_error option"
  wx_WriteErrors :: "write_error list"
  wx_Labels :: "string list"
  wx_Text :: string

datatype goerror =
    ErrText string
  | ErrWrap string goerror
  | ErrSuffix goerror string
  | ErrCanceled
  | ErrDeadlineExceeded
  | ErrNoDocuments
  | ErrCommand command_error "goerror option"
  | ErrWrite write_exception
  | ErrBulkWrite write_exception

primrec error_text :: "goerror \<Rightarrow> string" where
  "error_text (ErrText s) = s"
| "error_text (ErrWrap prefix e) = prefix @ error_text e"
| "error_text (ErrSuffix e suffix) = error_text e @ suffix"
| "error_text ErrCanceled = ''context canceled''"
| "error_text ErrDeadlineExceeded = ''context deadline exceeded''"
| "error_text ErrNoDocuments = ''mongo: no documents in result''"
| "error_text (ErrCommand c w) = ce_Text c"
| "error_text (ErrWrite x) = wx_Text x"
| "error_text (ErrBulkWrite x) = wx_Text x"

text \<open>The chain of \<open>errors.Unwrap\<close>, outermost error first.\<close>

primrec error_chain :: "goerror \<Rightarrow> goerror list" where
  "error_chain (ErrText s) = [ErrText s]"
| "error_chain (ErrWrap prefix e) = ErrWrap prefix e # error_chain e"
| "error_chain (ErrSuffix e suffix) = ErrSuffix e suffix # error_chain e"
| "error_chain ErrCanceled = [ErrCanceled]"
| "error_chain ErrDeadlineExceeded = [ErrDeadlineExceeded]"
| "error_chain ErrNoDocuments = [ErrNoDocuments]"
| "error_chain (ErrCommand c w) =
     ErrCommand c w # concat (case map_option error_chain w of None \<Rightarrow> [] | Some es \<Rightarrow> [es])"
| "error_chain (ErrWrite x) = [ErrWrite x]"
| "error_chain (ErrBulkWrite x) = [ErrBulkWrite x]"

definition errors_Is :: "goerror \<Rightarrow> goerror \<Rightarrow> bool" where
  "errors_Is e target \<longleftrightarrow> target \<in> set (error_chain e)"

fun first_command :: "goerror list \<Rightarrow> command_error option" where
  "first_command [] = None"
| "first_command (ErrCommand c w # es) = Some c"
| "first_command (e # es) = first_command es"

fun first_write :: "goerror list \<Rightarrow> write_exception option" where
  "first_write [] = None"
| "first_write (ErrWrite x # es) = Some x"
| "first_write (e # es) = first_write es"

fun first_bulk :: "goerror list \<Rightarrow> write_exception option" where
  "first_bulk [] = None"
| "first_bulk (ErrBulkWrite x # es) = Some x"
| "first_bulk (e # es) = first_bulk es"

definition as_CommandError :: "goerror \<Rightarrow> command_error option" where
  "as_CommandError e = first_command (error_chain e)"

definition as_WriteException :: "goerror \<Rightarrow> write_exception option" where
  "as_WriteException e = first_write (error_chain e)"

definition as_BulkWriteException :: "goerror \<Rightarrow> write_exception option" where
  "as_BulkWriteException e = first_bulk (error_chain e)"

lemmas errors_As_defs = as_CommandError_def as_WriteException_def as_BulkWriteException_def

lemma error_chain_self: "e \<in> set (error_chain e)"
  by (cases e) auto

lemma errors_Is_refl [simp]: "errors_Is e e"
  by (simp add: errors_Is_def error_chain_self)

lemma errors_Is_wrap [simp]: "errors_Is (ErrWrap p e) t \<longleftrightarrow> t = ErrWrap p e \<or> errors_Is e t"
  by (auto simp: errors_Is_def)

lemma errors_As_wrap [simp]:
  "as_CommandError (ErrWrap p e) = as_CommandError e"
  "as_WriteException (ErrWrap p e) = as_WriteException e"
  "as_BulkWriteException (ErrWrap p e) = as_BulkWriteException e"
  by (simp_all add: errors_As_defs)

end
