(* ===== verification/Wire.thy ===== *)
theory Wire
  imports WireBytes
begin

text \<open>
  The minimal wire client of src/wire/conn.go. A connection is its request counter, what it
  remembers of the last reply, its traffic totals, and the socket: the bytes still to be read with
  the error the stream ends in, the bytes written so far, and the error the next writes give, if
  any. Marshalling of documents (BSON) and the snappy and zlib codecs are parameters.
\<close>

unbundle bit_operations_syntax

section \<open>Connections\<close>

definition opCompressed :: "32 word" where "opCompressed = 2012"
definition opMsg :: "32 word" where "opMsg = 2013"

definition CompressorNoop :: byte where "CompressorNoop = 0"
definition CompressorSnappy :: byte where "CompressorSnappy = 1"
definition CompressorZlib :: byte where "CompressorZlib = 2"

record Traffic =
  tr_Requests :: int
  tr_RequestLogicalBytes :: int
  tr_RequestWireBytes :: int
  tr_RequestPayloadBytes :: int
  tr_RequestBodyBytes :: int
  tr_ReplyLogicalBytes :: int
  tr_ReplyWireBytes :: int
  tr_ReplyPayloadBytes :: int
  tr_ReplyBodyBytes :: int

definition no_traffic :: Traffic where
  "no_traffic = \<lparr>tr_Requests = 0, tr_RequestLogicalBytes = 0, tr_RequestWireBytes = 0,
     tr_RequestPayloadBytes = 0, tr_RequestBodyBytes = 0, tr_ReplyLogicalBytes = 0,
     tr_ReplyWireBytes = 0, tr_ReplyPayloadBytes = 0, tr_ReplyBodyBytes = 0\<rparr>"

datatype checksum_status = ChecksumNone | ChecksumIsValid | ChecksumIsInvalid

record Conn =
  cn_reqID :: "32 word"
  cn_lastReplyCompressor :: int
  cn_lastReplyChecksum :: checksum_status
  cn_traffic :: Traffic
  cn_in :: "byte list"
  cn_end :: goerror
  cn_out :: "byte list"
  cn_writeErr :: "goerror option"

definition dialed :: "byte list \<Rightarrow> goerror \<Rightarrow> goerror option \<Rightarrow> Conn" where
  "dialed input ending writeErr = \<lparr>cn_reqID = 0, cn_lastReplyCompressor = -1,
     cn_lastReplyChecksum = ChecksumNone, cn_traffic = no_traffic, cn_in = input,
     cn_end = ending, cn_out = [], cn_writeErr = writeErr\<rparr>"

text \<open>The libraries the connection calls: BSON, snappy and zlib.\<close>

record ('c, 'd) codec =
  cd_Marshal :: "'c \<Rightarrow> goerror + byte list"
  cd_Unmarshal :: "byte list \<Rightarrow> goerror + 'd"
  cd_snappyEncode :: "byte list \<Rightarrow> byte list"
  cd_snappyDecode :: "byte list \<Rightarrow> goerror + byte list"
  cd_zlibEncode :: "byte list \<Rightarrow> goerror + byte list"
  cd_zlibDecode :: "byte list \<Rightarrow> goerror + byte list"

definition appendI32 :: "byte list \<Rightarrow> 32 word \<Rightarrow> byte list" where
  "appendI32 buf v = buf @ le32 v"

definition compress :: "('c, 'd) codec \<Rightarrow> byte list \<Rightarrow> byte \<Rightarrow> goerror + byte list" where
  "compress cd body compressor =
     (if compressor = CompressorNoop then Inr body
      else if compressor = CompressorSnappy then Inr (cd_snappyEncode cd body)
      else if compressor = CompressorZlib then cd_zlibEncode cd body
      else Inl (ErrText (''unsupported compressor id '' @ ntoa (unat compressor))))"

definition decompress :: "('c, 'd) codec \<Rightarrow> byte list \<Rightarrow> byte \<Rightarrow> goerror + byte list" where
  "decompress cd payload compressor =
     (if compressor = CompressorNoop then Inr payload
      else if compressor = CompressorSnappy then cd_snappyDecode cd payload
      else if compressor = CompressorZlib then cd_zlibDecode cd payload
      else Inl (ErrText (''unsupported reply compressor id '' @ ntoa (unat compressor))))"

section \<open>Reading a reply\<close>

text \<open>\<open>io.ReadFull\<close>: all the bytes asked for, or the error the stream ends in, which is an
  unexpected end of file when some bytes had arrived.\<close>

definition readFull :: "nat \<Rightarrow> Conn \<Rightarrow> (goerror + byte list) \<times> Conn" where
  "readFull n c =
     (if n \<le> length (cn_in c) then (Inr (take n (cn_in c)), c\<lparr>cn_in := drop n (cn_in c)\<rparr>)
      else (Inl (if cn_in c \<noteq> [] \<and> cn_end c = ErrText ''EOF'' then ErrText ''unexpected EOF''
                 else cn_end c), c\<lparr>cn_in := []\<rparr>))"

definition checksumPresent :: "32 word" where "checksumPresent = 1"

definition reply_checksum :: "byte list \<Rightarrow> byte list \<Rightarrow> 32 word" where
  "reply_checksum hdr rest =
     (let original = le32 (word_of_nat (16 + length rest)) @ take 8 (drop 4 hdr) @ le32 opMsg
      in crc32c (original @ take (length rest - 4) rest))"

text \<open>From the sections of a reply, uncompressed, to its document.\<close>

definition decode_sections :: "('c, 'd) codec \<Rightarrow> byte list \<Rightarrow> byte list \<Rightarrow> Conn \<Rightarrow>
    (goerror + 'd \<times> 32 word) \<times> Conn" where
  "decode_sections cd hdr rest c =
     (if length rest < 5
      then (Inl (ErrText ''malformed OP_MSG reply: truncated section header''), c)
      else
        let replyFlags = get32 rest 0;
            c = c\<lparr>cn_lastReplyChecksum := ChecksumNone\<rparr> in
        if replyFlags AND checksumPresent \<noteq> 0 \<and> length rest < 9
        then (Inl (ErrText ''malformed OP_MSG reply: checksum flag without checksum''), c)
        else
          let (rest, c) =
            (if replyFlags AND checksumPresent \<noteq> 0
             then (take (length rest - 4) rest,
                   c\<lparr>cn_lastReplyChecksum :=
                      (if reply_checksum hdr rest = get32 rest (length rest - 4)
                       then ChecksumIsValid else ChecksumIsInvalid)\<rparr>)
             else (rest, c));
              sectionKind = rest ! 4 in
          if sectionKind \<noteq> 0
          then (Inl (ErrText (''unexpected section kind '' @ ntoa (unat sectionKind) @
                       '' (only kind 0 supported)'')), c)
          else case cd_Unmarshal cd (drop 5 rest) of
                 Inl err \<Rightarrow> (Inl (ErrWrap ''decode reply: '' err), c)
               | Inr reply \<Rightarrow> (Inr (reply, replyFlags), c))"

definition add_traffic :: "(Traffic \<Rightarrow> Traffic) \<Rightarrow> Conn \<Rightarrow> Conn" where
  "add_traffic f c = c\<lparr>cn_traffic := f (cn_traffic c)\<rparr>"

definition count_reply :: "byte list \<Rightarrow> Conn \<Rightarrow> Conn" where
  "count_reply rest = add_traffic (\<lambda>t. t\<lparr>tr_ReplyLogicalBytes :=
     tr_ReplyLogicalBytes t + int (16 + length rest)\<rparr>)"

text \<open>From the body of a frame, compressed or not, to the document.\<close>

definition after_body :: "32 word \<Rightarrow> ('c, 'd) codec \<Rightarrow> byte list \<Rightarrow> byte list \<Rightarrow> Conn \<Rightarrow>
    (goerror + 'd \<times> 32 word) \<times> Conn" where
  "after_body replyOp cd hdr rest c =
     (if replyOp = opCompressed
      then if length rest < 9 \<or> get32 rest 0 \<noteq> opMsg
           then (Inl (ErrText ''malformed OP_COMPRESSED reply''), c)
           else let compressor = rest ! 8 in
             case decompress cd (drop 9 rest) compressor of
               Inl err \<Rightarrow> (Inl (ErrWrap ''decompress reply: '' err), c)
             | Inr body \<Rightarrow>
                 let c = add_traffic (\<lambda>t. t\<lparr>
                           tr_ReplyPayloadBytes := tr_ReplyPayloadBytes t + int (length rest) - 9,
                           tr_ReplyBodyBytes := tr_ReplyBodyBytes t + int (length body)\<rparr>)
                         (c\<lparr>cn_lastReplyCompressor := int (unat compressor)\<rparr>)
                 in decode_sections cd hdr body (count_reply body c)
      else decode_sections cd hdr rest (count_reply rest c))"

definition readCommandReply :: "('c, 'd) codec \<Rightarrow> Conn \<Rightarrow> (goerror + 'd \<times> 32 word) \<times> Conn" where
  "readCommandReply cd c =
     (case readFull 16 c of
        (Inl err, c) \<Rightarrow> (Inl (ErrWrap ''read header: '' err), c)
      | (Inr hdr, c) \<Rightarrow>
      let replyLen = sint (get32 hdr 0); replyOp = get32 hdr 12 in
      if replyLen < 21
      then (Inl (ErrText (''short OP_MSG reply: '' @ itoa replyLen @ '' bytes'')), c)
      else if replyOp \<notin> {opMsg, opCompressed}
      then (Inl (ErrText (''unexpected reply opcode '' @ itoa (sint replyOp) @ '' (want OP_MSG)'')), c)
      else case readFull (nat (replyLen - 16)) c of
        (Inl err, c) \<Rightarrow> (Inl (ErrWrap ''read body: '' err), c)
      | (Inr rest, c) \<Rightarrow> after_body replyOp cd hdr rest
          (add_traffic (\<lambda>t. t\<lparr>tr_ReplyWireBytes := tr_ReplyWireBytes t + replyLen\<rparr>)
             (c\<lparr>cn_lastReplyCompressor := -1\<rparr>)))"

section \<open>Sending a command\<close>

text \<open>One write of the whole message.\<close>

definition write_all :: "string \<Rightarrow> byte list \<Rightarrow> (Traffic \<Rightarrow> Traffic) \<Rightarrow> Conn \<Rightarrow> goerror option \<times> Conn" where
  "write_all what out f c =
     (case cn_writeErr c of
        Some err \<Rightarrow> (Some (ErrWrap (what @ '': '') err), c)
      | None \<Rightarrow> (None, add_traffic f (c\<lparr>cn_out := cn_out c @ out\<rparr>)))"

definition count_request :: "nat \<Rightarrow> nat \<Rightarrow> nat \<Rightarrow> nat \<Rightarrow> Traffic \<Rightarrow> Traffic" where
  "count_request logical wired payload body t = t\<lparr>
     tr_Requests := tr_Requests t + 1,
     tr_RequestLogicalBytes := tr_RequestLogicalBytes t + int logical,
     tr_RequestWireBytes := tr_RequestWireBytes t + int wired,
     tr_RequestPayloadBytes := tr_RequestPayloadBytes t + int payload,
     tr_RequestBodyBytes := tr_RequestBodyBytes t + int body\<rparr>"

definition next_request :: "Conn \<Rightarrow> Conn" where
  "next_request c = c\<lparr>cn_reqID := cn_reqID c + 1\<rparr>"

definition header :: "nat \<Rightarrow> 32 word \<Rightarrow> 32 word \<Rightarrow> byte list" where
  "header msgLen reqID opcode =
     appendI32 (appendI32 (appendI32 (appendI32 [] (word_of_nat msgLen)) reqID) 0) opcode"

text \<open>Write, then read the reply.\<close>

definition exchange :: "('c, 'd) codec \<Rightarrow> string \<Rightarrow> byte list \<Rightarrow> (Traffic \<Rightarrow> Traffic) \<Rightarrow> Conn \<Rightarrow>
    (goerror + 'd \<times> 32 word) \<times> Conn" where
  "exchange cd what out f c =
     (case write_all what out f c of (Some err, c) \<Rightarrow> (Inl err, c) | (None, c) \<Rightarrow> readCommandReply cd c)"

definition message :: "32 word \<Rightarrow> 32 word \<Rightarrow> byte list \<Rightarrow> byte list" where
  "message reqID flags body =
     appendI32 (header (21 + length body) reqID opMsg) flags @ [0] @ body"

definition RunCommandFlags :: "('c, 'd) codec \<Rightarrow> 'c \<Rightarrow> 32 word \<Rightarrow> Conn \<Rightarrow>
    (goerror + 'd \<times> 32 word) \<times> Conn" where
  "RunCommandFlags cd cmd flags c =
     (case cd_Marshal cd cmd of
        Inl err \<Rightarrow> (Inl (ErrWrap ''marshal cmd: '' err), c)
      | Inr body \<Rightarrow>
          let c = next_request c; out = message (cn_reqID c) flags body
          in exchange cd ''write'' out (count_request (length out) (length out) 0 0) c)"

definition RunCommand :: "('c, 'd) codec \<Rightarrow> 'c \<Rightarrow> Conn \<Rightarrow> (goerror + 'd \<times> 32 word) \<times> Conn" where
  "RunCommand cd cmd c = RunCommandFlags cd cmd 0 c"

definition compressed_message :: "32 word \<Rightarrow> nat \<Rightarrow> byte \<Rightarrow> byte list \<Rightarrow> byte list" where
  "compressed_message reqID bodyLen compressor payload =
     appendI32 (appendI32 (header (25 + length payload) reqID opCompressed) opMsg)
       (word_of_nat bodyLen) @ [compressor] @ payload"

definition RunCompressedCommand :: "('c, 'd) codec \<Rightarrow> 'c \<Rightarrow> byte \<Rightarrow> Conn \<Rightarrow>
    (goerror + 'd \<times> 32 word) \<times> Conn" where
  "RunCompressedCommand cd cmd compressor c =
     (case cd_Marshal cd cmd of
        Inl err \<Rightarrow> (Inl (ErrWrap ''marshal cmd: '' err), c)
      | Inr document \<Rightarrow>
          let uncompressed = appendI32 [] 0 @ [0] @ document in
          case compress cd uncompressed compressor of
            Inl err \<Rightarrow> (Inl err, c)
          | Inr compressed \<Rightarrow>
              let c = next_request c;
                  out = compressed_message (cn_reqID c) (length uncompressed) compressor compressed
              in exchange cd ''write compressed command'' out
                   (count_request (16 + length uncompressed) (length out) (length compressed)
                      (length uncompressed)) c)"

definition RunZlibCompressedCommand :: "('c, 'd) codec \<Rightarrow> 'c \<Rightarrow> Conn \<Rightarrow>
    (goerror + 'd \<times> 32 word) \<times> Conn" where
  "RunZlibCompressedCommand cd cmd c = RunCompressedCommand cd cmd CompressorZlib c"

datatype Checksum = ChecksumValid | ChecksumCorrupt | ChecksumFlagOnly

definition checksummed_message :: "32 word \<Rightarrow> Checksum \<Rightarrow> byte list \<Rightarrow> byte list" where
  "checksummed_message reqID checksum document =
     (let msgLen = 16 + 5 + length document + (if checksum \<noteq> ChecksumFlagOnly then 4 else 0);
          msg = appendI32 (header msgLen reqID opMsg) checksumPresent @ [0] @ document in
      if checksum = ChecksumFlagOnly then msg
      else let total = crc32c msg;
               total = (if checksum = ChecksumCorrupt then total XOR 0xdeadbeef else total)
           in msg @ le32 total)"

definition RunChecksummedCommand :: "('c, 'd) codec \<Rightarrow> 'c \<Rightarrow> Checksum \<Rightarrow> int \<Rightarrow> Conn \<Rightarrow>
    (goerror + 'd \<times> 32 word) \<times> Conn" where
  "RunChecksummedCommand cd cmd checksum compressor c =
     (case cd_Marshal cd cmd of
        Inl err \<Rightarrow> (Inl (ErrWrap ''marshal cmd: '' err), c)
      | Inr document \<Rightarrow>
          let c = next_request c; msg = checksummed_message (cn_reqID c) checksum document;
              body = drop 16 msg in
          case (if compressor = -1 then Inr msg
                else map_sum id (compressed_message (cn_reqID c) (length body) (word_of_int compressor))
                       (compress cd body (word_of_int compressor))) of
            Inl err \<Rightarrow> (Inl err, c)
          | Inr out \<Rightarrow> exchange cd ''write checksummed command'' out
                         (count_request (length msg) (length out) 0 0) c)"

definition RunRawOpMsg :: "('c, 'd) codec \<Rightarrow> byte list \<Rightarrow> Conn \<Rightarrow>
    (goerror + 'd \<times> 32 word) \<times> Conn" where
  "RunRawOpMsg cd payload c =
     (let c = next_request c; out = header (16 + length payload) (cn_reqID c) opMsg @ payload
      in exchange cd ''write'' out (count_request (length out) (length out) 0 0) c)"

section \<open>Session identifiers and addresses\<close>

text \<open>The random bytes of \<open>NewLsid\<close> are an argument.\<close>

definition NewLsid :: "byte list \<Rightarrow> nat \<times> byte list" where
  "NewLsid b = (4, b[6 := (b ! 6 AND 0x0F) OR 0x40, 8 := (b ! 8 AND 0x3F) OR 0x80])"

text \<open>The URL parser, from text to the host part, is an argument.\<close>

definition hostPort :: "(string \<Rightarrow> string) \<Rightarrow> (string \<Rightarrow> goerror + string) \<Rightarrow> string \<Rightarrow> goerror + string" where
  "hostPort quote parse_host addr =
     (if \<not> contains addr ''://'' then Inr addr
      else case parse_host addr of
             Inl err \<Rightarrow> Inl (ErrWrap ''parse uri: '' err)
           | Inr host \<Rightarrow>
               if host = [] then Inl (ErrText (''no host in URI '' @ quote addr)) else Inr host)"

end
