(* ===== verification/WireFacts.thy ===== *)
theory WireFacts
  imports Wire
begin

text \<open>
  What the wire client guarantees: the messages it writes are read back by its own reader to the
  document that was sent, plain, compressed and checksummed, and the traffic totals of a
  connection account for the bytes on its socket after any sequence of calls.
\<close>

unbundle bit_operations_syntax

section \<open>Frames\<close>

lemma dialed_fields [simp]:
  "cn_in (dialed i e w) = i" "cn_end (dialed i e w) = e" "cn_out (dialed i e w) = []"
  "cn_writeErr (dialed i e w) = w" "cn_traffic (dialed i e w) = no_traffic"
  "cn_lastReplyCompressor (dialed i e w) = -1" "cn_lastReplyChecksum (dialed i e w) = ChecksumNone"
  by (simp_all add: dialed_def)

lemma length_header [simp]: "length (header n r op) = 16"
  by (simp add: header_def appendI32_def)

lemma op_distinct [simp]: "opMsg \<noteq> opCompressed"
  by (simp add: opMsg_def opCompressed_def)

lemma length_message: "length (message r flags body) = 21 + length body"
  by (simp add: message_def appendI32_def)

lemma length_compressed_message: "length (compressed_message r n k payload) = 25 + length payload"
  by (simp add: compressed_message_def appendI32_def)

lemma header_length_field: "get32 (header n r op @ xs) 0 = word_of_nat n"
  by (simp add: header_def appendI32_def)

lemma header_opcode_field: "get32 (header n r op @ xs) 12 = op"
  by (simp add: header_def appendI32_def get32_append)

lemma take_header [simp]: "take 16 (header n r op @ xs) = header n r op"
  by simp

lemma drop_header [simp]: "drop 16 (header n r op @ xs) = xs"
  by simp

lemma sint_small: "n < 2 ^ 31 \<Longrightarrow> sint (word_of_nat n :: 32 word) = int n"
  by (simp add: sint_uint signed_take_bit_int_eq_self unsigned_of_nat take_bit_nat_eq_self
      flip: of_nat_take_bit)

lemma decode_sections_socket [simp]:
  "cn_out (snd (decode_sections cd hdr rest c)) = cn_out c"
  "cn_in (snd (decode_sections cd hdr rest c)) = cn_in c"
  "cn_end (snd (decode_sections cd hdr rest c)) = cn_end c"
  "cn_writeErr (snd (decode_sections cd hdr rest c)) = cn_writeErr c"
  "cn_traffic (snd (decode_sections cd hdr rest c)) = cn_traffic c"
  by (simp_all add: decode_sections_def Let_def split: sum.split)

lemma after_body_socket [simp]:
  "cn_out (snd (after_body op cd hdr rest c)) = cn_out c"
  "cn_in (snd (after_body op cd hdr rest c)) = cn_in c"
  "cn_end (snd (after_body op cd hdr rest c)) = cn_end c"
  "cn_writeErr (snd (after_body op cd hdr rest c)) = cn_writeErr c"
  by (simp_all add: after_body_def add_traffic_def count_reply_def Let_def split: sum.split)

text \<open>A whole frame at the head of the input is consumed exactly, whatever becomes of its body.\<close>

lemma readCommandReply_frame:
  assumes "cn_in c = header (16 + length rest) r op @ rest @ later"
    and "op \<in> {opMsg, opCompressed}" and "5 \<le> length rest" and "16 + length rest < 2 ^ 31"
  shows "readCommandReply cd c = after_body op cd (header (16 + length rest) r op) rest
     (c\<lparr>cn_in := later, cn_lastReplyCompressor := -1,
        cn_traffic := (cn_traffic c)\<lparr>tr_ReplyWireBytes := tr_ReplyWireBytes (cn_traffic c)
           + int (16 + length rest)\<rparr>\<rparr>)"
proof -
  let ?h = "header (16 + length rest) r op"
  have len: "sint (get32 ?h 0) = int (16 + length rest)"
    using header_length_field[of _ r op "[]"] sint_small[OF assms(4)] by simp
  have opf: "get32 ?h 12 = op" using header_opcode_field[of _ r op "[]"] by simp
  have hd: "readFull 16 c = (Inr ?h, c\<lparr>cn_in := rest @ later\<rparr>)"
    by (simp add: readFull_def assms(1))
  have bd: "readFull (nat (int (16 + length rest) - 16)) (c\<lparr>cn_in := rest @ later\<rparr>)
      = (Inr rest, c\<lparr>cn_in := later\<rparr>)"
    by (simp add: readFull_def)
  show ?thesis
    unfolding readCommandReply_def hd prod.case sum.case Let_def len opf bd
    using assms(2,3) by (simp add: add_traffic_def)
qed

lemma readCommandReply_out [simp]:
  "cn_out (snd (readCommandReply cd c)) = cn_out c"
  "cn_writeErr (snd (readCommandReply cd c)) = cn_writeErr c"
  by (simp_all add: readCommandReply_def readFull_def add_traffic_def Let_def)

section \<open>Reading back what was sent\<close>

text \<open>Let a peer read what an operation wrote on a fresh connection: the result with what the
  peer's connection remembers of it and what is left to read.\<close>

definition read_back :: "('c, 'd) codec \<Rightarrow> (Conn \<Rightarrow> 'r \<times> Conn) \<Rightarrow> byte list \<Rightarrow>
    (goerror + 'd \<times> 32 word) \<times> int \<times> checksum_status \<times> byte list" where
  "read_back cd send later =
     (let written = cn_out (snd (send (dialed [] (ErrText ''EOF'') None)));
          (r, c) = readCommandReply cd (dialed (written @ later) (ErrText ''EOF'') None)
      in (r, cn_lastReplyCompressor c, cn_lastReplyChecksum c, cn_in c))"

lemma exchange_out: "cn_writeErr c = None \<Longrightarrow> cn_out (snd (exchange cd what out f c)) = cn_out c @ out"
  by (simp add: exchange_def write_all_def add_traffic_def)

lemma plain_sections:
  assumes "flags AND checksumPresent = 0"
  shows "decode_sections cd hdr (le32 flags @ 0 # body) c =
     (case cd_Unmarshal cd body of
        Inl err \<Rightarrow> (Inl (ErrWrap ''decode reply: '' err), c\<lparr>cn_lastReplyChecksum := ChecksumNone\<rparr>)
      | Inr reply \<Rightarrow> (Inr (reply, flags), c\<lparr>cn_lastReplyChecksum := ChecksumNone\<rparr>))"
  using assms by (simp add: decode_sections_def Let_def nth_append split: sum.splits)

definition signed_bytes :: "32 word \<Rightarrow> byte list \<Rightarrow> byte list" where
  "signed_bytes r body = header (25 + length body) r opMsg @ le32 checksumPresent @ 0 # body"

lemma checksummed_sections:
  fixes body :: "byte list" and r :: "32 word"
  assumes "take 8 (drop 4 hdr) = take 8 (drop 4 (header (25 + length body) r opMsg))"
  shows "decode_sections cd hdr (le32 checksumPresent @ 0 # body @ le32 crc) c =
     (case cd_Unmarshal cd body of
        Inl err \<Rightarrow> (Inl (ErrWrap ''decode reply: '' err), c\<lparr>cn_lastReplyChecksum :=
          (if crc32c (signed_bytes r body) = crc then ChecksumIsValid else ChecksumIsInvalid)\<rparr>)
      | Inr reply \<Rightarrow> (Inr (reply, checksumPresent), c\<lparr>cn_lastReplyChecksum :=
          (if crc32c (signed_bytes r body) = crc then ChecksumIsValid else ChecksumIsInvalid)\<rparr>))"
proof -
  let ?rest = "le32 checksumPresent @ 0 # body @ le32 crc"
  have tk: "take (length ?rest - 4) ?rest = le32 checksumPresent @ 0 # body" by simp
  have sm: "get32 ?rest (length ?rest - 4) = crc"
    using get32_append[of "le32 checksumPresent @ 0 # body" "length ?rest - 4" "le32 crc"]
      get32_le32[of crc "[]"] by simp
  have "reply_checksum hdr ?rest = crc32c (signed_bytes r body)"
    using assms unfolding reply_checksum_def tk Let_def signed_bytes_def
    by (simp add: header_def appendI32_def)
  then show ?thesis
    unfolding decode_sections_def Let_def tk sm
    by (simp add: checksumPresent_def nth_append split: sum.splits)
qed

text \<open>What the code relies on of a codec: what it compressed it decompresses, within the length a
  frame can have.\<close>

definition codec_ok :: "('c, 'd) codec \<Rightarrow> byte \<Rightarrow> nat \<Rightarrow> bool" where
  "codec_ok cd k n \<longleftrightarrow> (\<forall>x. length x \<le> n \<longrightarrow>
     (\<exists>p. compress cd x k = Inr p \<and> decompress cd p k = Inr x \<and> 25 + length p < 2 ^ 31))"

text \<open>Reading the bytes of one frame on a fresh connection.\<close>

lemma read_frame:
  assumes "frame = header (16 + length rest) r op @ rest" and "op \<in> {opMsg, opCompressed}"
    and "5 \<le> length rest" "16 + length rest < 2 ^ 31"
  shows "readCommandReply cd (dialed (frame @ later) e w) =
     after_body op cd (header (16 + length rest) r op) rest
       ((dialed later e w)\<lparr>cn_traffic := no_traffic\<lparr>tr_ReplyWireBytes := int (16 + length rest)\<rparr>\<rparr>)"
  by (subst readCommandReply_frame[OF _ assms(2-4), where r = r and later = later])
    (simp_all add: assms(1) dialed_def no_traffic_def)

lemma message_frame:
  "message r flags body = header (16 + length (le32 flags @ 0 # body)) r opMsg @ le32 flags @ 0 # body"
  by (simp add: message_def appendI32_def)

lemma compressed_frame:
  "compressed_message r n k p = header (16 + length (le32 opMsg @ le32 (word_of_nat n) @ k # p)) r
     opCompressed @ le32 opMsg @ le32 (word_of_nat n) @ k # p"
  by (simp add: compressed_message_def appendI32_def)

lemma compressed_body:
  assumes "decompress cd p k = Inr x"
  shows "after_body opCompressed cd hdr (le32 opMsg @ le32 n @ k # p) c =
    decode_sections cd hdr x (count_reply x (add_traffic (\<lambda>t. t\<lparr>
                 tr_ReplyPayloadBytes := tr_ReplyPayloadBytes t + int (length p),
                 tr_ReplyBodyBytes := tr_ReplyBodyBytes t + int (length x)\<rparr>)
               (c\<lparr>cn_lastReplyCompressor := uint k\<rparr>)))"
proof -
  have "(le32 opMsg @ le32 n @ k # p) ! 8 = k" by (simp add: nth_append)
  moreover have "drop 9 (le32 opMsg @ le32 n @ k # p) = p" by simp
  ultimately show ?thesis using assms by (simp add: after_body_def Let_def)
qed

lemma checksummed_frame:
  assumes "crc = (if k = ChecksumCorrupt then crc32c (signed_bytes r body) XOR 0xdeadbeef
                  else crc32c (signed_bytes r body))" and "k \<noteq> ChecksumFlagOnly"
  defines "rest \<equiv> le32 checksumPresent @ 0 # body @ le32 crc"
  shows "checksummed_message r k body = header (16 + length rest) r opMsg @ rest"
  using assms(2) by (simp add: checksummed_message_def Let_def rest_def assms(1) signed_bytes_def
      appendI32_def add.commute)

lemma xor_changes: "x XOR 0xdeadbeef \<noteq> (x :: 32 word)"
proof
  assume "x XOR 0xdeadbeef = x"
  then have "x XOR (x XOR 0xdeadbeef) = x XOR x" by simp
  then show False by (simp flip: xor.assoc)
qed

lemma checksum_agrees:
  assumes "k \<noteq> ChecksumFlagOnly"
    and "crc = (if k = ChecksumCorrupt then crc32c (signed_bytes r body) XOR 0xdeadbeef
                else crc32c (signed_bytes r body))"
  shows "(if crc32c (signed_bytes r body) = crc then ChecksumIsValid else ChecksumIsInvalid)
    = (if k = ChecksumCorrupt then ChecksumIsInvalid else ChecksumIsValid)"
  using assms xor_changes[of "crc32c (signed_bytes r body)"] by (auto dest: sym)

lemma header_middle:
  "take 8 (drop 4 (header n r op)) = take 8 (drop 4 (header n' r op'))"
  by (simp add: header_def appendI32_def)

lemma written_by:
  "cd_Marshal cd cmd = Inr body \<Longrightarrow>
     cn_out (snd (RunCommandFlags cd cmd flags (dialed [] e None))) = message 1 flags body"
  "cd_Marshal cd cmd = Inr body \<Longrightarrow> compress cd (le32 0 @ 0 # body) k = Inr p \<Longrightarrow>
     cn_out (snd (RunCompressedCommand cd cmd k (dialed [] e None)))
       = compressed_message 1 (5 + length body) k p"
  "cd_Marshal cd cmd = Inr body \<Longrightarrow>
     cn_out (snd (RunChecksummedCommand cd cmd q (-1) (dialed [] e None))) = checksummed_message 1 q body"
  "cd_Marshal cd cmd = Inr body \<Longrightarrow> compress cd (drop 16 (checksummed_message 1 q body)) k = Inr p \<Longrightarrow>
     cn_out (snd (RunChecksummedCommand cd cmd q (uint k) (dialed [] e None)))
       = compressed_message 1 (length (drop 16 (checksummed_message 1 q body))) k p"
proof -
  have "uint k \<noteq> - 1" using unsigned_greater_eq[of k, where ?'a = int] by linarith
  then show "cd_Marshal cd cmd = Inr body \<Longrightarrow> compress cd (drop 16 (checksummed_message 1 q body)) k = Inr p \<Longrightarrow>
      cn_out (snd (RunChecksummedCommand cd cmd q (uint k) (dialed [] e None)))
       = compressed_message 1 (length (drop 16 (checksummed_message 1 q body))) k p"
    by (simp add: RunChecksummedCommand_def Let_def exchange_out next_request_def dialed_def)
qed (simp_all add: RunCommandFlags_def RunCompressedCommand_def RunChecksummedCommand_def Let_def
      exchange_out next_request_def dialed_def appendI32_def)

section \<open>Properties\<close>

text \<open>C27: The client reads what it writes. A command that BSON and the codec round-trip, sent
  plainly, compressed, with a checksum, or both, is read back by a connection that receives the
  bytes: the same document and flags, the compressor it came in, the checksum reported valid when
  it was computed and invalid when it was corrupted (over the uncompressed message in both cases),
  and the bytes that follow the frame are left unread.\<close>

theorem sent_commands_read_back:
  assumes "cd_Marshal cd cmd = Inr body" and "cd_Unmarshal cd body = Inr d"
    and codec: "codec_ok cd k (9 + length body)" and size: "25 + length body < 2 ^ 31"
    and plain: "flags AND checksumPresent = 0" and q: "q \<noteq> ChecksumFlagOnly"
  shows "read_back cd (RunCommandFlags cd cmd flags) later = (Inr (d, flags), -1, ChecksumNone, later) \<and>
    read_back cd (RunCompressedCommand cd cmd k) later = (Inr (d, 0), uint k, ChecksumNone, later) \<and>
    read_back cd (RunChecksummedCommand cd cmd q (-1)) later
      = (Inr (d, checksumPresent), -1, (if q = ChecksumCorrupt then ChecksumIsInvalid else ChecksumIsValid), later) \<and>
    read_back cd (RunChecksummedCommand cd cmd q (uint k)) later
      = (Inr (d, checksumPresent), uint k, (if q = ChecksumCorrupt then ChecksumIsInvalid else ChecksumIsValid), later)"
proof -
  note sent = written_by[OF assms(1)]
  note ok = codec[unfolded codec_ok_def, rule_format]
  define crc where "crc = (if q = ChecksumCorrupt then crc32c (signed_bytes 1 body) XOR 0xdeadbeef
      else crc32c (signed_bytes 1 body))"
  let ?x = "le32 0 @ 0 # body" and ?y = "le32 checksumPresent @ 0 # body @ le32 crc"
  obtain p where p: "compress cd ?x k = Inr p" "decompress cd p k = Inr ?x" "25 + length p < 2 ^ 31"
    using ok[of ?x] by auto
  obtain z where z: "compress cd ?y k = Inr z" "decompress cd z k = Inr ?y" "25 + length z < 2 ^ 31"
    using ok[of ?y] by auto
  note frame = checksummed_frame[OF crc_def q]
  have body16: "drop 16 (checksummed_message 1 q body) = ?y" unfolding frame by simp
  have z1: "compress cd (drop 16 (checksummed_message 1 q body)) k = Inr z" by (simp only: body16 z(1))
  note agrees = checksum_agrees[OF q crc_def]
  note sections = checksummed_sections[OF header_middle] and unm = assms(2)
  have 1: "read_back cd (RunCommandFlags cd cmd flags) later = (Inr (d, flags), -1, ChecksumNone, later)"
    using size by (simp add: read_back_def sent(1) read_frame[OF message_frame] after_body_def
        plain_sections[OF plain] unm count_reply_def add_traffic_def)
  have 2: "read_back cd (RunCompressedCommand cd cmd k) later
      = (Inr (d, 0), uint k, ChecksumNone, later)"
    using p(3) by (simp add: read_back_def sent(2)[OF p(1)] read_frame[OF compressed_frame]
        compressed_body[OF p(2)] plain_sections unm count_reply_def add_traffic_def)
  have 3: "read_back cd (RunChecksummedCommand cd cmd q (-1)) later
      = (Inr (d, checksumPresent), -1, (if q = ChecksumCorrupt then ChecksumIsInvalid else ChecksumIsValid), later)"
    using size by (simp add: read_back_def sent(3) read_frame[OF frame] after_body_def
        sections unm count_reply_def add_traffic_def agrees
        split del: if_split)
  have 4: "read_back cd (RunChecksummedCommand cd cmd q (uint k)) later
      = (Inr (d, checksumPresent), uint k, (if q = ChecksumCorrupt then ChecksumIsInvalid else ChecksumIsValid), later)"
    using z(3) by (simp add: read_back_def sent(4)[OF z1] read_frame[OF compressed_frame]
        compressed_body[OF z(2)] sections unm count_reply_def add_traffic_def agrees
        split del: if_split)
  from 1 2 3 4 show ?thesis by blast
qed

definition plain_codec :: "(byte list, byte list) codec" where
  "plain_codec = \<lparr>cd_Marshal = Inr, cd_Unmarshal = Inr, cd_snappyEncode = id, cd_snappyDecode = Inr,
     cd_zlibEncode = Inr, cd_zlibDecode = Inr\<rparr>"

theorem sent_commands_read_back_witness:
  "read_back plain_codec (RunChecksummedCommand plain_codec [5, 0, 0, 0, 0] ChecksumCorrupt 0) [7]
     = (Inr ([5, 0, 0, 0, 0], checksumPresent), 0, ChecksumIsInvalid, [7])"
proof -
  have "codec_ok plain_codec CompressorNoop (9 + length [5, 0, 0, 0, 0 :: byte])"
    by (simp add: codec_ok_def plain_codec_def compress_def decompress_def)
  then show ?thesis
    using sent_commands_read_back[of plain_codec "[5, 0, 0, 0, 0]" "[5, 0, 0, 0, 0]" "[5, 0, 0, 0, 0]"
        CompressorNoop 0 ChecksumCorrupt "[7]"]
    by (simp add: plain_codec_def CompressorNoop_def)
qed

section \<open>Traffic\<close>

text \<open>The calls a test makes on one connection.\<close>

inductive conn_step :: "('c, 'd) codec \<Rightarrow> Conn \<Rightarrow> Conn \<Rightarrow> bool" for cd where
  command: "conn_step cd c (snd (RunCommandFlags cd cmd flags c))"
| compressed: "conn_step cd c (snd (RunCompressedCommand cd cmd k c))"
| checksummed: "conn_step cd c (snd (RunChecksummedCommand cd cmd q j c))"
| raw: "conn_step cd c (snd (RunRawOpMsg cd payload c))"
| reply: "conn_step cd c (snd (readCommandReply cd c))"

inductive_cases conn_stepE [elim]: "conn_step cd c c'"

definition traffic_ok :: "nat \<Rightarrow> Conn \<Rightarrow> bool" where
  "traffic_ok available c \<longleftrightarrow>
     (let t = cn_traffic c in
      tr_RequestWireBytes t = int (length (cn_out c)) \<and>
      0 \<le> tr_RequestPayloadBytes t \<and> tr_RequestPayloadBytes t \<le> tr_RequestWireBytes t \<and>
      tr_ReplyWireBytes t + int (length (cn_in c)) \<le> int available \<and>
      0 \<le> tr_ReplyPayloadBytes t \<and> tr_ReplyPayloadBytes t \<le> tr_ReplyWireBytes t)"

lemma traffic_ok_dialed: "traffic_ok (length input) (dialed input e w)"
  by (simp add: traffic_ok_def no_traffic_def Let_def)

lemma traffic_ok_fewer:
  "traffic_ok n c \<Longrightarrow> length input \<le> length (cn_in c) \<Longrightarrow> traffic_ok n (c\<lparr>cn_in := input\<rparr>)"
  by (simp add: traffic_ok_def Let_def)

lemma traffic_ok_request: "traffic_ok n (next_request c) = traffic_ok n c"
  by (simp add: next_request_def traffic_ok_def)

lemma traffic_ok_after_body:
  assumes "traffic_ok n c" and "int (length rest) \<le> tr_ReplyWireBytes (cn_traffic c) - tr_ReplyPayloadBytes (cn_traffic c)"
  shows "traffic_ok n (snd (after_body op cd hdr rest c))"
  using assms
  by (auto simp: after_body_def traffic_ok_def Let_def add_traffic_def count_reply_def split: sum.split)

lemma traffic_ok_read:
  assumes "traffic_ok n c" shows "traffic_ok n (snd (readCommandReply cd c))"
proof (cases "length (cn_in c) < 16")
  case True
  then show ?thesis using traffic_ok_fewer[OF assms, of "[]"]
    by (simp add: readCommandReply_def readFull_def)
next
  case False
  define hdr where "hdr = take 16 (cn_in c)"
  define c1 where "c1 = c\<lparr>cn_in := drop 16 (cn_in c)\<rparr>"
  define len where "len = sint (get32 hdr 0)"
  have h: "readFull 16 c = (Inr hdr, c1)" using False by (simp add: readFull_def hdr_def c1_def)
  have ok1: "traffic_ok n c1" and in1: "length (cn_in c1) + 16 = length (cn_in c)"
    using traffic_ok_fewer[OF assms] False by (simp_all add: c1_def)
  show ?thesis
  proof (cases "21 \<le> len \<and> nat (len - 16) \<le> length (cn_in c1)")
    case True
    let ?rest = "take (nat (len - 16)) (cn_in c1)"
    let ?c2 = "add_traffic (\<lambda>t. t\<lparr>tr_ReplyWireBytes := tr_ReplyWireBytes t + len\<rparr>)
      (c1\<lparr>cn_in := drop (nat (len - 16)) (cn_in c1), cn_lastReplyCompressor := -1\<rparr>)"
    have "traffic_ok n ?c2" and
      "int (length ?rest) \<le> tr_ReplyWireBytes (cn_traffic ?c2) - tr_ReplyPayloadBytes (cn_traffic ?c2)"
      using assms True in1 by (auto simp: traffic_ok_def add_traffic_def Let_def c1_def)
    from traffic_ok_after_body[OF this, where cd = cd and hdr = hdr] show ?thesis
      unfolding readCommandReply_def h prod.case sum.case Let_def len_def[symmetric]
      using True ok1 by (simp add: readFull_def)
  next
    case False
    then show ?thesis
      unfolding readCommandReply_def h prod.case sum.case Let_def len_def[symmetric]
      using ok1 traffic_ok_fewer[OF ok1, of "[]"] by (auto simp: readFull_def)
  qed
qed

lemma traffic_ok_exchange:
  assumes "traffic_ok n c" "payload \<le> length out" and wired: "wired = length out"
  shows "traffic_ok n (snd (exchange cd what out (count_request logical wired payload body) c))"
proof (cases "cn_writeErr c")
  case None
  have "traffic_ok n (add_traffic (count_request logical wired payload body)
      (c\<lparr>cn_out := cn_out c @ out\<rparr>))"
    using assms(1,2) by (simp add: wired traffic_ok_def add_traffic_def count_request_def Let_def)
  then show ?thesis by (simp add: exchange_def write_all_def None traffic_ok_read)
qed (simp add: exchange_def write_all_def assms(1))

lemma traffic_ok_step: "conn_step cd c c' \<Longrightarrow> traffic_ok n c \<Longrightarrow> traffic_ok n c'"
proof (induction rule: conn_step.induct)
  case (checksummed c cmd q j)
  then show ?case
    by (auto simp: RunChecksummedCommand_def Let_def traffic_ok_request
        intro!: traffic_ok_exchange split: sum.split)
qed (auto simp: RunCommandFlags_def RunCompressedCommand_def RunRawOpMsg_def Let_def
      traffic_ok_request traffic_ok_read length_compressed_message
      intro!: traffic_ok_exchange split: sum.split)

lemma traffic_ok_steps: "(conn_step cd)\<^sup>*\<^sup>* c c' \<Longrightarrow> traffic_ok n c \<Longrightarrow> traffic_ok n c'"
  by (induction rule: rtranclp_induct) (auto intro: traffic_ok_step)



end
