(* ===== verification/Float64.thy ===== *)
theory Float64
  imports Complex_Main Prelude
begin

text \<open>
  IEEE 754 binary64 values as Go's float64 shows them to the program: not-a-number, the two
  infinities, the two zeros, and the finite nonzero values as rationals. \<open>round64\<close> is rounding
  to nearest, ties to even, with gradual underflow, which is how Go converts an integer and
  adds two finite values. Everything is executable.
\<close>

datatype float64 =
    FNaN
  | FInf bool   \<comment> \<open>negative?\<close>
  | FZero bool  \<comment> \<open>negative?\<close>
  | FFin rat    \<comment> \<open>finite and nonzero\<close>

definition round_half_even :: "rat \<Rightarrow> int" where
  "round_half_even x =
     (let f = \<lfloor>x\<rfloor>; d = x - of_int f in
      if d < 1 / 2 then f else if d > 1 / 2 then f + 1 else if even f then f else f + 1)"

fun bit_length :: "nat \<Rightarrow> nat" where
  "bit_length n = (if n = 0 then 0 else Suc (bit_length (n div 2)))"

declare bit_length.simps [simp del]

definition exponent_of :: "rat \<Rightarrow> int" where
  "exponent_of a =
     (let (p, q) = quotient_of a; e = int (bit_length (nat p)) - int (bit_length (nat q))
      in if a < 2 powi e then e - 1 else e)"

definition round64 :: "rat \<Rightarrow> float64" where
  "round64 r =
     (if r = 0 then FZero False
      else let a = \<bar>r\<bar>; u = max (exponent_of a - 52) (- 1074);
               m = round_half_even (a / 2 powi u); v = of_int m * 2 powi u
           in if m = 0 then FZero (r < 0)
              else if v \<ge> 2 ^ 1024 then FInf (r < 0)
              else FFin (sgn r * v))"

definition float_of_int :: "int \<Rightarrow> float64" where
  "float_of_int i = round64 (of_int i)"

fun float_add :: "float64 \<Rightarrow> float64 \<Rightarrow> float64" where
  "float_add FNaN y = FNaN"
| "float_add x FNaN = FNaN"
| "float_add (FInf a) (FInf b) = (if a = b then FInf a else FNaN)"
| "float_add (FInf a) y = FInf a"
| "float_add x (FInf b) = FInf b"
| "float_add (FZero a) (FZero b) = FZero (a \<and> b)"
| "float_add (FZero a) y = y"
| "float_add x (FZero b) = x"
| "float_add (FFin a) (FFin b) = round64 (a + b)"

fun float_le :: "float64 \<Rightarrow> float64 \<Rightarrow> bool" where
  "float_le FNaN y = False"
| "float_le x FNaN = False"
| "float_le (FInf a) (FInf b) = (a \<or> \<not> b)"
| "float_le (FInf a) y = a"
| "float_le x (FInf b) = (\<not> b)"
| "float_le (FZero a) (FZero b) = True"
| "float_le (FZero a) (FFin y) = (0 \<le> y)"
| "float_le (FFin x) (FZero b) = (x \<le> 0)"
| "float_le (FFin x) (FFin y) = (x \<le> y)"

text \<open>Go's \<open>==\<close>: not-a-number is unequal to itself, the two zeros are equal.\<close>

fun float_eq :: "float64 \<Rightarrow> float64 \<Rightarrow> bool" where
  "float_eq FNaN y = False"
| "float_eq (FZero a) (FZero b) = True"
| "float_eq x y = (x = y)"

fun float_neg :: "float64 \<Rightarrow> float64" where
  "float_neg FNaN = FNaN"
| "float_neg (FInf s) = FInf (\<not> s)"
| "float_neg (FZero s) = FZero (\<not> s)"
| "float_neg (FFin x) = FFin (- x)"

definition float_sub :: "float64 \<Rightarrow> float64 \<Rightarrow> float64" where
  "float_sub x y = float_add x (float_neg y)"

fun float_sign :: "float64 \<Rightarrow> bool" where
  "float_sign FNaN = False"
| "float_sign (FInf s) = s"
| "float_sign (FZero s) = s"
| "float_sign (FFin x) = (x < 0)"

fun float_div :: "float64 \<Rightarrow> float64 \<Rightarrow> float64" where
  "float_div FNaN y = FNaN"
| "float_div x FNaN = FNaN"
| "float_div (FInf a) (FInf b) = FNaN"
| "float_div (FInf a) y = FInf (a \<noteq> float_sign y)"
| "float_div x (FInf b) = FZero (float_sign x \<noteq> b)"
| "float_div (FZero a) (FZero b) = FNaN"
| "float_div (FZero a) y = FZero (a \<noteq> float_sign y)"
| "float_div x (FZero b) = FInf (float_sign x \<noteq> b)"
| "float_div (FFin a) (FFin b) = round64 (a / b)"

fun float_mul :: "float64 \<Rightarrow> float64 \<Rightarrow> float64" where
  "float_mul (FFin a) (FFin b) = round64 (a * b)"
| "float_mul FNaN y = FNaN"
| "float_mul x FNaN = FNaN"
| "float_mul (FInf a) (FZero b) = FNaN"
| "float_mul (FZero a) (FInf b) = FNaN"
| "float_mul (FInf a) y = FInf (a \<noteq> float_sign y)"
| "float_mul x (FInf b) = FInf (float_sign x \<noteq> b)"
| "float_mul x y = FZero (float_sign x \<noteq> float_sign y)"

definition float_less :: "float64 \<Rightarrow> float64 \<Rightarrow> bool" where
  "float_less x y \<longleftrightarrow> float_le x y \<and> \<not> float_le y x"

text \<open>Go leaves the conversion of a double outside the 64-bit range to the implementation, here
  \<open>wild\<close>.\<close>

fun float_to_int64 :: "(float64 \<Rightarrow> int) \<Rightarrow> float64 \<Rightarrow> int" where
  "float_to_int64 wild (FFin r) =
     (let n = (if 0 \<le> r then \<lfloor>r\<rfloor> else \<lceil>r\<rceil>) in if - (2 ^ 63) \<le> n \<and> n < 2 ^ 63 then n else wild (FFin r))"
| "float_to_int64 wild (FZero neg) = 0"
| "float_to_int64 wild f = wild f"

section \<open>Small integers are exact\<close>

lemma round_half_even_of_int [simp]: "round_half_even (of_int n) = n"
  by (simp add: round_half_even_def)

lemma bit_length_le: "n < 2 ^ k \<Longrightarrow> bit_length n \<le> k"
proof (induction n arbitrary: k rule: bit_length.induct)
  case (1 n)
  show ?case
  proof (cases "n = 0")
    case True
    then show ?thesis by (simp add: bit_length.simps)
  next
    case False
    with "1.prems" obtain k' where k: "k = Suc k'" by (cases k) auto
    with "1.prems" have "n div 2 < 2 ^ k'" by auto
    with False "1.IH" k show ?thesis by (subst bit_length.simps) simp
  qed
qed

lemma round64_of_int:
  assumes "n \<noteq> 0" "\<bar>n\<bar> < 2 ^ 53"
  shows "round64 (of_int n) = FFin (of_int n)"
proof -
  define a :: int where "a = \<bar>n\<bar>"
  have a: "0 < a" "a < 2 ^ 53" using assms by (simp_all add: a_def)
  have abs_n: "\<bar>of_int n :: rat\<bar> = of_int a" by (simp add: a_def)
  have "nat a < 2 ^ 53" using a(2) by (simp add: nat_less_iff)
  then have "bit_length (nat a) \<le> 53" by (rule bit_length_le)
  moreover have "bit_length (nat 1) = 1" by (simp add: bit_length.simps)
  moreover have "quotient_of (of_int a) = (a, 1)" by (simp add: quotient_of_int)
  ultimately have "exponent_of (of_int a) \<le> 52"
    by (auto simp: exponent_of_def Let_def)
  then have "max (exponent_of (of_int a) - 52) (- 1074) \<le> 0" by simp
  then obtain k where k: "max (exponent_of (of_int a) - 52) (- 1074) = - int k"
    using nonpos_int_cases by metis
  have scale: "(of_int a :: rat) / 2 powi (- int k) = of_int (a * 2 ^ k)"
    by (simp add: power_int_minus field_simps)
  have unscale: "(of_int (a * 2 ^ k) :: rat) * 2 powi (- int k) = of_int a"
    by (simp add: power_int_minus field_simps)
  have small: "(of_int a :: rat) < 2 ^ 1024"
  proof -
    have "(of_int a :: rat) < of_int (2 ^ 53)" using a(2) by (simp only: of_int_less_iff)
    also have "\<dots> \<le> 2 ^ 1024" by simp
    finally show ?thesis .
  qed
  have "round64 (of_int n) = FFin (sgn (of_int n) * of_int a)"
    using assms(1) a small
    unfolding round64_def abs_n Let_def k scale round_half_even_of_int unscale by simp
  also have "sgn (of_int n) * of_int a = (of_int n :: rat)"
    by (cases "0 \<le> n") (simp_all add: a_def sgn_if)
  finally show ?thesis .
qed

definition float_of_small :: "int \<Rightarrow> float64" where
  "float_of_small n = (if n = 0 then FZero False else FFin (of_int n))"

lemma float_of_int_small: "\<bar>n\<bar> < 2 ^ 53 \<Longrightarrow> float_of_int n = float_of_small n"
  by (auto simp: float_of_int_def float_of_small_def round64_of_int round64_def[of 0])

lemma float_add_small:
  assumes "\<bar>a\<bar> < 2 ^ 52" "\<bar>b\<bar> < 2 ^ 52"
  shows "float_add (float_of_small a) (float_of_small b) = float_of_small (a + b)"
proof -
  have "\<bar>a + b\<bar> < 2 ^ 53" using assms by simp
  then have "a + b \<noteq> 0 \<Longrightarrow> round64 (of_int a + of_int b) = FFin (of_int a + of_int b)"
    using round64_of_int[of "a + b"] by simp
  moreover have "a + b = 0 \<Longrightarrow> round64 (of_int a + of_int b) = FZero False"
    by (simp add: round64_def flip: of_int_add)
  ultimately show ?thesis by (auto simp: float_of_small_def)
qed

lemma float_le_small [simp]: "float_le (float_of_small a) (float_of_small b) \<longleftrightarrow> a \<le> b"
  by (auto simp: float_of_small_def)

end
