(* ===== verification/Compare.thy ===== *)
theory Compare
  imports GoErrors Float64 "HOL-Library.AList"
begin

text \<open>
  Comparing the responses of the two servers (src/harness/compare.go). \<open>goval\<close> is what a case
  returns: the dynamic types \<open>normalize\<close> switches on, with every other type as its \<open>%v\<close> text and,
  if it marshals, its BSON document. \<open>nval\<close> is the normalised value: a Go map is an association
  list with distinct keys, and \<open>nequal\<close> is \<open>reflect.DeepEqual\<close> on it. Printing of doubles, dates,
  binaries and quoted strings is Go's library's and comes in as a record of functions.
\<close>

section \<open>Values\<close>

datatype goval =
    VNil
  | VPtr "goval option"
  | VDoc "(string \<times> goval) list"
  | VMap "(string \<times> goval) list"
  | VArr "goval list"
  | VObjectID "byte list"
  | VBinary nat "byte list"
  | VDateTime int
  | VTimestamp int int
  | VInt32 int
  | VInt64 int
  | VFloat32 float64
  | VFloat64 float64
  | VBool bool
  | VString string
  | VOther string "((string \<times> goval) list) option"

datatype nval =
    NNil
  | NMap "(string \<times> nval) list"
  | NArr "nval list"
  | NString string
  | NBinary nat "byte list"
  | NDateTime int
  | NInt32 int
  | NInt64 int
  | NDouble float64
  | NNegativeZero
  | NBool bool

definition defaultIgnoredFields :: "string list" where
  "defaultIgnoredFields = [''operationTime'', ''$clusterTime'', ''insertedId'', ''insertedIds'',
     ''sizeOnDisk'', ''sizeondisk'', ''totalSize'', ''totalsize'']"

definition ignoredField :: "string \<Rightarrow> bool" where
  "ignoredField k \<longleftrightarrow> k \<in> set defaultIgnoredFields"

definition ignoredValueSentinel :: nval where
  "ignoredValueSentinel = NString ''<ignored>''"

definition hex_digit :: "nat \<Rightarrow> char" where
  "hex_digit n = (if n < 10 then char_of (48 + n) else char_of (87 + n))"

definition hex_bytes :: "byte list \<Rightarrow> string" where
  "hex_bytes bs = concat (map (\<lambda>b. [hex_digit (unat b div 16), hex_digit (unat b mod 16)]) bs)"

section \<open>normalize\<close>

text \<open>Filling a Go map from fields in order: a later field of a name replaces an earlier one.\<close>

definition make_map :: "(string \<times> nval) list \<Rightarrow> nval" where
  "make_map fs = NMap (fold (\<lambda>(k, x) m.
     AList.update k (if ignoredField k then ignoredValueSentinel else x) m) fs [])"

definition normalize_float64 :: "float64 \<Rightarrow> nval" where
  "normalize_float64 f =
     (case f of FNaN \<Rightarrow> NString ''<NaN>'' | FZero True \<Rightarrow> NNegativeZero | _ \<Rightarrow> NDouble f)"

primrec normalize :: "goval \<Rightarrow> nval" where
  "normalize VNil = NNil"
| "normalize (VPtr p) = (case map_option normalize p of None \<Rightarrow> NNil | Some x \<Rightarrow> x)"
| "normalize (VDoc d) = make_map (map (map_prod id normalize) d)"
| "normalize (VMap d) = make_map (map (map_prod id normalize) d)"
| "normalize (VArr xs) = NArr (map normalize xs)"
| "normalize (VObjectID b) = NString (hex_bytes b)"
| "normalize (VBinary t b) = (if t = 3 \<or> t = 4 then NString ''<UUID>'' else NBinary t b)"
| "normalize (VDateTime t) = NDateTime t"
| "normalize (VTimestamp t i) = NString ''<Timestamp>''"
| "normalize (VInt32 n) = NInt32 n"
| "normalize (VInt64 n) = NInt64 n"
| "normalize (VFloat32 f) = (if f = FNaN then NString ''<NaN>'' else NDouble f)"
| "normalize (VFloat64 f) = normalize_float64 f"
| "normalize (VBool b) = NBool b"
| "normalize (VString s) = NString s"
| "normalize (VOther text d) =
     (case map_option (map (map_prod id normalize)) d of
        None \<Rightarrow> NString text | Some fs \<Rightarrow> make_map fs)"

section \<open>reflect.DeepEqual and harmonizeMillis\<close>

primrec nequal :: "nval \<Rightarrow> nval \<Rightarrow> bool" where
  "nequal NNil y = (y = NNil)"
| "nequal (NMap a) y = (case y of
     NMap b \<Rightarrow> length a = length b \<and>
       list_all (\<lambda>(k, eq). case map_of b k of None \<Rightarrow> False | Some w \<Rightarrow> eq w)
         (map (map_prod id nequal) a)
   | _ \<Rightarrow> False)"
| "nequal (NArr xs) y = (case y of
     NArr ys \<Rightarrow> length xs = length ys \<and>
       list_all (\<lambda>(eq, w). eq w) (zip (map nequal xs) ys)
   | _ \<Rightarrow> False)"
| "nequal (NString s) y = (y = NString s)"
| "nequal (NBinary t b) y = (y = NBinary t b)"
| "nequal (NDateTime t) y = (y = NDateTime t)"
| "nequal (NInt32 n) y = (y = NInt32 n)"
| "nequal (NInt64 n) y = (y = NInt64 n)"
| "nequal (NDouble f) y = (case y of NDouble g \<Rightarrow> float_eq f g | _ \<Rightarrow> False)"
| "nequal NNegativeZero y = (y = NNegativeZero)"
| "nequal (NBool b) y = (y = NBool b)"

definition millisToleranceMS :: int where
  "millisToleranceMS = 5"

fun toFloat64 :: "nval \<Rightarrow> float64 option" where
  "toFloat64 (NDouble f) = Some f"
| "toFloat64 (NInt32 n) = Some (float_of_int n)"
| "toFloat64 (NInt64 n) = Some (float_of_int n)"
| "toFloat64 v = None"

text \<open>The entry \<open>millis\<close> of one pair of maps.\<close>

definition harmonize_entry :: "(string \<times> nval) list \<Rightarrow> (string \<times> nval) list \<Rightarrow>
    (string \<times> nval) list" where
  "harmonize_entry ma da =
     (case map_of ma ''millis'' of None \<Rightarrow> da
      | Some mv \<Rightarrow>
     (case map_of da ''millis'' of None \<Rightarrow> da
      | Some dv \<Rightarrow>
     (case (toFloat64 mv, toFloat64 dv) of
        (Some mf, Some df) \<Rightarrow>
          (if float_le df (float_add mf (float_of_int millisToleranceMS))
           then AList.update ''millis'' mv da else da)
      | _ \<Rightarrow> da)))"

primrec harmonizeMillis :: "nval \<Rightarrow> nval \<Rightarrow> nval" where
  "harmonizeMillis (NMap ma) d = (case d of
     NMap da \<Rightarrow>
       (let walks = map (map_prod id harmonizeMillis) ma in
        NMap (map (\<lambda>(k, w). (k, case map_of walks k of None \<Rightarrow> w | Some walk \<Rightarrow> walk w))
                (harmonize_entry ma da)))
   | _ \<Rightarrow> d)"
| "harmonizeMillis (NArr xs) d = (case d of
     NArr ys \<Rightarrow> (if length ys \<noteq> length xs then d
                 else NArr (map (\<lambda>(walk, w). walk w) (zip (map harmonizeMillis xs) ys)))
   | _ \<Rightarrow> d)"
| "harmonizeMillis NNil d = d"
| "harmonizeMillis (NString s) d = d"
| "harmonizeMillis (NBinary t b) d = d"
| "harmonizeMillis (NDateTime t) d = d"
| "harmonizeMillis (NInt32 n) d = d"
| "harmonizeMillis (NInt64 n) d = d"
| "harmonizeMillis (NDouble f) d = d"
| "harmonizeMillis NNegativeZero d = d"
| "harmonizeMillis (NBool b) d = d"

section \<open>Printing differences\<close>

record printers =
  pr_double :: "float64 \<Rightarrow> string"
  pr_date :: "int \<Rightarrow> string"
  pr_quote :: "string \<Rightarrow> string"
  pr_binary :: "nat \<Rightarrow> byte list \<Rightarrow> string"

definition plain_printers :: printers where
  "plain_printers = \<lparr>pr_double = (\<lambda>f. ''double''), pr_date = itoa, pr_quote = (\<lambda>s. [CHR 0x22] @ s @ [CHR 0x22]),
     pr_binary = (\<lambda>t b. ntoa t @ '':'' @ hex_bytes b)\<rparr>"

primrec formatValue :: "printers \<Rightarrow> nval \<Rightarrow> string" where
  "formatValue pr (NMap m) =
     (let texts = map (map_prod id (formatValue pr)) m in
      ''{'' @ join '', '' (map (\<lambda>k. pr_quote pr k @ '': '' @ the (map_of texts k))
                          (sort (map fst m))) @ ''}'')"
| "formatValue pr (NArr xs) = ''['' @ join '', '' (map (formatValue pr) xs) @ '']''"
| "formatValue pr (NString s) = pr_quote pr s"
| "formatValue pr (NInt32 n) = ''NumberInt('' @ itoa n @ '')''"
| "formatValue pr (NInt64 n) = ''NumberLong('' @ itoa n @ '')''"
| "formatValue pr (NDouble f) = ''double('' @ pr_double pr f @ '')''"
| "formatValue pr (NDateTime t) = ''ISODate('' @ pr_date pr t @ '')''"
| "formatValue pr NNil = ''null''"
| "formatValue pr (NBinary t b) = pr_binary pr t b"
| "formatValue pr NNegativeZero = ''-0.0''"
| "formatValue pr (NBool b) = btoa b"

fun go_type :: "nval \<Rightarrow> string" where
  "go_type NNil = ''<nil>''"
| "go_type (NMap m) = ''map[string]interface {}''"
| "go_type (NArr xs) = ''[]interface {}''"
| "go_type (NString s) = ''string''"
| "go_type (NBinary t b) = ''primitive.Binary''"
| "go_type (NDateTime t) = ''primitive.DateTime''"
| "go_type (NInt32 n) = ''int32''"
| "go_type (NInt64 n) = ''int64''"
| "go_type (NDouble f) = ''float64''"
| "go_type NNegativeZero = ''harness.negativeZero''"
| "go_type (NBool b) = ''bool''"

definition formatDiff :: "printers \<Rightarrow> nval \<Rightarrow> nval \<Rightarrow> string" where
  "formatDiff pr a b =
     (let aStr = formatValue pr a; bStr = formatValue pr b in
      if aStr = bStr
      then ''values differ in type: mongo='' @ go_type a @ '' dumbodb='' @ go_type b
      else ''mongo:  '' @ aStr @ [CHR 0x0A] @ ''dumbodb:  '' @ bStr)"

section \<open>Comparing errors\<close>

datatype CompareResult = Match | Diverge | CompareError

record Comparison =
  cmp_Result :: CompareResult
  cmp_Diff :: string

definition matched :: Comparison where
  "matched = \<lparr>cmp_Result = Match, cmp_Diff = []\<rparr>"

definition diverge :: "string \<Rightarrow> Comparison" where
  "diverge d = \<lparr>cmp_Result = Diverge, cmp_Diff = d\<rparr>"

definition to_int32 :: "int \<Rightarrow> int" where
  "to_int32 n = sint (of_int n :: 32 word)"

definition errorCode :: "goerror \<Rightarrow> int" where
  "errorCode err =
     (case as_CommandError err of Some c \<Rightarrow> to_int32 (ce_Code c)
      | None \<Rightarrow>
     (case as_WriteException err of
        Some x \<Rightarrow>
          (case wx_WriteErrors x of w # ws \<Rightarrow> to_int32 (we_Code w)
           | [] \<Rightarrow>
          (case wx_WriteConcernError x of Some w \<Rightarrow> to_int32 (we_Code w)
           | None \<Rightarrow>
          (case as_BulkWriteException err of
             Some y \<Rightarrow> (case wx_WriteErrors y of w # ws \<Rightarrow> to_int32 (we_Code w)
                        | [] \<Rightarrow> (case wx_WriteConcernError y of
                                  Some w \<Rightarrow> to_int32 (we_Code w) | None \<Rightarrow> 0))
           | None \<Rightarrow> 0)))
      | None \<Rightarrow>
     (case as_BulkWriteException err of
        Some y \<Rightarrow> (case wx_WriteErrors y of w # ws \<Rightarrow> to_int32 (we_Code w)
                   | [] \<Rightarrow> (case wx_WriteConcernError y of
                             Some w \<Rightarrow> to_int32 (we_Code w) | None \<Rightarrow> 0))
      | None \<Rightarrow> 0)))"

definition concern_name :: "write_exception option \<Rightarrow> string option" where
  "concern_name x =
     (case x of None \<Rightarrow> None | Some e \<Rightarrow> map_option we_Name (wx_WriteConcernError e))"

definition errorName :: "goerror \<Rightarrow> string" where
  "errorName err =
     (case as_CommandError err of Some c \<Rightarrow> ce_Name c
      | None \<Rightarrow>
     (case concern_name (as_WriteException err) of Some n \<Rightarrow> n
      | None \<Rightarrow>
     (case concern_name (as_BulkWriteException err) of Some n \<Rightarrow> n | None \<Rightarrow> [])))"

definition errorLabels :: "goerror \<Rightarrow> string list" where
  "errorLabels err = sort
     (case as_CommandError err of Some c \<Rightarrow> ce_Labels c
      | None \<Rightarrow>
     (case as_WriteException err of Some x \<Rightarrow> wx_Labels x
      | None \<Rightarrow>
     (case as_BulkWriteException err of Some y \<Rightarrow> wx_Labels y | None \<Rightarrow> [])))"

definition fmt_error :: "goerror option \<Rightarrow> string" where
  "fmt_error e = (case e of None \<Rightarrow> ''<nil>'' | Some err \<Rightarrow> error_text err)"

definition fmt_labels :: "string list \<Rightarrow> string" where
  "fmt_labels ls = ''['' @ join '' '' ls @ '']''"

definition compareErrors :: "printers \<Rightarrow> goerror option \<Rightarrow> goerror option \<Rightarrow> Comparison" where
  "compareErrors pr mongoErr dumboDBErr =
     (case (mongoErr, dumboDBErr) of
        (None, None) \<Rightarrow> matched
      | (Some m, Some d) \<Rightarrow>
          (let mCode = errorCode m; dCode = errorCode d; mName = errorName m; dName = errorName d;
               mLabels = errorLabels m; dLabels = errorLabels d;
               mMsg = error_text m; dMsg = error_text d in
           if mCode \<noteq> dCode
           then diverge (''error code mismatch: mongo='' @ itoa mCode @ '' dumbodb='' @ itoa dCode)
           else if mName \<noteq> dName
           then diverge (''error codeName mismatch: mongo='' @ pr_quote pr mName @ '' dumbodb='' @
                         pr_quote pr dName @ '' (code='' @ itoa mCode @ '')'')
           else if mLabels \<noteq> dLabels
           then diverge (''error labels mismatch: mongo='' @ fmt_labels mLabels @ '' dumbodb='' @
                         fmt_labels dLabels @ '' (code='' @ itoa mCode @ '')'')
           else if mMsg \<noteq> dMsg
           then (if \<not> (mCode \<noteq> 0 \<or> dCode \<noteq> 0 \<or> mName \<noteq> [] \<or> dName \<noteq> [] \<or>
                       length mLabels > 0 \<or> length dLabels > 0)
                 then diverge (''unstructured error message mismatch:'' @ [CHR 0x0A] @ ''  mongo: '' @
                               mMsg @ [CHR 0x0A] @ ''  dumbodb: '' @ dMsg)
                 else \<lparr>cmp_Result = Match,
                       cmp_Diff = ''informational error message mismatch:'' @ [CHR 0x0A] @
                         ''  mongo: '' @ mMsg @ [CHR 0x0A] @ ''  dumbodb: '' @ dMsg\<rparr>)
           else matched)
      | _ \<Rightarrow> diverge (''mongo err='' @ fmt_error mongoErr @ '', dumbodb err='' @
                      fmt_error dumboDBErr))"

section \<open>Comparing responses\<close>

definition compareValues :: "printers \<Rightarrow> nval \<Rightarrow> nval \<Rightarrow> Comparison" where
  "compareValues pr a b = (if nequal a b then matched else diverge (formatDiff pr a b))"

definition CompareResponses :: "printers \<Rightarrow> goval \<Rightarrow> goerror option \<Rightarrow> goval \<Rightarrow> goerror option \<Rightarrow>
    Comparison" where
  "CompareResponses pr mongoResult mongoErr dumboDBResult dumboDBErr =
     (if mongoErr \<noteq> None \<or> dumboDBErr \<noteq> None then compareErrors pr mongoErr dumboDBErr
      else let mongo = normalize mongoResult; dumbodb = normalize dumboDBResult
           in compareValues pr mongo (harmonizeMillis mongo dumbodb))"

end
