(* ===== verification/ParityReport.thy ===== *)
theory ParityReport
  imports Compare
begin

text \<open>
  Grading parity cases (src/harness/report.go, pair.go, auth_pair.go). A test is the state of its
  \<open>testing.T\<close>: whether it has failed and what it logged; \<open>t.Fatalf\<close> ends it without a result
  (\<open>None\<close>). What a case's Setup and Run return on each server are arguments; its expectations are
  tests of their own.
\<close>

section \<open>The test state\<close>

record tstate =
  ts_failed :: bool
  ts_log :: "string list"

type_synonym 'a tst = "tstate \<Rightarrow> 'a option \<times> tstate"

definition t_return :: "'a \<Rightarrow> 'a tst" where
  "t_return x st = (Some x, st)"

definition t_bind :: "'a tst \<Rightarrow> ('a \<Rightarrow> 'b tst) \<Rightarrow> 'b tst" where
  "t_bind m f st = (case m st of (None, st) \<Rightarrow> (None, st) | (Some x, st) \<Rightarrow> f x st)"

definition t_Logf :: "string \<Rightarrow> unit tst" where
  "t_Logf line st = (Some (), st\<lparr>ts_log := ts_log st @ [line]\<rparr>)"

definition t_Errorf :: "string \<Rightarrow> unit tst" where
  "t_Errorf line st = (Some (), st\<lparr>ts_failed := True, ts_log := ts_log st @ [line]\<rparr>)"

definition t_Fatalf :: "string \<Rightarrow> 'a tst" where
  "t_Fatalf line st = (None, st\<lparr>ts_failed := True, ts_log := ts_log st @ [line]\<rparr>)"

definition t_Failed :: "bool tst" where
  "t_Failed st = (Some (ts_failed st), st)"

definition fresh_test :: tstate where
  "fresh_test = \<lparr>ts_failed = False, ts_log = []\<rparr>"

named_theorems tst_defs
declare t_return_def [tst_defs] t_bind_def [tst_defs] t_Logf_def [tst_defs] t_Errorf_def [tst_defs]
  t_Fatalf_def [tst_defs] t_Failed_def [tst_defs]

section \<open>Statuses and the summary\<close>

datatype DumboDBSupport = DumboDBFull | DumboDBMongoOnly | DumboDBXFail | DumboDBDeviates | UnknownSupport int

datatype TestStatus = StatusPass | StatusFail | StatusSkip | StatusXFail | StatusDeviate | StatusXPass

fun TestStatus_String :: "TestStatus \<Rightarrow> string" where
  "TestStatus_String StatusPass = ''PASS''"
| "TestStatus_String StatusFail = ''FAIL''"
| "TestStatus_String StatusSkip = ''SKIP''"
| "TestStatus_String StatusXFail = ''XFAIL''"
| "TestStatus_String StatusDeviate = ''DEVIATE''"
| "TestStatus_String StatusXPass = ''XPASS''"

record TestResult =
  te_Name :: string
  te_Status :: TestStatus
  te_Diff :: string

record Summary =
  su_Matching :: int
  su_Diverging :: int
  su_MongoOnly :: int
  su_XFail :: int
  su_Deviating :: int
  su_XPass :: int

definition empty_summary :: Summary where
  "empty_summary = \<lparr>su_Matching = 0, su_Diverging = 0, su_MongoOnly = 0, su_XFail = 0,
     su_Deviating = 0, su_XPass = 0\<rparr>"

definition Summary_Add :: "TestResult \<Rightarrow> Summary \<Rightarrow> Summary" where
  "Summary_Add r s =
     (case te_Status r of
        StatusPass \<Rightarrow> s\<lparr>su_Matching := su_Matching s + 1\<rparr>
      | StatusFail \<Rightarrow> s\<lparr>su_Diverging := su_Diverging s + 1\<rparr>
      | StatusSkip \<Rightarrow> s\<lparr>su_MongoOnly := su_MongoOnly s + 1\<rparr>
      | StatusXFail \<Rightarrow> s\<lparr>su_XFail := su_XFail s + 1\<rparr>
      | StatusDeviate \<Rightarrow> s\<lparr>su_Deviating := su_Deviating s + 1\<rparr>
      | StatusXPass \<Rightarrow> s\<lparr>su_XPass := su_XPass s + 1\<rparr>)"

definition HasUnexpectedFailures :: "Summary \<Rightarrow> bool" where
  "HasUnexpectedFailures s \<longleftrightarrow> su_Diverging s > 0 \<or> su_XPass s > 0"

definition Summary_Print :: "Summary \<Rightarrow> string list" where
  "Summary_Print s =
     (let crc = su_Matching s + su_Diverging s + su_MongoOnly s + su_XFail s + su_Deviating s + su_XPass s
      in ['''', ''Parity Summary'',
          ''  Matching:   '' @ itoa (su_Matching s),
          ''  Diverging:  '' @ itoa (su_Diverging s),
          ''  Mongo-only: '' @ itoa (su_MongoOnly s),
          ''  XFail:      '' @ itoa (su_XFail s),
          ''  Deviating:  '' @ itoa (su_Deviating s),
          ''  XPass:      '' @ itoa (su_XPass s),
          ''  Total:      '' @ itoa crc])"

section \<open>One case against the two servers\<close>

type_synonym outcome = "goval \<times> goerror option"

text \<open>Setup by server, if the case has one; what Run returns on each; the expectations.\<close>

record TestCase =
  tc_Name :: string
  tc_Support :: DumboDBSupport
  tc_Setup :: "(goerror option \<times> goerror option) option"
  tc_RunMongo :: outcome
  tc_RunDumbo :: outcome
  tc_MongoExpect :: "(outcome \<Rightarrow> unit tst) option"
  tc_DumboExpect :: "(outcome \<Rightarrow> unit tst) option"

definition test_result :: "TestCase \<Rightarrow> TestStatus \<Rightarrow> string \<Rightarrow> TestResult" where
  "test_result tc status diff = \<lparr>te_Name = tc_Name tc, te_Status = status, te_Diff = diff\<rparr>"

definition setup_case :: "TestCase \<Rightarrow> bool tst" where
  "setup_case tc =
     (case tc_Setup tc of
        None \<Rightarrow> t_return True
      | Some (Some err, d) \<Rightarrow>
          t_bind (t_Errorf (tc_Name tc @ '': mongo setup failed: '' @ error_text err)) (\<lambda>u. t_return False)
      | Some (None, Some err) \<Rightarrow>
          t_bind (t_Errorf (tc_Name tc @ '': dumbodb setup failed: '' @ error_text err)) (\<lambda>u. t_return False)
      | Some (None, None) \<Rightarrow> t_return True)"

definition runMongoOnly :: "TestCase \<Rightarrow> TestResult tst" where
  "runMongoOnly tc =
     (case (case tc_Setup tc of None \<Rightarrow> None | Some (m, d) \<Rightarrow> m) of
        Some err \<Rightarrow>
          t_bind (t_Errorf (''MONGO_ONLY '' @ tc_Name tc @ '': mongo setup failed: '' @ error_text err))
            (\<lambda>u. t_return (test_result tc StatusFail (''mongo setup: '' @ error_text err)))
      | None \<Rightarrow>
          (case snd (tc_RunMongo tc) of
             Some err \<Rightarrow>
               t_bind (t_Logf (''MONGO_ONLY '' @ tc_Name tc @ '': mongo error: '' @ error_text err))
                 (\<lambda>u. t_return (test_result tc StatusFail (''mongo: '' @ error_text err)))
           | None \<Rightarrow>
               t_bind (t_Logf (''MONGO_ONLY '' @ tc_Name tc @ '': OK (DumboDB skipped)''))
                 (\<lambda>u. t_return (test_result tc StatusSkip []))))"

definition compare_case :: "printers \<Rightarrow> TestCase \<Rightarrow> Comparison" where
  "compare_case pr tc = CompareResponses pr (fst (tc_RunMongo tc)) (snd (tc_RunMongo tc))
     (fst (tc_RunDumbo tc)) (snd (tc_RunDumbo tc))"

definition grade_full :: "TestCase \<Rightarrow> Comparison \<Rightarrow> TestResult tst" where
  "grade_full tc c =
     (if cmp_Result c = Match
      then t_bind (t_Logf (''FULL '' @ tc_Name tc @ '': PASS''))
             (\<lambda>u. t_return (test_result tc StatusPass []))
      else t_bind (t_Errorf (''FULL '' @ tc_Name tc @ '': DIVERGE'' @ [CHR 0x0A] @ cmp_Diff c))
             (\<lambda>u. t_return (test_result tc StatusFail (cmp_Diff c))))"

definition grade_xfail :: "TestCase \<Rightarrow> Comparison \<Rightarrow> TestResult tst" where
  "grade_xfail tc c =
     (if cmp_Result c = Match
      then t_bind (t_Errorf (''XPASS '' @ tc_Name tc @ '': DumboDB now matches MongoDB -- promote to DumboDBFull''))
             (\<lambda>u. t_return (test_result tc StatusXPass []))
      else t_bind (t_Logf (''XFAIL '' @ tc_Name tc @ '': diverged as expected'' @ [CHR 0x0A] @ cmp_Diff c))
             (\<lambda>u. t_return (test_result tc StatusXFail (cmp_Diff c))))"

definition runFull :: "printers \<Rightarrow> TestCase \<Rightarrow> TestResult tst" where
  "runFull pr tc = t_bind (setup_case tc) (\<lambda>ok.
     if \<not> ok then t_return (test_result tc StatusFail ''setup failed'')
     else grade_full tc (compare_case pr tc))"

definition runXFail :: "printers \<Rightarrow> TestCase \<Rightarrow> TestResult tst" where
  "runXFail pr tc = t_bind (setup_case tc) (\<lambda>ok.
     if \<not> ok then t_return (test_result tc StatusFail ''setup failed'')
     else grade_xfail tc (compare_case pr tc))"

text \<open>Both expectations must be set; each sees its own server's outcome.\<close>

definition grade_deviates :: "TestCase \<Rightarrow> bool tst \<Rightarrow> TestResult tst" where
  "grade_deviates tc prepare =
     (case (tc_MongoExpect tc, tc_DumboExpect tc) of
        (Some mongoExpect, Some dumboExpect) \<Rightarrow>
          t_bind prepare (\<lambda>ok.
            if \<not> ok then t_return (test_result tc StatusFail ''setup failed'')
            else t_bind (mongoExpect (tc_RunMongo tc)) (\<lambda>u.
                 t_bind (dumboExpect (tc_RunDumbo tc)) (\<lambda>u.
                 t_bind t_Failed (\<lambda>failed.
                   if failed then t_return (test_result tc StatusFail [])
                   else t_bind (t_Logf (''DEVIATE '' @ tc_Name tc @
                                        '': MongoDB and DumboDB behave as intended''))
                          (\<lambda>u. t_return (test_result tc StatusDeviate []))))))
      | _ \<Rightarrow> t_Fatalf (''DEVIATE '' @ tc_Name tc @
               '': a deviating case must set both MongoExpect and DumboExpect, else it asserts nothing''))"

definition runDeviates :: "TestCase \<Rightarrow> TestResult tst" where
  "runDeviates tc = grade_deviates tc (setup_case tc)"

text \<open>PairTest, after the clients and the collections were obtained.\<close>

definition PairTest :: "printers \<Rightarrow> TestCase \<Rightarrow> TestResult tst" where
  "PairTest pr tc =
     (case tc_Support tc of
        DumboDBMongoOnly \<Rightarrow> runMongoOnly tc
      | DumboDBFull \<Rightarrow> runFull pr tc
      | DumboDBXFail \<Rightarrow> runXFail pr tc
      | DumboDBDeviates \<Rightarrow> runDeviates tc
      | UnknownSupport n \<Rightarrow>
          t_Fatalf (''PairTest '' @ tc_Name tc @ '': unknown DumboDBSupport level '' @ itoa n))"

text \<open>The authentication variant: a Run may end the test itself (its setup steps are fatal), and
  there is no separate setup.\<close>

definition AuthPairTest :: "printers \<Rightarrow> TestCase \<Rightarrow> outcome tst \<Rightarrow> outcome tst \<Rightarrow> TestResult tst" where
  "AuthPairTest pr tc runMongo runDumbo =
     (let both = (\<lambda>grade. t_bind runMongo (\<lambda>m. t_bind runDumbo (\<lambda>d.
                    grade tc (CompareResponses pr (fst m) (snd m) (fst d) (snd d))))) in
      case tc_Support tc of
        DumboDBMongoOnly \<Rightarrow> t_bind runMongo (\<lambda>m.
          case snd m of
            Some err \<Rightarrow> t_bind (t_Logf (''MONGO_ONLY '' @ tc_Name tc @ '': mongo error: '' @ error_text err))
                          (\<lambda>u. t_return (test_result tc StatusFail (error_text err)))
          | None \<Rightarrow> t_bind (t_Logf (''MONGO_ONLY '' @ tc_Name tc @ '': OK (DumboDB skipped)''))
                      (\<lambda>u. t_return (test_result tc StatusSkip [])))
      | DumboDBFull \<Rightarrow> both grade_full
      | DumboDBXFail \<Rightarrow> both grade_xfail
      | DumboDBDeviates \<Rightarrow>
          (case (tc_MongoExpect tc, tc_DumboExpect tc) of
             (Some mongoExpect, Some dumboExpect) \<Rightarrow>
               t_bind runMongo (\<lambda>m. t_bind (mongoExpect m) (\<lambda>u.
               t_bind runDumbo (\<lambda>d. t_bind (dumboExpect d) (\<lambda>u.
               t_bind t_Failed (\<lambda>failed.
                 if failed then t_return (test_result tc StatusFail [])
                 else t_bind (t_Logf (''DEVIATE '' @ tc_Name tc @
                                      '': MongoDB and DumboDB behave as intended''))
                        (\<lambda>u. t_return (test_result tc StatusDeviate [])))))))
           | _ \<Rightarrow> t_Fatalf (''DEVIATE '' @ tc_Name tc @
                    '': a deviating case must set both MongoExpect and DumboExpect, else it asserts nothing''))
      | UnknownSupport n \<Rightarrow>
          t_Fatalf (''AuthPairTest '' @ tc_Name tc @ '': unknown DumboDBSupport level '' @ itoa n))"

text \<open>The namespace token of a test name; lower case of the ASCII letters, as the names are.\<close>

definition to_lower :: "char \<Rightarrow> char" where
  "to_lower c = (let n = (of_char c :: nat) in if 65 \<le> n \<and> n \<le> 90 then char_of (n + 32) else c)"

definition token_char :: "char \<Rightarrow> bool" where
  "token_char c \<longleftrightarrow> (let n = (of_char c :: nat) in 97 \<le> n \<and> n \<le> 122 \<or> 48 \<le> n \<and> n \<le> 57)"

definition authNS :: "string \<Rightarrow> string" where
  "authNS name = take 40 (map (\<lambda>c. if token_char (to_lower c) then to_lower c else CHR ''_'') name)"

section \<open>Properties\<close>

lemma summary_fold:
  "foldl (\<lambda>s r. Summary_Add r s) s rs =
     s\<lparr>su_Matching := su_Matching s + int (length (filter (\<lambda>r. te_Status r = StatusPass) rs)),
       su_Diverging := su_Diverging s + int (length (filter (\<lambda>r. te_Status r = StatusFail) rs)),
       su_MongoOnly := su_MongoOnly s + int (length (filter (\<lambda>r. te_Status r = StatusSkip) rs)),
       su_XFail := su_XFail s + int (length (filter (\<lambda>r. te_Status r = StatusXFail) rs)),
       su_Deviating := su_Deviating s + int (length (filter (\<lambda>r. te_Status r = StatusDeviate) rs)),
       su_XPass := su_XPass s + int (length (filter (\<lambda>r. te_Status r = StatusXPass) rs))\<rparr>"
  by (induction rs arbitrary: s) (auto simp: Summary_Add_def split: TestStatus.splits)

definition unexpected :: "TestStatus \<Rightarrow> bool" where
  "unexpected status \<longleftrightarrow> status = StatusFail \<or> status = StatusXPass"

text \<open>What fails a MongoDB-only test: its setup, and nothing else. An expectation may end its test
  only by failing it.\<close>

definition mongo_setup_failed :: "TestCase \<Rightarrow> bool" where
  "mongo_setup_failed tc = (case tc_Setup tc of Some (Some err, d) \<Rightarrow> True | _ \<Rightarrow> False)"

definition set_up :: "TestCase \<Rightarrow> bool" where
  "set_up tc \<longleftrightarrow> (case tc_Setup tc of Some (m, d) \<Rightarrow> m = None \<and> d = None | None \<Rightarrow> True)"

definition ends_by_failing :: "unit tst \<Rightarrow> bool" where
  "ends_by_failing m \<longleftrightarrow> (\<forall>st. (case m st of (None, st') \<Rightarrow> ts_failed st' | (Some u, st') \<Rightarrow> True))"

definition graded :: "printers \<Rightarrow> TestCase \<Rightarrow> TestResult option \<times> tstate \<Rightarrow> bool" where
  "graded pr tc q =
     (case q of
        (None, st) \<Rightarrow> ts_failed st
      | (Some r, st) \<Rightarrow>
          te_Name r = tc_Name tc \<and>
          (case tc_Support tc of
             DumboDBMongoOnly \<Rightarrow> ts_failed st = mongo_setup_failed tc \<and>
               (te_Status r = StatusSkip \<longleftrightarrow> \<not> mongo_setup_failed tc \<and> snd (tc_RunMongo tc) = None)
           | DumboDBFull \<Rightarrow> ts_failed st = unexpected (te_Status r) \<and>
               (te_Status r = StatusPass \<longleftrightarrow> set_up tc \<and> cmp_Result (compare_case pr tc) = Match)
           | DumboDBXFail \<Rightarrow> ts_failed st = unexpected (te_Status r) \<and>
               (te_Status r = StatusXPass \<longleftrightarrow> set_up tc \<and> cmp_Result (compare_case pr tc) = Match)
           | _ \<Rightarrow> ts_failed st = unexpected (te_Status r)))"

lemma setup_case_ok: "set_up tc \<Longrightarrow> setup_case tc st = (Some True, st)"
  by (auto simp: set_up_def setup_case_def tst_defs split: option.splits prod.splits)

lemma setup_case_failed:
  "\<not> set_up tc \<Longrightarrow> \<exists>st'. setup_case tc st = (Some False, st') \<and> ts_failed st'"
  by (auto simp: set_up_def setup_case_def tst_defs split: option.splits prod.splits)

text \<open>A test that ends without a result has failed, one with a result has the case's name and failed
  exactly when its status is unexpected.\<close>

definition honest :: "TestCase \<Rightarrow> TestResult option \<times> tstate \<Rightarrow> bool" where
  "honest tc q = (case q of (None, st) \<Rightarrow> ts_failed st
     | (Some r, st) \<Rightarrow> te_Name r = tc_Name tc \<and> ts_failed st = unexpected (te_Status r))"

lemma honest_expectation:
  assumes "ends_by_failing m" and "\<And>st'. honest tc (f () st')"
  shows "honest tc (t_bind m f st)"
proof (cases "m st")
  case (Pair x st')
  with assms(1) have "x = None \<Longrightarrow> ts_failed st'" unfolding ends_by_failing_def
    by (metis (mono_tags, lifting) case_prod_conv option.simps(4))
  with assms(2) Pair show ?thesis by (cases x) (simp_all add: t_bind_def honest_def)
qed

lemma honest_deviates:
  assumes "pred_option (\<lambda>e. ends_by_failing (e (tc_RunMongo tc))) (tc_MongoExpect tc)"
    and "pred_option (\<lambda>e. ends_by_failing (e (tc_RunDumbo tc))) (tc_DumboExpect tc)"
  shows "honest tc (runDeviates tc fresh_test)"
proof (cases "tc_MongoExpect tc = None \<or> tc_DumboExpect tc = None")
  case True
  then show ?thesis
    by (auto simp: runDeviates_def grade_deviates_def t_Fatalf_def honest_def split: option.split)
next
  case False
  then obtain m d where md: "tc_MongoExpect tc = Some m" "tc_DumboExpect tc = Some d" by auto
  with assms have e: "ends_by_failing (m (tc_RunMongo tc))" "ends_by_failing (d (tc_RunDumbo tc))"
    by simp_all
  have last: "honest tc (t_bind t_Failed (\<lambda>failed.
      if failed then t_return (test_result tc StatusFail [])
      else t_bind (t_Logf line) (\<lambda>u. t_return (test_result tc StatusDeviate []))) st')" for line st'
    by (simp add: tst_defs honest_def test_result_def unexpected_def)
  show ?thesis
  proof (cases "set_up tc")
    case True
    have "runDeviates tc fresh_test = t_bind (m (tc_RunMongo tc)) (\<lambda>u. t_bind (d (tc_RunDumbo tc)) (\<lambda>u.
        t_bind t_Failed (\<lambda>failed. if failed then t_return (test_result tc StatusFail [])
          else t_bind (t_Logf (''DEVIATE '' @ tc_Name tc @ '': MongoDB and DumboDB behave as intended''))
            (\<lambda>u. t_return (test_result tc StatusDeviate []))))) fresh_test"
      by (simp add: runDeviates_def grade_deviates_def md t_bind_def[of "setup_case tc"]
          setup_case_ok[OF True])
    then show ?thesis by (simp only:) (intro honest_expectation e last)
  next
    case False
    then obtain st' where "setup_case tc fresh_test = (Some False, st')" "ts_failed st'"
      using setup_case_failed by blast
    then show ?thesis
      by (simp add: runDeviates_def grade_deviates_def md t_bind_def t_return_def honest_def
          test_result_def unexpected_def)
  qed
qed


definition demo_expect :: "goval \<Rightarrow> outcome \<Rightarrow> unit tst" where
  "demo_expect v o1 = (if fst o1 = v then t_return () else t_Fatalf ''unexpected'')"

definition demo_case :: TestCase where
  "demo_case = \<lparr>tc_Name = ''case'', tc_Support = DumboDBDeviates, tc_Setup = Some (None, None),
     tc_RunMongo = (VInt32 1, None), tc_RunDumbo = (VInt32 2, None),
     tc_MongoExpect = Some (demo_expect (VInt32 1)), tc_DumboExpect = Some (demo_expect (VInt32 3))\<rparr>"


text \<open>The summary counts every result once, and asks for attention exactly when some case has
  an unexpected status.\<close>

theorem Summary_counts:
  "let s = foldl (\<lambda>s r. Summary_Add r s) empty_summary rs in
     (HasUnexpectedFailures s \<longleftrightarrow> list_ex (\<lambda>r. unexpected (te_Status r)) rs) \<and>
     su_Matching s + su_Diverging s + su_MongoOnly s + su_XFail s + su_Deviating s + su_XPass s
       = int (length rs)"
proof -
  have "(\<exists>r \<in> set rs. te_Status r = x) \<longleftrightarrow> 0 < length (filter (\<lambda>r. te_Status r = x) rs)" for x
    by (simp add: filter_empty_conv)
  moreover have "length (filter (\<lambda>r. te_Status r = StatusPass) rs)
      + length (filter (\<lambda>r. te_Status r = StatusFail) rs) + length (filter (\<lambda>r. te_Status r = StatusSkip) rs)
      + length (filter (\<lambda>r. te_Status r = StatusXFail) rs)
      + length (filter (\<lambda>r. te_Status r = StatusDeviate) rs)
      + length (filter (\<lambda>r. te_Status r = StatusXPass) rs) = length rs"
    by (induction rs) (auto, metis TestStatus.exhaust)
  ultimately show ?thesis
    by (simp add: Let_def summary_fold empty_summary_def HasUnexpectedFailures_def list_ex_iff
        unexpected_def bex_disj_distrib flip: of_nat_add)
qed

end
