(* ===== verification/Replica.thy ===== *)
theory Replica
  imports Compare
begin

text \<open>
  Replica sets as src/harness/replicaset.go and failover.go see them: who is primary, who is
  secondary, and the loops that poll until a state is reached. A world is what the set's members
  answer at one moment: per address, the reply to replSetGetStatus (or why there is none) and to
  hello. A loop meets one world per pass, at the times its clock gives; not returning is
  \<open>None\<close>.
\<close>

section \<open>Reading replies\<close>

text \<open>An absent key reads as the nil interface; the conversion of a double outside the
  64-bit range is \<open>wild\<close>.\<close>

definition key :: "(string \<times> goval) list \<Rightarrow> string \<Rightarrow> goval" where
  "key d k = (case map_of d k of None \<Rightarrow> VNil | Some v \<Rightarrow> v)"

fun asString :: "goval \<Rightarrow> string" where
  "asString (VString s) = s"
| "asString v = []"

fun asArray :: "goval \<Rightarrow> goval list" where
  "asArray (VArr xs) = xs"
| "asArray v = []"

fun asInt64 :: "(float64 \<Rightarrow> int) \<Rightarrow> goval \<Rightarrow> int" where
  "asInt64 wild (VInt32 n) = n"
| "asInt64 wild (VInt64 n) = n"
| "asInt64 wild (VFloat64 f) = float_to_int64 wild f"
| "asInt64 wild v = 0"

fun as_document :: "goval \<Rightarrow> (string \<times> goval) list option" where
  "as_document (VMap d) = Some d"
| "as_document v = None"

fun as_true :: "goval \<Rightarrow> bool" where
  "as_true (VBool b) = b"
| "as_true v = False"

section \<open>The set and its world\<close>

definition StatePrimary :: string where "StatePrimary = ''PRIMARY''"
definition StateSecondary :: string where "StateSecondary = ''SECONDARY''"
definition StateStartup2 :: string where "StateStartup2 = ''STARTUP2''"
definition StateRecovering :: string where "StateRecovering = ''RECOVERING''"

record Member =
  mb_ID :: int
  mb_Addr :: string
  mb_URI :: string
  mb_running :: bool

record ReplicaSet =
  rset_Name :: string
  rset_Members :: "Member list"
  rset_pool :: "string list"

record world =
  wd_status :: "string \<Rightarrow> goerror + (string \<times> goval) list"
  wd_hello :: "string \<Rightarrow> goerror + (string \<times> goval) list"

text \<open>The states a status reports, by member name; a later entry of the same name wins.\<close>

definition reported_states :: "(string \<times> goval) list \<Rightarrow> (string \<times> string) list" where
  "reported_states status =
     fold (\<lambda>d m. AList.update (asString (key d ''name'')) (asString (key d ''stateStr'')) m)
       (List.map_filter as_document (asArray (key status ''members''))) []"

fun first_states :: "string \<Rightarrow> world \<Rightarrow> Member list \<Rightarrow> goerror option \<Rightarrow>
    goerror + (string \<times> string) list" where
  "first_states name w [] lastErr =
     Inl (case lastErr of
            Some e \<Rightarrow> ErrWrap (''no member of '' @ name @ '' answered replSetGetStatus: '') e
          | None \<Rightarrow> ErrText (''no member of '' @ name @ '' answered replSetGetStatus: %!w(<nil>)''))"
| "first_states name w (m # ms) lastErr =
     (case wd_status w (mb_Addr m) of
        Inl err \<Rightarrow> first_states name w ms (Some err)
      | Inr status \<Rightarrow> Inr (reported_states status))"

definition memberStates :: "ReplicaSet \<Rightarrow> world \<Rightarrow> goerror + (string \<times> string) list" where
  "memberStates rs w = first_states (rset_Name rs) w (rset_Members rs) None"

text \<open>The zero value of a missing key, and \<open>%v\<close> of the map.\<close>

definition state_of :: "(string \<times> string) list \<Rightarrow> string \<Rightarrow> string" where
  "state_of m a = (case map_of m a of None \<Rightarrow> [] | Some s \<Rightarrow> s)"

definition fmt_states :: "(string \<times> string) list \<Rightarrow> string" where
  "fmt_states m = ''map['' @ join '' '' (map (\<lambda>k. k @ '':'' @ state_of m k) (sort (map fst m))) @ '']''"

definition isWritablePrimary :: "world \<Rightarrow> string \<Rightarrow> goerror + bool" where
  "isWritablePrimary w addr =
     (case wd_hello w addr of
        Inl err \<Rightarrow> Inl (ErrWrap (''hello '' @ addr @ '': '') err)
      | Inr res \<Rightarrow> Inr (as_true (key res ''isWritablePrimary'')))"

definition Primary :: "ReplicaSet \<Rightarrow> world \<Rightarrow> goerror + Member" where
  "Primary rs w =
     (case memberStates rs w of Inl err \<Rightarrow> Inl err
      | Inr byAddr \<Rightarrow>
          (case find (\<lambda>m. state_of byAddr (mb_Addr m) = StatePrimary) (rset_Members rs) of
             None \<Rightarrow> Inl (ErrText (''replica set '' @ rset_Name rs @ '' has no primary (states: '' @
                            fmt_states byAddr @ '')''))
           | Some m \<Rightarrow>
               (case isWritablePrimary w (mb_Addr m) of Inl err \<Rightarrow> Inl err
                | Inr writable \<Rightarrow>
                    if writable then Inr m
                    else Inl (ErrText (''member '' @ mb_Addr m @
                                '' reports PRIMARY but is not yet accepting writes'')))))"

definition Secondaries :: "ReplicaSet \<Rightarrow> world \<Rightarrow> goerror + Member list" where
  "Secondaries rs w =
     (case memberStates rs w of Inl err \<Rightarrow> Inl err
      | Inr byAddr \<Rightarrow> Inr (filter (\<lambda>m. state_of byAddr (mb_Addr m) = StateSecondary) (rset_Members rs)))"

definition AnySecondary :: "ReplicaSet \<Rightarrow> world \<Rightarrow> goerror + Member" where
  "AnySecondary rs w =
     (case Secondaries rs w of
        Inl err \<Rightarrow> Inl err
      | Inr [] \<Rightarrow> Inl (ErrText (''replica set '' @ rset_Name rs @ '' has no secondary''))
      | Inr (m # ms) \<Rightarrow> Inr m)"

definition steady :: "ReplicaSet \<Rightarrow> (string \<times> string) list \<Rightarrow> bool" where
  "steady rs byAddr \<longleftrightarrow>
     (let count = (\<lambda>s. length (filter (\<lambda>m. state_of byAddr (mb_Addr m) = s) (rset_Members rs)));
          primaries = count StatePrimary; secondaries = count StateSecondary
      in primaries = 1 \<and> primaries + secondaries = length (rset_Members rs))"

text \<open>What the first peer that knows something says of a member's heartbeat.\<close>

definition heartbeat_of :: "(float64 \<Rightarrow> int) \<Rightarrow> (string \<Rightarrow> string) \<Rightarrow> string \<Rightarrow> string \<Rightarrow>
    (string \<times> goval) list \<Rightarrow> string option" where
  "heartbeat_of wild quote peer addr status =
     map_option (\<lambda>d. ''; '' @ peer @ '' reports health='' @ itoa (asInt64 wild (key d ''health'')) @
                     '' lastHeartbeatMessage='' @ quote (asString (key d ''lastHeartbeatMessage'')))
       (find (\<lambda>d. asString (key d ''name'') = addr \<and> asString (key d ''lastHeartbeatMessage'') \<noteq> [])
          (List.map_filter as_document (asArray (key status ''members''))))"

fun heartbeat_from :: "(float64 \<Rightarrow> int) \<Rightarrow> (string \<Rightarrow> string) \<Rightarrow> world \<Rightarrow> string \<Rightarrow> Member list \<Rightarrow> string" where
  "heartbeat_from wild quote w addr [] = []"
| "heartbeat_from wild quote w addr (peer # peers) =
     (if mb_Addr peer = addr then heartbeat_from wild quote w addr peers
      else case wd_status w (mb_Addr peer) of
             Inl err \<Rightarrow> heartbeat_from wild quote w addr peers
           | Inr status \<Rightarrow>
               (case heartbeat_of wild quote (mb_Addr peer) addr status of
                  Some text \<Rightarrow> text
                | None \<Rightarrow> heartbeat_from wild quote w addr peers))"

definition heartbeatDiagnosis where
  "heartbeatDiagnosis wild quote rs w addr = heartbeat_from wild quote w addr (rset_Members rs)"

end
