(* ===== verification/OpTimes.thy ===== *)
theory OpTimes
  imports Replica
begin

text \<open>
  Positions in a replica set's log (src/harness/converge.go): an optime with its widths, the
  comparison as the code branches on it, and that it is a linear order, so that the library's order
  facts apply to optimes.
\<close>

datatype OpTime = OpTime (ot_Seconds: "32 word") (ot_Increment: "32 word") (ot_Term: int)

definition zero_optime :: OpTime where "zero_optime = OpTime 0 0 0"

definition Compare :: "OpTime \<Rightarrow> OpTime \<Rightarrow> int" where
  "Compare a b =
     (if ot_Term a \<noteq> ot_Term b then (if ot_Term a < ot_Term b then -1 else 1)
      else if ot_Seconds a \<noteq> ot_Seconds b then (if ot_Seconds a < ot_Seconds b then -1 else 1)
      else if ot_Increment a \<noteq> ot_Increment b then (if ot_Increment a < ot_Increment b then -1 else 1)
      else 0)"

definition IsZero :: "OpTime \<Rightarrow> bool" where
  "IsZero a \<longleftrightarrow> ot_Seconds a = 0 \<and> ot_Increment a = 0"

definition OpTime_String :: "OpTime \<Rightarrow> string" where
  "OpTime_String a = ''{ts:'' @ ntoa (unat (ot_Seconds a)) @ ''.'' @ ntoa (unat (ot_Increment a)) @
     '' t:'' @ itoa (ot_Term a) @ ''}''"

instantiation OpTime :: linorder
begin

definition less_eq_OpTime :: "OpTime \<Rightarrow> OpTime \<Rightarrow> bool" where
  "a \<le> b \<longleftrightarrow> Compare a b \<le> 0"

definition less_OpTime :: "OpTime \<Rightarrow> OpTime \<Rightarrow> bool" where
  "a < b \<longleftrightarrow> Compare a b < 0"

instance
  by standard
    (auto simp: less_eq_OpTime_def less_OpTime_def Compare_def OpTime.expand split: if_splits)

end

lemma Compare_sign: "Compare a b = (if a < b then -1 else if a = b then 0 else 1)"
  by (auto simp: less_OpTime_def Compare_def OpTime.expand)

lemma Compare_ge: "Compare a b \<ge> 0 \<longleftrightarrow> b \<le> a"
  by (auto simp: Compare_sign not_less intro: less_imp_le)

definition readOpTime :: "(float64 \<Rightarrow> int) \<Rightarrow> goval \<Rightarrow> OpTime" where
  "readOpTime wild v =
     (case as_document v of
        None \<Rightarrow> zero_optime
      | Some d \<Rightarrow>
          (case key d ''ts'' of
             VTimestamp t i \<Rightarrow> OpTime (word_of_int t) (word_of_int i) (asInt64 wild (key d ''t''))
           | _ \<Rightarrow> OpTime 0 0 (asInt64 wild (key d ''t''))))"

definition stateName :: "int \<Rightarrow> string" where
  "stateName s =
     (if s = 0 then ''STARTUP'' else if s = 1 then StatePrimary else if s = 2 then StateSecondary
      else if s = 3 then StateRecovering else if s = 5 then StateStartup2 else if s = 6 then ''UNKNOWN''
      else if s = 7 then ''ARBITER'' else if s = 8 then ''DOWN'' else if s = 9 then ''ROLLBACK''
      else if s = 10 then ''REMOVED'' else ''STATE('' @ itoa s @ '')'')"

text \<open>Comparing optimes is a linear order: the term first, then the seconds, then the
  increment, unsigned at their widths. It is antisymmetric, zero exactly on equal positions, and
  agrees with the order of the triples.\<close>

theorem Compare_total_order:
  "Compare a b = - Compare b a \<and> (Compare a b = 0 \<longleftrightarrow> a = b) \<and>
   (Compare a b \<ge> 0 \<longleftrightarrow> ot_Term b < ot_Term a \<or> ot_Term b = ot_Term a \<and>
      (ot_Seconds b < ot_Seconds a \<or> ot_Seconds b = ot_Seconds a \<and>
         ot_Increment b \<le> ot_Increment a))"
proof -
  have "Compare a b = - Compare b a" by (auto simp: Compare_sign)
  moreover have "Compare a b = 0 \<longleftrightarrow> a = b" by (simp add: Compare_sign)
  moreover have "Compare a b \<ge> 0 \<longleftrightarrow> ot_Term b < ot_Term a \<or> ot_Term b = ot_Term a \<and>
      (ot_Seconds b < ot_Seconds a \<or> ot_Seconds b = ot_Seconds a \<and>
         ot_Increment b \<le> ot_Increment a)"
    by (auto simp: Compare_def)
  ultimately show ?thesis by blast
qed

end
