(* ===== verification/Poll.thy ===== *)
theory Poll
  imports Prelude
begin

text \<open>
  The polling loop the harness writes again and again:
  \<open>for time.Now().Before(deadline) { pass; time.Sleep(d) }\<close>. The clock gives the time at which each
  pass is about to start; a pass either ends the loop with a result or hands its state on. A loop
  that never ends is \<open>None\<close>. The locale is the contract of a pass: it ends the loop exactly when
  its goal is met, whatever state earlier passes left; what such a loop returns, and that it
  returns when every pass takes at least its sleep, is proved here once.
\<close>

partial_function (option) poll ::
    "(nat \<Rightarrow> int) \<Rightarrow> int \<Rightarrow> (nat \<Rightarrow> 's \<Rightarrow> 'r + 's) \<Rightarrow> nat \<Rightarrow> 's \<Rightarrow> ('r + 's) option" where
  "poll clock deadline pass i s =
     (if clock i < deadline
      then case pass i s of Inl r \<Rightarrow> Some (Inl r) | Inr s' \<Rightarrow> poll clock deadline pass (Suc i) s'
      else Some (Inr s))"

text \<open>Every pass sleeps: the documented behaviour of \<open>time.Sleep\<close>.\<close>

definition sleeps :: "int \<Rightarrow> (nat \<Rightarrow> int) \<Rightarrow> bool" where
  "sleeps d clock \<longleftrightarrow> 0 < d \<and> (\<forall>i. clock i + d \<le> clock (Suc i))"

lemma sleeps_less: "sleeps d clock \<Longrightarrow> clock i < clock (Suc i)"
  unfolding sleeps_def by (metis add.commute less_add_same_cancel2 order_less_le_trans)

lemma poll_returns:
  assumes "sleeps d clock"
  shows "\<exists>r. poll clock deadline pass i s = Some r"
proof (induction "nat (deadline - clock i)" arbitrary: i s rule: less_induct)
  case less
  show ?case
  proof (cases "clock i < deadline")
    case True
    then have "nat (deadline - clock (Suc i)) < nat (deadline - clock i)"
      using sleeps_less[OF assms, of i] by simp
    from less[OF this] True show ?thesis
      by (subst poll.simps) (simp split: sum.split)
  qed (subst poll.simps, simp)
qed

locale poll_loop =
  fixes pass :: "nat \<Rightarrow> 's \<Rightarrow> 'r + 's" and goal :: "nat \<Rightarrow> bool" and result :: "nat \<Rightarrow> 'r"
  assumes met: "goal i \<Longrightarrow> pass i s = Inl (result i)"
    and unmet: "\<not> goal i \<Longrightarrow> \<exists>s'. pass i s = Inr s'"
begin

lemma ended:
  assumes "goal k" and "\<And>j. i \<le> j \<Longrightarrow> j < k \<Longrightarrow> \<not> goal j" and "i \<le> k"
    and "\<And>j. i \<le> j \<Longrightarrow> j \<le> k \<Longrightarrow> clock j < deadline"
  shows "poll clock deadline pass i s = Some (Inl (result k))"
  using assms(2-)
proof (induction "k - i" arbitrary: i s)
  case 0
  then show ?case using assms(1) met by (subst poll.simps) simp
next
  case (Suc n)
  then have "i < k" by simp
  with Suc.prems obtain s' where s': "pass i s = Inr s'" using unmet[of i s] by auto
  have "poll clock deadline pass (Suc i) s' = Some (Inl (result k))"
    using Suc.hyps Suc.prems \<open>i < k\<close> by (intro Suc.hyps(1)) simp_all
  then show ?case using Suc.prems(3)[of i] \<open>i < k\<close> s' by (subst poll.simps) simp
qed

lemma returned:
  assumes "sleeps d clock" and "poll clock deadline pass i s = Some (Inl r)"
  shows "\<exists>k \<ge> i. goal k \<and> r = result k \<and> (\<forall>j. i \<le> j \<and> j < k \<longrightarrow> \<not> goal j) \<and>
    (\<forall>j. i \<le> j \<and> j \<le> k \<longrightarrow> clock j < deadline)"
  using assms(2)
proof (induction "nat (deadline - clock i)" arbitrary: i s rule: less_induct)
  case less
  have now: "clock i < deadline"
    using less.prems by (subst (asm) poll.simps) (simp split: if_splits)
  show ?case
  proof (cases "goal i")
    case True
    then show ?thesis using less.prems now met[of i s] by (subst (asm) poll.simps) auto
  next
    case False
    then obtain s' where "pass i s = Inr s'" using unmet by blast
    then have rest: "poll clock deadline pass (Suc i) s' = Some (Inl r)"
      using less.prems now by (subst (asm) poll.simps) simp
    have "nat (deadline - clock (Suc i)) < nat (deadline - clock i)"
      using now sleeps_less[OF assms(1), of i] by simp
    from less.hyps[OF this rest] obtain k where k: "Suc i \<le> k" "goal k" "r = result k"
      "\<And>j. Suc i \<le> j \<Longrightarrow> j < k \<Longrightarrow> \<not> goal j" "\<And>j. Suc i \<le> j \<Longrightarrow> j \<le> k \<Longrightarrow> clock j < deadline"
      by blast
    have "i \<le> j \<longleftrightarrow> j = i \<or> Suc i \<le> j" for j by auto
    with k False now show ?thesis by (intro exI[of _ k]) auto
  qed
qed

text \<open>The loop ends with a result exactly when some pass before the deadline meets the goal.\<close>

lemma ends_iff:
  assumes "sleeps d clock"
  shows "(\<exists>r. poll clock deadline pass 0 s = Some (Inl r)) \<longleftrightarrow> (\<exists>k. goal k \<and> clock k < deadline)"
proof
  assume "\<exists>k. goal k \<and> clock k < deadline"
  then obtain n where n: "goal n" "clock n < deadline" by blast
  define k where "k = (LEAST k. goal k)"
  have k: "goal k" "k \<le> n" "\<And>j. j < k \<Longrightarrow> \<not> goal j"
    unfolding k_def using n(1) by (auto intro: LeastI Least_le dest: not_less_Least)
  have mono: "i \<le> j \<Longrightarrow> clock i \<le> clock j" for i j
    by (rule lift_Suc_mono_le) (use sleeps_less[OF assms] in \<open>auto intro: less_imp_le\<close>)
  have "poll clock deadline pass 0 s = Some (Inl (result k))"
    by (rule ended[OF k(1)]) (use k(2,3) mono n(2) order_le_less_trans order_trans in blast)+
  then show "\<exists>r. poll clock deadline pass 0 s = Some (Inl r)" by blast
qed (use returned[OF assms] in blast)

end

end
