(* ===== verification/ReplicaWaits.thy ===== *)
theory ReplicaWaits
  imports Replica Poll
begin

text \<open>
  The operations of src/harness/replicaset.go and failover.go that wait or change something: the
  polling loops, each with its pass and its interpretation of the polling contract; stepping a
  primary down; killing a member; the connection pool; reconfiguration. \<open>worlds i\<close> is what the set
  answers during pass \<open>i\<close>, \<open>clock i\<close> the time at which that pass is about to start, \<open>dtoa\<close> prints
  a duration.
\<close>

section \<open>The set itself\<close>

definition rs_URI :: "ReplicaSet \<Rightarrow> string" where
  "rs_URI rs = ''mongodb://'' @ join '','' (map mb_Addr (rset_Members rs)) @ ''/?replicaSet='' @ rset_Name rs"

definition adoptReplicaSet :: "(float64 \<Rightarrow> int) \<Rightarrow> string \<Rightarrow> (string \<times> goval) list \<Rightarrow> goerror + ReplicaSet" where
  "adoptReplicaSet wild uri status =
     (let members = map (\<lambda>d. \<lparr>mb_ID = asInt64 wild (key d ''_id''), mb_Addr = asString (key d ''name''),
                              mb_URI = ''mongodb://'' @ asString (key d ''name''), mb_running = False\<rparr>)
                      (List.map_filter as_document (asArray (key status ''members'')))
      in if length members = 0
         then Inl (ErrText (''adopt '' @ uri @ '': replSetGetStatus reported no members''))
         else Inr \<lparr>rset_Name = asString (key status ''set''), rset_Members = members, rset_pool = []\<rparr>)"

text \<open>The pool of connections, by address.\<close>

definition rs_client :: "(string \<Rightarrow> goerror option) \<Rightarrow> string \<Rightarrow> ReplicaSet \<Rightarrow> goerror option \<times> ReplicaSet" where
  "rs_client dial addr rs =
     (if addr \<in> set (rset_pool rs) then (None, rs)
      else case dial addr of
             Some err \<Rightarrow> (Some err, rs)
           | None \<Rightarrow> (None, rs\<lparr>rset_pool := addr # rset_pool rs\<rparr>))"

definition closePool :: "ReplicaSet \<Rightarrow> ReplicaSet" where
  "closePool rs = rs\<lparr>rset_pool := []\<rparr>"

definition dropPooled :: "string \<Rightarrow> ReplicaSet \<Rightarrow> ReplicaSet" where
  "dropPooled addr rs = rs\<lparr>rset_pool := filter (\<lambda>a. a \<noteq> addr) (rset_pool rs)\<rparr>"

fun stop_member :: "string \<Rightarrow> Member list \<Rightarrow> Member list" where
  "stop_member addr [] = []"
| "stop_member addr (m # ms) =
     (if mb_Addr m = addr then m\<lparr>mb_running := False\<rparr> # ms else m # stop_member addr ms)"

definition KillMember :: "string \<Rightarrow> ReplicaSet \<Rightarrow> goerror option \<times> ReplicaSet" where
  "KillMember addr rs =
     (case find (\<lambda>m. mb_Addr m = addr) (rset_Members rs) of
        None \<Rightarrow> (Some (ErrText (''member '' @ addr @ '' is not in the configuration of '' @ rset_Name rs)), rs)
      | Some m \<Rightarrow>
          if \<not> mb_running m then (Some (ErrText (''member '' @ addr @ '' is not running'')), rs)
          else (None, dropPooled addr (rs\<lparr>rset_Members := stop_member addr (rset_Members rs)\<rparr>)))"

section \<open>Waiting\<close>

definition wrap_last :: "string \<Rightarrow> goerror option \<Rightarrow> goerror" where
  "wrap_last text prev =
     (case prev of Some e \<Rightarrow> ErrWrap text e | None \<Rightarrow> ErrText (text @ ''%!w(<nil>)''))"

definition waited :: "('s \<Rightarrow> goerror) \<Rightarrow> ('r + 's) option \<Rightarrow> (goerror + 'r) option" where
  "waited fail = map_option (\<lambda>q. case q of Inl r \<Rightarrow> Inr r | Inr s \<Rightarrow> Inl (fail s))"

definition steady_pass :: "ReplicaSet \<Rightarrow> (nat \<Rightarrow> world) \<Rightarrow> nat \<Rightarrow> (string \<times> string) list \<Rightarrow>
    unit + (string \<times> string) list" where
  "steady_pass rs worlds i prev =
     (case memberStates rs (worlds i) of
        Inl err \<Rightarrow> Inr prev
      | Inr byAddr \<Rightarrow> if steady rs byAddr then Inl () else Inr byAddr)"

definition WaitForSteadyState where
  "WaitForSteadyState dtoa rs worlds clock start timeout =
     waited (\<lambda>prev. ErrText (''replica set '' @ rset_Name rs @ '' did not reach steady state within '' @
                       dtoa timeout @ '' (states: '' @ fmt_states prev @ '')''))
       (poll clock (start + timeout) (steady_pass rs worlds) 0 [])"

definition primary_pass :: "ReplicaSet \<Rightarrow> (nat \<Rightarrow> world) \<Rightarrow> nat \<Rightarrow> goerror option \<Rightarrow>
    Member + goerror option" where
  "primary_pass rs worlds i prev =
     (case Primary rs (worlds i) of Inr m \<Rightarrow> Inl m | Inl err \<Rightarrow> Inr (Some err))"

definition WaitForPrimary where
  "WaitForPrimary dtoa rs worlds clock start timeout =
     waited (wrap_last (''replica set '' @ rset_Name rs @ '' elected no primary within '' @
                        dtoa timeout @ '': ''))
       (poll clock (start + timeout) (primary_pass rs worlds) 0 None)"

definition state_pass :: "ReplicaSet \<Rightarrow> string \<Rightarrow> string \<Rightarrow> (nat \<Rightarrow> world) \<Rightarrow> nat \<Rightarrow> string \<Rightarrow>
    unit + string" where
  "state_pass rs addr want worlds i got =
     (case memberStates rs (worlds i) of
        Inl err \<Rightarrow> Inr got
      | Inr byAddr \<Rightarrow>
          (case map_of byAddr addr of
             None \<Rightarrow> Inr got
           | Some s \<Rightarrow> if s = want then Inl () else Inr s))"

definition WaitForState where
  "WaitForState wild quote dtoa rs addr want worlds afterwards clock start timeout =
     waited (\<lambda>got. ErrText (''member '' @ addr @ '' did not reach '' @ want @ '' within '' @
                      dtoa timeout @ '' (last state '' @ got @ '')'' @
                      heartbeatDiagnosis wild quote rs afterwards addr))
       (poll clock (start + timeout) (state_pass rs addr want worlds) 0 ''<unknown>'')"

definition isStepDownDisconnect :: "string \<Rightarrow> bool" where
  "isStepDownDisconnect s \<longleftrightarrow>
     list_ex (\<lambda>t. list_ex (\<lambda>i. take (length t) (drop i s) = t) [0..<Suc (length s)])
       [''socket was unexpectedly closed'', ''connection('', ''EOF'']"

definition new_primary_pass :: "ReplicaSet \<Rightarrow> string \<Rightarrow> (nat \<Rightarrow> world) \<Rightarrow> nat \<Rightarrow> goerror option \<Rightarrow>
    Member + goerror option" where
  "new_primary_pass rs old worlds i prev =
     (case Primary rs (worlds i) of
        Inr m \<Rightarrow> if mb_Addr m \<noteq> old then Inl m else Inr prev
      | Inl err \<Rightarrow> Inr (Some err))"

definition WaitForNewPrimary where
  "WaitForNewPrimary dtoa rs old worlds clock start timeout =
     waited (wrap_last (''no primary other than '' @ old @ '' within '' @ dtoa timeout @ '': ''))
       (poll clock (start + timeout) (new_primary_pass rs old worlds) 0 None)"

text \<open>Stepping down: the primary found in \<open>before\<close>, the command's error, then sixty seconds of
  waiting for another.\<close>

definition StepDownPrimary where
  "StepDownPrimary rs before command worlds clock start =
     (case Primary rs before of
        Inl err \<Rightarrow> Some (Inl err)
      | Inr old \<Rightarrow>
          let wait = waited (\<lambda>prev. ErrText (''no new primary after stepping down '' @ mb_Addr old))
                       (poll clock (start + 60000000000) (new_primary_pass rs (mb_Addr old) worlds) 0 None)
          in case command of
               Some err \<Rightarrow>
                 if \<not> isStepDownDisconnect (error_text err)
                 then Some (Inl (ErrWrap ''replSetStepDown: '' err)) else wait
             | None \<Rightarrow> wait)"

definition SyncSourceOf :: "world \<Rightarrow> string \<Rightarrow> goerror + string" where
  "SyncSourceOf w addr = map_sum id (\<lambda>status. asString (key status ''syncSourceHost'')) (wd_status w addr)"

definition source_pass :: "string \<Rightarrow> string \<Rightarrow> (nat \<Rightarrow> world) \<Rightarrow> nat \<Rightarrow> string \<Rightarrow> string + string" where
  "source_pass addr was worlds i got =
     (case SyncSourceOf (worlds i) addr of
        Inl err \<Rightarrow> Inr got
      | Inr current \<Rightarrow> if current \<noteq> [] \<and> current \<noteq> was then Inl current else Inr current)"

definition WaitForSyncSourceChange where
  "WaitForSyncSourceChange quote dtoa addr was worlds clock start timeout =
     waited (\<lambda>got. ErrText (addr @ '' still reports sync source '' @ quote got @ '' after '' @
                      dtoa timeout @ '', was '' @ quote was))
       (poll clock (start + timeout) (source_pass addr was worlds) 0 [])"

section \<open>Each loop keeps the polling contract\<close>

interpretation wait_steady: poll_loop "steady_pass rs worlds"
  "\<lambda>i. \<exists>st. memberStates rs (worlds i) = Inr st \<and> steady rs st" "\<lambda>i. ()" for rs worlds
  by unfold_locales (auto simp: steady_pass_def split: sum.split)

interpretation wait_primary: poll_loop "primary_pass rs worlds"
  "\<lambda>i. \<exists>m. Primary rs (worlds i) = Inr m" "\<lambda>i. projr (Primary rs (worlds i))" for rs worlds
  by unfold_locales (auto simp: primary_pass_def split: sum.split)

interpretation wait_state: poll_loop "state_pass rs addr want worlds"
  "\<lambda>i. \<exists>st. memberStates rs (worlds i) = Inr st \<and> map_of st addr = Some want" "\<lambda>i. ()"
  for rs addr want worlds
  by unfold_locales (auto simp: state_pass_def split: sum.split option.split)

interpretation wait_new: poll_loop "new_primary_pass rs old worlds"
  "\<lambda>i. \<exists>m. Primary rs (worlds i) = Inr m \<and> mb_Addr m \<noteq> old" "\<lambda>i. projr (Primary rs (worlds i))"
  for rs old worlds
  by unfold_locales (auto simp: new_primary_pass_def split: sum.split)

interpretation wait_source: poll_loop "source_pass addr was worlds"
  "\<lambda>i. \<exists>s. SyncSourceOf (worlds i) addr = Inr s \<and> s \<noteq> [] \<and> s \<noteq> was"
  "\<lambda>i. projr (SyncSourceOf (worlds i) addr)" for addr was worlds
  by unfold_locales (auto simp: source_pass_def split: sum.split)

section \<open>Reconfiguration\<close>

text \<open>\<open>int32(asInt64(version)) + 1\<close> at its width.\<close>

definition next_version :: "(float64 \<Rightarrow> int) \<Rightarrow> goval \<Rightarrow> goval" where
  "next_version wild v = VInt32 (to_int32 (to_int32 (asInt64 wild v) + 1))"

definition rs_Config :: "ReplicaSet \<Rightarrow> world \<Rightarrow> goerror + (string \<times> goval) list \<Rightarrow> (goval \<Rightarrow> string) \<Rightarrow>
    goerror + (string \<times> goval) list" where
  "rs_Config rs w reply fmt =
     (case Primary rs w of Inl err \<Rightarrow> Inl err
      | Inr p \<Rightarrow>
          (case reply of
             Inl err \<Rightarrow> Inl (ErrWrap ''replSetGetConfig: '' err)
           | Inr res \<Rightarrow>
               (case as_document (key res ''config'') of
                  Some cfg \<Rightarrow> Inr cfg
                | None \<Rightarrow> Inl (ErrText (''replSetGetConfig returned no config: '' @ fmt (VMap res))))))"

text \<open>What Reconfig sends, if it gets that far, and its error; \<open>sent\<close> is the server's answer.\<close>

definition Reconfig where
  "Reconfig wild rs w reply fmt mutate w' sent =
     (case rs_Config rs w reply fmt of Inl err \<Rightarrow> (None, Some err)
      | Inr cfg \<Rightarrow>
          (case mutate cfg of Inl err \<Rightarrow> (None, Some err)
           | Inr cfg \<Rightarrow>
               let cfg = AList.update ''version'' (next_version wild (key cfg ''version'')) cfg in
               (case Primary rs w' of Inl err \<Rightarrow> (None, Some err)
                | Inr p \<Rightarrow> (Some cfg, map_option (ErrWrap ''replSetReconfig: '') (sent cfg)))))"

text \<open>Changing the first member with an address, leaving the others.\<close>

fun mutate_member :: "string \<Rightarrow> ((string \<times> goval) list \<Rightarrow> goerror + (string \<times> goval) list) \<Rightarrow>
    goval list \<Rightarrow> (goerror + goval list) option" where
  "mutate_member addr mutate [] = None"
| "mutate_member addr mutate (v # vs) =
     (case as_document v of
        Some d \<Rightarrow>
          if asString (key d ''host'') = addr
          then Some (map_sum id (\<lambda>d. VMap d # vs) (mutate d))
          else map_option (map_sum id ((#) v)) (mutate_member addr mutate vs)
      | None \<Rightarrow> map_option (map_sum id ((#) v)) (mutate_member addr mutate vs))"

definition reconfigure_member :: "string \<Rightarrow> string \<Rightarrow>
    ((string \<times> goval) list \<Rightarrow> goerror + (string \<times> goval) list) \<Rightarrow>
    (string \<times> goval) list \<Rightarrow> goerror + (string \<times> goval) list" where
  "reconfigure_member name addr mutate cfg =
     (case mutate_member addr mutate (asArray (key cfg ''members'')) of
        None \<Rightarrow> Inl (ErrText (''member '' @ addr @ '' is not in the configuration of '' @ name))
      | Some (Inl err) \<Rightarrow> Inl err
      | Some (Inr members) \<Rightarrow> Inr (AList.update ''members'' (VArr members) cfg))"

definition ReconfigMember where
  "ReconfigMember wild rs w reply fmt addr mutate w' sent =
     Reconfig wild rs w reply fmt (reconfigure_member (rset_Name rs) addr mutate) w' sent"

end
