(* ===== verification/Converge.thy ===== *)
theory Converge
  imports OpTimes ReplicaWaits
begin

text \<open>
  Waiting until members of a replica set have caught up (src/harness/converge.go). A member's
  answer is read with \<open>Progress\<close>; a pass asks every address in turn, each with its own world
  (\<open>ask i k\<close> is the world met by the \<open>k\<close>-th address of pass \<open>i\<close>), and keeps a sample per address;
  the loop ends when one pass finds them all at the watermark. Wall-clock fields that are only
  carried along are left out.
\<close>

section \<open>Progress\<close>

record MemberProgress =
  mp_Addr :: string
  mp_State :: string
  mp_Applied :: OpTime
  mp_Durable :: OpTime
  mp_Written :: OpTime

definition MemberProgress_String :: "MemberProgress \<Rightarrow> string" where
  "MemberProgress_String p = mp_Addr p @ '' state='' @ mp_State p @ '' applied='' @
     OpTime_String (mp_Applied p) @ '' durable='' @ OpTime_String (mp_Durable p)"

definition selfMember :: "(string \<times> goval) list \<Rightarrow> (string \<times> goval) list option" where
  "selfMember status = find (\<lambda>d. as_true (key d ''self''))
     (List.map_filter as_document (asArray (key status ''members'')))"

definition Progress :: "(float64 \<Rightarrow> int) \<Rightarrow> world \<Rightarrow> string \<Rightarrow> MemberProgress \<times> goerror option" where
  "Progress wild w addr =
     (let out = \<lparr>mp_Addr = addr, mp_State = ''<unreachable>'', mp_Applied = zero_optime,
                 mp_Durable = zero_optime, mp_Written = zero_optime\<rparr> in
      case wd_status w addr of
        Inl err \<Rightarrow> (out, Some (ErrWrap (addr @ '': '') err))
      | Inr status \<Rightarrow>
          let named = asString (key status ''myState'');
              out = out\<lparr>mp_State := (if named = [] then stateName (asInt64 wild (key status ''myState''))
                                     else named)\<rparr>;
              out = (case as_document (key status ''optimes'') of
                       None \<Rightarrow> out
                     | Some o1 \<Rightarrow> out\<lparr>mp_Applied := readOpTime wild (key o1 ''appliedOpTime''),
                                     mp_Durable := readOpTime wild (key o1 ''durableOpTime''),
                                     mp_Written := readOpTime wild (key o1 ''writtenOpTime'')\<rparr>);
              out = (if IsZero (mp_Applied out)
                     then case selfMember status of
                            None \<Rightarrow> out
                          | Some self \<Rightarrow> out\<lparr>mp_Applied := readOpTime wild (key self ''optime'')\<rparr>
                     else out);
              out = (if IsZero (mp_Written out) then out\<lparr>mp_Written := mp_Applied out\<rparr> else out)
          in (out, None))"

definition maxPollBudget :: duration where "maxPollBudget = 2000000000"

definition pollBudget :: "int \<Rightarrow> int \<Rightarrow> duration" where
  "pollBudget now deadline =
     (let remaining = deadline - now in
      if remaining \<le> 0 then 1000000
      else if remaining < maxPollBudget then remaining else maxPollBudget)"

lemma pollBudget_bounds: "0 < pollBudget now deadline \<and> pollBudget now deadline \<le> 2000000000"
  by (simp add: pollBudget_def maxPollBudget_def Let_def)

text \<open>The watermark: the primary found in one world, its position read in the next.\<close>

definition Watermark :: "(float64 \<Rightarrow> int) \<Rightarrow> ReplicaSet \<Rightarrow> world \<Rightarrow> world \<Rightarrow> goerror + OpTime" where
  "Watermark wild rs w w' =
     (case Primary rs w of Inl err \<Rightarrow> Inl err
      | Inr primary \<Rightarrow>
          (case Progress wild w' (mb_Addr primary) of
             (p, Some err) \<Rightarrow> Inl err
           | (p, None) \<Rightarrow>
               if IsZero (mp_Applied p)
               then Inl (ErrText (''primary '' @ mb_Addr primary @ '' reports no applied optime''))
               else Inr (mp_Applied p)))"

section \<open>Waiting until all have caught up\<close>

record memberSample =
  ms_progress :: MemberProgress
  ms_err :: "goerror option"
  ms_first :: OpTime
  ms_samples :: int

definition take_sample :: "MemberProgress \<Rightarrow> goerror option \<Rightarrow> memberSample option \<Rightarrow> memberSample" where
  "take_sample progress err previous =
     (let sample = (case previous of
            Some prev \<Rightarrow> \<lparr>ms_progress = progress, ms_err = err, ms_first = ms_first prev,
                          ms_samples = ms_samples prev + 1\<rparr>
          | None \<Rightarrow> \<lparr>ms_progress = progress, ms_err = err, ms_first = mp_Applied progress,
                     ms_samples = 1\<rparr>)
      in if IsZero (ms_first sample) then sample\<lparr>ms_first := mp_Applied progress\<rparr> else sample)"

type_synonym samples = "(string \<times> memberSample) list"

definition caught_up :: "OpTime \<Rightarrow> MemberProgress \<times> goerror option \<Rightarrow> bool" where
  "caught_up watermark answer \<longleftrightarrow>
     snd answer = None \<and> Compare (mp_Applied (fst answer)) watermark \<ge> 0"

fun sample_all :: "(nat \<Rightarrow> string \<Rightarrow> MemberProgress \<times> goerror option) \<Rightarrow> OpTime \<Rightarrow> nat \<Rightarrow>
    string list \<Rightarrow> nat \<times> samples \<Rightarrow> nat \<times> samples" where
  "sample_all ask watermark k [] acc = acc"
| "sample_all ask watermark k (addr # addrs) (caughtUp, prev) =
     (let answer = ask k addr;
          sample = take_sample (fst answer) (snd answer) (map_of prev addr)
      in sample_all ask watermark (Suc k) addrs
           (if caught_up watermark answer then caughtUp + 1 else caughtUp,
            AList.update addr sample prev))"

definition converge_pass :: "(nat \<Rightarrow> nat \<Rightarrow> string \<Rightarrow> MemberProgress \<times> goerror option) \<Rightarrow> OpTime \<Rightarrow>
    string list \<Rightarrow> nat \<Rightarrow> samples \<Rightarrow> OpTime + samples" where
  "converge_pass ask watermark addrs i prev =
     (case sample_all (ask i) watermark 0 addrs (0, prev) of
        (caughtUp, samples) \<Rightarrow> if caughtUp = length addrs then Inl watermark else Inr samples)"

text \<open>The report of a timeout: one line per address, in order.\<close>

definition member_line :: "OpTime \<Rightarrow> samples \<Rightarrow> string \<Rightarrow> string" where
  "member_line watermark samples addr =
     (case map_of samples addr of
        None \<Rightarrow> ''  '' @ addr @ '' was never sampled''
      | Some sample \<Rightarrow>
          let p = ms_progress sample; applied = OpTime_String (mp_Applied p) in
          case ms_err sample of
            Some err \<Rightarrow> ''  '' @ addr @ '' is not answering replSetGetStatus ('' @ error_text err @
              ''); last known position '' @ applied @ '', state '' @ mp_State p
          | None \<Rightarrow>
              if IsZero (mp_Applied p)
              then ''  '' @ addr @ '' reports NO progress at all (applied optime is zero), state '' @
                mp_State p @ '' -- it is not replicating, not merely lagging''
              else if Compare (mp_Applied p) watermark \<ge> 0
              then ''  '' @ addr @ '' reported reaching '' @ applied @
                '', but not in the same pass as the others''
              else
                let movement =
                  (if Compare (mp_Applied p) (ms_first sample) > 0
                   then ''and it advanced from '' @ OpTime_String (ms_first sample) @
                     '' while waiting, so it is slow rather than stuck; the budget may simply be too short for this hardware''
                   else ''and it did not advance at all while waiting, so it is stuck rather than slow'')
                in ''  '' @ addr @ '' applied '' @ applied @ '', '' @
                   itoa (uint (ot_Seconds watermark) - uint (ot_Seconds (mp_Applied p))) @
                   '' seconds behind the watermark, state '' @ mp_State p @ '', '' @ movement @ '' ('' @
                   itoa (ms_samples sample) @ '' samples)'')"

definition convergenceTimeout :: "(duration \<Rightarrow> string) \<Rightarrow> OpTime \<Rightarrow> duration \<Rightarrow> string list \<Rightarrow> samples \<Rightarrow> goerror" where
  "convergenceTimeout dtoa watermark timeout addrs samples =
     (let lines = map (member_line watermark samples) (sort addrs);
          lines = (if lines = [] then [''  (no members were named, which is itself a harness bug)''] else lines)
      in ErrText (''members did not converge on '' @ OpTime_String watermark @ '' within '' @ dtoa timeout @
                  '':'' @ [CHR 0x0A] @ join [CHR 0x0A] lines))"

definition converge_addrs :: "ReplicaSet \<Rightarrow> string list \<Rightarrow> string list" where
  "converge_addrs rs addrs = (if length addrs = 0 then map mb_Addr (rset_Members rs) else addrs)"

text \<open>The loop returns its watermark with the timeout's error, if it times out.\<close>

definition WaitConverged where
  "WaitConverged wild dtoa rs w w' ask clock start timeout addrs =
     (let addrs = converge_addrs rs addrs in
      case Watermark wild rs w w' of
        Inl err \<Rightarrow> Some (zero_optime, Some err)
      | Inr watermark \<Rightarrow>
          map_option (\<lambda>q. case q of
              Inl reached \<Rightarrow> (reached, None)
            | Inr samples \<Rightarrow> (watermark, Some (convergenceTimeout dtoa watermark timeout addrs samples)))
            (poll clock (start + timeout)
               (converge_pass (\<lambda>i k. Progress wild (ask i k)) watermark addrs) 0 []))"

section \<open>The pass keeps the polling contract\<close>

definition all_caught_up :: "(nat \<Rightarrow> string \<Rightarrow> MemberProgress \<times> goerror option) \<Rightarrow> OpTime \<Rightarrow>
    string list \<Rightarrow> bool" where
  "all_caught_up ask watermark addrs \<longleftrightarrow>
     list_all (\<lambda>(k, addr). caught_up watermark (ask k addr)) (enumerate 0 addrs)"

lemma sample_all_counts:
  "fst (sample_all ask watermark k addrs (n, prev)) =
     n + length (filter (\<lambda>(k, addr). caught_up watermark (ask k addr)) (enumerate k addrs))"
  by (induction addrs arbitrary: k n prev) (auto simp: Let_def)

lemma sample_all_complete:
  "fst (sample_all ask watermark 0 addrs (0, prev)) = length addrs \<longleftrightarrow>
     all_caught_up ask watermark addrs"
  using length_filter_all_iff[of "\<lambda>(k, addr). caught_up watermark (ask k addr)" "enumerate 0 addrs"]
  by (simp add: sample_all_counts all_caught_up_def list_all_iff)

interpretation converging: poll_loop "converge_pass ask watermark addrs"
  "\<lambda>i. all_caught_up (ask i) watermark addrs" "\<lambda>i. watermark" for ask watermark addrs
  by unfold_locales
    (simp_all add: converge_pass_def case_prod_beta sample_all_complete)

section \<open>Properties\<close>

text \<open>C29: Waiting for convergence returns, and means what it says. When every pass sleeps, the wait
  returns on every server behaviour; it returns without an error exactly when some pass before the
  deadline found every named member (all members if none is named) answering and at or past the
  watermark; and the position it returns is the primary's applied position.\<close>

theorem WaitConverged_decides:
  assumes "sleeps d clock" and "Watermark wild rs w w' = Inr watermark"
  shows "\<exists>r. WaitConverged wild dtoa rs w w' ask clock start timeout addrs = Some (watermark, r) \<and>
    (r = None \<longleftrightarrow> (\<exists>i. clock i < start + timeout \<and>
       all_caught_up (\<lambda>k. Progress wild (ask i k)) watermark (converge_addrs rs addrs)))"
proof -
  let ?ask = "\<lambda>i k. Progress wild (ask i k)" and ?as = "converge_addrs rs addrs"
  let ?p = "poll clock (start + timeout) (converge_pass ?ask watermark ?as) 0 []"
  obtain q where q: "?p = Some q" using poll_returns[OF assms(1), of _ "converge_pass ?ask watermark ?as" 0 "[]"] by blast
  note iff = converging.ends_iff[OF assms(1), of "start + timeout" ?ask watermark ?as "[]"]
  show ?thesis
  proof (cases q)
    case (Inl r)
    then have "r = watermark" using converging.returned[OF assms(1)] q by blast
    then show ?thesis using q Inl iff by (auto simp: WaitConverged_def assms(2) Let_def)
  next
    case (Inr s)
    then show ?thesis using q iff by (auto simp: WaitConverged_def assms(2) Let_def)
  qed
qed

definition demo_world :: "OpTime \<Rightarrow> world" where
  "demo_world at_time =
     (let ot = VMap [(''ts'', VTimestamp (uint (ot_Seconds at_time)) (uint (ot_Increment at_time))),
                     (''t'', VInt64 (ot_Term at_time))];
          status = [(''myState'', VInt32 1), (''optimes'', VMap [(''appliedOpTime'', ot)]),
                    (''members'', VArr [VMap [(''name'', VString ''a''), (''stateStr'', VString ''PRIMARY'')]])]
      in \<lparr>wd_status = (\<lambda>addr. Inr status),
          wd_hello = (\<lambda>addr. Inr [(''isWritablePrimary'', VBool True)])\<rparr>)"

definition demo_set :: ReplicaSet where
  "demo_set = \<lparr>rset_Name = ''rs'', rset_Members = [\<lparr>mb_ID = 0, mb_Addr = ''a'', mb_URI = ''mongodb://a'',
     mb_running = True\<rparr>], rset_pool = []\<rparr>"

theorem WaitConverged_decides_witness:
  "\<exists>r. WaitConverged (\<lambda>f. 0) itoa demo_set (demo_world (OpTime 5 1 1)) (demo_world (OpTime 5 1 1))
     (\<lambda>i k. demo_world (OpTime 4 9 1)) (\<lambda>i. 200 * int i) 0 1000 [] = Some (OpTime 5 1 1, r) \<and> r \<noteq> None"
proof -
  let ?early = "demo_world (OpTime 4 9 1)"
  have s: "sleeps 200 (\<lambda>i. 200 * int i)" by (simp add: sleeps_def)
  have m: "Watermark (\<lambda>f. 0) demo_set (demo_world (OpTime 5 1 1)) (demo_world (OpTime 5 1 1))
      = Inr (OpTime 5 1 1)" by code_simp
  have "\<not> all_caught_up (\<lambda>k. Progress (\<lambda>f. 0) ?early) (OpTime 5 1 1) (converge_addrs demo_set [])"
    by code_simp
  with WaitConverged_decides[OF s m, where dtoa = itoa and ask = "\<lambda>i k. ?early" and start = 0
      and timeout = 1000 and addrs = "[]"]
  show ?thesis by auto
qed

end
