(* ===== verification/StateCompare.thy ===== *)
theory StateCompare
  imports Compare
begin

text \<open>
  Comparing the captured state of two servers (src/harness/statecompare.go). A raw BSON value is
  the tree of its elements; scalars are their type byte and value bytes, and bytes that do not
  parse as a document or array are kept apart, since the code reports them. \<open>RawValue.Equal\<close>
  compares type and bytes, which is equality of trees. The names of types and the extended-JSON
  text of a value come from the driver.
\<close>

datatype braw =
    RDoc "(string \<times> braw) list"
  | RArr "braw list"
  | RScalar nat "byte list"
  | RBadDoc "byte list"
  | RBadArr "byte list"

fun raw_type :: "braw \<Rightarrow> nat" where
  "raw_type (RDoc d) = 3"
| "raw_type (RBadDoc b) = 3"
| "raw_type (RArr xs) = 4"
| "raw_type (RBadArr b) = 4"
| "raw_type (RScalar t b) = t"

record raw_printers =
  rp_type :: "nat \<Rightarrow> string"
  rp_value :: "braw \<Rightarrow> string"

text \<open>One choice of the printers, to run the comparison with.\<close>

definition plain_raw_printers :: raw_printers where
  "plain_raw_printers = \<lparr>rp_type = ntoa, rp_value = (\<lambda>v. ''value of type '' @ ntoa (raw_type v))\<rparr>"

record Divergence =
  dv_Path :: string
  dv_Detail :: string

definition divergence :: "string \<Rightarrow> string \<Rightarrow> Divergence" where
  "divergence p d = \<lparr>dv_Path = p, dv_Detail = d\<rparr>"

definition Divergence_String :: "Divergence \<Rightarrow> string" where
  "Divergence_String d = dv_Path d @ '': '' @ dv_Detail d"

record CollectionState =
  co_Options :: braw
  co_Indexes :: "(string \<times> braw) list"
  co_Documents :: "(string \<times> braw) list"

type_synonym DatabaseState = "(string \<times> CollectionState) list"

record ServerState =
  st_Source :: string
  st_Databases :: "(string \<times> DatabaseState) list"

text \<open>A Go map is an association list with distinct keys.\<close>

definition sortedKeys :: "(string \<times> 'a) list \<Rightarrow> (string \<times> 'b) list \<Rightarrow> string list" where
  "sortedKeys a b = sort (remdups (map fst a @ map fst b))"

lemma set_sortedKeys [simp]: "set (sortedKeys a b) = fst ` set a \<union> fst ` set b"
  by (simp add: sortedKeys_def)

section \<open>Raw values\<close>

text \<open>The first divergence of a loop that returns early.\<close>

fun first_divergence :: "('a \<Rightarrow> Divergence option) \<Rightarrow> 'a list \<Rightarrow> Divergence option" where
  "first_divergence f [] = None"
| "first_divergence f (x # xs) = (case f x of Some d \<Rightarrow> Some d | None \<Rightarrow> first_divergence f xs)"

lemma first_divergence_None: "first_divergence f xs = None \<longleftrightarrow> (\<forall>x \<in> set xs. f x = None)"
  by (induction xs) (auto split: option.splits)

definition type_mismatch :: "raw_printers \<Rightarrow> string \<Rightarrow> braw \<Rightarrow> braw \<Rightarrow> Divergence" where
  "type_mismatch pr path a b =
     divergence path (''type '' @ rp_type pr (raw_type a) @ '' != '' @ rp_type pr (raw_type b) @
       '' (values '' @ rp_value pr a @ '', '' @ rp_value pr b @ '')'')"

definition field_divergence ::
    "raw_printers \<Rightarrow> string \<Rightarrow> bool \<Rightarrow> (string \<times> braw) list \<Rightarrow> (string \<times> braw) list \<Rightarrow>
     (string \<times> (string \<Rightarrow> braw \<Rightarrow> Divergence option)) list \<Rightarrow> string \<Rightarrow> Divergence option" where
  "field_divergence pr path isRoot a b walks key =
     (let child = path @ ''.'' @ key in
      case (map_of (rev a) key, map_of (rev b) key) of
        (_, None) \<Rightarrow> Some (divergence child ''field missing on the second server'')
      | (None, _) \<Rightarrow> Some (divergence child ''field missing on the first server'')
      | (Some va, Some vb) \<Rightarrow>
          if isRoot \<and> key = ''_id'' \<and> raw_type va = 3
          then (if va \<noteq> vb
                then Some (divergence child (''_id documents differ including field order: '' @
                       rp_value pr va @ '' != '' @ rp_value pr vb))
                else None)
          else the (map_of (rev walks) key) child vb)"

primrec compareRawValue :: "raw_printers \<Rightarrow> braw \<Rightarrow> bool \<Rightarrow> string \<Rightarrow> braw \<Rightarrow> Divergence option" where
  "compareRawValue pr (RDoc a) isRoot path v =
     (case v of
        RDoc b \<Rightarrow>
          first_divergence
            (field_divergence pr path isRoot a b
               (map (map_prod id (\<lambda>x. compareRawValue pr x False)) a))
            (sortedKeys a b)
      | RBadDoc b \<Rightarrow> Some (divergence path ''malformed embedded document'')
      | _ \<Rightarrow> Some (type_mismatch pr path (RDoc a) v))"
| "compareRawValue pr (RArr xs) isRoot path v =
     (case v of
        RArr ys \<Rightarrow>
          (if length xs \<noteq> length ys
           then Some (divergence path (''array length '' @ ntoa (length xs) @ '' != '' @
                        ntoa (length ys)))
           else first_divergence
             (\<lambda>(i, walk, y). walk (path @ ''['' @ ntoa i @ '']'') y)
             (zip [0..<length xs] (zip (map (\<lambda>x. compareRawValue pr x False) xs) ys)))
      | RBadArr b \<Rightarrow> Some (divergence path ''malformed array'')
      | _ \<Rightarrow> Some (type_mismatch pr path (RArr xs) v))"
| "compareRawValue pr (RScalar t b) isRoot path v =
     (if t \<noteq> raw_type v then Some (type_mismatch pr path (RScalar t b) v)
      else if RScalar t b \<noteq> v
      then Some (divergence path (rp_value pr (RScalar t b) @ '' != '' @ rp_value pr v))
      else None)"
| "compareRawValue pr (RBadDoc a) isRoot path v =
     (if raw_type v \<noteq> 3 then Some (type_mismatch pr path (RBadDoc a) v)
      else Some (divergence path ''malformed embedded document''))"
| "compareRawValue pr (RBadArr a) isRoot path v =
     (if raw_type v \<noteq> 4 then Some (type_mismatch pr path (RBadArr a) v)
      else Some (divergence path ''malformed array''))"

definition compareRawDocuments ::
    "raw_printers \<Rightarrow> string \<Rightarrow> braw \<Rightarrow> braw \<Rightarrow> Divergence option" where
  "compareRawDocuments pr path a b = compareRawValue pr a True path b"

section \<open>Collections, databases, servers\<close>

text \<open>Dropping the index version; decoding a value and encoding it again gives it back.\<close>

fun stripIndexVersion :: "braw \<Rightarrow> braw" where
  "stripIndexVersion (RDoc d) = RDoc (filter (\<lambda>(k, v). k \<noteq> ''v'') d)"
| "stripIndexVersion v = v"

definition lookup_id :: "braw option \<Rightarrow> braw option" where
  "lookup_id r = (case r of Some (RDoc d) \<Rightarrow> map_of d ''_id'' | _ \<Rightarrow> None)"

definition describeID :: "raw_printers \<Rightarrow> braw option \<Rightarrow> braw option \<Rightarrow> string" where
  "describeID pr a b =
     (case lookup_id a of Some v \<Rightarrow> rp_value pr v
      | None \<Rightarrow> (case lookup_id b of Some v \<Rightarrow> rp_value pr v | None \<Rightarrow> ''<unknown>''))"

definition hex2 :: "nat \<Rightarrow> string" where
  "hex2 n = [hex_digit (n div 16 mod 16), hex_digit (n mod 16)]"

definition documentKey :: "nat \<Rightarrow> byte list \<Rightarrow> string" where
  "documentKey t bytes = hex2 t @ '':'' @ hex_bytes bytes"

definition absent_on :: "string \<Rightarrow> string \<Rightarrow> string \<Rightarrow> string \<Rightarrow> Divergence" where
  "absent_on path kind present absent =
     divergence path (kind @ '' present on '' @ present @ '', absent on '' @ absent)"

text \<open>The three-way switch every level makes over the sorted union of the keys.\<close>

definition diff_maps :: "(string \<Rightarrow> string \<times> string) \<Rightarrow> string \<Rightarrow> string \<Rightarrow>
    (string \<Rightarrow> 'a \<Rightarrow> 'a \<Rightarrow> Divergence list) \<Rightarrow> (string \<times> 'a) list \<Rightarrow> (string \<times> 'a) list \<Rightarrow>
    Divergence list" where
  "diff_maps label wantSrc gotSrc diff want got =
     concat (map (\<lambda>name. case (map_of want name, map_of got name) of
         (_, None) \<Rightarrow> [absent_on (fst (label name)) (snd (label name)) wantSrc gotSrc]
       | (None, _) \<Rightarrow> [absent_on (fst (label name)) (snd (label name)) gotSrc wantSrc]
       | (Some w, Some g) \<Rightarrow> diff name w g)
       (sortedKeys want got))"

definition to_list :: "'a option \<Rightarrow> 'a list" where
  "to_list x = (case x of None \<Rightarrow> [] | Some a \<Rightarrow> [a])"

definition diffCollection :: "raw_printers \<Rightarrow> string \<Rightarrow> string \<Rightarrow> string \<Rightarrow> CollectionState \<Rightarrow>
    CollectionState \<Rightarrow> Divergence list" where
  "diffCollection pr wantSrc gotSrc ns want got =
     to_list (compareRawDocuments pr (ns @ '' options'') (co_Options want) (co_Options got)) @
     diff_maps (\<lambda>name. (ns @ '' index '' @ name, ''index'')) wantSrc gotSrc
       (\<lambda>name w g. to_list (compareRawDocuments pr (ns @ '' index '' @ name)
                              (stripIndexVersion w) (stripIndexVersion g)))
       (co_Indexes want) (co_Indexes got) @
     diff_maps
       (\<lambda>key. (ns @ '' _id='' @ describeID pr (map_of (co_Documents want) key)
                                  (map_of (co_Documents got) key), ''document''))
       wantSrc gotSrc
       (\<lambda>key w g. to_list (compareRawDocuments pr (ns @ '' _id='' @ describeID pr (Some w) (Some g)) w g))
       (co_Documents want) (co_Documents got)"

definition diffDatabase :: "raw_printers \<Rightarrow> string \<Rightarrow> string \<Rightarrow> string \<Rightarrow> DatabaseState \<Rightarrow>
    DatabaseState \<Rightarrow> Divergence list" where
  "diffDatabase pr wantSrc gotSrc dbName want got =
     diff_maps (\<lambda>name. (dbName @ ''.'' @ name, ''collection'')) wantSrc gotSrc
       (\<lambda>name w g. diffCollection pr wantSrc gotSrc (dbName @ ''.'' @ name) w g) want got"

definition DiffServerState :: "raw_printers \<Rightarrow> ServerState \<Rightarrow> ServerState \<Rightarrow> Divergence list" where
  "DiffServerState pr want got =
     diff_maps (\<lambda>dbName. (dbName, ''database'')) (st_Source want) (st_Source got)
       (\<lambda>dbName w g. diffDatabase pr (st_Source want) (st_Source got) dbName w g)
       (st_Databases want) (st_Databases got)"

end
