(* ===== verification/ReplicaCase.thy ===== *)
theory ReplicaCase
  imports ParityReport Converge StateCompare
begin

text \<open>
  Grading a replication case (src/harness/replicacase.go): the control (a stock secondary must
  converge and match the primary) before the subject, and the subject's state against the
  reference's. What the members and the case's own functions return is a record of arguments, in
  the order the test asks for it.
\<close>

section \<open>Parts\<close>

definition formatDivergences :: "Divergence list \<Rightarrow> string" where
  "formatDivergences ds =
     itoa (int (length ds)) @ '' divergence(s):'' @ [CHR 0x0A] @
     concat (map (\<lambda>d. ''  '' @ Divergence_String d @ [CHR 0x0A]) (take 20 ds)) @
     (if 20 < length ds
      then ''  ... and '' @ itoa (int (length ds) - 20) @ '' more'' @ [CHR 0x0A] else [])"

definition fatal_on :: "string \<Rightarrow> goerror option \<Rightarrow> unit tst" where
  "fatal_on text err = (case err of Some e \<Rightarrow> t_Fatalf (text @ error_text e) | None \<Rightarrow> t_return ())"

definition fatal_sum :: "string \<Rightarrow> goerror + 'a \<Rightarrow> 'a tst" where
  "fatal_sum text r = (case r of Inl e \<Rightarrow> t_Fatalf (text @ error_text e) | Inr x \<Rightarrow> t_return x)"

text \<open>How a case's Assert ends.\<close>

datatype assertion_end = Returned | Stopped | Panicked string

text \<open>What the set, the subject and the case return; an option of an error is a function the case
  may leave out (\<open>None\<close>) and its result.\<close>

record replica_inputs =
  ri_Name :: string
  ri_Support :: DumboDBSupport
  ri_Members :: int
  ri_Primary :: "goerror option"
  ri_PrimaryClient :: "goerror option"
  ri_Seed :: "goerror option option"
  ri_SeedConverged :: "goerror option"
  ri_Join :: "goerror option"
  ri_Primary2 :: "goerror option"
  ri_PrimaryClient2 :: "goerror option"
  ri_During :: "goerror option option"
  ri_Startup2 :: "goerror option"
  ri_Secondary :: "goerror option"
  ri_CaseSetup :: "goerror option option"
  ri_Workload :: "goerror option option"
  ri_Reference :: "goerror option"
  ri_ControlConverged :: "goerror + OpTime"
  ri_PrimaryState :: "goerror + ServerState"
  ri_ReferenceState :: "goerror + ServerState"
  ri_Commit :: "goerror + string"
  ri_SubjectConverged :: "goerror option"
  ri_Heartbeat :: string
  ri_SubjectState :: "goerror + ServerState"
  ri_Clients :: "string \<Rightarrow> string \<times> goerror option"
  ri_Assert :: "(tstate \<Rightarrow> assertion_end \<times> tstate) option"

definition has_subject :: "replica_inputs \<Rightarrow> bool" where
  "has_subject i \<longleftrightarrow> ri_Support i \<noteq> DumboDBMongoOnly"

text \<open>Capturing one member by role, through a client of its own (\<open>ri_Clients\<close>: its address and
  why there is none).\<close>

definition captureOrFail :: "replica_inputs \<Rightarrow> string \<Rightarrow> goerror + ServerState \<Rightarrow> ServerState tst" where
  "captureOrFail i role state =
     t_bind (fatal_on (role @ '' client '' @ fst (ri_Clients i role) @ '': '') (snd (ri_Clients i role)))
       (\<lambda>u. fatal_sum (''capturing '' @ role @ '' state: '') state)"

section \<open>The control\<close>

definition runControl :: "raw_printers \<Rightarrow> replica_inputs \<Rightarrow> (OpTime \<times> ServerState \<times> ServerState) tst" where
  "runControl pr i =
     t_bind (fatal_sum (ri_Name i @ '': CONTROL FAILED, a stock mongod secondary did not converge. The apparatus is broken, not the subject.'' @ [CHR 0x0A])
               (ri_ControlConverged i)) (\<lambda>watermark.
     t_bind (captureOrFail i ''primary'' (ri_PrimaryState i)) (\<lambda>primary.
     t_bind (captureOrFail i ''reference'' (ri_ReferenceState i)) (\<lambda>reference.
       let d = DiffServerState pr primary reference in
       if length d > 0
       then t_Fatalf (ri_Name i @ '': CONTROL FAILED, the reference secondary does not match the primary. The apparatus is broken, not the subject.'' @ [CHR 0x0A] @ formatDivergences d)
       else t_return (watermark, primary, reference))))"

section \<open>The subject\<close>

definition replica_result :: "replica_inputs \<Rightarrow> TestStatus \<Rightarrow> string \<Rightarrow> TestResult" where
  "replica_result i status diff = \<lparr>te_Name = ri_Name i, te_Status = status, te_Diff = diff\<rparr>"

text \<open>Why the subject fails, if it does (the empty text otherwise), and whether its state was
  captured.\<close>

definition subject_failure :: "raw_printers \<Rightarrow> replica_inputs \<Rightarrow> ServerState \<Rightarrow> (string \<times> bool) tst" where
  "subject_failure pr i reference =
     (case ri_SubjectConverged i of
        Some err \<Rightarrow> t_return (error_text err @ ri_Heartbeat i, False)
      | None \<Rightarrow>
          t_bind (captureOrFail i ''subject'' (ri_SubjectState i)) (\<lambda>subject.
            let d = DiffServerState pr reference subject in
            t_return (if length d > 0 then formatDivergences d else [], True)))"

definition grade_failure :: "replica_inputs \<Rightarrow> string \<Rightarrow> string \<Rightarrow> TestResult tst" where
  "grade_failure i label failure =
     (case ri_Support i of
        DumboDBFull \<Rightarrow>
          (if failure = []
           then t_bind (t_Logf (''FULL '' @ label @ '': PASS'')) (\<lambda>u. t_return (replica_result i StatusPass []))
           else t_bind (t_Errorf (''FULL '' @ label @ '': DIVERGE'' @ [CHR 0x0A] @ failure))
                  (\<lambda>u. t_return (replica_result i StatusFail failure)))
      | DumboDBXFail \<Rightarrow>
          (if failure = []
           then t_bind (t_Errorf (''XPASS '' @ label @ '': the subject now matches the reference -- promote this case to DumboDBFull''))
                  (\<lambda>u. t_return (replica_result i StatusXPass []))
           else t_bind (t_Logf (''XFAIL '' @ label @ '': diverged as expected'' @ [CHR 0x0A] @ failure))
                  (\<lambda>u. t_return (replica_result i StatusXFail failure)))
      | _ \<Rightarrow> t_Fatalf (ri_Name i @ '': unsupported DumboDBSupport level for a replication case''))"

definition gradeSubject :: "raw_printers \<Rightarrow> replica_inputs \<Rightarrow> string \<Rightarrow> ServerState \<Rightarrow> (TestResult \<times> bool) tst" where
  "gradeSubject pr i commit reference =
     t_bind (subject_failure pr i reference) (\<lambda>(failure, captured).
     t_bind (grade_failure i (ri_Name i @ '' (dumbodb '' @ commit @ '')'') failure) (\<lambda>r.
       t_return (r, captured)))"

text \<open>Running the case's Assert: a panic is contained and fails the case.\<close>

definition finish :: "replica_inputs \<Rightarrow> bool \<Rightarrow> TestResult \<Rightarrow> TestResult tst" where
  "finish i captured result =
     (case ri_Assert i of
        None \<Rightarrow> t_return result
      | Some check \<Rightarrow> (\<lambda>st.
          case check st of
            (Returned, st) \<Rightarrow> (Some result, st)
          | (Stopped, st) \<Rightarrow> (None, st)
          | (Panicked what, st) \<Rightarrow>
              let detail = ''Assert panicked: '' @ what @
                    (if captured then [] else [CHR 0x0A] @
                     ''(res.Subject is nil: the subject did not converge, and gradeSubject has already recorded why)'')
              in t_bind (t_Errorf (ri_Name i @ '': '' @ detail))
                   (\<lambda>u. t_return (replica_result i StatusFail detail)) st))"

section \<open>The whole case\<close>

text \<open>Until the workload is done: seeding, joining, cloning, setup. The join itself is fatal on
  failure.\<close>

definition before_workload :: "replica_inputs \<Rightarrow> unit tst" where
  "before_workload i =
     (let name = ri_Name i in
      t_bind (if ri_Members i < 2
              then t_Fatalf (name @ '': need at least 2 mongod members for a primary and a reference secondary, got '' @ itoa (ri_Members i))
              else t_return ()) (\<lambda>u.
      t_bind (fatal_on (name @ '': '') (ri_Primary i)) (\<lambda>u.
      t_bind (fatal_on (name @ '': primary client: '') (ri_PrimaryClient i)) (\<lambda>u.
      t_bind (case ri_Seed i of
                None \<Rightarrow> t_return ()
              | Some err \<Rightarrow>
                  t_bind (fatal_on (name @ '': seeding the primary before the join failed: '') err) (\<lambda>u.
                    fatal_on (name @ '': primary did not settle after seeding: '') (ri_SeedConverged i))) (\<lambda>u.
      t_bind (if has_subject i then fatal_on [] (ri_Join i) else t_return ()) (\<lambda>u.
      t_bind (fatal_on (name @ '': '') (ri_Primary2 i)) (\<lambda>u.
      t_bind (fatal_on (name @ '': primary client: '') (ri_PrimaryClient2 i)) (\<lambda>u.
      t_bind (case ri_During i of
                Some clone \<Rightarrow>
                  (case (has_subject i, ri_Startup2 i) of
                     (True, Some err) \<Rightarrow> t_Logf (name @ '': subject did not report STARTUP2 before DuringClone ('' @
                        error_text err @ ''); the clone may already have finished'')
                   | _ \<Rightarrow> t_return ())
              | None \<Rightarrow>
                  (case (has_subject i, ri_Secondary i) of
                     (True, Some err) \<Rightarrow>
                       if ri_Support i \<noteq> DumboDBXFail
                       then t_Fatalf (name @ '': subject did not reach SECONDARY before the workload, so this case would have exercised initial sync rather than steady-state application: '' @ error_text err)
                       else t_Logf (name @ '': subject did not reach SECONDARY ('' @ error_text err @
                              ''); grading it as the XFail case it is'')
                   | _ \<Rightarrow> t_return ())) (\<lambda>u.
      t_bind (case ri_CaseSetup i of
                None \<Rightarrow> t_return ()
              | Some err \<Rightarrow> fatal_on (name @ '': setup on the primary failed: '') err) (\<lambda>u.
      t_bind (case ri_Workload i of
                None \<Rightarrow> t_Fatalf (name @ '': no workload'')
              | Some err \<Rightarrow> fatal_on (name @ '': workload on the primary failed: '') err) (\<lambda>u.
      t_bind (case ri_During i of
                None \<Rightarrow> t_return ()
              | Some err \<Rightarrow> fatal_on (name @ '': concurrent-with-clone workload failed: '') err) (\<lambda>u.
        fatal_on (name @ '': no reference secondary: '') (ri_Reference i)))))))))))))"

definition subject_commit :: "replica_inputs \<Rightarrow> string tst" where
  "subject_commit i =
     (case ri_Commit i of
        Inr commit \<Rightarrow>
          if commit = [] \<or> commit = ''unknown''
          then t_bind (t_Errorf (ri_Name i @ '': could not read the subject's build commit (buildInfo.gitVersion): <nil>''))
                 (\<lambda>u. t_return ''UNATTRIBUTED'')
          else t_return commit
      | Inl err \<Rightarrow>
          t_bind (t_Errorf (ri_Name i @ '': could not read the subject's build commit (buildInfo.gitVersion): '' @ error_text err))
            (\<lambda>u. t_return ''UNATTRIBUTED''))"

definition ReplicaTest :: "raw_printers \<Rightarrow> replica_inputs \<Rightarrow> TestResult tst" where
  "ReplicaTest pr i =
     t_bind (before_workload i) (\<lambda>u.
     t_bind (runControl pr i) (\<lambda>(watermark, primary, reference).
       if \<not> has_subject i
       then t_bind (t_Logf (''MONGO_ONLY '' @ ri_Name i @ '': control converged on '' @
                      OpTime_String watermark @ '' (subject skipped)''))
              (\<lambda>u. finish i False (replica_result i StatusSkip []))
       else t_bind (subject_commit i) (\<lambda>commit.
            t_bind (gradeSubject pr i commit reference) (\<lambda>(r, captured).
              finish i captured r))))"

section \<open>Properties\<close>

lemma t_bind_Some:
  "t_bind m f st = (Some y, st') \<longleftrightarrow> (\<exists>x st1. m st = (Some x, st1) \<and> f x st1 = (Some y, st'))"
  by (auto simp: t_bind_def split: prod.splits option.splits)

lemma t_simple_Some [simp]:
  "t_return x st = (Some y, st') \<longleftrightarrow> y = x \<and> st' = st"
  "t_Fatalf line st \<noteq> (Some y, st')"
  "t_Logf line st = (Some u, st') \<longleftrightarrow> st' = st\<lparr>ts_log := ts_log st @ [line]\<rparr>"
  "t_Errorf line st = (Some u, st') \<longleftrightarrow> st' = st\<lparr>ts_failed := True, ts_log := ts_log st @ [line]\<rparr>"
  by (auto simp: tst_defs)

lemma fatal_Some:
  "fatal_on text err st = (Some u, st') \<longleftrightarrow> err = None \<and> st' = st"
  "fatal_sum text q st = (Some y, st') \<longleftrightarrow> q = Inr y \<and> st' = st"
  by (auto simp: fatal_on_def fatal_sum_def split: option.split sum.split)

lemma capture_Some:
  "captureOrFail i role state st = (Some y, st') \<longleftrightarrow> snd (ri_Clients i role) = None \<and> state = Inr y \<and> st' = st"
  by (auto simp: captureOrFail_def t_bind_Some fatal_Some)

lemma runControl_Some:
  "runControl pr i st = (Some (w, p, q), st') \<Longrightarrow>
     ri_PrimaryState i = Inr p \<and> ri_ReferenceState i = Inr q \<and> ri_ControlConverged i = Inr w \<and>
     DiffServerState pr p q = [] \<and> st' = st"
  by (auto simp: runControl_def t_bind_Some fatal_Some capture_Some Let_def split: if_splits)

lemma before_workload_Some: "before_workload i st = (Some u, st') \<Longrightarrow> ri_Workload i = Some None"
  by (auto simp: before_workload_def Let_def t_bind_Some fatal_Some split: option.splits)

definition control_ok :: "raw_printers \<Rightarrow> replica_inputs \<Rightarrow> bool" where
  "control_ok pr i \<longleftrightarrow> (case (ri_ControlConverged i, ri_PrimaryState i, ri_ReferenceState i) of
     (Inr w, Inr p, Inr q) \<Rightarrow> DiffServerState pr p q = [] | _ \<Rightarrow> False)"

definition subject_ok :: "raw_printers \<Rightarrow> replica_inputs \<Rightarrow> bool" where
  "subject_ok pr i \<longleftrightarrow> ri_SubjectConverged i = None \<and>
     (case (ri_ReferenceState i, ri_SubjectState i) of
        (Inr q, Inr s) \<Rightarrow> DiffServerState pr q s = [] | _ \<Rightarrow> False)"

lemma formatDivergences_nonempty [simp]: "formatDivergences ds \<noteq> []"
  by (simp add: formatDivergences_def)

lemma subject_failure_Some:
  assumes "subject_failure pr i q st = (Some (failure, captured), st')" and "ri_ReferenceState i = Inr q"
    and "pred_option (\<lambda>e. error_text e \<noteq> []) (ri_SubjectConverged i)"
  shows "failure = [] \<longleftrightarrow> subject_ok pr i"
  using assms
  by (auto simp: subject_failure_def t_bind_Some capture_Some subject_ok_def Let_def
      split: option.splits if_splits)

lemma grade_failure_Some:
  assumes "grade_failure i label failure st = (Some r, st')"
  shows "(te_Status r \<in> {StatusPass, StatusXPass} \<longleftrightarrow> failure = []) \<and>
    te_Status r \<in> {StatusPass, StatusFail, StatusXFail, StatusXPass} \<and>
    (te_Status r \<in> {StatusFail, StatusXPass} \<longrightarrow> ts_failed st') \<and> te_Name r = ri_Name i"
  using assms
  by (auto simp: grade_failure_def t_bind_Some replica_result_def split: DumboDBSupport.splits if_splits)

text \<open>Asserts may log and fail their test, never undo a failure.\<close>

definition keeps_failure :: "(tstate \<Rightarrow> assertion_end \<times> tstate) \<Rightarrow> bool" where
  "keeps_failure check \<longleftrightarrow> (\<forall>st. ts_failed st \<longrightarrow> ts_failed (snd (check st)))"

lemma finish_Some:
  assumes "finish i captured result st = (Some r, st')" and "pred_option keeps_failure (ri_Assert i)"
  shows "(r = result \<and> (ts_failed st \<longrightarrow> ts_failed st')) \<or>
    (te_Status r = StatusFail \<and> te_Name r = ri_Name i \<and> ts_failed st')"
  using assms
  by (auto simp: finish_def t_bind_Some replica_result_def keeps_failure_def Let_def
      split: option.splits prod.splits assertion_end.splits; metis snd_conv)

text \<open>C31: A replication case never grades a subject on a broken apparatus, and grades it by its
  state. If the test returns a result, then the workload ran, the control converged and the stock
  secondary matched the primary; a pass or an unexpected pass means that the subject converged and
  its whole state is the reference's; an expected failure means that it did not; and the test has
  failed whenever the status is one the summary counts as unexpected.\<close>

theorem ReplicaTest_sound:
  assumes run: "ReplicaTest pr i st = (Some r, st')"
    and timeouts: "pred_option (\<lambda>e. error_text e \<noteq> []) (ri_SubjectConverged i)"
    and asserts: "pred_option keeps_failure (ri_Assert i)"
  shows "control_ok pr i \<and> ri_Workload i = Some None \<and> te_Name r = ri_Name i \<and>
    (te_Status r \<in> {StatusPass, StatusXPass} \<longrightarrow> subject_ok pr i) \<and>
    (te_Status r = StatusXFail \<longrightarrow> \<not> subject_ok pr i) \<and>
    (unexpected (te_Status r) \<longrightarrow> ts_failed st')"
proof -
  from run obtain u st1 w p q st2 where b: "before_workload i st = (Some u, st1)"
    and c: "runControl pr i st1 = (Some (w, p, q), st2)"
    and rest: "(if \<not> has_subject i
       then t_bind (t_Logf (''MONGO_ONLY '' @ ri_Name i @ '': control converged on '' @
                      OpTime_String w @ '' (subject skipped)''))
              (\<lambda>u. finish i False (replica_result i StatusSkip []))
       else t_bind (subject_commit i) (\<lambda>commit.
            t_bind (gradeSubject pr i commit q) (\<lambda>(r, captured).
              finish i captured r))) st2 = (Some r, st')"
    unfolding ReplicaTest_def by (auto simp: t_bind_Some)
  have control: "control_ok pr i" "ri_ReferenceState i = Inr q"
    using runControl_Some[OF c] by (simp_all add: control_ok_def)
  have "te_Name r = ri_Name i \<and> (te_Status r \<in> {StatusPass, StatusXPass} \<longrightarrow> subject_ok pr i) \<and>
    (te_Status r = StatusXFail \<longrightarrow> \<not> subject_ok pr i) \<and> (unexpected (te_Status r) \<longrightarrow> ts_failed st')"
  proof (cases "has_subject i")
    case False
    with rest obtain st3 where "finish i False (replica_result i StatusSkip []) st3 = (Some r, st')"
      by (auto simp: t_bind_Some)
    from finish_Some[OF this asserts] show ?thesis by (auto simp: replica_result_def unexpected_def)
  next
    case True
    with rest obtain commit st3 failure captured st4 r0 st5
      where f: "subject_failure pr i q st3 = (Some (failure, captured), st4)"
        and g: "grade_failure i (ri_Name i @ '' (dumbodb '' @ commit @ '')'') failure st4 = (Some r0, st5)"
        and e: "finish i captured r0 st5 = (Some r, st')"
      by (auto simp: t_bind_Some gradeSubject_def)
    note fail = subject_failure_Some[OF f control(2) timeouts] and grade = grade_failure_Some[OF g]
    from finish_Some[OF e asserts] show ?thesis
      using fail grade by (auto simp: unexpected_def)
  qed
  with control before_workload_Some[OF b] show ?thesis by blast
qed

definition demo_state :: "int \<Rightarrow> ServerState" where
  "demo_state n = \<lparr>st_Source = ''s'', st_Databases = [(''db'', [(''c'', \<lparr>co_Options = RDoc [],
     co_Indexes = [], co_Documents = [(''k'', RDoc [(''_id'', RScalar 16 [word_of_int n, 0, 0, 0])])]\<rparr>)])]\<rparr>"

definition demo_inputs :: replica_inputs where
  "demo_inputs = \<lparr>ri_Name = ''case'', ri_Support = DumboDBXFail, ri_Members = 2, ri_Primary = None,
     ri_PrimaryClient = None, ri_Seed = None, ri_SeedConverged = None, ri_Join = None,
     ri_Primary2 = None, ri_PrimaryClient2 = None, ri_During = None, ri_Startup2 = None,
     ri_Secondary = None, ri_CaseSetup = None, ri_Workload = Some None, ri_Reference = None,
     ri_ControlConverged = Inr (OpTime 5 1 1), ri_PrimaryState = Inr (demo_state 1),
     ri_ReferenceState = Inr (demo_state 1), ri_Commit = Inr ''abc'', ri_SubjectConverged = None,
     ri_Heartbeat = [], ri_SubjectState = Inr (demo_state 1),
     ri_Clients = (\<lambda>role. (role, None)), ri_Assert = None\<rparr>"

theorem ReplicaTest_sound_witness:
  "subject_ok plain_raw_printers demo_inputs \<and>
   ts_failed (snd (ReplicaTest plain_raw_printers demo_inputs fresh_test))"
proof -
  have "case ReplicaTest plain_raw_printers demo_inputs fresh_test of
      (Some r, st') \<Rightarrow> te_Status r = StatusXPass | _ \<Rightarrow> False"
    by code_simp
  then obtain r st' where q: "ReplicaTest plain_raw_printers demo_inputs fresh_test = (Some r, st')"
    and s: "te_Status r = StatusXPass"
    by (auto split: prod.splits option.splits)
  have "ri_SubjectConverged demo_inputs = None" "ri_Assert demo_inputs = None"
    by (simp_all add: demo_inputs_def)
  with ReplicaTest_sound[OF q] s q show ?thesis by (simp add: unexpected_def)
qed

end
