(* ===== verification/Ledger.thy ===== *)
theory Ledger
  imports GoErrors
begin

text \<open>
  The accounting of the concurrency runner (src/concurrency/ledger.go): the outcome of one
  attempt, the counters, the latency buckets, the bounded error samples, and the causal ledger
  that tracks which generation every matched compare-and-set observed. Every operation runs
  under the ledger's mutex, so it is one function on the ledger state. int64 counters are
  integers: they count operations of one run and stay far below \<open>2^63\<close>; the saturating
  \<open>uint8\<close> counters and the \<open>uint64\<close> bitmap are kept at their width.
\<close>

section \<open>Outcomes\<close>

datatype OutcomeKind =
    OutcomeMatched
  | OutcomeNoMatch
  | OutcomeRejected
  | OutcomeIndeterminate
  | OutcomeOther string \<comment> \<open>any other value of the string type, the empty string included\<close>

record CASOperation =
  ObservedGeneration :: int
  ProposedGeneration :: int

record Outcome =
  oc_Kind :: OutcomeKind
  oc_Modified :: bool
  oc_Err :: "goerror option"
  oc_Sequence :: int
  oc_Worker :: int
  oc_CAS :: "CASOperation option"
  oc_MaximumObservedGeneration :: int
  oc_ObservedGenerationBounded :: bool

definition outcome_of :: "OutcomeKind \<Rightarrow> Outcome" where
  "outcome_of k = \<lparr>oc_Kind = k, oc_Modified = False, oc_Err = None, oc_Sequence = 0,
     oc_Worker = 0, oc_CAS = None, oc_MaximumObservedGeneration = 0,
     oc_ObservedGenerationBounded = False\<rparr>"

datatype ledger_error =
    NoMatchModified
  | RejectedModified
  | IndeterminateModified
  | UnknownKind OutcomeKind
  | AttemptsImbalance int int
  | ModifiedOutOfRange int int

section \<open>The causal ledger\<close>

record operationIdentity =
  id_sequence :: int
  id_worker :: int

datatype finding_reason = InvalidEdge | DuplicateMatch

record CausalFinding =
  cf_Reason :: finding_reason
  cf_ObservedGeneration :: int
  cf_FirstSequence :: int
  cf_FirstWorker :: int
  cf_CompetingSequence :: int
  cf_CompetingWorker :: int

record causalLedger =
  cl_observedCounts :: "byte list"
  cl_observedFirst :: "operationIdentity list"
  cl_matchedBits :: "64 word list"
  cl_findings :: "CausalFinding list"
  cl_matchedEdges :: int
  cl_duplicates :: int
  cl_invalidEdges :: int
  cl_highestObserved :: int

definition empty_causal :: causalLedger where
  "empty_causal = \<lparr>cl_observedCounts = [], cl_observedFirst = [], cl_matchedBits = [],
     cl_findings = [], cl_matchedEdges = 0, cl_duplicates = 0, cl_invalidEdges = 0,
     cl_highestObserved = 0\<rparr>"

definition maxErrorSamples :: nat where
  "maxErrorSamples = 20"

definition retainFinding :: "CausalFinding \<Rightarrow> causalLedger \<Rightarrow> causalLedger" where
  "retainFinding f l =
     (if length (cl_findings l) < maxErrorSamples
      then l\<lparr>cl_findings := cl_findings l @ [f]\<rparr> else l)"

definition zero_identity :: operationIdentity where
  "zero_identity = \<lparr>id_sequence = 0, id_worker = 0\<rparr>"

text \<open>The guard of \<open>causalLedger.record\<close>: an edge that cannot be a step of the chain.\<close>

definition bad_edge :: "int \<Rightarrow> bool \<Rightarrow> CASOperation \<Rightarrow> bool" where
  "bad_edge maximum bounded operation \<longleftrightarrow>
     ObservedGeneration operation < 0 \<or>
     ProposedGeneration operation \<noteq> ObservedGeneration operation + 1 \<or>
     (bounded \<and> ObservedGeneration operation > maximum)"

definition mark_matched :: "int \<Rightarrow> 64 word list \<Rightarrow> 64 word list" where
  "mark_matched sequence bits =
     (if sequence > 0
      then let index = nat (sequence div 64); grown = grow 0 index bits
           in grown[index := or (grown ! index) (bit64 (nat (sequence mod 64)))]
      else bits)"

definition causal_record ::
    "int \<Rightarrow> int \<Rightarrow> int \<Rightarrow> bool \<Rightarrow> CASOperation \<Rightarrow> causalLedger \<Rightarrow> causalLedger" where
  "causal_record sequence worker maximum bounded operation l0 =
     (let l = l0\<lparr>cl_matchedEdges := cl_matchedEdges l0 + 1\<rparr> in
      if bad_edge maximum bounded operation
      then retainFinding
             \<lparr>cf_Reason = InvalidEdge, cf_ObservedGeneration = ObservedGeneration operation,
              cf_FirstSequence = 0, cf_FirstWorker = 0,
              cf_CompetingSequence = sequence, cf_CompetingWorker = worker\<rparr>
             (l\<lparr>cl_invalidEdges := cl_invalidEdges l + 1\<rparr>)
      else
        let observed = nat (ObservedGeneration operation);
            l1 = (if observed \<ge> length (cl_observedCounts l)
                  then l\<lparr>cl_observedCounts := grow 0 observed (cl_observedCounts l),
                         cl_observedFirst := grow zero_identity observed (cl_observedFirst l)\<rparr>
                  else l);
            l2 = (if cl_observedCounts l1 ! observed > 0
                  then let first = cl_observedFirst l1 ! observed in
                       retainFinding
                         \<lparr>cf_Reason = DuplicateMatch,
                          cf_ObservedGeneration = ObservedGeneration operation,
                          cf_FirstSequence = id_sequence first,
                          cf_FirstWorker = id_worker first,
                          cf_CompetingSequence = sequence, cf_CompetingWorker = worker\<rparr>
                         (l1\<lparr>cl_duplicates := cl_duplicates l1 + 1\<rparr>)
                  else l1\<lparr>cl_observedFirst := (cl_observedFirst l1)
                            [observed := \<lparr>id_sequence = sequence, id_worker = worker\<rparr>]\<rparr>);
            l3 = (if cl_observedCounts l2 ! observed < 255
                  then l2\<lparr>cl_observedCounts := (cl_observedCounts l2)
                            [observed := cl_observedCounts l2 ! observed + 1]\<rparr>
                  else l2);
            l4 = (if ObservedGeneration operation > cl_highestObserved l3
                  then l3\<lparr>cl_highestObserved := ObservedGeneration operation\<rparr> else l3)
        in l4\<lparr>cl_matchedBits := mark_matched sequence (cl_matchedBits l4)\<rparr>)"

record CASSnapshot =
  cs_MatchedEdges :: int
  cs_DuplicateMatches :: int
  cs_InvalidEdges :: int
  cs_HighestObserved :: int
  cs_UniqueObserved :: int
  cs_ObservedGenerationSlots :: int
  cs_MatchedOperationWords :: int
  cs_TrackerBytes :: int
  cs_Findings :: "CausalFinding list"
  cs_matchedBits :: "64 word list"

definition causal_snapshot :: "causalLedger \<Rightarrow> CASSnapshot" where
  "causal_snapshot l =
     \<lparr>cs_MatchedEdges = cl_matchedEdges l,
      cs_DuplicateMatches = cl_duplicates l,
      cs_InvalidEdges = cl_invalidEdges l,
      cs_HighestObserved = cl_highestObserved l,
      cs_UniqueObserved = int (length (filter (\<lambda>count. count > 0) (cl_observedCounts l))),
      cs_ObservedGenerationSlots = int (length (cl_observedCounts l)),
      cs_MatchedOperationWords = int (length (cl_matchedBits l)),
      cs_TrackerBytes = int (length (cl_observedCounts l))
        + int (length (cl_observedFirst l)) * 16 + int (length (cl_matchedBits l)) * 8,
      cs_Findings = cl_findings l,
      cs_matchedBits = cl_matchedBits l\<rparr>"

definition OperationMatched :: "CASSnapshot \<Rightarrow> int \<Rightarrow> bool" where
  "OperationMatched s sequence =
     (if sequence \<le> 0 then False
      else let index = sequence div 64 in
        if index \<ge> int (length (cs_matchedBits s)) then False
        else and (cs_matchedBits s ! nat index) (bit64 (nat (sequence mod 64))) \<noteq> 0)"

section \<open>Latency buckets\<close>

definition microsecond :: duration where "microsecond = 1000"
definition millisecond :: duration where "millisecond = 1000 * microsecond"
definition second :: duration where "second = 1000 * millisecond"

definition latency_limits :: "duration list" where
  "latency_limits = [100 * microsecond, millisecond, 10 * millisecond, 100 * millisecond, second]"

fun latency_index :: "nat \<Rightarrow> duration list \<Rightarrow> duration \<Rightarrow> nat" where
  "latency_index i [] d = 5"
| "latency_index i (limit # limits) d = (if d < limit then i else latency_index (Suc i) limits d)"

definition latency_record :: "duration \<Rightarrow> int list \<Rightarrow> int list" where
  "latency_record d buckets =
     (let index = latency_index 0 latency_limits d in buckets[index := buckets ! index + 1])"

record LatencySnapshot =
  LessThan100us :: int
  LessThan1ms :: int
  LessThan10ms :: int
  LessThan100ms :: int
  LessThan1s :: int
  AtLeast1s :: int

definition latency_snapshot :: "int list \<Rightarrow> LatencySnapshot" where
  "latency_snapshot b = \<lparr>LessThan100us = b ! 0, LessThan1ms = b ! 1, LessThan10ms = b ! 2,
     LessThan100ms = b ! 3, LessThan1s = b ! 4, AtLeast1s = b ! 5\<rparr>"

section \<open>The ledger\<close>

record Ledger =
  l_attempts :: int
  l_matched :: int
  l_noMatch :: int
  l_modified :: int
  l_rejected :: int
  l_indeterminate :: int
  l_latency :: "int list"
  l_errorSamples :: "string list"
  l_causal :: causalLedger

definition new_ledger :: Ledger where
  "new_ledger = \<lparr>l_attempts = 0, l_matched = 0, l_noMatch = 0, l_modified = 0, l_rejected = 0,
     l_indeterminate = 0, l_latency = replicate 6 0, l_errorSamples = [],
     l_causal = empty_causal\<rparr>"

text \<open>The switch of \<open>Ledger.Record\<close>: the error of an inconsistent outcome, or the counters.\<close>

fun record_kind :: "OutcomeKind \<Rightarrow> bool \<Rightarrow> Ledger \<Rightarrow> ledger_error + Ledger" where
  "record_kind OutcomeMatched modified l =
     Inr (let l1 = l\<lparr>l_matched := l_matched l + 1\<rparr> in
          if modified then l1\<lparr>l_modified := l_modified l1 + 1\<rparr> else l1)"
| "record_kind OutcomeNoMatch modified l =
     (if modified then Inl NoMatchModified else Inr (l\<lparr>l_noMatch := l_noMatch l + 1\<rparr>))"
| "record_kind OutcomeRejected modified l =
     (if modified then Inl RejectedModified else Inr (l\<lparr>l_rejected := l_rejected l + 1\<rparr>))"
| "record_kind OutcomeIndeterminate modified l =
     (if modified then Inl IndeterminateModified
      else Inr (l\<lparr>l_indeterminate := l_indeterminate l + 1\<rparr>))"
| "record_kind k modified l = Inl (UnknownKind k)"

definition add_sample :: "goerror option \<Rightarrow> string list \<Rightarrow> string list" where
  "add_sample e samples =
     (case e of None \<Rightarrow> samples
      | Some err \<Rightarrow> (if length samples < maxErrorSamples then samples @ [error_text err]
                     else samples))"

definition record_cas :: "Outcome \<Rightarrow> causalLedger \<Rightarrow> causalLedger" where
  "record_cas outcome c =
     (case oc_CAS outcome of
        Some operation \<Rightarrow>
          (if oc_Kind outcome = OutcomeMatched
           then causal_record (oc_Sequence outcome) (oc_Worker outcome)
                  (oc_MaximumObservedGeneration outcome)
                  (oc_ObservedGenerationBounded outcome) operation c
           else c)
      | None \<Rightarrow> c)"

definition Record :: "Outcome \<Rightarrow> duration \<Rightarrow> Ledger \<Rightarrow> ledger_error + Ledger" where
  "Record outcome latency l =
     (case record_kind (oc_Kind outcome) (oc_Modified outcome) l of
        Inl e \<Rightarrow> Inl e
      | Inr l1 \<Rightarrow>
          Inr (l1\<lparr>l_attempts := l_attempts l1 + 1,
                  l_latency := latency_record latency (l_latency l1),
                  l_causal := record_cas outcome (l_causal l1),
                  l_errorSamples := add_sample (oc_Err outcome) (l_errorSamples l1)\<rparr>))"

record LedgerSnapshot =
  Attempts :: int
  Matched :: int
  NoMatch :: int
  Modified :: int
  Rejected :: int
  Indeterminate :: int
  Latency :: LatencySnapshot
  ErrorSamples :: "string list"
  CAS :: CASSnapshot

definition Snapshot :: "Ledger \<Rightarrow> LedgerSnapshot" where
  "Snapshot l = \<lparr>Attempts = l_attempts l, Matched = l_matched l, NoMatch = l_noMatch l,
     Modified = l_modified l, Rejected = l_rejected l, Indeterminate = l_indeterminate l,
     Latency = latency_snapshot (l_latency l), ErrorSamples = l_errorSamples l,
     CAS = causal_snapshot (l_causal l)\<rparr>"

definition ledger_Validate :: "LedgerSnapshot \<Rightarrow> ledger_error option" where
  "ledger_Validate s =
     (let terminal = Matched s + NoMatch s + Rejected s + Indeterminate s in
      if Attempts s \<noteq> terminal then Some (AttemptsImbalance (Attempts s) terminal)
      else if Modified s < 0 \<or> Modified s > Matched s
      then Some (ModifiedOutOfRange (Modified s) (Matched s))
      else None)"

section \<open>Classifying a driver result\<close>

record WriteResult =
  wr_Matched :: int
  wr_Modified :: int

definition writeConcernOnly :: "goerror \<Rightarrow> bool" where
  "writeConcernOnly err =
     (case as_WriteException err of
        None \<Rightarrow> False
      | Some x \<Rightarrow> wx_WriteConcernError x \<noteq> None \<and> length (wx_WriteErrors x) = 0)"

definition UpdateOutcome ::
    "(goerror \<Rightarrow> bool) \<Rightarrow> WriteResult \<Rightarrow> goerror option \<Rightarrow> Outcome" where
  "UpdateOutcome isNetworkError result err =
     (case err of
        Some e \<Rightarrow>
          (if errors_Is e ErrCanceled \<or> errors_Is e ErrDeadlineExceeded
              \<or> isNetworkError e \<or> writeConcernOnly e
           then (outcome_of OutcomeIndeterminate)\<lparr>oc_Err := Some e\<rparr>
           else if as_CommandError e \<noteq> None \<or> as_WriteException e \<noteq> None
           then (outcome_of OutcomeRejected)\<lparr>oc_Err := Some e\<rparr>
           else (outcome_of OutcomeIndeterminate)\<lparr>oc_Err := Some e\<rparr>)
      | None \<Rightarrow>
          (if wr_Matched result = 0 then outcome_of OutcomeNoMatch
           else (outcome_of OutcomeMatched)\<lparr>oc_Modified := wr_Modified result > 0\<rparr>))"

end
