(* ===== verification/LedgerFacts.thy ===== *)
theory LedgerFacts
  imports Ledger
begin

text \<open>
  What the ledger promises. A history is the list of edges (matched compare-and-sets) in the
  order they were recorded; \<open>causal_run\<close> replays it. The abstract specification speaks of the
  history only: which edges are well formed, which generations they observed, which operations
  matched. The lemmas of this theory show that the growing slices, saturating counters and the
  bitmap of the code compute exactly that, for every history.
\<close>

record edge =
  e_sequence :: int
  e_worker :: int
  e_maximum :: int
  e_bounded :: bool
  e_operation :: CASOperation

abbreviation observed_of :: "edge \<Rightarrow> int" where
  "observed_of e \<equiv> ObservedGeneration (e_operation e)"

abbreviation edge_bad :: "edge \<Rightarrow> bool" where
  "edge_bad e \<equiv> bad_edge (e_maximum e) (e_bounded e) (e_operation e)"

definition good_edges :: "edge list \<Rightarrow> edge list" where
  "good_edges es = filter (\<lambda>e. \<not> edge_bad e) es"

definition causal_apply :: "edge \<Rightarrow> causalLedger \<Rightarrow> causalLedger" where
  "causal_apply e = causal_record (e_sequence e) (e_worker e) (e_maximum e) (e_bounded e)
     (e_operation e)"

definition causal_run :: "edge list \<Rightarrow> causalLedger" where
  "causal_run es = fold causal_apply es empty_causal"

lemma causal_run_Nil [simp]: "causal_run [] = empty_causal"
  by (simp add: causal_run_def)

lemma causal_run_snoc [simp]: "causal_run (es @ [e]) = causal_apply e (causal_run es)"
  by (simp add: causal_run_def)

lemma good_edges_snoc [simp]:
  "good_edges (es @ [e]) = good_edges es @ (if edge_bad e then [] else [e])"
  "good_edges [] = []"
  by (simp_all add: good_edges_def)

lemma good_edges_nonneg: "e \<in> set (good_edges es) \<Longrightarrow> 0 \<le> observed_of e"
  by (simp add: good_edges_def bad_edge_def)

text \<open>How often the well-formed edges of a history observed a generation.\<close>

definition times_observed :: "int \<Rightarrow> edge list \<Rightarrow> nat" where
  "times_observed g es = length (filter (\<lambda>e. observed_of e = g) (good_edges es))"

text \<open>The identity of the first well-formed edge that observed a generation.\<close>

definition first_observer :: "int \<Rightarrow> edge list \<Rightarrow> edge option" where
  "first_observer g es = find (\<lambda>e. observed_of e = g) (good_edges es)"

text \<open>The findings of a history: what \<open>retainFinding\<close> is offered, in order.\<close>

definition finding_of :: "edge list \<Rightarrow> edge \<Rightarrow> CausalFinding list" where
  "finding_of seen e =
     (if edge_bad e
      then [\<lparr>cf_Reason = InvalidEdge, cf_ObservedGeneration = observed_of e,
             cf_FirstSequence = 0, cf_FirstWorker = 0,
             cf_CompetingSequence = e_sequence e, cf_CompetingWorker = e_worker e\<rparr>]
      else case first_observer (observed_of e) seen of
             None \<Rightarrow> []
           | Some f \<Rightarrow>
               [\<lparr>cf_Reason = DuplicateMatch, cf_ObservedGeneration = observed_of e,
                 cf_FirstSequence = e_sequence f, cf_FirstWorker = e_worker f,
                 cf_CompetingSequence = e_sequence e, cf_CompetingWorker = e_worker e\<rparr>])"

fun all_findings_from :: "edge list \<Rightarrow> edge list \<Rightarrow> CausalFinding list" where
  "all_findings_from seen [] = []"
| "all_findings_from seen (e # es) = finding_of seen e @ all_findings_from (seen @ [e]) es"

definition all_findings :: "edge list \<Rightarrow> CausalFinding list" where
  "all_findings es = all_findings_from [] es"

lemma all_findings_from_snoc:
  "all_findings_from seen (es @ [e]) = all_findings_from seen es @ finding_of (seen @ es) e"
  by (induction es arbitrary: seen) auto

lemma all_findings_snoc [simp]:
  "all_findings (es @ [e]) = all_findings es @ finding_of es e" "all_findings [] = []"
  by (simp_all add: all_findings_def all_findings_from_snoc)

lemma times_observed_snoc [simp]:
  "times_observed g (es @ [e]) =
     times_observed g es + (if \<not> edge_bad e \<and> observed_of e = g then 1 else 0)"
  "times_observed g [] = 0"
  by (simp_all add: times_observed_def)

lemma times_observed_pos:
  "0 < times_observed g es \<longleftrightarrow> g \<in> observed_of ` set (good_edges es)"
  by (auto simp: times_observed_def filter_empty_conv)

lemma first_observer_snoc [simp]:
  "first_observer g (es @ [e]) =
     (case first_observer g es of
        None \<Rightarrow> (if \<not> edge_bad e \<and> observed_of e = g then Some e else None)
      | Some f \<Rightarrow> Some f)"
  "first_observer g [] = None"
  by (auto simp: first_observer_def find_append split: option.splits)

lemma first_observer_None: "first_observer g es = None \<longleftrightarrow> times_observed g es = 0"
  by (auto simp: first_observer_def times_observed_def find_None_iff filter_empty_conv)

section \<open>One step of the causal ledger, field by field\<close>

definition bump_count :: "nat \<Rightarrow> byte list \<Rightarrow> byte list" where
  "bump_count g counts =
     (let grown = grow 0 g counts in
      if grown ! g < 255 then grown[g := grown ! g + 1] else grown)"

lemma retainFinding_fields [simp]:
  "cl_observedCounts (retainFinding f l) = cl_observedCounts l"
  "cl_observedFirst (retainFinding f l) = cl_observedFirst l"
  "cl_matchedBits (retainFinding f l) = cl_matchedBits l"
  "cl_matchedEdges (retainFinding f l) = cl_matchedEdges l"
  "cl_duplicates (retainFinding f l) = cl_duplicates l"
  "cl_invalidEdges (retainFinding f l) = cl_invalidEdges l"
  "cl_highestObserved (retainFinding f l) = cl_highestObserved l"
  by (auto simp: retainFinding_def)

lemma causal_record_bad:
  assumes "bad_edge m b op"
  shows "cl_observedCounts (causal_record s w m b op l) = cl_observedCounts l"
    "cl_observedFirst (causal_record s w m b op l) = cl_observedFirst l"
    "cl_matchedBits (causal_record s w m b op l) = cl_matchedBits l"
    "cl_matchedEdges (causal_record s w m b op l) = cl_matchedEdges l + 1"
    "cl_duplicates (causal_record s w m b op l) = cl_duplicates l"
    "cl_invalidEdges (causal_record s w m b op l) = cl_invalidEdges l + 1"
    "cl_highestObserved (causal_record s w m b op l) = cl_highestObserved l"
  using assms by (simp_all add: causal_record_def Let_def)

lemma causal_record_good:
  fixes op :: CASOperation
  defines "g \<equiv> nat (ObservedGeneration op)"
  assumes good: "\<not> bad_edge m b op"
    and len: "length (cl_observedFirst l) = length (cl_observedCounts l)"
  shows "cl_observedCounts (causal_record s w m b op l) = bump_count g (cl_observedCounts l)"
    "cl_observedFirst (causal_record s w m b op l) =
       (if grow 0 g (cl_observedCounts l) ! g > 0 then grow zero_identity g (cl_observedFirst l)
        else (grow zero_identity g (cl_observedFirst l))
               [g := \<lparr>id_sequence = s, id_worker = w\<rparr>])"
    "cl_matchedBits (causal_record s w m b op l) = mark_matched s (cl_matchedBits l)"
    "cl_matchedEdges (causal_record s w m b op l) = cl_matchedEdges l + 1"
    "cl_duplicates (causal_record s w m b op l) =
       cl_duplicates l + (if grow 0 g (cl_observedCounts l) ! g > 0 then 1 else 0)"
    "cl_invalidEdges (causal_record s w m b op l) = cl_invalidEdges l"
    "cl_highestObserved (causal_record s w m b op l) =
       max (cl_highestObserved l) (ObservedGeneration op)"
  using good len unfolding g_def
  by (simp_all add: causal_record_def Let_def bump_count_def grow_def max_def)

lemma causal_record_good_findings:
  fixes op :: CASOperation
  defines "g \<equiv> nat (ObservedGeneration op)"
  assumes good: "\<not> bad_edge m b op"
    and len: "length (cl_observedFirst l) = length (cl_observedCounts l)"
  shows "cl_findings (causal_record s w m b op l) =
      (if grow 0 g (cl_observedCounts l) ! g > 0 \<and> length (cl_findings l) < maxErrorSamples
       then cl_findings l @
         [\<lparr>cf_Reason = DuplicateMatch, cf_ObservedGeneration = ObservedGeneration op,
           cf_FirstSequence = id_sequence (grow zero_identity g (cl_observedFirst l) ! g),
           cf_FirstWorker = id_worker (grow zero_identity g (cl_observedFirst l) ! g),
           cf_CompetingSequence = s, cf_CompetingWorker = w\<rparr>]
       else cl_findings l)"
  using good len unfolding g_def
  by (simp add: causal_record_def Let_def grow_def retainFinding_def)

lemma cl_findings_retain:
  "cl_findings l = take maxErrorSamples fs \<Longrightarrow>
   cl_findings (retainFinding f l) = take maxErrorSamples (fs @ [f])"
  by (auto simp: retainFinding_def)

section \<open>The saturating counters\<close>

definition sat_count :: "nat \<Rightarrow> byte" where
  "sat_count n = of_nat (min 255 n)"

lemma unat_sat_count: "unat (sat_count n) = min 255 n"
  by (simp add: sat_count_def unat_of_nat)

lemma sat_count_simps [simp]:
  "sat_count 0 = 0"
  "0 < sat_count n \<longleftrightarrow> 0 < n"
  "sat_count n < 255 \<longleftrightarrow> n < 255"
  by (auto simp: word_less_nat_alt unat_sat_count sat_count_def[of 0])

lemma sat_count_Suc: "n < 255 \<Longrightarrow> sat_count n + 1 = sat_count (Suc n)"
  by (simp add: sat_count_def)

lemma sat_count_saturated: "\<not> n < 255 \<Longrightarrow> sat_count (Suc n) = sat_count n"
  by (simp add: sat_count_def)

lemma bump_nth:
  assumes "\<And>k. k < length xs \<Longrightarrow> xs ! k = sat_count (n k)" "g < length xs" "i < length xs"
  shows "(if xs ! g < 255 then xs[g := xs ! g + 1] else xs) ! i =
    sat_count (n i + (if i = g then 1 else 0))"
  using assms by (auto simp: sat_count_Suc sat_count_saturated nth_list_update)

lemma bump_count_nth:
  assumes counts: "\<And>i. i < length counts \<Longrightarrow> counts ! i = sat_count (n i)"
    and zero: "\<And>i. \<not> i < length counts \<Longrightarrow> n i = 0"
    and i: "i < max (length counts) (Suc g)"
  shows "bump_count g counts ! i = sat_count (n i + (if i = g then 1 else 0))"
proof -
  have "grow 0 g counts ! k = sat_count (n k)" if "k < length (grow 0 g counts)" for k
    using that counts zero by (auto simp: nth_grow)
  then show ?thesis
    unfolding bump_count_def Let_def using i by (intro bump_nth) auto
qed

lemma length_bump_count [simp]: "length (bump_count g counts) = max (length counts) (Suc g)"
  by (simp add: bump_count_def Let_def)

section \<open>The bitmap of matched operations\<close>

definition bits_have :: "64 word list \<Rightarrow> int \<Rightarrow> bool" where
  "bits_have bits q \<longleftrightarrow>
     0 < q \<and> q div 64 < int (length bits) \<and> bit (bits ! nat (q div 64)) (nat (q mod 64))"

lemma OperationMatched_bits: "OperationMatched s q \<longleftrightarrow> bits_have (cs_matchedBits s) q"
proof -
  have "nat (q mod 64) < 64" by (simp add: nat_less_iff)
  then show ?thesis
    by (auto simp: OperationMatched_def bits_have_def Let_def and_bit64_eq_0)
qed

lemma bits_have_mark:
  "bits_have (mark_matched s bits) q \<longleftrightarrow> bits_have bits q \<or> (0 < s \<and> q = s)"
proof (cases "0 < s")
  case True
  define i where "i = nat (s div 64)"
  define j where "j = nat (s mod 64)"
  define k where "k = nat (q div 64)"
  have j: "j < 64" by (simp add: j_def nat_less_iff)
  show ?thesis
  proof (cases "0 < q")
    case q: True
    then have kq: "q div 64 = int k" by (simp add: k_def)
    have eq: "q = s \<longleftrightarrow> k = i \<and> nat (q mod 64) = j"
    proof
      assume "k = i \<and> nat (q mod 64) = j"
      then have "q div 64 = s div 64" "q mod 64 = s mod 64"
        using q True unfolding k_def i_def j_def
        by (simp_all add: eq_nat_nat_iff pos_imp_zdiv_nonneg_iff)
      then show "q = s" by (metis div_mult_mod_eq)
    qed (simp add: k_def i_def j_def)
    have "bits_have (mark_matched s bits) q \<longleftrightarrow>
        k < max (length bits) (Suc i) \<and>
        (if k = i then bit (grow 0 i bits ! i) (nat (q mod 64)) \<or> nat (q mod 64) = j
         else k < length bits \<and> bit (bits ! k) (nat (q mod 64)))"
      using True q j unfolding bits_have_def mark_matched_def kq
      by (auto simp: Let_def i_def[symmetric] j_def[symmetric] nth_list_update bit_or_iff
          bit_bit64 nth_grow split: if_splits)
    also have "\<dots> \<longleftrightarrow> bits_have bits q \<or> q = s"
      using q unfolding eq bits_have_def kq by auto
    finally show ?thesis using True by simp
  qed (simp add: bits_have_def)
qed (simp add: mark_matched_def)

section \<open>The refinement invariant\<close>

text \<open>
  \<open>causal_abs es l\<close>: the concrete ledger \<open>l\<close> represents the history \<open>es\<close>. It holds of the
  empty ledger and every recorded edge keeps it, so it holds of every run.
\<close>

definition causal_abs :: "edge list \<Rightarrow> causalLedger \<Rightarrow> bool" where
  "causal_abs es l \<longleftrightarrow>
     cl_matchedEdges l = int (length es) \<and>
     cl_invalidEdges l = int (length (filter edge_bad es)) \<and>
     cl_duplicates l + int (card (observed_of ` set (good_edges es)))
       = int (length (good_edges es)) \<and>
     cl_highestObserved l = Max (insert 0 (observed_of ` set (good_edges es))) \<and>
     length (cl_observedFirst l) = length (cl_observedCounts l) \<and>
     int (length (cl_observedCounts l))
       \<le> (if good_edges es = [] then 0 else cl_highestObserved l + 1) \<and>
     (\<forall>e \<in> set (good_edges es). nat (observed_of e) < length (cl_observedCounts l)) \<and>
     (\<forall>g < length (cl_observedCounts l).
        cl_observedCounts l ! g = sat_count (times_observed (int g) es)) \<and>
     (\<forall>g f. first_observer g es = Some f \<longrightarrow>
        cl_observedFirst l ! nat g = \<lparr>id_sequence = e_sequence f, id_worker = e_worker f\<rparr>) \<and>
     cl_findings l = take maxErrorSamples (all_findings es) \<and>
     (\<forall>q. bits_have (cl_matchedBits l) q \<longleftrightarrow>
        0 < q \<and> q \<in> e_sequence ` set (good_edges es))"

lemma causal_abs_empty: "causal_abs [] empty_causal"
  by (auto simp: causal_abs_def empty_causal_def bits_have_def pos_imp_zdiv_nonneg_iff
      not_less)

lemma Max_insert_snoc:
  "finite A \<Longrightarrow> Max (insert 0 (insert (x::int) A)) = max (Max (insert 0 A)) x"
  by (subst insert_commute, subst Max_insert) (auto simp: max.commute)

lemma first_observer_good:
  "first_observer g es = Some f \<Longrightarrow> f \<in> set (good_edges es) \<and> observed_of f = g"
  by (auto simp: first_observer_def find_Some_iff)

lemma causal_abs_step_bad:
  assumes abs: "causal_abs es l" and bad: "edge_bad e"
  shows "causal_abs (es @ [e]) (causal_apply e l)"
proof -
  have "cl_findings (causal_apply e l) = take maxErrorSamples (all_findings (es @ [e]))"
    using abs bad
    by (simp add: causal_abs_def causal_apply_def causal_record_def Let_def finding_of_def
        cl_findings_retain)
  with abs bad show ?thesis
    unfolding causal_abs_def causal_apply_def
    by (simp add: causal_record_bad[OF bad] del: Max_insert split: option.splits if_splits)
qed

lemma causal_abs_step_good:
  assumes abs: "causal_abs es l" and good: "\<not> edge_bad e"
  shows "causal_abs (es @ [e]) (causal_apply e l)"
proof -
  define g where "g = nat (observed_of e)"
  have nonneg: "0 \<le> observed_of e" using good by (simp add: bad_edge_def)
  then have g: "int g = observed_of e" by (simp add: g_def)
  note A = abs[unfolded causal_abs_def]
  have len: "length (cl_observedFirst l) = length (cl_observedCounts l)" using A by blast
  note R = causal_record_good[OF good len, of "e_sequence e" "e_worker e", folded g_def
      causal_apply_def]
  have zero: "times_observed (int i) es = 0" if "\<not> i < length (cl_observedCounts l)" for i
  proof (rule ccontr)
    assume "times_observed (int i) es \<noteq> 0"
    then obtain f where "f \<in> set (good_edges es)" "observed_of f = int i"
      using times_observed_pos[of "int i" es] by auto
    with A that show False by (metis nat_int)
  qed
  have seen: "grow 0 g (cl_observedCounts l) ! g > 0 \<longleftrightarrow> 0 < times_observed (observed_of e) es"
    using A zero[of g] by (auto simp flip: g)
  have seen': "0 < times_observed (observed_of e) es \<longleftrightarrow>
      observed_of e \<in> observed_of ` set (good_edges es)"
    by (rule times_observed_pos)
  have counts: "cl_observedCounts (causal_apply e l) ! i = sat_count (times_observed (int i) (es @ [e]))"
    if "i < length (cl_observedCounts (causal_apply e l))" for i
  proof -
    have "i = g \<longleftrightarrow> observed_of e = int i" using g by auto
    then show ?thesis
      using bump_count_nth[of "cl_observedCounts l" "\<lambda>i. times_observed (int i) es" i g]
        A zero that
      unfolding R by (simp add: good)
  qed
  have first: "cl_observedFirst (causal_apply e l) ! nat h =
      \<lparr>id_sequence = e_sequence f, id_worker = e_worker f\<rparr>"
    if f: "first_observer h (es @ [e]) = Some f" for h f
  proof (cases "first_observer h es")
    case (Some f')
    then have h: "times_observed h es \<noteq> 0" "nat h < length (cl_observedCounts l)" "0 \<le> h"
      using first_observer_None[of h es] first_observer_good[OF Some] A good_edges_nonneg
      by auto
    then have "h = observed_of e \<longrightarrow> 0 < times_observed (observed_of e) es" by auto
    with h A Some f nonneg len show ?thesis
      unfolding R seen by (auto simp: nth_grow nth_list_update g_def nat_eq_iff)
  next
    case None
    then have "times_observed h es = 0" by (simp add: first_observer_None)
    with None f good show ?thesis
      unfolding R seen by (auto simp: g_def nth_list_update split: if_splits)
  qed
  have dup: "cl_findings (causal_apply e l) = take maxErrorSamples (all_findings (es @ [e]))"
  proof -
    have F: "cl_findings l = take maxErrorSamples (all_findings es)" using A by blast
    show ?thesis
    proof (cases "first_observer (observed_of e) es")
      case None
      with seen have "\<not> grow 0 g (cl_observedCounts l) ! g > 0"
        by (simp add: first_observer_None)
      with None F good len show ?thesis
        by (simp add: causal_apply_def causal_record_good_findings g_def finding_of_def)
    next
      case (Some f)
      then have old: "g < length (cl_observedFirst l)"
        using first_observer_good[OF Some] A unfolding g_def by metis
      from Some have "grow 0 g (cl_observedCounts l) ! g > 0"
        using seen first_observer_None[of "observed_of e" es] by auto
      moreover have "cl_observedFirst l ! g =
          \<lparr>id_sequence = e_sequence f, id_worker = e_worker f\<rparr>"
        using A Some unfolding g_def by blast
      ultimately show ?thesis
        using Some F good len old
        by (auto simp: causal_apply_def causal_record_good_findings g_def finding_of_def)
    qed
  qed
  show ?thesis
    unfolding causal_abs_def
  proof (intro conjI)
    show "cl_duplicates (causal_apply e l) + int (card (observed_of ` set (good_edges (es @ [e]))))
       = int (length (good_edges (es @ [e])))"
      using A unfolding R seen seen' by (auto simp: good insert_absorb)
    show "cl_highestObserved (causal_apply e l) =
        Max (insert 0 (observed_of ` set (good_edges (es @ [e]))))"
      using A unfolding R by (simp add: good Max_insert_snoc del: Max_insert)
    show "int (length (cl_observedCounts (causal_apply e l)))
        \<le> (if good_edges (es @ [e]) = [] then 0 else cl_highestObserved (causal_apply e l) + 1)"
      using A nonneg unfolding R by (auto simp: good g_def split: if_splits)
  qed (use A counts first dup in \<open>auto simp: R good bits_have_mark g_def\<close>)
qed

lemma causal_abs_run: "causal_abs es (causal_run es)"
proof (induction es rule: rev_induct)
  case Nil
  show ?case using causal_abs_empty by simp
next
  case (snoc e es)
  then show ?case
    by (cases "edge_bad e") (simp_all add: causal_abs_step_bad causal_abs_step_good)
qed

section \<open>Histories of the whole ledger\<close>

definition Record_step :: "Outcome \<times> duration \<Rightarrow> Ledger \<Rightarrow> Ledger" where
  "Record_step r l = (case Record (fst r) (snd r) l of Inl _ \<Rightarrow> l | Inr l' \<Rightarrow> l')"

definition ledger_run :: "(Outcome \<times> duration) list \<Rightarrow> Ledger" where
  "ledger_run h = fold Record_step h new_ledger"

definition accepted :: "Outcome \<Rightarrow> bool" where
  "accepted r \<longleftrightarrow> (case oc_Kind r of OutcomeMatched \<Rightarrow> True | OutcomeOther _ \<Rightarrow> False
     | _ \<Rightarrow> \<not> oc_Modified r)"

definition edge_of :: "Outcome \<Rightarrow> edge list" where
  "edge_of r =
     (case oc_CAS r of
        Some operation \<Rightarrow>
          (if oc_Kind r = OutcomeMatched
           then [\<lparr>e_sequence = oc_Sequence r, e_worker = oc_Worker r,
                  e_maximum = oc_MaximumObservedGeneration r,
                  e_bounded = oc_ObservedGenerationBounded r, e_operation = operation\<rparr>]
           else [])
      | None \<Rightarrow> [])"

definition edges_of :: "(Outcome \<times> duration) list \<Rightarrow> edge list" where
  "edges_of h = concat (map (edge_of \<circ> fst) h)"

definition accepted_of :: "(Outcome \<times> duration) list \<Rightarrow> Outcome list" where
  "accepted_of h = filter accepted (map fst h)"

definition kind_count :: "OutcomeKind \<Rightarrow> Outcome list \<Rightarrow> int" where
  "kind_count k rs = int (length (filter (\<lambda>r. oc_Kind r = k) rs))"

lemma ledger_run_snoc [simp]: "ledger_run (h @ [r]) = Record_step r (ledger_run h)"
  and ledger_run_Nil [simp]: "ledger_run [] = new_ledger"
  by (simp_all add: ledger_run_def)

lemma history_snoc [simp]:
  "edges_of (h @ [r]) = edges_of h @ edge_of (fst r)"
  "edges_of [] = []"
  "accepted_of (h @ [r]) = accepted_of h @ (if accepted (fst r) then [fst r] else [])"
  "accepted_of [] = []"
  "kind_count k (rs @ [x]) = kind_count k rs + (if oc_Kind x = k then 1 else 0)"
  "kind_count k [] = 0"
  by (simp_all add: edges_of_def accepted_of_def kind_count_def)

lemma record_kind_accepted:
  "accepted r \<longleftrightarrow> (\<exists>l'. record_kind (oc_Kind r) (oc_Modified r) l = Inr l')"
  by (cases "oc_Kind r") (auto simp: accepted_def)

lemma latency_index_bound: "length ls + i \<le> 5 \<Longrightarrow> latency_index i ls d \<le> 5"
  by (induction i ls d rule: latency_index.induct) auto

lemma latency_record_sum:
  assumes "length b = 6"
  shows "length (latency_record d b) = 6 \<and> sum_list (latency_record d b) = sum_list b + 1"
proof -
  have i: "latency_index 0 latency_limits d < length b"
    using latency_index_bound[of latency_limits 0 d] assms by (simp add: latency_limits_def)
  from sum_list_update[OF this, of "b ! latency_index 0 latency_limits d + 1"]
  show ?thesis using assms by (simp add: latency_record_def Let_def)
qed

text \<open>What a recorded history says about every counter of the ledger.\<close>

definition ledger_abs :: "(Outcome \<times> duration) list \<Rightarrow> Ledger \<Rightarrow> bool" where
  "ledger_abs h l \<longleftrightarrow>
     l_attempts l = int (length (accepted_of h)) \<and>
     l_matched l = kind_count OutcomeMatched (accepted_of h) \<and>
     l_noMatch l = kind_count OutcomeNoMatch (accepted_of h) \<and>
     l_rejected l = kind_count OutcomeRejected (accepted_of h) \<and>
     l_indeterminate l = kind_count OutcomeIndeterminate (accepted_of h) \<and>
     l_modified l = int (length (filter oc_Modified (accepted_of h))) \<and>
     length (l_latency l) = 6 \<and> sum_list (l_latency l) = l_attempts l \<and>
     length (l_errorSamples l) \<le> maxErrorSamples \<and>
     l_causal l = causal_run (edges_of h)"

lemma Record_step_rejected:
  "\<not> accepted (fst r) \<Longrightarrow> Record_step r l = l \<and> edge_of (fst r) = []"
  by (cases r; cases "oc_Kind (fst r)")
    (auto simp: accepted_def Record_step_def Record_def edge_of_def split: option.splits)

lemma add_sample_bound:
  "length samples \<le> maxErrorSamples \<Longrightarrow> length (add_sample e samples) \<le> maxErrorSamples"
  by (auto simp: add_sample_def split: option.splits)

lemma record_cas_edges:
  "record_cas r (causal_run es) = causal_run (es @ edge_of r)"
  by (auto simp: edge_of_def causal_apply_def record_cas_def split: option.splits)

lemma Record_step_accepted:
  assumes abs: "ledger_abs h l" and ok: "accepted (fst r)"
  shows "ledger_abs (h @ [r]) (Record_step r l)"
  using abs ok latency_record_sum[of "l_latency l" "snd r"]
    add_sample_bound[of "l_errorSamples l" "oc_Err (fst r)"]
  by (cases "oc_Kind (fst r)")
    (simp_all add: ledger_abs_def Record_step_def Record_def accepted_def Let_def record_cas_edges)

lemma ledger_abs_run: "ledger_abs h (ledger_run h)"
proof (induction h rule: rev_induct)
  case Nil
  show ?case by (simp add: ledger_abs_def new_ledger_def eval_nat_numeral)
next
  case (snoc r h)
  show ?case
  proof (cases "accepted (fst r)")
    case True
    with snoc show ?thesis by (simp add: Record_step_accepted)
  next
    case False
    with snoc Record_step_rejected[OF False, of "ledger_run h"] show ?thesis
      by (simp add: ledger_abs_def)
  qed
qed

lemma unique_observed:
  assumes "causal_abs es l"
  shows "length (filter (\<lambda>c. c > 0) (cl_observedCounts l)) =
    card (observed_of ` set (good_edges es))"
proof -
  have "{i. i < length (cl_observedCounts l) \<and> cl_observedCounts l ! i > 0} =
      nat ` observed_of ` set (good_edges es)" (is "?L = ?R")
  proof (intro set_eqI iffI)
    fix i assume "i \<in> ?L"
    then have "0 < times_observed (int i) es"
      using assms by (auto simp: causal_abs_def)
    then show "i \<in> ?R" unfolding times_observed_pos by force
  next
    fix i assume "i \<in> ?R"
    then obtain e where e: "e \<in> set (good_edges es)" "i = nat (observed_of e)" by auto
    then have "int i = observed_of e" using good_edges_nonneg by auto
    then have "0 < times_observed (int i) es" using e times_observed_pos by auto
    moreover have "i < length (cl_observedCounts l)" using assms e by (auto simp: causal_abs_def)
    ultimately show "i \<in> ?L" using assms by (auto simp: causal_abs_def)
  qed
  moreover have "inj_on nat (observed_of ` set (good_edges es))"
    by (rule inj_onI) (auto dest!: good_edges_nonneg)
  ultimately show ?thesis
    by (simp add: length_filter_conv_card card_image)
qed

lemma slots_eq:
  assumes "causal_abs es l"
  shows "int (length (cl_observedCounts l)) =
    (if good_edges es = [] then 0 else cl_highestObserved l + 1)"
proof (cases "good_edges es = []")
  case False
  let ?A = "insert 0 (observed_of ` set (good_edges es))"
  have A: "cl_highestObserved l = Max ?A" using assms by (simp add: causal_abs_def)
  have "Max ?A \<in> ?A" by (rule Max_in) auto
  moreover have "x < int (length (cl_observedCounts l))" if "x \<in> ?A" for x
  proof -
    from False obtain e where e: "e \<in> set (good_edges es)" by (cases "good_edges es") auto
    have lt: "nat (observed_of e) < length (cl_observedCounts l)"
      if "e \<in> set (good_edges es)" for e
      using assms that by (simp add: causal_abs_def)
    from that consider "x = 0" | f where "f \<in> set (good_edges es)" "x = observed_of f" by auto
    then show ?thesis
      by cases (use lt[OF e] lt good_edges_nonneg in \<open>auto simp: nat_less_iff\<close>)
  qed
  ultimately have "cl_highestObserved l < int (length (cl_observedCounts l))"
    unfolding A by blast
  moreover have "int (length (cl_observedCounts l)) \<le> cl_highestObserved l + 1"
    using assms False by (simp add: causal_abs_def)
  ultimately show ?thesis using False by simp
qed (use assms in \<open>simp add: causal_abs_def\<close>)

lemma length_filter_mono: "(\<And>x. x \<in> set xs \<Longrightarrow> P x \<Longrightarrow> Q x) \<Longrightarrow>
    length (filter P xs) \<le> length (filter Q xs)"
  by (induction xs) auto

lemma modified_le_matched:
  "length (filter oc_Modified (accepted_of h))
     \<le> length (filter (\<lambda>r. oc_Kind r = OutcomeMatched) (accepted_of h))"
  by (rule length_filter_mono) (auto simp: accepted_of_def accepted_def split: OutcomeKind.splits)

lemma kind_partition:
  "\<forall>r \<in> set rs. accepted r \<Longrightarrow>
   int (length rs) = kind_count OutcomeMatched rs + kind_count OutcomeNoMatch rs
     + kind_count OutcomeRejected rs + kind_count OutcomeIndeterminate rs"
  by (induction rs) (auto simp: kind_count_def accepted_def split: OutcomeKind.splits)

lemma accepted_partition:
  "int (length (accepted_of h)) = kind_count OutcomeMatched (accepted_of h)
     + kind_count OutcomeNoMatch (accepted_of h) + kind_count OutcomeRejected (accepted_of h)
     + kind_count OutcomeIndeterminate (accepted_of h)"
  by (rule kind_partition) (simp add: accepted_of_def)

text \<open>The snapshot of a replayed history, field by field.\<close>

lemma causal_snapshot_fields:
  "cs_MatchedEdges (causal_snapshot (causal_run es)) = int (length es)"
  "cs_InvalidEdges (causal_snapshot (causal_run es))
     = int (length es) - int (length (good_edges es))"
  "cs_UniqueObserved (causal_snapshot (causal_run es))
     = int (card (observed_of ` set (good_edges es)))"
  "cs_DuplicateMatches (causal_snapshot (causal_run es))
     = int (length (good_edges es)) - int (card (observed_of ` set (good_edges es)))"
  "cs_HighestObserved (causal_snapshot (causal_run es))
     = Max (insert 0 (observed_of ` set (good_edges es)))"
  "OperationMatched (causal_snapshot (causal_run es)) q
     \<longleftrightarrow> 0 < q \<and> q \<in> e_sequence ` set (good_edges es)"
  "cs_ObservedGenerationSlots (causal_snapshot (causal_run es))
     = (if good_edges es = [] then 0 else cs_HighestObserved (causal_snapshot (causal_run es)) + 1)"
proof -
  have A: "causal_abs es (causal_run es)" by (rule causal_abs_run)
  have inv: "int (length (filter edge_bad es)) = int (length es) - int (length (good_edges es))"
    using length_filter_split[of edge_bad es] by (simp add: good_edges_def)
  note facts = causal_snapshot_def unique_observed[OF A] slots_eq[OF A] inv OperationMatched_bits
  from A show
    "cs_MatchedEdges (causal_snapshot (causal_run es)) = int (length es)"
    "cs_InvalidEdges (causal_snapshot (causal_run es))
       = int (length es) - int (length (good_edges es))"
    "cs_UniqueObserved (causal_snapshot (causal_run es))
       = int (card (observed_of ` set (good_edges es)))"
    "cs_DuplicateMatches (causal_snapshot (causal_run es))
       = int (length (good_edges es)) - int (card (observed_of ` set (good_edges es)))"
    "cs_HighestObserved (causal_snapshot (causal_run es))
       = Max (insert 0 (observed_of ` set (good_edges es)))"
    "OperationMatched (causal_snapshot (causal_run es)) q
       \<longleftrightarrow> 0 < q \<and> q \<in> e_sequence ` set (good_edges es)"
    "cs_ObservedGenerationSlots (causal_snapshot (causal_run es))
       = (if good_edges es = [] then 0
          else cs_HighestObserved (causal_snapshot (causal_run es)) + 1)"
    unfolding causal_abs_def facts by (simp_all add: facts causal_abs_def del: Max_insert)
qed

lemma ledger_snapshot_fields:
  "Attempts (Snapshot (ledger_run h)) = int (length (accepted_of h))"
  "Matched (Snapshot (ledger_run h)) = kind_count OutcomeMatched (accepted_of h)"
  "NoMatch (Snapshot (ledger_run h)) = kind_count OutcomeNoMatch (accepted_of h)"
  "Rejected (Snapshot (ledger_run h)) = kind_count OutcomeRejected (accepted_of h)"
  "Indeterminate (Snapshot (ledger_run h)) = kind_count OutcomeIndeterminate (accepted_of h)"
  "Modified (Snapshot (ledger_run h)) = int (length (filter oc_Modified (accepted_of h)))"
  "CAS (Snapshot (ledger_run h)) = causal_snapshot (causal_run (edges_of h))"
  using ledger_abs_run[of h] by (simp_all add: ledger_abs_def Snapshot_def)

lemma ledger_run_validates: "ledger_Validate (Snapshot (ledger_run h)) = None"
proof -
  have "int (length (filter oc_Modified (accepted_of h)))
      \<le> kind_count OutcomeMatched (accepted_of h)"
    unfolding kind_count_def of_nat_le_iff by (rule modified_le_matched)
  with accepted_partition[of h] show ?thesis
    by (simp add: ledger_Validate_def ledger_snapshot_fields Let_def)
qed

section \<open>Properties\<close>

text \<open>C7: Global accounting law. Whatever outcomes the workers record, in whatever order, and
  however many of them the ledger refuses, the snapshot balances: attempts equal matched plus
  no-match plus rejected plus indeterminate, modified lies between 0 and matched, so
  \<open>LedgerSnapshot.Validate\<close> accepts it; every attempt is in exactly one latency bucket, and at
  most 20 error samples are retained.\<close>

theorem ledger_accounting:
  "let s = Snapshot (ledger_run h); rs = accepted_of h in
     ledger_Validate s = None \<and>
     Attempts s = int (length rs) \<and>
     Matched s = kind_count OutcomeMatched rs \<and> NoMatch s = kind_count OutcomeNoMatch rs \<and>
     Rejected s = kind_count OutcomeRejected rs \<and>
     Indeterminate s = kind_count OutcomeIndeterminate rs \<and>
     Modified s = int (length (filter oc_Modified rs)) \<and>
     LessThan100us (Latency s) + LessThan1ms (Latency s) + LessThan10ms (Latency s)
       + LessThan100ms (Latency s) + LessThan1s (Latency s) + AtLeast1s (Latency s)
       = Attempts s \<and>
     length (ErrorSamples s) \<le> 20"
proof -
  have "ledger_abs h (ledger_run h)" by (rule ledger_abs_run)
  moreover have "int (length (filter oc_Modified (accepted_of h)))
      \<le> kind_count OutcomeMatched (accepted_of h)"
    unfolding kind_count_def of_nat_le_iff by (rule modified_le_matched)
  ultimately show ?thesis
    using accepted_partition[of h]
    by (auto simp: ledger_abs_def Snapshot_def ledger_Validate_def latency_snapshot_def Let_def
        maxErrorSamples_def length_Suc_conv eval_nat_numeral)
qed

text \<open>C6: The causal ledger refines its history. For every sequence of matched
  compare-and-sets, the snapshot computed from the growing slices, the saturating counters and
  the bitmap counts exactly the malformed edges, the distinct generations observed by the
  well-formed ones, the duplicates (well-formed edges beyond the first per generation), the
  highest observed generation, and reports an operation as matched exactly when a well-formed
  edge with that positive sequence number was recorded. A malformed edge, however absurd its
  generation, allocates no slot.\<close>

theorem causal_snapshot_refines:
  "let s = causal_snapshot (causal_run es); good = good_edges es;
       gens = observed_of ` set good in
     cs_MatchedEdges s = int (length es) \<and>
     cs_InvalidEdges s = int (length es) - int (length good) \<and>
     cs_UniqueObserved s = int (card gens) \<and>
     cs_DuplicateMatches s = int (length good) - int (card gens) \<and>
     cs_HighestObserved s = Max (insert 0 gens) \<and>
     (OperationMatched s q \<longleftrightarrow> 0 < q \<and> q \<in> e_sequence ` set good) \<and>
     cs_ObservedGenerationSlots s = (if good = [] then 0 else cs_HighestObserved s + 1)"
  by (simp add: Let_def causal_snapshot_fields del: Max_insert)

text \<open>The retained evidence is right and bounded. The findings of the snapshot are the first
  20 of the history's anomalies in the order they occurred: one per malformed edge, and one per
  repeated generation, naming the operation and worker that observed it first and the one that
  competed with it.\<close>

theorem causal_findings_evidence:
  "cs_Findings (causal_snapshot (causal_run es)) = take 20 (all_findings es)"
  using causal_abs_run[of es]
  by (simp add: causal_snapshot_def causal_abs_def maxErrorSamples_def)

text \<open>Classification of a driver result. An error is never reported as a match or a
  no-match; it is a definite rejection only when the server answered with a command or write
  error that is neither a cancellation, a deadline, a network error nor a bare write-concern
  error, and indeterminate otherwise. Without an error the outcome follows the matched count,
  and every classified outcome is one the ledger accepts.\<close>

theorem UpdateOutcome_classifies:
  "accepted (UpdateOutcome net result err) \<and>
   (case err of
      None \<Rightarrow> oc_Kind (UpdateOutcome net result err) =
                (if wr_Matched result = 0 then OutcomeNoMatch else OutcomeMatched) \<and>
              oc_Err (UpdateOutcome net result err) = None
    | Some e \<Rightarrow>
        oc_Err (UpdateOutcome net result err) = Some e \<and>
        oc_Kind (UpdateOutcome net result err) =
          (if (as_CommandError e, as_WriteException e) \<noteq> (None, None) \<and>
              \<not> errors_Is e ErrCanceled \<and> \<not> errors_Is e ErrDeadlineExceeded \<and>
              \<not> net e \<and> \<not> writeConcernOnly e
           then OutcomeRejected else OutcomeIndeterminate))"
  by (auto simp: UpdateOutcome_def outcome_of_def accepted_def split: option.splits)

end
