(* ===== verification/Checks.thy ===== *)
theory Checks
  imports LedgerFacts
begin

text \<open>
  Checks on the final state (src/concurrency/scenario.go and the check lists scenarios.go
  shares between its scenarios). Every list is a function of the stored counter and the ledger
  snapshot; the lemmas say what it means for a list to pass, and the properties relate a
  passing list to the recorded history.
\<close>

record Check =
  ck_Name :: string
  ck_Passed :: bool
  ck_Skipped :: bool
  ck_Detail :: string

fun ChecksPassed :: "Check list \<Rightarrow> bool" where
  "ChecksPassed [] = True"
| "ChecksPassed (check # checks) =
     (if \<not> ck_Skipped check \<and> \<not> ck_Passed check then False else ChecksPassed checks)"

lemma ChecksPassed_iff: "ChecksPassed cs \<longleftrightarrow> (\<forall>c \<in> set cs. ck_Skipped c \<or> ck_Passed c)"
  by (induction cs) auto

lemma ChecksPassed_Cons [simp]:
  "ChecksPassed (c # cs) \<longleftrightarrow> (ck_Skipped c \<or> ck_Passed c) \<and> ChecksPassed cs"
  by auto

declare ChecksPassed.simps(2) [simp del]

lemma ChecksPassed_append [simp]: "ChecksPassed (as @ bs) \<longleftrightarrow> ChecksPassed as \<and> ChecksPassed bs"
  by (auto simp: ChecksPassed_iff)

text \<open>\<open>check_of\<close> is a struct literal that leaves \<open>Skipped\<close> out.\<close>

abbreviation check_of :: "string \<Rightarrow> bool \<Rightarrow> string \<Rightarrow> Check" where
  "check_of name passed detail \<equiv>
     \<lparr>ck_Name = name, ck_Passed = passed, ck_Skipped = False, ck_Detail = detail\<rparr>"

abbreviation check_skip :: "string \<Rightarrow> bool \<Rightarrow> bool \<Rightarrow> string \<Rightarrow> Check" where
  "check_skip name passed skipped detail \<equiv>
     \<lparr>ck_Name = name, ck_Passed = passed, ck_Skipped = skipped, ck_Detail = detail\<rparr>"

definition everyMatchModified :: "LedgerSnapshot \<Rightarrow> Check" where
  "everyMatchModified ledger =
     check_of ''everyMatchModified'' (Modified ledger = Matched ledger)
       (''modified='' @ itoa (Modified ledger) @ '' matched='' @ itoa (Matched ledger))"

definition allAcknowledgedWritesMatched :: "LedgerSnapshot \<Rightarrow> Check" where
  "allAcknowledgedWritesMatched ledger =
     check_of ''allAcknowledgedWritesMatched''
       (Matched ledger = Attempts ledger - Rejected ledger - Indeterminate ledger)
       (''matched='' @ itoa (Matched ledger) @ '' attempts='' @ itoa (Attempts ledger) @
        '' rejected='' @ itoa (Rejected ledger) @
        '' indeterminate='' @ itoa (Indeterminate ledger))"

definition fieldDivergentCounterChecks :: "int \<Rightarrow> LedgerSnapshot \<Rightarrow> Check list" where
  "fieldDivergentCounterChecks version ledger =
     [check_skip ''storedVersionEqualsUniqueObservedChain''
        (version = cs_UniqueObserved (CAS ledger)) (Indeterminate ledger > 0)
        (''version='' @ itoa version @ '' uniqueObserved='' @
         itoa (cs_UniqueObserved (CAS ledger)) @ '' matched='' @ itoa (Matched ledger)),
      everyMatchModified ledger,
      check_of ''matchedEdgesAreSuccessive''
        (cs_InvalidEdges (CAS ledger) = 0 \<and> cs_MatchedEdges (CAS ledger) = Matched ledger)
        (''edges='' @ itoa (cs_MatchedEdges (CAS ledger)) @ '' invalid='' @
         itoa (cs_InvalidEdges (CAS ledger)) @ '' matched='' @ itoa (Matched ledger)),
      check_skip ''observedGenerationsFormCompleteChain''
        (version = 0 \<or> cs_HighestObserved (CAS ledger) = version - 1) (Indeterminate ledger > 0)
        (''highestObserved='' @ itoa (cs_HighestObserved (CAS ledger)) @
         '' version='' @ itoa version)]"

definition fieldDivergentBlindIncrementChecks :: "int \<Rightarrow> LedgerSnapshot \<Rightarrow> Check list" where
  "fieldDivergentBlindIncrementChecks version ledger =
     [check_skip ''storedVersionDoesNotExceedMatched''
        (version \<ge> 0 \<and> version \<le> Matched ledger) (Indeterminate ledger > 0)
        (''version='' @ itoa version @ '' matched='' @ itoa (Matched ledger) @
         '' coalesced='' @ itoa (Matched ledger - version)),
      everyMatchModified ledger,
      allAcknowledgedWritesMatched ledger]"

definition counterChecks :: "int \<Rightarrow> LedgerSnapshot \<Rightarrow> Check list" where
  "counterChecks version ledger =
     [check_skip ''storedVersionEqualsMatched''
        (version = Matched ledger) (Indeterminate ledger > 0)
        (''version='' @ itoa version @ '' matched='' @ itoa (Matched ledger)),
      everyMatchModified ledger,
      check_of ''oneMatchPerObservedGeneration'' (cs_DuplicateMatches (CAS ledger) = 0)
        (''duplicateMatches='' @ itoa (cs_DuplicateMatches (CAS ledger))),
      check_of ''matchedEdgesAreSuccessive''
        (cs_InvalidEdges (CAS ledger) = 0 \<and> cs_MatchedEdges (CAS ledger) = Matched ledger)
        (''edges='' @ itoa (cs_MatchedEdges (CAS ledger)) @ '' invalid='' @
         itoa (cs_InvalidEdges (CAS ledger)) @ '' matched='' @ itoa (Matched ledger)),
      check_skip ''matchedEdgesFormCompleteChain''
        (version = 0 \<or> cs_HighestObserved (CAS ledger) = version - 1) (Indeterminate ledger > 0)
        (''highestObserved='' @ itoa (cs_HighestObserved (CAS ledger)) @
         '' version='' @ itoa version)]"

definition strictCASClientOutcomeChecks :: "LedgerSnapshot \<Rightarrow> Check list" where
  "strictCASClientOutcomeChecks ledger =
     [check_of ''refusedCASReturnsNoMatch'' (Rejected ledger = 0)
        (''rejected='' @ itoa (Rejected ledger) @ '' noMatch='' @ itoa (NoMatch ledger)),
      check_of ''everyConclusiveCASAttemptHasCommandResult''
        (Matched ledger + NoMatch ledger = Attempts ledger - Indeterminate ledger)
        (''matched='' @ itoa (Matched ledger) @ '' noMatch='' @ itoa (NoMatch ledger) @
         '' attempts='' @ itoa (Attempts ledger) @
         '' indeterminate='' @ itoa (Indeterminate ledger))]"

declare everyMatchModified_def [check_defs] allAcknowledgedWritesMatched_def [check_defs]
  fieldDivergentCounterChecks_def [check_defs] fieldDivergentBlindIncrementChecks_def [check_defs]
  counterChecks_def [check_defs] strictCASClientOutcomeChecks_def [check_defs]

section \<open>Chains of generations\<close>

text \<open>The observed generations of a complete chain of length \<open>version\<close>.\<close>

definition chain :: "int \<Rightarrow> int multiset" where
  "chain version = mset (map int [0..<nat version])"

lemma set_upt_int: "set (map int [0..<n]) = {0..<int n}"
  by (simp add: image_int_atLeastLessThan)

lemma chain_characterisation:
  fixes gs :: "int list"
  assumes pos: "\<forall>g \<in> set gs. 0 \<le> g" and len: "int (length gs) = version"
    and dist: "length gs = card (set gs)"
    and top: "version = 0 \<or> Max (insert 0 (set gs)) = version - 1"
  shows "mset gs = chain version"
proof (cases "version = 0")
  case False
  with len have n: "0 < version" by (cases gs) auto
  with top have top': "Max (insert 0 (set gs)) = version - 1" by simp
  have "set gs \<subseteq> {0..<version}"
  proof
    fix g assume "g \<in> set gs"
    then have "g \<le> Max (insert 0 (set gs))" by (intro Max_ge) simp_all
    with \<open>g \<in> set gs\<close> pos top' show "g \<in> {0..<version}" by auto
  qed
  moreover have "card (set gs) = card {0..<version}" using dist len by simp
  ultimately have "set gs = {0..<version}" by (intro card_subset_eq) simp_all
  moreover have "distinct gs" using dist by (simp add: card_distinct)
  moreover have "set (map int [0..<nat version]) = {0..<version}"
    using n by (subst set_upt_int) simp
  ultimately show ?thesis
    unfolding chain_def by (intro set_eq_iff_mset_eq_distinct[THEN iffD1]) (simp_all add: distinct_map)
qed (use len in \<open>simp add: chain_def\<close>)

lemma chain_facts:
  fixes gs :: "int list"
  assumes eq: "mset gs = chain version" and "0 \<le> version"
  shows "int (length gs) = version \<and> length gs = card (set gs) \<and>
    (version = 0 \<or> Max (insert 0 (set gs)) = version - 1)"
proof -
  have len: "length gs = nat version" using arg_cong[OF eq, of size] by (simp add: chain_def)
  have st: "set gs = {0..<version}"
    using arg_cong[OF eq, of set_mset] assms(2) set_upt_int[of "nat version"]
    by (simp add: chain_def)
  have "Max (insert 0 (set gs)) = version - 1" if "version \<noteq> 0"
    using that assms(2) by (intro Max_eqI) (auto simp: st)
  moreover have "int (length gs) = version" "length gs = card (set gs)"
    using len st assms(2) by simp_all
  ultimately show ?thesis by blast
qed

text \<open>A history in which every match carries its compare-and-set, and what it counts.\<close>

definition all_cas :: "(Outcome \<times> duration) list \<Rightarrow> bool" where
  "all_cas h \<longleftrightarrow> (\<forall>r \<in> set h. oc_Kind (fst r) = OutcomeMatched \<longrightarrow> oc_CAS (fst r) \<noteq> None)"

lemma all_cas_edges:
  "all_cas h \<Longrightarrow> int (length (edges_of h)) = kind_count OutcomeMatched (accepted_of h)"
  by (induction h rule: rev_induct)
    (auto simp: all_cas_def edge_of_def accepted_def split: option.splits OutcomeKind.splits)

lemma good_edges_all: "length (good_edges es) = length es \<longleftrightarrow> good_edges es = es"
  by (simp add: good_edges_def length_filter_all_iff filter_id_conv)

lemma kind_count_nonneg [simp]: "0 \<le> kind_count k rs"
  by (simp add: kind_count_def)

lemma kind_count_zero: "kind_count k rs = 0 \<longleftrightarrow> (\<forall>r \<in> set rs. oc_Kind r \<noteq> k)"
  by (simp add: kind_count_def filter_empty_conv)


text \<open>The counting facts behind both counter check lists, over lists of generations.\<close>

lemma exact_chain_iff:
  fixes gs :: "int list"
  assumes pos: "\<forall>g \<in> set gs. 0 \<le> g"
  shows "version = int (length gs) \<and> length gs = card (set gs) \<and>
           (version = 0 \<or> Max (insert 0 (set gs)) = version - 1)
         \<longleftrightarrow> 0 \<le> version \<and> mset gs = chain version"
proof
  assume A: "version = int (length gs) \<and> length gs = card (set gs) \<and>
    (version = 0 \<or> Max (insert 0 (set gs)) = version - 1)"
  have "mset gs = chain version" by (rule chain_characterisation[OF pos]) (use A in blast)+
  with A show "0 \<le> version \<and> mset gs = chain version" by simp
next
  assume "0 \<le> version \<and> mset gs = chain version"
  with chain_facts[of gs version] show "version = int (length gs) \<and> length gs = card (set gs) \<and>
    (version = 0 \<or> Max (insert 0 (set gs)) = version - 1)" by blast
qed

lemma complete_chain_iff:
  fixes gens :: "int set"
  assumes pos: "\<forall>g \<in> gens. 0 \<le> g" and fin: "finite gens"
  shows "version = int (card gens) \<and> (version = 0 \<or> Max (insert 0 gens) = version - 1)
         \<longleftrightarrow> 0 \<le> version \<and> gens = {0..<version}"
proof -
  obtain gs where gs: "set gs = gens" "distinct gs" using finite_distinct_list[OF fin] by blast
  then have len: "length gs = card (set gs)" using distinct_card[of gs] by simp
  have "mset gs = chain version \<longleftrightarrow> gens = {0..<version}" if "0 \<le> version"
  proof -
    have "set (map int [0..<nat version]) = {0..<version}"
      using that by (subst set_upt_int) simp
    with gs show ?thesis
      unfolding chain_def
      by (metis distinct_map distinct_upt inj_on_of_nat set_eq_iff_mset_eq_distinct)
  qed
  moreover have "version = int (card gens) \<and>
      (version = 0 \<or> Max (insert 0 gens) = version - 1) \<longleftrightarrow> 0 \<le> version \<and> mset gs = chain version"
    using exact_chain_iff[of gs version] pos len unfolding gs(1) by simp
  ultimately show ?thesis by blast
qed

lemma good_edges_observed_nonneg: "\<forall>g \<in> set (map observed_of (good_edges es)). 0 \<le> g"
  by (auto dest: good_edges_nonneg)

lemma ChecksPassed_counterChecks:
  "ChecksPassed (counterChecks version s) \<longleftrightarrow>
     Modified s = Matched s \<and> cs_DuplicateMatches (CAS s) = 0 \<and> cs_InvalidEdges (CAS s) = 0 \<and>
     cs_MatchedEdges (CAS s) = Matched s \<and>
     (0 < Indeterminate s \<or>
      version = Matched s \<and> (version = 0 \<or> cs_HighestObserved (CAS s) = version - 1))"
  by (auto simp: counterChecks_def everyMatchModified_def)

lemma ChecksPassed_fieldDivergentCounterChecks:
  "ChecksPassed (fieldDivergentCounterChecks version s) \<longleftrightarrow>
     Modified s = Matched s \<and> cs_InvalidEdges (CAS s) = 0 \<and>
     cs_MatchedEdges (CAS s) = Matched s \<and>
     (0 < Indeterminate s \<or> version = cs_UniqueObserved (CAS s) \<and>
      (version = 0 \<or> cs_HighestObserved (CAS s) = version - 1))"
  by (auto simp: fieldDivergentCounterChecks_def everyMatchModified_def)

lemma counterChecks_history:
  "let s = Snapshot (ledger_run h); es = edges_of h; gens = map observed_of es in
     ChecksPassed (counterChecks version s) \<longleftrightarrow>
       Modified s = Matched s \<and> int (length es) = Matched s \<and> good_edges es = es \<and>
       distinct gens \<and>
       (0 < Indeterminate s \<or>
        version = Matched s \<and> 0 \<le> version \<and> mset gens = chain version)"
proof -
  let ?es = "edges_of h" and ?gs = "map observed_of (edges_of h)"
  have d: "int (length ?es) = int (card (observed_of ` set ?es)) \<longleftrightarrow> distinct ?gs"
    by (metis card_distinct distinct_card length_map list.set_map of_nat_eq_iff)
  show ?thesis
  proof (cases "good_edges ?es = ?es")
    case True
    then have pos: "\<forall>g \<in> set ?gs. 0 \<le> g" using good_edges_observed_nonneg[of ?es] by simp
    have ex: "version = int (length ?es) \<and> length ?es = card (observed_of ` set ?es) \<and>
        (version = 0 \<or> Max (insert 0 (observed_of ` set ?es)) = version - 1)
        \<longleftrightarrow> 0 \<le> version \<and> mset ?gs = chain version"
      using exact_chain_iff[OF pos, of version] by (simp only: length_map list.set_map)
    show ?thesis
      unfolding Let_def ChecksPassed_counterChecks ledger_snapshot_fields causal_snapshot_fields
        True right_minus_eq diff_self
      using ex d by auto
  next
    case False
    with good_edges_all[of ?es] show ?thesis
      unfolding Let_def ChecksPassed_counterChecks ledger_snapshot_fields causal_snapshot_fields
      by simp
  qed
qed

lemma fieldDivergentCounterChecks_history:
  "let s = Snapshot (ledger_run h); es = edges_of h in
     ChecksPassed (fieldDivergentCounterChecks version s) \<longleftrightarrow>
       Modified s = Matched s \<and> int (length es) = Matched s \<and> good_edges es = es \<and>
       (0 < Indeterminate s \<or>
        0 \<le> version \<and> observed_of ` set es = {0..<version})"
proof (cases "good_edges (edges_of h) = edges_of h")
  case True
  then have "\<forall>g \<in> observed_of ` set (edges_of h). 0 \<le> g"
    using good_edges_observed_nonneg[of "edges_of h"] by simp
  from complete_chain_iff[OF this, of version] True show ?thesis
    unfolding Let_def ChecksPassed_fieldDivergentCounterChecks ledger_snapshot_fields
      causal_snapshot_fields
    by (simp del: Max_insert)
next
  case False
  with good_edges_all[of "edges_of h"] show ?thesis
    unfolding Let_def ChecksPassed_fieldDivergentCounterChecks ledger_snapshot_fields
      causal_snapshot_fields
    by simp
qed

lemma strict_checks_rejected:
  "ChecksPassed (strictCASClientOutcomeChecks (Snapshot (ledger_run h)))
     \<longleftrightarrow> Rejected (Snapshot (ledger_run h)) = 0"
  using accepted_partition[of h]
  by (auto simp: strictCASClientOutcomeChecks_def ledger_snapshot_fields)

section \<open>Properties\<close>

text \<open>C11: What a passing counter check list proves. For every recorded history, the checks of
  the compare-and-set workloads pass exactly when every match modified the document, every match
  carried a compare-and-set and every one of them is a well-formed successor step, no generation
  was matched twice, and, unless some attempt is indeterminate, the observed generations are
  precisely \<open>0, 1, ..., version - 1\<close>, each once, with the stored version equal to the number of
  matches: no update was lost and none applied twice.\<close>

theorem counterChecks_characterise:
  "let s = Snapshot (ledger_run h); es = edges_of h; gens = map observed_of es in
     ChecksPassed (counterChecks version s) \<longleftrightarrow>
       Modified s = Matched s \<and> int (length es) = Matched s \<and> good_edges es = es \<and>
       distinct gens \<and>
       (0 < Indeterminate s \<or>
        version = Matched s \<and> 0 \<le> version \<and> mset gens = chain version)"
  by (rule counterChecks_history)

text \<open>What the field-divergent checks prove, where the server may coalesce equal writes. The
  list passes exactly when every match modified the document and was a well-formed successor
  step, and, unless some attempt is indeterminate, the generations observed by matches are
  precisely the interval below the stored version: repeated winners are allowed, gaps and
  overshoot are not.\<close>

theorem fieldDivergentCounterChecks_characterise:
  "let s = Snapshot (ledger_run h); es = edges_of h in
     ChecksPassed (fieldDivergentCounterChecks version s) \<longleftrightarrow>
       Modified s = Matched s \<and> int (length es) = Matched s \<and> good_edges es = es \<and>
       (0 < Indeterminate s \<or>
        0 \<le> version \<and> observed_of ` set es = {0..<version})"
  by (rule fieldDivergentCounterChecks_history)

text \<open>The strict client-outcome checks. On the snapshot of any recorded history the pair
  passes exactly when no attempt was rejected: given the accounting law, the second check is
  implied by the first.\<close>

theorem strictCASClientOutcomeChecks_characterise:
  "ChecksPassed (strictCASClientOutcomeChecks (Snapshot (ledger_run h))) \<longleftrightarrow>
     list_all (\<lambda>r. oc_Kind r \<noteq> OutcomeRejected) (accepted_of h)"
  by (simp add: strict_checks_rejected ledger_snapshot_fields kind_count_zero list_all_iff)

end
