(* ===== verification/Client.thy ===== *)
theory Client
  imports Ledger Float64
begin

text \<open>
  The client side of the concurrency harness: BSON values and documents, the driver as a
  parameter, the \<open>Collection\<close> interface of src/concurrency/adapter.go, and client code as
  programs over that interface. A program is a tree of calls: each call names its request and
  what the client does with the response. One call is one atomic step at the server, and
  whatever happens between two calls of a client is up to the other clients, so the
  interleavings of the workers are interleavings of these trees.
\<close>

section \<open>Values and documents\<close>

datatype bval =
    BNull
  | BBool bool
  | BInt32 int
  | BInt64 int
  | BDouble float64
  | BString string
  | BBinary nat "byte list"
  | BDoc "(string \<times> bval) list"
  | BArr "bval list"

type_synonym doc = "(string \<times> bval) list"

text \<open>\<open>numericInt64\<close> of scenarios.go; an absent key reads as the nil interface.\<close>

fun numericInt64 :: "bval option \<Rightarrow> int \<times> bool" where
  "numericInt64 (Some (BInt32 n)) = (n, True)"
| "numericInt64 (Some (BInt64 n)) = (n, True)"
| "numericInt64 v = (0, False)"

text \<open>
  The driver is third-party code: its decoding of a value into an int64, a string or a binary
  field and its \<open>IsNetworkError\<close> are parameters. \<open>driver_ok\<close> states the documented behaviour
  the scenarios rely on: a stored value of the field's own type decodes to itself.
\<close>

record driver =
  drv_int64 :: "bval \<Rightarrow> goerror + int"
  drv_string :: "bval \<Rightarrow> goerror + string"
  drv_binary :: "bval \<Rightarrow> goerror + (nat \<times> byte list)"
  drv_isNetworkError :: "goerror \<Rightarrow> bool"

definition driver_ok :: "driver \<Rightarrow> bool" where
  "driver_ok drv \<longleftrightarrow>
     (\<forall>n. drv_int64 drv (BInt64 n) = Inr n) \<and>
     (\<forall>s. drv_string drv (BString s) = Inr s) \<and>
     (\<forall>t b. drv_binary drv (BBinary t b) = Inr (t, b))"

text \<open>Decoding one struct field: an absent key leaves the Go zero value.\<close>

definition field_int64 :: "driver \<Rightarrow> string \<Rightarrow> doc \<Rightarrow> goerror + int" where
  "field_int64 drv name d = (case map_of d name of None \<Rightarrow> Inr 0 | Some v \<Rightarrow> drv_int64 drv v)"

definition field_string :: "driver \<Rightarrow> string \<Rightarrow> doc \<Rightarrow> goerror + string" where
  "field_string drv name d = (case map_of d name of None \<Rightarrow> Inr [] | Some v \<Rightarrow> drv_string drv v)"

definition field_binary :: "driver \<Rightarrow> string \<Rightarrow> doc \<Rightarrow> goerror + (nat \<times> byte list)" where
  "field_binary drv name d =
     (case map_of d name of None \<Rightarrow> Inr (0, []) | Some v \<Rightarrow> drv_binary drv v)"

lemmas field_defs = field_int64_def field_string_def field_binary_def

section \<open>Programs over a collection\<close>

datatype ('s, 'r) prog =
    Return 'r
  | InsertOne doc "goerror option \<Rightarrow> ('s, 'r) prog"
  | FindOne doc "goerror + doc \<Rightarrow> ('s, 'r) prog"
  | UpdateOne doc doc "WriteResult \<times> goerror option \<Rightarrow> ('s, 'r) prog"
  | WaitTimer duration "goerror option \<Rightarrow> ('s, 'r) prog"
  | ReadLocal "'s \<Rightarrow> ('s, 'r) prog"
  | UpdateLocal "'s \<Rightarrow> 's" "('s, 'r) prog"

text \<open>
  \<open>WaitTimer\<close> is the select between a timer and the context; \<open>ReadLocal\<close> and \<open>UpdateLocal\<close>
  access the state a scenario object keeps between calls (atomics, or fields under a mutex).
\<close>

primrec bind_prog :: "('s, 'a) prog \<Rightarrow> ('a \<Rightarrow> ('s, 'b) prog) \<Rightarrow> ('s, 'b) prog" where
  "bind_prog (Return x) f = f x"
| "bind_prog (InsertOne d k) f = InsertOne d (\<lambda>r. bind_prog (k r) f)"
| "bind_prog (FindOne q k) f = FindOne q (\<lambda>r. bind_prog (k r) f)"
| "bind_prog (UpdateOne q u k) f = UpdateOne q u (\<lambda>r. bind_prog (k r) f)"
| "bind_prog (WaitTimer d k) f = WaitTimer d (\<lambda>r. bind_prog (k r) f)"
| "bind_prog (ReadLocal k) f = ReadLocal (\<lambda>s. bind_prog (k s) f)"
| "bind_prog (UpdateLocal g p) f = UpdateLocal g (bind_prog p f)"

text \<open>A server behind the \<open>Collection\<close> interface: its operations on its own state.\<close>

record 'v collection =
  col_InsertOne :: "doc \<Rightarrow> 'v \<Rightarrow> goerror option \<times> 'v"
  col_FindOne :: "doc \<Rightarrow> 'v \<Rightarrow> goerror + doc"
  col_UpdateOne :: "doc \<Rightarrow> doc \<Rightarrow> 'v \<Rightarrow> (WriteResult \<times> goerror option) \<times> 'v"

text \<open>One call of a program at a server, with the context error a wait may return.\<close>

fun prog_step :: "'v collection \<Rightarrow> goerror option \<Rightarrow> ('s, 'r) prog \<Rightarrow> 'v \<Rightarrow> 's \<Rightarrow>
    ('s, 'r) prog \<times> 'v \<times> 's" where
  "prog_step col ctx (Return x) v s = (Return x, v, s)"
| "prog_step col ctx (InsertOne d k) v s =
     (let (r, v') = col_InsertOne col d v in (k r, v', s))"
| "prog_step col ctx (FindOne q k) v s = (k (col_FindOne col q v), v, s)"
| "prog_step col ctx (UpdateOne q u k) v s =
     (let (r, v') = col_UpdateOne col q u v in (k r, v', s))"
| "prog_step col ctx (WaitTimer d k) v s = (k ctx, v, s)"
| "prog_step col ctx (ReadLocal k) v s = (k s, v, s)"
| "prog_step col ctx (UpdateLocal g p) v s = (p, v, g s)"

text \<open>Running a program alone, as Setup and Verify do once the workers have stopped.\<close>

primrec run_prog :: "'v collection \<Rightarrow> ('s, 'r) prog \<Rightarrow> 'v \<Rightarrow> 's \<Rightarrow> 'r \<times> 'v \<times> 's" where
  "run_prog col (Return x) v s = (x, v, s)"
| "run_prog col (InsertOne d k) v s =
     (let (r, v') = col_InsertOne col d v in run_prog col (k r) v' s)"
| "run_prog col (FindOne q k) v s = run_prog col (k (col_FindOne col q v)) v s"
| "run_prog col (UpdateOne q u k) v s =
     (let (r, v') = col_UpdateOne col q u v in run_prog col (k r) v' s)"
| "run_prog col (WaitTimer d k) v s = run_prog col (k None) v s"
| "run_prog col (ReadLocal k) v s = run_prog col (k s) v s"
| "run_prog col (UpdateLocal g p) v s = run_prog col p v (g s)"

lemma run_prog_bind [simp]:
  "run_prog col (bind_prog p f) v s =
     (case run_prog col p v s of (x, v', s') \<Rightarrow> run_prog col (f x) v' s')"
  by (induction p arbitrary: v s) (auto split: prod.splits)

text \<open>Running alone is iterating the atomic steps of an uncancelled context.\<close>

fun prog_steps :: "'v collection \<Rightarrow> nat \<Rightarrow> ('s, 'r) prog \<Rightarrow> 'v \<Rightarrow> 's \<Rightarrow>
    ('s, 'r) prog \<times> 'v \<times> 's" where
  "prog_steps col 0 p v s = (p, v, s)"
| "prog_steps col (Suc n) p v s =
     (case prog_step col None p v s of (p', v', s') \<Rightarrow> prog_steps col n p' v' s')"

lemma run_prog_steps:
  "\<exists>n. prog_steps col n p v s =
     (case run_prog col p v s of (x, v', s') \<Rightarrow> (Return x, v', s'))"
proof (induction p arbitrary: v s)
  case (Return x)
  show ?case by (rule exI[of _ 0]) simp
next
  case (InsertOne d k)
  obtain r v' where r: "col_InsertOne col d v = (r, v')" by fastforce
  obtain n where "prog_steps col n (k r) v' s =
      (case run_prog col (k r) v' s of (x, v', s') \<Rightarrow> (Return x, v', s'))"
    using InsertOne[OF rangeI] by blast
  with r show ?case by (intro exI[of _ "Suc n"]) simp
next
  case (FindOne q k)
  obtain n where "prog_steps col n (k (col_FindOne col q v)) v s =
      (case run_prog col (k (col_FindOne col q v)) v s of (x, v', s') \<Rightarrow> (Return x, v', s'))"
    using FindOne[OF rangeI] by blast
  then show ?case by (intro exI[of _ "Suc n"]) simp
next
  case (UpdateOne q u k)
  obtain r v' where r: "col_UpdateOne col q u v = (r, v')" by fastforce
  obtain n where "prog_steps col n (k r) v' s =
      (case run_prog col (k r) v' s of (x, v', s') \<Rightarrow> (Return x, v', s'))"
    using UpdateOne[OF rangeI] by blast
  with r show ?case by (intro exI[of _ "Suc n"]) simp
next
  case (WaitTimer d k)
  obtain n where "prog_steps col n (k None) v s =
      (case run_prog col (k None) v s of (x, v', s') \<Rightarrow> (Return x, v', s'))"
    using WaitTimer[OF rangeI] by blast
  then show ?case by (intro exI[of _ "Suc n"]) simp
next
  case (ReadLocal k)
  obtain n where "prog_steps col n (k s) v s =
      (case run_prog col (k s) v s of (x, v', s') \<Rightarrow> (Return x, v', s'))"
    using ReadLocal[OF rangeI] by blast
  then show ?case by (intro exI[of _ "Suc n"]) simp
next
  case (UpdateLocal g p)
  obtain n where "prog_steps col n p v (g s) =
      (case run_prog col p v (g s) of (x, v', s') \<Rightarrow> (Return x, v', s'))"
    using UpdateLocal by blast
  then show ?case by (intro exI[of _ "Suc n"]) simp
qed

end
