(* ===== verification/Config.thy ===== *)
theory Config
  imports Prelude
begin

text \<open>
  The run configuration and its validation (src/concurrency/config.go), and the deterministic
  delay between the read and the update of a compare-and-set (scenarios.go): a 64-bit mix of
  the seed and the operation's sequence number, reduced to the configured maximum.
\<close>

record Config =
  cfg_TargetURI :: string
  cfg_Duration :: duration
  cfg_Operations :: int
  cfg_Workers :: int
  cfg_Seed :: int
  cfg_Database :: string
  cfg_Collection :: string
  cfg_KeepData :: bool
  cfg_Scenario :: string
  cfg_PayloadBytes :: int
  cfg_CASDelay :: duration
  cfg_MergeMode :: string

definition MergeModeDocumentTouched :: string where
  "MergeModeDocumentTouched = ''documentTouched''"
definition MergeModeFieldTouched :: string where
  "MergeModeFieldTouched = ''fieldTouched''"
definition MergeModeFieldDivergent :: string where
  "MergeModeFieldDivergent = ''fieldDivergent''"
definition MergeModeDocumentDivergent :: string where
  "MergeModeDocumentDivergent = ''documentDivergent''"

lemmas merge_mode_defs = MergeModeDocumentTouched_def MergeModeFieldTouched_def
  MergeModeFieldDivergent_def MergeModeDocumentDivergent_def

definition validMergeMode :: "string \<Rightarrow> bool" where
  "validMergeMode mode \<longleftrightarrow>
     mode = MergeModeDocumentTouched \<or> mode = MergeModeFieldTouched \<or>
     mode = MergeModeFieldDivergent \<or> mode = MergeModeDocumentDivergent"

datatype config_error =
    TargetURIRequired
  | DurationOrOperations
  | WorkersNotPositive
  | DatabaseRequired
  | CollectionRequired
  | ScenarioRequired
  | NegativePayload
  | NegativeCASDelay
  | InvalidMergeMode

definition config_Validate :: "Config \<Rightarrow> config_error option" where
  "config_Validate c =
     (if cfg_TargetURI c = [] then Some TargetURIRequired
      else if cfg_Duration c \<le> 0 \<and> cfg_Operations c \<le> 0 then Some DurationOrOperations
      else if cfg_Workers c \<le> 0 then Some WorkersNotPositive
      else if cfg_Database c = [] then Some DatabaseRequired
      else if cfg_Collection c = [] then Some CollectionRequired
      else if cfg_Scenario c = [] then Some ScenarioRequired
      else if cfg_PayloadBytes c < 0 then Some NegativePayload
      else if cfg_CASDelay c < 0 then Some NegativeCASDelay
      else if cfg_MergeMode c \<noteq> [] \<and> \<not> validMergeMode (cfg_MergeMode c)
      then Some InvalidMergeMode
      else None)"

lemma config_Validate_None:
  "config_Validate c = None \<longleftrightarrow>
     cfg_TargetURI c \<noteq> [] \<and> (0 < cfg_Duration c \<or> 0 < cfg_Operations c) \<and> 0 < cfg_Workers c \<and>
     cfg_Database c \<noteq> [] \<and> cfg_Collection c \<noteq> [] \<and> cfg_Scenario c \<noteq> [] \<and>
     0 \<le> cfg_PayloadBytes c \<and> 0 \<le> cfg_CASDelay c \<and>
     (cfg_MergeMode c = [] \<or> validMergeMode (cfg_MergeMode c))"
  by (auto simp: config_Validate_def)

section \<open>The deterministic delay\<close>

definition xor_shift :: "nat \<Rightarrow> 64 word \<Rightarrow> 64 word" where
  "xor_shift k w = xor w (drop_bit k w)"

definition mix64 :: "64 word \<Rightarrow> 64 word" where
  "mix64 v0 =
     (let v1 = xor_shift 30 v0; v2 = v1 * 0xbf58476d1ce4e5b9;
          v3 = xor_shift 27 v2; v4 = v3 * 0x94d049bb133111eb
      in xor_shift 31 v4)"

definition deterministicDelay :: "int \<Rightarrow> int \<Rightarrow> duration \<Rightarrow> duration" where
  "deterministicDelay seed sequence maximum =
     (if maximum \<le> 0 then 0
      else let value = mix64 (xor (of_int seed) (of_int sequence * 0x9e3779b97f4a7c15))
           in sint (value mod (of_int maximum + 1) :: 64 word))"

lemma xor_shift_inverse_step:
  fixes w :: "64 word"
  assumes "0 < k" and eq: "xor_shift k w = xor_shift k v"
  shows "w = v"
proof -
  have "bit w n = bit v n" if "n < 64" for n
    using that
  proof (induction "64 - n" arbitrary: n rule: less_induct)
    case less
    have "bit (xor_shift k w) n = bit (xor_shift k v) n" by (simp add: eq)
    then have step: "(bit w n \<noteq> bit w (k + n)) = (bit v n \<noteq> bit v (k + n))"
      by (simp add: xor_shift_def bit_simps)
    show ?case
    proof (cases "k + n < 64")
      case True
      with less \<open>0 < k\<close> have "bit w (k + n) = bit v (k + n)" by simp
      with step show ?thesis by auto
    next
      case False
      then have "\<not> bit w (k + n)" "\<not> bit v (k + n)"
        using bit_imp_le_length[of w "k + n"] bit_imp_le_length[of v "k + n"] by auto
      with step show ?thesis by auto
    qed
  qed
  then show ?thesis by (auto intro: bit_eqI dest: bit_imp_le_length)
qed

lemma odd_mult_inject:
  fixes x y c c' :: "64 word"
  assumes "c * c' = 1" "x * c = y * c"
  shows "x = y"
proof -
  from assms(2) have "x * (c * c') = y * (c * c')" by (simp flip: mult.assoc)
  with assms(1) show ?thesis by simp
qed

text \<open>The mixing function of the delay is a permutation of the 64-bit words, so no two
  operations of a run share the mixed value because of the mixing: the delay depends on every
  bit of seed and sequence.\<close>

theorem mix64_bijective: "bij mix64"
proof -
  have "inj mix64"
  proof (rule injI)
    fix v w :: "64 word"
    assume "mix64 v = mix64 w"
    then have "xor_shift 27 (xor_shift 30 v * 0xbf58476d1ce4e5b9) * 0x94d049bb133111eb
        = xor_shift 27 (xor_shift 30 w * 0xbf58476d1ce4e5b9) * 0x94d049bb133111eb"
      by (auto simp: mix64_def Let_def intro: xor_shift_inverse_step[of 31])
    then have "xor_shift 27 (xor_shift 30 v * 0xbf58476d1ce4e5b9)
        = xor_shift 27 (xor_shift 30 w * 0xbf58476d1ce4e5b9)"
      by (rule odd_mult_inject[of _ "0x319642b2d24d8ec3", rotated]) simp
    then have "xor_shift 30 v * 0xbf58476d1ce4e5b9 = xor_shift 30 w * 0xbf58476d1ce4e5b9"
      by (rule xor_shift_inverse_step[rotated]) simp
    then have "xor_shift 30 v = xor_shift 30 w"
      by (rule odd_mult_inject[of _ "0x96de1b173f119089", rotated]) simp
    then show "v = w" by (rule xor_shift_inverse_step[rotated]) simp
  qed
  then show ?thesis by (simp add: bij_def finite_UNIV_inj_surj)
qed

end
