(* ===== verification/Scenarios.thy ===== *)
theory Scenarios
  imports Checks Client Config
begin

text \<open>
  The workloads of src/concurrency/scenarios.go that need nothing but a \<open>Collection\<close>: setup,
  one operation of a worker, and the checks on the final state, each as a program over the
  collection. \<open>drv\<close> is the driver (decoding, \<open>IsNetworkError\<close>), \<open>sha256\<close> the digest of
  crypto/sha256. A scenario object's own state is the slice \<open>acknowledged\<close> of the disjoint-set
  workload; the other scenarios keep none.
\<close>

type_synonym 'r client = "(int list, 'r) prog"

definition makePayload :: "int \<Rightarrow> string" where
  "makePayload n = replicate (nat n) (CHR ''x'')"

definition id_filter :: "string \<Rightarrow> doc" where
  "id_filter name = [(''_id'', BString name)]"

definition set_update :: "doc \<Rightarrow> doc" where
  "set_update fs = [(''$set'', BDoc fs)]"

definition inc_update :: "doc \<Rightarrow> doc" where
  "inc_update fs = [(''$inc'', BDoc fs)]"

section \<open>Calls shared by the scenarios\<close>

definition seedCounter :: "string \<Rightarrow> goerror option client" where
  "seedCounter payload =
     InsertOne [(''_id'', BString ''counter''), (''version'', BInt64 0),
                (''payload'', BString payload)] Return"

definition readCounter :: "driver \<Rightarrow> (goerror + int) client" where
  "readCounter drv =
     FindOne (id_filter ''counter'') (\<lambda>r. Return
       (case r of Inl err \<Rightarrow> Inl err | Inr document \<Rightarrow> field_int64 drv ''version'' document))"

definition waitCASDelay :: "int \<Rightarrow> int \<Rightarrow> duration \<Rightarrow> goerror option client" where
  "waitCASDelay seed sequence maximum =
     (let delay = deterministicDelay seed sequence maximum in
      if delay = 0 then Return None else WaitTimer delay Return)"

definition indeterminate :: "goerror \<Rightarrow> Outcome" where
  "indeterminate err = (outcome_of OutcomeIndeterminate)\<lparr>oc_Err := Some err\<rparr>"

definition cas_outcome ::
    "driver \<Rightarrow> int \<Rightarrow> int \<Rightarrow> int \<Rightarrow> int \<Rightarrow> WriteResult \<times> goerror option \<Rightarrow> Outcome" where
  "cas_outcome drv worker sequence observed proposed r =
     (UpdateOutcome (drv_isNetworkError drv) (fst r) (snd r))
       \<lparr>oc_Sequence := sequence, oc_Worker := worker,
        oc_CAS := Some \<lparr>ObservedGeneration = observed, ProposedGeneration = proposed\<rparr>\<rparr>"

definition retainedPayloadCheck :: "driver \<Rightarrow> string \<Rightarrow> string \<Rightarrow> (goerror + Check) client" where
  "retainedPayloadCheck drv name expected =
     FindOne (id_filter name) (\<lambda>r. Return
       (case r of Inl err \<Rightarrow> Inl err
        | Inr document \<Rightarrow>
            (case field_string drv ''payload'' document of Inl err \<Rightarrow> Inl err
             | Inr payload \<Rightarrow> Inr (check_of ''payloadRetained'' (payload = expected)
                 (''payloadBytes='' @ itoa (int (length expected)))))))"

text \<open>The common tail of the Verify methods: the payload check after the scenario's own.\<close>

definition with_payload_check ::
    "driver \<Rightarrow> string \<Rightarrow> string \<Rightarrow> Check list \<Rightarrow> (goerror + Check list) client" where
  "with_payload_check drv name payload checks =
     bind_prog (retainedPayloadCheck drv name payload) (\<lambda>r. Return
       (case r of Inl err \<Rightarrow> Inl err | Inr check \<Rightarrow> Inr (checks @ [check])))"

section \<open>cas\<close>

definition cas_Execute :: "driver \<Rightarrow> int \<Rightarrow> duration \<Rightarrow> int \<Rightarrow> int \<Rightarrow> Outcome client" where
  "cas_Execute drv seed maxDelay worker sequence =
     bind_prog (readCounter drv) (\<lambda>r. case r of
       Inl err \<Rightarrow> Return (indeterminate err)
     | Inr version \<Rightarrow>
         bind_prog (waitCASDelay seed sequence maxDelay) (\<lambda>w. case w of
           Some err \<Rightarrow> Return (indeterminate err)
         | None \<Rightarrow>
             UpdateOne [(''_id'', BString ''counter''), (''version'', BInt64 version)]
               (inc_update [(''version'', BInt64 1)])
               (\<lambda>r. Return (cas_outcome drv worker sequence version (version + 1) r))))"

definition cas_checks :: "string \<Rightarrow> int \<Rightarrow> LedgerSnapshot \<Rightarrow> Check list" where
  "cas_checks mergeMode version ledger =
     (let checks =
        (if mergeMode = MergeModeFieldDivergent then fieldDivergentCounterChecks version ledger
         else if mergeMode = MergeModeDocumentDivergent
         then fieldDivergentCounterChecks version ledger @ strictCASClientOutcomeChecks ledger
         else counterChecks version ledger)
      in if mergeMode = MergeModeDocumentTouched
         then checks @ strictCASClientOutcomeChecks ledger else checks)"

definition cas_Verify ::
    "driver \<Rightarrow> string \<Rightarrow> string \<Rightarrow> LedgerSnapshot \<Rightarrow> (goerror + Check list) client" where
  "cas_Verify drv payload mergeMode ledger =
     bind_prog (readCounter drv) (\<lambda>r. case r of
       Inl err \<Rightarrow> Return (Inl err)
     | Inr version \<Rightarrow>
         with_payload_check drv ''counter'' payload (cas_checks mergeMode version ledger))"

section \<open>blind-inc\<close>

definition blind_Execute :: "driver \<Rightarrow> int \<Rightarrow> int \<Rightarrow> Outcome client" where
  "blind_Execute drv worker sequence =
     UpdateOne (id_filter ''counter'') (inc_update [(''version'', BInt64 1)])
       (\<lambda>r. Return (UpdateOutcome (drv_isNetworkError drv) (fst r) (snd r)))"

definition blind_checks :: "string \<Rightarrow> int \<Rightarrow> LedgerSnapshot \<Rightarrow> Check list" where
  "blind_checks mergeMode version ledger =
     (let checks =
        (if mergeMode = MergeModeFieldDivergent \<or> mergeMode = MergeModeDocumentDivergent
         then fieldDivergentBlindIncrementChecks version ledger
         else [check_skip ''storedVersionEqualsMatched'' (version = Matched ledger)
                 (Indeterminate ledger > 0)
                 (''version='' @ itoa version @ '' matched='' @ itoa (Matched ledger)),
               everyMatchModified ledger,
               allAcknowledgedWritesMatched ledger])
      in if mergeMode = MergeModeDocumentTouched
         then checks @ [check_of ''hotDocumentRetriesDoNotExhaust'' (Rejected ledger = 0)
                          (''rejected='' @ itoa (Rejected ledger))]
         else checks)"

definition blind_Verify ::
    "driver \<Rightarrow> string \<Rightarrow> string \<Rightarrow> LedgerSnapshot \<Rightarrow> (goerror + Check list) client" where
  "blind_Verify drv payload mergeMode ledger =
     bind_prog (readCounter drv) (\<lambda>r. case r of
       Inl err \<Rightarrow> Return (Inl err)
     | Inr version \<Rightarrow>
         with_payload_check drv ''counter'' payload (blind_checks mergeMode version ledger))"

section \<open>uuid-cas\<close>

text \<open>\<open>binary.BigEndian.PutUint64\<close>, and the version-4 layout of the token.\<close>

definition be64 :: "64 word \<Rightarrow> byte list" where
  "be64 w = map (\<lambda>i. ucast (drop_bit (8 * (7 - i)) w)) [0..<8]"

definition uuidToken :: "(byte list \<Rightarrow> byte list) \<Rightarrow> int \<Rightarrow> nat \<times> byte list" where
  "uuidToken sha256 sequence =
     (let data = take 16 (sha256 (be64 (of_int sequence)));
          data = data[6 := or (and (data ! 6) 0x0f) 0x40];
          data = data[8 := or (and (data ! 8) 0x3f) 0x80]
      in (4, data))"

definition binaryTokensEqual :: "nat \<times> byte list \<Rightarrow> nat \<times> byte list \<Rightarrow> bool" where
  "binaryTokensEqual left right =
     (if fst left \<noteq> fst right \<or> length (snd left) \<noteq> length (snd right) then False
      else list_all (\<lambda>i. snd left ! i = snd right ! i) [0..<length (snd left)])"

definition token_value :: "nat \<times> byte list \<Rightarrow> bval" where
  "token_value t = BBinary (fst t) (snd t)"

record uuidCASDocument =
  uc_Token :: "nat \<times> byte list"
  uc_Applied :: int
  uc_LastOperation :: int

definition decode_uuid :: "driver \<Rightarrow> doc \<Rightarrow> goerror + uuidCASDocument" where
  "decode_uuid drv d =
     (case field_binary drv ''token'' d of Inl err \<Rightarrow> Inl err
      | Inr token \<Rightarrow>
     (case field_int64 drv ''applied'' d of Inl err \<Rightarrow> Inl err
      | Inr applied \<Rightarrow>
     (case field_int64 drv ''lastOperation'' d of Inl err \<Rightarrow> Inl err
      | Inr lastOperation \<Rightarrow>
          Inr \<lparr>uc_Token = token, uc_Applied = applied, uc_LastOperation = lastOperation\<rparr>)))"

definition uuid_Setup ::
    "(byte list \<Rightarrow> byte list) \<Rightarrow> string \<Rightarrow> goerror option client" where
  "uuid_Setup sha256 payload =
     InsertOne [(''_id'', BString ''uuid-counter''),
                (''token'', token_value (uuidToken sha256 0)),
                (''applied'', BInt64 0), (''lastOperation'', BInt64 0),
                (''payload'', BString payload)] Return"

definition uuid_Execute :: "driver \<Rightarrow> (byte list \<Rightarrow> byte list) \<Rightarrow> int \<Rightarrow> duration \<Rightarrow> int \<Rightarrow> int \<Rightarrow>
    Outcome client" where
  "uuid_Execute drv sha256 seed maxDelay worker sequence =
     FindOne (id_filter ''uuid-counter'') (\<lambda>r.
       case (case r of Inl err \<Rightarrow> Inl err | Inr d \<Rightarrow> decode_uuid drv d) of
         Inl err \<Rightarrow> Return (indeterminate err)
       | Inr observed \<Rightarrow>
           bind_prog (waitCASDelay seed sequence maxDelay) (\<lambda>w. case w of
             Some err \<Rightarrow> Return (indeterminate err)
           | None \<Rightarrow>
               UpdateOne
                 [(''_id'', BString ''uuid-counter''), (''token'', token_value (uc_Token observed)),
                  (''applied'', BInt64 (uc_Applied observed))]
                 (set_update [(''token'', token_value (uuidToken sha256 sequence)),
                              (''lastOperation'', BInt64 sequence)] @
                  inc_update [(''applied'', BInt64 1)])
                 (\<lambda>r. Return (cas_outcome drv worker sequence
                        (uc_Applied observed) (uc_Applied observed + 1) r))))"

definition uuid_checks :: "(byte list \<Rightarrow> byte list) \<Rightarrow> string \<Rightarrow> uuidCASDocument \<Rightarrow>
    LedgerSnapshot \<Rightarrow> Check list" where
  "uuid_checks sha256 mergeMode document ledger =
     (let (subtype, data) = uc_Token document;
          validUUID = (subtype = 4 \<and> length data = 16);
          expectedToken = uuidToken sha256 (uc_LastOperation document);
          tokenMatchesOperation = binaryTokensEqual (uc_Token document) expectedToken;
          operationWasIssued =
            (uc_LastOperation document > 0 \<and> uc_LastOperation document \<le> Attempts ledger);
          checks =
            [check_skip ''storedAppliedEqualsMatched''
               (uc_Applied document = Matched ledger) (Indeterminate ledger > 0)
               (''applied='' @ itoa (uc_Applied document) @ '' matched='' @ itoa (Matched ledger)),
             everyMatchModified ledger,
             check_of ''finalTokenIsUUID'' validUUID
               (''subtype='' @ ntoa subtype @ '' bytes='' @ ntoa (length data)),
             check_skip ''finalTokenMatchesIssuedOperation''
               (tokenMatchesOperation \<and> operationWasIssued \<and>
                OperationMatched (CAS ledger) (uc_LastOperation document))
               (Indeterminate ledger > 0)
               (''lastOperation='' @ itoa (uc_LastOperation document) @
                '' attempts='' @ itoa (Attempts ledger)),
             check_of ''oneMatchPerObservedGeneration'' (cs_DuplicateMatches (CAS ledger) = 0)
               (''duplicateMatches='' @ itoa (cs_DuplicateMatches (CAS ledger))),
             check_skip ''matchedEdgesFormCompleteChain''
               (cs_InvalidEdges (CAS ledger) = 0 \<and>
                cs_MatchedEdges (CAS ledger) = Matched ledger \<and>
                (uc_Applied document = 0 \<or>
                 cs_HighestObserved (CAS ledger) = uc_Applied document - 1))
               (Indeterminate ledger > 0)
               (''edges='' @ itoa (cs_MatchedEdges (CAS ledger)) @
                '' invalid='' @ itoa (cs_InvalidEdges (CAS ledger)) @
                '' highestObserved='' @ itoa (cs_HighestObserved (CAS ledger)) @
                '' applied='' @ itoa (uc_Applied document))]
      in if mergeMode = MergeModeDocumentTouched \<or> mergeMode = MergeModeDocumentDivergent
         then checks @ strictCASClientOutcomeChecks ledger else checks)"

definition uuid_Verify :: "driver \<Rightarrow> (byte list \<Rightarrow> byte list) \<Rightarrow> string \<Rightarrow> string \<Rightarrow>
    LedgerSnapshot \<Rightarrow> (goerror + Check list) client" where
  "uuid_Verify drv sha256 payload mergeMode ledger =
     FindOne (id_filter ''uuid-counter'') (\<lambda>r.
       case (case r of Inl err \<Rightarrow> Inl err | Inr d \<Rightarrow> decode_uuid drv d) of
         Inl err \<Rightarrow> Return (Inl err)
       | Inr document \<Rightarrow>
           with_payload_check drv ''uuid-counter'' payload
             (uuid_checks sha256 mergeMode document ledger))"

end
