(* ===== verification/FieldScenarios.thy ===== *)
theory FieldScenarios
  imports Scenarios "HOL-Library.Sublist" "HOL-Library.AList"
begin

text \<open>
  The remaining single-collection workloads of src/concurrency/scenarios.go: disjoint-set (each
  worker sets a field of its own, and the scenario remembers the last acknowledged sequence per
  worker), same-set, identical-set, divergent-cas and the two whole-document compare-and-sets.
  \<open>bson_M\<close> is decoding into a \<open>bson.M\<close>: a later field of the same name replaces an earlier
  one, so the loops over the map range over distinct names.
\<close>

definition bson_M :: "doc \<Rightarrow> doc" where
  "bson_M d = fold (\<lambda>(k, v) m. AList.update k v m) d []"

lemma map_of_update_fold:
  "map_of (fold (\<lambda>(k, v) m. AList.update k v m) d m0) = map_of m0 ++ map_of (rev d)"
  by (induction d arbitrary: m0) (auto simp: update_conv' map_add_def fun_eq_iff split: option.splits)

lemma map_of_bson_M: "map_of (bson_M d) = map_of (rev d)"
  by (simp add: bson_M_def map_of_update_fold)

lemma distinct_bson_M: "distinct (map fst (bson_M d))"
proof -
  have "distinct (map fst m) \<Longrightarrow> distinct (map fst (fold (\<lambda>(k, v) m. AList.update k v m) d m))" for m
    by (induction d arbitrary: m) (auto intro: distinct_update)
  then show ?thesis by (simp add: bson_M_def)
qed

section \<open>disjoint-set\<close>

definition newDisjointSet :: "int \<Rightarrow> int list" where
  "newDisjointSet workers = replicate (nat workers) 0"

definition disjoint_Setup :: "string \<Rightarrow> goerror option client" where
  "disjoint_Setup payload =
     InsertOne [(''_id'', BString ''fields''), (''payload'', BString payload)] Return"

definition worker_field :: "int \<Rightarrow> string" where
  "worker_field worker = ''worker_'' @ itoa worker"

text \<open>Storing out of range panics in the code; the runner numbers its workers below the length.\<close>

definition disjoint_Execute :: "driver \<Rightarrow> int \<Rightarrow> int \<Rightarrow> Outcome client" where
  "disjoint_Execute drv worker sequence =
     UpdateOne (id_filter ''fields'') (set_update [(worker_field worker, BInt64 sequence)])
       (\<lambda>r. let outcome = UpdateOutcome (drv_isNetworkError drv) (fst r) (snd r) in
            if oc_Kind outcome = OutcomeMatched
            then UpdateLocal (\<lambda>acknowledged. acknowledged[nat worker := sequence]) (Return outcome)
            else Return outcome)"

definition disjoint_worker_check :: "doc \<Rightarrow> LedgerSnapshot \<Rightarrow> int \<Rightarrow> int \<Rightarrow> Check" where
  "disjoint_worker_check document ledger worker want =
     (let field = worker_field worker;
          value = map_of document field;
          present = (value \<noteq> None);
          (got, numeric) = numericInt64 value;
          passed = (if want > 0 then present \<and> numeric \<and> got = want else \<not> present);
          detail = ''present='' @ btoa present @ '' stored='' @ itoa got @
                   '' acknowledged='' @ itoa want;
          detail = (if present \<and> numeric \<and> got > want
                    then detail @ '' -- a write rejected to the client was saved on the server''
                    else detail)
      in check_skip (field @ ''RetainsLastAcknowledgement'') passed (Indeterminate ledger > 0)
           detail)"

definition payload_check :: "string \<Rightarrow> doc \<Rightarrow> Check" where
  "payload_check payload document =
     check_of ''payloadRetained'' (map_of document ''payload'' = Some (BString payload))
       (''payloadBytes='' @ itoa (int (length payload)))"

definition disjoint_checks :: "string \<Rightarrow> int list \<Rightarrow> doc \<Rightarrow> LedgerSnapshot \<Rightarrow> Check list" where
  "disjoint_checks payload acknowledged document ledger =
     allAcknowledgedWritesMatched ledger #
     map (\<lambda>worker. disjoint_worker_check document ledger (int worker) (acknowledged ! worker))
       [0..<length acknowledged] @
     [payload_check payload document]"

definition disjoint_Verify ::
    "driver \<Rightarrow> string \<Rightarrow> LedgerSnapshot \<Rightarrow> (goerror + Check list) client" where
  "disjoint_Verify drv payload ledger =
     FindOne (id_filter ''fields'') (\<lambda>r. case r of
       Inl err \<Rightarrow> Return (Inl err)
     | Inr d \<Rightarrow> ReadLocal (\<lambda>acknowledged.
         Return (Inr (disjoint_checks payload acknowledged (bson_M d) ledger))))"

section \<open>same-set and identical-set\<close>

definition decode_value_payload :: "driver \<Rightarrow> doc \<Rightarrow> goerror + (int \<times> string)" where
  "decode_value_payload drv d =
     (case field_int64 drv ''value'' d of Inl err \<Rightarrow> Inl err
      | Inr value \<Rightarrow>
     (case field_string drv ''payload'' d of Inl err \<Rightarrow> Inl err
      | Inr payload \<Rightarrow> Inr (value, payload)))"

definition value_Setup :: "string \<Rightarrow> string \<Rightarrow> goerror option client" where
  "value_Setup name payload =
     InsertOne [(''_id'', BString name), (''value'', BInt64 0), (''payload'', BString payload)]
       Return"

definition same_Setup :: "string \<Rightarrow> goerror option client" where
  "same_Setup payload = value_Setup ''field'' payload"

definition identical_Setup :: "string \<Rightarrow> goerror option client" where
  "identical_Setup payload = value_Setup ''identical-field'' payload"

definition set_value :: "driver \<Rightarrow> string \<Rightarrow> int \<Rightarrow> Outcome client" where
  "set_value drv name value =
     UpdateOne (id_filter name) (set_update [(''value'', BInt64 value)])
       (\<lambda>r. Return (UpdateOutcome (drv_isNetworkError drv) (fst r) (snd r)))"

definition same_Execute :: "driver \<Rightarrow> int \<Rightarrow> int \<Rightarrow> Outcome client" where
  "same_Execute drv worker sequence = set_value drv ''field'' sequence"

definition identical_Execute :: "driver \<Rightarrow> int \<Rightarrow> int \<Rightarrow> Outcome client" where
  "identical_Execute drv worker sequence = set_value drv ''identical-field'' 1"

definition same_checks :: "string \<Rightarrow> int \<times> string \<Rightarrow> LedgerSnapshot \<Rightarrow> Check list" where
  "same_checks payload document ledger =
     [allAcknowledgedWritesMatched ledger,
      check_skip ''finalValueWasIssued''
        (fst document > 0 \<and> fst document \<le> Attempts ledger) (Indeterminate ledger > 0)
        (''value='' @ itoa (fst document) @ '' attempts='' @ itoa (Attempts ledger)),
      check_of ''payloadRetained'' (snd document = payload)
        (''payloadBytes='' @ itoa (int (length payload)))]"

definition identical_checks :: "string \<Rightarrow> int \<times> string \<Rightarrow> LedgerSnapshot \<Rightarrow> Check list" where
  "identical_checks payload document ledger =
     [allAcknowledgedWritesMatched ledger,
      check_of ''convergentValueRetained'' (fst document = 1)
        (''value='' @ itoa (fst document)),
      check_of ''payloadRetained'' (snd document = payload)
        (''payloadBytes='' @ itoa (int (length payload)))]"

definition same_Verify ::
    "driver \<Rightarrow> string \<Rightarrow> LedgerSnapshot \<Rightarrow> (goerror + Check list) client" where
  "same_Verify drv payload ledger =
     FindOne (id_filter ''field'') (\<lambda>r. Return
       (case (case r of Inl err \<Rightarrow> Inl err | Inr d \<Rightarrow> decode_value_payload drv d) of
          Inl err \<Rightarrow> Inl err | Inr document \<Rightarrow> Inr (same_checks payload document ledger)))"

definition identical_Verify ::
    "driver \<Rightarrow> string \<Rightarrow> LedgerSnapshot \<Rightarrow> (goerror + Check list) client" where
  "identical_Verify drv payload ledger =
     FindOne (id_filter ''identical-field'') (\<lambda>r. Return
       (case (case r of Inl err \<Rightarrow> Inl err | Inr d \<Rightarrow> decode_value_payload drv d) of
          Inl err \<Rightarrow> Inl err | Inr document \<Rightarrow> Inr (identical_checks payload document ledger)))"

section \<open>divergent-cas\<close>

definition divergent_Setup :: "string \<Rightarrow> goerror option client" where
  "divergent_Setup payload =
     InsertOne [(''_id'', BString ''divergent-cas''), (''generation'', BInt64 0),
                (''value'', BInt64 0), (''payload'', BString payload)] Return"

definition decode_divergent :: "driver \<Rightarrow> doc \<Rightarrow> goerror + (int \<times> int)" where
  "decode_divergent drv d =
     (case field_int64 drv ''generation'' d of Inl err \<Rightarrow> Inl err
      | Inr generation \<Rightarrow>
     (case field_int64 drv ''value'' d of Inl err \<Rightarrow> Inl err
      | Inr value \<Rightarrow> Inr (generation, value)))"

definition divergent_Execute :: "driver \<Rightarrow> int \<Rightarrow> duration \<Rightarrow> int \<Rightarrow> int \<Rightarrow> Outcome client" where
  "divergent_Execute drv seed maxDelay worker sequence =
     FindOne (id_filter ''divergent-cas'') (\<lambda>r.
       case (case r of Inl err \<Rightarrow> Inl err | Inr d \<Rightarrow> decode_divergent drv d) of
         Inl err \<Rightarrow> Return (indeterminate err)
       | Inr (generation, value) \<Rightarrow>
           bind_prog (waitCASDelay seed sequence maxDelay) (\<lambda>w. case w of
             Some err \<Rightarrow> Return (indeterminate err)
           | None \<Rightarrow>
               UpdateOne [(''_id'', BString ''divergent-cas''), (''generation'', BInt64 generation)]
                 (set_update [(''value'', BInt64 sequence)] @
                  inc_update [(''generation'', BInt64 1)])
                 (\<lambda>r. Return (cas_outcome drv worker sequence generation (generation + 1) r))))"

definition divergent_checks :: "string \<Rightarrow> int \<times> int \<Rightarrow> LedgerSnapshot \<Rightarrow> Check list" where
  "divergent_checks mergeMode document ledger =
     counterChecks (fst document) ledger @
     (if mergeMode = MergeModeDocumentTouched \<or> mergeMode = MergeModeDocumentDivergent
      then strictCASClientOutcomeChecks ledger else []) @
     [check_skip ''finalValueBelongsToAcceptedOperation''
        (snd document > 0 \<and> snd document \<le> Attempts ledger \<and>
         OperationMatched (CAS ledger) (snd document)) (Indeterminate ledger > 0)
        (''value='' @ itoa (snd document) @ '' attempts='' @ itoa (Attempts ledger))]"

definition divergent_Verify ::
    "driver \<Rightarrow> string \<Rightarrow> string \<Rightarrow> LedgerSnapshot \<Rightarrow> (goerror + Check list) client" where
  "divergent_Verify drv payload mergeMode ledger =
     FindOne (id_filter ''divergent-cas'') (\<lambda>r.
       case (case r of Inl err \<Rightarrow> Inl err | Inr d \<Rightarrow> decode_divergent drv d) of
         Inl err \<Rightarrow> Return (Inl err)
       | Inr document \<Rightarrow>
           with_payload_check drv ''divergent-cas'' payload
             (divergent_checks mergeMode document ledger))"

section \<open>whole-document\<close>

definition whole_Setup :: "string \<Rightarrow> goerror option client" where
  "whole_Setup payload =
     InsertOne [(''_id'', BString ''whole-document''), (''generation'', BInt64 0),
                (''state'', BInt64 0), (''payload'', BString payload)] Return"

definition whole_Execute ::
    "driver \<Rightarrow> bool \<Rightarrow> int \<Rightarrow> duration \<Rightarrow> int \<Rightarrow> int \<Rightarrow> Outcome client" where
  "whole_Execute drv divergent seed maxDelay worker sequence =
     FindOne (id_filter ''whole-document'') (\<lambda>r.
       case (case r of Inl err \<Rightarrow> Inl err | Inr d \<Rightarrow> field_int64 drv ''generation'' d) of
         Inl err \<Rightarrow> Return (indeterminate err)
       | Inr generation \<Rightarrow>
           bind_prog (waitCASDelay seed sequence maxDelay) (\<lambda>w. case w of
             Some err \<Rightarrow> Return (indeterminate err)
           | None \<Rightarrow>
               (let nextGeneration = generation + 1;
                    fs = [(''generation'', BInt64 nextGeneration),
                          (''state'', BInt64 nextGeneration)] @
                         (if divergent then [(worker_field worker, BInt64 sequence)] else [])
                in UpdateOne
                     [(''_id'', BString ''whole-document''), (''generation'', BInt64 generation)]
                     (set_update fs)
                     (\<lambda>r. Return (cas_outcome drv worker sequence generation nextGeneration r)))))"

definition worker_prefixed :: "doc \<Rightarrow> doc" where
  "worker_prefixed document = filter (\<lambda>(key, value). prefix ''worker_'' key) document"

definition invalid_worker_field :: "LedgerSnapshot \<Rightarrow> bval \<Rightarrow> bool" where
  "invalid_worker_field ledger value =
     (case numericInt64 (Some value) of (sequence, numeric) \<Rightarrow>
        \<not> numeric \<or> sequence \<le> 0 \<or> \<not> OperationMatched (CAS ledger) sequence)"

definition whole_checks :: "bool \<Rightarrow> string \<Rightarrow> doc \<Rightarrow> LedgerSnapshot \<Rightarrow> Check list" where
  "whole_checks divergent payload document ledger =
     (let (generation, generationOK) = numericInt64 (map_of document ''generation'');
          (state, stateOK) = numericInt64 (map_of document ''state'');
          shape = check_of ''wholeDocumentShapeIsValid''
            (generationOK \<and> stateOK \<and> state = generation \<and>
             map_of document ''payload'' = Some (BString payload))
            (''generation='' @ itoa generation @ '' state='' @ itoa state @
             '' payloadBytes='' @ itoa (int (length payload)))
      in [shape] @
         (if divergent
          then let workerFields = length (worker_prefixed document);
                   invalid = length (filter (invalid_worker_field ledger \<circ> snd)
                               (worker_prefixed document))
               in counterChecks generation ledger @
                  [check_skip ''workerFieldsBelongToMatchedOperations''
                     ((Matched ledger = 0 \<or> workerFields > 0) \<and> invalid = 0)
                     (Indeterminate ledger > 0)
                     (''workerFields='' @ ntoa workerFields @ '' invalid='' @ ntoa invalid)]
          else let unexpectedFields = length (filter (\<lambda>key. key \<noteq> ''_id'' \<and> key \<noteq> ''generation'' \<and>
                     key \<noteq> ''state'' \<and> key \<noteq> ''payload'') (map fst document))
               in fieldDivergentCounterChecks generation ledger @
                  [check_of ''convergentWholeDocumentIsExact'' (unexpectedFields = 0)
                     (''unexpectedFields='' @ ntoa unexpectedFields)]) @
         strictCASClientOutcomeChecks ledger)"

definition whole_Verify ::
    "driver \<Rightarrow> bool \<Rightarrow> string \<Rightarrow> LedgerSnapshot \<Rightarrow> (goerror + Check list) client" where
  "whole_Verify drv divergent payload ledger =
     FindOne (id_filter ''whole-document'') (\<lambda>r. Return
       (case r of Inl err \<Rightarrow> Inl err
        | Inr d \<Rightarrow> Inr (whole_checks divergent payload (bson_M d) ledger)))"

end
