(* ===== verification/MemoryCollection.thy ===== *)
theory MemoryCollection
  imports FieldScenarios
begin

text \<open>
  The contract a counter collection gives the compare-and-set workload, as a locale, and the
  in-memory collection the repository runs its scenarios against
  (src/concurrency/runner_test.go), which is shown to provide it. The contract allows faults:
  a call may fail at any time, and an update whose outcome is indeterminate may or may not have
  been applied; what it forbids is an answer that contradicts the stored document.
\<close>

section \<open>memoryCollection\<close>

text \<open>
  The document is a map; encoding a document and decoding it again is \<open>bson_M\<close>. \<open>marshalErr\<close> is
  the driver's error for a \<open>$set\<close> or \<open>$inc\<close> value that is not a document. Values are compared
  with \<open>reflect.DeepEqual\<close>, an absent field reading as nil; the filters of the scenarios hold
  strings, integers and binaries. Stored counters stay below \<open>2^63\<close>, so int64 does not wrap.
\<close>

definition field_value :: "doc \<Rightarrow> string \<Rightarrow> bval" where
  "field_value d name = (case map_of d name of None \<Rightarrow> BNull | Some v \<Rightarrow> v)"

definition matchesFilter :: "doc \<Rightarrow> doc \<Rightarrow> bool" where
  "matchesFilter document query =
     list_all (\<lambda>(name, want). field_value document name = want) (bson_M query)"

definition mem_InsertOne :: "doc \<Rightarrow> doc \<Rightarrow> goerror option \<times> doc" where
  "mem_InsertOne document state = (None, bson_M document)"

definition mem_FindOne :: "doc \<Rightarrow> doc \<Rightarrow> goerror + doc" where
  "mem_FindOne query state =
     (if matchesFilter state query then Inr state else Inl (ErrText ''document not found''))"

definition documentMap :: "(bval \<Rightarrow> goerror) \<Rightarrow> bval \<Rightarrow> goerror + doc" where
  "documentMap marshalErr v = (case v of BDoc d \<Rightarrow> Inr (bson_M d) | _ \<Rightarrow> Inl (marshalErr v))"

fun mem_set :: "doc \<Rightarrow> doc \<Rightarrow> doc" where
  "mem_set [] state = state"
| "mem_set ((name, value) # fs) state = mem_set fs (AList.update name value state)"

fun mem_inc :: "doc \<Rightarrow> doc \<Rightarrow> goerror option \<times> doc" where
  "mem_inc [] state = (None, state)"
| "mem_inc ((name, value) # fs) state =
     (let current = fst (numericInt64 (map_of state name)) in
      case numericInt64 (Some value) of (increment, valid) \<Rightarrow>
        if \<not> valid then (Some (ErrText (''increment '' @ name @ '' is not numeric'')), state)
        else mem_inc fs (AList.update name (BInt64 (current + increment)) state))"

definition no_result :: WriteResult where
  "no_result = \<lparr>wr_Matched = 0, wr_Modified = 0\<rparr>"

definition mem_UpdateOne :: "(bval \<Rightarrow> goerror) \<Rightarrow> doc \<Rightarrow> doc \<Rightarrow> doc \<Rightarrow>
    (WriteResult \<times> goerror option) \<times> doc" where
  "mem_UpdateOne marshalErr query changes state =
     (if \<not> matchesFilter state query then ((no_result, None), state)
      else
        let updateDocument = bson_M changes;
            after_set = (case map_of updateDocument ''$set'' of
                None \<Rightarrow> (None, state)
              | Some values \<Rightarrow>
                  (case documentMap marshalErr values of
                     Inl err \<Rightarrow> (Some err, state)
                   | Inr fs \<Rightarrow> (None, mem_set fs state)))
        in case after_set of
             (Some err, s1) \<Rightarrow> ((no_result, Some err), s1)
           | (None, s1) \<Rightarrow>
               (case map_of updateDocument ''$inc'' of
                  None \<Rightarrow> ((\<lparr>wr_Matched = 1, wr_Modified = 1\<rparr>, None), s1)
                | Some values \<Rightarrow>
                    (case documentMap marshalErr values of
                       Inl err \<Rightarrow> ((no_result, Some err), s1)
                     | Inr fs \<Rightarrow>
                         (case mem_inc fs s1 of
                            (Some err, s2) \<Rightarrow> ((no_result, Some err), s2)
                          | (None, s2) \<Rightarrow> ((\<lparr>wr_Matched = 1, wr_Modified = 1\<rparr>, None), s2)))))"

definition memory :: "(bval \<Rightarrow> goerror) \<Rightarrow> doc collection" where
  "memory marshalErr = \<lparr>col_InsertOne = mem_InsertOne, col_FindOne = mem_FindOne,
     col_UpdateOne = mem_UpdateOne marshalErr\<rparr>"

section \<open>The contract of a counter collection\<close>

definition counter_filter :: "int \<Rightarrow> doc" where
  "counter_filter g = [(''_id'', BString ''counter''), (''version'', BInt64 g)]"

definition counter_inc :: doc where
  "counter_inc = inc_update [(''version'', BInt64 1)]"

text \<open>What an answered update may say about generations before and after it.\<close>

definition honest_update :: "(goerror \<Rightarrow> bool) \<Rightarrow> int \<Rightarrow> int \<Rightarrow> int \<Rightarrow>
    WriteResult \<times> goerror option \<Rightarrow> bool" where
  "honest_update net asked before after r =
     (case oc_Kind (UpdateOutcome net (fst r) (snd r)) of
        OutcomeMatched \<Rightarrow> asked = before \<and> after = before + 1 \<and> wr_Modified (fst r) > 0
      | OutcomeNoMatch \<Rightarrow> after = before
      | OutcomeRejected \<Rightarrow> after = before
      | OutcomeIndeterminate \<Rightarrow> after = before \<or> asked = before \<and> after = before + 1
      | OutcomeOther _ \<Rightarrow> False)"

locale counter_collection =
  fixes col :: "'v collection"
    and drv :: driver
    and payload :: string
    and stored :: "'v \<Rightarrow> bool"
    and generation :: "'v \<Rightarrow> int"
  assumes find_law: "stored v \<Longrightarrow> col_FindOne col (id_filter ''counter'') v = Inr d \<Longrightarrow>
      field_int64 drv ''version'' d = Inr (generation v) \<and>
      field_string drv ''payload'' d = Inr payload"
    and update_law: "stored v \<Longrightarrow>
      col_UpdateOne col (counter_filter g) counter_inc v = (r, v') \<Longrightarrow>
      stored v' \<and> honest_update (drv_isNetworkError drv) g (generation v) (generation v') r"
begin

lemma read_law:
  "stored v \<Longrightarrow> run_prog col (readCounter drv) v s = (r, v', s') \<Longrightarrow>
     v' = v \<and> s' = s \<and> (case r of Inl _ \<Rightarrow> True | Inr n \<Rightarrow> n = generation v)"
  by (auto simp: readCounter_def dest: find_law split: sum.splits)

text \<open>Verification against an honest collection checks the true generation.\<close>

lemma verify_law:
  assumes "stored v" "run_prog col (cas_Verify drv payload mode ledger) v s = (Inr checks, v', s')"
  shows "ChecksPassed checks \<longleftrightarrow> ChecksPassed (cas_checks mode (generation v) ledger)"
proof -
  obtain d where d: "col_FindOne col (id_filter ''counter'') v = Inr d"
    using assms(2) by (auto simp: cas_Verify_def readCounter_def split: sum.splits)
  from find_law[OF assms(1) d] d assms(2)
  have "checks = cas_checks mode (generation v) ledger @
    [check_of ''payloadRetained'' True (''payloadBytes='' @ itoa (int (length payload)))]"
    by (auto simp: cas_Verify_def readCounter_def with_payload_check_def retainedPayloadCheck_def
        split: sum.splits)
  then show ?thesis by simp
qed

end

section \<open>The in-memory collection provides it\<close>

definition counter_stored :: "string \<Rightarrow> doc \<Rightarrow> bool" where
  "counter_stored payload d \<longleftrightarrow>
     map_of d ''_id'' = Some (BString ''counter'') \<and>
     (\<exists>n. map_of d ''version'' = Some (BInt64 n)) \<and>
     map_of d ''payload'' = Some (BString payload)"

definition counter_generation :: "doc \<Rightarrow> int" where
  "counter_generation d = fst (numericInt64 (map_of d ''version''))"

lemma bson_M_simps [simp]:
  "bson_M [] = []" "bson_M [(a, x)] = [(a, x)]"
  "a \<noteq> b \<Longrightarrow> bson_M [(a, x), (b, y)] = [(a, x), (b, y)]"
  by (simp_all add: bson_M_def)

lemma map_of_alist_update: "map_of (AList.update k v d) = (map_of d)(k \<mapsto> v)"
  by (rule update_conv')

lemma mem_update_counter:
  assumes "counter_stored payload d"
  shows "mem_UpdateOne marshalErr (counter_filter g) counter_inc d =
    (if g = counter_generation d
     then ((\<lparr>wr_Matched = 1, wr_Modified = 1\<rparr>, None),
           AList.update ''version'' (BInt64 (counter_generation d + 1)) d)
     else ((no_result, None), d))"
  using assms
  by (auto simp: mem_UpdateOne_def matchesFilter_def counter_filter_def counter_inc_def
      inc_update_def counter_stored_def counter_generation_def field_value_def documentMap_def)

lemma counter_stored_update:
  assumes "counter_stored payload d"
  shows "counter_stored payload (AList.update ''version'' (BInt64 n) d) \<and>
    counter_generation (AList.update ''version'' (BInt64 n) d) = n"
  using assms by (simp add: counter_stored_def counter_generation_def map_of_alist_update)

lemma memory_counter_collection:
  assumes "driver_ok drv"
  shows "counter_collection (memory marshalErr) drv payload (counter_stored payload)
    counter_generation"
proof
  fix v d
  assume "counter_stored payload v" "col_FindOne (memory marshalErr) (id_filter ''counter'') v = Inr d"
  with assms show "field_int64 drv ''version'' d = Inr (counter_generation v) \<and>
      field_string drv ''payload'' d = Inr payload"
    by (auto simp: memory_def mem_FindOne_def field_defs counter_stored_def counter_generation_def
        driver_ok_def split: if_splits)
next
  fix v g r v'
  assume A: "counter_stored payload v"
    "col_UpdateOne (memory marshalErr) (counter_filter g) counter_inc v = (r, v')"
  from A(2) have "mem_UpdateOne marshalErr (counter_filter g) counter_inc v = (r, v')"
    by (simp add: memory_def)
  then show "counter_stored payload v' \<and>
      honest_update (drv_isNetworkError drv) g (counter_generation v) (counter_generation v') r"
    using A(1) counter_stored_update[OF A(1)]
    by (auto simp: mem_update_counter[OF A(1)] honest_update_def UpdateOutcome_def outcome_of_def
        no_result_def split: if_splits)
qed

text \<open>A driver that decodes exactly the stored types, for the interpretation and the examples.\<close>

definition exact_driver :: driver where
  "exact_driver =
     \<lparr>drv_int64 = (\<lambda>v. case v of BInt64 n \<Rightarrow> Inr n | _ \<Rightarrow> Inl (ErrText ''cannot decode into int64'')),
      drv_string = (\<lambda>v. case v of BString s \<Rightarrow> Inr s | _ \<Rightarrow> Inl (ErrText ''cannot decode into string'')),
      drv_binary = (\<lambda>v. case v of BBinary t b \<Rightarrow> Inr (t, b) | _ \<Rightarrow> Inl (ErrText ''cannot decode into binary'')),
      drv_isNetworkError = (\<lambda>e. False)\<rparr>"

lemma exact_driver_ok: "driver_ok exact_driver"
  by (simp add: driver_ok_def exact_driver_def)

interpretation mem: counter_collection "memory marshalErr" exact_driver payload
  "counter_stored payload" counter_generation for marshalErr payload
  by (rule memory_counter_collection) (rule exact_driver_ok)

end
