(* ===== verification/Runner.thy ===== *)
theory Runner
  imports MemoryCollection
begin

text \<open>
  The worker pool of src/concurrency/runner.go as an interleaving machine. The shared state is
  what the goroutines share: the atomics \<open>issued\<close>, \<open>firstMatchedNanos\<close> and
  \<open>lastMatchedNanos\<close>, the ledger under its mutex, the recorded error with its stop channel, the
  context, the clock, the server and the scenario's own state. Each worker is at a program
  point; one step is one atomic operation, one call of the scenario's program, or one statement
  on worker-local data. The scheduler picks any worker; the environment may advance the clock
  and cancel the context at any time. A wait that races with a cancelled context may end either
  way, so a step carries that choice.
\<close>

record 'v shared =
  rs_issued :: int
  rs_first :: int
  rs_last :: int
  rs_ledger :: Ledger
  rs_recordErr :: "(int \<times> ledger_error) option"
  rs_stop :: bool
  rs_ctx :: "goerror option"
  rs_now :: int
  rs_server :: 'v
  rs_local :: "int list"

datatype pc =
    AtSelect
  | AtDeadline
  | AtReserve
  | AtSwap int
  | AtExecute int
  | Executing int int "Outcome client"
  | AtMatched int int Outcome
  | AtFirst int int Outcome int
  | AtMaximum int int Outcome int
  | AtMaximumSwap int int Outcome int int
  | AtBound int int Outcome
  | AtRecord int int Outcome
  | AfterRecord
  | Halted

datatype event =
    Reserved int
  | Recorded int Outcome duration

section \<open>Reserving an operation\<close>

text \<open>The two atomic steps of \<open>reserveOperation\<close>: the load with its guard, and the swap.\<close>

definition reserve_load :: "int \<Rightarrow> 'v shared \<Rightarrow> 'v shared \<times> pc \<times> event list" where
  "reserve_load limit sh =
     (if limit \<le> 0
      then (sh\<lparr>rs_issued := rs_issued sh + 1\<rparr>, AtExecute (rs_issued sh + 1),
            [Reserved (rs_issued sh + 1)])
      else if rs_issued sh \<ge> limit then (sh, Halted, [])
      else (sh, AtSwap (rs_issued sh), []))"

definition reserve_swap :: "int \<Rightarrow> 'v shared \<Rightarrow> 'v shared \<times> pc \<times> event list" where
  "reserve_swap current sh =
     (if rs_issued sh = current
      then (sh\<lparr>rs_issued := current + 1\<rparr>, AtExecute (current + 1), [Reserved (current + 1)])
      else (sh, AtReserve, []))"

section \<open>One step of a worker\<close>

definition bound_outcome :: "int \<Rightarrow> Outcome \<Rightarrow> Outcome" where
  "bound_outcome issued outcome =
     (if oc_CAS outcome \<noteq> None
      then outcome\<lparr>oc_MaximumObservedGeneration := issued - 1, oc_ObservedGenerationBounded := True\<rparr>
      else outcome)"

definition record_step :: "int \<Rightarrow> int \<Rightarrow> Outcome \<Rightarrow> 'v shared \<Rightarrow> 'v shared \<times> pc \<times> event list" where
  "record_step seq started outcome sh =
     (let latency = rs_now sh - started in
      case Record outcome latency (rs_ledger sh) of
        Inl err \<Rightarrow>
          (sh\<lparr>rs_recordErr := (case rs_recordErr sh of None \<Rightarrow> Some (seq, err) | Some e \<Rightarrow> Some e),
              rs_stop := True\<rparr>, Halted, [Recorded seq outcome latency])
      | Inr l \<Rightarrow> (sh\<lparr>rs_ledger := l\<rparr>, AfterRecord, [Recorded seq outcome latency]))"

fun worker_step :: "'v collection \<Rightarrow> (int \<Rightarrow> int \<Rightarrow> Outcome client) \<Rightarrow> int \<Rightarrow> int option \<Rightarrow>
    int \<Rightarrow> goerror option \<Rightarrow> 'v shared \<Rightarrow> pc \<Rightarrow> 'v shared \<times> pc \<times> event list" where
  "worker_step col exec limit deadline worker waited sh AtSelect =
     (if rs_ctx sh \<noteq> None \<or> rs_stop sh then (sh, Halted, []) else (sh, AtDeadline, []))"
| "worker_step col exec limit deadline worker waited sh AtDeadline =
     (case deadline of
        Some d \<Rightarrow> if rs_now sh > d then (sh, Halted, []) else (sh, AtReserve, [])
      | None \<Rightarrow> (sh, AtReserve, []))"
| "worker_step col exec limit deadline worker waited sh AtReserve = reserve_load limit sh"
| "worker_step col exec limit deadline worker waited sh (AtSwap current) = reserve_swap current sh"
| "worker_step col exec limit deadline worker waited sh (AtExecute seq) =
     (sh, Executing seq (rs_now sh) (exec worker seq), [])"
| "worker_step col exec limit deadline worker waited sh (Executing seq started p) =
     (case p of
        Return outcome \<Rightarrow>
          (sh, if oc_Kind outcome = OutcomeMatched then AtMatched seq started outcome
               else AtBound seq started outcome, [])
      | _ \<Rightarrow>
          (case prog_step col waited p (rs_server sh) (rs_local sh) of
             (p', v', s') \<Rightarrow>
               (sh\<lparr>rs_server := v', rs_local := s'\<rparr>, Executing seq started p', [])))"
| "worker_step col exec limit deadline worker waited sh (AtMatched seq started outcome) =
     (sh, AtFirst seq started outcome (rs_now sh), [])"
| "worker_step col exec limit deadline worker waited sh (AtFirst seq started outcome matchedAt) =
     (if rs_first sh = 0 then sh\<lparr>rs_first := matchedAt\<rparr> else sh,
      AtMaximum seq started outcome matchedAt, [])"
| "worker_step col exec limit deadline worker waited sh (AtMaximum seq started outcome matchedAt) =
     (sh, if matchedAt > rs_last sh then AtMaximumSwap seq started outcome matchedAt (rs_last sh)
          else AtBound seq started outcome, [])"
| "worker_step col exec limit deadline worker waited sh
     (AtMaximumSwap seq started outcome matchedAt current) =
     (if rs_last sh = current
      then (sh\<lparr>rs_last := matchedAt\<rparr>, AtBound seq started outcome, [])
      else (sh, AtMaximum seq started outcome matchedAt, []))"
| "worker_step col exec limit deadline worker waited sh (AtBound seq started outcome) =
     (sh, AtRecord seq started (bound_outcome (rs_issued sh) outcome), [])"
| "worker_step col exec limit deadline worker waited sh (AtRecord seq started outcome) =
     record_step seq started outcome sh"
| "worker_step col exec limit deadline worker waited sh AfterRecord =
     (if rs_ctx sh \<noteq> None then (sh, Halted, []) else (sh, AtSelect, []))"
| "worker_step col exec limit deadline worker waited sh Halted = (sh, Halted, [])"

section \<open>The pool\<close>

type_synonym 'v pool = "'v shared \<times> pc list"

inductive pool_step :: "'v collection \<Rightarrow> (int \<Rightarrow> int \<Rightarrow> Outcome client) \<Rightarrow> int \<Rightarrow> int option \<Rightarrow>
    'v pool \<Rightarrow> event list \<Rightarrow> 'v pool \<Rightarrow> bool"
  for col exec limit deadline
where
  Worker: "i < length pcs \<Longrightarrow> waited = None \<or> waited = rs_ctx sh \<Longrightarrow>
    worker_step col exec limit deadline (int i) waited sh (pcs ! i) = (sh', pc', evs) \<Longrightarrow>
    pool_step col exec limit deadline (sh, pcs) evs (sh', pcs[i := pc'])"
| Clock: "rs_now sh \<le> t \<Longrightarrow>
    pool_step col exec limit deadline (sh, pcs) [] (sh\<lparr>rs_now := t\<rparr>, pcs)"
| Cancel: "rs_ctx sh = None \<Longrightarrow>
    pool_step col exec limit deadline (sh, pcs) [] (sh\<lparr>rs_ctx := Some e\<rparr>, pcs)"

inductive_cases pool_stepE: "pool_step col exec limit deadline (sh, pcs) evs st'"

definition start_shared :: "'v \<Rightarrow> int list \<Rightarrow> int \<Rightarrow> 'v shared" where
  "start_shared server local now = \<lparr>rs_issued = 0, rs_first = 0, rs_last = 0,
     rs_ledger = new_ledger, rs_recordErr = None, rs_stop = False, rs_ctx = None, rs_now = now,
     rs_server = server, rs_local = local\<rparr>"

definition start_pool :: "int \<Rightarrow> 'v \<Rightarrow> int list \<Rightarrow> int \<Rightarrow> 'v pool" where
  "start_pool workers server local now =
     (start_shared server local now, replicate (nat workers) AtSelect)"

text \<open>Reachability, with the events of the run so far.\<close>

inductive pool_run :: "'v collection \<Rightarrow> (int \<Rightarrow> int \<Rightarrow> Outcome client) \<Rightarrow> int \<Rightarrow> int option \<Rightarrow>
    'v pool \<Rightarrow> event list \<Rightarrow> 'v pool \<Rightarrow> bool"
  for col exec limit deadline start
where
  Begin: "pool_run col exec limit deadline start [] start"
| Step: "pool_run col exec limit deadline start tr st \<Longrightarrow>
    pool_step col exec limit deadline st evs st' \<Longrightarrow>
    pool_run col exec limit deadline start (tr @ evs) st'"

fun halted :: "pc \<Rightarrow> bool" where
  "halted Halted = True"
| "halted pc = False"

lemma halted_iff: "halted pc \<longleftrightarrow> pc = Halted"
  by (cases pc) auto

definition finished :: "'v pool \<Rightarrow> bool" where
  "finished st \<longleftrightarrow> list_all halted (snd st)"

lemma finished_iff: "finished st \<longleftrightarrow> (\<forall>pc \<in> set (snd st). pc = Halted)"
  by (simp add: finished_def list_all_iff halted_iff)

section \<open>What a trace and a program point hold\<close>

fun reserved_of :: "event list \<Rightarrow> int list" where
  "reserved_of [] = []"
| "reserved_of (Reserved q # es) = q # reserved_of es"
| "reserved_of (Recorded q oc d # es) = reserved_of es"

fun recorded_of :: "event list \<Rightarrow> int list" where
  "recorded_of [] = []"
| "recorded_of (Reserved q # es) = recorded_of es"
| "recorded_of (Recorded q oc d # es) = q # recorded_of es"

fun history_of :: "event list \<Rightarrow> (Outcome \<times> duration) list" where
  "history_of [] = []"
| "history_of (Reserved q # es) = history_of es"
| "history_of (Recorded q oc d # es) = (oc, d) # history_of es"

lemma trace_append [simp]:
  "reserved_of (xs @ ys) = reserved_of xs @ reserved_of ys"
  "recorded_of (xs @ ys) = recorded_of xs @ recorded_of ys"
  "history_of (xs @ ys) = history_of xs @ history_of ys"
  by (induction xs rule: reserved_of.induct; simp)+

lemma length_history: "length (history_of tr) = length (recorded_of tr)"
  by (induction tr rule: history_of.induct) auto

text \<open>The sequence a worker holds between its reservation and its record.\<close>

fun held :: "pc \<Rightarrow> int list" where
  "held (AtExecute seq) = [seq]"
| "held (Executing seq started p) = [seq]"
| "held (AtMatched seq started oc) = [seq]"
| "held (AtFirst seq started oc m) = [seq]"
| "held (AtMaximum seq started oc m) = [seq]"
| "held (AtMaximumSwap seq started oc m c) = [seq]"
| "held (AtBound seq started oc) = [seq]"
| "held (AtRecord seq started oc) = [seq]"
| "held pc = []"

definition all_held :: "pc list \<Rightarrow> int list" where
  "all_held pcs = concat (map held pcs)"

lemma mset_concat_update:
  assumes "i < length xs"
  shows "mset (concat (map f (xs[i := y]))) + mset (f (xs ! i)) = mset (concat (map f xs)) + mset (f y)"
  using assms
proof (induction xs arbitrary: i)
  case (Cons x xs)
  then show ?case by (cases i) (auto simp: ac_simps)
qed simp

end
