(* ===== verification/RunnerFacts.thy ===== *)
theory RunnerFacts
  imports Runner
begin

text \<open>
  Safety of the worker pool under every interleaving, for any scenario and any collection: the
  reservations are \<open>1, 2, 3, ...\<close> in order, the operation limit is never overshot, no sequence
  is lost or recorded twice, and the ledger is the fold of the recorded outcomes.
\<close>

definition pool_inv :: "int \<Rightarrow> event list \<Rightarrow> 'v shared \<Rightarrow> pc list \<Rightarrow> bool" where
  "pool_inv limit tr sh pcs \<longleftrightarrow>
     0 \<le> rs_issued sh \<and> (0 < limit \<longrightarrow> rs_issued sh \<le> limit) \<and>
     (\<forall>c. AtSwap c \<in> set pcs \<longrightarrow> 0 < limit \<and> c < limit) \<and>
     reserved_of tr = [1..rs_issued sh] \<and>
     mset [1..rs_issued sh] = mset (recorded_of tr) + mset (all_held pcs) \<and>
     rs_ledger sh = ledger_run (history_of tr) \<and>
     (rs_recordErr sh = None \<longleftrightarrow> (\<forall>r \<in> set (history_of tr). accepted (fst r)))"

text \<open>The three kinds of worker step, seen from the trace.\<close>

definition quiet_step :: "'v shared \<Rightarrow> pc \<Rightarrow> 'v shared \<Rightarrow> pc \<Rightarrow> bool" where
  "quiet_step sh pc sh' pc' \<longleftrightarrow>
     held pc' = held pc \<and> rs_issued sh' = rs_issued sh \<and> rs_ledger sh' = rs_ledger sh \<and>
     rs_recordErr sh' = rs_recordErr sh"

definition reserve_event :: "int \<Rightarrow> 'v shared \<Rightarrow> pc \<Rightarrow> 'v shared \<Rightarrow> pc \<Rightarrow> bool" where
  "reserve_event limit sh pc sh' pc' \<longleftrightarrow>
     held pc = [] \<and> held pc' = [rs_issued sh + 1] \<and> rs_issued sh' = rs_issued sh + 1 \<and>
     rs_ledger sh' = rs_ledger sh \<and> rs_recordErr sh' = rs_recordErr sh \<and>
     (limit \<le> 0 \<or> pc = AtSwap (rs_issued sh))"

definition record_event :: "'v shared \<Rightarrow> pc \<Rightarrow> 'v shared \<Rightarrow> pc \<Rightarrow> int \<Rightarrow> Outcome \<Rightarrow> duration \<Rightarrow>
    bool" where
  "record_event sh pc sh' pc' q oc d \<longleftrightarrow>
     held pc = [q] \<and> held pc' = [] \<and> rs_issued sh' = rs_issued sh \<and>
     rs_ledger sh' = Record_step (oc, d) (rs_ledger sh) \<and>
     (rs_recordErr sh' = None \<longleftrightarrow> rs_recordErr sh = None \<and> accepted oc)"

lemma Record_Inr_accepted: "(\<exists>l'. Record oc d l = Inr l') \<longleftrightarrow> accepted oc"
  unfolding record_kind_accepted[of oc l] Record_def by (auto split: sum.splits)

lemma record_step_event:
  "record_step q started oc sh = (sh', pc', evs) \<Longrightarrow>
     \<exists>d. evs = [Recorded q oc d] \<and> record_event sh (AtRecord q started oc) sh' pc' q oc d"
  using Record_Inr_accepted[of oc "rs_now sh - started" "rs_ledger sh"]
  by (auto simp: record_step_def record_event_def Record_step_def Let_def
      split: sum.splits option.splits)

lemma worker_step_cases:
  assumes "worker_step col exec limit deadline i waited sh pc = (sh', pc', evs)"
  shows "(evs = [] \<and> quiet_step sh pc sh' pc') \<or>
    (evs = [Reserved (rs_issued sh + 1)] \<and> reserve_event limit sh pc sh' pc') \<or>
    (\<exists>q oc d. evs = [Recorded q oc d] \<and> record_event sh pc sh' pc' q oc d)"
  using assms
proof (cases pc)
  case (Executing q st p)
  with assms show ?thesis
    by (cases p) (auto simp: quiet_step_def split: prod.splits)
next
  case (AtRecord q st oc)
  with assms record_step_event[of q st oc sh sh' pc' evs] show ?thesis by auto
qed (auto simp: quiet_step_def reserve_event_def reserve_load_def reserve_swap_def
    split: if_splits option.splits)

lemma worker_step_swap:
  assumes "worker_step col exec limit deadline i waited sh pc = (sh', AtSwap c, evs)"
  shows "0 < limit \<and> c < limit"
  using assms
proof (cases pc)
  case (Executing q st p)
  with assms show ?thesis by (cases p) (auto split: prod.splits if_splits)
qed (auto simp: reserve_load_def reserve_swap_def record_step_def Let_def
    split: if_splits option.splits sum.splits)

lemma all_held_update:
  "i < length pcs \<Longrightarrow>
     mset (all_held (pcs[i := pc'])) + mset (held (pcs ! i)) = mset (all_held pcs) + mset (held pc')"
  unfolding all_held_def by (rule mset_concat_update)

lemma swap_update:
  "AtSwap c \<in> set (pcs[i := pc']) \<Longrightarrow> AtSwap c \<in> set pcs \<or> pc' = AtSwap c"
  by (auto dest: subsetD[OF set_update_subset_insert])

lemma upto_snoc: "0 \<le> k \<Longrightarrow> [1..k + 1] = [1..k] @ [k + 1]" for k :: int
  by (simp add: upto_rec2)

lemma pool_inv_worker:
  assumes inv: "pool_inv limit tr sh pcs" and i: "i < length pcs"
    and step: "worker_step col exec limit deadline w waited sh (pcs ! i) = (sh', pc', evs)"
  shows "pool_inv limit (tr @ evs) sh' (pcs[i := pc'])"
proof -
  have swap: "0 < limit \<and> c < limit" if "AtSwap c \<in> set (pcs[i := pc'])" for c
    using swap_update[OF that] inv step worker_step_swap[of col exec limit deadline w waited sh "pcs ! i" sh' c evs]
    by (auto simp: pool_inv_def)
  have heldU: "mset (all_held (pcs[i := pc'])) + mset (held (pcs ! i))
      = mset (all_held pcs) + mset (held pc')" by (rule all_held_update[OF i])
  from worker_step_cases[OF step] consider
    (quiet) "evs = []" "quiet_step sh (pcs ! i) sh' pc'" |
    (reserve) "evs = [Reserved (rs_issued sh + 1)]" "reserve_event limit sh (pcs ! i) sh' pc'" |
    (entry) q oc d where "evs = [Recorded q oc d]" "record_event sh (pcs ! i) sh' pc' q oc d"
    by blast
  then show ?thesis
  proof cases
    case quiet
    with inv heldU swap show ?thesis by (simp add: pool_inv_def quiet_step_def)
  next
    case reserve
    have "limit \<le> 0 \<or> rs_issued sh < limit"
      using reserve(2) inv nth_mem[OF i] by (auto simp: reserve_event_def pool_inv_def)
    with reserve inv heldU swap show ?thesis
      by (auto simp: pool_inv_def reserve_event_def upto_snoc)
  next
    case entry
    with inv heldU swap show ?thesis
      by (auto simp: pool_inv_def record_event_def)
  qed
qed

lemma pool_inv_step:
  assumes "pool_inv limit tr (fst st) (snd st)" "pool_step col exec limit deadline st evs st'"
  shows "pool_inv limit (tr @ evs) (fst st') (snd st')"
  using assms(2,1)
proof cases
  case (Worker i pcs waited sh sh' pc')
  with assms(1) show ?thesis by (auto intro: pool_inv_worker)
qed (use assms(1) in \<open>simp_all add: pool_inv_def\<close>)

lemma pool_inv_start: "pool_inv limit [] (start_shared v s t) (replicate n AtSelect)"
  by (auto simp: pool_inv_def start_shared_def all_held_def)

lemma pool_inv_run:
  "pool_run col exec limit deadline (start_pool workers v s t) tr st \<Longrightarrow>
     pool_inv limit tr (fst st) (snd st)"
  by (induction rule: pool_run.induct) (auto simp: start_pool_def pool_inv_start intro: pool_inv_step)

lemma finished_held: "finished st \<Longrightarrow> all_held (snd st) = []"
  by (auto simp: finished_iff all_held_def)


section \<open>Running a given schedule\<close>

text \<open>An executable run: the workers of the schedule step in order, no wait is cancelled.\<close>

fun run_schedule :: "'v collection \<Rightarrow> (int \<Rightarrow> int \<Rightarrow> Outcome client) \<Rightarrow> int \<Rightarrow> int option \<Rightarrow>
    nat list \<Rightarrow> event list \<Rightarrow> 'v pool \<Rightarrow> event list \<times> 'v pool" where
  "run_schedule col exec limit deadline [] tr st = (tr, st)"
| "run_schedule col exec limit deadline (i # is) tr (sh, pcs) =
     (if i < length pcs
      then case worker_step col exec limit deadline (int i) None sh (pcs ! i) of
             (sh', pc', evs) \<Rightarrow>
               run_schedule col exec limit deadline is (tr @ evs) (sh', pcs[i := pc'])
      else run_schedule col exec limit deadline is tr (sh, pcs))"

lemma run_schedule_run:
  "pool_run col exec limit deadline start tr st \<Longrightarrow>
     run_schedule col exec limit deadline is tr st = (tr', st') \<Longrightarrow>
     pool_run col exec limit deadline start tr' st'"
proof (induction "is" arbitrary: tr st)
  case (Cons i "is")
  obtain sh pcs where st: "st = (sh, pcs)" by fastforce
  show ?case
  proof (cases "i < length pcs")
    case True
    obtain sh1 pc1 evs where w: "worker_step col exec limit deadline (int i) None sh (pcs ! i)
        = (sh1, pc1, evs)" by (metis prod_cases3)
    have "pool_step col exec limit deadline (sh, pcs) evs (sh1, pcs[i := pc1])"
      using True w by (intro pool_step.Worker) auto
    then have "pool_run col exec limit deadline start (tr @ evs) (sh1, pcs[i := pc1])"
      using Cons.prems(1) st by (auto intro: pool_run.Step)
    from Cons.IH[OF this] Cons.prems(2) st w True show ?thesis by simp
  qed (use Cons st in simp)
qed simp

lemmas schedule_from_start = run_schedule_run[OF pool_run.Begin]

text \<open>A concrete run: two workers, three operations; worker 1 reads before worker 0 updates.\<close>

definition demo_memory :: "doc collection" where
  "demo_memory = memory (\<lambda>v. ErrText ''not a document'')"

definition demo_document :: doc where
  "demo_document = [(''_id'', BString ''counter''), (''version'', BInt64 0),
     (''payload'', BString ''xx'')]"

definition demo_schedule :: "nat list" where
  "demo_schedule = [0, 0, 0, 0, 0, 0, 1, 1, 1, 1, 1, 1] @ replicate 30 0 @ replicate 30 1"

definition demo_run :: "event list \<times> doc pool" where
  "demo_run = run_schedule demo_memory (cas_Execute exact_driver 7 0) 3 None demo_schedule []
     (start_pool 2 demo_document [] 100)"

lemma demo_run_pool:
  "pool_run demo_memory (cas_Execute exact_driver 7 0) 3 None (start_pool 2 demo_document [] 100)
     (fst demo_run) (snd demo_run)"
  by (rule schedule_from_start[where ?is = demo_schedule]) (simp add: demo_run_def)

lemma demo_finished: "finished (snd demo_run)"
  by code_simp

lemma demo_counts:
  "let l = Snapshot (rs_ledger (fst (snd demo_run))) in
     Matched l = 2 \<and> NoMatch l = 1 \<and> Rejected l = 0 \<and> Attempts l = 3 \<and>
     rs_issued (fst (snd demo_run)) = 3 \<and> recorded_of (fst demo_run) = [1, 3, 2]"
  by code_simp

lemma demo_verify:
  "case demo_run of (tr, sh, pcs) \<Rightarrow>
     (case run_prog demo_memory
        (cas_Verify exact_driver ''xx'' MergeModeDocumentTouched (Snapshot (rs_ledger sh)))
        (rs_server sh) (rs_local sh) of (r, v', s') \<Rightarrow> (case r of Inl _ \<Rightarrow> False | Inr _ \<Rightarrow> True))"
  by code_simp

section \<open>Properties\<close>

text \<open>C1: Reservation and accounting under every interleaving. At any moment of any run of the
  worker pool, with any scenario, collection, schedule, clock and cancellation, the sequences
  reserved so far are \<open>1, 2, ..., issued\<close> in that order; with a positive operation limit no
  more than the limit are ever reserved; every reserved sequence is either recorded once or in
  the hands of exactly one worker; and the ledger is the fold of the recorded outcomes. A worker
  that has loaded a stale counter can neither reuse a sequence nor overshoot.\<close>

theorem pool_reservations:
  assumes "pool_run col exec limit deadline (start_pool workers server local now) tr (sh, pcs)"
  shows "reserved_of tr = [1..rs_issued sh] \<and>
    (0 < limit \<longrightarrow> rs_issued sh \<le> limit) \<and>
    distinct (recorded_of tr @ all_held pcs) \<and>
    mset (recorded_of tr @ all_held pcs) = mset [1..rs_issued sh] \<and>
    rs_ledger sh = ledger_run (history_of tr)"
proof -
  have inv: "pool_inv limit tr sh pcs" using pool_inv_run[OF assms] by simp
  then have m: "mset (recorded_of tr @ all_held pcs) = mset [1..rs_issued sh]"
    by (simp add: pool_inv_def)
  then have "distinct (recorded_of tr @ all_held pcs)"
    using mset_eq_imp_distinct_iff by (metis distinct_upto)
  with m inv show ?thesis by (simp add: pool_inv_def)
qed

lemma pool_reservations_witness:
  "case demo_run of (tr, sh, pcs) \<Rightarrow> reserved_of tr = [1..rs_issued sh] \<and> rs_issued sh \<le> 3 \<and>
     recorded_of tr = [1, 3, 2]"
proof -
  obtain tr sh pcs where st: "demo_run = (tr, sh, pcs)" by (metis prod_cases3)
  have "pool_run demo_memory (cas_Execute exact_driver 7 0) 3 None
      (start_pool 2 demo_document [] 100) tr (sh, pcs)" using demo_run_pool unfolding st by simp
  from pool_reservations[OF this] demo_counts show ?thesis unfolding st by (simp add: Let_def)
qed

text \<open>C12: The runner's cross-check cannot misfire. When all workers have returned and no record
  error was raised, the number of reserved operations equals the recorded attempts, the ledger
  validates, and the recorded sequences are a permutation of \<open>1 .. issued\<close>; conversely a record
  error was raised exactly when some outcome was refused by the ledger.\<close>

theorem pool_finished_accounting:
  assumes "pool_run col exec limit deadline (start_pool workers server local now) tr (sh, pcs)"
    and "finished (sh, pcs)"
  shows "mset (recorded_of tr) = mset [1..rs_issued sh] \<and>
    ledger_Validate (Snapshot (rs_ledger sh)) = None \<and>
    (rs_recordErr sh = None \<longleftrightarrow> Attempts (Snapshot (rs_ledger sh)) = rs_issued sh)"
proof -
  have inv: "pool_inv limit tr sh pcs" using pool_inv_run[OF assms(1)] by simp
  have m: "mset (recorded_of tr) = mset [1..rs_issued sh]"
    using inv finished_held[OF assms(2)] by (simp add: pool_inv_def)
  then have len: "int (length (history_of tr)) = rs_issued sh"
    using mset_eq_length[OF m] inv by (simp add: length_history pool_inv_def)
  have "(\<forall>r \<in> set (history_of tr). accepted (fst r)) \<longleftrightarrow>
      length (accepted_of (history_of tr)) = length (history_of tr)"
    by (simp add: accepted_of_def filter_map o_def length_filter_all_iff)
  moreover have "ledger_Validate (Snapshot (ledger_run (history_of tr))) = None"
    by (rule ledger_run_validates)
  ultimately show ?thesis
    using inv m by (simp add: pool_inv_def ledger_snapshot_fields flip: len)
qed

lemma pool_finished_accounting_witness:
  "case demo_run of (tr, sh, pcs) \<Rightarrow> mset (recorded_of tr) = mset [1..rs_issued sh] \<and>
     rs_recordErr sh = None"
proof -
  obtain tr sh pcs where st: "demo_run = (tr, sh, pcs)" by (metis prod_cases3)
  have "pool_run demo_memory (cas_Execute exact_driver 7 0) 3 None
      (start_pool 2 demo_document [] 100) tr (sh, pcs)" using demo_run_pool unfolding st by simp
  from pool_finished_accounting[OF this] demo_finished demo_counts show ?thesis
    unfolding st by (simp add: Let_def)
qed

end
