(* ===== verification/EndToEnd.thy ===== *)
theory EndToEnd
  imports RunnerFacts
begin

text \<open>
  Completeness of the compare-and-set workload: against a collection that keeps the counter
  contract, no interleaving of the workers, no fault and no cancellation makes a check of the
  run fail. The invariant follows the generations: those matched by recorded outcomes, those
  matched by outcomes a worker still carries, and those applied by updates whose outcome is
  indeterminate together are exactly \<open>0, 1, ..., generation - 1\<close>, each once.
\<close>

section \<open>The stages of one compare-and-set\<close>

definition cas_update_stage :: "driver \<Rightarrow> int \<Rightarrow> int \<Rightarrow> int \<Rightarrow> Outcome client" where
  "cas_update_stage drv worker sequence version =
     UpdateOne (counter_filter version) counter_inc
       (\<lambda>r. Return (cas_outcome drv worker sequence version (version + 1) r))"

definition cas_wait_cont :: "driver \<Rightarrow> int \<Rightarrow> int \<Rightarrow> int \<Rightarrow> goerror option \<Rightarrow> Outcome client" where
  "cas_wait_cont drv worker sequence version w = (case w of
       Some err \<Rightarrow> Return (indeterminate err)
     | None \<Rightarrow> cas_update_stage drv worker sequence version)"

definition cas_after_read :: "driver \<Rightarrow> int \<Rightarrow> duration \<Rightarrow> int \<Rightarrow> int \<Rightarrow> goerror + int \<Rightarrow> Outcome client" where
  "cas_after_read drv seed maxDelay worker sequence r = (case r of
       Inl err \<Rightarrow> Return (indeterminate err)
     | Inr version \<Rightarrow>
         (let delay = deterministicDelay seed sequence maxDelay in
          if delay = 0 then cas_update_stage drv worker sequence version
          else WaitTimer delay (cas_wait_cont drv worker sequence version)))"

lemma cas_Execute_stages:
  "cas_Execute drv seed maxDelay worker sequence =
     FindOne (id_filter ''counter'') (\<lambda>r. cas_after_read drv seed maxDelay worker sequence
       (case r of Inl err \<Rightarrow> Inl err | Inr d \<Rightarrow> field_int64 drv ''version'' d))"
  by (auto simp: cas_Execute_def readCounter_def waitCASDelay_def cas_after_read_def
      cas_update_stage_def counter_filter_def counter_inc_def Let_def cas_wait_cont_def
      intro!: ext split: sum.splits option.splits)

text \<open>What a worker of this workload may be executing.\<close>

definition cas_outcome_ok :: "Outcome \<Rightarrow> bool" where
  "cas_outcome_ok oc \<longleftrightarrow> accepted oc \<and>
     (oc_Kind oc = OutcomeMatched \<longrightarrow> oc_Modified oc \<and>
        (\<exists>g. oc_CAS oc = Some \<lparr>ObservedGeneration = g, ProposedGeneration = g + 1\<rparr>))"

definition cas_stage :: "driver \<Rightarrow> int \<Rightarrow> duration \<Rightarrow> int \<Rightarrow> int \<Rightarrow> Outcome client \<Rightarrow> bool" where
  "cas_stage drv seed maxDelay worker sequence p \<longleftrightarrow>
     p = cas_Execute drv seed maxDelay worker sequence \<or>
     (\<exists>version d. p = WaitTimer d (cas_wait_cont drv worker sequence version)) \<or>
     (\<exists>version. p = cas_update_stage drv worker sequence version) \<or>
     (\<exists>oc. p = Return oc \<and> cas_outcome_ok oc)"

text \<open>The generations an outcome matched, and the outcome a worker carries.\<close>

definition matched_gens :: "Outcome \<Rightarrow> int list" where
  "matched_gens oc =
     (if oc_Kind oc = OutcomeMatched
      then (case oc_CAS oc of Some c \<Rightarrow> [ObservedGeneration c] | None \<Rightarrow> []) else [])"

fun carried :: "pc \<Rightarrow> Outcome list" where
  "carried (Executing seq started (Return oc)) = [oc]"
| "carried (AtMatched seq started oc) = [oc]"
| "carried (AtFirst seq started oc m) = [oc]"
| "carried (AtMaximum seq started oc m) = [oc]"
| "carried (AtMaximumSwap seq started oc m c) = [oc]"
| "carried (AtBound seq started oc) = [oc]"
| "carried (AtRecord seq started oc) = [oc]"
| "carried pc = []"

text \<open>What the generations need of an outcome: whether it is indeterminate, and what it matched.\<close>

definition summary :: "Outcome \<Rightarrow> bool \<times> int list" where
  "summary oc = (oc_Kind oc = OutcomeIndeterminate, matched_gens oc)"

definition produced :: "event list \<Rightarrow> pc list \<Rightarrow> (bool \<times> int list) multiset" where
  "produced tr pcs = mset (map (summary \<circ> fst) (history_of tr)) +
     mset (concat (map (map summary \<circ> carried) pcs))"

text \<open>
  The invariant on generations: those matched by the outcomes produced so far, together with the
  generations \<open>lost\<close> of updates applied although their outcome is indeterminate, form the chain.
\<close>

definition gens_ok :: "(bool \<times> int list) multiset \<Rightarrow> int \<Rightarrow> bool" where
  "gens_ok M g \<longleftrightarrow> 0 \<le> g \<and>
     (\<exists>lost. (\<Sum>x \<in># M. mset (snd x)) + lost = chain g \<and> size lost \<le> size (filter_mset fst M))"

definition settles :: "Outcome \<Rightarrow> int \<Rightarrow> int \<Rightarrow> bool" where
  "settles oc g g' \<longleftrightarrow>
     (case oc_Kind oc of
        OutcomeMatched \<Rightarrow> matched_gens oc = [g] \<and> g' = g + 1
      | OutcomeIndeterminate \<Rightarrow> g' = g \<or> g' = g + 1
      | _ \<Rightarrow> g' = g)"

lemma chain_Suc: "0 \<le> g \<Longrightarrow> chain (g + 1) = add_mset g (chain g)"
  by (simp add: chain_def nat_add_distrib)

lemma chain_mem: "x \<in># chain g \<longleftrightarrow> 0 \<le> x \<and> x < g"
  by (auto simp: chain_def image_int_atLeastLessThan)

lemma size_chain: "0 \<le> g \<Longrightarrow> int (size (chain g)) = g"
  by (simp add: chain_def)

lemma gens_ok_settle:
  assumes "gens_ok M g" "settles oc g g'"
  shows "gens_ok (add_mset (summary oc) M) g'"
proof -
  from assms(1) obtain lost where g: "0 \<le> g" and
    lost: "(\<Sum>x \<in># M. mset (snd x)) + lost = chain g" "size lost \<le> size (filter_mset fst M)"
    by (auto simp: gens_ok_def)
  show ?thesis
  proof (cases "oc_Kind oc = OutcomeIndeterminate")
    case True
    with assms(2) consider "g' = g" | "g' = g + 1" by (auto simp: settles_def)
    then show ?thesis
    proof cases
      case 1
      with True g lost show ?thesis
        by (auto simp: gens_ok_def summary_def matched_gens_def intro!: exI[of _ lost])
    next
      case 2
      with True g lost show ?thesis
        by (auto simp: gens_ok_def summary_def matched_gens_def chain_Suc
            intro!: exI[of _ "add_mset g lost"])
    qed
  next
    case False
    with assms(2) g lost show ?thesis
      by (auto simp: gens_ok_def settles_def summary_def matched_gens_def chain_Suc
          intro!: exI[of _ lost] split: OutcomeKind.splits)
  qed
qed

definition summary_shape :: "bool \<times> int list \<Rightarrow> bool" where
  "summary_shape x \<longleftrightarrow> length (snd x) + (if fst x then 1 else 0) \<le> 1"

lemma summary_shape: "summary_shape (summary oc)"
  by (auto simp: summary_shape_def summary_def matched_gens_def split: option.splits)

lemma shape_bound:
  "\<forall>x \<in># M. summary_shape x \<Longrightarrow>
     size (\<Sum>x \<in># M. mset (snd x)) + size (filter_mset fst M) \<le> size M"
  by (induction M) (auto simp: summary_shape_def split: if_splits)

lemma gens_ok_bound:
  assumes "gens_ok M g" "\<forall>x \<in># M. summary_shape x"
  shows "g \<le> int (size M)"
proof -
  from assms(1) obtain lost where g: "0 \<le> g" and
    lost: "(\<Sum>x \<in># M. mset (snd x)) + lost = chain g" "size lost \<le> size (filter_mset fst M)"
    by (auto simp: gens_ok_def)
  have "size (\<Sum>x \<in># M. mset (snd x)) + size lost = size (chain g)"
    using arg_cong[OF lost(1), of size] by simp
  with lost(2) shape_bound[OF assms(2)] size_chain[OF g] show ?thesis by linarith
qed

lemma gens_ok_member:
  assumes "gens_ok M g" "(b, gs) \<in># M" "x \<in> set gs"
  shows "0 \<le> x \<and> x < g"
proof -
  from assms(1) obtain lost where lost: "(\<Sum>x \<in># M. mset (snd x)) + lost = chain g"
    by (auto simp: gens_ok_def)
  obtain N where "M = add_mset (b, gs) N" using assms(2) by (metis mset_add)
  with lost assms(3) have "x \<in># chain g" by (auto simp flip: lost)
  then show ?thesis by (simp add: chain_mem)
qed

section \<open>The invariant of a run\<close>

definition edge_fine :: "Outcome \<Rightarrow> bool" where
  "edge_fine oc \<longleftrightarrow> (oc_Kind oc = OutcomeMatched \<longrightarrow>
     (\<exists>c. oc_CAS oc = Some c \<and>
        \<not> bad_edge (oc_MaximumObservedGeneration oc) (oc_ObservedGenerationBounded oc) c))"

definition cas_pc :: "driver \<Rightarrow> int \<Rightarrow> duration \<Rightarrow> int \<Rightarrow> pc \<Rightarrow> bool" where
  "cas_pc drv seed maxDelay worker pc \<longleftrightarrow>
     (\<forall>oc \<in> set (carried pc). cas_outcome_ok oc) \<and>
     (case pc of
        Executing seq started p \<Rightarrow> cas_stage drv seed maxDelay worker seq p
      | AtRecord seq started oc \<Rightarrow> edge_fine oc
      | _ \<Rightarrow> True)"

lemma accepted_alt:
  "accepted r \<longleftrightarrow> oc_Kind r = OutcomeMatched \<or>
     oc_Kind r \<in> {OutcomeNoMatch, OutcomeRejected, OutcomeIndeterminate} \<and> \<not> oc_Modified r"
  by (auto simp: accepted_def split: OutcomeKind.splits)

lemma summary_bound [simp]: "summary (bound_outcome n oc) = summary oc"
  by (simp add: summary_def bound_outcome_def matched_gens_def)

lemma bound_outcome_simps [simp]:
  "oc_Kind (bound_outcome n oc) = oc_Kind oc" "oc_Modified (bound_outcome n oc) = oc_Modified oc"
  "oc_CAS (bound_outcome n oc) = oc_CAS oc"
  by (simp_all add: bound_outcome_def)

lemma cas_outcome_ok_bound [simp]: "cas_outcome_ok (bound_outcome n oc) = cas_outcome_ok oc"
  by (simp add: cas_outcome_ok_def accepted_alt)

lemma bound_outcome_fine:
  assumes "cas_outcome_ok oc" "\<forall>x \<in> set (matched_gens oc). 0 \<le> x \<and> x < n"
  shows "edge_fine (bound_outcome n oc)"
proof (cases "oc_Kind oc = OutcomeMatched")
  case True
  with assms(1) obtain g where g: "oc_CAS oc = Some \<lparr>ObservedGeneration = g, ProposedGeneration = g + 1\<rparr>"
    by (auto simp: cas_outcome_ok_def)
  with True assms(2) have "0 \<le> g \<and> g < n" by (simp add: matched_gens_def)
  with g show ?thesis by (simp add: edge_fine_def bad_edge_def) (simp add: bound_outcome_def)
qed (simp add: edge_fine_def)

lemma cas_outcome_simps:
  "oc_Kind (cas_outcome drv w q g g' r) = oc_Kind (UpdateOutcome (drv_isNetworkError drv) (fst r) (snd r))"
  "oc_CAS (cas_outcome drv w q g g' r) = Some \<lparr>ObservedGeneration = g, ProposedGeneration = g'\<rparr>"
  "oc_Modified (cas_outcome drv w q g g' r)
     = oc_Modified (UpdateOutcome (drv_isNetworkError drv) (fst r) (snd r))"
  by (simp_all add: cas_outcome_def)

lemma UpdateOutcome_accepted: "accepted (UpdateOutcome net res err)"
  by (auto simp: UpdateOutcome_def outcome_of_def accepted_def split: option.splits)

lemma cas_outcome_accepted: "accepted (cas_outcome drv w q g g' r)"
  using UpdateOutcome_accepted[of "drv_isNetworkError drv" "fst r" "snd r"]
  by (simp add: accepted_alt cas_outcome_simps)

lemma UpdateOutcome_modified:
  "oc_Kind (UpdateOutcome net res err) = OutcomeMatched \<Longrightarrow>
     oc_Modified (UpdateOutcome net res err) \<longleftrightarrow> wr_Modified res > 0"
  by (auto simp: UpdateOutcome_def outcome_of_def split: option.splits if_splits)

lemma honest_settles:
  assumes "honest_update (drv_isNetworkError drv) g before after r"
  shows "cas_outcome_ok (cas_outcome drv w q g (g + 1) r) \<and>
    settles (cas_outcome drv w q g (g + 1) r) before after"
  using assms UpdateOutcome_modified[of "drv_isNetworkError drv" "fst r" "snd r"]
    cas_outcome_accepted[of drv w q g "g + 1" r]
  by (auto simp: honest_update_def cas_outcome_ok_def settles_def cas_outcome_simps
      matched_gens_def split: OutcomeKind.splits)

lemma indeterminate_settles:
  "cas_outcome_ok (indeterminate err)" "settles (indeterminate err) g g"
  by (simp_all add: indeterminate_def outcome_of_def cas_outcome_ok_def accepted_def settles_def)

text \<open>One call of a compare-and-set against an honest collection.\<close>

definition stage_step ::
    "driver \<Rightarrow> int \<Rightarrow> duration \<Rightarrow> int \<Rightarrow> int \<Rightarrow> Outcome client \<Rightarrow> int \<Rightarrow> int \<Rightarrow> bool" where
  "stage_step drv seed maxDelay worker seq p' g g' \<longleftrightarrow>
     cas_stage drv seed maxDelay worker seq p' \<and>
     (case p' of Return oc \<Rightarrow> cas_outcome_ok oc \<and> settles oc g g' | _ \<Rightarrow> g' = g)"

lemma after_read_step:
  "stage_step drv seed maxDelay worker seq (cas_after_read drv seed maxDelay worker seq r) g g"
  by (auto simp: stage_step_def cas_after_read_def cas_stage_def cas_update_stage_def Let_def
      indeterminate_settles split: sum.splits)

lemma wait_cont_step:
  "stage_step drv seed maxDelay worker seq (cas_wait_cont drv worker seq version w) g g"
  by (auto simp: stage_step_def cas_wait_cont_def cas_stage_def cas_update_stage_def
      indeterminate_settles split: option.splits)

text \<open>How a step changes what has been produced, and how much that can be.\<close>

lemma produced_update:
  assumes "i < length pcs"
  shows "produced (tr @ evs) (pcs[i := pc']) + mset (map summary (carried (pcs ! i)))
    = produced tr pcs + mset (map summary (carried pc')) + mset (map (summary \<circ> fst) (history_of evs))"
  using mset_concat_update[OF assms, of "map summary \<circ> carried" pc']
  by (simp add: produced_def ac_simps)

lemma carried_held: "length (carried pc) \<le> length (held pc)"
  by (cases pc rule: carried.cases) auto

lemma produced_size: "size (produced tr pcs) \<le> length (recorded_of tr) + length (all_held pcs)"
proof -
  have "length (concat (map (map summary \<circ> carried) pcs)) \<le> length (all_held pcs)"
    using carried_held by (induction pcs) (auto simp: all_held_def add_mono)
  then show ?thesis by (simp add: produced_def length_history)
qed

lemma pool_inv_size:
  "pool_inv limit tr sh pcs \<Longrightarrow>
     rs_issued sh = int (length (recorded_of tr) + length (all_held pcs))"
proof -
  assume inv: "pool_inv limit tr sh pcs"
  then have "mset [1..rs_issued sh] = mset (recorded_of tr @ all_held pcs)" and "0 \<le> rs_issued sh"
    by (simp_all add: pool_inv_def)
  from mset_eq_length[OF this(1)] this(2) show ?thesis by simp
qed

text \<open>Histories of outcomes in order, and the check lists on them.\<close>

definition strict_mode :: "string \<Rightarrow> bool" where
  "strict_mode mode \<longleftrightarrow> mode = MergeModeDocumentTouched \<or> mode = MergeModeDocumentDivergent"

lemma merge_modes_distinct:
  "MergeModeDocumentTouched \<noteq> MergeModeDocumentDivergent"
  "MergeModeDocumentTouched \<noteq> MergeModeFieldDivergent"
  "MergeModeDocumentDivergent \<noteq> MergeModeFieldDivergent"
  by (simp_all add: merge_mode_defs)

lemma edges_matched_gens:
  "map observed_of (edges_of h) = concat (map (matched_gens \<circ> fst) h)"
  by (induction h rule: rev_induct) (auto simp: edge_of_def matched_gens_def split: option.splits)

lemma history_modified:
  assumes "\<forall>r \<in> set h. cas_outcome_ok (fst r)"
  shows "accepted_of h = map fst h" (is ?A)
    and "Modified (Snapshot (ledger_run h)) = Matched (Snapshot (ledger_run h))" (is ?B)
    and "int (length (edges_of h)) = Matched (Snapshot (ledger_run h))" (is ?C)
proof -
  show a: ?A using assms by (simp add: accepted_of_def cas_outcome_ok_def)
  have "filter oc_Modified (map fst h) = filter (\<lambda>r. oc_Kind r = OutcomeMatched) (map fst h)"
    using assms by (intro filter_cong) (auto simp: cas_outcome_ok_def accepted_alt)
  then show ?B by (simp add: ledger_snapshot_fields a kind_count_def)
  have "all_cas h" using assms by (auto simp: all_cas_def cas_outcome_ok_def)
  then show ?C by (simp add: ledger_snapshot_fields all_cas_edges)
qed

lemma history_good_edges:
  assumes "\<forall>r \<in> set h. edge_fine (fst r)"
  shows "good_edges (edges_of h) = edges_of h"
proof -
  have "\<not> edge_bad e" if "e \<in> set (edges_of h)" for e
    using that assms
    by (fastforce simp: edges_of_def edge_of_def edge_fine_def split: option.splits if_splits)
  then show ?thesis by (simp add: good_edges_def)
qed

lemma history_gens:
  assumes "gens_ok (mset (map (summary \<circ> fst) h)) g" "\<forall>r \<in> set h. cas_outcome_ok (fst r)"
  shows "0 \<le> g \<and> distinct (map observed_of (edges_of h)) \<and>
    (0 < Indeterminate (Snapshot (ledger_run h)) \<or> mset (map observed_of (edges_of h)) = chain g)"
proof -
  have sum: "(\<Sum>x \<in># mset (map (summary \<circ> fst) h). mset (snd x)) = mset (map observed_of (edges_of h))"
    unfolding edges_matched_gens by (induction h) (simp_all add: summary_def)
  have cnt: "int (size (filter_mset fst (mset (map (summary \<circ> fst) h))))
      = Indeterminate (Snapshot (ledger_run h))"
    unfolding ledger_snapshot_fields history_modified(1)[OF assms(2)]
    by (induction h) (simp_all add: summary_def kind_count_def)
  from assms(1) obtain lost where g: "0 \<le> g" and
    lost: "mset (map observed_of (edges_of h)) + lost = chain g"
      "int (size lost) \<le> Indeterminate (Snapshot (ledger_run h))"
    unfolding gens_ok_def sum cnt[symmetric] by auto
  obtain ls where ls: "mset ls = lost" using ex_mset by blast
  have "mset (map observed_of (edges_of h) @ ls) = mset (map int [0..<nat g])"
    using lost(1) ls by (simp add: chain_def)
  from mset_eq_imp_distinct_iff[OF this] have "distinct (map observed_of (edges_of h))"
    by (simp add: distinct_map)
  moreover have "mset (map observed_of (edges_of h)) = chain g"
    if "\<not> 0 < Indeterminate (Snapshot (ledger_run h))"
  proof -
    from that lost(2) have "size lost = 0" by linarith
    with lost(1) show ?thesis by simp
  qed
  ultimately show ?thesis using g by blast
qed

lemma history_checks:
  assumes "gens_ok (mset (map (summary \<circ> fst) h)) g"
    and "\<forall>r \<in> set h. cas_outcome_ok (fst r) \<and> edge_fine (fst r)"
  shows "ChecksPassed (cas_checks mode g (Snapshot (ledger_run h))) \<longleftrightarrow>
    (strict_mode mode \<longrightarrow> Rejected (Snapshot (ledger_run h)) = 0)"
proof -
  let ?s = "Snapshot (ledger_run h)" and ?es = "edges_of h"
  have ok: "\<forall>r \<in> set h. cas_outcome_ok (fst r)" and good: "good_edges ?es = ?es"
    using assms(2) history_good_edges by blast+
  note counts = history_modified(2,3)[OF ok]
  note gens = history_gens[OF assms(1) ok]
  have chain: "g = Matched ?s \<and> observed_of ` set ?es = {0..<g}"
    if "mset (map observed_of ?es) = chain g"
    using arg_cong[OF that, of size] arg_cong[OF that, of set_mset] gens counts(2)
    by (auto simp: chain_def image_int_atLeastLessThan)
  have "ChecksPassed (counterChecks g ?s)"
    using counterChecks_history[of h g] counts good gens chain by (auto simp: Let_def)
  moreover have "ChecksPassed (fieldDivergentCounterChecks g ?s)"
    using fieldDivergentCounterChecks_history[of h g] counts good gens chain
    by (auto simp: Let_def)
  moreover have "ChecksPassed (strictCASClientOutcomeChecks ?s) \<longleftrightarrow> Rejected ?s = 0"
    by (rule strict_checks_rejected)
  ultimately show ?thesis
    by (simp add: cas_checks_def strict_mode_def Let_def merge_modes_distinct
        merge_modes_distinct[symmetric])
qed

context counter_collection
begin

lemma stage_call:
  assumes stage: "cas_stage drv seed maxDelay worker seq p" and live: "\<forall>oc. p \<noteq> Return oc"
    and st: "stored v" and step: "prog_step col waited p v s = (p', v', s')"
  shows "stored v' \<and> stage_step drv seed maxDelay worker seq p' (generation v) (generation v')"
proof -
  from stage live consider
    (reading) "p = cas_Execute drv seed maxDelay worker seq" |
    (waiting) version d where "p = WaitTimer d (cas_wait_cont drv worker seq version)" |
    (updating) version where "p = cas_update_stage drv worker seq version"
    by (auto simp: cas_stage_def)
  then show ?thesis
  proof cases
    case reading
    with step st show ?thesis
      by (auto simp: cas_Execute_stages after_read_step)
  next
    case waiting
    with step st show ?thesis by (auto simp: wait_cont_step)
  next
    case updating
    obtain r v1 where u: "col_UpdateOne col (counter_filter version) counter_inc v = (r, v1)"
      by fastforce
    from update_law[OF st u] honest_settles[of drv version "generation v" "generation v1" r worker seq]
    show ?thesis
      using updating step u
      by (auto simp: cas_update_stage_def stage_step_def cas_stage_def)
  qed
qed

text \<open>One step of a worker, as the invariant sees it.\<close>

definition cas_effect :: "'v shared \<Rightarrow> pc \<Rightarrow> 'v shared \<Rightarrow> pc \<Rightarrow> event list \<Rightarrow> bool" where
  "cas_effect sh pc sh' pc' evs \<longleftrightarrow>
     (generation (rs_server sh') = generation (rs_server sh) \<and>
      map summary (carried pc') @ map (summary \<circ> fst) (history_of evs) = map summary (carried pc)) \<or>
     (carried pc = [] \<and> history_of evs = [] \<and>
      (\<exists>oc. carried pc' = [oc] \<and> settles oc (generation (rs_server sh)) (generation (rs_server sh'))))"

lemma cas_worker_executing:
  assumes "cas_pc drv seed maxDelay worker (Executing seq started p)" "stored (rs_server sh)"
    and "worker_step col (cas_Execute drv seed maxDelay) limit deadline worker waited sh
      (Executing seq started p) = (sh', pc', evs)"
  shows "stored (rs_server sh') \<and> cas_pc drv seed maxDelay worker pc' \<and>
    cas_effect sh (Executing seq started p) sh' pc' evs \<and> history_of evs = []"
proof (cases "\<exists>oc. p = Return oc")
  case True
  with assms show ?thesis by (auto simp: cas_pc_def cas_effect_def split: if_splits)
next
  case False
  then have live: "\<forall>oc. p \<noteq> Return oc" by blast
  obtain p' v' s' where step: "prog_step col waited p (rs_server sh) (rs_local sh) = (p', v', s')"
    by (metis prod_cases3)
  have res: "sh' = sh\<lparr>rs_server := v', rs_local := s'\<rparr>" "pc' = Executing seq started p'" "evs = []"
    using assms(3) live step by (cases p; simp)+
  have nc: "carried (Executing seq started p) = []" using live by (cases p) auto
  have "cas_stage drv seed maxDelay worker seq p" using assms(1) by (simp add: cas_pc_def)
  from stage_call[OF this live assms(2) step] have
    st: "stored v'" "cas_stage drv seed maxDelay worker seq p'" and
    ef: "case p' of Return oc \<Rightarrow> cas_outcome_ok oc \<and> settles oc (generation (rs_server sh)) (generation v')
         | _ \<Rightarrow> generation v' = generation (rs_server sh)"
    by (auto simp: stage_step_def)
  from ef nc st show ?thesis
    by (cases p') (simp_all add: res cas_pc_def cas_effect_def)
qed

lemma cas_worker_record:
  assumes "cas_pc drv seed maxDelay worker (AtRecord seq started oc)"
    and "record_step seq started oc sh = (sh', pc', evs)"
  shows "rs_server sh' = rs_server sh \<and> cas_pc drv seed maxDelay worker pc' \<and>
    cas_effect sh (AtRecord seq started oc) sh' pc' evs \<and>
    (\<forall>r \<in> set (history_of evs). cas_outcome_ok (fst r) \<and> edge_fine (fst r))"
  using assms
  by (auto simp: record_step_def Let_def cas_pc_def cas_effect_def split: sum.splits)

lemma cas_worker_step:
  assumes "cas_pc drv seed maxDelay worker pc" "stored (rs_server sh)"
    and bound: "\<forall>oc \<in> set (carried pc). \<forall>x \<in> set (matched_gens oc). 0 \<le> x \<and> x < rs_issued sh"
    and step: "worker_step col (cas_Execute drv seed maxDelay) limit deadline worker waited sh pc
      = (sh', pc', evs)"
  shows "stored (rs_server sh') \<and> cas_pc drv seed maxDelay worker pc' \<and>
    cas_effect sh pc sh' pc' evs \<and>
    (\<forall>r \<in> set (history_of evs). cas_outcome_ok (fst r) \<and> edge_fine (fst r))"
proof (cases pc)
  case (Executing seq started p)
  with cas_worker_executing[of seed maxDelay worker seq started p sh limit deadline waited sh' pc' evs]
    assms show ?thesis by simp
next
  case (AtRecord seq started oc)
  with cas_worker_record[of seed maxDelay worker seq started oc sh sh' pc' evs] assms show ?thesis
    by simp
next
  case (AtExecute seq)
  with assms show ?thesis
    by (auto simp: cas_pc_def cas_effect_def cas_stage_def cas_Execute_stages)
next
  case (AtBound seq started oc)
  with assms show ?thesis
    by (auto simp: cas_pc_def cas_effect_def intro!: bound_outcome_fine)
next
  case AtReserve
  with assms show ?thesis
    by (auto simp: reserve_load_def cas_pc_def cas_effect_def split: if_splits)
next
  case (AtSwap c)
  with assms show ?thesis
    by (auto simp: reserve_swap_def cas_pc_def cas_effect_def split: if_splits)
qed (use assms in \<open>auto simp: cas_pc_def cas_effect_def split: if_splits option.splits\<close>)

definition cas_inv :: "int \<Rightarrow> duration \<Rightarrow> event list \<Rightarrow> 'v shared \<Rightarrow> pc list \<Rightarrow> bool" where
  "cas_inv seed maxDelay tr sh pcs \<longleftrightarrow>
     stored (rs_server sh) \<and> gens_ok (produced tr pcs) (generation (rs_server sh)) \<and>
     (\<forall>i < length pcs. cas_pc drv seed maxDelay (int i) (pcs ! i)) \<and>
     (\<forall>r \<in> set (history_of tr). cas_outcome_ok (fst r) \<and> edge_fine (fst r))"

lemma cas_inv_bound:
  assumes "cas_inv seed maxDelay tr sh pcs" "pool_inv limit tr sh pcs"
    and "i < length pcs" "oc \<in> set (carried (pcs ! i))" "x \<in> set (matched_gens oc)"
  shows "0 \<le> x \<and> x < rs_issued sh"
proof -
  have ok: "gens_ok (produced tr pcs) (generation (rs_server sh))"
    using assms(1) by (simp add: cas_inv_def)
  have "summary oc \<in># produced tr pcs"
    using assms(3,4) nth_mem[OF assms(3)] by (force simp: produced_def)
  then have mem: "(oc_Kind oc = OutcomeIndeterminate, matched_gens oc) \<in># produced tr pcs"
    by (simp add: summary_def)
  have "generation (rs_server sh) \<le> int (size (produced tr pcs))"
    by (rule gens_ok_bound[OF ok]) (auto simp: produced_def summary_shape)
  moreover have "int (size (produced tr pcs)) \<le> rs_issued sh"
    using produced_size[of tr pcs] assms(2) by (simp add: pool_inv_size)
  ultimately show ?thesis using gens_ok_member[OF ok mem assms(5)] by linarith
qed

lemma cas_inv_worker:
  assumes inv: "cas_inv seed maxDelay tr sh pcs" and pool: "pool_inv limit tr sh pcs"
    and i: "i < length pcs"
    and step: "worker_step col (cas_Execute drv seed maxDelay) limit deadline (int i) waited sh (pcs ! i)
      = (sh', pc', evs)"
  shows "cas_inv seed maxDelay (tr @ evs) sh' (pcs[i := pc'])"
proof -
  have eff: "stored (rs_server sh') \<and> cas_pc drv seed maxDelay (int i) pc' \<and>
      cas_effect sh (pcs ! i) sh' pc' evs \<and>
      (\<forall>r \<in> set (history_of evs). cas_outcome_ok (fst r) \<and> edge_fine (fst r))"
    by (rule cas_worker_step[OF _ _ _ step])
      (use inv i cas_inv_bound[OF inv pool i] in \<open>auto simp: cas_inv_def\<close>)
  have upd: "produced (tr @ evs) (pcs[i := pc']) + mset (map summary (carried (pcs ! i)))
      = produced tr pcs + mset (map summary (carried pc')) + mset (map (summary \<circ> fst) (history_of evs))"
    by (rule produced_update[OF i])
  have "gens_ok (produced (tr @ evs) (pcs[i := pc'])) (generation (rs_server sh'))"
    using eff[unfolded cas_effect_def]
  proof (elim conjE disjE exE, goal_cases)
    case 1
    have "mset (map summary (carried pc')) + mset (map (summary \<circ> fst) (history_of evs))
        = mset (map summary (carried (pcs ! i)))"
      unfolding 1(5)[symmetric] by simp
    with upd have "produced (tr @ evs) (pcs[i := pc']) = produced tr pcs"
      by (simp add: add.assoc)
    with inv 1 show ?case by (simp add: cas_inv_def)
  next
    case (2 oc)
    with upd have "produced (tr @ evs) (pcs[i := pc']) = add_mset (summary oc) (produced tr pcs)"
      by simp
    with inv 2 show ?case by (auto simp: cas_inv_def intro: gens_ok_settle)
  qed
  with eff inv i show ?thesis by (auto simp: cas_inv_def nth_list_update)
qed

lemma cas_inv_run:
  assumes "pool_run col (cas_Execute drv seed maxDelay) limit deadline
      (start_pool workers v s t) tr st"
    and "stored v" "generation v = 0"
  shows "cas_inv seed maxDelay tr (fst st) (snd st)"
  using assms(1)
proof (induction rule: pool_run.induct)
  case Begin
  show ?case using assms(2,3)
    by (simp add: cas_inv_def start_pool_def start_shared_def produced_def gens_ok_def chain_def
        cas_pc_def)
next
  case (Step tr st evs st')
  have pool: "pool_inv limit tr (fst st) (snd st)" using pool_inv_run[OF Step.hyps(1)] .
  from Step.hyps(2) show ?case
  proof cases
    case (Worker i pcs waited sh sh' pc')
    with Step.IH pool show ?thesis by (auto intro: cas_inv_worker)
  qed (use Step.IH in \<open>simp_all add: cas_inv_def\<close>)
qed

text \<open>When all workers have returned: what the invariant says about the recorded history.\<close>

lemma cas_finished:
  assumes "pool_run col (cas_Execute drv seed maxDelay) limit deadline
      (start_pool workers v s t) tr (sh, pcs)"
    and "stored v" "generation v = 0" "finished (sh, pcs)"
  shows "stored (rs_server sh) \<and> rs_recordErr sh = None \<and>
    rs_ledger sh = ledger_run (history_of tr) \<and>
    (\<forall>r \<in> set (history_of tr). cas_outcome_ok (fst r) \<and> edge_fine (fst r)) \<and>
    gens_ok (mset (map (summary \<circ> fst) (history_of tr))) (generation (rs_server sh))"
proof -
  have cas: "cas_inv seed maxDelay tr sh pcs" using cas_inv_run[OF assms(1-3)] by simp
  have pool: "pool_inv limit tr sh pcs" using pool_inv_run[OF assms(1)] by simp
  have "concat (map (map summary \<circ> carried) pcs) = []"
    using assms(4) by (auto simp: finished_iff)
  with cas have "gens_ok (mset (map (summary \<circ> fst) (history_of tr))) (generation (rs_server sh))"
    by (simp add: cas_inv_def produced_def)
  with cas pool show ?thesis by (auto simp: cas_inv_def pool_inv_def cas_outcome_ok_def)
qed

lemma cas_run_checks:
  assumes "pool_run col (cas_Execute drv seed maxDelay) limit deadline
      (start_pool workers v s t) tr (sh, pcs)"
    and "stored v" "generation v = 0" "finished (sh, pcs)"
  shows "ChecksPassed (cas_checks mode (generation (rs_server sh)) (Snapshot (rs_ledger sh))) \<longleftrightarrow>
    (strict_mode mode \<longrightarrow> Rejected (Snapshot (rs_ledger sh)) = 0)"
  using cas_finished[OF assms] history_checks by metis

end

section \<open>Properties\<close>



end
