(* ===== verification/MergeMatrix.thy ===== *)
theory MergeMatrix
  imports FieldScenarios
begin

text \<open>
  The deterministic merge matrix (src/concurrency/field_divergent_matrix.go): the row tables of
  the three merge modes, the scenario that builds a base, a feature and a main change, merges
  and checks verdict, final state and conflict record, and the contract of the modes as the
  documents under src/docs state it. The branch-capable collection is a record of operations
  addressed by database name; \<open>fmt_error\<close> and \<open>fmt_doc\<close> print values with \<open>%v\<close>, which only
  error texts and details use.
\<close>

section \<open>Changes and rows\<close>

datatype matrixChangeKind =
    matrixNoChange
  | matrixSetAOne
  | matrixSetATwo
  | matrixSetBOne
  | matrixSetAOneBOne
  | matrixInsertAOne
  | matrixInsertATwo
  | matrixDelete
  | matrixOther string

record mergeMatrixRow =
  row_Name :: string
  row_Base :: "doc option"
  row_FeatureChange :: matrixChangeKind
  row_MainChange :: matrixChangeKind
  row_ExpectConflict :: bool
  row_ExpectedDocument :: "doc option"

record mergeMatrixDefinition =
  def_Mode :: string
  def_Prefix :: string
  def_Rows :: "mergeMatrixRow list"

definition matrixDocument :: "int \<Rightarrow> int \<Rightarrow> doc" where
  "matrixDocument a b = [(''_id'', BString ''matrix''), (''a'', BInt64 a), (''b'', BInt64 b)]"

definition matrix_row :: "string \<Rightarrow> bool \<Rightarrow> matrixChangeKind \<Rightarrow> matrixChangeKind \<Rightarrow> bool \<Rightarrow>
    (int \<times> int) option \<Rightarrow> mergeMatrixRow" where
  "matrix_row name based feature main conflict expected =
     \<lparr>row_Name = name, row_Base = (if based then Some (matrixDocument 0 0) else None),
      row_FeatureChange = feature, row_MainChange = main, row_ExpectConflict = conflict,
      row_ExpectedDocument = map_option (\<lambda>(a, b). matrixDocument a b) expected\<rparr>"

definition fieldDivergentMatrixRows :: "mergeMatrixRow list" where
  "fieldDivergentMatrixRows =
     [matrix_row ''one-sided'' True matrixSetAOne matrixNoChange False (Some (1, 0)),
      matrix_row ''disjoint-fields'' True matrixSetAOne matrixSetBOne False (Some (1, 1)),
      matrix_row ''same-field-same-value'' True matrixSetAOne matrixSetAOne False (Some (1, 0)),
      matrix_row ''same-value-plus-disjoint'' True matrixSetAOneBOne matrixSetAOne False (Some (1, 1)),
      matrix_row ''same-field-different-values'' True matrixSetAOne matrixSetATwo True (Some (2, 0)),
      matrix_row ''modify-delete'' True matrixSetAOne matrixDelete True None,
      matrix_row ''add-add-identical'' False matrixInsertAOne matrixInsertAOne False (Some (1, 0)),
      matrix_row ''add-add-different'' False matrixInsertAOne matrixInsertATwo True (Some (2, 0)),
      matrix_row ''both-delete'' True matrixDelete matrixDelete False None]"

definition documentTouchedMatrixRows :: "mergeMatrixRow list" where
  "documentTouchedMatrixRows =
     [matrix_row ''one-sided'' True matrixSetAOne matrixNoChange False (Some (1, 0)),
      matrix_row ''disjoint-fields'' True matrixSetAOne matrixSetBOne True (Some (0, 1)),
      matrix_row ''same-field-same-value'' True matrixSetAOne matrixSetAOne True (Some (1, 0)),
      matrix_row ''same-value-plus-disjoint'' True matrixSetAOneBOne matrixSetAOne True (Some (1, 0)),
      matrix_row ''same-field-different-values'' True matrixSetAOne matrixSetATwo True (Some (2, 0)),
      matrix_row ''modify-delete'' True matrixSetAOne matrixDelete True None,
      matrix_row ''add-add-identical'' False matrixInsertAOne matrixInsertAOne True (Some (1, 0)),
      matrix_row ''add-add-different'' False matrixInsertAOne matrixInsertATwo True (Some (2, 0)),
      matrix_row ''both-delete'' True matrixDelete matrixDelete True None]"

definition documentDivergentMatrixRows :: "mergeMatrixRow list" where
  "documentDivergentMatrixRows =
     [matrix_row ''one-sided'' True matrixSetAOne matrixNoChange False (Some (1, 0)),
      matrix_row ''disjoint-fields'' True matrixSetAOne matrixSetBOne True (Some (0, 1)),
      matrix_row ''same-field-same-value'' True matrixSetAOne matrixSetAOne False (Some (1, 0)),
      matrix_row ''same-value-plus-disjoint'' True matrixSetAOneBOne matrixSetAOne True (Some (1, 0)),
      matrix_row ''same-field-different-values'' True matrixSetAOne matrixSetATwo True (Some (2, 0)),
      matrix_row ''modify-delete'' True matrixSetAOne matrixDelete True None,
      matrix_row ''add-add-identical'' False matrixInsertAOne matrixInsertAOne False (Some (1, 0)),
      matrix_row ''add-add-different'' False matrixInsertAOne matrixInsertATwo True (Some (2, 0)),
      matrix_row ''both-delete'' True matrixDelete matrixDelete False None]"

definition mergeMatrixDefinitions :: "mergeMatrixDefinition list" where
  "mergeMatrixDefinitions =
     [\<lparr>def_Mode = MergeModeDocumentTouched, def_Prefix = ''document-touched-matrix-'',
       def_Rows = documentTouchedMatrixRows\<rparr>,
      \<lparr>def_Mode = MergeModeDocumentDivergent, def_Prefix = ''document-divergent-matrix-'',
       def_Rows = documentDivergentMatrixRows\<rparr>,
      \<lparr>def_Mode = MergeModeFieldDivergent, def_Prefix = ''field-divergent-matrix-'',
       def_Rows = fieldDivergentMatrixRows\<rparr>]"

definition mergeMatrixDefinitionForName :: "string \<Rightarrow> mergeMatrixDefinition option" where
  "mergeMatrixDefinitionForName name =
     find (\<lambda>d. prefix (def_Prefix d) name) mergeMatrixDefinitions"

datatype matrix_lookup =
    NotMatrix
  | ModeRequired string
  | ModeMismatch string string
  | UnknownRow string string
  | MatrixScenario mergeMatrixDefinition mergeMatrixRow

definition newMergeMatrixScenario :: "string \<Rightarrow> string \<Rightarrow> matrix_lookup" where
  "newMergeMatrixScenario name mergeMode =
     (case mergeMatrixDefinitionForName name of
        None \<Rightarrow> NotMatrix
      | Some d \<Rightarrow>
          if mergeMode = [] then ModeRequired (def_Mode d)
          else if mergeMode \<noteq> def_Mode d then ModeMismatch (def_Mode d) mergeMode
          else let rowName = drop (length (def_Prefix d)) name in
               case find (\<lambda>row. row_Name row = rowName) (def_Rows d) of
                 Some row \<Rightarrow> MatrixScenario d row
               | None \<Rightarrow> UnknownRow (def_Mode d) rowName)"

definition matrix_Name :: "mergeMatrixDefinition \<Rightarrow> mergeMatrixRow \<Rightarrow> string" where
  "matrix_Name d row = def_Prefix d @ row_Name row"

section \<open>The branch-capable collection\<close>

record 'v branch_ops =
  br_InsertOne :: "string \<Rightarrow> doc \<Rightarrow> 'v \<Rightarrow> goerror option \<times> 'v"
  br_FindOne :: "string \<Rightarrow> doc \<Rightarrow> 'v \<Rightarrow> goerror + doc"
  br_UpdateOne :: "string \<Rightarrow> doc \<Rightarrow> doc \<Rightarrow> 'v \<Rightarrow> (WriteResult \<times> goerror option) \<times> 'v"
  br_DeleteOne :: "string \<Rightarrow> doc \<Rightarrow> 'v \<Rightarrow> (WriteResult \<times> goerror option) \<times> 'v"
  br_RunCommand :: "string \<Rightarrow> doc \<Rightarrow> 'v \<Rightarrow> (doc \<times> goerror option) \<times> 'v"

type_synonym 'v action = "'v \<Rightarrow> goerror option \<times> 'v"

definition no_action :: "'v action" where
  "no_action v = (None, v)"

text \<open>\<open>if err := f(); err != nil { return err }; g()\<close>\<close>

definition and_then :: "'v action \<Rightarrow> 'v action \<Rightarrow> 'v action" where
  "and_then f g v = (case f v of (Some err, v') \<Rightarrow> (Some err, v') | (None, v') \<Rightarrow> g v')"

definition commandSucceeded :: "doc \<Rightarrow> bool" where
  "commandSucceeded response =
     (case map_of response ''ok'' of
        Some (BDouble x) \<Rightarrow> float_eq x (FFin 1)
      | Some (BInt32 n) \<Rightarrow> n = 1
      | Some (BInt64 n) \<Rightarrow> n = 1
      | _ \<Rightarrow> False)"

definition runSuccessfulCommand ::
    "(doc \<Rightarrow> string) \<Rightarrow> 'v branch_ops \<Rightarrow> string \<Rightarrow> doc \<Rightarrow> 'v action" where
  "runSuccessfulCommand fmt_doc ops database command v =
     (case br_RunCommand ops database command v of
        ((response, Some err), v') \<Rightarrow> (Some err, v')
      | ((response, None), v') \<Rightarrow>
          (if commandSucceeded response then None
           else Some (ErrText (''command failed: '' @ fmt_doc response)), v'))"

definition matrixDocumentWithPayload :: "doc option \<Rightarrow> string \<Rightarrow> doc option" where
  "matrixDocumentWithPayload document payload =
     map_option (\<lambda>d. AList.update ''payload'' (BString payload) d) document"

definition updateMatrixFields :: "'v branch_ops \<Rightarrow> string \<Rightarrow> doc \<Rightarrow> 'v action" where
  "updateMatrixFields ops db fs v =
     (case br_UpdateOne ops db (id_filter ''matrix'') (set_update fs) v of
        ((result, None), v') \<Rightarrow>
          (if wr_Matched result \<noteq> 1
           then Some (ErrText (''update matched '' @ itoa (wr_Matched result) @ '' documents''))
           else None, v')
      | ((result, Some err), v') \<Rightarrow> (Some err, v'))"

fun applyMatrixChange :: "'v branch_ops \<Rightarrow> string \<Rightarrow> matrixChangeKind \<Rightarrow> string \<Rightarrow> 'v action" where
  "applyMatrixChange ops db matrixNoChange payload v = (None, v)"
| "applyMatrixChange ops db matrixSetAOne payload v =
     updateMatrixFields ops db [(''a'', BInt64 1)] v"
| "applyMatrixChange ops db matrixSetATwo payload v =
     updateMatrixFields ops db [(''a'', BInt64 2)] v"
| "applyMatrixChange ops db matrixSetBOne payload v =
     updateMatrixFields ops db [(''b'', BInt64 1)] v"
| "applyMatrixChange ops db matrixSetAOneBOne payload v =
     updateMatrixFields ops db [(''a'', BInt64 1), (''b'', BInt64 1)] v"
| "applyMatrixChange ops db matrixInsertAOne payload v =
     br_InsertOne ops db (the (matrixDocumentWithPayload (Some (matrixDocument 1 0)) payload)) v"
| "applyMatrixChange ops db matrixInsertATwo payload v =
     br_InsertOne ops db (the (matrixDocumentWithPayload (Some (matrixDocument 2 0)) payload)) v"
| "applyMatrixChange ops db matrixDelete payload v =
     (case br_DeleteOne ops db (id_filter ''matrix'') v of
        ((result, None), v') \<Rightarrow>
          (if wr_Matched result \<noteq> 1
           then Some (ErrText (''delete matched '' @ itoa (wr_Matched result) @ '' documents''))
           else None, v')
      | ((result, Some err), v') \<Rightarrow> (Some err, v'))"
| "applyMatrixChange ops db (matrixOther change) payload v =
     (Some (ErrText (''unknown matrix change '' @ change)), v)"

definition commit_command :: "string \<Rightarrow> doc" where
  "commit_command message = [(''doltCommit'', BInt32 1), (''message'', BString message),
     (''author'', BString ''concurrency-harness'')]"

definition commitMatrixChange ::
    "(doc \<Rightarrow> string) \<Rightarrow> 'v branch_ops \<Rightarrow> string \<Rightarrow> matrixChangeKind \<Rightarrow> string \<Rightarrow> 'v action" where
  "commitMatrixChange fmt_doc ops db change message v =
     (if change = matrixNoChange then (None, v)
      else runSuccessfulCommand fmt_doc ops db (commit_command message) v)"

section \<open>Setup, execution and verification\<close>

definition matrix_Setup :: "(doc \<Rightarrow> string) \<Rightarrow> 'v branch_ops \<Rightarrow> string \<Rightarrow> string \<Rightarrow> mergeMatrixRow \<Rightarrow>
    'v action" where
  "matrix_Setup fmt_doc ops database payload row =
     (let mainDatabase = database @ ''@main''; feature = database @ ''@feature'' in
      and_then (case matrixDocumentWithPayload (row_Base row) payload of
                  None \<Rightarrow> no_action | Some d \<Rightarrow> br_InsertOne ops database d)
     (and_then (runSuccessfulCommand fmt_doc ops database (commit_command ''matrix baseline''))
     (and_then (runSuccessfulCommand fmt_doc ops mainDatabase
                  [(''doltBranch'', BInt32 1), (''action'', BString ''add''),
                   (''branch'', BString ''feature'')])
     (and_then (applyMatrixChange ops feature (row_FeatureChange row) payload)
     (and_then (commitMatrixChange fmt_doc ops feature (row_FeatureChange row) ''feature change'')
     (and_then (applyMatrixChange ops mainDatabase (row_MainChange row) payload)
               (commitMatrixChange fmt_doc ops mainDatabase (row_MainChange row) ''main change'')))))))"

text \<open>Execute keeps the response and error of the merge for Verify.\<close>

definition matrix_Execute :: "'v branch_ops \<Rightarrow> string \<Rightarrow> 'v \<Rightarrow>
    (Outcome \<times> doc \<times> goerror option) \<times> 'v" where
  "matrix_Execute ops main v =
     (case br_RunCommand ops main [(''doltMerge'', BInt32 1), (''mergeIn'', BString ''feature'')] v of
        ((response, err), v') \<Rightarrow>
          ((if commandSucceeded response then (outcome_of OutcomeMatched)\<lparr>oc_Modified := True\<rparr>
            else (outcome_of OutcomeRejected)\<lparr>oc_Err := err\<rparr>, response, err), v'))"

definition readMatrixDocument :: "'v branch_ops \<Rightarrow> string \<Rightarrow> 'v \<Rightarrow> goerror + doc option" where
  "readMatrixDocument ops main v =
     (case br_FindOne ops main (id_filter ''matrix'') v of
        Inr d \<Rightarrow> Inr (Some (bson_M d))
      | Inl err \<Rightarrow> (if errors_Is err ErrNoDocuments then Inr None else Inl err))"

text \<open>\<open>reflect.DeepEqual\<close> of two maps.\<close>

definition doc_equal :: "doc \<Rightarrow> doc \<Rightarrow> bool" where
  "doc_equal a b = list_all (\<lambda>k. map_of a k = map_of b k) (map fst a @ map fst b)"

definition conflict_count :: "doc \<Rightarrow> nat" where
  "conflict_count conflicts =
     (case map_of conflicts ''conflicts'' of Some (BArr entries) \<Rightarrow> length entries | _ \<Rightarrow> 0)"

definition matrix_checks :: "(goerror option \<Rightarrow> string) \<Rightarrow> (doc option \<Rightarrow> string) \<Rightarrow> string \<Rightarrow>
    mergeMatrixRow \<Rightarrow> string \<Rightarrow> bool \<Rightarrow> goerror option \<Rightarrow> doc option \<Rightarrow> nat \<Rightarrow> Check list" where
  "matrix_checks fmt_error fmt_odoc mode row payload conflicted mergeErr document conflictCount =
     (let expectedDocument = matrixDocumentWithPayload (row_ExpectedDocument row) payload;
          absent = (document = None);
          statePassed = (case expectedDocument of
              None \<Rightarrow> absent
            | Some e \<Rightarrow> (case document of None \<Rightarrow> False | Some d \<Rightarrow> doc_equal d e))
      in [check_of ''mergeVerdictMatchesMode'' (conflicted = row_ExpectConflict row)
            (''mode='' @ mode @ '' row='' @ row_Name row @ '' conflict='' @ btoa conflicted @
             '' expected='' @ btoa (row_ExpectConflict row) @ '' error='' @ fmt_error mergeErr),
          check_of ''finalStateMatchesMode'' statePassed
            (''mode='' @ mode @ '' row='' @ row_Name row @ '' absent='' @ btoa absent @
             '' document='' @ fmt_odoc document @ '' expected='' @ fmt_odoc expectedDocument),
          check_of ''expectedConflictIsRecorded'' (\<not> row_ExpectConflict row \<or> conflictCount > 0)
            (''row='' @ row_Name row @ '' conflicts='' @ ntoa conflictCount)])"

definition matrix_Verify :: "(goerror option \<Rightarrow> string) \<Rightarrow> (doc option \<Rightarrow> string) \<Rightarrow> 'v branch_ops \<Rightarrow>
    string \<Rightarrow> string \<Rightarrow> mergeMatrixRow \<Rightarrow> string \<Rightarrow> doc \<Rightarrow> goerror option \<Rightarrow> 'v \<Rightarrow>
    (goerror + Check list) \<times> 'v" where
  "matrix_Verify fmt_error fmt_odoc ops main mode row payload response mergeErr v =
     (let conflicted = \<not> commandSucceeded response in
      case readMatrixDocument ops main v of
        Inl err \<Rightarrow> (Inl err, v)
      | Inr document \<Rightarrow>
          if conflicted
          then case br_RunCommand ops main [(''doltConflicts'', BInt32 1)] v of
                 ((conflicts, Some err), v') \<Rightarrow> (Inl err, v')
               | ((conflicts, None), v') \<Rightarrow>
                   (Inr (matrix_checks fmt_error fmt_odoc mode row payload conflicted mergeErr
                           document (conflict_count conflicts)), v')
          else (Inr (matrix_checks fmt_error fmt_odoc mode row payload conflicted mergeErr
                       document 0), v))"

end
