(* ===== verification/TxnScenario.thy ===== *)
theory TxnScenario
  imports FieldScenarios
begin

text \<open>
  The transaction workload (src/concurrency/transaction_scenario.go): every operation inserts a
  batch of two documents in one transaction, the scenario remembers the outcome of every
  operation in a slice indexed by its sequence, and verification counts the stored documents
  per operation. Running a transaction is the driver's; its body and what the scenario does with
  its error are modelled.
\<close>

definition transactionBatchSize :: int where
  "transactionBatchSize = 2"

definition transactionDocumentID :: "int \<Rightarrow> int \<Rightarrow> string" where
  "transactionDocumentID sequence member =
     ''txn-'' @ itoa_pad 20 sequence @ ''-'' @ itoa_pad 2 member"

text \<open>A Go int is encoded as int32 where it fits.\<close>

definition encode_int :: "int \<Rightarrow> bval" where
  "encode_int n = (if - (2 ^ 31) \<le> n \<and> n < 2 ^ 31 then BInt32 n else BInt64 n)"

definition transaction_document :: "int \<Rightarrow> int \<Rightarrow> int \<Rightarrow> doc" where
  "transaction_document worker sequence member =
     [(''_id'', BString (transactionDocumentID sequence member)),
      (''scenario'', BString ''txn-commit-race''), (''operation'', BInt64 sequence),
      (''member'', encode_int member), (''worker'', encode_int worker)]"

text \<open>Setting up only asks whether the collection has transactions.\<close>

definition txn_Setup :: "bool \<Rightarrow> goerror option" where
  "txn_Setup transactional =
     (if transactional then None
      else Some (ErrText (''scenario '' @ [CHR 0x22] @ ''txn-commit-race'' @ [CHR 0x22] @ '' requires transaction support'')))"

text \<open>The body of the transaction: insert the batch, stop at the first error.\<close>

fun txn_body :: "(doc \<Rightarrow> 'v \<Rightarrow> goerror option \<times> 'v) \<Rightarrow> int \<Rightarrow> int \<Rightarrow> nat \<Rightarrow> int \<Rightarrow> 'v \<Rightarrow>
    goerror option \<times> 'v" where
  "txn_body ins worker sequence 0 member v = (None, v)"
| "txn_body ins worker sequence (Suc n) member v =
     (case ins (transaction_document worker sequence member) v of
        (Some err, v') \<Rightarrow> (Some err, v')
      | (None, v') \<Rightarrow> txn_body ins worker sequence n (member + 1) v')"

definition run_txn_body :: "(doc \<Rightarrow> 'v \<Rightarrow> goerror option \<times> 'v) \<Rightarrow> int \<Rightarrow> int \<Rightarrow> 'v \<Rightarrow>
    goerror option \<times> 'v" where
  "run_txn_body ins worker sequence v =
     txn_body ins worker sequence (nat transactionBatchSize) 0 v"

text \<open>The outcome slice: \<open>record\<close> grows it to the sequence, \<open>snapshot\<close> copies it to a fresh one.\<close>

definition no_kind :: OutcomeKind where
  "no_kind = OutcomeOther []"

definition txn_record :: "int \<Rightarrow> OutcomeKind \<Rightarrow> OutcomeKind list \<Rightarrow> OutcomeKind list" where
  "txn_record sequence kind outcomes =
     (grow no_kind (nat sequence) outcomes)[nat sequence := kind]"

definition txn_snapshot :: "int \<Rightarrow> OutcomeKind list \<Rightarrow> OutcomeKind list" where
  "txn_snapshot attempts outcomes =
     (let n = nat (attempts + 1) in
      take n outcomes @ replicate (n - length outcomes) no_kind)"

definition txn_outcome :: "driver \<Rightarrow> int \<Rightarrow> int \<Rightarrow> goerror option \<Rightarrow> Outcome" where
  "txn_outcome drv worker sequence err =
     (UpdateOutcome (drv_isNetworkError drv) \<lparr>wr_Matched = 1, wr_Modified = 1\<rparr> err)
       \<lparr>oc_Sequence := sequence, oc_Worker := worker\<rparr>"

definition txn_Execute :: "driver \<Rightarrow> int \<Rightarrow> int \<Rightarrow> goerror option \<Rightarrow> OutcomeKind list \<Rightarrow>
    Outcome \<times> OutcomeKind list" where
  "txn_Execute drv worker sequence err outcomes =
     (let outcome = txn_outcome drv worker sequence err in
      (outcome, txn_record sequence (oc_Kind outcome) outcomes))"

section \<open>Verification\<close>

record txn_counts =
  tc_storedByOperation :: "int list"
  tc_invalid :: int
  tc_stored :: int

text \<open>The test of one visited document: the operation it belongs to, or none.\<close>

definition document_operation :: "int \<Rightarrow> doc \<Rightarrow> int option" where
  "document_operation attempts document =
     (let (operation, operationOK) = numericInt64 (map_of document ''operation'');
          (member, memberOK) = numericInt64 (map_of document ''member'');
          identifier = map_of document ''_id''
      in if \<not> operationOK \<or> operation \<le> 0 \<or> operation > attempts \<or>
            \<not> memberOK \<or> member < 0 \<or> member \<ge> transactionBatchSize \<or>
            identifier \<noteq> Some (BString (transactionDocumentID operation member))
         then None else Some operation)"

definition visit_document :: "int \<Rightarrow> txn_counts \<Rightarrow> doc \<Rightarrow> txn_counts" where
  "visit_document attempts counts document =
     (let c = counts\<lparr>tc_stored := tc_stored counts + 1\<rparr> in
      case document_operation attempts document of
        None \<Rightarrow> c\<lparr>tc_invalid := tc_invalid c + 1\<rparr>
      | Some operation \<Rightarrow>
          c\<lparr>tc_storedByOperation := (tc_storedByOperation c)
             [nat operation := tc_storedByOperation c ! nat operation + 1]\<rparr>)"

definition count_documents :: "int \<Rightarrow> doc list \<Rightarrow> txn_counts" where
  "count_documents attempts documents =
     foldl (visit_document attempts)
       \<lparr>tc_storedByOperation = replicate (nat (attempts + 1)) 0, tc_invalid = 0, tc_stored = 0\<rparr>
       documents"

record txn_anomalies =
  ta_partialBatches :: int
  ta_missingAcknowledged :: int
  ta_storedUnacknowledged :: int
  ta_missingOutcomes :: int

definition classify_batch :: "txn_anomalies \<Rightarrow> int \<times> OutcomeKind \<Rightarrow> txn_anomalies" where
  "classify_batch a b =
     (let stored = fst b;
          a = (if stored \<noteq> 0 \<and> stored \<noteq> transactionBatchSize
               then a\<lparr>ta_partialBatches := ta_partialBatches a + 1\<rparr> else a)
      in case snd b of
           OutcomeMatched \<Rightarrow>
             (if stored \<noteq> transactionBatchSize
              then a\<lparr>ta_missingAcknowledged := ta_missingAcknowledged a + 1\<rparr> else a)
         | OutcomeRejected \<Rightarrow>
             (if stored \<noteq> 0
              then a\<lparr>ta_storedUnacknowledged := ta_storedUnacknowledged a + 1\<rparr> else a)
         | OutcomeIndeterminate \<Rightarrow>
             (if stored \<noteq> 0
              then a\<lparr>ta_storedUnacknowledged := ta_storedUnacknowledged a + 1\<rparr> else a)
         | _ \<Rightarrow> a\<lparr>ta_missingOutcomes := ta_missingOutcomes a + 1\<rparr>)"

definition classify_batches :: "int \<Rightarrow> int list \<Rightarrow> OutcomeKind list \<Rightarrow> txn_anomalies" where
  "classify_batches attempts stored outcomes =
     foldl classify_batch
       \<lparr>ta_partialBatches = 0, ta_missingAcknowledged = 0, ta_storedUnacknowledged = 0,
        ta_missingOutcomes = 0\<rparr>
       (map (\<lambda>sequence. (stored ! nat sequence, outcomes ! nat sequence)) [1..attempts])"

definition txn_checks :: "doc list \<Rightarrow> OutcomeKind list \<Rightarrow> LedgerSnapshot \<Rightarrow> Check list" where
  "txn_checks documents outcomes ledger =
     (let c = count_documents (Attempts ledger) documents;
          a = classify_batches (Attempts ledger) (tc_storedByOperation c)
                (txn_snapshot (Attempts ledger) outcomes);
          expectedDocuments = Matched ledger * transactionBatchSize
      in [check_of ''allTransactionsEventuallyCommit''
            (Matched ledger = Attempts ledger \<and> Rejected ledger = 0 \<and> Indeterminate ledger = 0)
            (''matched='' @ itoa (Matched ledger) @ '' attempts='' @ itoa (Attempts ledger) @
             '' rejected='' @ itoa (Rejected ledger) @
             '' indeterminate='' @ itoa (Indeterminate ledger)),
          check_of ''transactionBatchesAreAtomic'' (ta_partialBatches a = 0 \<and> tc_invalid c = 0)
            (''partialBatches='' @ itoa (ta_partialBatches a) @
             '' invalidDocuments='' @ itoa (tc_invalid c)),
          check_of ''acknowledgedTransactionsAreDurable''
            (ta_missingAcknowledged a = 0 \<and> tc_stored c = expectedDocuments)
            (''missingBatches='' @ itoa (ta_missingAcknowledged a) @
             '' storedDocuments='' @ itoa (tc_stored c) @
             '' expectedDocuments='' @ itoa expectedDocuments),
          check_of ''unacknowledgedTransactionsLeaveNoWrites''
            (ta_storedUnacknowledged a = 0 \<and> ta_missingOutcomes a = 0)
            (''storedBatches='' @ itoa (ta_storedUnacknowledged a) @
             '' missingOutcomes='' @ itoa (ta_missingOutcomes a))])"

definition txn_Verify :: "goerror + doc list \<Rightarrow> OutcomeKind list \<Rightarrow> LedgerSnapshot \<Rightarrow>
    goerror + Check list" where
  "txn_Verify visited outcomes ledger =
     (case visited of Inl err \<Rightarrow> Inl err
      | Inr documents \<Rightarrow> Inr (txn_checks (map bson_M documents) outcomes ledger))"

section \<open>Document identifiers\<close>

lemma itoa_pad_digits: "0 \<le> i \<Longrightarrow> c \<in> set (itoa_pad w i) \<Longrightarrow> is_digit c"
  by (auto simp: itoa_pad_def dest: pad0_digits)

lemma itoa_pad_inject: "0 \<le> i \<Longrightarrow> 0 \<le> j \<Longrightarrow> itoa_pad w i = itoa_pad w j \<longleftrightarrow> i = j"
proof -
  assume "0 \<le> i" "0 \<le> j"
  then have "itoa_pad w i = itoa_pad w j \<longleftrightarrow> pad0 w (ntoa (nat i)) = pad0 w (ntoa (nat j))"
    by (simp add: itoa_pad_def)
  also have "\<dots> \<longleftrightarrow> nat i = nat j" by (metis read_digits_pad0)
  finally show ?thesis using \<open>0 \<le> i\<close> \<open>0 \<le> j\<close> by (simp add: eq_nat_nat_iff)
qed

lemma count_foldl:
  "tc_stored (foldl (visit_document n) c ds) = tc_stored c + int (length ds) \<and>
   tc_invalid (foldl (visit_document n) c ds)
     = tc_invalid c + int (length (filter (\<lambda>d. document_operation n d = None) ds))"
  by (induction ds arbitrary: c) (auto simp: visit_document_def Let_def split: option.splits)

lemma document_operation_Some:
  "document_operation n d = Some q \<Longrightarrow> 1 \<le> q \<and> q \<le> n \<and>
     (\<exists>m \<in> {0, 1}. map_of d ''_id'' = Some (BString (transactionDocumentID q m)))"
proof -
  assume "document_operation n d = Some q"
  then have "\<exists>m. 1 \<le> q \<and> q \<le> n \<and> 0 \<le> m \<and> m < 2 \<and>
    map_of d ''_id'' = Some (BString (transactionDocumentID q m))"
    by (intro exI[of _ "fst (numericInt64 (map_of d ''member''))"])
      (auto simp: document_operation_def Let_def transactionBatchSize_def
        split: prod.splits if_splits)
  then obtain m where m: "1 \<le> q \<and> q \<le> n" "0 \<le> m" "m < 2"
    "map_of d ''_id'' = Some (BString (transactionDocumentID q m))" by blast
  from m(2,3) have "m \<in> {0, 1}" by auto
  with m show ?thesis by blast
qed

section \<open>Properties\<close>

text \<open>Transaction document identifiers are injective. Two identifiers of non-negative
  sequence and member numbers, of whatever width, agree only if sequence and member agree; so
  distinct operations never collide on \<open>_id\<close>, beyond the padded widths too.\<close>

theorem transactionDocumentID_injective:
  assumes "0 \<le> sequence" "0 \<le> sequence'" "0 \<le> member" "0 \<le> member'"
  shows "transactionDocumentID sequence member = transactionDocumentID sequence' member'
    \<longleftrightarrow> sequence = sequence' \<and> member = member'"
proof
  assume "transactionDocumentID sequence member = transactionDocumentID sequence' member'"
  then have "itoa_pad 20 sequence @ CHR ''-'' # itoa_pad 2 member
      = itoa_pad 20 sequence' @ CHR ''-'' # itoa_pad 2 member'"
    by (simp add: transactionDocumentID_def)
  then have "itoa_pad 20 sequence = itoa_pad 20 sequence' \<and> itoa_pad 2 member = itoa_pad 2 member'"
    by (intro split_at_dash) (use assms itoa_pad_digits in blast)+
  then show "sequence = sequence' \<and> member = member'" using assms itoa_pad_inject by blast
qed simp

lemma transactionDocumentID_injective_witness:
  "transactionDocumentID 12 0 \<noteq> transactionDocumentID 1 20"
  using transactionDocumentID_injective[of 12 1 0 20] by simp

text \<open>C13: What a passing transaction verification proves. If the visited documents have distinct
  \<open>_id\<close>s, as a collection guarantees, and all four checks pass, then every attempt committed and
  the stored identifiers are exactly those of both members of operations \<open>1 .. attempts\<close>: no
  batch is partial, none is missing and nothing else was written.\<close>

theorem txn_checks_sound:
  assumes ids: "distinct (map (\<lambda>d. map_of d ''_id'') documents)"
    and pass: "ChecksPassed (txn_checks documents outcomes ledger)" and att: "0 \<le> Attempts ledger"
  shows "Matched ledger = Attempts ledger \<and>
    (\<lambda>d. map_of d ''_id'') ` set documents
      = {Some (BString (transactionDocumentID q m)) | q m. q \<in> {1..Attempts ledger} \<and> m \<in> {0, 1}}"
proof -
  let ?n = "Attempts ledger" and ?id = "\<lambda>d. map_of d ''_id''"
  let ?f = "\<lambda>(q, m). Some (BString (transactionDocumentID q m))"
  let ?S = "?f ` ({1..?n} \<times> {0, 1})"
  have cnt: "int (length documents) = 2 * ?n" "\<forall>d \<in> set documents. document_operation ?n d \<noteq> None"
    and all: "Matched ledger = ?n"
    using pass count_foldl[of ?n _ documents]
    by (auto simp: txn_checks_def Let_def count_documents_def transactionBatchSize_def
        filter_empty_conv)
  have sub: "?id ` set documents \<subseteq> ?S"
    using cnt(2) document_operation_Some[of ?n] by fastforce
  have "card ?S \<le> card ({1..?n} \<times> {0, 1 :: int})" by (rule card_image_le) simp
  also have "\<dots> = length documents" using cnt(1) att by (simp add: card_cartesian_product)
  also have "\<dots> = card (?id ` set documents)" using distinct_card[OF ids] by simp
  finally have "?id ` set documents = ?S" using sub by (intro card_seteq) simp_all
  also have "?S = {Some (BString (transactionDocumentID q m)) | q m. q \<in> {1..?n} \<and> m \<in> {0, 1}}"
    by (auto simp: image_iff) blast+
  finally show ?thesis using all by simp
qed

definition demo_txn_ledger :: LedgerSnapshot where
  "demo_txn_ledger = Snapshot (ledger_run [((outcome_of OutcomeMatched)\<lparr>oc_Modified := True\<rparr>, 5)])"

lemma txn_checks_sound_witness:
  "(\<lambda>d. map_of d ''_id'') ` set [transaction_document 0 1 1, transaction_document 0 1 0]
     = {Some (BString (transactionDocumentID q m)) | q m. q \<in> {1..1} \<and> m \<in> {0, 1}}"
proof -
  let ?ds = "[transaction_document 0 1 1, transaction_document 0 1 0]"
  have "distinct (map (\<lambda>d. map_of d ''_id'') ?ds)" by code_simp
  moreover have "ChecksPassed (txn_checks ?ds [no_kind, OutcomeMatched] demo_txn_ledger)" by code_simp
  moreover have a: "Attempts demo_txn_ledger = 1" by code_simp
  ultimately show ?thesis using txn_checks_sound[of ?ds "[no_kind, OutcomeMatched]" demo_txn_ledger]
    unfolding a by simp
qed

end
