(* ===== verification/Lifecycle.thy ===== *)
theory Lifecycle
  imports RunnerFacts TxnScenario MergeMatrix
begin

text \<open>
  One lifecycle run: choosing the scenario (src/concurrency/scenario.go), the guards before the
  workload, what is made of the workers' final state, the verdict and the exit code
  (src/concurrency/runner.go, report.go, src/cmd/concurrency/main.go). Times are nanoseconds;
  the zero \<open>time.Time\<close> is \<open>None\<close>. The target (driver) is a record of the results its calls give.
\<close>

section \<open>Choosing the scenario\<close>

datatype Scenario =
    CasScenario string int duration string
  | UuidCASScenario string int duration string
  | BlindIncrementScenario string string
  | DisjointSetScenario int string
  | SameFieldSetScenario string
  | IdenticalSetScenario string
  | DivergentCASScenario string int duration string
  | TransactionCommitRaceScenario
  | WholeDocumentCASScenario string string int duration bool
  | MergeMatrixScenario mergeMatrixDefinition mergeMatrixRow string

datatype scenario_error =
    WorkersMustBePositive
  | PayloadNegative
  | CASDelayNegative
  | MatrixError matrix_lookup
  | RequiresMergeMode string string
  | UnknownScenario string

definition newScenario :: "string \<Rightarrow> int \<Rightarrow> int \<Rightarrow> int \<Rightarrow> duration \<Rightarrow> string \<Rightarrow>
    scenario_error + Scenario" where
  "newScenario name workers payloadBytes seed casDelay mergeMode =
     (if workers \<le> 0 then Inl WorkersMustBePositive
      else if payloadBytes < 0 then Inl PayloadNegative
      else if casDelay < 0 then Inl CASDelayNegative
      else let payload = makePayload payloadBytes in
      case newMergeMatrixScenario name mergeMode of
        MatrixScenario d row \<Rightarrow> Inr (MergeMatrixScenario d row payload)
      | ModeRequired m \<Rightarrow> Inl (MatrixError (ModeRequired m))
      | ModeMismatch m m' \<Rightarrow> Inl (MatrixError (ModeMismatch m m'))
      | UnknownRow m r \<Rightarrow> Inl (MatrixError (UnknownRow m r))
      | NotMatrix \<Rightarrow>
          if name = ''cas'' then Inr (CasScenario payload seed casDelay mergeMode)
          else if name = ''uuid-cas'' then Inr (UuidCASScenario payload seed casDelay mergeMode)
          else if name = ''blind-inc'' then Inr (BlindIncrementScenario payload mergeMode)
          else if name = ''disjoint-set'' then Inr (DisjointSetScenario workers payload)
          else if name = ''same-set'' then Inr (SameFieldSetScenario payload)
          else if name = ''identical-set'' then Inr (IdenticalSetScenario payload)
          else if name = ''divergent-cas''
          then Inr (DivergentCASScenario payload seed casDelay mergeMode)
          else if name = ''txn-commit-race'' then Inr TransactionCommitRaceScenario
          else if name = ''whole-document-convergent'' \<or> name = ''whole-document-divergent''
          then (if mergeMode \<noteq> MergeModeDocumentDivergent
                then Inl (RequiresMergeMode name MergeModeDocumentDivergent)
                else Inr (WholeDocumentCASScenario name payload seed casDelay
                            (name = ''whole-document-divergent'')))
          else Inl (UnknownScenario name))"

fun scenario_Name :: "Scenario \<Rightarrow> string" where
  "scenario_Name (CasScenario p s d m) = ''cas''"
| "scenario_Name (UuidCASScenario p s d m) = ''uuid-cas''"
| "scenario_Name (BlindIncrementScenario p m) = ''blind-inc''"
| "scenario_Name (DisjointSetScenario w p) = ''disjoint-set''"
| "scenario_Name (SameFieldSetScenario p) = ''same-set''"
| "scenario_Name (IdenticalSetScenario p) = ''identical-set''"
| "scenario_Name (DivergentCASScenario p s d m) = ''divergent-cas''"
| "scenario_Name TransactionCommitRaceScenario = ''txn-commit-race''"
| "scenario_Name (WholeDocumentCASScenario name p s d b) = name"
| "scenario_Name (MergeMatrixScenario d row p) = matrix_Name d row"

definition scenarioLatencyScope :: "string \<Rightarrow> string" where
  "scenarioLatencyScope name =
     (if name = ''txn-commit-race'' then ''transaction''
      else if name = ''cas'' \<or> name = ''uuid-cas'' \<or> name = ''divergent-cas'' \<or>
              name = ''whole-document-convergent'' \<or> name = ''whole-document-divergent''
      then ''read-and-update'' else ''update'')"

section \<open>The result of a run\<close>

record LifecycleResult =
  lr_Product :: string
  lr_Version :: string
  lr_Revision :: string
  lr_Scenario :: string
  lr_MergeMode :: string
  lr_LatencyScope :: string
  lr_WorkloadStartedAt :: int
  lr_WorkloadFinishedAt :: int
  lr_FirstMatchedAt :: "int option"
  lr_LastMatchedAt :: "int option"
  lr_Ledger :: LedgerSnapshot
  lr_Checks :: "Check list"
  lr_Truncated :: bool
  lr_StopReason :: string
  lr_RunError :: string
  lr_hasTarget :: bool
  lr_database :: string
  lr_keepData :: bool

definition empty_result :: LifecycleResult where
  "empty_result = \<lparr>lr_Product = [], lr_Version = [], lr_Revision = [], lr_Scenario = [],
     lr_MergeMode = [], lr_LatencyScope = [], lr_WorkloadStartedAt = 0,
     lr_WorkloadFinishedAt = 0, lr_FirstMatchedAt = None, lr_LastMatchedAt = None,
     lr_Ledger = Snapshot new_ledger, lr_Checks = [], lr_Truncated = False, lr_StopReason = [],
     lr_RunError = [], lr_hasTarget = False, lr_database = [], lr_keepData = False\<rparr>"

definition lifecycleFailure ::
    "LifecycleResult \<Rightarrow> goerror \<Rightarrow> LifecycleResult \<times> goerror option" where
  "lifecycleFailure result err = (result\<lparr>lr_RunError := error_text err\<rparr>, Some err)"

section \<open>Before the workload\<close>

record ServerInfo =
  si_Product :: string
  si_Version :: string
  si_Revision :: string

definition productFromBuildInfo :: "bval option \<Rightarrow> string" where
  "productFromBuildInfo engines =
     (case engines of
        Some (BArr es) \<Rightarrow> (if BString ''dolt'' \<in> set es then ''DumboDB'' else ''MongoDB'')
      | _ \<Rightarrow> ''MongoDB'')"

definition string_field :: "doc \<Rightarrow> string \<Rightarrow> string" where
  "string_field d name = (case map_of d name of Some (BString s) \<Rightarrow> s | _ \<Rightarrow> [])"

definition mongo_Identity :: "goerror + doc \<Rightarrow> goerror + ServerInfo" where
  "mongo_Identity reply =
     (case reply of
        Inl err \<Rightarrow> Inl (ErrWrap ''buildInfo: '' err)
      | Inr response \<Rightarrow>
          (let version = string_field response ''version'' in
           if version = [] then Inl (ErrText ''buildInfo did not return a version'')
           else Inr \<lparr>si_Product = productFromBuildInfo (map_of response ''storageEngines''),
                     si_Version = version,
                     si_Revision = string_field response ''gitVersion''\<rparr>))"

text \<open>The calls of RunWithFixture before the workers start, by their results; the flags say which
  interface arguments are nil, and whether the fixture gave a collection.\<close>

record run_inputs =
  ri_Config :: Config
  ri_config_text :: "config_error \<Rightarrow> string"
  ri_scenario_given :: bool
  ri_target_given :: bool
  ri_fixture_given :: bool
  ri_Ping :: "goerror option"
  ri_Identity :: "goerror + ServerInfo"
  ri_CreateCollection :: "goerror + bool"
  ri_Setup :: "goerror option"

datatype run_phase =
    RefusedEarly goerror bool   \<comment> \<open>an empty result; was the target disconnected?\<close>
  | FailedEarly LifecycleResult goerror
  | ReadyToRun LifecycleResult

definition fresh_result :: "Config \<Rightarrow> string \<Rightarrow> ServerInfo \<Rightarrow> LifecycleResult" where
  "fresh_result cfg name identity = empty_result\<lparr>lr_Product := si_Product identity,
     lr_Version := si_Version identity, lr_Revision := si_Revision identity,
     lr_Scenario := name, lr_MergeMode := cfg_MergeMode cfg,
     lr_LatencyScope := scenarioLatencyScope name, lr_hasTarget := True,
     lr_database := cfg_Database cfg, lr_keepData := cfg_KeepData cfg\<rparr>"

definition run_preflight :: "string \<Rightarrow> run_inputs \<Rightarrow> run_phase" where
  "run_preflight name i =
     (let cfg = ri_Config i in
      case config_Validate cfg of Some e \<Rightarrow> RefusedEarly (ErrText (ri_config_text i e)) False
      | None \<Rightarrow>
      if \<not> ri_scenario_given i then RefusedEarly (ErrText ''scenario is required'') False
      else if \<not> ri_target_given i then RefusedEarly (ErrText ''target is required'') False
      else if \<not> ri_fixture_given i then RefusedEarly (ErrText ''fixture is required'') False
      else case ri_Ping i of Some err \<Rightarrow> RefusedEarly (ErrWrap ''ping: '' err) True
      | None \<Rightarrow>
      case ri_Identity i of Inl err \<Rightarrow> RefusedEarly err True
      | Inr identity \<Rightarrow>
      if cfg_MergeMode cfg \<noteq> [] \<and> si_Product identity \<noteq> ''DumboDB''
      then RefusedEarly (ErrText (''merge mode requires DumboDB, got '' @ si_Product identity)) True
      else
        let result = fresh_result cfg name identity in
        case ri_CreateCollection i of
          Inl err \<Rightarrow> (case lifecycleFailure result (ErrWrap ''create fixture: '' err) of
                       (r, e) \<Rightarrow> FailedEarly r (the e))
        | Inr given \<Rightarrow>
            if \<not> given
            then (case lifecycleFailure result
                         (ErrText ''create fixture: collection is required'') of
                    (r, e) \<Rightarrow> FailedEarly r (the e))
            else case ri_Setup i of
                   Some err \<Rightarrow>
                     (case lifecycleFailure result (ErrWrap (''setup '' @ name @ '': '') err) of
                        (r, e) \<Rightarrow> FailedEarly r (the e))
                 | None \<Rightarrow> ReadyToRun result)"

section \<open>After the workload\<close>

text \<open>
  \<open>time.Time.Sub\<close> of Go's library: saturating at the ends of a 64-bit duration. The zero time is
  two millennia before any time of a run, further than a duration reaches.
\<close>

fun time_sub :: "int option \<Rightarrow> int option \<Rightarrow> duration" where
  "time_sub (Some a) (Some b) = max (- (2 ^ 63)) (min (2 ^ 63 - 1) (a - b))"
| "time_sub (Some a) None = 2 ^ 63 - 1"
| "time_sub None (Some b) = - (2 ^ 63)"
| "time_sub None None = 0"

definition hotDocumentProgressChecks :: "(duration \<Rightarrow> string) \<Rightarrow> LifecycleResult \<Rightarrow> Check list" where
  "hotDocumentProgressChecks dtoa result =
     (if lr_MergeMode result \<noteq> MergeModeDocumentTouched \<or>
         (lr_Scenario result \<noteq> ''blind-inc'' \<and> lr_Scenario result \<noteq> ''identical-set'')
      then []
      else let elapsed = time_sub (Some (lr_WorkloadFinishedAt result))
                                  (Some (lr_WorkloadStartedAt result));
               tolerance = (if elapsed < 5 * second then elapsed else 5 * second);
               lastLag = time_sub (Some (lr_WorkloadFinishedAt result)) (lr_LastMatchedAt result);
               matchSpan = time_sub (lr_LastMatchedAt result) (lr_FirstMatchedAt result)
           in [check_of ''hotDocumentMakesProgressThroughRun''
                 (lr_FirstMatchedAt result \<noteq> None \<and> lr_LastMatchedAt result \<noteq> None \<and>
                  lastLag \<le> tolerance \<and> matchSpan + tolerance \<ge> elapsed)
                 (''duration='' @ dtoa elapsed @ '' matchSpan='' @ dtoa matchSpan @
                  '' lastMatchLag='' @ dtoa lastLag)])"

definition nonzero_time :: "int \<Rightarrow> int option" where
  "nonzero_time t = (if t \<noteq> 0 then Some t else None)"

text \<open>
  From the workers' shared state to the result. \<open>verify\<close> is what the scenario's Verify returns
  on the snapshot; \<open>ledger_text\<close> prints a ledger error, \<open>dtoa\<close> a duration.
\<close>

definition run_finish :: "(ledger_error \<Rightarrow> string) \<Rightarrow> (duration \<Rightarrow> string) \<Rightarrow> LifecycleResult \<Rightarrow>
    int \<Rightarrow> int \<Rightarrow> 'v shared \<Rightarrow> (LedgerSnapshot \<Rightarrow> goerror + Check list) \<Rightarrow>
    LifecycleResult \<times> goerror option" where
  "run_finish ledger_text dtoa result0 startedAt finishedAt sh verify =
     (let result = result0\<lparr>lr_WorkloadStartedAt := startedAt, lr_WorkloadFinishedAt := finishedAt,
            lr_FirstMatchedAt := nonzero_time (rs_first sh),
            lr_LastMatchedAt := nonzero_time (rs_last sh),
            lr_Truncated := rs_ctx sh \<noteq> None,
            lr_StopReason := (case rs_ctx sh of None \<Rightarrow> [] | Some e \<Rightarrow> error_text e)\<rparr> in
      case rs_recordErr sh of
        Some (seq, e) \<Rightarrow>
          lifecycleFailure result
            (ErrText (''record operation '' @ itoa seq @ '': '' @ ledger_text e))
      | None \<Rightarrow>
          let result = result\<lparr>lr_Ledger := Snapshot (rs_ledger sh)\<rparr>; reserved = rs_issued sh in
          if reserved \<noteq> Attempts (lr_Ledger result)
          then lifecycleFailure result
                 (ErrText (''reserved operations '' @ itoa reserved @ '' != recorded attempts '' @
                           itoa (Attempts (lr_Ledger result))))
          else case ledger_Validate (lr_Ledger result) of
                 Some e \<Rightarrow> lifecycleFailure result (ErrText (ledger_text e))
               | None \<Rightarrow>
                   case verify (lr_Ledger result) of
                     Inl err \<Rightarrow> lifecycleFailure result
                       (ErrWrap (''verify '' @ lr_Scenario result @ '': '') err)
                   | Inr checks \<Rightarrow>
                       (result\<lparr>lr_Checks := checks @ hotDocumentProgressChecks dtoa result\<rparr>, None))"

text \<open>\<open>Finalize\<close>: what it does to the target, and its result.\<close>

definition Finalize :: "bool \<Rightarrow> goerror option \<Rightarrow> goerror option \<Rightarrow> LifecycleResult \<Rightarrow>
    (string list \<times> goerror option) \<times> LifecycleResult" where
  "Finalize preserve dropErr disconnectErr r =
     (if \<not> lr_hasTarget r then (([], None), r)
      else let drops = \<not> preserve \<and> \<not> lr_keepData r;
               dropErr = (if drops then dropErr else None);
               calls = (if drops then [''DropDatabase '' @ lr_database r] else []) @ [''Disconnect'']
           in ((calls, if dropErr \<noteq> None then dropErr else disconnectErr), r\<lparr>lr_hasTarget := False\<rparr>))"

section \<open>Verdict and exit code\<close>

datatype Verdict = VerdictConclusivePass | VerdictInconclusive | VerdictFailed

definition lifecycle_Verdict :: "LifecycleResult \<Rightarrow> Verdict" where
  "lifecycle_Verdict r =
     (if lr_RunError r \<noteq> [] \<or> ledger_Validate (lr_Ledger r) \<noteq> None \<or> length (lr_Checks r) = 0 \<or>
         \<not> ChecksPassed (lr_Checks r) then VerdictFailed
      else if lr_Truncated r \<or> Indeterminate (lr_Ledger r) > 0 then VerdictInconclusive
      else VerdictConclusivePass)"

definition lifecycle_Passed :: "LifecycleResult \<Rightarrow> bool" where
  "lifecycle_Passed r \<longleftrightarrow> lifecycle_Verdict r = VerdictConclusivePass"

definition resultExitCode :: "LifecycleResult \<Rightarrow> goerror option \<Rightarrow> int" where
  "resultExitCode r runErr =
     (if runErr \<noteq> None \<or> lifecycle_Verdict r = VerdictFailed then 1
      else if lifecycle_Verdict r = VerdictInconclusive then 3 else 0)"

definition preserve_data :: "Config \<Rightarrow> LifecycleResult \<Rightarrow> goerror option \<Rightarrow> bool" where
  "preserve_data cfg r runErr \<longleftrightarrow>
     cfg_KeepData cfg \<or> lr_Truncated r \<or> runErr \<noteq> None \<or>
     lifecycle_Verdict r \<noteq> VerdictConclusivePass"

section \<open>Properties\<close>

definition names_it :: "string \<Rightarrow> scenario_error + Scenario \<Rightarrow> bool" where
  "names_it name r \<longleftrightarrow> (case r of Inl e \<Rightarrow> True | Inr s \<Rightarrow> scenario_Name s = name)"

lemma names_it_if: "(c \<Longrightarrow> names_it name a) \<Longrightarrow> (\<not> c \<Longrightarrow> names_it name b) \<Longrightarrow>
    names_it name (if c then a else b)"
  by simp

lemma names_it_lookup:
  assumes "m = NotMatrix \<Longrightarrow> names_it name a"
    and "\<And>d row. m = MatrixScenario d row \<Longrightarrow> matrix_Name d row = name"
  shows "names_it name (case m of NotMatrix \<Rightarrow> a | ModeRequired x \<Rightarrow> Inl (e1 x)
    | ModeMismatch x y \<Rightarrow> Inl (e2 x y) | UnknownRow x y \<Rightarrow> Inl (e3 x y)
    | MatrixScenario d row \<Rightarrow> Inr (MergeMatrixScenario d row p))"
  using assms by (cases m) (auto simp: names_it_def)

text \<open>The name of a constructed scenario is the requested name, matrix rows included, so
  the report, the latency scope and the progress check speak of the workload that ran.\<close>

theorem newScenario_name:
  "case newScenario name workers payloadBytes seed casDelay mergeMode of
     Inl e \<Rightarrow> True | Inr s \<Rightarrow> scenario_Name s = name"
proof -
  have matrix: "matrix_Name d row = name" if "newMergeMatrixScenario name mergeMode = MatrixScenario d row" for d row
  proof -
    from that have d: "find (\<lambda>d. prefix (def_Prefix d) name) mergeMatrixDefinitions = Some d"
      and r: "find (\<lambda>row. row_Name row = drop (length (def_Prefix d)) name) (def_Rows d) = Some row"
      by (auto simp: newMergeMatrixScenario_def mergeMatrixDefinitionForName_def Let_def
          split: option.splits if_splits)
    from d have "prefix (def_Prefix d) name" by (auto simp: find_Some_iff)
    moreover from r have "row_Name row = drop (length (def_Prefix d)) name"
      by (auto simp: find_Some_iff)
    ultimately show ?thesis by (auto simp: matrix_Name_def prefix_def)
  qed
  have names: "names_it name (newScenario name workers payloadBytes seed casDelay mergeMode)"
    unfolding newScenario_def Let_def
    by (intro names_it_if names_it_lookup matrix) (simp_all add: names_it_def)
  then show ?thesis by (simp add: names_it_def)
qed

text \<open>When the command reports success. If a lifecycle run exits with code 0, then no run
  error occurred, the run was not truncated, no attempt was indeterminate, every reserved
  operation was recorded, there is at least one check and every check that was not skipped
  passed; with code 3 the only doubt is truncation or an indeterminate attempt; and the run's
  database is dropped only in the first case.\<close>

theorem exit_code_meaning:
  "let (r, err) = run_finish ledger_text dtoa r0 t0 t1 sh verify; code = resultExitCode r err in
     (code = 0 \<longleftrightarrow> err = None \<and> lr_RunError r = [] \<and> ledger_Validate (lr_Ledger r) = None \<and>
        lr_Checks r \<noteq> [] \<and> list_all (\<lambda>c. ck_Skipped c \<or> ck_Passed c) (lr_Checks r) \<and>
        rs_ctx sh = None \<and> Indeterminate (lr_Ledger r) \<le> 0) \<and>
     (code = 1 \<or> lr_Ledger r = Snapshot (rs_ledger sh) \<and>
        rs_issued sh = Attempts (Snapshot (rs_ledger sh))) \<and>
     code \<in> {0, 1, 3} \<and>
     (preserve_data cfg r err \<or> code = 0)"
proof -
  obtain r err where eq: "run_finish ledger_text dtoa r0 t0 t1 sh verify = (r, err)" by fastforce
  have trunc: "lr_Truncated r \<longleftrightarrow> rs_ctx sh \<noteq> None"
    using eq by (auto simp: run_finish_def lifecycleFailure_def Let_def split: option.splits
        sum.splits if_splits prod.splits)
  have ok: "err = None \<Longrightarrow> lr_Ledger r = Snapshot (rs_ledger sh) \<and>
      rs_issued sh = Attempts (Snapshot (rs_ledger sh))"
    using eq by (auto simp: run_finish_def lifecycleFailure_def Let_def split: option.splits
        sum.splits if_splits prod.splits)
  show ?thesis
    unfolding eq Let_def prod.case
    using trunc ok by (auto simp: resultExitCode_def lifecycle_Verdict_def ChecksPassed_iff
        list_all_iff preserve_data_def)
qed

text \<open>Finalizing is idempotent and drops at most once: after the first call no further call
  reaches the target, whatever its arguments.\<close>

theorem Finalize_once:
  "fst (Finalize p2 d2 c2 (snd (Finalize p1 d1 c1 r))) = ([], None) \<and>
   length (fst (fst (Finalize p1 d1 c1 r))) \<le> 2"
  by (simp add: Finalize_def Let_def)

end
