(* ===== verification/CompareFacts.thy ===== *)
theory CompareFacts
  imports Compare
begin

text \<open>
  What a comparison promises. Normalised values are well formed (maps have distinct keys, no
  not-a-number survives); on them \<open>reflect.DeepEqual\<close> is an equivalence that ignores the order of
  map entries, and harmonising a value with itself changes nothing.
\<close>

primrec nwf :: "nval \<Rightarrow> bool" where
  "nwf NNil = True"
| "nwf (NMap m) = (distinct (map fst m) \<and> list_all snd (map (map_prod id nwf) m))"
| "nwf (NArr xs) = list_all id (map nwf xs)"
| "nwf (NString s) = True"
| "nwf (NBinary t b) = True"
| "nwf (NDateTime t) = True"
| "nwf (NInt32 n) = True"
| "nwf (NInt64 n) = True"
| "nwf (NDouble f) = (f \<noteq> FNaN)"
| "nwf NNegativeZero = True"
| "nwf (NBool b) = True"

lemma nwf_map: "nwf (NMap m) \<longleftrightarrow> distinct (map fst m) \<and> (\<forall>(k, v) \<in> set m. nwf v)"
  by (auto simp: list_all_iff)

lemma nwf_arr: "nwf (NArr xs) \<longleftrightarrow> (\<forall>x \<in> set xs. nwf x)"
  by (auto simp: list_all_iff)

text \<open>The two recursive clauses of deep equality, in terms of lookups.\<close>

lemma nequal_map:
  "nequal (NMap a) (NMap b) \<longleftrightarrow> length a = length b \<and>
     (\<forall>(k, v) \<in> set a. \<exists>w. map_of b k = Some w \<and> nequal v w)"
  by (fastforce simp: list_all_iff split: option.splits)

lemma nequal_arr:
  "nequal (NArr xs) (NArr ys) \<longleftrightarrow> length xs = length ys \<and> (\<forall>i < length xs. nequal (xs ! i) (ys ! i))"
  by (auto simp: list_all_length)

declare nequal.simps(2,3) [simp del] nwf.simps(2,3) [simp del]

lemma float_eq_refl: "f \<noteq> FNaN \<Longrightarrow> float_eq f f"
  by (cases f) auto

lemma nequal_refl: "nwf v \<Longrightarrow> nequal v v"
proof (induction v)
  case (NMap m)
  then have d: "distinct (map fst m)" and wf: "\<forall>(k, v) \<in> set m. nwf v" by (simp_all add: nwf_map)
  have "nequal v v" if "(k, v) \<in> set m" for k v
    using NMap.IH[of "(k, v)" v] that wf by auto
  with d show ?case by (auto simp: nequal_map)
next
  case (NArr xs)
  then show ?case by (auto simp: nequal_arr nwf_arr)
qed (simp_all add: float_eq_refl)

subsection \<open>Normalisation\<close>

definition masked :: "string \<times> nval \<Rightarrow> string \<times> nval" where
  "masked p = (fst p, if ignoredField (fst p) then ignoredValueSentinel else snd p)"

lemma fold_update_map:
  "map_of (fold (\<lambda>(k, x) m. AList.update k (g k x) m) fs m0)
     = map_of m0 ++ map_of (rev (map (\<lambda>(k, x). (k, g k x)) fs))"
  by (induction fs arbitrary: m0) (auto simp: update_conv' map_add_def fun_eq_iff split: option.splits)

lemma fold_update_distinct:
  "distinct (map fst m0) \<Longrightarrow>
     distinct (map fst (fold (\<lambda>(k, x) m. AList.update k (g k x) m) fs m0))"
  by (induction fs arbitrary: m0) (auto intro: distinct_update)

lemma fold_update_new:
  assumes "distinct (map fst fs)" "\<forall>k \<in> fst ` set fs. k \<notin> fst ` set m0"
  shows "fold (\<lambda>(k, x) m. AList.update k (g k x) m) fs m0 = m0 @ map (\<lambda>(k, x). (k, g k x)) fs"
proof -
  have upd: "k \<notin> fst ` set m \<Longrightarrow> AList.update k x m = m @ [(k, x)]"
    for k :: 'a and x :: 'c and m
    by (induction m) auto
  show ?thesis using assms
  proof (induction fs arbitrary: m0)
    case (Cons p fs)
    obtain k x where p: "p = (k, x)" by fastforce
    have u: "AList.update k (g k x) m0 = m0 @ [(k, g k x)]"
      using Cons.prems p by (intro upd) auto
    have "fold (\<lambda>(k, x) m. AList.update k (g k x) m) fs (m0 @ [(k, g k x)])
        = (m0 @ [(k, g k x)]) @ map (\<lambda>(k, x). (k, g k x)) fs"
      using Cons.prems p by (intro Cons.IH) auto
    with p u show ?case by simp
  qed simp
qed

lemma make_map_distinct:
  assumes "distinct (map fst fs)"
  shows "make_map fs = NMap (map masked fs)"
  using fold_update_new[OF assms, of "[]" "\<lambda>k x. if ignoredField k then ignoredValueSentinel else x"]
  by (simp add: make_map_def masked_def case_prod_beta)

lemma make_map_wf:
  assumes "\<forall>(k, v) \<in> set fs. nwf v"
  shows "nwf (make_map fs)"
proof -
  let ?g = "\<lambda>k x. if ignoredField k then ignoredValueSentinel else x"
  let ?m = "fold (\<lambda>(k, x) m. AList.update k (?g k x) m) fs []"
  have d: "distinct (map fst ?m)" by (rule fold_update_distinct) simp
  have "nwf v" if "(k, v) \<in> set ?m" for k v
  proof -
    have "map_of ?m k = Some v" using d that by simp
    then have "(k, v) \<in> set (map (\<lambda>(k, x). (k, ?g k x)) fs)"
      unfolding fold_update_map by (auto dest: map_of_SomeD)
    with assms show ?thesis by (auto simp: ignoredValueSentinel_def)
  qed
  with d show ?thesis unfolding make_map_def nwf_map by blast
qed

lemma normalize_wf: "nwf (normalize v)"
proof (induction v)
  case (VPtr p)
  then show ?case by (cases p) auto
next
  case (VDoc d)
  have "nwf (normalize v)" if "(k, v) \<in> set d" for k v
    using VDoc[of "(k, v)" v] that by auto
  then have "nwf (make_map (map (map_prod id normalize) d))"
    by (intro make_map_wf) auto
  then show ?case by simp
next
  case (VMap d)
  have "nwf (normalize v)" if "(k, v) \<in> set d" for k v
    using VMap[of "(k, v)" v] that by auto
  then have "nwf (make_map (map (map_prod id normalize) d))"
    by (intro make_map_wf) auto
  then show ?case by simp
next
  case (VArr xs)
  then show ?case by (simp add: nwf_arr)
next
  case (VFloat64 f)
  then show ?case by (auto simp: normalize_float64_def split: float64.splits bool.splits)
next
  case (VOther shown d)
  show ?case
  proof (cases d)
    case (Some fs)
    have "nwf (normalize v)" if "(k, v) \<in> set fs" for k v
      using VOther[of fs "(k, v)" v] that Some by auto
    then have "nwf (make_map (map (map_prod id normalize) fs))"
      by (intro make_map_wf) auto
    with Some show ?thesis by simp
  qed simp
qed (auto)

lemma update_same: "map_of m k = Some v \<Longrightarrow> distinct (map fst m) \<Longrightarrow> AList.update k v m = m"
  by (induction m) (auto simp: image_iff dest: map_of_SomeD)

lemma harmonize_entry_same:
  "distinct (map fst m) \<Longrightarrow> harmonize_entry m m = m"
  by (auto simp: harmonize_entry_def update_same split: option.splits)

lemma harmonize_same: "nwf v \<Longrightarrow> harmonizeMillis v v = v"
proof (induction v)
  case (NMap m)
  then have d: "distinct (map fst m)" and wf: "\<forall>(k, v) \<in> set m. nwf v" by (simp_all add: nwf_map)
  have "(case map_of (map (map_prod id harmonizeMillis) m) k of None \<Rightarrow> w | Some walk \<Rightarrow> walk w) = w"
    if "(k, w) \<in> set m" for k w
  proof -
    have "map_of (map (map_prod id harmonizeMillis) m) k = Some (harmonizeMillis w)"
      using d that by (intro map_of_is_SomeI) (force simp: map_prod_def case_prod_beta o_def)+
    moreover have "harmonizeMillis w w = w" using NMap.IH[of "(k, w)" w] that wf by auto
    ultimately show ?thesis by simp
  qed
  then show ?case
    by (simp add: harmonize_entry_same[OF d] Let_def, intro map_idI) auto
next
  case (NArr xs)
  then have "map (\<lambda>(walk, w). walk w) (zip (map harmonizeMillis xs) xs) = xs"
    by (auto simp: nwf_arr intro!: nth_equalityI)
  then show ?case by simp
qed simp_all

text \<open>Two maps with the same entries, in any order.\<close>

lemma same_entries:
  assumes a: "nwf (NMap a)" and b: "nwf (NMap b)" and eq: "map_of a = map_of b"
  shows "harmonizeMillis (NMap a) (NMap b) = NMap b \<and> nequal (NMap a) (NMap b)"
proof -
  have da: "distinct (map fst a)" and db: "distinct (map fst b)"
    and wa: "\<forall>(k, v) \<in> set a. nwf v" using a b by (simp_all add: nwf_map)
  have entry: "harmonize_entry a b = b"
    using eq by (auto simp: harmonize_entry_def update_same[OF _ db] split: option.splits)
  have mem: "(k, w) \<in> set a" if "(k, w) \<in> set b" for k w
    using that eq db by (metis map_of_SomeD map_of_is_SomeI)
  have walk: "(case map_of (map (map_prod id harmonizeMillis) a) k of None \<Rightarrow> w | Some walk \<Rightarrow> walk w) = w"
    if "(k, w) \<in> set b" for k w
  proof -
    have "map_of (map (map_prod id harmonizeMillis) a) k = Some (harmonizeMillis w)"
      using da mem[OF that]
      by (intro map_of_is_SomeI) (force simp: map_prod_def case_prod_beta o_def)+
    moreover have "harmonizeMillis w w = w" using wa mem[OF that] by (auto intro: harmonize_same)
    ultimately show ?thesis by simp
  qed
  have h: "harmonizeMillis (NMap a) (NMap b) = NMap b"
    using walk by (simp add: entry Let_def, intro map_idI) auto
  have "fst ` set a = fst ` set b" using eq by (metis dom_map_of_conv_image_fst)
  then have "length a = length b" using da db by (metis distinct_card length_map list.set_map)
  moreover have "\<exists>w. map_of b k = Some w \<and> nequal v w" if "(k, v) \<in> set a" for k v
    using that da wa eq by (intro exI[of _ v]) (auto intro: nequal_refl simp flip: eq)
  ultimately show ?thesis using h by (auto simp: nequal_map)
qed

lemma compare_values_only [simp]:
  "CompareResponses pr v None w None =
     compareValues pr (normalize v) (harmonizeMillis (normalize v) (normalize w))"
  by (simp add: CompareResponses_def Let_def)

lemma errors_wrap:
  "errorCode (ErrWrap p m) = errorCode m" "errorLabels (ErrWrap p m) = errorLabels m"
  unfolding errorCode_def errorLabels_def errors_As_wrap by (rule refl)+

lemma errorLabels_mset:
  "errorLabels m = errorLabels d \<longleftrightarrow> mset (errorLabels m) = mset (errorLabels d)"
  by (metis errorLabels_def mset_sort properties_for_sort sorted_sort)

section \<open>Properties\<close>

text \<open>A server agrees with itself. Whatever a case returns, value or error, comparing it with
  itself is a match: no value, not even not-a-number, a negative zero, a nil pointer or a
  document with duplicate fields, is reported as a divergence from itself.\<close>

theorem compare_self: "cmp_Result (CompareResponses pr v e v e) = Match"
proof (cases e)
  case None
  then show ?thesis
    by (simp add: compareValues_def harmonize_same[OF normalize_wf] nequal_refl[OF normalize_wf]
        matched_def)
next
  case (Some err)
  then show ?thesis by (simp add: CompareResponses_def compareErrors_def matched_def)
qed

text \<open>Field order is never a divergence. Two documents with distinct field names that hold the
  same fields in different orders match, at any nesting of the values.\<close>

theorem compare_field_order:
  assumes "distinct (map fst d)" "mset d = mset d'"
  shows "CompareResponses pr (VDoc d) None (VDoc d') None = matched"
proof -
  let ?N = "\<lambda>d. map masked (map (map_prod id normalize) d)"
  have d': "distinct (map fst d')" using assms by (metis mset_eq_imp_distinct_iff mset_map)
  have norm: "normalize (VDoc x) = NMap (?N x)" if "distinct (map fst x)" for x
  proof -
    have "distinct (map fst (map (map_prod id normalize) x))" using that by (simp add: o_def)
    from make_map_distinct[OF this] show ?thesis by simp
  qed
  have wf: "nwf (NMap (?N d))" "nwf (NMap (?N d'))"
    using normalize_wf[of "VDoc d"] normalize_wf[of "VDoc d'"] norm assms(1) d' by simp_all
  have "mset (?N d) = mset (?N d')" using assms(2) by simp
  moreover have "distinct (map fst (?N d))" "distinct (map fst (?N d'))" using wf by (simp_all add: nwf_map)
  ultimately have "map_of (?N d) = map_of (?N d')" by (metis map_of_eqI mset_eq_setD map_of_inject_set)
  from same_entries[OF wf this] show ?thesis
    using norm assms(1) d' by (simp add: compareValues_def)
qed

lemma compare_field_order_witness:
  "CompareResponses plain_printers (VDoc [(''a'', VInt32 1), (''b'', VNil)]) None
     (VDoc [(''b'', VNil), (''a'', VInt32 1)]) None = matched"
  by (rule compare_field_order) simp_all

text \<open>Scalars are compared exactly. An int32, an int64 and a double are never equal to each
  other, whatever their values; two of one type match exactly when they are the same value, where
  doubles distinguish the two zeros and identify not-a-number with itself; and dates match
  exactly when they are the same millisecond.\<close>

theorem compare_scalars_exact:
  "cmp_Result (CompareResponses pr (VInt32 a) None (VInt64 b) None) = Diverge \<and>
   cmp_Result (CompareResponses pr (VInt32 a) None (VFloat64 x) None) = Diverge \<and>
   cmp_Result (CompareResponses pr (VInt64 a) None (VFloat64 x) None) = Diverge \<and>
   (cmp_Result (CompareResponses pr (VInt32 a) None (VInt32 b) None) = Match \<longleftrightarrow> a = b) \<and>
   (cmp_Result (CompareResponses pr (VInt64 a) None (VInt64 b) None) = Match \<longleftrightarrow> a = b) \<and>
   (cmp_Result (CompareResponses pr (VFloat64 x) None (VFloat64 y) None) = Match \<longleftrightarrow> x = y) \<and>
   (cmp_Result (CompareResponses pr (VDateTime a) None (VDateTime b) None) = Match \<longleftrightarrow> a = b)"
  by (cases x; cases y) (auto simp: compareValues_def matched_def diverge_def normalize_float64_def
      split: bool.splits)

text \<open>A masked field is compared by presence, not by value: any two values of the field match,
  and the field on one side only diverges.\<close>

theorem compare_ignored_field:
  assumes "ignoredField k"
  shows "cmp_Result (CompareResponses pr (VDoc [(k, v)]) None (VDoc [(k, w)]) None) = Match \<and>
    cmp_Result (CompareResponses pr (VDoc [(k, v)]) None (VDoc []) None) = Diverge \<and>
    cmp_Result (CompareResponses pr (VDoc []) None (VDoc [(k, w)]) None) = Diverge"
proof -
  have "k \<noteq> ''millis''" using assms by (auto simp: ignoredField_def defaultIgnoredFields_def)
  with assms show ?thesis
    by (simp add: make_map_def compareValues_def nequal_map harmonize_entry_def matched_def
        diverge_def ignoredValueSentinel_def)
qed

lemma compare_ignored_field_witness:
  "cmp_Result (CompareResponses plain_printers (VDoc [(''$clusterTime'', VInt32 1)]) None (VDoc []) None) = Diverge"
  using compare_ignored_field[of "''$clusterTime''" plain_printers "VInt32 1" VNil]
  by (simp add: ignoredField_def defaultIgnoredFields_def)

text \<open>The \<open>millis\<close> tolerance is one-sided. For millisecond counts in the exact range of
  doubles, and for any mix of the two integer types, the second server's \<open>millis\<close> matches exactly
  when it is at most five above the first's.\<close>

theorem compare_millis:
  assumes "\<bar>m\<bar> < 2 ^ 50" "\<bar>d\<bar> < 2 ^ 50"
  shows "cmp_Result (CompareResponses pr (VDoc [(''millis'', VInt64 m)]) None
      (VDoc [(''millis'', VInt32 d)]) None) = Match \<longleftrightarrow> d \<le> m + 5"
proof -
  have b: "\<bar>m\<bar> < 2 ^ 52" "\<bar>m\<bar> < 2 ^ 53" "\<bar>d\<bar> < 2 ^ 53" using assms by simp_all
  have "float_add (float_of_int m) (float_of_int 5) = float_of_small (m + 5)"
    using b by (simp add: float_of_int_small float_add_small)
  then have "float_le (float_of_int d) (float_add (float_of_int m) (float_of_int 5)) \<longleftrightarrow> d \<le> m + 5"
    using b by (simp add: float_of_int_small)
  then show ?thesis
    by (simp add: make_map_def ignoredField_def defaultIgnoredFields_def compareValues_def
        nequal_map harmonize_entry_def millisToleranceMS_def matched_def diverge_def)
qed

lemma compare_millis_witness:
  "cmp_Result (CompareResponses plain_printers (VDoc [(''millis'', VInt64 7)]) None
      (VDoc [(''millis'', VInt32 12)]) None) = Match"
  using compare_millis[of 7 12 plain_printers] by simp

text \<open>C16: When two errors match. A case that fails on one side only diverges; two failures match
  exactly when their code, their code name and their labels, as a multiset, agree and, for errors
  with none of the three, the texts are the same. Neither the order of the labels nor the wrapping
  of a driver error matters.\<close>

theorem compare_errors_iff:
  "(cmp_Result (CompareResponses pr v (Some m) w (Some d)) = Match \<longleftrightarrow>
     errorCode m = errorCode d \<and> errorName m = errorName d \<and>
     mset (errorLabels m) = mset (errorLabels d) \<and>
     (if (errorCode m, errorName m, errorLabels m) = (0, [], []) then error_text m = error_text d
      else True)) \<and>
   cmp_Result (CompareResponses pr v (Some m) w None) = Diverge \<and>
   cmp_Result (CompareResponses pr v None w (Some d)) = Diverge \<and>
   errorCode (ErrWrap p m) = errorCode m \<and> errorLabels (ErrWrap p m) = errorLabels m"
  unfolding errorLabels_mset[symmetric] CompareResponses_def compareErrors_def Let_def
  by (cases "errorCode m = errorCode d"; cases "errorName m = errorName d";
      cases "errorLabels m = errorLabels d"; cases "error_text m = error_text d")
    (simp_all add: matched_def diverge_def errors_wrap)

text \<open>A limit of the comparison: an ObjectID is normalised to its hexadecimal text, and UUID
  binaries and not-a-number to fixed texts, so each of them matches the string that spells its
  normal form.\<close>

theorem compare_text_collisions:
  "CompareResponses pr (VObjectID b) None (VString (hex_bytes b)) None = matched \<and>
   CompareResponses pr (VBinary 4 b) None (VString ''<UUID>'') None = matched \<and>
   CompareResponses pr (VFloat64 FNaN) None (VString ''<NaN>'') None = matched"
  by (simp add: compareValues_def normalize_float64_def)

end
