(* ===== verification/StateFacts.thy ===== *)
theory StateFacts
  imports StateCompare
begin

text \<open>
  What an empty list of divergences means. The canonical form of a raw value sorts the fields of
  every document, keeping the last of a repeated field, except inside a document's top-level
  \<open>_id\<close>, whose field order is part of its identity. The abstraction of a captured state is the
  nested map of canonical forms; the comparison decides equality of abstractions.
\<close>

section \<open>Canonical forms\<close>

definition canon_fields :: "(string \<times> braw) list \<Rightarrow> (string \<times> braw) list" where
  "canon_fields fs = map (\<lambda>k. (k, the (map_of (rev fs) k))) (sort (remdups (map fst fs)))"

primrec canon :: "braw \<Rightarrow> braw" where
  "canon (RDoc d) = RDoc (canon_fields (map (map_prod id canon) d))"
| "canon (RArr xs) = RArr (map canon xs)"
| "canon (RScalar t b) = RScalar t b"
| "canon (RBadDoc b) = RBadDoc b"
| "canon (RBadArr b) = RBadArr b"

definition canon_top_field :: "string \<times> braw \<Rightarrow> string \<times> braw" where
  "canon_top_field = (\<lambda>(k, v). (k, if k = ''_id'' \<and> raw_type v = 3 then v else canon v))"

fun canon_document :: "braw \<Rightarrow> braw" where
  "canon_document (RDoc d) = RDoc (canon_fields (map canon_top_field d))"
| "canon_document v = canon v"

text \<open>A value with no unparsable part; scalars carry a scalar type.\<close>

primrec parses :: "braw \<Rightarrow> bool" where
  "parses (RDoc d) = list_all snd (map (map_prod id parses) d)"
| "parses (RArr xs) = list_all id (map parses xs)"
| "parses (RScalar t b) = (t \<noteq> 3 \<and> t \<noteq> 4)"
| "parses (RBadDoc b) = False"
| "parses (RBadArr b) = False"

lemma parses_doc: "parses (RDoc d) \<longleftrightarrow> (\<forall>(k, v) \<in> set d. parses v)"
  by (auto simp: list_all_iff)

lemma parses_arr: "parses (RArr xs) \<longleftrightarrow> (\<forall>x \<in> set xs. parses x)"
  by (auto simp: list_all_iff)

declare parses.simps(1,2) [simp del]

lemma map_of_canon_fields: "map_of (canon_fields fs) = map_of (rev fs)"
proof
  fix k
  have "map_of (map (\<lambda>k. (k, f k)) ks) k = (if k \<in> set ks then Some (f k) else None)" for f :: "string \<Rightarrow> braw" and ks
    by (induction ks) auto
  then have "map_of (canon_fields fs) k
      = (if k \<in> fst ` set fs then Some (the (map_of (rev fs) k)) else None)"
    by (simp add: canon_fields_def)
  also have "\<dots> = map_of (rev fs) k"
  proof (cases "map_of (rev fs) k")
    case None
    then have "k \<notin> fst ` set fs" by (metis map_of_eq_None_iff set_rev)
    with None show ?thesis by simp
  next
    case (Some v)
    then have "(k, v) \<in> set fs" by (metis map_of_SomeD set_rev)
    with Some show ?thesis by (auto intro: rev_image_eqI)
  qed
  finally show "map_of (canon_fields fs) k = map_of (rev fs) k" .
qed

lemma canon_fields_eq_iff: "canon_fields a = canon_fields b \<longleftrightarrow> map_of (rev a) = map_of (rev b)"
proof
  assume eq: "map_of (rev a) = map_of (rev b)"
  then have "fst ` set a = fst ` set b" by (metis dom_map_of_conv_image_fst set_rev)
  then have "sort (remdups (map fst a)) = sort (remdups (map fst b))"
    by (intro sorted_distinct_set_unique) simp_all
  with eq show "canon_fields a = canon_fields b" by (simp add: canon_fields_def)
qed (metis map_of_canon_fields)

lemma map_of_rev_map:
  "map_of (rev (map (map_prod id f) d)) k = map_option f (map_of (rev d) k)"
proof -
  have "map_of (map (map_prod id f) xs) k = map_option f (map_of xs k)" for xs
    by (induction xs) auto
  then show ?thesis by (simp add: rev_map)
qed

lemma map_of_rev_top:
  "map_of (rev (map canon_top_field d)) k
     = map_option (\<lambda>v. if k = ''_id'' \<and> raw_type v = 3 then v else canon v) (map_of (rev d) k)"
proof -
  have "map_of (map canon_top_field xs) k
     = map_option (\<lambda>v. if k = ''_id'' \<and> raw_type v = 3 then v else canon v) (map_of xs k)" for xs
    by (induction xs) (auto simp: canon_top_field_def)
  then show ?thesis by (simp add: rev_map)
qed

lemma map_of_rev_mem: "map_of (rev d) k = Some v \<Longrightarrow> (k, v) \<in> set d"
  by (metis map_of_SomeD set_rev)

lemma canon_type: "raw_type (canon v) = raw_type v"
  by (cases v) auto

section \<open>Raw comparison decides equality of canonical forms\<close>

text \<open>The canonical value of a field.\<close>

definition canon_at :: "bool \<Rightarrow> (string \<times> braw) list \<Rightarrow> string \<Rightarrow> braw option" where
  "canon_at isRoot d k =
     map_option (\<lambda>v. if isRoot \<and> k = ''_id'' \<and> raw_type v = 3 then v else canon v) (map_of (rev d) k)"

text \<open>The loop over the fields, given that the recursive calls do.\<close>

lemma field_loop_None:
  assumes walks: "\<And>k v. (k, v) \<in> set a \<Longrightarrow> parses v \<Longrightarrow> (\<And>w p. parses w \<Longrightarrow>
      (cmp v p w = None \<longleftrightarrow> canon v = canon w))"
    and pa: "parses (RDoc a)" and pb: "parses (RDoc b)"
    and ws: "ws = map (map_prod id cmp) a"
  shows "(first_divergence (field_divergence pr path isRoot a b ws) (sortedKeys a b) = None) \<longleftrightarrow>
    (\<forall>k. canon_at isRoot a k = canon_at isRoot b k)"
proof -
  let ?A = "canon_at isRoot a" and ?B = "canon_at isRoot b"
  have one: "field_divergence pr path isRoot a b ws k = None \<longleftrightarrow> ?A k = ?B k"
    if k: "k \<in> fst ` set a \<union> fst ` set b" for k
  proof (cases "map_of (rev a) k")
    case None
    then have "k \<notin> fst ` set a" by (metis map_of_eq_None_iff set_rev)
    with k have "map_of (rev b) k \<noteq> None" by (metis UnE map_of_eq_None_iff set_rev)
    with None show ?thesis by (auto simp: field_divergence_def Let_def canon_at_def)
  next
    case (Some va)
    note sa = this
    have va: "(k, va) \<in> set a" "parses va" using map_of_rev_mem[OF sa] pa by (auto simp: parses_doc)
    show ?thesis
    proof (cases "map_of (rev b) k")
      case None
      with sa show ?thesis by (auto simp: field_divergence_def Let_def canon_at_def)
    next
      case (Some vb)
      have "parses vb" using map_of_rev_mem[OF Some] pb by (auto simp: parses_doc)
      from walks[OF va this] have "cmp va (path @ ''.'' @ k) vb = None \<longleftrightarrow> canon va = canon vb" .
      moreover have "map_of (rev ws) k = Some (cmp va)" by (simp add: ws map_of_rev_map sa)
      moreover have "canon va = canon vb \<Longrightarrow> raw_type va = raw_type vb" by (metis canon_type)
      ultimately show ?thesis
        using sa Some 
        by (cases "isRoot \<and> k = ''_id'' \<and> raw_type va = 3")
          (auto simp: field_divergence_def Let_def canon_at_def canon_type)
    qed
  qed
  have out: "?A k = ?B k" if "k \<notin> fst ` set a \<union> fst ` set b" for k
  proof -
    have "map_of (rev a) k = None" "map_of (rev b) k = None"
      using that by (simp_all add: map_of_eq_None_iff)
    then show ?thesis by (simp add: canon_at_def)
  qed
  show ?thesis
    unfolding first_divergence_None set_sortedKeys
  proof
    assume L: "\<forall>k \<in> fst ` set a \<union> fst ` set b. field_divergence pr path isRoot a b ws k = None"
    show "\<forall>k. ?A k = ?B k"
    proof
      fix k show "?A k = ?B k"
        by (cases "k \<in> fst ` set a \<union> fst ` set b") (use L one out in blast)+
    qed
  next
    assume R: "\<forall>k. ?A k = ?B k"
    show "\<forall>k \<in> fst ` set a \<union> fst ` set b. field_divergence pr path isRoot a b ws k = None"
    proof
      fix k assume "k \<in> fst ` set a \<union> fst ` set b"
      from one[OF this] R show "field_divergence pr path isRoot a b ws k = None" by simp
    qed
  qed
qed

lemma compareRawValue_canon:
  "parses a \<Longrightarrow> parses b \<Longrightarrow> (compareRawValue pr a False path b = None \<longleftrightarrow> canon a = canon b)"
proof (induction a arbitrary: path b)
  case (RDoc d)
  show ?case
  proof (cases b)
    case (RDoc e)
    have "\<And>k v. (k, v) \<in> set d \<Longrightarrow> parses v \<Longrightarrow> (\<And>w p. parses w \<Longrightarrow>
        (compareRawValue pr v False p w = None \<longleftrightarrow> canon v = canon w))"
      using RDoc.IH by auto
    from field_loop_None[OF this RDoc.prems(1) RDoc.prems(2)[unfolded RDoc] refl,
        where pr = pr and path = path and isRoot = False]
    show ?thesis
      by (simp add: RDoc canon_fields_eq_iff fun_eq_iff map_of_rev_map canon_at_def)
  qed (use RDoc.prems in \<open>auto\<close>)
next
  case (RArr xs)
  show ?case
  proof (cases b)
    case (RArr ys)
    have el: "compareRawValue pr (xs ! i) False p (ys ! i) = None \<longleftrightarrow> canon (xs ! i) = canon (ys ! i)"
      if "i < length xs" "length xs = length ys" for i p
      using RArr.IH[of "xs ! i"] RArr.prems RArr that by (auto simp: parses_arr)
    show ?thesis
    proof (cases "length xs = length ys")
      case True
      let ?zs = "zip [0..<length xs] (zip (map (\<lambda>x. compareRawValue pr x False) xs) ys)"
      have nth: "?zs ! i = (i, compareRawValue pr (xs ! i) False, ys ! i)" if "i < length xs" for i
        using that True by simp
      have len: "length ?zs = length xs" using True by simp
      have "(first_divergence (\<lambda>(i, walk, y). walk (path @ ''['' @ ntoa i @ '']'') y) ?zs = None)
          \<longleftrightarrow> (\<forall>i < length xs. canon (xs ! i) = canon (ys ! i))"
        unfolding first_divergence_None all_set_conv_all_nth len
        by (simp add: nth el[OF _ True] del: nth_zip)
      moreover have "map canon xs = map canon ys \<longleftrightarrow> (\<forall>i < length xs. canon (xs ! i) = canon (ys ! i))"
        using True by (simp add: list_eq_iff_nth_eq)
      ultimately have "(first_divergence (\<lambda>(i, walk, y). walk (path @ ''['' @ ntoa i @ '']'') y) ?zs = None)
          \<longleftrightarrow> map canon xs = map canon ys" by (rule trans[OF _ sym])
      then show ?thesis unfolding RArr using True by simp
    next
      case False
      then have "map canon xs \<noteq> map canon ys" by (metis length_map)
      with False RArr show ?thesis by simp
    qed
  qed (use RArr.prems in \<open>auto\<close>)
next
  case (RScalar t bs)
  then show ?case by (cases b) auto
qed simp_all

lemma compareRawDocuments_canon:
  assumes "parses a" "parses b"
  shows "compareRawDocuments pr path a b = None \<longleftrightarrow> canon_document a = canon_document b"
proof (cases a)
  case (RDoc d)
  show ?thesis
  proof (cases b)
    case (RDoc e)
    have w: "\<And>k v. (k, v) \<in> set d \<Longrightarrow> parses v \<Longrightarrow> (\<And>w p. parses w \<Longrightarrow>
        (compareRawValue pr v False p w = None \<longleftrightarrow> canon v = canon w))"
      by (rule compareRawValue_canon)
    from field_loop_None[where a = d and b = e and pr = pr and path = path and isRoot = True,
        OF w _ _ refl] assms \<open>a = RDoc d\<close> RDoc
    show ?thesis
      by (simp add: compareRawDocuments_def canon_fields_eq_iff fun_eq_iff map_of_rev_top canon_at_def)
  qed (use assms RDoc in \<open>auto simp: compareRawDocuments_def\<close>)
next
  case (RArr xs)
  then show ?thesis using compareRawValue_canon[OF assms, of pr path] assms
    by (cases b) (simp_all add: compareRawDocuments_def)
next
  case (RScalar t bs)
  then show ?thesis using assms by (cases b) (auto simp: compareRawDocuments_def)
qed (use assms in simp_all)

section \<open>The abstraction of a captured state\<close>

definition abs_collection ::
    "CollectionState \<Rightarrow> braw \<times> (string \<Rightarrow> braw option) \<times> (string \<Rightarrow> braw option)" where
  "abs_collection c =
     (canon_document (co_Options c),
      \<lambda>k. map_option (\<lambda>i. canon_document (stripIndexVersion i)) (map_of (co_Indexes c) k),
      \<lambda>k. map_option canon_document (map_of (co_Documents c) k))"

definition abs_database where
  "abs_database db = (\<lambda>k. map_option abs_collection (map_of db k))"

definition abs_state where
  "abs_state s = (\<lambda>k. map_option abs_database (map_of (st_Databases s) k))"

definition parses_collection :: "CollectionState \<Rightarrow> bool" where
  "parses_collection c \<longleftrightarrow> parses (co_Options c) \<and>
     list_all (\<lambda>(k, v). parses v) (co_Indexes c) \<and> list_all (\<lambda>(k, v). parses v) (co_Documents c)"

definition parses_state :: "ServerState \<Rightarrow> bool" where
  "parses_state s \<longleftrightarrow>
     list_all (\<lambda>(n, db). list_all (\<lambda>(m, c). parses_collection c) db) (st_Databases s)"

lemma ball_all_iff:
  "(\<And>k. k \<in> S \<Longrightarrow> P k \<longleftrightarrow> Q k) \<Longrightarrow> (\<And>k. k \<notin> S \<Longrightarrow> Q k) \<Longrightarrow> (\<forall>k \<in> S. P k) \<longleftrightarrow> (\<forall>k. Q k)"
  by blast

lemma diff_maps_Nil:
  assumes "\<And>k w g. map_of want k = Some w \<Longrightarrow> map_of got k = Some g \<Longrightarrow>
      (diff k w g = [] \<longleftrightarrow> f w = f g)"
  shows "diff_maps label ws gs diff want got = [] \<longleftrightarrow>
    (\<lambda>k. map_option f (map_of want k)) = (\<lambda>k. map_option f (map_of got k))"
proof -
  let ?step = "\<lambda>name. case (map_of want name, map_of got name) of
         (_, None) \<Rightarrow> [absent_on (fst (label name)) (snd (label name)) ws gs]
       | (None, _) \<Rightarrow> [absent_on (fst (label name)) (snd (label name)) gs ws]
       | (Some w, Some g) \<Rightarrow> diff name w g"
  have one: "?step k = [] \<longleftrightarrow> map_option f (map_of want k) = map_option f (map_of got k)"
    if "k \<in> fst ` set want \<union> fst ` set got" for k
  proof -
    have "map_of want k \<noteq> None \<or> map_of got k \<noteq> None" using that by (auto simp: map_of_eq_None_iff)
    with assms[of k] show ?thesis by (auto split: option.splits)
  qed
  have out: "map_option f (map_of want k) = map_option f (map_of got k)"
    if "k \<notin> fst ` set want \<union> fst ` set got" for k
  proof -
    have "map_of want k = None" "map_of got k = None" using that by (simp_all add: map_of_eq_None_iff)
    then show ?thesis by simp
  qed
  have "diff_maps label ws gs diff want got = [] \<longleftrightarrow>
      (\<forall>k \<in> fst ` set want \<union> fst ` set got. ?step k = [])"
    unfolding diff_maps_def concat_eq_Nil_conv by simp
  also have "\<dots> \<longleftrightarrow> (\<forall>k. map_option f (map_of want k) = map_option f (map_of got k))"
    by (rule ball_all_iff[OF one out])
  finally show ?thesis by (simp add: fun_eq_iff)
qed

lemma to_list_Nil [simp]: "to_list x = [] \<longleftrightarrow> x = None"
  by (cases x) (simp_all add: to_list_def)

lemma parses_strip: "parses i \<Longrightarrow> parses (stripIndexVersion i)"
  by (cases i) (auto simp: parses_doc)

lemma list_all_map_of: "list_all (\<lambda>(k, v). P v) m \<Longrightarrow> map_of m k = Some v \<Longrightarrow> P v"
  by (auto simp: list_all_iff dest!: map_of_SomeD)

lemma diffCollection_Nil:
  assumes "parses_collection w" "parses_collection g"
  shows "diffCollection pr ws gs ns w g = [] \<longleftrightarrow> abs_collection w = abs_collection g"
proof -
  have o: "parses (co_Options w)" "parses (co_Options g)"
    and i: "list_all (\<lambda>(k, v). parses v) (co_Indexes w)" "list_all (\<lambda>(k, v). parses v) (co_Indexes g)"
    and d: "list_all (\<lambda>(k, v). parses v) (co_Documents w)" "list_all (\<lambda>(k, v). parses v) (co_Documents g)"
    using assms by (simp_all add: parses_collection_def)
  have ix: "diff_maps label ws gs (\<lambda>name w g. to_list (compareRawDocuments pr (path name)
        (stripIndexVersion w) (stripIndexVersion g))) (co_Indexes w) (co_Indexes g) = []
      \<longleftrightarrow> fst (snd (abs_collection w)) = fst (snd (abs_collection g))" for label path
    unfolding abs_collection_def fst_conv snd_conv
    by (rule diff_maps_Nil)
      (use list_all_map_of[OF i(1)] list_all_map_of[OF i(2)] in
        \<open>auto simp: compareRawDocuments_canon parses_strip\<close>)
  have dx: "diff_maps label ws gs (\<lambda>key w g. to_list (compareRawDocuments pr (path key w g) w g))
        (co_Documents w) (co_Documents g) = []
      \<longleftrightarrow> snd (snd (abs_collection w)) = snd (snd (abs_collection g))" for label path
    unfolding abs_collection_def fst_conv snd_conv
    by (rule diff_maps_Nil)
      (use list_all_map_of[OF d(1)] list_all_map_of[OF d(2)] in
        \<open>auto simp: compareRawDocuments_canon\<close>)
  show ?thesis
    unfolding diffCollection_def append_is_Nil_conv to_list_Nil compareRawDocuments_canon[OF o] ix dx
    by (simp add: abs_collection_def)
qed

lemma diffDatabase_Nil:
  assumes "list_all (\<lambda>(m, c). parses_collection c) w" "list_all (\<lambda>(m, c). parses_collection c) g"
  shows "diffDatabase pr ws gs db w g = [] \<longleftrightarrow> abs_database w = abs_database g"
  unfolding diffDatabase_def abs_database_def
  by (rule diff_maps_Nil)
    (use list_all_map_of[OF assms(1)] list_all_map_of[OF assms(2)] in \<open>auto simp: diffCollection_Nil\<close>)

lemma DiffServerState_Nil:
  assumes "parses_state want" "parses_state got"
  shows "DiffServerState pr want got = [] \<longleftrightarrow> abs_state want = abs_state got"
  unfolding DiffServerState_def abs_state_def
  by (rule diff_maps_Nil)
    (use list_all_map_of[OF assms(1)[unfolded parses_state_def]]
      list_all_map_of[OF assms(2)[unfolded parses_state_def]] in \<open>auto simp: diffDatabase_Nil\<close>)

section \<open>Properties\<close>

text \<open>C5: State comparison decides equivalence. For captured states whose documents parse, the list
  of divergences is empty exactly when the two servers have the same databases, the same
  collections with the same options, the same indexes up to the version field, and under the same
  keys the same documents, where documents are the same when they agree in every field and type
  whatever the order of the fields, except that an \<open>_id\<close> document must agree bytewise.\<close>

theorem DiffServerState_decides:
  assumes "parses_state want" "parses_state got"
  shows "DiffServerState pr want got = [] \<longleftrightarrow> abs_state want = abs_state got"
  by (rule DiffServerState_Nil[OF assms])

definition small_state :: "braw \<Rightarrow> ServerState" where
  "small_state d = \<lparr>st_Source = ''s'', st_Databases = [(''db'', [(''c'',
     \<lparr>co_Options = RDoc [], co_Indexes = [], co_Documents = [(''k'', d)]\<rparr>)])]\<rparr>"

lemma DiffServerState_decides_witness:
  "DiffServerState plain_raw_printers (small_state (RDoc [(''a'', RScalar 16 []), (''b'', RScalar 8 [])]))
     (small_state (RDoc [(''b'', RScalar 8 []), (''a'', RScalar 16 [])])) = []"
proof -
  let ?a = "small_state (RDoc [(''a'', RScalar 16 []), (''b'', RScalar 8 [])])"
  let ?b = "small_state (RDoc [(''b'', RScalar 8 []), (''a'', RScalar 16 [])])"
  have p: "parses_state ?a" "parses_state ?b"
    by (simp_all add: small_state_def parses_state_def parses_collection_def parses_doc)
  have "canon_document (RDoc [(''a'', RScalar 16 []), (''b'', RScalar 8 [])])
      = canon_document (RDoc [(''b'', RScalar 8 []), (''a'', RScalar 16 [])])"
    by (simp add: canon_fields_eq_iff canon_top_field_def fun_eq_iff)
  then have "abs_state ?a = abs_state ?b"
    by (simp add: abs_state_def abs_database_def[abs_def] abs_collection_def small_state_def fun_eq_iff)
  with DiffServerState_decides[OF p] show ?thesis by blast
qed

end
