(* ===== verification/Capture.thy ===== *)
theory Capture
  imports StateFacts "HOL-Library.AList"
begin

text \<open>
  Capturing a server's state (the Capture functions of src/harness/statecompare.go). The replies
  of the server are arguments: listDatabases, and per database its collection specifications with
  what listing the indexes and finding the documents gives. The first error ends the capture.
  The value bytes of an \<open>_id\<close> and the string an index name decodes to come from the BSON library.
\<close>

section \<open>Capture\<close>

definition systemDatabases :: "string list" where
  "systemDatabases = [''admin'', ''config'', ''local'']"

record collection_reply =
  cr_Name :: string
  cr_Options :: braw
  cr_Indexes :: "goerror + braw list"
  cr_Documents :: "goerror + braw list"

record server_reply =
  sr_Databases :: "goerror + string list"
  sr_Collections :: "string \<Rightarrow> goerror + collection_reply list"

record bson_reader =
  br_bytes :: "braw \<Rightarrow> byte list"
  br_string :: "braw \<Rightarrow> string"

text \<open>A loop that assigns into a map, skipping some items and stopping at the first error.\<close>

fun assign_all :: "('a \<Rightarrow> bool) \<Rightarrow> ('a \<Rightarrow> goerror + string \<times> 'b) \<Rightarrow> 'a list \<Rightarrow>
    (string \<times> 'b) list \<Rightarrow> goerror + (string \<times> 'b) list" where
  "assign_all skip f [] acc = Inr acc"
| "assign_all skip f (x # xs) acc =
     (if skip x then assign_all skip f xs acc
      else case f x of Inl err \<Rightarrow> Inl err
           | Inr kv \<Rightarrow> assign_all skip f xs (AList.update (fst kv) (snd kv) acc))"

definition index_entry :: "bson_reader \<Rightarrow> string \<Rightarrow> string \<Rightarrow> braw \<Rightarrow> goerror + string \<times> braw" where
  "index_entry br source ns idx =
     (case (case idx of RDoc d \<Rightarrow> map_of d ''name'' | _ \<Rightarrow> None) of
        None \<Rightarrow> Inl (ErrText (source @ '': index on '' @ ns @ '' has no name''))
      | Some name \<Rightarrow> Inr (br_string br name, idx))"

definition document_entry :: "bson_reader \<Rightarrow> string \<Rightarrow> string \<Rightarrow> braw \<Rightarrow> goerror + string \<times> braw" where
  "document_entry br source ns d =
     (case lookup_id (Some d) of
        None \<Rightarrow> Inl (ErrText (source @ '': document in '' @ ns @ '' has no _id''))
      | Some i \<Rightarrow> Inr (documentKey (raw_type i) (br_bytes br i), d))"

definition captureCollection :: "bson_reader \<Rightarrow> string \<Rightarrow> string \<Rightarrow> collection_reply \<Rightarrow>
    goerror + CollectionState" where
  "captureCollection br source dbName r =
     (let ns = dbName @ ''.'' @ cr_Name r in
      case cr_Indexes r of
        Inl err \<Rightarrow> Inl (ErrWrap (source @ '': listIndexes '' @ ns @ '': '') err)
      | Inr indexes \<Rightarrow>
      case assign_all (\<lambda>i. False) (index_entry br source ns) indexes [] of Inl err \<Rightarrow> Inl err
      | Inr named \<Rightarrow>
      case cr_Documents r of
        Inl err \<Rightarrow> Inl (ErrWrap (source @ '': find '' @ ns @ '': '') err)
      | Inr docs \<Rightarrow>
      case assign_all (\<lambda>d. False) (document_entry br source ns) docs [] of Inl err \<Rightarrow> Inl err
      | Inr keyed \<Rightarrow> Inr \<lparr>co_Options = cr_Options r, co_Indexes = named, co_Documents = keyed\<rparr>)"

definition captureDatabase :: "bson_reader \<Rightarrow> string \<Rightarrow> string \<Rightarrow> goerror + collection_reply list \<Rightarrow>
    goerror + DatabaseState" where
  "captureDatabase br source dbName specs =
     (case specs of
        Inl err \<Rightarrow> Inl (ErrWrap (source @ '': listCollections '' @ dbName @ '': '') err)
      | Inr rs \<Rightarrow> assign_all (\<lambda>r. take 7 (cr_Name r) = ''system.'')
                   (\<lambda>r. map_sum id (Pair (cr_Name r)) (captureCollection br source dbName r)) rs [])"

definition CaptureServerState :: "bson_reader \<Rightarrow> string \<Rightarrow> server_reply \<Rightarrow> goerror + ServerState" where
  "CaptureServerState br source r =
     (case sr_Databases r of
        Inl err \<Rightarrow> Inl (ErrWrap (source @ '': listDatabases: '') err)
      | Inr names \<Rightarrow>
          map_sum id (\<lambda>dbs. \<lparr>st_Source = source, st_Databases = dbs\<rparr>)
            (assign_all (\<lambda>n. n \<in> set systemDatabases)
               (\<lambda>n. map_sum id (Pair n) (captureDatabase br source n (sr_Collections r n))) names []))"

section \<open>What a capture holds\<close>

lemma assign_all_Inl_cong:
  "assign_all skip f xs acc = Inl e \<Longrightarrow> \<exists>x \<in> set xs. \<not> skip x \<and> f x = Inl e"
  by (induction xs arbitrary: acc) (auto split: if_splits sum.splits)

lemma assign_all_ok:
  "assign_all skip f xs acc = Inr m \<Longrightarrow> \<forall>x \<in> set xs. skip x \<or> (\<exists>kv. f x = Inr kv)"
  by (induction xs arbitrary: acc) (auto split: if_splits sum.splits)

lemma assign_all_keys:
  "assign_all skip f xs acc = Inr m \<Longrightarrow>
     fst ` set m = fst ` set acc \<union> {fst kv | x kv. x \<in> set xs \<and> \<not> skip x \<and> f x = Inr kv}"
proof (induction xs arbitrary: acc)
  case (Cons x xs)
  show ?case
  proof (cases "skip x")
    case True
    with Cons show ?thesis by auto
  next
    case False
    with Cons.prems obtain kv where kv: "f x = Inr kv"
      and rest: "assign_all skip f xs (AList.update (fst kv) (snd kv) acc) = Inr m"
      by (auto split: sum.splits)
    from Cons.IH [OF rest] kv False show ?thesis
      by (cases kv) (force simp: dom_update)
  qed
qed simp

lemma assign_all_distinct:
  "assign_all skip f xs acc = Inr m \<Longrightarrow> distinct (map fst acc) \<Longrightarrow> distinct (map fst m)"
  by (induction xs arbitrary: acc) (auto simp: distinct_update split: if_splits sum.splits)

lemma update_fresh: "k \<notin> fst ` set m \<Longrightarrow> AList.update k x m = m @ [(k, x)]"
  by (induction m) auto

lemma assign_all_fresh:
  assumes "\<And>x. x \<in> set xs \<Longrightarrow> \<not> skip x \<and> f x = Inr (g x)"
    and "distinct (map fst (acc @ map g xs))"
  shows "assign_all skip f xs acc = Inr (acc @ map g xs)"
  using assms
proof (induction xs arbitrary: acc)
  case (Cons x xs)
  have "fst (g x) \<notin> fst ` set acc" using Cons.prems(2) by auto
  then have "AList.update (fst (g x)) (snd (g x)) acc = acc @ [g x]" by (simp add: update_fresh)
  with Cons.IH [of "acc @ [g x]"] Cons.prems show ?case by simp
qed simp

lemma hex_digit_eq: "i < 16 \<Longrightarrow> j < 16 \<Longrightarrow> hex_digit i = hex_digit j \<longleftrightarrow> i = j"
proof -
  have "distinct (map hex_digit [0..<16])" by code_simp
  then show "i < 16 \<Longrightarrow> j < 16 \<Longrightarrow> ?thesis"
    using nth_eq_iff_index_eq [of "map hex_digit [0..<16]" i j] by simp
qed

lemma hex2_eq: "hex2 i = hex2 j \<longleftrightarrow> i mod 256 = j mod 256"
proof -
  have digits: "n mod 256 = 16 * (n div 16 mod 16) + n mod 16" for n :: nat
    using mod_mult2_eq [of n 16 16] by simp
  have "n mod 256 div 16 = n div 16 mod 16" "n mod 256 mod 16 = n mod 16" for n :: nat
    by (simp_all add: digits)
  then have split: "i div 16 mod 16 = j div 16 mod 16 \<and> i mod 16 = j mod 16 \<longleftrightarrow> i mod 256 = j mod 256"
    by (metis digits)
  show ?thesis by (simp add: hex2_def hex_digit_eq split)
qed

lemma hex_bytes_Cons: "hex_bytes (b # bs) = hex2 (unat b) @ hex_bytes bs"
proof -
  have "unat b div 16 mod 16 = unat b div 16" using unsigned_less [of b, where ?'a = nat] by simp
  then show ?thesis by (simp add: hex_bytes_def hex2_def)
qed

lemma hex_bytes_eq: "hex_bytes xs = hex_bytes ys \<longleftrightarrow> xs = ys"
proof (induction xs arbitrary: ys)
  case Nil
  show ?case by (cases ys) (simp_all add: hex_bytes_Cons hex2_def hex_bytes_def [of "[]"])
next
  case (Cons x xs)
  have "unat b mod 256 = unat b" for b :: byte using unsigned_less [of b, where ?'a = nat] by simp
  then have "hex2 (unat x) = hex2 (unat y) \<longleftrightarrow> x = y" for y by (simp add: hex2_eq word_unat_eq_iff)
  moreover have "length (hex2 n) = 2" for n by (simp add: hex2_def)
  ultimately show ?case
    by (cases ys) (fastforce simp: hex_bytes_Cons Cons.IH append_eq_append_conv hex2_def
        hex_bytes_def [of "[]"])+
qed

lemma documentKey_eq: "documentKey t b = documentKey t' b' \<longleftrightarrow> t mod 256 = t' mod 256 \<and> b = b'"
  by (simp add: documentKey_def hex2_eq [symmetric] hex_bytes_eq append_eq_append_conv hex2_def)

text \<open>The identity of a document: the type byte and the value bytes of its \<open>_id\<close>.\<close>

definition document_id :: "bson_reader \<Rightarrow> braw \<Rightarrow> (nat \<times> byte list) option" where
  "document_id br d = map_option (\<lambda>i. (raw_type i mod 256, br_bytes br i)) (lookup_id (Some d))"

lemma document_entry_key:
  assumes "document_id br d = Some (t, b)"
  shows "document_entry br source ns d = Inr (documentKey t b, d)"
proof -
  obtain i where i: "lookup_id (Some d) = Some i" "t = raw_type i mod 256" "b = br_bytes br i"
    using assms by (auto simp: document_id_def)
  have "documentKey (raw_type i) (br_bytes br i) = documentKey t b"
    by (simp add: documentKey_eq i)
  then show ?thesis by (simp add: document_entry_def i(1))
qed

text \<open>C18: Capturing a collection loses no document. If every document a server returns has an
  \<open>_id\<close> and no two have the same type byte and value bytes there, then a successful capture holds
  exactly those documents, each under the key of its own identity, in the order of the reply.\<close>

theorem capture_keeps_documents:
  assumes "captureCollection br source dbName r = Inr c"
    and "cr_Documents r = Inr docs"
    and "map (document_id br) docs = map Some ids" and "distinct ids"
  shows "co_Documents c = zip (map (\<lambda>(t, b). documentKey t b) ids) docs"
proof -
  let ?key = "\<lambda>(t, b). documentKey t b"
  let ?g = "\<lambda>d. (?key (the (document_id br d)), d)"
  have some: "\<exists>t b. document_id br d = Some (t, b)" if "d \<in> set docs" for d
  proof -
    from that have "document_id br d \<in> Some ` set ids"
      by (metis assms(3) list.set_map imageI)
    then show ?thesis by force
  qed
  have ids: "map (\<lambda>d. the (document_id br d)) docs = ids"
    using arg_cong [OF assms(3), of "map the"] by (simp add: comp_def)
  have small: "t mod 256 = t" if "(t, b) \<in> set ids" for t b
  proof -
    from that ids obtain d where "d \<in> set docs" "the (document_id br d) = (t, b)" by (metis (no_types, lifting) imageE list.set_map)
    with some [of d] show ?thesis by (auto simp: document_id_def)
  qed
  have "inj_on ?key (set ids)"
    by (auto simp: inj_on_def documentKey_eq) (metis small)+
  with assms(4) have "distinct (map ?key ids)" by (simp add: distinct_map)
  then have keys: "distinct (map (\<lambda>d. ?key (the (document_id br d))) docs)"
    by (subst (asm) ids [symmetric]) (simp add: comp_def)
  have "assign_all (\<lambda>d. False) (document_entry br source (dbName @ ''.'' @ cr_Name r)) docs []
      = Inr (map ?g docs)"
    using keys some
    by (subst assign_all_fresh [where g = ?g])
      (force simp: document_entry_key comp_def)+
  then have "co_Documents c = map ?g docs"
    using assms(1,2) by (auto simp: captureCollection_def Let_def split: sum.splits)
  moreover have "map ?g docs = zip (map ?key (map (\<lambda>d. the (document_id br d)) docs)) docs"
    by (simp add: zip_map1 zip_same_conv_map)
  ultimately show ?thesis by (simp only: ids)
qed

definition demo_reader :: bson_reader where
  "demo_reader = \<lparr>br_bytes = (\<lambda>v. case v of RScalar t b \<Rightarrow> b | _ \<Rightarrow> []), br_string = (\<lambda>v. ''_id_'')\<rparr>"

definition demo_documents :: "braw list" where
  "demo_documents = [RDoc [(''_id'', RScalar 16 [1, 0, 0, 0])], RDoc [(''_id'', RScalar 18 [1, 0, 0, 0])]]"

definition demo_reply :: collection_reply where
  "demo_reply = \<lparr>cr_Name = ''c'', cr_Options = RDoc [], cr_Indexes = Inr [],
     cr_Documents = Inr demo_documents\<rparr>"

theorem capture_keeps_documents_witness:
  "co_Documents (projr (captureCollection demo_reader ''mongo'' ''db'' demo_reply))
   = zip (map (\<lambda>(t, b). documentKey t b) [(16, [1, 0, 0, 0]), (18, [1, 0, 0, 0])]) demo_documents"
proof (rule capture_keeps_documents)
  show "captureCollection demo_reader ''mongo'' ''db'' demo_reply =
      Inr (projr (captureCollection demo_reader ''mongo'' ''db'' demo_reply))"
    by code_simp
  show "cr_Documents demo_reply = Inr demo_documents" by (simp add: demo_reply_def)
  show "map (document_id demo_reader) demo_documents = map Some [(16, [1, 0, 0, 0]), (18, [1, 0, 0, 0])]"
    by code_simp
qed simp

end
