(* ===== verification/NegativeControl.thy ===== *)
theory NegativeControl
  imports StateFacts
begin

text \<open>
  The negative control of the state comparison (src/harness/negativecontrol.go): eleven
  corruptions of a captured state, each of which the comparison must report, and the corpus they
  are applied to. Iterating over a Go map to take its first entry takes any entry, so the
  corruptions that do so have a parameter, the entry taken.
\<close>

section \<open>Encoding the values the corruptions write\<close>

definition le_bytes :: "nat \<Rightarrow> int \<Rightarrow> byte list" where
  "le_bytes n i = map (\<lambda>k. of_int (i div 256 ^ k)) [0..<n]"

definition raw_int32 :: "int \<Rightarrow> braw" where
  "raw_int32 n = RScalar 0x10 (le_bytes 4 n)"

definition raw_date :: "int \<Rightarrow> braw" where
  "raw_date ms = RScalar 0x09 (le_bytes 8 ms)"

definition raw_bool :: "bool \<Rightarrow> braw" where
  "raw_bool b = RScalar 0x08 [if b then 1 else 0]"

definition raw_string :: "string \<Rightarrow> braw" where
  "raw_string s =
     RScalar 0x02 (le_bytes 4 (int (length s) + 1) @ map (\<lambda>c. of_nat (of_char c)) s @ [0])"

text \<open>Changing an int32 to an int64 extends the sign; the converse keeps the low four bytes.\<close>

fun retype_raw :: "braw \<Rightarrow> braw" where
  "retype_raw (RScalar t b) =
     (if t = 0x10 then RScalar 0x12 (b @ replicate 4 (if bit (last b) 7 then 255 else 0))
      else if t = 0x12 then RScalar 0x10 (take 4 b)
      else RScalar t b)"
| "retype_raw v = v"

section \<open>Editing documents\<close>

fun setField :: "(string \<times> braw) list \<Rightarrow> string \<Rightarrow> braw \<Rightarrow> (string \<times> braw) list" where
  "setField [] key v = [(key, v)]"
| "setField ((k, x) # d) key v = (if k = key then (k, v) # d else (k, x) # setField d key v)"

fun retypeInt :: "(string \<times> braw) list \<Rightarrow> string \<Rightarrow> (string \<times> braw) list" where
  "retypeInt [] key = []"
| "retypeInt ((k, x) # d) key = (if k \<noteq> key then (k, x) # retypeInt d key else (k, retype_raw x) # d)"

text \<open>Decoding fails on bytes that do not parse; otherwise decode and encode are inverse.\<close>

definition edit_raw :: "((string \<times> braw) list \<Rightarrow> (string \<times> braw) list) \<Rightarrow> braw \<Rightarrow> goerror + braw" where
  "edit_raw f r = (case r of RDoc d \<Rightarrow> Inr (RDoc (f d)) | _ \<Rightarrow> Inl (ErrText ''invalid document''))"

definition replaceField :: "braw \<Rightarrow> string \<Rightarrow> braw \<Rightarrow> goerror + braw" where
  "replaceField r key v = edit_raw (\<lambda>d. setField d key v) r"

section \<open>Editing a captured state\<close>

definition drop_at :: "nat \<Rightarrow> 'a list \<Rightarrow> 'a list" where
  "drop_at i xs = take i xs @ drop (Suc i) xs"

text \<open>\<open>withFirstCollection\<close>: the first collection of the first database that has one, in key order.\<close>

fun first_collection :: "(string \<Rightarrow> DatabaseState) \<Rightarrow> string list \<Rightarrow> (string \<times> string) option" where
  "first_collection db [] = None"
| "first_collection db (n # ns) =
     (case sortedKeys (db n) ([] :: (string \<times> CollectionState) list) of
        c # cs \<Rightarrow> Some (n, c) | [] \<Rightarrow> first_collection db ns)"

definition withFirstCollection ::
    "(CollectionState \<Rightarrow> goerror + CollectionState) \<Rightarrow> ServerState \<Rightarrow> goerror + ServerState" where
  "withFirstCollection f s =
     (let dbs = st_Databases s; get = (\<lambda>n. the (map_of dbs n)) in
      case first_collection get (sortedKeys dbs ([] :: (string \<times> DatabaseState) list)) of
        None \<Rightarrow> Inl (ErrText ''captured state has no collections to corrupt'')
      | Some (n, c) \<Rightarrow>
          (case f (the (map_of (get n) c)) of
             Inl err \<Rightarrow> Inl err
           | Inr c' \<Rightarrow> Inr (s\<lparr>st_Databases := AList.update n (AList.update c c' (get n)) dbs\<rparr>)))"

definition mutateFirstDocument :: "nat \<Rightarrow> ((string \<times> braw) list \<Rightarrow> (string \<times> braw) list) \<Rightarrow>
    ServerState \<Rightarrow> goerror + ServerState" where
  "mutateFirstDocument pick f = withFirstCollection (\<lambda>c.
     if pick < length (co_Documents c)
     then (case edit_raw f (snd (co_Documents c ! pick)) of
             Inl err \<Rightarrow> Inl err
           | Inr d \<Rightarrow> Inr (c\<lparr>co_Documents := (co_Documents c)[pick := (fst (co_Documents c ! pick), d)]\<rparr>))
     else Inl (ErrText ''no documents to corrupt''))"

datatype Corruption =
    ChangedScalar
  | Int32ToInt64
  | ChangedId
  | ChangedDate
  | MissingDocument
  | ExtraDocument
  | MissingCollection
  | MissingDatabase
  | MissingIndex
  | ChangedIndexKey
  | ChangedOptions

definition Corruptions :: "Corruption list" where
  "Corruptions = [ChangedScalar, Int32ToInt64, ChangedId, ChangedDate, MissingDocument,
     ExtraDocument, MissingCollection, MissingDatabase, MissingIndex, ChangedIndexKey,
     ChangedOptions]"

text \<open>Removing a collection iterates over the databases first: any database that has one.\<close>

definition missing_collection :: "nat \<Rightarrow> nat \<Rightarrow> ServerState \<Rightarrow> goerror + ServerState" where
  "missing_collection pickDb pick s =
     (let nonempty = filter (\<lambda>(n, db). db \<noteq> []) (st_Databases s) in
      if pickDb < length nonempty
      then (case nonempty ! pickDb of (n, db) \<Rightarrow>
              Inr (s\<lparr>st_Databases := AList.update n (drop_at pick db) (st_Databases s)\<rparr>))
      else Inl (ErrText ''no collections to remove''))"

fun Apply :: "Corruption \<Rightarrow> nat \<Rightarrow> nat \<Rightarrow> ServerState \<Rightarrow> goerror + ServerState" where
  "Apply ChangedScalar pickDb pick =
     mutateFirstDocument pick (\<lambda>d. setField d ''payload'' (raw_string ''corrupted''))"
| "Apply Int32ToInt64 pickDb pick = mutateFirstDocument pick (\<lambda>d. retypeInt d ''n'')"
| "Apply ChangedId pickDb pick =
     mutateFirstDocument pick (\<lambda>d. setField d ''_id'' (raw_string ''displaced''))"
| "Apply ChangedDate pickDb pick =
     mutateFirstDocument pick (\<lambda>d. setField d ''when'' (raw_date 915148800000))"
| "Apply MissingDocument pickDb pick = withFirstCollection (\<lambda>c.
     if pick < length (co_Documents c)
     then Inr (c\<lparr>co_Documents := drop_at pick (co_Documents c)\<rparr>)
     else Inl (ErrText ''no documents to remove''))"
| "Apply ExtraDocument pickDb pick = withFirstCollection (\<lambda>c.
     Inr (c\<lparr>co_Documents := AList.update ''phantom'' (RDoc [(''_id'', raw_string ''phantom'')])
                              (co_Documents c)\<rparr>))"
| "Apply MissingCollection pickDb pick = missing_collection pickDb pick"
| "Apply MissingDatabase pickDb pick = (\<lambda>s.
     if pickDb < length (st_Databases s)
     then Inr (s\<lparr>st_Databases := drop_at pickDb (st_Databases s)\<rparr>)
     else Inl (ErrText ''no databases to remove''))"
| "Apply MissingIndex pickDb pick = withFirstCollection (\<lambda>c.
     if pick < length (co_Indexes c)
     then Inr (c\<lparr>co_Indexes := drop_at pick (co_Indexes c)\<rparr>)
     else Inl (ErrText ''no indexes to remove''))"
| "Apply ChangedIndexKey pickDb pick = withFirstCollection (\<lambda>c.
     if pick < length (co_Indexes c)
     then (case replaceField (snd (co_Indexes c ! pick)) ''key'' (RDoc [(''wrongField'', raw_int32 1)]) of
             Inl err \<Rightarrow> Inl err
           | Inr i \<Rightarrow> Inr (c\<lparr>co_Indexes := (co_Indexes c)[pick := (fst (co_Indexes c ! pick), i)]\<rparr>))
     else Inl (ErrText ''no indexes to change''))"
| "Apply ChangedOptions pickDb pick = withFirstCollection (\<lambda>c.
     case replaceField (co_Options c) ''validationLevel'' (raw_string ''off'') of
       Inl err \<Rightarrow> Inl err
     | Inr r \<Rightarrow> Inr (c\<lparr>co_Options := r\<rparr>))"

section \<open>The corpus\<close>

definition corpus_document :: "int \<Rightarrow> braw" where
  "corpus_document i = RDoc [(''_id'', raw_int32 i), (''n'', raw_int32 i),
     (''payload'', raw_string ''original''), (''when'', raw_date 1767225600000)]"

definition corpus_index :: "string \<Rightarrow> string \<Rightarrow> braw" where
  "corpus_index name key = RDoc [(''v'', raw_int32 2), (''key'', RDoc [(key, raw_int32 1)]),
     (''name'', raw_string name)]"

text \<open>What a capture of the seeded corpus holds: the collection \<open>items\<close> with its validator, the
  five documents under their keys, and the two indexes.\<close>

definition corpus :: "string \<Rightarrow> ServerState" where
  "corpus dbName = \<lparr>st_Source = ''server'', st_Databases = [(dbName, [(''items'',
     \<lparr>co_Options = RDoc [(''validator'', RDoc [(''n'', RDoc [(''$exists'', raw_bool True)])]),
                         (''validationLevel'', raw_string ''strict'')],
      co_Indexes = [(''_id_'', corpus_index ''_id_'' ''_id''), (''n_1'', corpus_index ''n_1'' ''n'')],
      co_Documents = map (\<lambda>i. (documentKey 0x10 (le_bytes 4 i), corpus_document i)) [0..4]\<rparr>)])]\<rparr>"

definition detected :: "ServerState \<Rightarrow> Corruption \<Rightarrow> nat \<Rightarrow> nat \<Rightarrow> bool" where
  "detected s c pickDb pick =
     (case Apply c pickDb pick s of
        Inl err \<Rightarrow> False
      | Inr s' \<Rightarrow> DiffServerState \<lparr>rp_type = (\<lambda>t. []), rp_value = (\<lambda>v. [])\<rparr> s s' \<noteq> [])"

text \<open>The entries a corruption may take: a document, an index, or the only database.\<close>

fun picks :: "Corruption \<Rightarrow> nat list" where
  "picks ChangedScalar = [0, 1, 2, 3, 4]"
| "picks Int32ToInt64 = [0, 1, 2, 3, 4]"
| "picks ChangedId = [0, 1, 2, 3, 4]"
| "picks ChangedDate = [0, 1, 2, 3, 4]"
| "picks MissingDocument = [0, 1, 2, 3, 4]"
| "picks MissingIndex = [0, 1]"
| "picks ChangedIndexKey = [0, 1]"
| "picks c = [0]"

lemma detected_1:
  "list_all (detected (corpus ''db'') ChangedScalar 0) (picks ChangedScalar)"
  by code_simp

lemma detected_2:
  "list_all (detected (corpus ''db'') Int32ToInt64 0) (picks Int32ToInt64)"
  by code_simp

lemma detected_3:
  "list_all (detected (corpus ''db'') ChangedId 0) (picks ChangedId)"
  by code_simp

lemma detected_4:
  "list_all (detected (corpus ''db'') ChangedDate 0) (picks ChangedDate)"
  by code_simp

lemma detected_5:
  "list_all (detected (corpus ''db'') MissingDocument 0) (picks MissingDocument)"
  by code_simp

lemma detected_6:
  "list_all (detected (corpus ''db'') ExtraDocument 0) (picks ExtraDocument)"
  "list_all (detected (corpus ''db'') MissingCollection 0) (picks MissingCollection)"
  "list_all (detected (corpus ''db'') MissingDatabase 0) (picks MissingDatabase)"
  by code_simp+

lemma detected_7:
  "list_all (detected (corpus ''db'') MissingIndex 0) (picks MissingIndex)"
  "list_all (detected (corpus ''db'') ChangedIndexKey 0) (picks ChangedIndexKey)"
  "list_all (detected (corpus ''db'') ChangedOptions 0) (picks ChangedOptions)"
  by code_simp+

lemmas detected_all = detected_1 detected_2 detected_3 detected_4 detected_5 detected_6 detected_7

section \<open>Properties\<close>


text \<open>Losing a document is always reported, in any captured state: if the documents of two
  states that parse differ in the presence of one key of a collection both have, the list of
  divergences is not empty.\<close>

theorem lost_document_reported:
  assumes "parses_state s" "parses_state t"
    and "map_of (st_Databases s) n = Some d" "map_of (st_Databases t) n = Some e"
    and "map_of d m = Some c" "map_of e m = Some c'"
    and "map_of (co_Documents c) k = Some doc" "map_of (co_Documents c') k = None"
  shows "DiffServerState pr s t \<noteq> [] \<and> DiffServerState pr t s \<noteq> []"
proof -
  have "abs_collection c \<noteq> abs_collection c'"
    using assms(7,8) by (auto simp: abs_collection_def dest!: fun_cong[where x = k])
  then have "abs_database d \<noteq> abs_database e"
    using assms(5,6) by (auto simp: abs_database_def dest!: fun_cong[where x = m])
  then have "abs_state s \<noteq> abs_state t"
    using assms(3,4) by (auto simp: abs_state_def dest!: fun_cong[where x = n])
  then show ?thesis using DiffServerState_Nil assms(1,2) by metis
qed

lemma lost_document_reported_witness:
  "DiffServerState plain_raw_printers (small_state (RDoc []))
     ((small_state (RDoc []))\<lparr>st_Databases := [(''db'', [(''c'',
        \<lparr>co_Options = RDoc [], co_Indexes = [], co_Documents = []\<rparr>)])]\<rparr>) \<noteq> []"
  by (rule lost_document_reported[where n = "''db''" and m = "''c''" and k = "''k''"
        and d = "[(''c'', \<lparr>co_Options = RDoc [], co_Indexes = [], co_Documents = [(''k'', RDoc [])]\<rparr>)]"
        and e = "[(''c'', \<lparr>co_Options = RDoc [], co_Indexes = [], co_Documents = []\<rparr>)]"
        and c = "\<lparr>co_Options = RDoc [], co_Indexes = [], co_Documents = [(''k'', RDoc [])]\<rparr>"
        and c' = "\<lparr>co_Options = RDoc [], co_Indexes = [], co_Documents = []\<rparr>"
        and doc = "RDoc []", THEN conjunct1])
    (simp_all add: small_state_def parses_state_def parses_collection_def parses_doc)

end
