(* ===== verification/PerfStats.thy ===== *)
theory PerfStats
  imports Float64
begin

text \<open>
  The statistics of the performance gate (src/benchmarks/cmd/perfgate/stats.go): medians, and the
  exact one-sided Mann-Whitney test. The distribution of the U statistic is the table the code
  fills row by row with arbitrary-precision integers; its reference is the set of rankings of the
  two samples, written as lists of booleans in increasing order (true for a head sample).
\<close>

section \<open>Medians\<close>

text \<open>The order of \<open>sort.Float64s\<close>: not-a-number first.\<close>

definition sorts_before :: "float64 \<Rightarrow> float64 \<Rightarrow> bool" where
  "sorts_before x y \<longleftrightarrow> float_less x y \<or> x = FNaN \<and> y \<noteq> FNaN"

fun insert_float :: "float64 \<Rightarrow> float64 list \<Rightarrow> float64 list" where
  "insert_float x [] = [x]"
| "insert_float x (y # ys) = (if sorts_before y x then y # insert_float x ys else x # y # ys)"

definition sort_floats :: "float64 list \<Rightarrow> float64 list" where
  "sort_floats xs = foldr insert_float xs []"

definition median :: "float64 list \<Rightarrow> float64" where
  "median xs =
     (let s = sort_floats xs; n = length s in
      if n = 0 then FZero False
      else if n mod 2 = 1 then s ! (n div 2)
      else float_div (float_add (s ! (n div 2 - 1)) (s ! (n div 2))) (FFin 2))"

section \<open>The distribution of U\<close>

text \<open>One cell of the table from the cell above (one head sample fewer) and the cell to its left
  (one base sample fewer).\<close>

definition u_cell :: "nat \<Rightarrow> nat \<Rightarrow> nat list \<Rightarrow> nat list \<Rightarrow> nat list" where
  "u_cell i j up left =
     map (\<lambda>u. (if j \<le> u \<and> u - j < length up then up ! (u - j) else 0) +
              (if u < length left then left ! u else 0)) [0..<i * j + 1]"

fun u_row :: "nat \<Rightarrow> nat \<Rightarrow> nat list \<Rightarrow> nat list list \<Rightarrow> nat list list" where
  "u_row i j left [] = []"
| "u_row i j left (up # ups) =
     (let cell = (if j = 0 then [1] else u_cell i j up left) in cell # u_row i (Suc j) cell ups)"

fun u_rows :: "nat \<Rightarrow> nat \<Rightarrow> nat list list" where
  "u_rows n 0 = replicate (Suc n) [1]"
| "u_rows n (Suc i) = u_row (Suc i) 0 [] (u_rows n i)"

definition uDistribution :: "nat \<Rightarrow> nat \<Rightarrow> nat list" where
  "uDistribution m n = u_rows n m ! n"

definition twiceU :: "float64 list \<Rightarrow> float64 list \<Rightarrow> nat" where
  "twiceU base head =
     sum_list (map (\<lambda>h. sum_list (map (\<lambda>b.
       if float_less b h then 2 else if float_eq h b then 1 else 0) base)) head)"

definition slowerPValue :: "float64 list \<Rightarrow> float64 list \<Rightarrow> float64" where
  "slowerPValue base head =
     (let m = length head; n = length base in
      if m = 0 \<or> n = 0 then FFin 1
      else let ways = uDistribution m n; threshold = (twiceU base head + 1) div 2;
               atLeast = sum_list (drop threshold ways)
           in round64 (Fract (int atLeast) (int (sum_list ways))))"

section \<open>Rankings\<close>

text \<open>The number of pairs of a head sample and a smaller base sample.\<close>

fun ustat :: "bool list \<Rightarrow> nat" where
  "ustat [] = 0"
| "ustat (True # w) = ustat w"
| "ustat (False # w) = count_list w True + ustat w"

definition rankings :: "nat \<Rightarrow> nat \<Rightarrow> bool list set" where
  "rankings m n = {w. count_list w True = m \<and> count_list w False = n}"

definition ranked :: "nat \<Rightarrow> nat \<Rightarrow> nat \<Rightarrow> bool list set" where
  "ranked m n u = {w \<in> rankings m n. ustat w = u}"

lemma ustat_snoc [simp]:
  "ustat (w @ [True]) = ustat w + count_list w False"
  "ustat (w @ [False]) = ustat w"
  by (induction w rule: ustat.induct) simp_all

lemma count_list_bools: "count_list w True + count_list w False = length w"
  by (induction w) auto

lemma ustat_bound: "ustat w \<le> count_list w True * count_list w False"
  by (induction w rule: ustat.induct) simp_all

lemma finite_rankings: "finite (rankings m n)"
proof (rule finite_subset)
  show "rankings m n \<subseteq> {w. set w \<subseteq> UNIV \<and> length w = m + n}"
    using count_list_bools by (auto simp: rankings_def)
  show "finite {w :: bool list. set w \<subseteq> UNIV \<and> length w = m + n}"
    by (rule finite_lists_length_eq) simp
qed

lemma finite_ranked [simp]: "finite (ranked m n u)"
  unfolding ranked_def using finite_rankings by simp

lemma all_one_kind:
  "count_list w True = 0 \<Longrightarrow> w = replicate (count_list w False) False"
  "count_list w False = 0 \<Longrightarrow> w = replicate (count_list w True) True"
  by (induction w) (auto split: if_splits)

lemma count_list_replicate: "count_list (replicate k x) y = (if x = y then k else 0)"
  by (induction k) auto

lemma ustat_replicate: "ustat (replicate k b) = 0"
  by (induction k; cases b) (auto simp: count_list_replicate)

lemma rankings_edge: "rankings 0 n = {replicate n False}" "rankings m 0 = {replicate m True}"
  using all_one_kind by (auto simp: rankings_def count_list_replicate)

lemma ranked_edge:
  assumes "m = 0 \<or> n = 0"
  shows "card (ranked m n u) = (if u = 0 then 1 else 0)"
proof -
  have "ranked m n u = (if u = 0 then {replicate m True @ replicate n False} else {})"
    using assms by (auto simp: ranked_def rankings_edge ustat_replicate)
  then show ?thesis by simp
qed

text \<open>The recurrence of the table: the largest sample is a head sample, which beats every base
  sample, or a base sample, which beats nothing.\<close>

lemma ranked_step:
  "card (ranked (Suc i) (Suc j) u) =
     (if Suc j \<le> u then card (ranked i (Suc j) (u - Suc j)) else 0) + card (ranked (Suc i) j u)"
proof -
  let ?H = "if Suc j \<le> u then (\<lambda>w. w @ [True]) ` ranked i (Suc j) (u - Suc j) else {}"
  let ?B = "(\<lambda>w. w @ [False]) ` ranked (Suc i) j u"
  have "w \<in> ranked (Suc i) (Suc j) u \<longleftrightarrow> w \<in> ?H \<union> ?B" for w
    by (cases w rule: rev_cases) (auto simp: ranked_def rankings_def split: if_splits)
  then have split: "ranked (Suc i) (Suc j) u = ?H \<union> ?B" by blast
  have "card (ranked (Suc i) (Suc j) u) = card ?H + card ?B"
    unfolding split by (rule card_Un_disjoint) auto
  then show ?thesis by (simp add: card_image inj_on_def)
qed

lemma ranked_bound: "w \<in> ranked m n u \<Longrightarrow> u \<le> m * n"
  using ustat_bound[of w] by (auto simp: ranked_def rankings_def)

lemma ranked_beyond: "m * n < u \<Longrightarrow> card (ranked m n u) = 0"
  using ranked_bound by (fastforce simp: card_eq_0_iff)

section \<open>The table is the distribution\<close>

definition distribution :: "nat \<Rightarrow> nat \<Rightarrow> nat list" where
  "distribution m n = map (\<lambda>u. card (ranked m n u)) [0..<m * n + 1]"

lemma distribution_length [simp]: "length (distribution m n) = Suc (m * n)"
  by (simp add: distribution_def)

lemma distribution_nth: "u \<le> m * n \<Longrightarrow> distribution m n ! u = card (ranked m n u)"
  unfolding distribution_def by (simp add: nth_append del: upt_Suc)

lemma distribution_lookup:
  "(if u < length (distribution m n) then distribution m n ! u else 0) = card (ranked m n u)"
  by (simp add: distribution_nth ranked_beyond)

lemma distribution_edge: "m = 0 \<or> n = 0 \<Longrightarrow> distribution m n = [1]"
  using ranked_edge[of m n 0] by (auto simp: distribution_def)

lemma u_cell_distribution:
  "u_cell (Suc i) (Suc j) (distribution i (Suc j)) (distribution (Suc i) j) =
     distribution (Suc i) (Suc j)"
proof (rule nth_equalityI)
  let ?cell = "u_cell (Suc i) (Suc j) (distribution i (Suc j)) (distribution (Suc i) j)"
  show "length ?cell = length (distribution (Suc i) (Suc j))" by (simp add: u_cell_def)
  fix u assume "u < length ?cell"
  then have u: "u < Suc (Suc i * Suc j)" by (simp add: u_cell_def)
  then have "?cell ! u =
      (if Suc j \<le> u then if u - Suc j < length (distribution i (Suc j))
         then distribution i (Suc j) ! (u - Suc j) else 0 else 0) +
      (if u < length (distribution (Suc i) j) then distribution (Suc i) j ! u else 0)"
    unfolding u_cell_def by (subst nth_map) (simp_all del: upt_Suc distribution_length)
  also have "\<dots> = card (ranked (Suc i) (Suc j) u)"
    unfolding distribution_lookup by (rule ranked_step[symmetric])
  finally show "?cell ! u = distribution (Suc i) (Suc j) ! u"
    using u by (simp add: distribution_nth)
qed

lemma u_row_distribution:
  assumes "0 < j \<Longrightarrow> left = distribution (Suc i) (j - 1)"
  shows "u_row (Suc i) j left (map (distribution i) [j..<k]) = map (distribution (Suc i)) [j..<k]"
  using assms
proof (induction "k - j" arbitrary: j left)
  case (Suc d)
  let ?cell = "if j = 0 then [1] else u_cell (Suc i) j (distribution i j) left"
  have cell: "?cell = distribution (Suc i) j"
    using Suc.prems u_cell_distribution[of i "j - 1"] distribution_edge[of "Suc i" 0]
    by (cases j) simp_all
  have "u_row (Suc i) (Suc j) ?cell (map (distribution i) [Suc j..<k]) =
      map (distribution (Suc i)) [Suc j..<k]"
    by (rule Suc.hyps(1)) (use Suc.hyps(2) cell in simp_all)
  moreover have "[j..<k] = j # [Suc j..<k]" using Suc.hyps(2) by (simp add: upt_conv_Cons)
  ultimately show ?case unfolding cell by (simp add: cell Let_def del: upt_Suc)
qed simp

lemma u_rows_distribution: "u_rows n m = map (distribution m) [0..<Suc n]"
proof (induction m)
  case 0
  have "map (distribution 0) [0..<Suc n] = map (\<lambda>_. [1]) [0..<Suc n]"
    by (simp add: distribution_edge del: upt_Suc)
  then show ?case by (simp add: map_replicate_const del: upt_Suc replicate_Suc)
next
  case (Suc m)
  then show ?case using u_row_distribution[of 0 "[]" m "Suc n"] by (simp del: upt_Suc)
qed

lemma uDistribution_is_distribution: "uDistribution m n = distribution m n"
  by (simp add: uDistribution_def u_rows_distribution nth_append)

section \<open>The test\<close>

lemma rankings_by_u: "rankings m n = (\<Union>u\<in>{0..m * n}. ranked m n u)"
  using ustat_bound by (auto simp: ranked_def rankings_def)

lemma sum_list_drop_distribution:
  "sum_list (drop t (distribution m n)) = card {w \<in> rankings m n. t \<le> ustat w}"
proof -
  have "{w \<in> rankings m n. t \<le> ustat w} = (\<Union>u\<in>{t..m * n}. ranked m n u)"
    using ustat_bound by (auto simp: ranked_def rankings_def)
  also have "card \<dots> = (\<Sum>u\<in>{t..m * n}. card (ranked m n u))"
    by (subst card_UN_disjoint) (simp_all, auto simp: ranked_def)
  also have "\<dots> = sum_list (map (\<lambda>u. card (ranked m n u)) [t..<m * n + 1])"
    by (simp add: sum_list_distinct_conv_sum_set atLeastLessThanSuc_atLeastAtMost del: upt_Suc)
  finally show ?thesis by (simp add: distribution_def drop_map del: upt_Suc)
qed

lemma sum_list_distribution: "sum_list (distribution m n) = card (rankings m n)"
  using sum_list_drop_distribution[of 0 m n] by simp

text \<open>C32: the p-value of two non-empty samples is the exact share, rounded once to binary64, of
  the rankings of the samples whose U statistic is at least that of the samples, with ties counted
  half: the table row by row computes the Mann-Whitney distribution itself.\<close>

theorem slowerPValue_exact:
  assumes "base \<noteq> []" "head \<noteq> []"
  shows "slowerPValue base head =
    round64 (Fract (int (card {w \<in> rankings (length head) (length base).
                               twiceU base head \<le> 2 * ustat w}))
                   (int (card (rankings (length head) (length base)))))"
proof -
  have "(twiceU base head + 1) div 2 \<le> u \<longleftrightarrow> twiceU base head \<le> 2 * u" for u by linarith
  then show ?thesis
    using assms by (simp add: slowerPValue_def Let_def uDistribution_is_distribution
      sum_list_drop_distribution sum_list_distribution)
qed

theorem slowerPValue_exact_witness:
  "let base = [FFin 1, FFin 2]; head = [FFin 3, FFin 4]
   in slowerPValue base head =
      round64 (Fract (int (card {w \<in> rankings (length head) (length base).
                               twiceU base head \<le> 2 * ustat w}))
                   (int (card (rankings (length head) (length base)))))"
  unfolding Let_def by (rule slowerPValue_exact) simp_all

end
