(* ===== verification/GoText.thy ===== *)
theory GoText
  imports Float64
begin

text \<open>
  The text functions of Go's strings, bufio and fmt packages the benchmark tools use: prefixes,
  trimming of white space, lines, runs of characters, and the fixed-point verbs of fmt. Strings are
  their UTF-8 bytes, so the white space runes are byte sequences.
\<close>

section \<open>Prefixes and white space\<close>

definition HasPrefix :: "string \<Rightarrow> string \<Rightarrow> bool" where
  "HasPrefix s p \<longleftrightarrow> take (length p) s = p"

definition TrimPrefix :: "string \<Rightarrow> string \<Rightarrow> string" where
  "TrimPrefix s p = (if HasPrefix s p then drop (length p) s else s)"

lemma HasPrefix_append [simp]: "HasPrefix (p @ s) p"
  by (simp add: HasPrefix_def)

lemma HasPrefix_split: "HasPrefix s p \<longleftrightarrow> (\<exists>t. s = p @ t)"
  by (metis HasPrefix_append HasPrefix_def append_take_drop_id)

text \<open>The UTF-8 encodings of the runes of \<open>unicode.IsSpace\<close>.\<close>

definition ascii_spaces :: string where
  "ascii_spaces = [CHR 0x09, CHR 0x0A, CHR 0x0B, CHR 0x0C, CHR 0x0D, CHR 0x20]"

definition space_runes :: "string list" where
  "space_runes = map (\<lambda>c. [c]) ascii_spaces @
     [[CHR 0xC2, CHR 0x85], [CHR 0xC2, CHR 0xA0], [CHR 0xE1, CHR 0x9A, CHR 0x80]] @
     map (\<lambda>b. [CHR 0xE2, CHR 0x80, char_of b]) [0x80 ..< 0x8B :: nat] @
     [[CHR 0xE2, CHR 0x80, CHR 0xA8], [CHR 0xE2, CHR 0x80, CHR 0xA9],
      [CHR 0xE2, CHR 0x80, CHR 0xAF], [CHR 0xE2, CHR 0x81, CHR 0x9F],
      [CHR 0xE3, CHR 0x80, CHR 0x80]]"

function trim_runes :: "string list \<Rightarrow> string \<Rightarrow> string" where
  "trim_runes rs s =
     (case find (\<lambda>p. p \<noteq> [] \<and> HasPrefix s p) rs of
        None \<Rightarrow> s
      | Some p \<Rightarrow> trim_runes rs (drop (length p) s))"
  by pat_completeness auto
termination
proof (relation "measure (length \<circ> snd)")
  fix rs :: "string list" and s p
  assume "find (\<lambda>p. p \<noteq> [] \<and> HasPrefix s p) rs = Some p"
  then have "p \<noteq> []" "HasPrefix s p" by (auto simp: find_Some_iff)
  then show "((rs, drop (length p) s), (rs, s)) \<in> measure (length \<circ> snd)"
    by (cases s) (auto simp: HasPrefix_def)
qed simp

declare trim_runes.simps [simp del]

definition TrimSpace :: "string \<Rightarrow> string" where
  "TrimSpace s = rev (trim_runes (map rev space_runes) (rev (trim_runes space_runes s)))"

section \<open>Lines and runs\<close>

text \<open>\<open>strings.Split(s, "\\n")\<close>.\<close>

fun split_lines :: "string \<Rightarrow> string list" where
  "split_lines [] = [[]]"
| "split_lines (c # s) =
     (if c = CHR 0x0A then [] # split_lines s
      else case split_lines s of [] \<Rightarrow> [[c]] | l # ls \<Rightarrow> (c # l) # ls)"

text \<open>The lines \<open>bufio.Scanner\<close> returns: a carriage return before the newline is dropped, an empty
  last line is not a line, and a line that overflows the buffer of 64 KiB ends the scan.\<close>

definition drop_cr :: "string \<Rightarrow> string" where
  "drop_cr l = (if l \<noteq> [] \<and> last l = CHR 0x0D then butlast l else l)"

definition scan_lines :: "string \<Rightarrow> string list" where
  "scan_lines s =
     (let ls = split_lines s; ls = (if last ls = [] then butlast ls else ls)
      in map drop_cr (takeWhile (\<lambda>l. length l < 65536) ls))"

definition span :: "('a \<Rightarrow> bool) \<Rightarrow> 'a list \<Rightarrow> 'a list \<times> 'a list" where
  "span P xs = (takeWhile P xs, dropWhile P xs)"

section \<open>Decimal numbers\<close>

text \<open>\<open>strconv.ParseFloat\<close> of digits and dots, whose error the code drops: zero unless there is a
  digit and at most one dot.\<close>

definition parse_decimal :: "string \<Rightarrow> float64" where
  "parse_decimal s =
     (let (whole, rest) = span is_digit s; frac = drop 1 rest
      in if list_all is_digit frac \<and> whole @ frac \<noteq> []
         then round64 (of_nat (read_digits 0 (whole @ frac)) / 10 ^ length frac)
         else FZero False)"

text \<open>\<open>%.kf\<close>, and \<open>%+.kf\<close> when \<open>pl\<close> is set: the decimal nearest to the value, ties to even.\<close>

definition fixed_digits :: "nat \<Rightarrow> rat \<Rightarrow> string" where
  "fixed_digits k x =
     (let n = nat (round_half_even (x * 10 ^ k))
      in if k = 0 then ntoa n else ntoa (n div 10 ^ k) @ ''.'' @ pad0 k (ntoa (n mod 10 ^ k)))"

definition sign_text :: "bool \<Rightarrow> bool \<Rightarrow> string" where
  "sign_text pl neg = (if neg then ''-'' else if pl then ''+'' else [])"

fun fmt_fixed :: "bool \<Rightarrow> nat \<Rightarrow> float64 \<Rightarrow> string" where
  "fmt_fixed pl k FNaN = (if pl then ''+NaN'' else ''NaN'')"
| "fmt_fixed pl k (FInf neg) = (if neg then ''-Inf'' else ''+Inf'')"
| "fmt_fixed pl k (FZero neg) = sign_text pl neg @ fixed_digits k 0"
| "fmt_fixed pl k (FFin x) = sign_text pl (x < 0) @ fixed_digits k \<bar>x\<bar>"

text \<open>\<open>time.Duration.String\<close>: the fraction without its trailing zeros, the units the value reaches.\<close>

definition frac_text :: "nat \<Rightarrow> nat \<Rightarrow> string" where
  "frac_text prec v =
     (let ds = rev (dropWhile (\<lambda>c. c = CHR ''0'') (rev (pad0 prec (ntoa (v mod 10 ^ prec)))))
      in if ds = [] then [] else CHR ''.'' # ds)"

definition duration_magnitude :: "nat \<Rightarrow> string" where
  "duration_magnitude u =
     (if u < 1000 then ntoa u @ ''ns''
      else if u < 1000000 then ntoa (u div 1000) @ frac_text 3 u @ [CHR 0xC2, CHR 0xB5, CHR ''s'']
      else if u < 1000000000 then ntoa (u div 1000000) @ frac_text 6 u @ ''ms''
      else
        let secs = u div 1000000000; mins = secs div 60; hours = mins div 60;
            seconds = ntoa (secs mod 60) @ frac_text 9 u @ ''s''
        in if mins = 0 then seconds
           else (if hours = 0 then [] else ntoa hours @ ''h'') @ ntoa (mins mod 60) @ ''m'' @ seconds)"

definition Duration_String :: "int \<Rightarrow> string" where
  "Duration_String d =
     (if d = 0 then ''0s''
      else (if d < 0 then ''-'' else []) @ duration_magnitude (nat \<bar>d\<bar>))"

lemma split_lines_join: "join [CHR 0x0A] (split_lines s) = s"
proof (induction s rule: split_lines.induct)
  case (2 c s)
  then show ?case by (cases "split_lines s"; cases "tl (split_lines s)") (auto split: list.splits)
qed simp

end
