(* ===== verification/PerfGate.thy ===== *)
theory PerfGate
  imports PerfStats GoText GoErrors "HOL-Library.AList" "HOL-Library.Product_Lexorder"
begin

text \<open>
  The performance gate (src/benchmarks/cmd/perfgate/main.go): benchmarks are dealt to shards,
  calibrated once, sampled in rounds against a base and a head server, judged by medians and by
  the Mann-Whitney test, and the gate fails when a verdict does. Starting and stopping server
  processes and executing the benchmark binary are the operations of an environment whose state is
  threaded through every call; log lines on standard error are left out.
\<close>

section \<open>Verdicts and results\<close>

datatype verdict = NoVerdict | OK | Regression | Faster | HeadFailed | BaseFailed

fun verdict_text :: "verdict \<Rightarrow> string" where
  "verdict_text NoVerdict = []"
| "verdict_text OK = ''ok''"
| "verdict_text Regression = ''REGRESSION''"
| "verdict_text Faster = ''faster''"
| "verdict_text HeadFailed = ''HEAD FAILED''"
| "verdict_text BaseFailed = ''base failed''"

definition failsGate :: "verdict \<Rightarrow> bool" where
  "failsGate v \<longleftrightarrow> v = Regression \<or> v = HeadFailed"

record benchResult =
  br_Name :: string
  br_Iterations :: int
  br_Base :: "float64 list"
  br_Head :: "float64 list"
  br_BaseMedian :: float64
  br_HeadMedian :: float64
  br_Delta :: float64
  br_PSlower :: float64
  br_PFaster :: float64
  br_BaseError :: string
  br_HeadError :: string
  br_Verdict :: verdict

definition newResult :: "string \<Rightarrow> benchResult" where
  "newResult name = \<lparr>br_Name = name, br_Iterations = 0, br_Base = [], br_Head = [],
     br_BaseMedian = FZero False, br_HeadMedian = FZero False, br_Delta = FZero False,
     br_PSlower = FZero False, br_PFaster = FZero False, br_BaseError = [], br_HeadError = [],
     br_Verdict = NoVerdict\<rparr>"

definition failed :: "benchResult \<Rightarrow> bool" where
  "failed r \<longleftrightarrow> br_BaseError r \<noteq> [] \<or> br_HeadError r \<noteq> []"

text \<open>The flags of the command; durations are nanoseconds, with the text Go prints for them.\<close>

record gate_flags =
  gf_baseBin :: string
  gf_headBin :: string
  gf_dataRoot :: string
  gf_benchFilter :: string
  gf_shard :: int
  gf_shards :: int
  gf_samples :: int
  gf_confirmSamples :: int
  gf_calibrate :: int
  gf_calibrateText :: string
  gf_threshold :: float64
  gf_alpha :: float64
  gf_basePort :: int
  gf_headPort :: int
  gf_benchTimeoutText :: string
  gf_summaryPath :: string
  gf_jsonPath :: string

definition judge :: "gate_flags \<Rightarrow> benchResult \<Rightarrow> verdict \<times> benchResult" where
  "judge F r =
     (if br_HeadError r \<noteq> [] then (HeadFailed, r)
      else if br_BaseError r \<noteq> [] then (BaseFailed, r)
      else
        let r = r\<lparr>br_BaseMedian := median (br_Base r), br_HeadMedian := median (br_Head r)\<rparr>;
            r = (if float_less (FZero False) (br_BaseMedian r)
                 then r\<lparr>br_Delta := float_sub (float_div (br_HeadMedian r) (br_BaseMedian r)) (FFin 1)\<rparr>
                 else r);
            r = r\<lparr>br_PSlower := slowerPValue (br_Base r) (br_Head r),
                  br_PFaster := slowerPValue (br_Head r) (br_Base r)\<rparr>
        in (if float_less (gf_threshold F) (br_Delta r) \<and> float_less (br_PSlower r) (gf_alpha F)
            then Regression
            else if float_less (br_Delta r) (float_neg (gf_threshold F)) \<and>
                    float_less (br_PFaster r) (gf_alpha F)
            then Faster else OK, r))"

section \<open>Sharding\<close>

definition benchWeight :: "string \<Rightarrow> int" where
  "benchWeight name = (if contains name ''50K'' then 6 else if contains name ''10K'' then 2 else 1)"

definition heaviest_first :: "string list \<Rightarrow> string list" where
  "heaviest_first names = sort_key (\<lambda>n. (- benchWeight n, n)) names"

definition lightest :: "int list \<Rightarrow> nat" where
  "lightest load = foldl (\<lambda>l s. if load ! s < load ! l then s else l) 0 [1..<length load]"

definition deal :: "nat \<Rightarrow> int list \<times> string list \<Rightarrow> string \<Rightarrow> int list \<times> string list" where
  "deal index st name =
     (let (load, mine) = st; l = lightest load
      in (load[l := load ! l + benchWeight name], if l = index then mine @ [name] else mine))"

definition assignShard :: "string list \<Rightarrow> nat \<Rightarrow> nat \<Rightarrow> string list" where
  "assignShard names index shards =
     sort (snd (foldl (deal index) (replicate shards 0, []) (heaviest_first names)))"

section \<open>Failures\<close>

definition uninformative :: "string \<Rightarrow> bool" where
  "uninformative line \<longleftrightarrow> line = [] \<or> line = ''FAIL'' \<or> HasPrefix line ''exit status'' \<or>
     HasPrefix line ''goos:'' \<or> HasPrefix line ''goarch:'' \<or> HasPrefix line ''pkg:'' \<or>
     HasPrefix line ''cpu:''"

definition errorSummary :: "string \<Rightarrow> string" where
  "errorSummary msg =
     (let keep = filter (\<lambda>l. \<not> uninformative l) (map TrimSpace (split_lines msg));
          keep = drop (length keep - 3) keep;
          msg = join '' | '' keep
      in if 400 < length msg then take 400 msg @ ''...'' else msg)"

text \<open>A benchmark's failure: the text of its error, and whether \<open>errors.Is\<close> finds the timeout.\<close>

datatype bench_error = BenchTimeout string | BenchFailure string

fun bench_error_text :: "bench_error \<Rightarrow> string" where
  "bench_error_text (BenchTimeout s) = s"
| "bench_error_text (BenchFailure s) = s"

section \<open>Running one benchmark\<close>

text \<open>What executing the benchmark binary gives: its deadline passed, or its exit error, if any,
  and its output. A started server is a value of the environment's.\<close>

datatype run_outcome = RunTimedOut | RunExited "string option" string

record ('s, 'e) gate_env =
  ge_compile :: "'e \<Rightarrow> (goerror \<times> string) option \<times> 'e"
  ge_list :: "string \<Rightarrow> 'e \<Rightarrow> (goerror + string) \<times> 'e"
  ge_start :: "string \<Rightarrow> string \<Rightarrow> int \<Rightarrow> string \<Rightarrow> 'e \<Rightarrow> (goerror + 's) \<times> 'e"
  ge_alive :: "'s \<Rightarrow> 'e \<Rightarrow> bool \<times> 'e"
  ge_stop :: "'s \<Rightarrow> 'e \<Rightarrow> 'e"
  ge_logPath :: "'s \<Rightarrow> string"
  ge_exec :: "string \<Rightarrow> 's \<Rightarrow> string \<Rightarrow> 'e \<Rightarrow> run_outcome \<times> 'e"
  ge_summary :: "string \<Rightarrow> 'e \<Rightarrow> goerror option \<times> 'e"
  ge_json :: "benchResult list \<Rightarrow> 'e \<Rightarrow> goerror option \<times> 'e"
  ge_quote :: "string \<Rightarrow> string"
  ge_to_int :: "float64 \<Rightarrow> int"

definition re_space :: "char \<Rightarrow> bool" where
  "re_space c \<longleftrightarrow> c \<in> {CHR 0x09, CHR 0x0A, CHR 0x0C, CHR 0x0D, CHR 0x20}"

text \<open>The pattern \<open>resultLine\<close>: the name without its processor count, and the nanoseconds.\<close>

definition strip_procs :: "string \<Rightarrow> string" where
  "strip_procs w =
     (let (ds, rest) = span is_digit (rev w)
      in if ds \<noteq> [] \<and> rest \<noteq> [] \<and> hd rest = CHR ''-'' \<and> tl rest \<noteq> [] then rev (tl rest) else w)"

definition resultLine :: "string \<Rightarrow> (string \<times> string) option" where
  "resultLine l =
     (let (token, l) = span (\<lambda>c. \<not> re_space c) l; (sp1, l) = span re_space l;
          (digits, l) = span is_digit l; (sp2, l) = span re_space l;
          (ns, l) = span (\<lambda>c. is_digit c \<or> c = CHR ''.'') l
      in if HasPrefix token ''Benchmark'' \<and> length ''Benchmark'' < length token \<and> sp1 \<noteq> [] \<and>
            digits \<noteq> [] \<and> sp2 \<noteq> [] \<and> ns \<noteq> [] \<and> HasPrefix l '' ns/op''
         then Some (''Benchmark'' @ strip_procs (drop 9 token), ns) else None)"

definition measured :: "string \<Rightarrow> string \<Rightarrow> float64 option" where
  "measured name out =
     foldl (\<lambda>found l. case resultLine l of
                        Some (n, ns) \<Rightarrow> if n = name then Some (parse_decimal ns) else found
                      | None \<Rightarrow> found) None (scan_lines out)"

definition runBenchmark :: "('s, 'e) gate_env \<Rightarrow> gate_flags \<Rightarrow> string \<Rightarrow> string \<Rightarrow> 's \<Rightarrow> string \<Rightarrow> 'e \<Rightarrow>
    (float64 \<times> bool \<times> bench_error option) \<times> 'e" where
  "runBenchmark E F name label srv benchtime e =
     (let (alive, e) = ge_alive E srv e in
      if \<not> alive
      then ((FZero False, False, Some (BenchFailure (label @ '' server is not running; log: '' @
               ge_logPath E srv))), e)
      else let (outcome, e) = ge_exec E name srv benchtime e in
      case outcome of
        RunTimedOut \<Rightarrow>
          ((FZero False, False, Some (BenchTimeout (name @ '' on '' @ label @ '': timed out after '' @
              gf_benchTimeoutText F))), e)
      | RunExited (Some err) out \<Rightarrow>
          ((FZero False, False, Some (BenchFailure (name @ '' on '' @ label @ '': '' @ err @
              [CHR 0x0A] @ out))), e)
      | RunExited None out \<Rightarrow>
          (case measured name out of
             None \<Rightarrow> ((FZero False, True, None), e)
           | Some ns \<Rightarrow> ((ns, False, None), e)))"

section \<open>Targets\<close>

record 's target =
  tg_label :: string
  tg_bin :: string
  tg_port :: int
  tg_srv :: "'s option"

text \<open>For a data root that is a clean path.\<close>

definition roundDataDir :: "string \<Rightarrow> string \<Rightarrow> int \<Rightarrow> string" where
  "roundDataDir root_dir label rnd = root_dir @ ''/'' @ label @ ''-round'' @ itoa_pad 2 rnd"

definition start_target :: "('s, 'e) gate_env \<Rightarrow> gate_flags \<Rightarrow> int \<Rightarrow> 's target \<Rightarrow> 'e \<Rightarrow>
    goerror option \<times> 's target \<times> 'e" where
  "start_target E F rnd t e =
     (let (res, e) = ge_start E (tg_label t) (tg_bin t) (tg_port t)
            (roundDataDir (gf_dataRoot F) (tg_label t) rnd) e
      in case res of
           Inl err \<Rightarrow> (Some err, t\<lparr>tg_srv := None\<rparr>, e)
         | Inr srv \<Rightarrow> (None, t\<lparr>tg_srv := Some srv\<rparr>, e))"

definition ensure :: "('s, 'e) gate_env \<Rightarrow> gate_flags \<Rightarrow> int \<Rightarrow> 's target \<Rightarrow> 'e \<Rightarrow>
    goerror option \<times> 's target \<times> 'e" where
  "ensure E F rnd t e =
     (case tg_srv t of
        None \<Rightarrow> start_target E F rnd t e
      | Some srv \<Rightarrow>
          let (alive, e) = ge_alive E srv e
          in if alive then (None, t, e) else start_target E F rnd t (ge_stop E srv e))"

definition stop_target :: "('s, 'e) gate_env \<Rightarrow> 's target \<Rightarrow> 'e \<Rightarrow> 'e" where
  "stop_target E t e = (case tg_srv t of None \<Rightarrow> e | Some srv \<Rightarrow> ge_stop E srv e)"

definition run_target :: "('s, 'e) gate_env \<Rightarrow> gate_flags \<Rightarrow> string \<Rightarrow> string \<Rightarrow> int \<Rightarrow> 's target \<Rightarrow> 'e \<Rightarrow>
    (goerror + float64 \<times> bool \<times> bench_error option) \<times> 's target \<times> 'e" where
  "run_target E F name benchtime rnd t e =
     (let (err, t, e) = ensure E F rnd t e in
      case err of
        Some x \<Rightarrow> (Inl x, t, e)
      | None \<Rightarrow>
          let srv = the (tg_srv t);
              (res, e) = runBenchmark E F name (tg_label t) srv benchtime e;
              e = (case snd (snd res) of Some (BenchTimeout _) \<Rightarrow> ge_stop E srv e | _ \<Rightarrow> e)
          in (Inr res, t, e))"

text \<open>Both builds' servers and the environment; a build is true for head.\<close>

record ('s, 'e) lab =
  lb_base :: "'s target"
  lb_head :: "'s target"
  lb_env :: 'e

definition newTargets :: "gate_flags \<Rightarrow> 'e \<Rightarrow> ('s, 'e) lab" where
  "newTargets F e =
     \<lparr>lb_base = \<lparr>tg_label = ''base'', tg_bin = gf_baseBin F, tg_port = gf_basePort F, tg_srv = None\<rparr>,
      lb_head = \<lparr>tg_label = ''head'', tg_bin = gf_headBin F, tg_port = gf_headPort F, tg_srv = None\<rparr>,
      lb_env = e\<rparr>"

definition lab_run :: "('s, 'e) gate_env \<Rightarrow> gate_flags \<Rightarrow> string \<Rightarrow> string \<Rightarrow> int \<Rightarrow> bool \<Rightarrow> ('s, 'e) lab \<Rightarrow>
    (goerror + float64 \<times> bool \<times> bench_error option) \<times> ('s, 'e) lab" where
  "lab_run E F name benchtime rnd head lb =
     (let (res, t, e) = run_target E F name benchtime rnd (if head then lb_head lb else lb_base lb)
                          (lb_env lb)
      in (res, if head then lb\<lparr>lb_head := t, lb_env := e\<rparr> else lb\<lparr>lb_base := t, lb_env := e\<rparr>))"

text \<open>The deferred stops, head first.\<close>

definition lab_stop :: "('s, 'e) gate_env \<Rightarrow> ('s, 'e) lab \<Rightarrow> 'e" where
  "lab_stop E lb = stop_target E (lb_base lb) (stop_target E (lb_head lb) (lb_env lb))"

section \<open>Calibration\<close>

definition set_error :: "bool \<Rightarrow> string \<Rightarrow> benchResult \<Rightarrow> benchResult" where
  "set_error head msg r = (if head then r\<lparr>br_HeadError := msg\<rparr> else r\<lparr>br_BaseError := msg\<rparr>)"

definition iterations_for :: "('s, 'e) gate_env \<Rightarrow> gate_flags \<Rightarrow> float64 \<Rightarrow> int" where
  "iterations_for E F nsPerOp =
     (let perOp = float_to_int64 (ge_to_int E) nsPerOp;
          n = (if 0 < perOp then gf_calibrate F div perOp else 1)
      in max n 1)"

definition calibrate_one :: "('s, 'e) gate_env \<Rightarrow> gate_flags \<Rightarrow> string \<Rightarrow> ('s, 'e) lab \<Rightarrow>
    (goerror + benchResult option) \<times> ('s, 'e) lab" where
  "calibrate_one E F name lb =
     (let finish = (\<lambda>r nsPerOp skipped.
            if skipped then None
            else Some (if failed r then r else r\<lparr>br_Iterations := iterations_for E F nsPerOp\<rparr>));
          (res, lb) = lab_run E F name (gf_calibrateText F) 0 False lb
      in case res of
           Inl err \<Rightarrow> (Inl err, lb)
         | Inr (ns, skipped, None) \<Rightarrow> (Inr (finish (newResult name) ns skipped), lb)
         | Inr (_, _, Some b) \<Rightarrow>
             let r = set_error False (errorSummary (bench_error_text b)) (newResult name);
                 (res, lb) = lab_run E F name (gf_calibrateText F) 0 True lb
             in case res of
                  Inl err \<Rightarrow> (Inl err, lb)
                | Inr (ns, skipped, None) \<Rightarrow> (Inr (finish r ns skipped), lb)
                | Inr (ns, skipped, Some h) \<Rightarrow>
                    (Inr (finish (set_error True (errorSummary (bench_error_text h)) r) ns skipped), lb))"

fun calibrate_all :: "('s, 'e) gate_env \<Rightarrow> gate_flags \<Rightarrow> string list \<Rightarrow> (string \<times> benchResult) list \<Rightarrow>
    ('s, 'e) lab \<Rightarrow> (goerror + (string \<times> benchResult) list) \<times> ('s, 'e) lab" where
  "calibrate_all E F [] results lb = (Inr results, lb)"
| "calibrate_all E F (name # names) results lb =
     (case calibrate_one E F name lb of
        (Inl err, lb) \<Rightarrow> (Inl err, lb)
      | (Inr None, lb) \<Rightarrow> calibrate_all E F names results lb
      | (Inr (Some r), lb) \<Rightarrow> calibrate_all E F names (AList.update name r results) lb)"

definition calibrateIterations :: "('s, 'e) gate_env \<Rightarrow> gate_flags \<Rightarrow> string list \<Rightarrow> 'e \<Rightarrow>
    (goerror + (string \<times> benchResult) list) \<times> 'e" where
  "calibrateIterations E F names e =
     (let (res, lb) = calibrate_all E F names [] (newTargets F e) in (res, lab_stop E lb))"

section \<open>Sampling\<close>

definition add_sample :: "bool \<Rightarrow> float64 \<Rightarrow> benchResult \<Rightarrow> benchResult" where
  "add_sample head ns r =
     (if head then r\<lparr>br_Head := br_Head r @ [ns]\<rparr> else r\<lparr>br_Base := br_Base r @ [ns]\<rparr>)"

fun sample_targets :: "('s, 'e) gate_env \<Rightarrow> gate_flags \<Rightarrow> string \<Rightarrow> string \<Rightarrow> int \<Rightarrow> bool list \<Rightarrow>
    benchResult \<Rightarrow> ('s, 'e) lab \<Rightarrow> goerror option \<times> benchResult \<times> ('s, 'e) lab" where
  "sample_targets E F name benchtime rnd [] r lb = (None, r, lb)"
| "sample_targets E F name benchtime rnd (t # ts) r lb =
     (case lab_run E F name benchtime rnd t lb of
        (Inl err, lb) \<Rightarrow> (Some err, r, lb)
      | (Inr (ns, skipped, benchErr), lb) \<Rightarrow>
          let benchErr = (if benchErr = None \<and> skipped
                          then Some (BenchFailure ''skipped after calibrating'') else benchErr)
          in case benchErr of
               Some b \<Rightarrow> (None, set_error t (errorSummary (bench_error_text b)) r, lb)
             | None \<Rightarrow> sample_targets E F name benchtime rnd ts (add_sample t ns r) lb)"

definition run_order :: "int \<Rightarrow> bool list" where
  "run_order rnd = (if rnd mod 2 = 0 then [True, False] else [False, True])"

definition sample_one :: "('s, 'e) gate_env \<Rightarrow> gate_flags \<Rightarrow> int \<Rightarrow> string \<Rightarrow> benchResult \<Rightarrow>
    ('s, 'e) lab \<Rightarrow> goerror option \<times> benchResult \<times> ('s, 'e) lab" where
  "sample_one E F rnd name r lb =
     (if failed r then (None, r, lb)
      else sample_targets E F name (itoa (br_Iterations r) @ ''x'') rnd (run_order rnd) r lb)"

fun sample_all :: "('s, 'e) gate_env \<Rightarrow> gate_flags \<Rightarrow> int \<Rightarrow> string list \<Rightarrow>
    (string \<times> benchResult) list \<Rightarrow> ('s, 'e) lab \<Rightarrow>
    goerror option \<times> (string \<times> benchResult) list \<times> ('s, 'e) lab" where
  "sample_all E F rnd [] results lb = (None, results, lb)"
| "sample_all E F rnd (name # names) results lb =
     (let (err, r, lb) = sample_one E F rnd name (the (map_of results name)) lb;
          results = AList.update name r results
      in case err of
           Some x \<Rightarrow> (Some x, results, lb)
         | None \<Rightarrow> sample_all E F rnd names results lb)"

definition lab_ensure :: "('s, 'e) gate_env \<Rightarrow> gate_flags \<Rightarrow> int \<Rightarrow> bool \<Rightarrow> ('s, 'e) lab \<Rightarrow>
    goerror option \<times> ('s, 'e) lab" where
  "lab_ensure E F rnd head lb =
     (let (err, t, e) = ensure E F rnd (if head then lb_head lb else lb_base lb) (lb_env lb)
      in (err, if head then lb\<lparr>lb_head := t, lb_env := e\<rparr> else lb\<lparr>lb_base := t, lb_env := e\<rparr>))"

definition sampleRound :: "('s, 'e) gate_env \<Rightarrow> gate_flags \<Rightarrow> string list \<Rightarrow> int \<Rightarrow>
    (string \<times> benchResult) list \<Rightarrow> 'e \<Rightarrow> goerror option \<times> (string \<times> benchResult) list \<times> 'e" where
  "sampleRound E F names rnd results e =
     (let (err, results, lb) =
        (case lab_ensure E F rnd False (newTargets F e) of
           (Some x, lb) \<Rightarrow> (Some x, results, lb)
         | (None, lb) \<Rightarrow>
             (case lab_ensure E F rnd True lb of
                (Some x, lb) \<Rightarrow> (Some x, results, lb)
              | (None, lb) \<Rightarrow> sample_all E F rnd names results lb))
      in (err, results, lab_stop E lb))"

text \<open>The round number is the caller's variable: it is returned with the results.\<close>

fun sampleRounds :: "('s, 'e) gate_env \<Rightarrow> gate_flags \<Rightarrow> string list \<Rightarrow> nat \<Rightarrow> int \<Rightarrow>
    (string \<times> benchResult) list \<Rightarrow> 'e \<Rightarrow>
    goerror option \<times> int \<times> (string \<times> benchResult) list \<times> 'e" where
  "sampleRounds E F names 0 rnd results e = (None, rnd, results, e)"
| "sampleRounds E F names (Suc n) rnd results e =
     (case sampleRound E F names rnd results e of
        (Some err, results, e) \<Rightarrow> (Some err, rnd, results, e)
      | (None, results, e) \<Rightarrow> sampleRounds E F names n (rnd + 1) results e)"

section \<open>The report\<close>

abbreviation nl :: string where "nl \<equiv> [CHR 0x0A]"

definition verdict_count :: "verdict \<Rightarrow> benchResult list \<Rightarrow> int" where
  "verdict_count v rs = int (length (filter (\<lambda>r. br_Verdict r = v) rs))"

definition ms :: "float64 \<Rightarrow> string" where
  "ms x = fmt_fixed False 3 (float_div x (FFin 1000000))"

definition report_row :: "benchResult \<Rightarrow> string" where
  "report_row r =
     (let name = TrimPrefix (br_Name r) ''Benchmark'' in
      if failed r
      then ''| '' @ name @ '' | - | - | - | - | - | '' @ verdict_text (br_Verdict r) @ '' |'' @ nl
      else
        let p = (if float_less (br_Delta r) (FZero False) then br_PFaster r else br_PSlower r)
        in ''| '' @ name @ '' | '' @ ms (br_BaseMedian r) @ '' | '' @ ms (br_HeadMedian r) @ '' | '' @
           fmt_fixed True 1 (float_mul (br_Delta r) (FFin 100)) @ ''% | '' @ fmt_fixed False 3 p @
           '' | '' @ itoa (int (length (br_Head r))) @ '' | '' @ verdict_text (br_Verdict r) @ '' |'' @ nl)"

definition failure_lines :: "benchResult \<Rightarrow> string list" where
  "failure_lines r =
     (let line = (\<lambda>build msg. ''- `'' @ br_Name r @ ''` on '' @ build @ '': `'' @ msg @ ''`'')
      in (if br_HeadError r \<noteq> [] then [line ''head'' (br_HeadError r)] else []) @
         (if br_BaseError r \<noteq> [] then [line ''base'' (br_BaseError r)] else []))"

definition base_failed_note :: "int \<Rightarrow> string" where
  "base_failed_note n =
     (if 0 < n then itoa n @ '' benchmark(s) fail on base but pass on head; they are not compared.'' @
        nl @ nl else [])"

definition markdownReport :: "gate_flags \<Rightarrow> benchResult list \<Rightarrow> string \<Rightarrow> string" where
  "markdownReport F rs elapsed =
     (let percent = fmt_fixed False 0 (float_mul (gf_threshold F) (FFin 100));
          alpha = fmt_fixed False 2 (gf_alpha F);
          slower = verdict_count Regression rs; headFailed = verdict_count HeadFailed rs;
          baseFailed = verdict_count BaseFailed rs; failures = concat (map failure_lines rs)
      in ''## Performance: shard '' @ itoa (gf_shard F + 1) @ ''/'' @ itoa (gf_shards F) @ nl @ nl @
         (if 0 < slower
          then ''**'' @ itoa slower @ '' regression(s)**: head median more than '' @ percent @
               ''% slower than base with p < '' @ alpha @ ''.'' @ nl @ nl
          else ''No regressions (threshold '' @ percent @ ''%, p < '' @ alpha @ '').'' @ nl @ nl) @
         (if 0 < headFailed
          then ''**'' @ itoa headFailed @ '' benchmark(s) fail on head.**'' @ nl @ nl else []) @
         base_failed_note baseFailed @
         ''| Benchmark | Base (ms/op) | Head (ms/op) | Change | p | Samples | Verdict |'' @ nl @
         ''|---|---:|---:|---:|---:|---:|---|'' @ nl @
         concat (map report_row rs) @
         (if failures \<noteq> []
          then nl @ ''### Failures'' @ nl @ nl @ join nl failures @ nl else []) @
         nl @ itoa (int (length rs)) @ '' benchmarks in '' @ elapsed @ ''.'' @ nl @ nl)"

section \<open>The gate\<close>

definition listBenchmarks :: "('s, 'e) gate_env \<Rightarrow> gate_flags \<Rightarrow> 'e \<Rightarrow> (goerror + string list) \<times> 'e" where
  "listBenchmarks E F e =
     (case ge_list E (gf_benchFilter F) e of
        (Inl err, e) \<Rightarrow> (Inl (ErrWrap ''list benchmarks: '' err), e)
      | (Inr out, e) \<Rightarrow>
          let names = map TrimSpace (filter (\<lambda>l. HasPrefix l ''Benchmark'') (split_lines out))
          in (if names = []
              then Inl (ErrText (''no benchmarks match '' @ ge_quote E (gf_benchFilter F)))
              else Inr names, e))"

definition judge_one :: "gate_flags \<Rightarrow> benchResult \<Rightarrow> benchResult" where
  "judge_one F r = (let (v, r) = judge F r in r\<lparr>br_Verdict := v\<rparr>)"

definition listed_before :: "benchResult \<Rightarrow> benchResult \<Rightarrow> bool" where
  "listed_before x y \<longleftrightarrow>
     (if failsGate (br_Verdict x) \<noteq> failsGate (br_Verdict y) then failsGate (br_Verdict x)
      else float_less (br_Delta y) (br_Delta x))"

fun insert_result :: "benchResult \<Rightarrow> benchResult list \<Rightarrow> benchResult list" where
  "insert_result x [] = [x]"
| "insert_result x (y # ys) = (if listed_before y x then y # insert_result x ys else x # y # ys)"

definition judged :: "gate_flags \<Rightarrow> string list \<Rightarrow> (string \<times> benchResult) list \<Rightarrow> benchResult list" where
  "judged F names results = map (\<lambda>n. judge_one F (the (map_of results n))) names"

text \<open>The first pass over the results: judging fills the medians in, and collects the suspects.\<close>

definition pre_judge :: "gate_flags \<Rightarrow> string list \<Rightarrow> (string \<times> benchResult) list \<Rightarrow>
    string list \<times> (string \<times> benchResult) list" where
  "pre_judge F names results =
     (filter (\<lambda>n. fst (judge F (the (map_of results n))) = Regression) names,
      map (\<lambda>(n, r). (n, if n \<in> set names then snd (judge F r) else r)) results)"

definition publish :: "('s, 'e) gate_env \<Rightarrow> gate_flags \<Rightarrow> string \<Rightarrow> benchResult list \<Rightarrow> 'e \<Rightarrow>
    goerror option \<times> 'e" where
  "publish E F report ordered e =
     (let (err, e) = (if gf_summaryPath F \<noteq> [] then ge_summary E report e else (None, e)) in
      case err of
        Some x \<Rightarrow> (Some x, e)
      | None \<Rightarrow> if gf_jsonPath F \<noteq> [] then ge_json E ordered e else (None, e))"

definition measure_all :: "('s, 'e) gate_env \<Rightarrow> gate_flags \<Rightarrow> string list \<Rightarrow> 'e \<Rightarrow>
    (goerror + benchResult list) \<times> 'e" where
  "measure_all E F names e =
     (case calibrateIterations E F names e of
        (Inl err, e) \<Rightarrow> (Inl err, e)
      | (Inr results, e) \<Rightarrow>
          let names = sort (map fst results) in
          case sampleRounds E F names (nat (gf_samples F)) 1 results e of
            (Some err, _, _, e) \<Rightarrow> (Inl err, e)
          | (None, rnd, results, e) \<Rightarrow>
              let (suspects, results) = pre_judge F names results in
              if suspects \<noteq> [] \<and> 0 < gf_confirmSamples F
              then case sampleRounds E F suspects (nat (gf_confirmSamples F)) rnd results e of
                     (Some err, _, _, e) \<Rightarrow> (Inl err, e)
                   | (None, _, results, e) \<Rightarrow> (Inr (judged F names results), e)
              else (Inr (judged F names results), e))"

definition run :: "('s, 'e) gate_env \<Rightarrow> gate_flags \<Rightarrow> string \<Rightarrow> 'e \<Rightarrow>
    (goerror + bool \<times> string \<times> benchResult list) \<times> 'e" where
  "run E F elapsed e =
     (if gf_baseBin F = [] \<or> gf_headBin F = [] \<or> gf_dataRoot F = []
      then (Inl (ErrText ''-base-bin, -head-bin, and -data-root are required''), e)
      else if gf_shard F < 0 \<or> gf_shards F \<le> gf_shard F
      then (Inl (ErrText (''-shard '' @ itoa (gf_shard F) @ '' out of range for -shards '' @
              itoa (gf_shards F))), e)
      else
        case ge_compile E e of
          (Some (err, out), e) \<Rightarrow>
            (Inl (ErrText (''compile benchmarks: '' @ error_text err @ nl @ out)), e)
        | (None, e) \<Rightarrow>
        case listBenchmarks E F e of
          (Inl err, e) \<Rightarrow> (Inl err, e)
        | (Inr all, e) \<Rightarrow>
        case measure_all E F (assignShard all (nat (gf_shard F)) (nat (gf_shards F))) e of
          (Inl err, e) \<Rightarrow> (Inl err, e)
        | (Inr results, e) \<Rightarrow>
            let regressed = list_ex (\<lambda>r. failsGate (br_Verdict r)) results;
                ordered = foldr insert_result results [];
                report = markdownReport F ordered elapsed
            in case publish E F report ordered e of
                 (Some err, e) \<Rightarrow> (Inl err, e)
               | (None, e) \<Rightarrow> (Inr (regressed, report, ordered), e))"

definition main_exit :: "goerror + bool \<times> string \<times> benchResult list \<Rightarrow> nat" where
  "main_exit res = (case res of Inl err \<Rightarrow> 2 | Inr (regressed, _) \<Rightarrow> if regressed then 1 else 0)"

end
