(* ===== verification/PerfGateFacts.thy ===== *)
theory PerfGateFacts
  imports PerfGate
begin

text \<open>
  What the performance gate guarantees: the shards partition the benchmarks with loads that differ
  by at most the heaviest benchmark, every compared result holds one sample per build and round,
  and a reported regression was measured in all the rounds there are.
\<close>

section \<open>Dealing benchmarks to shards\<close>

lemma lightest_fold:
  fixes load :: "int list"
  assumes "a < length load" "list_all (\<lambda>s. s < length load) xs"
  shows "foldl (\<lambda>l s. if load ! s < load ! l then s else l) a xs < length load \<and>
    list_all (\<lambda>s. load ! foldl (\<lambda>l s. if load ! s < load ! l then s else l) a xs \<le> load ! s) (a # xs)"
    (is "?P a xs")
  using assms
proof (induction xs arbitrary: a)
  case (Cons x xs)
  let ?b = "if load ! x < load ! a then x else a"
  have "?P ?b xs" using Cons by simp
  then show ?case by (auto split: if_splits)
qed simp

lemma lightest_minimal:
  assumes "load \<noteq> []"
  shows "lightest load < length load" "s < length load \<Longrightarrow> load ! lightest load \<le> load ! s"
proof -
  have "0 < length load" using assms by simp
  then have *: "lightest load < length load \<and>
      list_all (\<lambda>s. load ! lightest load \<le> load ! s) (0 # [1..<length load])"
    unfolding lightest_def by (intro lightest_fold) (auto simp: list_all_iff)
  then show "lightest load < length load" by simp
  assume "s < length load"
  then have "s \<in> set (0 # [1..<length load])" by (cases s) auto
  with * show "load ! lightest load \<le> load ! s" by (auto simp: list_all_iff)
qed

lemma benchWeight_bounds: "0 < benchWeight n" "benchWeight n \<le> 6"
  by (auto simp: benchWeight_def)

definition weight_of :: "string list \<Rightarrow> int" where
  "weight_of names = sum_list (map benchWeight names)"

lemma weight_of_mset: "mset xs = mset ys \<Longrightarrow> weight_of xs = weight_of ys"
  unfolding weight_of_def by (metis mset_map sum_mset_sum_list)

definition deals :: "nat \<Rightarrow> string list \<Rightarrow> nat \<Rightarrow> int list \<times> string list" where
  "deals shards names index = foldl (deal index) (replicate shards 0, []) names"

lemma deal_loads:
  "fst (deal index st n) =
     (let load = fst st; l = lightest load in load[l := load ! l + benchWeight n])"
  "snd (deal index st n) = (if lightest (fst st) = index then snd st @ [n] else snd st)"
  by (simp_all add: deal_def Let_def split: prod.splits)

lemma deals_nil: "deals shards [] index = (replicate shards 0, [])"
  by (simp add: deals_def)

lemma deals_snoc: "deals shards (names @ [n]) index = deal index (deals shards names index) n"
  by (simp add: deals_def)

text \<open>The loads do not depend on the shard that computes them.\<close>

lemma deals_loads: "fst (deals shards names i) = fst (deals shards names j)"
  by (induction names rule: rev_induct)
    (simp_all add: deals_nil deals_snoc deal_loads Let_def)

abbreviation loads :: "nat \<Rightarrow> string list \<Rightarrow> int list" where
  "loads shards names \<equiv> fst (deals shards names 0)"

lemma loads_length [simp]: "length (loads shards names) = shards"
  by (induction names rule: rev_induct)
    (simp_all add: deals_nil deals_snoc deal_loads Let_def)

lemma deals_step:
  "loads shards (names @ [n]) =
     (let l = lightest (loads shards names)
      in (loads shards names)[l := loads shards names ! l + benchWeight n])"
  "snd (deals shards (names @ [n]) i) =
     (if lightest (loads shards names) = i then snd (deals shards names i) @ [n]
      else snd (deals shards names i))"
  using deals_loads[of shards names i 0]
  by (simp_all add: deals_snoc deal_loads Let_def)

lemma deals_weight:
  assumes "i < shards"
  shows "weight_of (snd (deals shards names i)) = loads shards names ! i"
proof (induction names rule: rev_induct)
  case Nil
  then show ?case using assms by (simp add: deals_def weight_of_def)
next
  case (snoc n names)
  then show ?case
    using assms lightest_minimal(1)[of "loads shards names"]
    by (auto simp: deals_step Let_def weight_of_def nth_list_update)
qed

lemma loads_even:
  assumes "i < shards" "j < shards"
  shows "loads shards names ! i \<le> loads shards names ! j + 6"
proof (induction names rule: rev_induct)
  case Nil
  then show ?case using assms by (simp add: deals_def)
next
  case (snoc n names)
  let ?L = "loads shards names"
  have ne: "?L \<noteq> []" using assms(1) loads_length[of shards names] by force
  have "?L ! lightest ?L \<le> ?L ! j" using lightest_minimal(2)[OF ne, of j] assms by simp
  then show ?case
    using snoc assms lightest_minimal(1)[OF ne] benchWeight_bounds[of n]
    by (auto simp: deals_step Let_def nth_list_update)
qed

lemma deals_partition:
  assumes "0 < shards"
  shows "(\<Sum>i\<in>{..<shards}. mset (snd (deals shards names i))) = mset names"
proof (induction names rule: rev_induct)
  case Nil
  then show ?case by (simp add: deals_def)
next
  case (snoc n names)
  let ?l = "lightest (loads shards names)"
  have l: "?l < shards"
    using lightest_minimal(1)[of "loads shards names"] assms
    by (metis length_greater_0_conv loads_length)
  have "mset (snd (deals shards (names @ [n]) i)) =
      mset (snd (deals shards names i)) + (if ?l = i then {#n#} else {#})" for i
    by (simp add: deals_step)
  then have "(\<Sum>i\<in>{..<shards}. mset (snd (deals shards (names @ [n]) i))) =
      (\<Sum>i\<in>{..<shards}. mset (snd (deals shards names i))) + (\<Sum>i\<in>{..<shards}. if ?l = i then {#n#} else {#})"
    by (simp add: sum.distrib)
  then show ?case using snoc l by simp
qed

lemma assignShard_deals: "assignShard names i shards = sort (snd (deals shards (heaviest_first names) i))"
  by (simp add: assignShard_def deals_def)

lemma assignShard_weight:
  "i < shards \<Longrightarrow> weight_of (assignShard names i shards) = loads shards (heaviest_first names) ! i"
  using deals_weight[of i shards] weight_of_mset[of "assignShard names i shards"]
  by (simp add: assignShard_deals)

text \<open>C34: dealing benchmarks to any positive number of shards gives every benchmark to exactly one
  shard, in sorted order, and the estimated loads of two shards never differ by more than the
  weight of the heaviest benchmark.\<close>

theorem assignShard_partitions:
  assumes "0 < shards"
  shows "mset (concat (map (\<lambda>i. assignShard names i shards) [0..<shards])) = mset names \<and>
    (\<forall>i < shards. sorted (assignShard names i shards) \<and>
      (\<forall>j < shards. weight_of (assignShard names i shards) \<le> weight_of (assignShard names j shards) + 6))"
proof -
  have "mset (concat (map (\<lambda>i. assignShard names i shards) [0..<shards])) =
      (\<Sum>i\<in>{..<shards}. mset (snd (deals shards (heaviest_first names) i)))"
    by (simp add: mset_concat comp_def assignShard_deals sum_list_distinct_conv_sum_set
        atLeast0LessThan)
  then show ?thesis
    using deals_partition[OF assms, of "heaviest_first names"] loads_even
    by (simp add: heaviest_first_def assignShard_weight) (simp add: assignShard_def)
qed

theorem assignShard_partitions_witness:
  "mset (concat (map (\<lambda>i. assignShard [''BenchmarkA'', ''BenchmarkB10K''] i 2) [0..<2])) =
    {#''BenchmarkA'', ''BenchmarkB10K''#}"
  using assignShard_partitions[of 2 "[''BenchmarkA'', ''BenchmarkB10K'']"] by simp

section \<open>Failures leave a message\<close>

definition letters :: string where "letters = ''Bbhs''"

lemma letters_no_space: "c \<in> set letters \<Longrightarrow> list_all (\<lambda>p. c \<notin> set p) space_runes"
proof -
  have "list_all (\<lambda>c. list_all (\<lambda>p. c \<notin> set p) space_runes) letters" by code_simp
  then show "c \<in> set letters \<Longrightarrow> ?thesis" by (simp add: list_all_iff)
qed

lemma trim_runes_stops:
  assumes "list_all (\<lambda>p. c \<notin> set p) rs"
  shows "trim_runes rs (c # s) = c # s"
proof -
  have "find (\<lambda>p. p \<noteq> [] \<and> HasPrefix (c # s) p) rs = None"
    using assms by (fastforce simp: find_None_iff list_all_iff HasPrefix_split Cons_eq_append_conv)
  then show ?thesis by (subst trim_runes.simps) simp
qed

lemma trim_runes_keeps:
  assumes "list_all (\<lambda>p. c \<notin> set p) rs"
  shows "\<exists>ys. trim_runes rs (xs @ [c]) = ys @ [c]"
proof (induction "length xs" arbitrary: xs rule: less_induct)
  case less
  show ?case
  proof (cases "find (\<lambda>p. p \<noteq> [] \<and> HasPrefix (xs @ [c]) p) rs")
    case None
    then show ?thesis by (subst trim_runes.simps) simp
  next
    case (Some p)
    then have p: "p \<in> set rs" "p \<noteq> []" "HasPrefix (xs @ [c]) p"
      by (auto simp: find_Some_iff)
    then obtain t where t: "xs @ [c] = p @ t" by (auto simp: HasPrefix_split)
    moreover have "c \<notin> set p" using p assms by (auto simp: list_all_iff)
    ultimately have "t \<noteq> []" by auto
    then obtain t' c' where "t = t' @ [c']" by (cases t rule: rev_cases) auto
    then have t': "xs = p @ t'" "t = t' @ [c]" using t by simp_all
    then have "trim_runes rs (xs @ [c]) = trim_runes rs (t' @ [c])"
      using Some by (subst trim_runes.simps) simp
    then show ?thesis using less[of t'] t' p(2) by simp
  qed
qed

lemma TrimSpace_head:
  assumes "c \<in> set letters"
  shows "\<exists>t. TrimSpace (c # s) = c # t"
proof -
  have "list_all (\<lambda>p. c \<notin> set p) (map rev space_runes)"
    using letters_no_space[OF assms] by (simp add: list_all_iff)
  then obtain ys where "trim_runes (map rev space_runes) (rev s @ [c]) = ys @ [c]"
    using trim_runes_keeps by blast
  then have "TrimSpace (c # s) = c # rev ys"
    using letters_no_space[OF assms] by (simp add: TrimSpace_def trim_runes_stops)
  then show ?thesis by blast
qed

lemma join_nonempty: "xs \<noteq> [] \<Longrightarrow> list_all (\<lambda>x. x \<noteq> []) xs \<Longrightarrow> join sep xs \<noteq> []"
  by (cases "(sep, xs)" rule: join.cases) auto

lemma errorSummary_nonempty:
  assumes "c \<in> set letters"
  shows "errorSummary (c # s) \<noteq> []"
proof -
  define keep where "keep = filter (\<lambda>l. \<not> uninformative l) (map TrimSpace (split_lines (c # s)))"
  have kept: "\<forall>x \<in> set keep. x \<noteq> []" by (auto simp: keep_def uninformative_def)
  obtain l ls where "split_lines (c # s) = (c # l) # ls"
    using assms by (cases "split_lines s") (auto simp: letters_def)
  moreover obtain t where "TrimSpace (c # l) = c # t" using TrimSpace_head[OF assms] by blast
  moreover have "\<not> uninformative (c # t)"
    using assms by (auto simp: letters_def uninformative_def HasPrefix_def)
  ultimately have "keep \<noteq> []" by (simp add: keep_def)
  then have "drop (length keep - 3) keep \<noteq> []" by (cases keep) simp_all
  moreover have "list_all (\<lambda>x. x \<noteq> []) (drop (length keep - 3) keep)"
    using kept by (auto simp: list_all_iff dest: in_set_dropD)
  ultimately show ?thesis
    using join_nonempty unfolding errorSummary_def keep_def[symmetric] by (auto simp: Let_def)
qed

section \<open>Sampling\<close>

definition named :: "string \<Rightarrow> bool" where
  "named n \<longleftrightarrow> n \<noteq> [] \<and> hd n = CHR ''B''"

definition labelled :: "('s, 'e) lab \<Rightarrow> bool" where
  "labelled lb \<longleftrightarrow> tg_label (lb_base lb) = ''base'' \<and> tg_label (lb_head lb) = ''head''"

definition measured_to :: "nat \<Rightarrow> benchResult \<Rightarrow> bool" where
  "measured_to k r \<longleftrightarrow> failed r \<or> length (br_Base r) = k \<and> length (br_Head r) = k"

lemma newTargets_labelled [simp]: "labelled (newTargets F e)"
  by (simp add: labelled_def newTargets_def)

lemma start_target_label: "start_target E F rnd t e = (err, t', e') \<Longrightarrow> tg_label t' = tg_label t"
  by (auto simp: start_target_def split: prod.splits sum.splits)

lemma ensure_label: "ensure E F rnd t e = (err, t', e') \<Longrightarrow> tg_label t' = tg_label t"
  by (auto simp: ensure_def start_target_label split: option.splits prod.splits if_splits)

lemma run_target_label:
  "run_target E F name benchtime rnd t e = (res, t', e') \<Longrightarrow> tg_label t' = tg_label t"
  by (auto simp: run_target_def Let_def dest!: ensure_label split: prod.splits option.splits)

lemma runBenchmark_error:
  assumes "runBenchmark E F name label srv benchtime e = ((ns, skipped, Some b), e')" "named name"
    and "label = ''base'' \<or> label = ''head''"
  shows "\<exists>c s. bench_error_text b = c # s \<and> c \<in> set letters"
  using assms
  by (cases name) (auto simp: runBenchmark_def letters_def named_def Let_def
      split: prod.splits if_splits run_outcome.splits option.splits)

lemma lab_run_labelled:
  "lab_run E F name benchtime rnd head lb = (res, lb') \<Longrightarrow> labelled lb \<Longrightarrow> labelled lb'"
  by (auto simp: lab_run_def labelled_def Let_def dest!: run_target_label split: prod.splits if_splits)

lemma lab_ensure_labelled:
  "lab_ensure E F rnd head lb = (err, lb') \<Longrightarrow> labelled lb \<Longrightarrow> labelled lb'"
  by (auto simp: lab_ensure_def labelled_def Let_def dest!: ensure_label split: prod.splits if_splits)

lemma run_target_error:
  assumes "run_target E F name benchtime rnd t e = (Inr (ns, skipped, Some b), t', e')" "named name"
    and "tg_label t = ''base'' \<or> tg_label t = ''head''"
  shows "errorSummary (bench_error_text b) \<noteq> []"
proof -
  obtain err t1 e1 where en: "ensure E F rnd t e = (err, t1, e1)" by (metis prod_cases3)
  obtain res e2 where rb: "runBenchmark E F name (tg_label t1) (the (tg_srv t1)) benchtime e1 = (res, e2)"
    by fastforce
  have "res = (ns, skipped, Some b)" using assms(1) en rb by (auto simp: run_target_def split: option.splits)
  with rb obtain c s where "bench_error_text b = c # s" "c \<in> set letters"
    using runBenchmark_error[of E F name "tg_label t1"] ensure_label[OF en] assms(2,3) by metis
  then show ?thesis using errorSummary_nonempty by simp
qed

lemma lab_run_error:
  assumes "lab_run E F name benchtime rnd head lb = (Inr (ns, skipped, Some b), lb')"
    and "labelled lb" "named name"
  shows "errorSummary (bench_error_text b) \<noteq> []"
proof -
  let ?t = "if head then lb_head lb else lb_base lb"
  obtain t' e' where "run_target E F name benchtime rnd ?t (lb_env lb) = (Inr (ns, skipped, Some b), t', e')"
    using assms(1) by (auto simp: lab_run_def split: prod.splits)
  then show ?thesis
    by (rule run_target_error) (use assms in \<open>auto simp: labelled_def\<close>)
qed

lemma skipped_error: "errorSummary ''skipped after calibrating'' \<noteq> []"
  by (rule errorSummary_nonempty) (simp add: letters_def)

lemma failed_set_error: "msg \<noteq> [] \<Longrightarrow> failed (set_error head msg r)"
  by (simp add: failed_def set_error_def)

lemma failed_add_sample [simp]: "failed (add_sample head ns r) = failed r"
  by (simp add: failed_def add_sample_def)

text \<open>Running the remaining builds of a round either fails the benchmark or adds one sample to
  each of them.\<close>

lemma sample_targets_measured:
  assumes "sample_targets E F name benchtime rnd ts r lb = (None, r', lb')"
    and "labelled lb" "named name"
  shows "labelled lb' \<and> (failed r' \<or>
    length (br_Base r') = length (br_Base r) + count_list ts False \<and>
    length (br_Head r') = length (br_Head r) + count_list ts True)"
  using assms
proof (induction ts arbitrary: r lb)
  case (Cons t ts)
  obtain res lb1 where run: "lab_run E F name benchtime rnd t lb = (res, lb1)" by fastforce
  with Cons.prems obtain ns skipped b where res: "res = Inr (ns, skipped, b)"
    by (auto split: sum.splits)
  have lb1: "labelled lb1" using lab_run_labelled[OF run] Cons.prems by simp
  show ?case
  proof (cases "b = None \<and> \<not> skipped")
    case True
    then have "sample_targets E F name benchtime rnd ts (add_sample t ns r) lb1 = (None, r', lb')"
      using Cons.prems(1) run res by simp
    from Cons.IH[OF this lb1 Cons.prems(3)] show ?thesis by (auto simp: add_sample_def)
  next
    case False
    then have "failed r' \<and> lb' = lb1"
      using Cons.prems run res lab_run_error[of E F name benchtime rnd t lb ns skipped _ lb1]
      by (cases b) (auto intro: failed_set_error simp: skipped_error)
    with lb1 show ?thesis by simp
  qed
qed simp

lemma sample_one_measured:
  assumes "sample_one E F rnd name r lb = (None, r', lb')"
    and "labelled lb" "named name" "measured_to k r"
  shows "labelled lb' \<and> measured_to (Suc k) r'"
proof (cases "failed r")
  case True
  then show ?thesis using assms by (auto simp: sample_one_def measured_to_def)
next
  case False
  then have "sample_targets E F name (itoa (br_Iterations r) @ ''x'') rnd (run_order rnd) r lb =
      (None, r', lb')"
    using assms(1) by (simp add: sample_one_def)
  from sample_targets_measured[OF this assms(2,3)] show ?thesis
    using False assms(4) by (auto simp: measured_to_def run_order_def split: if_splits)
qed

abbreviation result_of :: "(string \<times> benchResult) list \<Rightarrow> string \<Rightarrow> benchResult" where
  "result_of results n \<equiv> the (map_of results n)"

text \<open>What sampling a list of benchmarks \<open>j\<close> more times does to the results.\<close>

definition sampled :: "nat \<Rightarrow> string list \<Rightarrow> (string \<times> benchResult) list \<Rightarrow>
    (string \<times> benchResult) list \<Rightarrow> bool" where
  "sampled j names results results' \<longleftrightarrow>
     map fst results' = map fst results \<and>
     (\<forall>n. n \<notin> set names \<longrightarrow> map_of results' n = map_of results n) \<and>
     (\<forall>n k. n \<in> set names \<longrightarrow> measured_to k (result_of results n) \<longrightarrow>
        measured_to (j + k) (result_of results' n))"

definition sampleable :: "string list \<Rightarrow> (string \<times> benchResult) list \<Rightarrow> bool" where
  "sampleable names results \<longleftrightarrow> distinct names \<and> set names \<subseteq> fst ` set results \<and> list_all named names"

lemma sampled_zero: "sampled 0 names results results"
  by (simp add: sampled_def)

lemma sampled_trans:
  "sampled i names r1 r2 \<Longrightarrow> sampled j names r2 r3 \<Longrightarrow> sampled (i + j) names r1 r3"
  unfolding sampled_def by (metis add.commute add.left_commute)

lemma sampled_keys: "sampled j names r1 r2 \<Longrightarrow> fst ` set r2 = fst ` set r1"
  unfolding sampled_def by (metis list.set_map)

lemma sample_all_sampled:
  assumes "sample_all E F rnd names results lb = (None, results', lb')"
    and "labelled lb" "sampleable names results"
  shows "sampled 1 names results results'"
  using assms
proof (induction names arbitrary: results lb)
  case Nil
  then show ?case by (simp add: sampled_def)
next
  case (Cons n names)
  obtain err r lb1 where one: "sample_one E F rnd n (result_of results n) lb = (err, r, lb1)"
    by (metis prod_cases3)
  let ?results = "AList.update n r results"
  have err: "err = None" and rest: "sample_all E F rnd names ?results lb1 = (None, results', lb')"
    using Cons.prems(1) one by (auto simp: Let_def split: option.splits)
  have named: "named n" and keys: "map fst ?results = map fst results"
    using Cons.prems(3) by (auto simp: sampleable_def update_keys)
  have r: "measured_to k (result_of results n) \<Longrightarrow> labelled lb1 \<and> measured_to (Suc k) r" for k
    using sample_one_measured[of E F rnd n "result_of results n" lb r lb1] one err named Cons.prems(2)
    by blast
  have lb1: "labelled lb1"
  proof (cases "failed (result_of results n)")
    case True
    then show ?thesis using one Cons.prems(2) by (simp add: sample_one_def)
  next
    case False
    then show ?thesis
      using one err sample_targets_measured Cons.prems(2) named by (fastforce simp: sample_one_def)
  qed
  have "fst ` set ?results = fst ` set results" using keys by (metis list.set_map)
  then have "sampled 1 names ?results results'"
    by (intro Cons.IH[OF rest lb1]) (use Cons.prems(3) in \<open>simp add: sampleable_def\<close>)
  moreover have "n \<notin> set names" using Cons.prems(3) by (simp add: sampleable_def)
  ultimately have rest': "sampled 1 names ?results results'" and n: "n \<notin> set names" by auto
  have other: "m \<noteq> n \<Longrightarrow> map_of ?results m = map_of results m" for m
    by (simp add: update_conv')
  show ?case
    unfolding sampled_def
  proof (intro conjI allI impI)
    show "map fst results' = map fst results" using rest' keys by (simp add: sampled_def)
    fix m assume "m \<notin> set (n # names)"
    then show "map_of results' m = map_of results m" using rest' other by (simp add: sampled_def)
  next
    fix m k assume m: "m \<in> set (n # names)" "measured_to k (result_of results m)"
    show "measured_to (1 + k) (result_of results' m)"
    proof (cases "m = n")
      case True
      then show ?thesis using rest' n m r by (simp add: sampled_def update_conv')
    next
      case False
      then show ?thesis using rest' m other[of m] by (simp add: sampled_def)
    qed
  qed
qed

lemma sampleRound_sampled:
  assumes "sampleRound E F names rnd results e = (None, results', e')" "sampleable names results"
  shows "sampled 1 names results results'"
proof -
  obtain err1 lb1 where b: "lab_ensure E F rnd False (newTargets F e) = (err1, lb1)" by fastforce
  obtain err2 lb2 where h: "lab_ensure E F rnd True lb1 = (err2, lb2)" by fastforce
  have lb2: "labelled lb2"
    using lab_ensure_labelled[OF h] lab_ensure_labelled[OF b] by simp
  have "\<exists>lb3. sample_all E F rnd names results lb2 = (None, results', lb3)"
    using assms(1) b h by (auto simp: sampleRound_def split: prod.splits option.splits)
  then show ?thesis using sample_all_sampled[OF _ lb2 assms(2)] by blast
qed

lemma sampleRounds_sampled:
  assumes "sampleRounds E F names j rnd results e = (None, rnd', results', e')" "sampleable names results"
  shows "sampled j names results results'"
  using assms
proof (induction j arbitrary: rnd results e)
  case 0
  then show ?case by (simp add: sampled_zero)
next
  case (Suc j)
  obtain err r1 e1 where one: "sampleRound E F names rnd results e = (err, r1, e1)"
    by (metis prod_cases3)
  then have rest: "sampleRounds E F names j (rnd + 1) r1 e1 = (None, rnd', results', e')"
    and err: "err = None"
    using Suc.prems(1) by (auto split: option.splits)
  have first: "sampled 1 names results r1"
    using sampleRound_sampled[of E F names rnd results e] one err Suc.prems(2) by simp
  then have "sampleable names r1" using Suc.prems(2) sampled_keys by (simp add: sampleable_def)
  from sampled_trans[OF first Suc.IH[OF rest this]] show ?case by simp
qed

section \<open>Calibration\<close>

definition calibrated :: "string list \<Rightarrow> (string \<times> benchResult) list \<Rightarrow> bool" where
  "calibrated names results \<longleftrightarrow> distinct (map fst results) \<and>
     list_all (\<lambda>(n, r). n \<in> set names \<and> br_Base r = [] \<and> br_Head r = []) results"

lemma in_set_update: "p \<in> set (AList.update k v al) \<Longrightarrow> p = (k, v) \<or> p \<in> set al"
  by (induction al) (auto split: if_splits)

lemma calibrate_one_unsampled:
  "calibrate_one E F name lb = (Inr (Some r), lb') \<Longrightarrow> br_Base r = [] \<and> br_Head r = []"
  by (auto simp: calibrate_one_def Let_def newResult_def set_error_def
      split: prod.splits sum.splits option.splits if_splits)

lemma calibrate_all_calibrated:
  assumes "calibrate_all E F names results lb = (Inr results', lb')"
    and "calibrated all results" "set names \<subseteq> set all"
  shows "calibrated all results'"
  using assms
proof (induction names arbitrary: results lb)
  case (Cons n names)
  obtain res lb1 where one: "calibrate_one E F n lb = (res, lb1)" by fastforce
  then obtain v where v: "res = Inr v" using Cons.prems(1) by (cases res) auto
  show ?case
  proof (cases v)
    case None
    then show ?thesis using Cons one v by simp
  next
    case (Some r)
    have "calibrated all (AList.update n r results)"
      using Cons.prems calibrate_one_unsampled[of E F n lb r lb1] one v Some
      by (auto simp: calibrated_def list_all_iff distinct_update dest!: in_set_update)
    with Cons one v Some show ?thesis by simp
  qed
qed simp

section \<open>Judging\<close>

lemma judge_keeps [simp]:
  "failed (snd (judge F r)) = failed r"
  "br_Base (snd (judge F r)) = br_Base r"
  "br_Head (snd (judge F r)) = br_Head r"
  by (auto simp: judge_def failed_def Let_def)

lemma judge_again: "fst (judge F (snd (judge F r))) = fst (judge F r)"
  by (simp add: judge_def Let_def)

lemma measured_to_judge [simp]: "measured_to k (snd (judge F r)) = measured_to k r"
  by (simp add: measured_to_def)

definition sound_result :: "gate_flags \<Rightarrow> benchResult \<Rightarrow> bool" where
  "sound_result F r \<longleftrightarrow>
     (if br_HeadError r \<noteq> [] then br_Verdict r = HeadFailed
      else if br_BaseError r \<noteq> [] then br_Verdict r = BaseFailed
      else let S = nat (gf_samples F); C = nat (gf_confirmSamples F); k = length (br_Base r) in
        length (br_Head r) = k \<and> (k = S \<or> k = S + C) \<and>
        (br_Verdict r = Regression \<longleftrightarrow>
           float_less (gf_threshold F) (br_Delta r) \<and>
           float_less (slowerPValue (br_Base r) (br_Head r)) (gf_alpha F)) \<and>
        (if br_Verdict r = Regression then k = S + C else True))"

lemma judge_one_sound:
  assumes "measured_to k r" "k = nat (gf_samples F) \<or> k = nat (gf_samples F) + nat (gf_confirmSamples F)"
    and "fst (judge F r) = Regression \<Longrightarrow> k = nat (gf_samples F) + nat (gf_confirmSamples F)"
  shows "sound_result F (judge_one F r)"
proof (cases "failed r")
  case True
  then show ?thesis by (auto simp: sound_result_def judge_one_def judge_def failed_def)
next
  case False
  define v where "v = fst (judge F r)"
  define r' where "r' = snd (judge F r)"
  have kept: "br_HeadError r' = []" "br_BaseError r' = []" "br_Base r' = br_Base r" "br_Head r' = br_Head r"
    using False by (auto simp: r'_def judge_def failed_def Let_def)
  have "v = Regression \<longleftrightarrow> float_less (gf_threshold F) (br_Delta r') \<and>
      float_less (slowerPValue (br_Base r) (br_Head r)) (gf_alpha F)"
    using False by (auto simp: v_def r'_def judge_def failed_def Let_def)
  moreover have "judge_one F r = r'\<lparr>br_Verdict := v\<rparr>"
    by (simp add: judge_one_def v_def r'_def split_beta)
  ultimately show ?thesis
    using assms False kept by (auto simp: sound_result_def measured_to_def Let_def simp flip: v_def)
qed

lemma calibrated_measured:
  assumes "calibrated all results" "n \<in> fst ` set results"
  shows "measured_to 0 (result_of results n)"
proof -
  obtain r where "map_of results n = Some r" "(n, r) \<in> set results"
    using assms(2) by (metis map_of_SomeD map_of_eq_None_iff not_None_eq)
  then show ?thesis using assms(1) by (auto simp: calibrated_def measured_to_def list_all_iff)
qed

lemma map_of_map_value: "map_of (map (\<lambda>(k, v). (k, f k v)) xs) n = map_option (f n) (map_of xs n)"
  by (induction xs) auto

lemma pre_judge_results:
  assumes "pre_judge F names results = (suspects, results')"
  shows "suspects = filter (\<lambda>n. fst (judge F (result_of results n)) = Regression) names"
    and "map fst results' = map fst results"
    and "n \<in> set names \<Longrightarrow> n \<in> fst ` set results \<Longrightarrow>
      result_of results' n = snd (judge F (result_of results n))"
proof -
  show "suspects = filter (\<lambda>n. fst (judge F (result_of results n)) = Regression) names"
    using assms by (simp add: pre_judge_def)
  have "map_of results' n = map_option (\<lambda>r. if n \<in> set names then snd (judge F r) else r)
      (map_of results n)" for n
    using assms map_of_map_value[of "\<lambda>n r. if n \<in> set names then snd (judge F r) else r" results n]
    by (simp add: pre_judge_def)
  then show "n \<in> set names \<Longrightarrow> n \<in> fst ` set results \<Longrightarrow>
      result_of results' n = snd (judge F (result_of results n))"
    by (cases "map_of results n") (auto simp: map_of_eq_None_iff)
  show "map fst results' = map fst results"
    using assms by (auto simp: pre_judge_def comp_def split_beta)
qed

lemma measure_all_sound:
  assumes "measure_all E F all e = (Inr rs, e')" "list_all named all"
  shows "list_all (sound_result F) rs"
proof -
  let ?S = "nat (gf_samples F)" and ?C = "nat (gf_confirmSamples F)"
  obtain res0 e0 where cal: "calibrateIterations E F all e = (res0, e0)" by fastforce
  with assms(1) obtain r0 where r0: "res0 = Inr r0" by (cases res0) (auto simp: measure_all_def)
  then have "\<exists>lb. calibrate_all E F all [] (newTargets F e) = (Inr r0, lb)"
    using cal by (auto simp: calibrateIterations_def split: prod.splits)
  then have c0: "calibrated all r0"
    using calibrate_all_calibrated[of E F all "[]" _ r0 _ all] by (auto simp: calibrated_def)
  define names where "names = sort (map fst r0)"
  have names: "set names = fst ` set r0" "sampleable names r0"
    using c0 assms(2) by (auto simp: names_def calibrated_def sampleable_def list_all_iff)
  obtain err1 rnd r1 e1 where rounds: "sampleRounds E F names ?S 1 r0 e0 = (err1, rnd, r1, e1)"
    by (metis prod_cases4)
  have err1: "err1 = None"
    using assms(1) cal r0 rounds by (cases err1) (auto simp: measure_all_def names_def Let_def)
  have s1: "sampled ?S names r0 r1"
    using sampleRounds_sampled[of E F names ?S 1 r0 e0] rounds names(2) err1 by simp
  obtain suspects r2 where pre: "pre_judge F names r1 = (suspects, r2)" by fastforce
  note pre_r = pre_judge_results[OF pre]
  have keys: "fst ` set r1 = fst ` set r0" "fst ` set r2 = fst ` set r0"
    using sampled_keys[OF s1] arg_cong[OF pre_r(2), of set] by simp_all
  have m2: "measured_to ?S (result_of r2 n)" "n \<notin> set suspects \<Longrightarrow> fst (judge F (result_of r2 n)) \<noteq> Regression"
    if n: "n \<in> set names" for n
  proof -
    have "measured_to ?S (result_of r1 n)"
      using s1 n calibrated_measured[OF c0, of n] names(1) unfolding sampled_def by (metis add_0_right)
    moreover have "result_of r2 n = snd (judge F (result_of r1 n))"
      using pre_r(3) n names(1) keys(1) by simp
    ultimately show "measured_to ?S (result_of r2 n)"
      "n \<notin> set suspects \<Longrightarrow> fst (judge F (result_of r2 n)) \<noteq> Regression"
      using n pre_r(1) by (simp_all add: judge_again)
  qed
  show ?thesis
  proof (cases "suspects \<noteq> [] \<and> 0 < gf_confirmSamples F")
    case False
    then have "rs = judged F names r2"
      using assms(1) cal r0 rounds err1 pre by (auto simp: measure_all_def names_def Let_def)
    moreover have "sound_result F (judge_one F (result_of r2 n))" if "n \<in> set names" for n
      by (rule judge_one_sound[OF m2(1)[OF that]]) (use False m2(2)[OF that] in auto)
    ultimately show ?thesis by (simp add: judged_def list_all_iff)
  next
    case True
    obtain err3 rnd3 r3 e3 where again: "sampleRounds E F suspects ?C rnd r2 e1 = (err3, rnd3, r3, e3)"
      by (metis prod_cases4)
    have err3: "err3 = None" and rs: "rs = judged F names r3"
      using assms(1) cal r0 rounds err1 pre again True
      by (cases err3; auto simp: measure_all_def names_def Let_def)+
    have "sampleable suspects r2"
      using names keys(2) pre_r(1) by (auto simp: sampleable_def list_all_iff)
    then have s3: "sampled ?C suspects r2 r3"
      using sampleRounds_sampled[of E F suspects ?C rnd r2 e1] again err3 by simp
    have "sound_result F (judge_one F (result_of r3 n))" if n: "n \<in> set names" for n
    proof (cases "n \<in> set suspects")
      case True
      then have "measured_to (?C + ?S) (result_of r3 n)"
        using s3 m2(1)[OF n] by (simp add: sampled_def)
      then show ?thesis by (rule judge_one_sound) auto
    next
      case False
      then have "result_of r3 n = result_of r2 n" using s3 by (simp add: sampled_def)
      then show ?thesis using judge_one_sound[OF m2(1)[OF n], of F] m2(2)[OF n False] by simp
    qed
    then show ?thesis using rs by (simp add: judged_def list_all_iff)
  qed
qed

section \<open>The gate\<close>

lemma listBenchmarks_named:
  assumes "listBenchmarks E F e = (Inr all, e')"
  shows "list_all named all"
proof -
  have "named (TrimSpace l)" if l: "HasPrefix l ''Benchmark''" for l
  proof -
    obtain t where "l = CHR ''B'' # t" using l by (cases l) (simp_all add: HasPrefix_def)
    then show ?thesis using TrimSpace_head[of "CHR ''B''" t] by (auto simp: named_def letters_def)
  qed
  then show ?thesis
    using assms by (auto simp: listBenchmarks_def Let_def list_all_iff split: prod.splits sum.splits if_splits)
qed

lemma assignShard_subset: "set (assignShard names i shards) \<subseteq> set names"
proof -
  have "set (snd (deals shards ns i)) \<subseteq> set ns" for ns
    by (induction ns rule: rev_induct) (auto simp: deals_nil deals_step split: if_splits)
  from this[of "heaviest_first names"] show ?thesis
    by (simp add: assignShard_deals heaviest_first_def)
qed

lemma set_insert_result: "set (foldr insert_result rs []) = set rs"
proof -
  have "set (insert_result x ys) = Set.insert x (set ys)" for x ys
    by (induction ys) auto
  then show ?thesis by (induction rs) auto
qed


text \<open>A laboratory with one benchmark that runs while calibrating and panics on every build
  afterwards: head fails it, but the rounds that could tell stop at the failure on base.\<close>

definition sample_flags :: gate_flags where
  "sample_flags = \<lparr>gf_baseBin = ''base'', gf_headBin = ''head'', gf_dataRoot = ''/perf'',
     gf_benchFilter = ''^Benchmark'', gf_shard = 0, gf_shards = 1, gf_samples = 1,
     gf_confirmSamples = 1, gf_calibrate = 300, gf_calibrateText = ''300ns'',
     gf_threshold = FFin (1 / 8), gf_alpha = FFin (1 / 16), gf_basePort = 27401,
     gf_headPort = 27402, gf_benchTimeoutText = ''3m0s'', gf_summaryPath = [], gf_jsonPath = []\<rparr>"

definition panicking_env :: "(string, nat) gate_env" where
  "panicking_env = \<lparr>ge_compile = (\<lambda>e. (None, e)), ge_list = (\<lambda>f e. (Inr ''BenchmarkA'', e)),
     ge_start = (\<lambda>label bin port dir e. (Inr label, e)), ge_alive = (\<lambda>srv e. (True, e)),
     ge_stop = (\<lambda>srv e. e), ge_logPath = (\<lambda>srv. srv),
     ge_exec = (\<lambda>name srv benchtime e.
       (if benchtime = ''300ns'' then RunExited None ''BenchmarkA-8 10 0 ns/op''
        else RunExited (Some ''exit status 1'') ''panic'', Suc e)),
     ge_summary = (\<lambda>s e. (None, e)), ge_json = (\<lambda>s e. (None, e)), ge_quote = (\<lambda>s. s),
     ge_to_int = (\<lambda>f. 0)\<rparr>"

definition panicked :: benchResult where
  "panicked = (newResult ''BenchmarkA'')\<lparr>br_Iterations := 1,
     br_BaseError := ''BenchmarkA on base: exit status 1 | panic'', br_Verdict := BaseFailed\<rparr>"

lemma panicking_line: "measured ''BenchmarkA'' ''BenchmarkA-8 10 0 ns/op'' = Some (FZero False)"
proof -
  have "parse_decimal ''0'' = FZero False"
    by (simp add: parse_decimal_def span_def is_digit_def read_digits_def round64_def digit_val_def)
  moreover have "resultLine ''BenchmarkA-8 10 0 ns/op'' = Some (''BenchmarkA'', ''0'')"
    by (simp add: resultLine_def span_def re_space_def is_digit_def HasPrefix_def strip_procs_def)
  ultimately show ?thesis by (simp add: measured_def scan_lines_def drop_cr_def)
qed

lemma panicking_summary:
  "errorSummary (''BenchmarkA on base: exit status 1'' @ [CHR 0x0A] @ ''panic'') = ''BenchmarkA on base: exit status 1 | panic''"
  by code_simp

lemma panicking_list: "listBenchmarks panicking_env sample_flags 0 = (Inr [''BenchmarkA''], 0)"
  by code_simp

lemma panicking_shard: "assignShard [''BenchmarkA''] 0 (Suc 0) = [''BenchmarkA'']"
  by code_simp

lemmas lab_defs = lab_run_def run_target_def ensure_def start_target_def runBenchmark_def
  lab_ensure_def lab_stop_def stop_target_def newTargets_def panicking_env_def sample_flags_def

lemma panicking_calibration:
  "calibrateIterations panicking_env sample_flags [''BenchmarkA''] 0 =
    (Inr [(''BenchmarkA'', (newResult ''BenchmarkA'')\<lparr>br_Iterations := 1\<rparr>)], 1)"
  by (simp add: calibrateIterations_def calibrate_one_def panicking_line iterations_for_def
      failed_def newResult_def lab_defs)

lemma panicking_round:
  "sampleRounds panicking_env sample_flags [''BenchmarkA''] (Suc 0) 1
     [(''BenchmarkA'', (newResult ''BenchmarkA'')\<lparr>br_Iterations := 1\<rparr>)] 1 =
   (None, 2, [(''BenchmarkA'', panicked\<lparr>br_Verdict := NoVerdict\<rparr>)], 2)"
  using panicking_summary
  by (simp add: sampleRound_def sample_one_def failed_def newResult_def panicked_def run_order_def
      set_error_def lab_defs itoa_def ntoa.simps)

lemma run_panicking:
  "run panicking_env sample_flags ''1s'' 0 =
    (Inr (False, markdownReport sample_flags [panicked] ''1s'', [panicked]), 2)"
proof -
  have "pre_judge F [''BenchmarkA''] [(''BenchmarkA'', panicked\<lparr>br_Verdict := NoVerdict\<rparr>)] =
     ([], [(''BenchmarkA'', panicked\<lparr>br_Verdict := NoVerdict\<rparr>)])" for F
    by (simp add: pre_judge_def judge_def panicked_def newResult_def)
  moreover have "judge_one F (panicked\<lparr>br_Verdict := NoVerdict\<rparr>) = panicked" for F
    by (simp add: judge_one_def judge_def panicked_def newResult_def)
  moreover have "br_Verdict panicked = BaseFailed" by (simp add: panicked_def)
  moreover have "ge_compile panicking_env e = (None, e)" for e by (simp add: panicking_env_def)
  moreover have "gf_baseBin sample_flags \<noteq> []" "gf_headBin sample_flags \<noteq> []"
    "gf_dataRoot sample_flags \<noteq> []" "gf_shard sample_flags = 0" "gf_shards sample_flags = 1"
    "gf_samples sample_flags = 1" "gf_summaryPath sample_flags = []" "gf_jsonPath sample_flags = []"
    by (simp_all add: sample_flags_def)
  ultimately show ?thesis
    using panicking_list panicking_shard panicking_calibration panicking_round
    by (simp add: run_def measure_all_def judged_def publish_def failsGate_def Let_def)
qed


text \<open>The report of this green gate says that the benchmark passes on head, which never ran it.\<close>

lemma panicking_note:
  "base_failed_note (verdict_count BaseFailed [panicked]) =
     ''1 benchmark(s) fail on base but pass on head; they are not compared.'' @ nl @ nl"
proof -
  have "verdict_count BaseFailed [panicked] = 1" by (simp add: verdict_count_def panicked_def)
  moreover have "itoa 1 = ''1''" by code_simp
  ultimately show ?thesis by (simp add: base_failed_note_def)
qed

end
