(* ===== verification/WireCapture.thy ===== *)
theory WireCapture
  imports Wire GoText
begin

text \<open>
  The capturing proxy of src/cmd/wirecompress/proxy.go: finding the command a message carries, and
  the two pumps of a relayed connection. Each pump is a sequence of atomic actions (write the
  message on, resolve its command under the mutex, append it to the recorder), and the two pumps of
  a connection interleave, so the proxy is a step relation over their shared state. What the client
  and the server send, and where a connection breaks, is up to the environment.
\<close>

unbundle bit_operations_syntax

section \<open>The command of a message\<close>

definition headerLen :: nat where "headerLen = 16"
definition opQuery :: "32 word" where "opQuery = 2004"
definition checksumFlag :: "32 word" where "checksumFlag = 1"
definition maxMessageLen :: int where "maxMessageLen = 48 * 1000 * 1000"

text \<open>A Go string is its bytes.\<close>

definition byte_string :: "byte list \<Rightarrow> string" where
  "byte_string bs = map (\<lambda>b. char_of (unat b)) bs"

text \<open>\<open>bytes.IndexByte\<close> of zero.\<close>

definition index_zero :: "byte list \<Rightarrow> nat option" where
  "index_zero bs = (let n = length (takeWhile (\<lambda>b. b \<noteq> 0) bs) in if n < length bs then Some n else None)"

definition firstKey :: "byte list \<Rightarrow> string" where
  "firstKey doc =
     (if length doc < 6 then []
      else let elements = drop 5 doc in
        case index_zero elements of None \<Rightarrow> [] | Some end_ \<Rightarrow> byte_string (take end_ elements))"

text \<open>The loop over the sections of an OP_MSG; each round consumes the kind byte at least.\<close>

function first_command :: "byte list \<Rightarrow> string" where
  "first_command sections =
     (case sections of
        [] \<Rightarrow> []
      | kind # sections \<Rightarrow>
          if length sections < 4 then []
          else let n = unat (get32 sections 0) in
            if length sections < n then []
            else if kind = 0 then firstKey (take n sections)
            else first_command (drop n sections))"
  by pat_completeness auto
termination
  by (relation "measure length") auto

declare first_command.simps [simp del]

definition commandName :: "32 word \<Rightarrow> byte list \<Rightarrow> string" where
  "commandName opcode body =
     (if opcode = opMsg
      then if length body < 4 then []
           else let flags = get32 body 0; sections = drop 4 body;
                    sections = (if flags AND checksumFlag \<noteq> 0 \<and> 4 \<le> length sections
                                then take (length sections - 4) sections else sections)
                in first_command sections
      else if opcode = opQuery
      then if length body < 4 then []
           else let rest = drop 4 body in
             case index_zero rest of
               None \<Rightarrow> []
             | Some end_ \<Rightarrow>
                 if length rest < end_ + 1 + 8 then [] else firstKey (drop (end_ + 1 + 8) rest)
      else [])"

section \<open>Messages on a stream\<close>

datatype direction = toServer | fromServer

fun direction_text :: "direction \<Rightarrow> string" where
  "direction_text toServer = ''request''"
| "direction_text fromServer = ''reply''"

record captured =
  cp_workload :: string
  cp_direction :: direction
  cp_command :: string
  cp_bytes :: "byte list"

text \<open>The next whole message of the bytes that have arrived, and the bytes after it. There is none
  yet when the header or the body is incomplete, and never one behind a bad length.\<close>

definition message_length :: "byte list \<Rightarrow> int" where
  "message_length bs = sint (get32 bs 0)"

definition next_message :: "byte list \<Rightarrow> (byte list \<times> byte list) option" where
  "next_message bs =
     (if length bs < headerLen then None
      else let n = message_length bs in
        if n < int headerLen \<or> maxMessageLen < n then None
        else if length bs < nat n then None else Some (take (nat n) bs, drop (nat n) bs))"

definition requestID :: "byte list \<Rightarrow> 32 word" where "requestID msg = get32 msg 4"
definition responseTo :: "byte list \<Rightarrow> 32 word" where "responseTo msg = get32 msg 8"

definition message_command :: "byte list \<Rightarrow> string" where
  "message_command msg = commandName (get32 msg 12) (drop headerLen msg)"

section \<open>The relay\<close>

text \<open>Where a pump is: about to read, with a message written on, with its command resolved, or
  returned.\<close>

datatype pump = Reading | Written "byte list" | Resolved "byte list" string | Returned

record relay =
  rl_workload :: string
  rl_clientIn :: "byte list"   \<comment> \<open>arrived from the client, not yet read\<close>
  rl_serverIn :: "byte list"
  rl_serverOut :: "byte list"  \<comment> \<open>written to the server\<close>
  rl_clientOut :: "byte list"
  rl_requests :: pump
  rl_replies :: pump
  rl_pending :: "32 word \<Rightarrow> string option"
  rl_messages :: "captured list"

definition new_relay :: "string \<Rightarrow> relay" where
  "new_relay workload = \<lparr>rl_workload = workload, rl_clientIn = [], rl_serverIn = [],
     rl_serverOut = [], rl_clientOut = [], rl_requests = Reading, rl_replies = Reading,
     rl_pending = (\<lambda>_. None), rl_messages = []\<rparr>"

definition record_message :: "direction \<Rightarrow> byte list \<Rightarrow> string \<Rightarrow> relay \<Rightarrow> relay" where
  "record_message dir msg command r = r\<lparr>rl_messages := rl_messages r @
     [\<lparr>cp_workload = rl_workload r, cp_direction = dir, cp_command = command, cp_bytes = msg\<rparr>]\<rparr>"

text \<open>The two name functions of \<open>relay\<close>, each one atomic under the mutex.\<close>

definition name_request :: "byte list \<Rightarrow> relay \<Rightarrow> string \<times> relay" where
  "name_request msg r =
     (let command = message_command msg
      in (command, r\<lparr>rl_pending := (rl_pending r)(requestID msg \<mapsto> command)\<rparr>))"

definition name_reply :: "byte list \<Rightarrow> relay \<Rightarrow> string \<times> relay" where
  "name_reply msg r =
     (case_option [] id (rl_pending r (responseTo msg)),
      r\<lparr>rl_pending := (rl_pending r)(responseTo msg := None)\<rparr>)"

inductive relay_step :: "relay \<Rightarrow> relay \<Rightarrow> bool" where
  client_sends: "relay_step r (r\<lparr>rl_clientIn := rl_clientIn r @ bs\<rparr>)"
| server_sends: "relay_step r (r\<lparr>rl_serverIn := rl_serverIn r @ bs\<rparr>)"
| workload_changes: "relay_step r (r\<lparr>rl_workload := w\<rparr>)"
| request_written: "rl_requests r = Reading \<Longrightarrow> next_message (rl_clientIn r) = Some (msg, rest) \<Longrightarrow>
    relay_step r (r\<lparr>rl_clientIn := rest, rl_serverOut := rl_serverOut r @ msg, rl_requests := Written msg\<rparr>)"
| request_write_fails: "rl_requests r = Reading \<Longrightarrow> next_message (rl_clientIn r) = Some (msg, rest) \<Longrightarrow>
    relay_step r (r\<lparr>rl_clientIn := rest, rl_serverOut := rl_serverOut r @ take k msg, rl_requests := Returned\<rparr>)"
| request_named: "rl_requests r = Written msg \<Longrightarrow> name_request msg r = (command, r') \<Longrightarrow>
    relay_step r (r'\<lparr>rl_requests := Resolved msg command\<rparr>)"
| request_recorded: "rl_requests r = Resolved msg command \<Longrightarrow>
    relay_step r (record_message toServer msg command r\<lparr>rl_requests := Reading\<rparr>)"
| requests_end: "rl_requests r = Reading \<Longrightarrow> relay_step r (r\<lparr>rl_requests := Returned\<rparr>)"
| reply_written: "rl_replies r = Reading \<Longrightarrow> next_message (rl_serverIn r) = Some (msg, rest) \<Longrightarrow>
    relay_step r (r\<lparr>rl_serverIn := rest, rl_clientOut := rl_clientOut r @ msg, rl_replies := Written msg\<rparr>)"
| reply_write_fails: "rl_replies r = Reading \<Longrightarrow> next_message (rl_serverIn r) = Some (msg, rest) \<Longrightarrow>
    relay_step r (r\<lparr>rl_serverIn := rest, rl_clientOut := rl_clientOut r @ take k msg, rl_replies := Returned\<rparr>)"
| reply_named: "rl_replies r = Written msg \<Longrightarrow> name_reply msg r = (command, r') \<Longrightarrow>
    relay_step r (r'\<lparr>rl_replies := Resolved msg command\<rparr>)"
| reply_recorded: "rl_replies r = Resolved msg command \<Longrightarrow>
    relay_step r (record_message fromServer msg command r\<lparr>rl_replies := Reading\<rparr>)"
| replies_end: "rl_replies r = Reading \<Longrightarrow> relay_step r (r\<lparr>rl_replies := Returned\<rparr>)"

inductive reachable :: "string \<Rightarrow> relay \<Rightarrow> bool" for w where
  start: "reachable w (new_relay w)"
| step: "reachable w r \<Longrightarrow> relay_step r r' \<Longrightarrow> reachable w r'"

inductive_cases relay_step_cases: "relay_step r r'"

end
