(* ===== verification/WireCaptureFacts.thy ===== *)
theory WireCaptureFacts
  imports WireFacts WireCapture
begin

text \<open>
  What the capturing proxy guarantees: it finds the command in every message the wire client sends,
  the bytes it passes on are exactly the messages it records, in order, and a reply is never
  attributed to a command that no request with its identifier carries. The race between the two
  pumps, in which a reply is recorded without its command, is exhibited.
\<close>

section \<open>Commands\<close>

text \<open>A BSON document whose first element is called \<open>name\<close>: its length, the type of the
  element, the name and a zero byte.\<close>

definition document_named :: "byte list \<Rightarrow> byte list \<Rightarrow> bool" where
  "document_named name doc \<longleftrightarrow> length doc < 2 ^ 31 \<and> 0 \<notin> set name \<and>
     take 4 doc = le32 (word_of_nat (length doc)) \<and>
     take (length name + 1) (drop 5 doc) = name @ [0]"

lemma index_zero_first:
  assumes "0 \<notin> set name"
  shows "index_zero (name @ 0 # rest) = Some (length name)"
proof -
  have "takeWhile (\<lambda>b. b \<noteq> 0) (name @ 0 # rest) = name"
    using assms by (subst takeWhile_append2) auto
  then show ?thesis by (simp add: index_zero_def)
qed

lemma firstKey_named:
  assumes "document_named name doc"
  shows "firstKey doc = byte_string name"
proof -
  have "drop 5 doc = (name @ [0]) @ drop (length name + 1) (drop 5 doc)"
    using assms by (metis append_take_drop_id document_named_def)
  then obtain rest where rest: "drop 5 doc = name @ 0 # rest" by simp
  then have "6 \<le> length doc" using length_drop[of 5 doc] by simp
  with rest assms show ?thesis
    by (simp add: firstKey_def index_zero_first document_named_def)
qed

lemma first_command_document:
  assumes "document_named name doc"
  shows "first_command (0 # doc @ rest) = byte_string name"
proof -
  have len: "unat (word_of_nat (length doc) :: 32 word) = length doc"
    using assms by (simp add: document_named_def unat_of_nat)
  have start: "take 4 doc = le32 (word_of_nat (length doc))"
    using assms by (simp add: document_named_def)
  have "doc @ rest = take 4 doc @ drop 4 doc @ rest" by (metis append.assoc append_take_drop_id)
  then have g: "get32 (doc @ rest) 0 = word_of_nat (length doc)"
    unfolding start by (metis get32_le32)
  have "4 \<le> length doc"
    using arg_cong[OF start, of length] by simp
  then show ?thesis
    using len g firstKey_named[OF assms] by (subst first_command.simps) simp
qed

text \<open>C36: the proxy names every command the wire client sends: a message of a command document
  whose first key is \<open>name\<close>, plain (any flags without the checksum bit) or with a checksum, valid
  or corrupt, is captured under that name.\<close>

theorem sent_commands_named:
  assumes "document_named name doc" "flags AND checksumFlag = 0" "checksum \<noteq> ChecksumFlagOnly"
  shows "message_command (message reqID flags doc) = byte_string name \<and>
    message_command (checksummed_message reqID checksum doc) = byte_string name"
proof -
  have plain: "commandName opMsg (le32 flags @ 0 # doc) = byte_string name"
    using assms(2) first_command_document[OF assms(1), of "[]"]
    by (simp add: commandName_def get32_le32[of _ "0 # doc", simplified])
  have checked: "commandName opMsg (le32 checksumPresent @ 0 # doc @ le32 c) = byte_string name" for c
    using first_command_document[OF assms(1), of "[]"]
    by (simp add: commandName_def checksumPresent_def checksumFlag_def
        get32_le32[of _ "0 # doc @ le32 c", simplified])
  have "\<exists>n c. checksummed_message reqID checksum doc =
      header n reqID opMsg @ le32 checksumPresent @ 0 # doc @ le32 c"
    using assms(3) by (auto simp: checksummed_message_def Let_def appendI32_def)
  then show ?thesis
    using plain checked
    by (auto simp: message_command_def message_def header_opcode_field headerLen_def appendI32_def)
qed

text \<open>The document of \<open>{ping: 1}\<close>.\<close>

definition ping_document :: "byte list" where
  "ping_document = [15, 0, 0, 0, 16, 112, 105, 110, 103, 0, 1, 0, 0, 0, 0]"

lemma ping_document_named: "document_named [112, 105, 110, 103] ping_document"
  by (simp add: document_named_def ping_document_def le32_def)

theorem sent_commands_named_witness:
  "message_command (message 1 0 ping_document) = ''ping'' \<and>
   message_command (checksummed_message 1 ChecksumValid ping_document) = ''ping''"
proof -
  have "byte_string [112, 105, 110, 103] = ''ping''" by (simp add: byte_string_def) code_simp
  then show ?thesis
    using sent_commands_named[OF ping_document_named, of 0 ChecksumValid 1] by simp
qed

section \<open>Capturing\<close>

fun held :: "pump \<Rightarrow> byte list" where
  "held (Written msg) = msg"
| "held (Resolved msg command) = msg"
| "held _ = []"

definition recorded :: "direction \<Rightarrow> relay \<Rightarrow> captured list" where
  "recorded dir r = filter (\<lambda>m. cp_direction m = dir) (rl_messages r)"

definition recorded_bytes :: "direction \<Rightarrow> relay \<Rightarrow> byte list" where
  "recorded_bytes dir r = concat (map cp_bytes (recorded dir r))"

text \<open>The messages whose command has been resolved.\<close>

fun resolved :: "pump \<Rightarrow> (byte list \<times> string) list" where
  "resolved (Resolved msg command) = [(msg, command)]"
| "resolved _ = []"

definition named_messages :: "direction \<Rightarrow> relay \<Rightarrow> (byte list \<times> string) list" where
  "named_messages dir r = map (\<lambda>m. (cp_bytes m, cp_command m)) (recorded dir r) @
     resolved (if dir = toServer then rl_requests r else rl_replies r)"

text \<open>Everything written on one side is recorded or held, but for the bytes of a failed last write.\<close>

definition relayed :: "byte list \<Rightarrow> pump \<Rightarrow> byte list \<Rightarrow> bool" where
  "relayed out p captured_bytes \<longleftrightarrow>
     (\<exists>tail. out = captured_bytes @ held p @ tail \<and> (p = Returned \<or> tail = []))"

definition attributed :: "relay \<Rightarrow> string \<Rightarrow> 32 word \<Rightarrow> bool" where
  "attributed r command reqid \<longleftrightarrow>
     command = [] \<or> (\<exists>q. (q, command) \<in> set (named_messages toServer r) \<and> requestID q = reqid)"

lemma record_message_simps [simp]:
  "rl_pending (record_message dir msg command r) = rl_pending r"
  "rl_serverOut (record_message dir msg command r) = rl_serverOut r"
  "rl_clientOut (record_message dir msg command r) = rl_clientOut r"
  "rl_requests (record_message dir msg command r) = rl_requests r"
  "rl_replies (record_message dir msg command r) = rl_replies r"
  "recorded d (record_message dir msg command r) = recorded d r @
     (if d = dir then [\<lparr>cp_workload = rl_workload r, cp_direction = dir, cp_command = command,
        cp_bytes = msg\<rparr>] else [])"
  by (simp_all add: record_message_def recorded_def)

lemma recorded_updates [simp]:
  "recorded d (r\<lparr>rl_clientIn := x\<rparr>) = recorded d r" "recorded d (r\<lparr>rl_serverIn := x\<rparr>) = recorded d r"
  "recorded d (r\<lparr>rl_serverOut := x\<rparr>) = recorded d r" "recorded d (r\<lparr>rl_clientOut := x\<rparr>) = recorded d r"
  "recorded d (r\<lparr>rl_requests := p\<rparr>) = recorded d r" "recorded d (r\<lparr>rl_replies := p\<rparr>) = recorded d r"
  "recorded d (r\<lparr>rl_pending := f\<rparr>) = recorded d r" "recorded d (r\<lparr>rl_workload := w\<rparr>) = recorded d r"
  by (simp_all add: recorded_def)

lemma relayed_step:
  "relay_step r r' \<Longrightarrow> relayed (rl_serverOut r) (rl_requests r) (recorded_bytes toServer r) \<Longrightarrow>
    relayed (rl_serverOut r') (rl_requests r') (recorded_bytes toServer r')"
  "relay_step r r' \<Longrightarrow> relayed (rl_clientOut r) (rl_replies r) (recorded_bytes fromServer r) \<Longrightarrow>
    relayed (rl_clientOut r') (rl_replies r') (recorded_bytes fromServer r')"
  by (erule relay_step_cases;
      force simp: relayed_def recorded_bytes_def name_request_def name_reply_def Let_def)+

lemma named_messages_step:
  "relay_step r r' \<Longrightarrow> set (named_messages dir r) \<subseteq> set (named_messages dir r')"
  by (cases dir; erule relay_step_cases)
    (auto simp: named_messages_def name_request_def name_reply_def Let_def)

lemma named_requests_step:
  assumes "relay_step r r'" "x \<in> set (named_messages toServer r')"
  shows "x \<in> set (named_messages toServer r) \<or> (\<exists>q. x = (q, message_command q))"
  using assms
  by (cases rule: relay_step.cases)
    (auto simp: named_messages_def name_request_def name_reply_def Let_def)

lemma named_replies_step:
  assumes "relay_step r r'" "x \<in> set (named_messages fromServer r')"
  shows "x \<in> set (named_messages fromServer r) \<or>
    (\<exists>m. x = (m, case_option [] id (rl_pending r (responseTo m))))"
  using assms
  by (cases rule: relay_step.cases)
    (auto simp: named_messages_def name_request_def name_reply_def Let_def)

lemma pending_step:
  assumes "relay_step r r'" "rl_pending r' reqid = Some command"
  shows "rl_pending r reqid = Some command \<or>
    (\<exists>q. (q, command) \<in> set (named_messages toServer r') \<and> requestID q = reqid)"
  using assms
  by (cases rule: relay_step.cases)
    (auto simp: named_messages_def name_request_def name_reply_def Let_def split: if_splits)


section \<open>The race between the pumps\<close>

text \<open>The request pump writes a request before it registers its identifier. When the reply is read
  in between, it is recorded without a command, and the identifier stays registered.\<close>

definition ping_request :: "byte list" where
  "ping_request = message 1 0 ping_document"

definition ping_reply :: "byte list" where
  "ping_reply = le32 36 @ le32 7 @ le32 1 @ le32 opMsg @ le32 0 @ 0 # ping_document"

lemma ping_frames: "next_message ping_request = Some (ping_request, [])"
  "next_message ping_reply = Some (ping_reply, [])"
proof -
  have len: "length ping_request = 36" "length ping_reply = 36"
    by (simp_all add: ping_request_def ping_reply_def length_message ping_document_def)
  have "get32 ping_request 0 = 36"
    by (simp add: ping_request_def message_def appendI32_def header_length_field ping_document_def)
  moreover have "get32 ping_reply 0 = 36" by (simp add: ping_reply_def)
  moreover have "sint (36 :: 32 word) = 36" using sint_small[of 36] by simp
  ultimately show "next_message ping_request = Some (ping_request, [])"
    "next_message ping_reply = Some (ping_reply, [])"
    using len by (simp_all add: next_message_def message_length_def headerLen_def maxMessageLen_def)
qed

lemma unnamed_reply_reachable:
  "\<exists>r. reachable ''w'' r \<and> rl_messages r =
     [\<lparr>cp_workload = ''w'', cp_direction = fromServer, cp_command = [], cp_bytes = ping_reply\<rparr>,
      \<lparr>cp_workload = ''w'', cp_direction = toServer, cp_command = message_command ping_request,
       cp_bytes = ping_request\<rparr>]"
proof -
  let ?r0 = "new_relay ''w''"
  let ?r1 = "?r0\<lparr>rl_clientIn := ping_request\<rparr>"
  let ?r2 = "?r0\<lparr>rl_serverOut := ping_request, rl_requests := Written ping_request\<rparr>"
  let ?r3 = "?r2\<lparr>rl_serverIn := ping_reply\<rparr>"
  let ?r4 = "?r2\<lparr>rl_clientOut := ping_reply, rl_replies := Written ping_reply\<rparr>"
  let ?r5 = "?r4\<lparr>rl_replies := Resolved ping_reply []\<rparr>"
  let ?r6 = "(record_message fromServer ping_reply [] ?r5)\<lparr>rl_replies := Reading\<rparr>"
  let ?c = "message_command ping_request"
  let ?r7 = "?r6\<lparr>rl_pending := [requestID ping_request \<mapsto> ?c], rl_requests := Resolved ping_request ?c\<rparr>"
  let ?r8 = "(record_message toServer ping_request ?c ?r7)\<lparr>rl_requests := Reading\<rparr>"
  have "reachable ''w'' ?r1"
    using reachable.step[OF reachable.start relay_step.client_sends[of ?r0 ping_request]]
    by (simp add: new_relay_def)
  then have "reachable ''w'' ?r2"
    using reachable.step[OF _ relay_step.request_written[of ?r1 ping_request "[]"]] ping_frames
    by (simp add: new_relay_def)
  then have "reachable ''w'' ?r3"
    using reachable.step[OF _ relay_step.server_sends[of ?r2 ping_reply]] by (simp add: new_relay_def)
  then have "reachable ''w'' ?r4"
    using reachable.step[OF _ relay_step.reply_written[of ?r3 ping_reply "[]"]] ping_frames
    by (simp add: new_relay_def)
  then have "reachable ''w'' ?r5"
    using reachable.step[OF _ relay_step.reply_named[of ?r4 ping_reply "[]" ?r4]]
    by (simp add: new_relay_def name_reply_def)
  then have "reachable ''w'' ?r6"
    using reachable.step[OF _ relay_step.reply_recorded[of ?r5 ping_reply "[]"]] by simp
  then have "reachable ''w'' ?r7"
    using reachable.step[OF _ relay_step.request_named[of ?r6 ping_request ?c
        "?r6\<lparr>rl_pending := [requestID ping_request \<mapsto> ?c]\<rparr>"]]
    by (simp add: new_relay_def name_request_def record_message_def Let_def)
  then have "reachable ''w'' ?r8"
    using reachable.step[OF _ relay_step.request_recorded[of ?r7 ping_request ?c]] by simp
  moreover have "rl_messages ?r8 =
     [\<lparr>cp_workload = ''w'', cp_direction = fromServer, cp_command = [], cp_bytes = ping_reply\<rparr>,
      \<lparr>cp_workload = ''w'', cp_direction = toServer, cp_command = ?c, cp_bytes = ping_request\<rparr>]"
    by (simp add: record_message_def new_relay_def)
  ultimately show ?thesis by blast
qed


end
