(* ===== verification/WireAnalysis.thy ===== *)
theory WireAnalysis
  imports WireCapture PerfStats "HOL-Library.AList" "HOL-Library.Product_Lexorder"
begin

text \<open>
  The analysis of captured traffic (src/cmd/wirecompress/analyze.go): every message that may be
  compressed is compressed with each codec, checked to round trip, and added to the totals of its
  workload, direction and command. The codecs themselves are third-party libraries: a list of named
  compression functions. Totals are unbounded integers (a capture is far below the 64-bit range);
  the timings of the throughput pass are arguments.
\<close>

section \<open>Codecs\<close>

record wire_codec =
  wc_name :: string
  wc_compress :: "byte list \<Rightarrow> byte list"
  wc_decompress :: "byte list \<Rightarrow> byte list"

definition compressedPrefixLen :: int where "compressedPrefixLen = 9"

definition uncompressedCommands :: "string list" where
  "uncompressedCommands = [''hello'', ''isMaster'', ''ismaster'', ''saslStart'', ''saslContinue'',
     ''authenticate'', ''getnonce'', ''createUser'', ''updateUser'', ''copydbSaslStart'',
     ''copydbgetnonce'', ''copydb'']"

section \<open>Groups\<close>

datatype groupKey = GroupKey (gk_workload: string) (gk_direction: direction) (gk_command: string)

text \<open>Keys are ordered as the rows of the table: workload, direction, command.\<close>

definition key_texts :: "groupKey \<Rightarrow> string \<times> string \<times> string" where
  "key_texts k = (gk_workload k, direction_text (gk_direction k), gk_command k)"

lemma direction_text_inject: "direction_text a = direction_text b \<longleftrightarrow> a = b"
  by (cases a; cases b) simp_all

lemma key_texts_inject: "key_texts a = key_texts b \<longleftrightarrow> a = b"
  by (cases a; cases b) (simp add: key_texts_def direction_text_inject)

instantiation groupKey :: linorder
begin

definition less_eq_groupKey :: "groupKey \<Rightarrow> groupKey \<Rightarrow> bool" where
  "less_eq_groupKey a b \<longleftrightarrow> key_texts a \<le> key_texts b"

definition less_groupKey :: "groupKey \<Rightarrow> groupKey \<Rightarrow> bool" where
  "less_groupKey a b \<longleftrightarrow> key_texts a < key_texts b"

instance
  by standard (auto simp: less_eq_groupKey_def less_groupKey_def less_le_not_le
      simp flip: key_texts_inject)

end

record groupStats =
  gs_messages :: int
  gs_rawWire :: int
  gs_codecWire :: "(string \<times> int) list"

definition no_stats :: groupStats where
  "no_stats = \<lparr>gs_messages = 0, gs_rawWire = 0, gs_codecWire = []\<rparr>"

definition codec_total :: "groupStats \<Rightarrow> string \<Rightarrow> int" where
  "codec_total g name = (case map_of (gs_codecWire g) name of None \<Rightarrow> 0 | Some n \<Rightarrow> n)"

definition message_key :: "captured \<Rightarrow> groupKey" where
  "message_key m = GroupKey (cp_workload m) (cp_direction m) (cp_command m)"

definition message_body :: "captured \<Rightarrow> byte list" where
  "message_body m = drop headerLen (cp_bytes m)"

definition compressed_wire :: "wire_codec \<Rightarrow> byte list \<Rightarrow> int" where
  "compressed_wire c body = int headerLen + compressedPrefixLen + int (length (wc_compress c body))"

fun add_codecs :: "captured \<Rightarrow> wire_codec list \<Rightarrow> groupStats \<Rightarrow> goerror + groupStats" where
  "add_codecs m [] g = Inr g"
| "add_codecs m (c # cs) g =
     (let body = message_body m in
      if wc_decompress c (wc_compress c body) \<noteq> body
      then Inl (ErrText (wc_name c @ '' round trip mismatch on '' @ direction_text (cp_direction m) @
             '' '' @ cp_command m))
      else add_codecs m cs
             (g\<lparr>gs_codecWire := AList.update (wc_name c)
                  (codec_total g (wc_name c) + compressed_wire c body) (gs_codecWire g)\<rparr>))"

type_synonym groups = "(groupKey \<times> groupStats) list"

fun analyze_groups :: "wire_codec list \<Rightarrow> captured list \<Rightarrow> groups \<Rightarrow> byte list list \<Rightarrow>
    goerror + groups \<times> byte list list" where
  "analyze_groups all [] groups corpus = Inr (groups, corpus)"
| "analyze_groups all (m # ms) groups corpus =
     (if cp_command m \<in> set uncompressedCommands then analyze_groups all ms groups corpus
      else let key = message_key m;
               g = (case map_of groups key of None \<Rightarrow> no_stats | Some g \<Rightarrow> g);
               g = g\<lparr>gs_messages := gs_messages g + 1,
                     gs_rawWire := gs_rawWire g + int (length (cp_bytes m))\<rparr>
           in case add_codecs m all g of
                Inl err \<Rightarrow> Inl err
              | Inr g \<Rightarrow> analyze_groups all ms (AList.update key g groups) (corpus @ [message_body m]))"

section \<open>Throughput\<close>

record cpuStats =
  cs_inputBytes :: int
  cs_compressTime :: duration
  cs_decompressTime :: duration

definition max_duration :: duration where "max_duration = 2 ^ 63 - 1"

text \<open>The best of the rounds; each round's two measured times are given.\<close>

definition best_of :: "int \<Rightarrow> (duration \<times> duration) list \<Rightarrow> cpuStats" where
  "best_of input timings = foldl (\<lambda>b (c, d). b\<lparr>cs_compressTime := min (cs_compressTime b) c,
       cs_decompressTime := min (cs_decompressTime b) d\<rparr>)
     \<lparr>cs_inputBytes = input, cs_compressTime = max_duration, cs_decompressTime = max_duration\<rparr> timings"

definition analyze :: "wire_codec list \<Rightarrow> (string \<Rightarrow> (duration \<times> duration) list) \<Rightarrow> captured list \<Rightarrow>
    goerror + groups \<times> (string \<times> cpuStats) list" where
  "analyze all timings messages =
     (case analyze_groups all messages [] [] of
        Inl err \<Rightarrow> Inl err
      | Inr (groups, corpus) \<Rightarrow>
          let input = sum_list (map (\<lambda>b. int (length b)) corpus)
          in Inr (groups, foldl (\<lambda>cpu c. AList.update (wc_name c) (best_of input (timings (wc_name c))) cpu)
                            [] all))"

section \<open>Reports\<close>

text \<open>The records \<open>writeCSV\<close> hands to the CSV writer.\<close>

definition csv_rows :: "string \<Rightarrow> string list \<Rightarrow> groups \<Rightarrow> (string \<times> cpuStats) list \<Rightarrow> string list list" where
  "csv_rows target names groups cpu =
     [[''target'', ''workload'', ''direction'', ''command'', ''messages'', ''raw_wire_bytes''] @
        map (\<lambda>n. n @ ''_wire_bytes'') names] @
     map (\<lambda>k. let g = the (map_of groups k) in
           [target, gk_workload k, direction_text (gk_direction k), gk_command k,
            itoa (gs_messages g), itoa (gs_rawWire g)] @ map (\<lambda>n. itoa (codec_total g n)) names)
       (sort (map fst groups)) @
     map (\<lambda>n. let c = (case map_of cpu n of None \<Rightarrow> \<lparr>cs_inputBytes = 0, cs_compressTime = 0, cs_decompressTime = 0\<rparr>
                                          | Some c \<Rightarrow> c) in
           [target, ''_cpu'', n, [], itoa (cs_inputBytes c), itoa (cs_compressTime c),
            itoa (cs_decompressTime c)]) names"

text \<open>The totals \<open>printSummary\<close> prints, by workload and direction.\<close>

definition summary_label :: "groupKey \<Rightarrow> string" where
  "summary_label k = gk_workload k @ '' '' @ direction_text (gk_direction k)"

definition add_summary :: "(string \<times> groupStats) list \<Rightarrow> groupKey \<times> groupStats \<Rightarrow>
    (string \<times> groupStats) list" where
  "add_summary totals kg =
     (let (k, g) = kg; label = summary_label k;
          t = (case map_of totals label of None \<Rightarrow> no_stats | Some t \<Rightarrow> t);
          t = t\<lparr>gs_rawWire := gs_rawWire t + gs_rawWire g\<rparr>;
          t = foldl (\<lambda>t (n, v). t\<lparr>gs_codecWire := AList.update n (codec_total t n + v) (gs_codecWire t)\<rparr>)
                t (gs_codecWire g)
      in AList.update label t totals)"

definition summary_totals :: "groups \<Rightarrow> (string \<times> groupStats) list" where
  "summary_totals groups =
     (let totals = foldl add_summary [] groups
      in map (\<lambda>l. (l, the (map_of totals l))) (sort (map fst totals)))"

text \<open>The percentage of the raw bytes, as printed with one decimal.\<close>

definition percent_of_raw :: "groupStats \<Rightarrow> string \<Rightarrow> float64" where
  "percent_of_raw t name =
     float_div (float_mul (FFin 100) (float_of_int (codec_total t name))) (float_of_int (gs_rawWire t))"

section \<open>What the totals are\<close>

abbreviation compressible :: "captured list \<Rightarrow> captured list" where
  "compressible ms \<equiv> filter (\<lambda>m. cp_command m \<notin> set uncompressedCommands) ms"

definition round_trips :: "wire_codec list \<Rightarrow> captured \<Rightarrow> bool" where
  "round_trips all m \<longleftrightarrow>
     list_all (\<lambda>c. wc_decompress c (wc_compress c (message_body m)) = message_body m) all"

definition group_members :: "groupKey \<Rightarrow> captured list \<Rightarrow> captured list" where
  "group_members k ms = filter (\<lambda>m. message_key m = k) (compressible ms)"

definition group_totals :: "wire_codec list \<Rightarrow> captured list \<Rightarrow> groupStats \<Rightarrow> bool" where
  "group_totals all ms g \<longleftrightarrow>
     gs_messages g = int (length ms) \<and> gs_rawWire g = sum_list (map (\<lambda>m. int (length (cp_bytes m))) ms) \<and>
     list_all (\<lambda>c. codec_total g (wc_name c) =
       sum_list (map (\<lambda>m. compressed_wire c (message_body m)) ms)) all"

definition groups_right :: "wire_codec list \<Rightarrow> captured list \<Rightarrow> groups \<Rightarrow> bool" where
  "groups_right all ms groups \<longleftrightarrow> distinct (map fst groups) \<and>
     (\<forall>k. case map_of groups k of
            None \<Rightarrow> group_members k ms = []
          | Some g \<Rightarrow> group_members k ms \<noteq> [] \<and> group_totals all (group_members k ms) g)"

lemma codec_total_update:
  "codec_total (g\<lparr>gs_codecWire := AList.update n v (gs_codecWire g)\<rparr>) n' =
     (if n' = n then v else codec_total g n')"
  by (simp add: codec_total_def update_conv')

lemma add_codecs_result:
  assumes "distinct (map wc_name cs)"
  shows "case add_codecs m cs g of
      Inl err \<Rightarrow> \<not> round_trips cs m
    | Inr g' \<Rightarrow> round_trips cs m \<and> gs_messages g' = gs_messages g \<and> gs_rawWire g' = gs_rawWire g \<and>
        (\<forall>c \<in> set cs. codec_total g' (wc_name c) =
           codec_total g (wc_name c) + compressed_wire c (message_body m)) \<and>
        (\<forall>n. n \<notin> wc_name ` set cs \<longrightarrow> codec_total g' n = codec_total g n)"
  using assms
proof (induction cs arbitrary: g)
  case (Cons c cs)
  let ?g = "g\<lparr>gs_codecWire := AList.update (wc_name c)
      (codec_total g (wc_name c) + compressed_wire c (message_body m)) (gs_codecWire g)\<rparr>"
  have other: "wc_name c' \<noteq> wc_name c" if "c' \<in> set cs" for c' using that Cons.prems by (metis distinct.simps(2) image_eqI list.set_map list.simps(9))
  from Cons have "case add_codecs m cs ?g of
      Inl err \<Rightarrow> \<not> round_trips cs m
    | Inr g' \<Rightarrow> round_trips cs m \<and> gs_messages g' = gs_messages ?g \<and> gs_rawWire g' = gs_rawWire ?g \<and>
        (\<forall>c \<in> set cs. codec_total g' (wc_name c) =
           codec_total ?g (wc_name c) + compressed_wire c (message_body m)) \<and>
        (\<forall>n. n \<notin> wc_name ` set cs \<longrightarrow> codec_total g' n = codec_total ?g n)" by simp
  then show ?case
    using other Cons.prems
    by (auto simp: Let_def round_trips_def codec_total_update split: sum.splits)
qed (simp add: round_trips_def)

lemma group_members_snoc:
  "group_members k (ms @ [m]) =
     (if cp_command m \<notin> set uncompressedCommands \<and> message_key m = k then group_members k ms @ [m]
      else group_members k ms)"
  by (simp add: group_members_def)

lemma groups_right_add:
  assumes "distinct (map wc_name all)" "groups_right all ms groups"
    and "cp_command m \<notin> set uncompressedCommands"
    and "g = (case map_of groups (message_key m) of None \<Rightarrow> no_stats | Some g \<Rightarrow> g)"
    and "add_codecs m all (g\<lparr>gs_messages := gs_messages g + 1,
           gs_rawWire := gs_rawWire g + int (length (cp_bytes m))\<rparr>) = Inr g'"
  shows "groups_right all (ms @ [m]) (AList.update (message_key m) g' groups)"
proof -
  let ?k = "message_key m"
  have "group_totals all (group_members ?k ms) g"
    using assms(2,4) unfolding groups_right_def
    by (cases "map_of groups ?k")
      (force simp: group_totals_def no_stats_def codec_total_def list_all_iff dest: spec[of _ ?k])+
  then have "group_totals all (group_members ?k ms @ [m]) g'"
    using add_codecs_result[OF assms(1), of m "g\<lparr>gs_messages := gs_messages g + 1,
           gs_rawWire := gs_rawWire g + int (length (cp_bytes m))\<rparr>"] assms(5)
    by (auto simp: group_totals_def list_all_iff codec_total_def)
  then show ?thesis
    using assms(2,3)
    by (auto simp: groups_right_def group_members_snoc update_conv' distinct_update
        cong: option.case_cong)
qed

lemma analyze_groups_result:
  assumes "distinct (map wc_name all)" "groups_right all pre groups"
  shows "case analyze_groups all ms groups corpus of
      Inl err \<Rightarrow> \<not> list_all (round_trips all) (compressible ms)
    | Inr (groups', corpus') \<Rightarrow> list_all (round_trips all) (compressible ms) \<and>
        groups_right all (pre @ ms) groups'"
  using assms(2)
proof (induction ms arbitrary: pre groups corpus)
  case (Cons m ms)
  show ?case
  proof (cases "cp_command m \<in> set uncompressedCommands")
    case True
    then have "groups_right all (pre @ [m]) groups"
      using Cons.prems by (simp add: groups_right_def group_members_snoc cong: option.case_cong)
    from Cons.IH[OF this, of corpus] True show ?thesis by (auto split: sum.splits)
  next
    case False
    define g where "g = (case map_of groups (message_key m) of None \<Rightarrow> no_stats | Some g \<Rightarrow> g)"
    let ?g = "g\<lparr>gs_messages := gs_messages g + 1, gs_rawWire := gs_rawWire g + int (length (cp_bytes m))\<rparr>"
    show ?thesis
    proof (cases "add_codecs m all ?g")
      case (Inl err)
      then show ?thesis
        using False add_codecs_result[OF assms(1), of m ?g] by (simp add: g_def Let_def)
    next
      case (Inr g')
      have "analyze_groups all (m # ms) groups corpus =
          analyze_groups all ms (AList.update (message_key m) g' groups) (corpus @ [message_body m])"
        using False Inr by (simp add: Let_def flip: g_def)
      moreover have "round_trips all m"
        using Inr add_codecs_result[OF assms(1), of m ?g] by simp
      ultimately show ?thesis
        using False Cons.IH[OF groups_right_add[OF assms(1) Cons.prems False g_def Inr],
            of "corpus @ [message_body m]"]
        by (auto split: sum.splits)
    qed
  qed
qed simp

text \<open>C37: with codecs of different names, the analysis fails exactly when some compressible message
  does not survive some codec; otherwise there is one group for each workload, direction and command
  that has compressible messages, and its totals are the number of those messages, their bytes on
  the wire, and for each codec their bytes as compressed messages.\<close>

theorem analyze_totals:
  assumes "distinct (map wc_name all)"
  shows "case analyze all timings ms of
      Inl err \<Rightarrow> \<not> list_all (round_trips all) (compressible ms)
    | Inr (groups, cpu) \<Rightarrow> list_all (round_trips all) (compressible ms) \<and> groups_right all ms groups"
proof -
  have "groups_right all [] []" by (simp add: groups_right_def group_members_def)
  from analyze_groups_result[OF assms this, of ms "[]"] show ?thesis
    by (auto simp: analyze_def Let_def split: sum.splits)
qed

theorem analyze_totals_witness:
  "let c = \<lparr>wc_name = ''snappy'', wc_compress = (\<lambda>b. b), wc_decompress = (\<lambda>b. b)\<rparr>;
       m = \<lparr>cp_workload = ''find_all'', cp_direction = toServer, cp_command = ''find'', cp_bytes = replicate 20 1\<rparr>
   in case analyze [c] (\<lambda>_. []) [m, m] of Inl err \<Rightarrow> False | Inr (groups, cpu) \<Rightarrow> groups_right [c] [m, m] groups"
  using analyze_totals[of "[\<lparr>wc_name = ''snappy'', wc_compress = (\<lambda>b. b), wc_decompress = (\<lambda>b. b)\<rparr>]"
    "replicate 2 \<lparr>cp_workload = ''find_all'', cp_direction = toServer, cp_command = ''find'', cp_bytes = replicate 20 1\<rparr>" "\<lambda>_. []"]
  by (auto simp: round_trips_def numeral_2_eq_2 uncompressedCommands_def split: sum.splits)

end
