(* ===== verification/Workload.thy ===== *)
theory Workload
  imports Client GoText "HOL-Library.State_Monad" "HOL-Library.AList"
begin

text \<open>
  The replication workload of src/harness/workload.go: the generator of documents, the vocabulary
  of operations, their classification, and the coverage a run reports. Random numbers are drawn
  from a source given by its \<open>Intn\<close>, threaded by the state monad; the database is third-party
  code: an operation is a program of driver calls, and what each call returns is an argument.
\<close>

section \<open>Random numbers\<close>

type_synonym 'g source = "int \<Rightarrow> ('g, int) state"

text \<open>The contract of \<open>rand.Rand.Intn\<close> for a positive bound.\<close>

definition in_range :: "'g source \<Rightarrow> bool" where
  "in_range intn \<longleftrightarrow> (\<forall>n s. 0 < n \<longrightarrow> fst (run_state (intn n) s) \<in> {0..<n})"

section \<open>Documents\<close>

definition docID :: "'g source \<Rightarrow> ('g, string) state" where
  "docID intn = do { n \<leftarrow> intn 1000000000; State_Monad.return (''doc-'' @ itoa_pad 9 n) }"

definition existingID :: "'g source \<Rightarrow> ('g, string) state" where
  "existingID intn = do { n \<leftarrow> intn 200; State_Monad.return (''doc-'' @ itoa_pad 9 n) }"

definition DocIDFor :: "int \<Rightarrow> string" where
  "DocIDFor i = ''doc-'' @ itoa_pad 9 i"

definition words :: "string list" where
  "words = [''alpha'', ''bravo'', ''charlie'', ''delta'', ''echo'', ''foxtrot'', ''golf'', ''hotel'']"

definition pickWord :: "'g source \<Rightarrow> ('g, string) state" where
  "pickWord intn = do { n \<leftarrow> intn (int (length words)); State_Monad.return (words ! nat n) }"

text \<open>The loops \<open>for i := 0; i < r.Intn(n)+1; i++\<close>, which draw their bound anew before every round.
  A bound never exceeds \<open>n\<close>, so at the latest the draw after \<open>n\<close> rounds ends the loop:
  fuel \<open>n + 1\<close> is enough.\<close>

fun draw_while :: "'g source \<Rightarrow> int \<Rightarrow> ('g, 'a) state \<Rightarrow> nat \<Rightarrow> int \<Rightarrow> ('g, 'a list) state" where
  "draw_while intn n body 0 i = State_Monad.return []"
| "draw_while intn n body (Suc fuel) i = do {
     m \<leftarrow> intn n;
     if i < m + 1
     then do { x \<leftarrow> body; xs \<leftarrow> draw_while intn n body fuel (i + 1); State_Monad.return (x # xs) }
     else State_Monad.return [] }"

definition payloadSize :: "'g source \<Rightarrow> ('g, int) state" where
  "payloadSize intn = do {
     n \<leftarrow> intn 100;
     State_Monad.return (if n < 55 then 0 else if n < 80 then 256 else if n < 93 then 4 * 1024
       else if n < 99 then 64 * 1024 else 512 * 1024) }"

definition optional_field :: "'g source \<Rightarrow> int \<Rightarrow> string \<Rightarrow> ('g, bval) state \<Rightarrow> ('g, doc) state" where
  "optional_field intn n name value = do {
     m \<leftarrow> intn n;
     if m = 0 then do { v \<leftarrow> value; State_Monad.return [(name, v)] } else State_Monad.return [] }"

definition base_fields :: "'g source \<Rightarrow> string \<Rightarrow> ('g, doc) state" where
  "base_fields intn ident = do {
     score \<leftarrow> intn 1000; tot \<leftarrow> intn 1000000; ratio \<leftarrow> intn 10000; active \<leftarrow> intn 2;
     label \<leftarrow> pickWord intn;
     State_Monad.return [(''_id'', BString ident), (''score'', BInt32 score), (''total'', BInt64 tot),
       (''ratio'', BDouble (float_div (float_of_int ratio) (FFin 100))),
       (''active'', BBool (active = 0)), (''label'', BString label)] }"

definition tags_field :: "'g source \<Rightarrow> ('g, bval) state" where
  "tags_field intn = do {
     tags \<leftarrow> draw_while intn 5 (pickWord intn) 6 0; State_Monad.return (BArr (map BString tags)) }"

definition address_field :: "'g source \<Rightarrow> ('g, bval) state" where
  "address_field intn = do {
     number \<leftarrow> intn 9999; street \<leftarrow> pickWord intn; city \<leftarrow> pickWord intn; code \<leftarrow> intn 100000;
     State_Monad.return (BDoc [(''street'', BString (itoa number @ '' '' @ street @ '' St'')),
       (''city'', BString city), (''zip'', BString (itoa_pad 5 code))]) }"

definition counters_field :: "'g source \<Rightarrow> ('g, bval) state" where
  "counters_field intn = do {
     views \<leftarrow> intn 1000000; clicks \<leftarrow> intn 10000;
     State_Monad.return (BDoc [(''views'', BInt32 views), (''clicks'', BInt32 clicks)]) }"

definition item :: "'g source \<Rightarrow> ('g, bval) state" where
  "item intn = do {
     sku \<leftarrow> pickWord intn; qty \<leftarrow> intn 50;
     State_Monad.return (BDoc [(''sku'', BString sku), (''qty'', BInt32 qty)]) }"

definition GenerateDocument :: "'g source \<Rightarrow> string \<Rightarrow> ('g, doc) state" where
  "GenerateDocument intn ident = do {
     base \<leftarrow> base_fields intn ident;
     tags \<leftarrow> optional_field intn 2 ''tags'' (tags_field intn);
     address \<leftarrow> optional_field intn 3 ''address'' (address_field intn);
     counters \<leftarrow> optional_field intn 3 ''counters'' (counters_field intn);
     items \<leftarrow> draw_while intn 4 (item intn) 5 0;
     pad \<leftarrow> payloadSize intn;
     State_Monad.return (base @ tags @ [(''mutable'', BArr (map BString words))] @ address @ counters @
       [(''items'', BArr items)] @
       (if 0 < pad then [(''payload'', BString (replicate (nat pad) (CHR ''x'')))] else [])) }"

section \<open>Operations\<close>

datatype bulk_model = BulkInsert doc | BulkUpdate doc doc | BulkDelete doc

datatype call =
    CInsertOne doc
  | CInsertMany "doc list" bool                \<comment> \<open>ordered?\<close>
  | CUpdateOne doc doc bool "doc list"         \<comment> \<open>upsert?, array filters\<close>
  | CUpdateMany doc doc
  | CReplaceOne doc doc
  | CDeleteOne doc
  | CDeleteMany doc
  | CFindOneAndUpdate doc doc
  | CFindOneAndDelete doc
  | CBulkWrite "bulk_model list"
  | CCreateCollection string
  | CDropCollection string
  | CRunCommand doc
  | CAdminCommand doc
  | CCreateIndex doc "string option"
  | CDropIndex string
  | CStartSession
  | CWithTransaction "(string \<times> doc) list" bool  \<comment> \<open>the inserts, commit?\<close>

text \<open>A reply is the error of the call and the counts of its result (modified, upserted, deleted):
  the driver may return no result, a nil pointer. It also says whether
  \<open>mongo.IsDuplicateKeyError\<close> holds of the error.\<close>

record reply =
  rp_err :: "goerror option"
  rp_result :: "(int \<times> int \<times> int) option"
  rp_duplicateKey :: bool

text \<open>An operation returns its error; reading a field of a nil result panics.\<close>

datatype op_outcome = Finished "goerror option" | NilDereference

datatype program = Done op_outcome | Do call "reply \<Rightarrow> program"

definition ErrNoContribution :: goerror where
  "ErrNoContribution = ErrText ''operation changed nothing and produced no oplog entry''"

definition contributed :: "goerror option \<Rightarrow> int \<Rightarrow> goerror option" where
  "contributed err changed =
     (case err of Some e \<Rightarrow> Some e | None \<Rightarrow> if changed = 0 then Some ErrNoContribution else None)"

definition ignoreNoDocuments :: "goerror option \<Rightarrow> goerror option" where
  "ignoreNoDocuments err = (if err = Some ErrNoDocuments then None else err)"

definition only_error :: "call \<Rightarrow> program" where
  "only_error c = Do c (\<lambda>rp. Done (Finished (rp_err rp)))"

definition counted :: "call \<Rightarrow> (int \<times> int \<times> int \<Rightarrow> int) \<Rightarrow> program" where
  "counted c changed = Do c (\<lambda>rp. Done (case rp_result rp of
     None \<Rightarrow> NilDereference | Some res \<Rightarrow> Finished (contributed (rp_err rp) (changed res))))"

definition modified_or_upserted :: "int \<times> int \<times> int \<Rightarrow> int" where
  "modified_or_upserted res = fst res + fst (snd res)"

type_synonym 'g operation = "string \<times> ('g source \<Rightarrow> ('g, program) state)"

definition by_id :: "string \<Rightarrow> doc" where
  "by_id ident = [(''_id'', BString ident)]"

definition updateOp :: "('g source \<Rightarrow> ('g, doc) state) \<Rightarrow> 'g source \<Rightarrow> ('g, program) state" where
  "updateOp build intn = do {
     ident \<leftarrow> existingID intn; u \<leftarrow> build intn;
     State_Monad.return (counted (CUpdateOne (by_id ident) u False []) modified_or_upserted) }"

text \<open>One update operator on one field.\<close>

definition operator :: "string \<Rightarrow> string \<Rightarrow> ('g, bval) state \<Rightarrow> ('g, doc) state" where
  "operator op fld value = do { v \<leftarrow> value; State_Monad.return [(op, BDoc [(fld, v)])] }"

definition numbered_word :: "'g source \<Rightarrow> ('g, bval) state" where
  "numbered_word intn = do {
     w \<leftarrow> pickWord intn; n \<leftarrow> intn 1000000000; State_Monad.return (BString (w @ ''-'' @ itoa n)) }"

definition drawn :: "'g source \<Rightarrow> int \<Rightarrow> (int \<Rightarrow> 'a) \<Rightarrow> ('g, 'a) state" where
  "drawn intn n f = do { m \<leftarrow> intn n; State_Monad.return (f m) }"

definition yields :: "'a \<Rightarrow> ('g, 'a) state" where "yields = State_Monad.return"

definition new_document :: "'g source \<Rightarrow> ('g, doc) state" where
  "new_document intn = do { ident \<leftarrow> docID intn; GenerateDocument intn ident }"

definition WriteOps :: "'g operation list" where
  "WriteOps = [
     (''insertOne'', \<lambda>intn. do { d \<leftarrow> new_document intn; yields (only_error (CInsertOne d)) }),
     (''insertMany'', \<lambda>intn. do {
        ds \<leftarrow> State_Monad.traverse_list (\<lambda>_. new_document intn) [0..<5::nat];
        yields (only_error (CInsertMany ds True)) }),
     (''insertMany-unordered-with-duplicate'', \<lambda>intn. do {
        ident \<leftarrow> docID intn; a \<leftarrow> GenerateDocument intn ident; b \<leftarrow> GenerateDocument intn ident;
        yields (Do (CInsertMany [a, b] False) (\<lambda>rp. Done (Finished
          (if rp_duplicateKey rp then None else rp_err rp)))) }),
     (''update-$set'', updateOp (\<lambda>intn. operator ''$set'' ''label'' (numbered_word intn))),
     (''update-$unset'', updateOp (\<lambda>intn. operator ''$unset'' ''label'' (yields (BString [])))),
     (''update-$inc'', updateOp (\<lambda>intn. operator ''$inc'' ''score'' (drawn intn 10 (\<lambda>m. BInt32 (m - 5))))),
     (''update-$mul'', updateOp (\<lambda>intn. operator ''$mul'' ''score'' (yields (BInt32 2)))),
     (''update-$min'', updateOp (\<lambda>intn. operator ''$min'' ''score''
        (drawn intn 1000000 (\<lambda>m. BInt32 (- 1000000 - m))))),
     (''update-$max'', updateOp (\<lambda>intn. operator ''$max'' ''score''
        (drawn intn 1000000 (\<lambda>m. BInt32 (1000 + m))))),
     (''update-$rename'', updateOp (\<lambda>intn. operator ''$rename'' ''label'' (yields (BString ''moved_label'')))),
     (''update-$currentDate'', updateOp (\<lambda>intn. operator ''$currentDate'' ''touched'' (yields (BBool True)))),
     (''update-$bit'', updateOp (\<lambda>intn. operator ''$bit'' ''flags''
        (drawn intn 8 (\<lambda>m. BDoc [(''or'', BInt32 (2 ^ nat m))])))),
     (''update-$setOnInsert-upsert'', \<lambda>intn. do {
        ident \<leftarrow> docID intn; w \<leftarrow> pickWord intn;
        yields (only_error (CUpdateOne (by_id ident)
          [(''$setOnInsert'', BDoc [(''created'', BString w)]), (''$set'', BDoc [(''seen'', BInt32 1)])]
          True [])) }),
     (''updateMany'', \<lambda>intn. drawn intn 1000 (\<lambda>m. counted
        (CUpdateMany [(''score'', BDoc [(''$lt'', BInt32 m)])] [(''$inc'', BDoc [(''bulkTouched'', BInt32 1)])])
        fst)),
     (''replaceOne'', \<lambda>intn. do {
        ident \<leftarrow> existingID intn; d \<leftarrow> GenerateDocument intn ident;
        yields (counted (CReplaceOne (by_id ident) d) modified_or_upserted) }),
     (''deleteOne'', \<lambda>intn. do {
        ident \<leftarrow> existingID intn; yields (counted (CDeleteOne (by_id ident)) (snd \<circ> snd)) }),
     (''deleteMany'', \<lambda>intn. do {
        w \<leftarrow> pickWord intn; yields (counted (CDeleteMany [(''label'', BString w)]) (snd \<circ> snd)) }),
     (''findOneAndUpdate'', \<lambda>intn. do {
        ident \<leftarrow> existingID intn;
        yields (Do (CFindOneAndUpdate (by_id ident) [(''$inc'', BDoc [(''score'', BInt32 1)])])
          (\<lambda>rp. Done (Finished (ignoreNoDocuments (rp_err rp))))) }),
     (''findOneAndDelete'', \<lambda>intn. do {
        ident \<leftarrow> existingID intn;
        yields (Do (CFindOneAndDelete (by_id ident))
          (\<lambda>rp. Done (Finished (ignoreNoDocuments (rp_err rp))))) }),
     (''bulkWrite-mixed'', \<lambda>intn. do {
        d \<leftarrow> new_document intn; u \<leftarrow> existingID intn; x \<leftarrow> existingID intn;
        yields (only_error (CBulkWrite [BulkInsert d,
          BulkUpdate (by_id u) [(''$set'', BDoc [(''bulk'', BBool True)])], BulkDelete (by_id x)])) })]"

definition pushed :: "string \<Rightarrow> doc \<Rightarrow> doc" where
  "pushed fld mods = [(''$push'', BDoc [(fld, BDoc mods)])]"

definition word_value :: "'g source \<Rightarrow> ('g, bval) state" where
  "word_value intn = do { w \<leftarrow> pickWord intn; yields (BString w) }"

definition ArrayOps :: "'g operation list" where
  "ArrayOps = [
     (''array-$push'', updateOp (\<lambda>intn. operator ''$push'' ''tags'' (word_value intn))),
     (''array-$push-$each-$slice-$sort'', updateOp (\<lambda>intn. do {
        a \<leftarrow> intn 1000000; b \<leftarrow> intn 1000000;
        yields (pushed ''scores'' [(''$each'', BArr [BInt32 (- 1 - a), BInt32 (- 1 - b)]),
          (''$sort'', BInt32 1), (''$slice'', BInt32 5)]) })),
     (''array-$push-$position'', updateOp (\<lambda>intn. do {
        w \<leftarrow> word_value intn;
        yields (pushed ''mutable'' [(''$each'', BArr [w]), (''$position'', BInt32 0)]) })),
     (''array-$addToSet'', updateOp (\<lambda>intn. operator ''$addToSet'' ''tags'' (numbered_word intn))),
     (''array-$pull'', updateOp (\<lambda>intn. operator ''$pull'' ''mutable'' (word_value intn))),
     (''array-$pullAll'', updateOp (\<lambda>intn. operator ''$pullAll'' ''mutable''
        (do { a \<leftarrow> word_value intn; b \<leftarrow> word_value intn; yields (BArr [a, b]) }))),
     (''array-$pop'', updateOp (\<lambda>intn. operator ''$pop'' ''mutable''
        (drawn intn 2 (\<lambda>m. BInt32 (if m = 0 then - 1 else 1))))),
     (''array-positional-all'', updateOp (\<lambda>intn. operator ''$inc'' ''items.$[].qty'' (yields (BInt32 1)))),
     (''array-positional-filtered'', \<lambda>intn. do {
        ident \<leftarrow> existingID intn;
        yields (only_error (CUpdateOne (by_id ident)
          [(''$set'', BDoc [(''items.$[low].qty'', BInt32 99)])] False
          [[(''low.qty'', BDoc [(''$lt'', BInt32 10)])]])) }),
     (''array-positional-match'', \<lambda>intn. yields (only_error (CUpdateOne
        [(''items.qty'', BDoc [(''$gte'', BInt32 0)])]
        [(''$inc'', BDoc [(''items.$.qty'', BInt32 1)])] False [])))]"

text \<open>\<open>if err := call; err != nil { return err }\<close>, then the rest.\<close>

definition unless_error :: "call \<Rightarrow> program \<Rightarrow> program" where
  "unless_error c rest = Do c (\<lambda>rp. case rp_err rp of Some e \<Rightarrow> Done (Finished (Some e)) | None \<Rightarrow> rest)"

definition made_name :: "'g source \<Rightarrow> ('g, string) state" where
  "made_name intn = do {
     w \<leftarrow> pickWord intn; n \<leftarrow> intn 1000; yields (''made_'' @ w @ ''_'' @ itoa n) }"

definition CatalogOps :: "string \<Rightarrow> 'g operation list" where
  "CatalogOps db = [
     (''createCollection'', \<lambda>intn. do { n \<leftarrow> made_name intn; yields (only_error (CCreateCollection n)) }),
     (''createCollection-with-validator'', \<lambda>intn. drawn intn 1000 (\<lambda>m. only_error (CRunCommand
        [(''create'', BString (''validated_'' @ itoa m)),
         (''validator'', BDoc [(''score'', BDoc [(''$exists'', BBool True)])]),
         (''validationLevel'', BString ''strict'')]))),
     (''collMod-validator'', \<lambda>intn. drawn intn 3 (\<lambda>m. only_error (CRunCommand
        [(''collMod'', BString ''workload''),
         (''validationLevel'', BString ([''off'', ''moderate'', ''strict''] ! nat m))]))),
     (''createIndex'', \<lambda>intn. drawn intn 4 (\<lambda>m. only_error (CCreateIndex
        [([''score'', ''label'', ''total'', ''address.city''] ! nat m, BInt32 1)] None))),
     (''dropIndex'', \<lambda>intn. drawn intn 1000000 (\<lambda>m. let name = ''transient_'' @ itoa m in
        unless_error (CCreateIndex [(''score'', BInt32 1), (''label'', BInt32 (- 1))] (Some name))
          (only_error (CDropIndex name)))),
     (''renameCollection'', \<lambda>intn. do {
        a \<leftarrow> intn 100; b \<leftarrow> intn 100;
        yields (unless_error (CCreateCollection (''rename_src_'' @ itoa a))
          (only_error (CAdminCommand
            [(''renameCollection'', BString (db @ ''.'' @ ''rename_src_'' @ itoa a)),
             (''to'', BString (db @ ''.'' @ ''rename_dst_'' @ itoa b)), (''dropTarget'', BBool True)]))) }),
     (''dropCollection'', \<lambda>intn. do { n \<leftarrow> made_name intn; yields (only_error (CDropCollection n)) })]"

text \<open>The driver runs the callback of a transaction; a callback that inserts both documents and is
  not to commit returns the deliberate error, which the driver passes on. The documents are drawn
  for one run of the callback; a driver that retries it draws new ones.\<close>

definition runTransaction :: "bool \<Rightarrow> 'g source \<Rightarrow> ('g, program) state" where
  "runTransaction commit intn = do {
     a \<leftarrow> docID intn; b \<leftarrow> docID intn; da \<leftarrow> GenerateDocument intn a; db \<leftarrow> GenerateDocument intn b;
     yields (unless_error CStartSession
       (Do (CWithTransaction [(''txn_a'', da), (''txn_b'', db)] commit) (\<lambda>rp. Done (Finished (case rp_err rp of
          None \<Rightarrow> None
        | Some e \<Rightarrow> if \<not> commit \<and> contains (error_text e) ''deliberate abort'' then None else Some e))))) }"

definition TransactionOps :: "'g operation list" where
  "TransactionOps = [(''transaction-commit'', runTransaction True), (''transaction-abort'', runTransaction False)]"

definition StandardVocabulary :: "string \<Rightarrow> 'g operation list" where
  "StandardVocabulary db = WriteOps @ ArrayOps @ CatalogOps db @ TransactionOps"

section \<open>Coverage\<close>

record Coverage =
  cv_Ran :: "(string \<times> int) list"
  cv_Failures :: "(string \<times> int) list"
  cv_NoOps :: "(string \<times> int) list"

definition newCoverage :: Coverage where
  "newCoverage = \<lparr>cv_Ran = [], cv_Failures = [], cv_NoOps = []\<rparr>"

definition count_of :: "(string \<times> int) list \<Rightarrow> string \<Rightarrow> int" where
  "count_of m n = (case map_of m n of None \<Rightarrow> 0 | Some k \<Rightarrow> k)"

definition bump :: "string \<Rightarrow> (string \<times> int) list \<Rightarrow> (string \<times> int) list" where
  "bump n m = AList.update n (count_of m n + 1) m"

definition Coverage_record :: "string \<times> goerror option \<Rightarrow> Coverage \<Rightarrow> Coverage" where
  "Coverage_record r c =
     (let (name, err) = r; c = c\<lparr>cv_Ran := bump name (cv_Ran c)\<rparr> in
      case err of
        None \<Rightarrow> c
      | Some e \<Rightarrow> if errors_Is e ErrNoContribution then c\<lparr>cv_NoOps := bump name (cv_NoOps c)\<rparr>
                  else c\<lparr>cv_Failures := bump name (cv_Failures c)\<rparr>)"

definition Coverage_Names :: "Coverage \<Rightarrow> string list" where
  "Coverage_Names c = sort (map fst (cv_Ran c))"

definition append_counts :: "string \<Rightarrow> (string \<times> int) list \<Rightarrow> string" where
  "append_counts label counts =
     (if counts = [] then []
      else ''; '' @ label @ '':'' @
        concat (map (\<lambda>n. '' '' @ n @ ''='' @ itoa (count_of counts n)) (sort (map fst counts))))"

definition Coverage_String :: "Coverage \<Rightarrow> string" where
  "Coverage_String c =
     itoa (sum_list (map snd (cv_Ran c))) @ '' operations across '' @ itoa (int (length (cv_Ran c))) @
     '' kinds'' @ append_counts ''failures'' (cv_Failures c) @ append_counts ''changed nothing'' (cv_NoOps c)"

section \<open>Running\<close>

primrec run_program :: "program \<Rightarrow> (call \<Rightarrow> 'd \<Rightarrow> reply \<times> 'd) \<Rightarrow> 'd \<Rightarrow> op_outcome \<times> 'd" where
  "run_program (Done res) h d = (res, d)"
| "run_program (Do c k) h d = (case h c d of (rp, d) \<Rightarrow> run_program (k rp) h d)"

text \<open>One worker: the records it makes, in order, and how it ends. Its database is whatever replies
  it gets; the context is checked before each operation.\<close>

datatype worker_end = Completed | Cancelled goerror | Crashed

fun run_worker :: "'g source \<Rightarrow> (call \<Rightarrow> 'd \<Rightarrow> reply \<times> 'd) \<Rightarrow> ('d \<Rightarrow> goerror option) \<Rightarrow> 'g operation list \<Rightarrow>
    'g \<Rightarrow> 'd \<Rightarrow> (string \<times> goerror option) list \<times> worker_end" where
  "run_worker intn h ctxErr [] g d = ([], Completed)"
| "run_worker intn h ctxErr ((name, build) # ops) g d =
     (case ctxErr d of
        Some e \<Rightarrow> ([], Cancelled e)
      | None \<Rightarrow>
          let (prog, g) = run_state (build intn) g; (res, d) = run_program prog h d
          in case res of
               NilDereference \<Rightarrow> ([], Crashed)
             | Finished err \<Rightarrow>
                 let (rs, fin) = run_worker intn h ctxErr ops g d in ((name, err) # rs, fin))"

record 'g Workload =
  wl_Seed :: int
  wl_Ops :: "'g operation list"
  wl_Repeat :: nat
  wl_Concurrency :: nat

definition at_least_one :: "nat \<Rightarrow> nat" where
  "at_least_one n = (if n = 0 then 1 else n)"

definition worker_runs :: "'g source \<Rightarrow> (int \<Rightarrow> 'g) \<Rightarrow> (nat \<Rightarrow> call \<Rightarrow> 'd \<Rightarrow> reply \<times> 'd) \<Rightarrow>
    (nat \<Rightarrow> 'd \<Rightarrow> goerror option) \<Rightarrow> 'd \<Rightarrow> 'g Workload \<Rightarrow>
    ((string \<times> goerror option) list \<times> worker_end) list" where
  "worker_runs intn newSource h ctxErr d w =
     map (\<lambda>i. run_worker intn (h i) (ctxErr i) (concat (replicate (at_least_one (wl_Repeat w)) (wl_Ops w)))
            (newSource (wl_Seed w + int i * 7919)) d)
       [0..<at_least_one (wl_Concurrency w)]"

definition cover :: "(string \<times> goerror option) list \<Rightarrow> Coverage" where
  "cover rs = foldl (\<lambda>c r. Coverage_record r c) newCoverage rs"

text \<open>What a run returns when its workers' records were made in the order \<open>order\<close>, which the
  mutex of the coverage chooses: nothing, when an operation panicked.\<close>

definition first_error :: "worker_end list \<Rightarrow> goerror option" where
  "first_error ends = (case filter (\<lambda>e. case e of Cancelled x \<Rightarrow> True | _ \<Rightarrow> False) ends of Cancelled e # _ \<Rightarrow> Some e | _ \<Rightarrow> None)"

definition Workload_Run :: "((string \<times> goerror option) list \<times> worker_end) list \<Rightarrow>
    (string \<times> goerror option) list \<Rightarrow> (Coverage \<times> goerror option) option" where
  "Workload_Run runs order =
     (if Crashed \<in> set (map snd runs) then None else Some (cover order, first_error (map snd runs)))"

end
