(* ===== verification/WorkloadFacts.thy ===== *)
theory WorkloadFacts
  imports Workload
begin

text \<open>
  What the workload guarantees: generated documents have the fields and ranges the operations act
  on, the coverage counts every operation once and splits it by outcome whatever the interleaving
  of the workers, and a run that is not cancelled executes the whole vocabulary.
\<close>

section \<open>Generated documents\<close>

lemma return_pred [intro]: "P x \<Longrightarrow> pred_state P (State_Monad.return x)"
  by (rule pred_stateI) simp

lemma bind_pred:
  assumes "pred_state Q m" "\<And>x. Q x \<Longrightarrow> pred_state P (f x)"
  shows "pred_state P (State_Monad.bind m f)"
  by (rule bind_predI) (metis assms pred_stateD pred_stateI)

lemma intn_pred:
  assumes "in_range intn" "0 < n"
  shows "pred_state (\<lambda>m. 0 \<le> m \<and> m < n) (intn n)"
  by (rule pred_stateI) (metis assms atLeastLessThan_iff fst_conv in_range_def)

lemma pickWord_pred:
  assumes "in_range intn"
  shows "pred_state (\<lambda>w. w \<in> set words) (pickWord intn)"
  unfolding pickWord_def
proof (rule bind_pred[OF intn_pred[OF assms]])
  show "0 < int (length words)" by (simp add: words_def)
  fix n assume "0 \<le> n \<and> n < int (length words)"
  then show "pred_state (\<lambda>w. w \<in> set words) (State_Monad.return (words ! nat n))"
    by (intro return_pred nth_mem) (simp add: nat_less_iff)
qed

lemma draw_while_pred:
  assumes "in_range intn" "0 < n" "pred_state P body"
  shows "pred_state (\<lambda>xs. list_all P xs \<and> int (length xs) + i \<le> max n i) (draw_while intn n body fuel i)"
proof (induction fuel arbitrary: i)
  case (Suc fuel)
  show ?case
    unfolding draw_while.simps
  proof (rule bind_pred[OF intn_pred[OF assms(1,2)]])
    fix m assume m: "0 \<le> m \<and> m < n"
    show "pred_state (\<lambda>xs. list_all P xs \<and> int (length xs) + i \<le> max n i)
      (if i < m + 1
       then do { x \<leftarrow> body; xs \<leftarrow> draw_while intn n body fuel (i + 1); State_Monad.return (x # xs) }
       else State_Monad.return [])"
      by (auto intro!: bind_pred[OF assms(3)] bind_pred[OF Suc[of "i + 1"]] return_pred) (use m in auto)
  qed
qed (auto intro: return_pred)

text \<open>The fuel is enough: more of it changes nothing.\<close>

lemma draw_while_fuel:
  assumes "in_range intn" "0 < n" "nat (n - i) < fuel" "0 \<le> i"
  shows "run_state (draw_while intn n body (fuel + k) i) s = run_state (draw_while intn n body fuel i) s"
  using assms(3,4)
proof (induction fuel arbitrary: i s)
  case (Suc fuel)
  obtain m s1 where m: "run_state (intn n) s = (m, s1)" by fastforce
  then have "0 \<le> m \<and> m < n" using intn_pred[OF assms(1,2)] by (auto dest: pred_stateD)
  moreover obtain x s2 where "run_state body s1 = (x, s2)" by fastforce
  ultimately show ?case
    using m Suc.IH[of "i + 1" s2] Suc.prems by (cases "i < m + 1") auto
qed simp

definition optional_value :: "string \<Rightarrow> (bval \<Rightarrow> bool) \<Rightarrow> doc \<Rightarrow> bool" where
  "optional_value name P d \<longleftrightarrow> d = [] \<or> (\<exists>v. d = [(name, v)] \<and> P v)"

lemma optional_names: "optional_value name P d \<Longrightarrow> map fst d = [] \<or> map fst d = [name]"
  by (auto simp: optional_value_def)

lemma optional_field_pred:
  assumes "in_range intn" "0 < n" "pred_state P value"
  shows "pred_state (optional_value name P) (optional_field intn n name value)"
  unfolding optional_field_def
proof (rule bind_pred[OF intn_pred[OF assms(1,2)]])
  fix m
  show "pred_state (optional_value name P)
      (if m = 0 then do { v \<leftarrow> value; State_Monad.return [(name, v)] } else State_Monad.return [])"
    by (auto simp: optional_value_def intro!: bind_pred[OF assms(3)] return_pred)
qed

definition is_words :: "nat \<Rightarrow> bval \<Rightarrow> bool" where
  "is_words n v \<longleftrightarrow> (\<exists>ws. v = BArr (map BString ws) \<and> length ws \<le> n \<and> set ws \<subseteq> set words)"

definition is_item :: "bval \<Rightarrow> bool" where
  "is_item v \<longleftrightarrow> (\<exists>w q. v = BDoc [(''sku'', BString w), (''qty'', BInt32 q)] \<and> w \<in> set words \<and> q \<in> {0..<50})"

definition is_subdocument :: "string list \<Rightarrow> bval \<Rightarrow> bool" where
  "is_subdocument names v \<longleftrightarrow> (\<exists>d. v = BDoc d \<and> map fst d = names)"

lemma tags_pred:
  assumes "in_range intn"
  shows "pred_state (is_words 5) (tags_field intn)"
  unfolding tags_field_def
  by (rule bind_pred[OF draw_while_pred[OF assms _ pickWord_pred[OF assms]]])
    (auto simp: is_words_def list_all_iff intro!: return_pred, blast)

lemma item_pred:
  assumes "in_range intn"
  shows "pred_state is_item (item intn)"
  unfolding item_def
  by (rule bind_pred[OF pickWord_pred[OF assms]], rule bind_pred[OF intn_pred[OF assms]])
    (auto simp: is_item_def intro!: return_pred)

lemma address_pred:
  assumes "in_range intn"
  shows "pred_state (is_subdocument [''street'', ''city'', ''zip'']) (address_field intn)"
  unfolding address_field_def
  by (rule bind_pred[OF intn_pred[OF assms]], simp, rule bind_pred[OF pickWord_pred[OF assms]],
      rule bind_pred[OF pickWord_pred[OF assms]], rule bind_pred[OF intn_pred[OF assms]])
    (auto simp: is_subdocument_def intro!: return_pred)

lemma counters_pred:
  assumes "in_range intn"
  shows "pred_state (is_subdocument [''views'', ''clicks'']) (counters_field intn)"
  unfolding counters_field_def
  by (rule bind_pred[OF intn_pred[OF assms]], simp, rule bind_pred[OF intn_pred[OF assms]])
    (auto simp: is_subdocument_def intro!: return_pred)

definition base_document :: "string \<Rightarrow> doc \<Rightarrow> bool" where
  "base_document ident d \<longleftrightarrow> (\<exists>score tot ratio active label.
     d = [(''_id'', BString ident), (''score'', BInt32 score), (''total'', BInt64 tot),
          (''ratio'', BDouble ratio), (''active'', BBool active), (''label'', BString label)] \<and>
     score \<in> {0..<1000} \<and> tot \<in> {0..<1000000} \<and> label \<in> set words)"

lemma base_pred:
  assumes "in_range intn"
  shows "pred_state (base_document ident) (base_fields intn ident)"
  unfolding base_fields_def
  by (rule bind_pred[OF intn_pred[OF assms]], simp, rule bind_pred[OF intn_pred[OF assms]], simp,
      rule bind_pred[OF intn_pred[OF assms]], simp, rule bind_pred[OF intn_pred[OF assms]], simp,
      rule bind_pred[OF pickWord_pred[OF assms]])
    (auto simp: base_document_def intro!: return_pred)

lemma payload_pred:
  assumes "in_range intn"
  shows "pred_state (\<lambda>n. n \<in> {0, 256, 4096, 65536, 524288}) (payloadSize intn)"
  unfolding payloadSize_def
  by (rule bind_pred[OF intn_pred[OF assms]]) (auto intro!: return_pred)

text \<open>A document as the workload stores it.\<close>

definition well_formed_document :: "string \<Rightarrow> doc \<Rightarrow> bool" where
  "well_formed_document ident d \<longleftrightarrow>
     (\<exists>base tags address counters items payload.
        d = base @ tags @ [(''mutable'', BArr (map BString words))] @ address @ counters @
            [(''items'', BArr items)] @ payload \<and>
        base_document ident base \<and> optional_value ''tags'' (is_words 5) tags \<and>
        optional_value ''address'' (is_subdocument [''street'', ''city'', ''zip'']) address \<and>
        optional_value ''counters'' (is_subdocument [''views'', ''clicks'']) counters \<and>
        list_all is_item items \<and> length items \<le> 4 \<and>
        optional_value ''payload'' (\<lambda>v. \<exists>n. v = BString (replicate n (CHR ''x'')) \<and>
          n \<in> {256, 4096, 65536, 524288}) payload) \<and>
     distinct (map fst d)"

lemma generated_parts:
  assumes "in_range intn"
  shows "pred_state (well_formed_document ident) (GenerateDocument intn ident)"
  unfolding GenerateDocument_def
proof (rule bind_pred[OF base_pred[OF assms]],
    rule bind_pred[OF optional_field_pred[OF assms _ tags_pred[OF assms]]], simp,
    rule bind_pred[OF optional_field_pred[OF assms _ address_pred[OF assms]]], simp,
    rule bind_pred[OF optional_field_pred[OF assms _ counters_pred[OF assms]]], simp,
    rule bind_pred[OF draw_while_pred[OF assms _ item_pred[OF assms]]], simp,
    rule bind_pred[OF payload_pred[OF assms]], rule return_pred)
  fix base tags address counters items pad
  assume *: "base_document ident base" "optional_value ''tags'' (is_words 5) tags"
    "optional_value ''address'' (is_subdocument [''street'', ''city'', ''zip'']) address"
    "optional_value ''counters'' (is_subdocument [''views'', ''clicks'']) counters"
    "list_all is_item items \<and> int (length items) + 0 \<le> max 4 0"
    "pad \<in> {0, 256, 4096, 65536, 524288 :: int}"
  let ?payload = "if 0 < pad then [(''payload'', BString (replicate (nat pad) (CHR ''x'')))] else []"
  have payload: "optional_value ''payload'' (\<lambda>v. \<exists>n. v = BString (replicate n (CHR ''x'')) \<and>
      n \<in> {256, 4096, 65536, 524288}) ?payload"
    using *(6) by (auto simp: optional_value_def intro!: exI[of _ "nat pad"])
  have "map fst base = [''_id'', ''score'', ''total'', ''ratio'', ''active'', ''label'']"
    using *(1) by (auto simp: base_document_def)
  moreover note optional_names[OF *(2)] optional_names[OF *(3)] optional_names[OF *(4)]
    optional_names[OF payload]
  ultimately have "distinct (map fst (base @ tags @ [(''mutable'', BArr (map BString words))] @ address @
      counters @ [(''items'', BArr items)] @ ?payload))"
    unfolding map_append by (elim disjE) simp_all
  with * payload show "well_formed_document ident (base @ tags @
      [(''mutable'', BArr (map BString words))] @ address @ counters @ [(''items'', BArr items)] @ ?payload)"
    unfolding well_formed_document_def by fastforce
qed

text \<open>C38: whatever the random source draws within its bounds, a generated document is well formed:
  its names are distinct and in order, it carries the identifier it was asked for, the fields the
  update operators act on with their types and ranges, at most five tags, at most four items, and a
  payload of one of the listed sizes.\<close>

theorem GenerateDocument_well_formed:
  assumes "in_range intn"
  shows "well_formed_document ident (fst (run_state (GenerateDocument intn ident) s))"
  using generated_parts[OF assms] by (rule pred_state_run_state)

definition zero_source :: "unit source" where
  "zero_source n = State_Monad.return 0"

theorem GenerateDocument_well_formed_witness:
  "well_formed_document ''doc-000000001''
     (fst (run_state (GenerateDocument zero_source ''doc-000000001'') ()))"
  by (rule GenerateDocument_well_formed) (simp add: in_range_def zero_source_def)

section \<open>Coverage\<close>

lemma count_of_bump: "count_of (bump n m) n' = count_of m n' + (if n' = n then 1 else 0)"
  by (simp add: count_of_def bump_def update_conv')

lemma bump_keys: "fst ` set (bump n m) = Set.insert n (fst ` set m)"
  by (simp add: bump_def dom_update)

lemma distinct_bump: "distinct (map fst m) \<Longrightarrow> distinct (map fst (bump n m))"
  by (simp add: bump_def distinct_update)

definition is_noop :: "goerror option \<Rightarrow> bool" where
  "is_noop err = (case err of None \<Rightarrow> False | Some e \<Rightarrow> errors_Is e ErrNoContribution)"

definition is_failure :: "goerror option \<Rightarrow> bool" where
  "is_failure err = (case err of None \<Rightarrow> False | Some e \<Rightarrow> \<not> errors_Is e ErrNoContribution)"

lemma outcome_kinds [simp]:
  "\<not> is_noop None" "is_noop (Some e) \<longleftrightarrow> errors_Is e ErrNoContribution"
  "\<not> is_failure None" "is_failure (Some e) \<longleftrightarrow> \<not> errors_Is e ErrNoContribution"
  by (simp_all add: is_noop_def is_failure_def)

text \<open>How often an operation was recorded with an outcome of a kind.\<close>

definition occurrences :: "(goerror option \<Rightarrow> bool) \<Rightarrow> string \<Rightarrow> (string \<times> goerror option) list \<Rightarrow> int" where
  "occurrences P name rs = int (length (filter (\<lambda>(n, err). n = name \<and> P err) rs))"

lemma occurrences_snoc:
  "occurrences P name (rs @ [(n, err)]) = occurrences P name rs + (if name = n \<and> P err then 1 else 0)"
  by (auto simp: occurrences_def)

lemma occurrences_mset: "mset rs = mset rs' \<Longrightarrow> occurrences P name rs = occurrences P name rs'"
  unfolding occurrences_def by (metis mset_filter size_mset)

lemma cover_snoc: "cover (rs @ [r]) = Coverage_record r (cover rs)"
  by (simp add: cover_def)

lemma cover_facts:
  "count_of (cv_Ran (cover rs)) name = occurrences (\<lambda>_. True) name rs"
  "count_of (cv_NoOps (cover rs)) name = occurrences is_noop name rs"
  "count_of (cv_Failures (cover rs)) name = occurrences is_failure name rs"
  "fst ` set (cv_Ran (cover rs)) = fst ` set rs" "distinct (map fst (cv_Ran (cover rs)))"
proof (induction rs rule: rev_induct)
  case Nil
  { case 1 then show ?case by (simp add: cover_def newCoverage_def count_of_def occurrences_def) }
  { case 2 then show ?case by (simp add: cover_def newCoverage_def count_of_def occurrences_def) }
  { case 3 then show ?case by (simp add: cover_def newCoverage_def count_of_def occurrences_def) }
  { case 4 then show ?case by (simp add: cover_def newCoverage_def) }
  { case 5 then show ?case by (simp add: cover_def newCoverage_def) }
next
  case (snoc r rs)
  obtain n err where r: "r = (n, err)" by fastforce
  note defs = r cover_snoc Coverage_record_def count_of_bump occurrences_snoc Let_def
  { case 1 then show ?case using snoc(1) by (auto simp: defs split: option.splits) }
  { case 2 then show ?case using snoc(2) by (auto simp: defs split: option.splits) }
  { case 3 then show ?case using snoc(3) by (auto simp: defs split: option.splits) }
  { case 4 then show ?case using snoc(4) by (auto simp: defs bump_keys split: option.splits) }
  { case 5 then show ?case using snoc(5) by (auto simp: defs distinct_bump split: option.splits) }
qed

text \<open>The coverage of any sequence of records counts, for every operation, its runs, the runs
  that changed nothing and the other failures, and lists exactly the operations that ran; nothing of
  it depends on the order in which the workers' records reached the mutex.\<close>

theorem coverage_counts:
  "count_of (cv_Ran (cover rs)) name = occurrences (\<lambda>_. True) name rs \<and>
   count_of (cv_NoOps (cover rs)) name = occurrences is_noop name rs \<and>
   count_of (cv_Failures (cover rs)) name = occurrences is_failure name rs \<and>
   set (Coverage_Names (cover rs)) = fst ` set rs \<and> distinct (Coverage_Names (cover rs))"
  using cover_facts by (simp add: Coverage_Names_def)

section \<open>Runs\<close>

lemma run_worker_completed:
  assumes "run_worker intn h ctxErr ops g d = (rs, Completed)"
  shows "map fst rs = map fst ops"
  using assms
proof (induction ops arbitrary: g d rs)
  case (Cons x ops)
  obtain name build where x: "x = (name, build)" by fastforce
  obtain prog g1 where b: "run_state (build intn) g = (prog, g1)" by fastforce
  obtain res d1 where p: "run_program prog h d = (res, d1)" by fastforce
  obtain rs1 fin where w: "run_worker intn h ctxErr ops g1 d1 = (rs1, fin)" by fastforce
  from Cons.prems x b p w Cons.IH[of g1 d1 rs1] show ?case
    by (auto split: option.splits op_outcome.splits)
qed simp

lemma run_worker_prefix:
  "\<exists>k. map fst (fst (run_worker intn h ctxErr ops g d)) = take k (map fst ops)"
proof (induction ops arbitrary: g d)
  case (Cons x ops)
  obtain name build where x: "x = (name, build)" by fastforce
  obtain prog g1 where b: "run_state (build intn) g = (prog, g1)" by fastforce
  obtain res d1 where p: "run_program prog h d = (res, d1)" by fastforce
  obtain rs1 fin where w: "run_worker intn h ctxErr ops g1 d1 = (rs1, fin)" by fastforce
  from Cons[of g1 d1] w obtain k where k: "map fst rs1 = take k (map fst ops)" by auto
  show ?case
  proof (cases "ctxErr d = None \<and> (\<exists>err. res = Finished err)")
    case True
    then show ?thesis using x b p w k by (auto intro: exI[of _ "Suc k"])
  next
    case False
    then show ?thesis
      using x b p by (auto split: option.splits op_outcome.splits intro: exI[of _ 0])
  qed
qed simp

lemma occurrences_ran: "occurrences (\<lambda>_. True) name rs = int (count_list (map fst rs) name)"
  by (induction rs) (auto simp: occurrences_def)

lemma count_list_concat_replicate: "count_list (concat (replicate k xs)) x = k * count_list xs x"
  by (induction k) (auto simp: count_list_append)

text \<open>C39: a run none of whose workers is cancelled or panics reports no error, and its coverage
  counts every operation of the vocabulary once for each repetition and worker, whatever the replies
  of the database and the interleaving of the records.\<close>

theorem uncancelled_run_covers:
  assumes "runs = worker_runs intn newSource h ctxErr d w"
    and "list_all (\<lambda>run. snd run = Completed) runs"
    and "mset order = mset (concat (map fst runs))"
  shows "\<exists>cov. Workload_Run runs order = Some (cov, None) \<and>
    (\<forall>name. count_of (cv_Ran cov) name =
       int (at_least_one (wl_Concurrency w) * at_least_one (wl_Repeat w) *
            count_list (map fst (wl_Ops w)) name))"
proof -
  have ends: "map snd runs = replicate (length runs) Completed"
    using assms(2) by (induction runs) auto
  have "first_error (replicate k Completed) = None" for k
    by (induction k) (auto simp: first_error_def)
  then have run: "Workload_Run runs order = Some (cover order, None)"
    unfolding Workload_Run_def ends by (simp add: set_replicate_conv_if)
  have "count_list (map fst (concat (map fst runs))) name =
      at_least_one (wl_Concurrency w) * at_least_one (wl_Repeat w) * count_list (map fst (wl_Ops w)) name"
    for name
  proof -
    let ?ops = "concat (replicate (at_least_one (wl_Repeat w)) (wl_Ops w))"
    have each: "map fst (fst run) = map fst ?ops" if run: "run \<in> set runs" for run
    proof -
      obtain i where "run = run_worker intn (h i) (ctxErr i) ?ops (newSource (wl_Seed w + int i * 7919)) d"
        using run assms(1) by (auto simp: worker_runs_def)
      moreover have "snd run = Completed" using assms(2) run by (simp add: list_all_iff)
      ultimately show ?thesis using run_worker_completed by (metis prod.collapse)
    qed
    then have "map (\<lambda>run. map fst (fst run)) runs = replicate (length runs) (map fst ?ops)"
      by (induction runs) auto
    then have "map fst (concat (map fst runs)) = concat (replicate (length runs) (map fst ?ops))"
      by (simp add: map_concat comp_def)
    moreover have "length runs = at_least_one (wl_Concurrency w)"
      using assms(1) by (simp add: worker_runs_def)
    moreover have "map fst ?ops = concat (replicate (at_least_one (wl_Repeat w)) (map fst (wl_Ops w)))"
      by (simp add: map_concat map_replicate)
    ultimately show ?thesis by (simp add: count_list_concat_replicate)
  qed
  then have "count_of (cv_Ran (cover order)) name =
      int (at_least_one (wl_Concurrency w) * at_least_one (wl_Repeat w) * count_list (map fst (wl_Ops w)) name)"
    for name
    using occurrences_mset[OF assms(3), of "\<lambda>_. True" name]
      occurrences_ran[of name "concat (map fst runs)"] cover_facts(1)[of order name] by metis
  with run show ?thesis by blast
qed

theorem uncancelled_run_covers_witness:
  "\<exists>order cov. Workload_Run (worker_runs zero_source (\<lambda>_. ())
       (\<lambda>_ _ d. (\<lparr>rp_err = None, rp_result = None, rp_duplicateKey = False\<rparr>, d)) (\<lambda>_ _. None) ()
       \<lparr>wl_Seed = 1, wl_Ops = [CatalogOps ''db'' ! 2], wl_Repeat = 2, wl_Concurrency = 0\<rparr>) order =
     Some (cov, None) \<and> count_of (cv_Ran cov) ''collMod-validator'' = 2"
proof -
  let ?runs = "worker_runs zero_source (\<lambda>_. ())
       (\<lambda>_ _ d. (\<lparr>rp_err = None, rp_result = None, rp_duplicateKey = False\<rparr>, d)) (\<lambda>_ _. None) ()
       \<lparr>wl_Seed = 1, wl_Ops = [CatalogOps ''db'' ! 2], wl_Repeat = 2, wl_Concurrency = 0\<rparr>"
  have "list_all (\<lambda>run. snd run = Completed) ?runs"
    by (simp add: worker_runs_def at_least_one_def numeral_2_eq_2 CatalogOps_def drawn_def zero_source_def
        only_error_def yields_def)
  from uncancelled_run_covers[OF refl this refl] obtain cov where
    "Workload_Run ?runs (concat (map fst ?runs)) = Some (cov, None)"
    "count_of (cv_Ran cov) ''collMod-validator'' =
       int (at_least_one 0 * at_least_one 2 * count_list (map fst [CatalogOps ''db'' ! 2 :: unit operation]) ''collMod-validator'')"
    by auto
  moreover have "fst (CatalogOps ''db'' ! 2 :: unit operation) = ''collMod-validator''"
    by (simp add: CatalogOps_def)
  ultimately show ?thesis by (intro exI conjI) (auto simp: at_least_one_def)
qed

text \<open>A counted operation whose call fails without a result panics, whatever the error.\<close>

lemma failed_call_panics:
  assumes "h c d = (rp, d')" "rp_result rp = None"
  shows "run_program (counted c changed) h d = (NilDereference, d')"
  using assms by (simp add: counted_def)

end
