(* ===== verification/ReplicaFacts.thy ===== *)
theory ReplicaFacts
  imports ReplicaWaits
begin

text \<open>
  What the waits on a replica set guarantee, from their interpretations of the polling contract:
  each returns on every behaviour of the set, and with a success exactly when some poll before its
  deadline sees what it waits for. The failover a step-down causes is their composition.
\<close>

lemma waited_Some: "waited fail q = Some (Inr r) \<longleftrightarrow> q = Some (Inl r)"
  by (cases q; cases "the q") (auto simp: waited_def)

lemma waited_total: "\<exists>r. q = Some r \<Longrightarrow> \<exists>r. waited fail q = Some r"
  by (auto simp: waited_def)

lemma WaitForSteadyState_iff:
  assumes "sleeps d clock"
  shows "WaitForSteadyState dtoa rs worlds clock start timeout = Some (Inr ()) \<longleftrightarrow>
    (\<exists>k st. clock k < start + timeout \<and> memberStates rs (worlds k) = Inr st \<and> steady rs st)"
  using wait_steady.ends_iff[OF assms, of "start + timeout" rs worlds "[]"]
  by (auto simp: WaitForSteadyState_def waited_Some)

lemma WaitForState_iff:
  assumes "sleeps d clock"
  shows "WaitForState wild quote dtoa rs addr want worlds afterwards clock start timeout = Some (Inr ()) \<longleftrightarrow>
    (\<exists>k st. clock k < start + timeout \<and> memberStates rs (worlds k) = Inr st \<and> map_of st addr = Some want)"
  using wait_state.ends_iff[OF assms, of "start + timeout" rs addr want worlds "''<unknown>''"]
  by (auto simp: WaitForState_def waited_Some)

lemma WaitForPrimary_iff:
  assumes "sleeps d clock"
  shows "(\<exists>m. WaitForPrimary dtoa rs worlds clock start timeout = Some (Inr m)) \<longleftrightarrow>
    (\<exists>k m. clock k < start + timeout \<and> Primary rs (worlds k) = Inr m)"
  using wait_primary.ends_iff[OF assms, of "start + timeout" rs worlds None]
  by (auto simp: WaitForPrimary_def waited_Some)

lemma WaitForSyncSourceChange_iff:
  assumes "sleeps d clock"
  shows "(\<exists>s. WaitForSyncSourceChange quote dtoa addr was worlds clock start timeout = Some (Inr s)) \<longleftrightarrow>
    (\<exists>k s. clock k < start + timeout \<and> SyncSourceOf (worlds k) addr = Inr s \<and> s \<noteq> [] \<and> s \<noteq> was)"
  using wait_source.ends_iff[OF assms, of "start + timeout" addr was worlds "[]"]
  by (auto simp: WaitForSyncSourceChange_def waited_Some)

lemma WaitForNewPrimary_iff:
  assumes "sleeps d clock"
  shows "(\<exists>m. WaitForNewPrimary dtoa rs old worlds clock start timeout = Some (Inr m)) \<longleftrightarrow>
    (\<exists>k m. clock k < start + timeout \<and> Primary rs (worlds k) = Inr m \<and> mb_Addr m \<noteq> old)"
  using wait_new.ends_iff[OF assms, of "start + timeout" rs old worlds None]
  by (auto simp: WaitForNewPrimary_def waited_Some)

text \<open>A primary is a configured member that the set reports as primary and that accepts writes.\<close>

lemma Primary_member:
  assumes "Primary rs w = Inr m"
  shows "m \<in> set (rset_Members rs) \<and> isWritablePrimary w (mb_Addr m) = Inr True"
  using assms
  by (auto simp: Primary_def find_Some_iff split: sum.splits option.splits if_splits)

text \<open>C40: stepping the primary down always returns; with a primary found and the command accepted
  (or its connection dropped, as the command does), it succeeds exactly when some poll of the next
  sixty seconds finds a writable primary at another address, and what it returns is a configured
  member at another address that accepted writes then.\<close>

theorem StepDownPrimary_fails_over:
  assumes "sleeps d clock" "Primary rs before = Inr old"
    and "case command of None \<Rightarrow> True | Some err \<Rightarrow> isStepDownDisconnect (error_text err)"
  shows "(\<exists>res. StepDownPrimary rs before command worlds clock start = Some res) \<and>
    ((\<exists>m. StepDownPrimary rs before command worlds clock start = Some (Inr m)) \<longleftrightarrow>
       (\<exists>k m. clock k < start + 60000000000 \<and> Primary rs (worlds k) = Inr m \<and>
          mb_Addr m \<noteq> mb_Addr old)) \<and>
    (\<forall>m. StepDownPrimary rs before command worlds clock start = Some (Inr m) \<longrightarrow>
       m \<in> set (rset_Members rs) \<and> mb_Addr m \<noteq> mb_Addr old \<and>
       (\<exists>k. clock k < start + 60000000000 \<and> isWritablePrimary (worlds k) (mb_Addr m) = Inr True))"
proof -
  let ?q = "poll clock (start + 60000000000) (new_primary_pass rs (mb_Addr old) worlds) 0 None"
  have step: "StepDownPrimary rs before command worlds clock start =
      waited (\<lambda>prev. ErrText (''no new primary after stepping down '' @ mb_Addr old)) ?q"
    using assms(2,3) by (auto simp: StepDownPrimary_def split: option.splits)
  have "\<exists>res. StepDownPrimary rs before command worlds clock start = Some res"
    unfolding step by (rule waited_total[OF poll_returns[OF assms(1)]])
  moreover have "(\<exists>m. StepDownPrimary rs before command worlds clock start = Some (Inr m)) \<longleftrightarrow>
      (\<exists>k m. clock k < start + 60000000000 \<and> Primary rs (worlds k) = Inr m \<and> mb_Addr m \<noteq> mb_Addr old)"
    unfolding step waited_Some
    using wait_new.ends_iff[OF assms(1), of "start + 60000000000" rs "mb_Addr old" worlds None] by auto
  moreover have "m \<in> set (rset_Members rs) \<and> mb_Addr m \<noteq> mb_Addr old \<and>
      (\<exists>k. clock k < start + 60000000000 \<and> isWritablePrimary (worlds k) (mb_Addr m) = Inr True)"
    if m: "StepDownPrimary rs before command worlds clock start = Some (Inr m)" for m
  proof -
    have "?q = Some (Inl m)" using m unfolding step waited_Some .
    from wait_new.returned[OF assms(1) this] obtain k p where
      "Primary rs (worlds k) = Inr p" "mb_Addr p \<noteq> mb_Addr old" "m = p" "clock k < start + 60000000000"
      by auto
    then show ?thesis using Primary_member by blast
  qed
  ultimately show ?thesis by blast
qed

text \<open>A set of two members of which the first is primary until it is asked to step down.\<close>

definition pair_set :: ReplicaSet where
  "pair_set = \<lparr>rset_Name = ''rs'', rset_Members =
     [\<lparr>mb_ID = 0, mb_Addr = ''a'', mb_URI = ''mongodb://a'', mb_running = True\<rparr>,
      \<lparr>mb_ID = 1, mb_Addr = ''b'', mb_URI = ''mongodb://b'', mb_running = True\<rparr>], rset_pool = []\<rparr>"

definition led_by :: "string \<Rightarrow> string \<Rightarrow> world" where
  "led_by p s = \<lparr>wd_status = (\<lambda>_. Inr [(''members'', VArr
       [VMap [(''name'', VString p), (''stateStr'', VString StatePrimary)],
        VMap [(''name'', VString s), (''stateStr'', VString StateSecondary)]])]),
     wd_hello = (\<lambda>a. Inr [(''isWritablePrimary'', VBool (a = p))])\<rparr>"

lemma pair_primaries:
  "Primary pair_set (led_by ''a'' ''b'') = Inr (rset_Members pair_set ! 0)"
  "Primary pair_set (led_by ''b'' ''a'') = Inr (rset_Members pair_set ! 1)"
  by (simp_all add: Primary_def memberStates_def pair_set_def led_by_def reported_states_def
      List.map_filter_simps key_def state_of_def StatePrimary_def StateSecondary_def isWritablePrimary_def)

theorem StepDownPrimary_fails_over_witness:
  "\<exists>m. StepDownPrimary pair_set (led_by ''a'' ''b'') None (\<lambda>_. led_by ''b'' ''a'')
     (\<lambda>i. 300000000 * int i) 0 = Some (Inr m) \<and> mb_Addr m \<noteq> ''a''"
proof -
  let ?clock = "\<lambda>i. 300000000 * int i"
  have clock: "sleeps 300000000 ?clock" by (simp add: sleeps_def algebra_simps)
  let ?old = "rset_Members pair_set ! 0" and ?new = "rset_Members pair_set ! 1"
  have new: "\<exists>k m. ?clock k < 0 + 60000000000 \<and> Primary pair_set (led_by ''b'' ''a'') = Inr m \<and>
      mb_Addr m \<noteq> mb_Addr ?old"
    using pair_primaries(2) by (intro exI[of _ 0] exI[of _ ?new]) (simp add: pair_set_def)
  have old: "mb_Addr ?old = ''a''" by (simp add: pair_set_def)
  note facts = StepDownPrimary_fails_over[OF clock pair_primaries(1), of None "\<lambda>_. led_by ''b'' ''a''" 0,
      simplified option.case, OF TrueI]
  from facts new obtain m where
    "StepDownPrimary pair_set (led_by ''a'' ''b'') None (\<lambda>_. led_by ''b'' ''a'') ?clock 0 = Some (Inr m)"
    by blast
  with facts old show ?thesis by metis
qed

end
