(* ===== verification/Machine.thy ===== *)
theory Machine
  imports GoErrors Poll GoText
begin

text \<open>
  The machine the harness starts servers on (src/harness/servers.go): the ports this process has
  handed out, the processes, temporary directories and log files it has open, the servers recorded
  for teardown and the cleanups registered with a test. The operating system is a record of
  operations on an unknown world. An action changes the machine and returns an error or a value;
  one that never returns is \<open>None\<close>. \<open>wp c Q m\<close> says that \<open>c\<close> returns from
  \<open>m\<close> and that what it returns satisfies \<open>Q\<close>; its equations carry the proofs about actions.
\<close>

section \<open>Actions\<close>

type_synonym ('m, 'a) act = "'m \<Rightarrow> ((goerror + 'a) \<times> 'm) option"

definition ok :: "'a \<Rightarrow> ('m, 'a) act" where
  "ok x = (\<lambda>m. Some (Inr x, m))"

definition fail :: "goerror \<Rightarrow> ('m, 'a) act" where
  "fail e = (\<lambda>m. Some (Inl e, m))"

text \<open>The idiom \<open>x, err := m(); if err != nil { return err }\<close>.\<close>

definition and_then :: "('m, 'a) act \<Rightarrow> ('a \<Rightarrow> ('m, 'b) act) \<Rightarrow> ('m, 'b) act" where
  "and_then c k = (\<lambda>m. case c m of
     None \<Rightarrow> None
   | Some (Inl e, m') \<Rightarrow> Some (Inl e, m')
   | Some (Inr x, m') \<Rightarrow> k x m')"

text \<open>The idiom that looks at the error itself.\<close>

definition handling :: "('m, 'a) act \<Rightarrow> (goerror + 'a \<Rightarrow> ('m, 'b) act) \<Rightarrow> ('m, 'b) act" where
  "handling c k = (\<lambda>m. case c m of None \<Rightarrow> None | Some (r, m') \<Rightarrow> k r m')"

definition wrapping :: "string \<Rightarrow> ('m, 'a) act \<Rightarrow> ('m, 'a) act" where
  "wrapping t c = handling c (\<lambda>r. case r of Inl e \<Rightarrow> fail (ErrWrap t e) | Inr x \<Rightarrow> ok x)"

definition change :: "('m \<Rightarrow> 'm) \<Rightarrow> ('m, unit) act" where
  "change f = (\<lambda>m. Some (Inr (), f m))"

text \<open>An action that looks at the state first.\<close>

definition reading :: "('m \<Rightarrow> 'x) \<Rightarrow> ('x \<Rightarrow> ('m, 'a) act) \<Rightarrow> ('m, 'a) act" where
  "reading f k = (\<lambda>m. k (f m) m)"

definition require :: "bool \<Rightarrow> goerror \<Rightarrow> ('m, unit) act" where
  "require b e = (if b then ok () else fail e)"

text \<open>The weakest precondition: the action returns, and with a result that satisfies \<open>Q\<close>.\<close>

definition wp :: "('m, 'a) act \<Rightarrow> (goerror + 'a \<Rightarrow> 'm \<Rightarrow> bool) \<Rightarrow> 'm \<Rightarrow> bool" where
  "wp c Q m \<longleftrightarrow> (\<exists>r m'. c m = Some (r, m') \<and> Q r m')"

named_theorems wp_simps \<open>weakest preconditions of actions\<close>

lemma wp_mono: "wp c Q m \<Longrightarrow> (\<And>r m'. Q r m' \<Longrightarrow> Q' r m') \<Longrightarrow> wp c Q' m"
  unfolding wp_def by blast

lemma wp_returns: "wp c Q m \<Longrightarrow> \<exists>r m'. c m = Some (r, m')"
  unfolding wp_def by blast

lemma wpD: "wp c Q m \<Longrightarrow> c m = Some (r, m') \<Longrightarrow> Q r m'"
  unfolding wp_def by auto

lemma wp_ok [wp_simps]: "wp (ok x) Q m \<longleftrightarrow> Q (Inr x) m"
  by (simp add: wp_def ok_def)

lemma wp_fail [wp_simps]: "wp (fail e) Q m \<longleftrightarrow> Q (Inl e) m"
  by (simp add: wp_def fail_def)

lemma wp_change [wp_simps]: "wp (change f) Q m \<longleftrightarrow> Q (Inr ()) (f m)"
  by (simp add: wp_def change_def)

lemma wp_reading [wp_simps]: "wp (reading f k) Q m \<longleftrightarrow> wp (k (f m)) Q m"
  by (simp add: wp_def reading_def)

lemma wp_require [wp_simps]: "wp (require b e) Q m \<longleftrightarrow> (if b then Q (Inr ()) m else Q (Inl e) m)"
  by (simp add: require_def wp_ok wp_fail)

lemma wp_handling [wp_simps]: "wp (handling c k) Q m \<longleftrightarrow> wp c (\<lambda>r. wp (k r) Q) m"
  by (cases "c m") (auto simp: wp_def handling_def)

lemma wp_and_then [wp_simps]:
  "wp (and_then c k) Q m \<longleftrightarrow>
     wp c (\<lambda>r m'. case r of Inl e \<Rightarrow> Q (Inl e) m' | Inr x \<Rightarrow> wp (k x) Q m') m"
  by (cases "c m"; cases "fst (the (c m))") (auto simp: wp_def and_then_def)

lemma wp_wrapping [wp_simps]:
  "wp (wrapping t c) Q m \<longleftrightarrow> wp c (\<lambda>r. Q (map_sum (ErrWrap t) id r)) m"
proof -
  have "(\<lambda>r. wp (case r of Inl e \<Rightarrow> fail (ErrWrap t e) | Inr x \<Rightarrow> ok x) Q) =
      (\<lambda>r. Q (map_sum (ErrWrap t) id r))"
    by (intro ext) (simp add: wp_ok wp_fail split: sum.split)
  then show ?thesis by (simp add: wrapping_def wp_handling)
qed

section \<open>The machine\<close>

record serverProc =
  sp_pid :: int
  sp_dir :: string
  sp_log :: string

datatype cleanup = RemoveDir string | ReapServer serverProc

record 'w machine =
  issuedPorts :: "int set"
  spawnedServers :: "serverProc list"
  cleanups :: "cleanup list"
  running :: "int set"
  tempDirs :: "string set"
  openLogs :: "string set"
  world :: 'w

text \<open>What one wait on an address will see: the time it starts at, the clock before each pass, and
  the error of each pass.\<close>

record wait =
  wt_start :: int
  wt_clock :: "nat \<Rightarrow> int"
  wt_answer :: "nat \<Rightarrow> goerror option"

record 'w os =
  os_Getenv :: "string \<Rightarrow> string"
  os_LookPath :: "string \<Rightarrow> string option"
  os_Stat :: "string \<Rightarrow> bool"
  os_Listen :: "'w \<Rightarrow> (goerror + int) \<times> 'w"                       \<comment> \<open>bind port 0\<close>
  os_MkdirTemp :: "string \<Rightarrow> 'w \<Rightarrow> (goerror + string) \<times> 'w"
  os_CreateTemp :: "string \<Rightarrow> 'w \<Rightarrow> (goerror + string) \<times> 'w"
  os_Start :: "string list \<Rightarrow> 'w \<Rightarrow> (goerror + int) \<times> 'w"      \<comment> \<open>the command line\<close>
  os_Wait :: "string \<Rightarrow> 'w \<Rightarrow> wait \<times> 'w"                          \<comment> \<open>dialling an address\<close>

definition sys :: "('w \<Rightarrow> (goerror + 'a) \<times> 'w) \<Rightarrow> ('w machine, 'a) act" where
  "sys f = (\<lambda>m. case f (world m) of (r, w) \<Rightarrow> Some (r, m\<lparr>world := w\<rparr>))"

lemma wp_sys [wp_simps]:
  "wp (sys f) Q m \<longleftrightarrow> (case f (world m) of (r, w) \<Rightarrow> Q r (m\<lparr>world := w\<rparr>))"
  by (simp add: wp_def sys_def split: prod.split)

section \<open>Ports\<close>

text \<open>\<open>freePort\<close>: bind to port 0, try again while the port was issued before, at most a hundred
  times.\<close>

fun port_attempts :: "('w \<Rightarrow> (goerror + int) \<times> 'w) \<Rightarrow> nat \<Rightarrow> ('w machine, int) act" where
  "port_attempts listen 0 m =
     Some (Inl (ErrText ''allocate free port: 100 attempts all returned a port already issued''), m)"
| "port_attempts listen (Suc n) m =
     (case listen (world m) of
        (Inl e, w) \<Rightarrow> Some (Inl (ErrWrap ''allocate free port: '' e), m\<lparr>world := w\<rparr>)
      | (Inr port, w) \<Rightarrow>
          if port \<in> issuedPorts m then port_attempts listen n (m\<lparr>world := w\<rparr>)
          else Some (Inr port, m\<lparr>world := w, issuedPorts := insert port (issuedPorts m)\<rparr>))"

definition freePort :: "'w os \<Rightarrow> ('w machine, int) act" where
  "freePort os = port_attempts (os_Listen os) 100"

section \<open>Processes\<close>

text \<open>\<open>startProc\<close>: a log file, then the process. The log file is closed again when the process does
  not start.\<close>

definition startProc :: "'w os \<Rightarrow> string list \<Rightarrow> string \<Rightarrow> string \<Rightarrow> ('w machine, serverProc) act" where
  "startProc os cmd name dir =
     and_then (wrapping (''create '' @ name @ '' log: '') (sys (os_CreateTemp os (name @ ''-*.log'')))) (\<lambda>log.
     and_then (change (\<lambda>m. m\<lparr>openLogs := insert log (openLogs m)\<rparr>)) (\<lambda>_.
     handling (sys (os_Start os cmd)) (\<lambda>r. case r of
       Inl e \<Rightarrow> and_then (change (\<lambda>m. m\<lparr>openLogs := openLogs m - {log}\<rparr>)) (\<lambda>_.
                 fail (ErrWrap (''start '' @ name @ '': '') e))
     | Inr pid \<Rightarrow> and_then (change (\<lambda>m. m\<lparr>running := insert pid (running m)\<rparr>)) (\<lambda>_.
                 ok \<lparr>sp_pid = pid, sp_dir = dir, sp_log = log\<rparr>))))"

text \<open>\<open>serverProc.stop\<close>: kill and reap, close the log, remove the data directory.\<close>

definition stop :: "serverProc \<Rightarrow> 'w machine \<Rightarrow> 'w machine" where
  "stop p m =
     (let m = m\<lparr>running := running m - {sp_pid p}, openLogs := openLogs m - {sp_log p}\<rparr>
      in if sp_dir p \<noteq> [] then m\<lparr>tempDirs := tempDirs m - {sp_dir p}\<rparr> else m)"

datatype proc_signal = SIGTERM | SIGKILL

text \<open>\<open>shutdownGraceful\<close>: the signals sent, given whether the process exits before the grace period
  ends. Either way it is reaped, and its data directory stays.\<close>

definition shutdownGraceful :: "bool \<Rightarrow> serverProc \<Rightarrow> 'w machine \<Rightarrow> proc_signal list \<times> 'w machine" where
  "shutdownGraceful exitsInTime p m =
     (if exitsInTime then [SIGTERM] else [SIGTERM, SIGKILL],
      m\<lparr>running := running m - {sp_pid p}, openLogs := openLogs m - {sp_log p}\<rparr>)"

section \<open>Waiting for an address\<close>

definition dial_pass :: "wait \<Rightarrow> nat \<Rightarrow> unit \<Rightarrow> unit + unit" where
  "dial_pass wt i s = (case wt_answer wt i of None \<Rightarrow> Inl () | Some e \<Rightarrow> Inr ())"

definition waitPort :: "wait \<Rightarrow> duration \<Rightarrow> bool option" where
  "waitPort wt timeout = map_option isl (poll (wt_clock wt) (wt_start wt + timeout) (dial_pass wt) 0 ())"

definition ping_pass :: "wait \<Rightarrow> nat \<Rightarrow> goerror option \<Rightarrow> unit + goerror option" where
  "ping_pass wt i prev = (case wt_answer wt i of None \<Rightarrow> Inl () | Some e \<Rightarrow> Inr (Some e))"

definition waitServerReady :: "wait \<Rightarrow> duration \<Rightarrow> goerror option option" where
  "waitServerReady wt timeout =
     map_option (\<lambda>q. case q of
        Inl u \<Rightarrow> None
      | Inr prev \<Rightarrow> Some (ErrWrap (''no response to ping within '' @ Duration_String timeout @ '': '')
                    (case prev of None \<Rightarrow> ErrText ''no attempt completed'' | Some e \<Rightarrow> e)))
       (poll (wt_clock wt) (wt_start wt + timeout) (ping_pass wt) 0 None)"

interpretation dialling: poll_loop "dial_pass wt" "\<lambda>i. wt_answer wt i = None" "\<lambda>i. ()"
  for wt
  by unfold_locales (auto simp: dial_pass_def split: option.splits)

interpretation pinging: poll_loop "ping_pass wt" "\<lambda>i. wt_answer wt i = None" "\<lambda>i. ()"
  for wt
  by unfold_locales (auto simp: ping_pass_def split: option.splits)

definition listening :: "'w os \<Rightarrow> string \<Rightarrow> duration \<Rightarrow> ('w machine, bool) act" where
  "listening os addr timeout m =
     (case os_Wait os addr (world m) of
        (wt, w) \<Rightarrow> map_option (\<lambda>b. (Inr b, m\<lparr>world := w\<rparr>)) (waitPort wt timeout))"

text \<open>The documented behaviour of the operating system the harness relies on: a pass sleeps, and a
  temporary directory has a name.\<close>

definition os_sane :: "'w os \<Rightarrow> bool" where
  "os_sane os \<longleftrightarrow> (\<forall>addr w. \<exists>d. sleeps d (wt_clock (fst (os_Wait os addr w)))) \<and>
     (\<forall>p w dir w'. os_MkdirTemp os p w = (Inr dir, w') \<longrightarrow> dir \<noteq> [])"

section \<open>Facts\<close>

lemma waitPort_returns: "sleeps d (wt_clock wt) \<Longrightarrow> \<exists>b. waitPort wt timeout = Some b"
  using poll_returns by (fastforce simp: waitPort_def)

lemma waitPort_iff:
  assumes "sleeps d (wt_clock wt)"
  shows "waitPort wt timeout = Some True \<longleftrightarrow>
    (\<exists>k. wt_answer wt k = None \<and> wt_clock wt k < wt_start wt + timeout)"
proof -
  have "waitPort wt timeout = Some True \<longleftrightarrow>
      (\<exists>u. poll (wt_clock wt) (wt_start wt + timeout) (dial_pass wt) 0 () = Some (Inl u))"
    by (auto simp: waitPort_def isl_def)
  then show ?thesis using dialling.ends_iff[OF assms] by simp
qed

lemma wp_listening:
  assumes "os_sane os" and "\<And>b w. Q (Inr b) (m\<lparr>world := w\<rparr>)"
  shows "wp (listening os addr timeout) Q m"
proof -
  obtain wt w where w: "os_Wait os addr (world m) = (wt, w)" by force
  then obtain d where "sleeps d (wt_clock wt)" using assms(1) unfolding os_sane_def by (metis fst_conv)
  then obtain b where "waitPort wt timeout = Some b" using waitPort_returns by blast
  with w assms(2) show ?thesis by (simp add: wp_def listening_def)
qed

lemma port_attempts_fresh:
  "\<exists>r m'. port_attempts listen n m = Some (r, m') \<and>
     (\<exists>w. m' = m\<lparr>world := w, issuedPorts := (case r of Inl e \<Rightarrow> issuedPorts m | Inr p \<Rightarrow> insert p (issuedPorts m))\<rparr>) \<and>
     (\<forall>p. r = Inr p \<longrightarrow> p \<notin> issuedPorts m)"
proof (induction n arbitrary: m)
  case 0
  show ?case by (auto intro: exI[of _ "world m"])
next
  case (Suc n)
  obtain r w where l: "listen (world m) = (r, w)" by force
  show ?case
  proof (cases "\<exists>p \<in> issuedPorts m. r = Inr p")
    case True
    with l Suc[of "m\<lparr>world := w\<rparr>"] show ?thesis by (auto cong: sum.case_cong)
  next
    case False
    with l show ?thesis by (auto split: sum.split)
  qed
qed

lemma wp_freePort:
  assumes "\<And>e w. Q (Inl e) (m\<lparr>world := w\<rparr>)"
    and "\<And>p w. p \<notin> issuedPorts m \<Longrightarrow>
      Q (Inr p) (m\<lparr>world := w, issuedPorts := insert p (issuedPorts m)\<rparr>)"
  shows "wp (freePort os) Q m"
proof -
  from port_attempts_fresh[of "os_Listen os" 100 m] obtain r m' w where
    r: "freePort os m = Some (r, m')" "\<forall>p. r = Inr p \<longrightarrow> p \<notin> issuedPorts m"
      "m' = m\<lparr>world := w, issuedPorts := (case r of Inl e \<Rightarrow> issuedPorts m | Inr p \<Rightarrow> insert p (issuedPorts m))\<rparr>"
    unfolding freePort_def by blast
  then have "Q r m'" using assms by (cases r) simp_all
  with r(1) show ?thesis by (simp add: wp_def)
qed

end
