(* ===== verification/Servers.thy ===== *)
theory Servers
  imports Machine Replica Client
begin

text \<open>
  Provisioning of the servers of the parity suite (src/harness/servers.go): the two plain and two
  access-controlled servers and the single-node replica set, each taken from an environment override
  or started; and their teardown. \<open>elect\<close> is what connecting to a new replica set, initiating it
  and asking it for its primary return.
\<close>

section \<open>Binaries, flags and addresses\<close>

definition findMongodBin :: "'w os \<Rightarrow> string" where
  "findMongodBin os =
     (if os_Getenv os ''MONGOD_BIN'' \<noteq> [] then os_Getenv os ''MONGOD_BIN''
      else case os_LookPath os ''mongod'' of Some p \<Rightarrow> p | None \<Rightarrow> [])"

definition findDumboDBBinary :: "'w os \<Rightarrow> string" where
  "findDumboDBBinary os =
     (if os_Getenv os ''DUMBODB_BIN'' \<noteq> [] then os_Getenv os ''DUMBODB_BIN''
      else case find (os_Stat os) [''/tmp/dumbodb-bin'', ''/usr/local/bin/dumbodb''] of
             Some p \<Rightarrow> p
           | None \<Rightarrow> (case os_LookPath os ''dumbodb'' of Some p \<Rightarrow> p | None \<Rightarrow> []))"

record serverArgs =
  sa_binary :: string
  sa_binName :: string
  sa_flags :: "int \<Rightarrow> string \<Rightarrow> string list"
  sa_mongod :: bool

definition mongodArgs :: "'w os \<Rightarrow> bool \<Rightarrow> serverArgs" where
  "mongodArgs os auth =
     \<lparr>sa_binary = findMongodBin os, sa_binName = ''mongod'',
      sa_flags = (\<lambda>port dir. (if auth then [''--auth''] else []) @
        [''--port'', itoa port, ''--dbpath'', dir, ''--bind_ip'', ''127.0.0.1'', ''--nounixsocket'']),
      sa_mongod = True\<rparr>"

definition dumbodbArgs :: "'w os \<Rightarrow> bool \<Rightarrow> serverArgs" where
  "dumbodbArgs os auth =
     \<lparr>sa_binary = findDumboDBBinary os, sa_binName = ''dumbodb'',
      sa_flags = (\<lambda>port dir. (if auth then [''--auth''] else []) @
        [''--addr'', ''127.0.0.1:'' @ itoa port, ''--data-dir'', dir]),
      sa_mongod = False\<rparr>"

fun indexByte_from :: "int \<Rightarrow> string \<Rightarrow> char \<Rightarrow> int" where
  "indexByte_from i [] b = -1"
| "indexByte_from i (c # s) b = (if c = b then i else indexByte_from (i + 1) s b)"

definition indexByte :: "string \<Rightarrow> char \<Rightarrow> int" where
  "indexByte s b = indexByte_from 0 s b"

definition hostPort :: "string \<Rightarrow> string" where
  "hostPort uri =
     (let s = (if 10 < length uri \<and> take 10 uri = ''mongodb://'' then drop 10 uri else uri);
          i = indexByte s (CHR ''/'')
      in if 0 \<le> i then take (nat i) s else s)"

section \<open>Resolving one server\<close>

definition removeDir :: "string \<Rightarrow> 'w machine \<Rightarrow> 'w machine" where
  "removeDir dir m = m\<lparr>tempDirs := tempDirs m - {dir}\<rparr>"

definition makeDir :: "'w os \<Rightarrow> string \<Rightarrow> ('w machine, string) act" where
  "makeDir os pattern =
     and_then (sys (os_MkdirTemp os pattern)) (\<lambda>dir.
     and_then (change (\<lambda>m. m\<lparr>tempDirs := insert dir (tempDirs m)\<rparr>)) (\<lambda>_. ok dir))"

text \<open>A started process is recorded for teardown before anything else can fail.\<close>

definition spawn :: "'w os \<Rightarrow> string list \<Rightarrow> string \<Rightarrow> string \<Rightarrow> ('w machine, unit) act" where
  "spawn os cmd name dir =
     handling (startProc os cmd name dir) (\<lambda>r. case r of
       Inl e \<Rightarrow> and_then (change (removeDir dir)) (\<lambda>_. fail e)
     | Inr p \<Rightarrow> change (\<lambda>m. m\<lparr>spawnedServers := spawnedServers m @ [p]\<rparr>))"

definition use_override :: "'w os \<Rightarrow> string \<Rightarrow> ('w machine, string) act" where
  "use_override os envKey =
     (let uri = os_Getenv os envKey in
      and_then (listening os (hostPort uri) 10000000000) (\<lambda>up.
      and_then (require up (ErrText (envKey @ ''='' @ uri @ '' is not reachable''))) (\<lambda>_. ok uri)))"

definition spawn_server :: "'w os \<Rightarrow> string \<Rightarrow> serverArgs \<Rightarrow> ('w machine, string) act" where
  "spawn_server os dirPrefix args =
     and_then (freePort os) (\<lambda>port.
     and_then (makeDir os dirPrefix) (\<lambda>dir.
     and_then (spawn os (sa_binary args # sa_flags args port dir) (sa_binName args) dir) (\<lambda>_.
       let addr = ''127.0.0.1:'' @ itoa port in
       and_then (listening os addr 25000000000) (\<lambda>up.
       and_then (require up (ErrText (sa_binName args @ '' did not become ready on '' @ addr))) (\<lambda>_.
         ok (''mongodb://'' @ addr))))))"

definition resolveServer :: "'w os \<Rightarrow> string \<Rightarrow> string \<Rightarrow> serverArgs \<Rightarrow> ('w machine, string) act" where
  "resolveServer os envKey dirPrefix args =
     (if os_Getenv os envKey \<noteq> [] then use_override os envKey
      else if sa_binary args = []
      then fail (ErrText (sa_binName args @ '' binary not found (set '' @ envKey @ '' or the *_BIN env var)''))
      else spawn_server os dirPrefix args)"

section \<open>The replica set\<close>

definition replicaSetName :: string where "replicaSetName = ''rs0''"

record election =
  el_connect :: "goerror option"
  el_initiate :: "goerror option"
  el_start :: int
  el_clock :: "nat \<Rightarrow> int"
  el_hello :: "nat \<Rightarrow> goerror + (string \<times> goval) list"

definition election_pass :: "election \<Rightarrow> nat \<Rightarrow> unit \<Rightarrow> unit + unit" where
  "election_pass el i s =
     (case el_hello el i of
        Inl e \<Rightarrow> Inr ()
      | Inr res \<Rightarrow> if as_true (key res ''isWritablePrimary'') then Inl () else Inr ())"

definition initiate_command :: "string \<Rightarrow> doc" where
  "initiate_command addr =
     [(''replSetInitiate'', BDoc [(''_id'', BString replicaSetName),
        (''members'', BArr [BDoc [(''_id'', BInt32 0), (''host'', BString addr)]])])]"

definition initiateReplicaSet :: "election \<Rightarrow> (goerror + unit) option" where
  "initiateReplicaSet el =
     (case el_connect el of
        Some e \<Rightarrow> Some (Inl (ErrWrap ''connect for replSetInitiate: '' e))
      | None \<Rightarrow>
          let wait = map_option (\<lambda>q. case q of Inl u \<Rightarrow> Inr ()
                | Inr s \<Rightarrow> Inl (ErrText (''replica set '' @ replicaSetName @ '' did not elect a primary'')))
              (poll (el_clock el) (el_start el + 30000000000) (election_pass el) 0 ())
          in case el_initiate el of
               None \<Rightarrow> wait
             | Some e \<Rightarrow> if contains (error_text e) ''already initialized'' then wait
                         else Some (Inl (ErrWrap ''replSetInitiate: '' e)))"

interpretation electing: poll_loop "election_pass el"
    "\<lambda>i. \<exists>res. el_hello el i = Inr res \<and> as_true (key res ''isWritablePrimary'')" "\<lambda>i. ()"
  for el
  by unfold_locales (auto simp: election_pass_def split: sum.splits)

definition electing_primary :: "(string \<Rightarrow> doc \<Rightarrow> 'w \<Rightarrow> election \<times> 'w) \<Rightarrow> string \<Rightarrow> ('w machine, unit) act" where
  "electing_primary elect addr m =
     (case elect addr (initiate_command addr) (world m) of
        (el, w) \<Rightarrow> map_option (\<lambda>r. (r, m\<lparr>world := w\<rparr>)) (initiateReplicaSet el))"

definition spawn_replica_set ::
    "'w os \<Rightarrow> (string \<Rightarrow> doc \<Rightarrow> 'w \<Rightarrow> election \<times> 'w) \<Rightarrow> string \<Rightarrow> ('w machine, string) act" where
  "spawn_replica_set os elect bin =
     and_then (freePort os) (\<lambda>port.
     and_then (makeDir os ''mongod-rs-'') (\<lambda>dir.
     and_then (spawn os [bin, ''--replSet'', replicaSetName, ''--port'', itoa port, ''--dbpath'', dir,
                 ''--bind_ip'', ''127.0.0.1'', ''--nounixsocket''] ''mongod-rs'' dir) (\<lambda>_.
       let addr = ''127.0.0.1:'' @ itoa port in
       and_then (listening os addr 25000000000) (\<lambda>up.
       and_then (require up (ErrText (''mongod --replSet did not become ready on '' @ addr))) (\<lambda>_.
       and_then (electing_primary elect addr) (\<lambda>_.
         ok (''mongodb://'' @ addr @ ''/?replicaSet='' @ replicaSetName)))))))"

definition resolveReplicaSet ::
    "'w os \<Rightarrow> (string \<Rightarrow> doc \<Rightarrow> 'w \<Rightarrow> election \<times> 'w) \<Rightarrow> ('w machine, string) act" where
  "resolveReplicaSet os elect =
     (if os_Getenv os ''MONGO_RS_URI'' \<noteq> [] then use_override os ''MONGO_RS_URI''
      else if findMongodBin os = []
      then fail (ErrText ''mongod binary not found (set MONGOD_BIN or MONGO_RS_URI)'')
      else spawn_replica_set os elect (findMongodBin os))"

section \<open>The set of servers\<close>

record serverSet =
  ss_mongoURI :: string
  ss_dumboURI :: string
  ss_authMongoURI :: string
  ss_authDumboURI :: string
  ss_rsURI :: string

definition start_servers ::
    "'w os \<Rightarrow> (string \<Rightarrow> doc \<Rightarrow> 'w \<Rightarrow> election \<times> 'w) \<Rightarrow> ('w machine, serverSet) act" where
  "start_servers os elect =
     and_then (wrapping ''non-auth mongod: ''
       (resolveServer os ''MONGO_URI'' ''mongod-nonauth-'' (mongodArgs os False))) (\<lambda>mongo.
     and_then (wrapping ''non-auth dumbodb: ''
       (resolveServer os ''DUMBODB_URI'' ''dumbodb-nonauth-'' (dumbodbArgs os False))) (\<lambda>dumbo.
     and_then (wrapping ''auth mongod: ''
       (resolveServer os ''MONGO_AUTH_URI'' ''mongod-auth-'' (mongodArgs os True))) (\<lambda>authMongo.
     and_then (wrapping ''auth dumbodb: ''
       (resolveServer os ''DUMBODB_AUTH_URI'' ''dumbodb-auth-'' (dumbodbArgs os True))) (\<lambda>authDumbo.
     and_then (wrapping ''replica-set mongod: '' (resolveReplicaSet os elect)) (\<lambda>rs.
       ok \<lparr>ss_mongoURI = mongo, ss_dumboURI = dumbo, ss_authMongoURI = authMongo,
           ss_authDumboURI = authDumbo, ss_rsURI = rs\<rparr>)))))"

text \<open>\<open>sync.Once\<close>: the outcome of the first call, which every later call returns.\<close>

definition ProvisionServers ::
    "'w os \<Rightarrow> (string \<Rightarrow> doc \<Rightarrow> 'w \<Rightarrow> election \<times> 'w) \<Rightarrow> (goerror + serverSet) option \<Rightarrow> 'w machine \<Rightarrow>
     ((goerror + serverSet) option \<times> 'w machine) option" where
  "ProvisionServers os elect once m =
     (case once of
        Some r \<Rightarrow> Some (Some r, m)
      | None \<Rightarrow> map_option (\<lambda>(r, m'). (Some r, m')) (start_servers os elect m))"

definition TeardownServers :: "'w machine \<Rightarrow> 'w machine" where
  "TeardownServers m = (fold stop (spawnedServers m) m)\<lparr>spawnedServers := []\<rparr>"

end
