(* ===== verification/ServersFacts.thy ===== *)
theory ServersFacts
  imports Servers
begin

text \<open>
  What provisioning guarantees: every process, directory and log file it opens is recorded before
  anything can fail, so that teardown leaves nothing behind whatever provisioning returned; it
  always returns; ports are never handed out twice; the overrides and the missing binaries behave as
  documented.
\<close>

section \<open>Accounting\<close>

text \<open>Everything open belongs to a recorded server or to a directory still being set up.\<close>

definition accounted :: "string set \<Rightarrow> 'w machine \<Rightarrow> bool" where
  "accounted dirs m \<longleftrightarrow>
     running m \<subseteq> sp_pid ` set (spawnedServers m) \<and>
     tempDirs m \<subseteq> dirs \<union> sp_dir ` set (spawnedServers m) \<and>
     openLogs m \<subseteq> sp_log ` set (spawnedServers m) \<and>
     [] \<notin> tempDirs m"

lemma accounted_updates [simp]:
  "accounted dirs (m\<lparr>world := w\<rparr>) = accounted dirs m"
  "accounted dirs (m\<lparr>issuedPorts := ps\<rparr>) = accounted dirs m"
  by (simp_all add: accounted_def)

lemma stop_selectors [simp]:
  "running (stop p m) = running m - {sp_pid p}"
  "openLogs (stop p m) = openLogs m - {sp_log p}"
  "tempDirs (stop p m) = (if sp_dir p = [] then tempDirs m else tempDirs m - {sp_dir p})"
  "issuedPorts (stop p m) = issuedPorts m"
  "cleanups (stop p m) = cleanups m"
  by (simp_all add: stop_def Let_def)

lemma fold_stop_selectors:
  "running (fold stop ps m) = running m - sp_pid ` set ps"
  "openLogs (fold stop ps m) = openLogs m - sp_log ` set ps"
  "tempDirs (fold stop ps m) = tempDirs m - (sp_dir ` set ps - {[]})"
  by (induction ps arbitrary: m) auto

definition nothing_open :: "'w machine \<Rightarrow> bool" where
  "nothing_open m \<longleftrightarrow> running m = {} \<and> tempDirs m = {} \<and> openLogs m = {} \<and> spawnedServers m = []"

lemma teardown_accounted: "accounted {} m \<Longrightarrow> nothing_open (TeardownServers m)"
  by (auto simp: nothing_open_def accounted_def TeardownServers_def fold_stop_selectors subset_iff)

lemma nothing_open_accounted: "nothing_open m \<Longrightarrow> accounted {} m"
  by (simp add: nothing_open_def accounted_def)

section \<open>The steps of resolving a server\<close>

lemma wp_makeDir:
  assumes "os_sane os" "accounted {} m"
    and "\<And>e m'. accounted {} m' \<Longrightarrow> Q (Inl e) m'"
    and "\<And>dir m'. accounted {dir} m' \<Longrightarrow> Q (Inr dir) m'"
  shows "wp (makeDir os pattern) Q m"
proof -
  obtain r w where r: "os_MkdirTemp os pattern (world m) = (r, w)" by force
  show ?thesis
  proof (cases r)
    case (Inl e)
    with r assms show ?thesis by (simp add: makeDir_def wp_simps)
  next
    case (Inr dir)
    then have "dir \<noteq> []" using r assms(1) by (metis os_sane_def)
    with assms(2) have "accounted {dir} (m\<lparr>world := w, tempDirs := insert dir (tempDirs m)\<rparr>)"
      by (auto simp: accounted_def)
    with r Inr assms(4) show ?thesis by (simp add: makeDir_def wp_simps)
  qed
qed

lemma wp_spawn:
  assumes "accounted {dir} m" and "\<And>r m'. accounted {} m' \<Longrightarrow> Q r m'"
  shows "wp (spawn os cmd name dir) Q m"
proof -
  have "wp (spawn os cmd name dir) (\<lambda>r. accounted {}) m"
    using assms(1) unfolding spawn_def startProc_def
    by (auto simp: wp_simps accounted_def removeDir_def split: sum.splits prod.splits)
  then show ?thesis by (rule wp_mono) (rule assms(2))
qed

section \<open>Provisioning\<close>

definition elects_sane :: "(string \<Rightarrow> doc \<Rightarrow> 'w \<Rightarrow> election \<times> 'w) \<Rightarrow> bool" where
  "elects_sane elect \<longleftrightarrow> (\<forall>addr c w. \<exists>d. sleeps d (el_clock (fst (elect addr c w))))"

lemma initiateReplicaSet_returns: "sleeps d (el_clock el) \<Longrightarrow> \<exists>r. initiateReplicaSet el = Some r"
  using poll_returns[of d "el_clock el" "el_start el + 30000000000" "election_pass el" 0 "()"]
  by (auto simp: initiateReplicaSet_def Let_def split: option.split)

lemma wp_electing_primary:
  assumes "elects_sane elect" and "\<And>r w. Q r (m\<lparr>world := w\<rparr>)"
  shows "wp (electing_primary elect addr) Q m"
proof -
  obtain el w where w: "elect addr (initiate_command addr) (world m) = (el, w)" by force
  then obtain d where "sleeps d (el_clock el)" using assms(1) unfolding elects_sane_def by (metis fst_conv)
  then obtain r where "initiateReplicaSet el = Some r" using initiateReplicaSet_returns by blast
  with w assms(2) show ?thesis by (simp add: wp_def electing_primary_def)
qed

lemma wp_use_override:
  assumes "os_sane os" "accounted {} m" and "\<And>r m'. accounted {} m' \<Longrightarrow> Q r m'"
  shows "wp (use_override os envKey) Q m"
  unfolding use_override_def Let_def wp_and_then
  by (rule wp_listening[OF assms(1)]) (simp add: wp_simps assms(2,3))

lemma wp_spawn_server:
  assumes "os_sane os" "accounted {} m" and "\<And>r m'. accounted {} m' \<Longrightarrow> Q r m'"
  shows "wp (spawn_server os dirPrefix args) Q m"
  unfolding spawn_server_def wp_and_then Let_def
  by (auto simp: assms wp_simps split: sum.split
      intro!: wp_freePort wp_makeDir[OF assms(1)] wp_spawn wp_listening[OF assms(1)])

lemma wp_spawn_replica_set:
  assumes "os_sane os" "elects_sane elect" "accounted {} m" and "\<And>r m'. accounted {} m' \<Longrightarrow> Q r m'"
  shows "wp (spawn_replica_set os elect bin) Q m"
  unfolding spawn_replica_set_def wp_and_then Let_def
  by (auto simp: assms(3,4) wp_simps split: sum.split
      intro!: wp_freePort wp_makeDir[OF assms(1)] wp_spawn wp_listening[OF assms(1)]
        wp_electing_primary[OF assms(2)])

lemma wp_resolveServer:
  assumes "os_sane os" "accounted {} m" and "\<And>r m'. accounted {} m' \<Longrightarrow> Q r m'"
  shows "wp (resolveServer os envKey dirPrefix args) Q m"
  unfolding resolveServer_def
  by (auto simp: wp_fail assms intro: wp_use_override[OF assms] wp_spawn_server[OF assms])

lemma wp_resolveReplicaSet:
  assumes "os_sane os" "elects_sane elect" "accounted {} m" and "\<And>r m'. accounted {} m' \<Longrightarrow> Q r m'"
  shows "wp (resolveReplicaSet os elect) Q m"
  unfolding resolveReplicaSet_def
  by (auto simp: wp_fail assms(3,4) intro: wp_use_override[OF assms(1,3,4)] wp_spawn_replica_set[OF assms])

lemma wp_start_servers:
  assumes "os_sane os" "elects_sane elect" "accounted {} m"
  shows "wp (start_servers os elect) (\<lambda>r. accounted {}) m"
  unfolding start_servers_def wp_and_then wp_wrapping
  by (auto simp: assms(3) wp_simps split: sum.split
      intro!: wp_resolveServer[OF assms(1)] wp_resolveReplicaSet[OF assms(1,2)])


text \<open>An operating system on which the second server does not start: the world counts calls.\<close>

definition failing_os :: "nat os" where
  "failing_os = \<lparr>os_Getenv = (\<lambda>k. if k = ''DUMBODB_BIN'' then ''/bin/dumbodb'' else []),
     os_LookPath = (\<lambda>p. Some (''/usr/bin/'' @ p)), os_Stat = (\<lambda>p. False),
     os_Listen = (\<lambda>n. (Inr (int n + 30000), Suc n)),
     os_MkdirTemp = (\<lambda>p n. (Inr (CHR ''/'' # p @ ntoa n), Suc n)),
     os_CreateTemp = (\<lambda>p n. (Inr (p @ ntoa n), Suc n)),
     os_Start = (\<lambda>cmd n. (if hd cmd = ''/bin/dumbodb'' then Inl (ErrText ''exec format error'')
                           else Inr (int n), Suc n)),
     os_Wait = (\<lambda>addr n. (\<lparr>wt_start = 0, wt_clock = (\<lambda>i. int i * 200000000),
                            wt_answer = (\<lambda>i. None)\<rparr>, Suc n))\<rparr>"

definition prompt_election :: "string \<Rightarrow> doc \<Rightarrow> nat \<Rightarrow> election \<times> nat" where
  "prompt_election addr c n = (\<lparr>el_connect = None, el_initiate = None, el_start = 0,
     el_clock = (\<lambda>i. int i * 300000000),
     el_hello = (\<lambda>i. Inr [(''isWritablePrimary'', VBool True)])\<rparr>, Suc n)"

definition idle_machine :: "'w \<Rightarrow> 'w machine" where
  "idle_machine w = \<lparr>issuedPorts = {}, spawnedServers = [], cleanups = [], running = {},
     tempDirs = {}, openLogs = {}, world = w\<rparr>"

lemma nothing_open_idle [simp]: "nothing_open (idle_machine w)"
  by (simp add: nothing_open_def idle_machine_def)

lemma sleeps_linear [simp]: "0 < d \<Longrightarrow> sleeps d (\<lambda>i. int i * d)"
  by (simp add: sleeps_def algebra_simps)

lemma failing_os_sane: "os_sane failing_os" "elects_sane prompt_election"
  by (auto simp: os_sane_def elects_sane_def failing_os_def prompt_election_def
      intro: exI[of _ 200000000] exI[of _ 300000000])


section \<open>Ports\<close>

text \<open>The ports a run of calls hands out, errors left out.\<close>

fun ports_of :: "'w os \<Rightarrow> nat \<Rightarrow> 'w machine \<Rightarrow> int list" where
  "ports_of os 0 m = []"
| "ports_of os (Suc n) m =
     (case freePort os m of
        None \<Rightarrow> []
      | Some (Inl e, m') \<Rightarrow> ports_of os n m'
      | Some (Inr p, m') \<Rightarrow> p # ports_of os n m')"

lemma ports_of_fresh: "distinct (ports_of os n m) \<and> set (ports_of os n m) \<inter> issuedPorts m = {}"
proof (induction n arbitrary: m)
  case (Suc n)
  obtain r m' where r: "freePort os m = Some (r, m')"
    "issuedPorts m' = (case r of Inl e \<Rightarrow> issuedPorts m | Inr p \<Rightarrow> insert p (issuedPorts m))"
    "\<forall>p. r = Inr p \<longrightarrow> p \<notin> issuedPorts m"
    using port_attempts_fresh[of "os_Listen os" 100 m] unfolding freePort_def by (auto cong: sum.case_cong)
  with Suc[of m'] show ?case by (cases r) auto
qed simp

text \<open>No two calls of \<open>freePort\<close> in one process hand out the same port, whatever the
  operating system offers.\<close>

theorem freePort_distinct: "distinct (ports_of os n m)"
  using ports_of_fresh by blast

section \<open>Overrides and missing binaries\<close>

lemma use_override_unreachable:
  assumes "os_Wait os (hostPort (os_Getenv os envKey)) (world m) = (wt, w)" "sleeps d (wt_clock wt)"
    and "\<forall>k. wt_clock wt k < wt_start wt + 10000000000 \<longrightarrow> wt_answer wt k \<noteq> None"
  shows "use_override os envKey m =
    Some (Inl (ErrText (envKey @ ''='' @ os_Getenv os envKey @ '' is not reachable'')), m\<lparr>world := w\<rparr>)"
proof -
  have "waitPort wt 10000000000 = Some False"
    using waitPort_iff[OF assms(2), of 10000000000] waitPort_returns[OF assms(2), of 10000000000] assms(3)
    by (metis (full_types))
  then show ?thesis
    by (simp add: use_override_def Let_def and_then_def listening_def assms(1) require_def fail_def)
qed

lemma resolveServer_no_binary:
  "os_Getenv os envKey = [] \<Longrightarrow> sa_binary args = [] \<Longrightarrow>
    resolveServer os envKey dirPrefix args m =
      Some (Inl (ErrText (sa_binName args @ '' binary not found (set '' @ envKey @ '' or the *_BIN env var)'')), m)"
  by (simp add: resolveServer_def fail_def)

end
