(* ===== verification/TlsFixture.thy ===== *)
theory TlsFixture
  imports Machine
begin

text \<open>
  The throwaway certificate authority of the TLS suites and the material signed by it
  (src/harness/tlsfixture.go). A file is the PEM blocks it holds and its mode. Key generation,
  signing, the serial numbers, the clock, the file system's faults and the openssl command are
  third-party: \<open>crypto\<close> is what they answer. A test that stops in \<open>t.Fatalf\<close> is an error with the
  text it prints.
\<close>

section \<open>Certificates and files\<close>

record pkixName =
  pn_CommonName :: string
  pn_Organization :: "string list"

datatype keyUsage = CertSign | CRLSign | DigitalSignature | KeyEncipherment
datatype extKeyUsage = ServerAuth | ClientAuth

text \<open>A certificate: the fields of its template, then what signing adds, the name of the authority,
  the key it certifies and the key that signed it.\<close>

record cert =
  crt_SerialNumber :: int
  crt_Subject :: pkixName
  crt_NotBefore :: int
  crt_NotAfter :: int
  crt_IsCA :: bool
  crt_KeyUsage :: "keyUsage list"
  crt_ExtKeyUsage :: "extKeyUsage list"
  crt_DNSNames :: "string list"
  crt_IPAddresses :: "string list"
  crt_Issuer :: pkixName
  crt_PublicKey :: nat
  crt_SignedBy :: nat

record revocationList =
  rl_Number :: int
  rl_ThisUpdate :: int
  rl_NextUpdate :: int
  rl_Entries :: "(int \<times> int) list"        \<comment> \<open>serial number and time of revocation\<close>
  rl_SignedBy :: nat

datatype pem =
    Certificate cert
  | RSAPrivateKey nat
  | X509CRL revocationList
  | OpensslBlock string           \<comment> \<open>a block openssl wrote\<close>
  | NotPEM string

type_synonym files = "string \<Rightarrow> (pem list \<times> nat) option"

record 'w lab =
  lab_files :: files
  lab_keys :: nat                 \<comment> \<open>the keys generated so far: a new one is new\<close>
  lab_removals :: "string list"   \<comment> \<open>the directories the test's cleanups remove\<close>
  lab_world :: 'w

text \<open>\<open>cr_fault\<close> is the error of a step, if it has one; \<open>cr_mask\<close> applies the umask to a mode.\<close>

record 'w crypto =
  cr_fault :: "string \<Rightarrow> 'w \<Rightarrow> goerror option \<times> 'w"
  cr_now :: "'w \<Rightarrow> int \<times> 'w"
  cr_serial :: "'w \<Rightarrow> int \<times> 'w"
  cr_MkdirTemp :: "string \<Rightarrow> 'w \<Rightarrow> string \<times> 'w"
  cr_mask :: "nat \<Rightarrow> nat"
  cr_hasOpenssl :: bool
  cr_openssl :: "string list \<Rightarrow> files \<Rightarrow> 'w \<Rightarrow> (goerror \<times> string + string \<times> files) \<times> 'w"

definition attempt :: "'w crypto \<Rightarrow> string \<Rightarrow> string \<Rightarrow> ('w lab, unit) act" where
  "attempt c step message m =
     (case cr_fault c step (lab_world m) of
        (None, w) \<Rightarrow> Some (Inr (), m\<lparr>lab_world := w\<rparr>)
      | (Some e, w) \<Rightarrow> Some (Inl (ErrText (message @ error_text e)), m\<lparr>lab_world := w\<rparr>))"

definition time_now :: "'w crypto \<Rightarrow> ('w lab, int) act" where
  "time_now c m = (case cr_now c (lab_world m) of (t, w) \<Rightarrow> Some (Inr t, m\<lparr>lab_world := w\<rparr>))"

definition GenerateKey :: "'w crypto \<Rightarrow> string \<Rightarrow> ('w lab, nat) act" where
  "GenerateKey c message =
     and_then (attempt c ''rsa.GenerateKey'' message) (\<lambda>_ m.
       Some (Inr (lab_keys m), m\<lparr>lab_keys := Suc (lab_keys m)\<rparr>))"

definition serialNumber :: "'w crypto \<Rightarrow> ('w lab, int) act" where
  "serialNumber c =
     and_then (attempt c ''rand.Int'' ''generating serial number: '') (\<lambda>_ m.
       case cr_serial c (lab_world m) of (n, w) \<Rightarrow> Some (Inr n, m\<lparr>lab_world := w\<rparr>))"

definition MkdirTemp :: "'w crypto \<Rightarrow> string \<Rightarrow> string \<Rightarrow> ('w lab, string) act" where
  "MkdirTemp c pattern message =
     and_then (attempt c ''os.MkdirTemp'' message) (\<lambda>_ m.
       case cr_MkdirTemp c pattern (lab_world m) of (dir, w) \<Rightarrow> Some (Inr dir, m\<lparr>lab_world := w\<rparr>))"

text \<open>\<open>x509.CreateCertificate\<close>.\<close>

definition CreateCertificate ::
    "'w crypto \<Rightarrow> string \<Rightarrow> cert \<Rightarrow> pkixName \<Rightarrow> nat \<Rightarrow> nat \<Rightarrow> ('w lab, cert) act" where
  "CreateCertificate c message template parent pub priv =
     and_then (attempt c ''x509.CreateCertificate'' message) (\<lambda>_.
       ok (template\<lparr>crt_Issuer := parent, crt_PublicKey := pub, crt_SignedBy := priv\<rparr>))"

text \<open>\<open>os.WriteFile\<close> gives its mode to a file it creates and leaves that of one that exists.\<close>

definition WriteFile :: "'w crypto \<Rightarrow> string \<Rightarrow> string \<Rightarrow> pem list \<Rightarrow> nat \<Rightarrow> ('w lab, unit) act" where
  "WriteFile c message path body mode =
     and_then (attempt c (''write '' @ path) message) (\<lambda>_.
       change (\<lambda>m. m\<lparr>lab_files := (lab_files m)(path \<mapsto>
         (body, case lab_files m path of None \<Rightarrow> cr_mask c mode | Some (b, old) \<Rightarrow> old))\<rparr>))"

definition ReadFile :: "'w crypto \<Rightarrow> string \<Rightarrow> string \<Rightarrow> ('w lab, pem list) act" where
  "ReadFile c message path =
     and_then (attempt c (''read '' @ path) message) (\<lambda>_ m.
       case lab_files m path of
         None \<Rightarrow> Some (Inl (ErrText (message @ ''open '' @ path @ '': no such file or directory'')), m)
       | Some (body, mode) \<Rightarrow> Some (Inr body, m))"

definition exists_file :: "string \<Rightarrow> 'w lab \<Rightarrow> bool" where
  "exists_file path m \<longleftrightarrow> lab_files m path \<noteq> None"

text \<open>The idiom \<open>if _, err := os.Stat(path); err == nil { return path }\<close>.\<close>

definition unless_exists :: "string \<Rightarrow> ('w lab, string) act \<Rightarrow> ('w lab, string) act" where
  "unless_exists path c m = (if exists_file path m then Some (Inr path, m) else c m)"

text \<open>\<open>filepath.Join\<close> of a clean directory and a plain file name.\<close>

definition Join :: "string \<Rightarrow> string \<Rightarrow> string" where
  "Join dir name = dir @ ''/'' @ name"

definition mode_0600 :: nat where "mode_0600 = 6 * 64"
definition mode_0644 :: nat where "mode_0644 = 6 * 64 + 4 * 8 + 4"

definition writePEM :: "'w crypto \<Rightarrow> string \<Rightarrow> pem \<Rightarrow> ('w lab, unit) act" where
  "writePEM c path block = WriteFile c (''writing '' @ path @ '': '') path [block] mode_0600"

definition writeKey :: "'w crypto \<Rightarrow> string \<Rightarrow> nat \<Rightarrow> ('w lab, unit) act" where
  "writeKey c path key = writePEM c path (RSAPrivateKey key)"

definition writeCombined :: "'w crypto \<Rightarrow> string \<Rightarrow> cert \<Rightarrow> nat \<Rightarrow> ('w lab, unit) act" where
  "writeCombined c path der key =
     WriteFile c (''writing '' @ path @ '': '') path [Certificate der, RSAPrivateKey key] mode_0600"

section \<open>The fixture\<close>

record TLSFixture =
  fx_Dir :: string
  fx_CAFile :: string
  fx_ServerCertFile :: string
  fx_ServerKeyFile :: string
  fx_ServerPEMFile :: string
  fx_ClientCertFile :: string
  fx_ClientKeyFile :: string
  fx_ClientPEMFile :: string

definition fixture_in :: "string \<Rightarrow> TLSFixture" where
  "fixture_in dir =
     \<lparr>fx_Dir = dir, fx_CAFile = Join dir ''ca.crt'',
      fx_ServerCertFile = Join dir ''server.crt'', fx_ServerKeyFile = Join dir ''server.key'',
      fx_ServerPEMFile = Join dir ''server.pem'',
      fx_ClientCertFile = Join dir ''client.crt'', fx_ClientKeyFile = Join dir ''client.key'',
      fx_ClientPEMFile = Join dir ''client.pem''\<rparr>"

definition caKeyFile :: "TLSFixture \<Rightarrow> string" where
  "caKeyFile f = Join (fx_Dir f) ''ca.key''"

definition hour :: duration where "hour = 3600000000000"
definition minute :: duration where "minute = 60000000000"

definition leaf_template ::
    "int \<Rightarrow> pkixName \<Rightarrow> int \<Rightarrow> int \<Rightarrow> extKeyUsage list \<Rightarrow> string list \<Rightarrow> string list \<Rightarrow> cert" where
  "leaf_template serial subject notBefore notAfter usage dns ips =
     \<lparr>crt_SerialNumber = serial, crt_Subject = subject, crt_NotBefore = notBefore, crt_NotAfter = notAfter,
      crt_IsCA = False, crt_KeyUsage = [DigitalSignature, KeyEncipherment], crt_ExtKeyUsage = usage,
      crt_DNSNames = dns, crt_IPAddresses = ips,
      crt_Issuer = \<lparr>pn_CommonName = [], pn_Organization = []\<rparr>, crt_PublicKey = 0, crt_SignedBy = 0\<rparr>"

definition ca_template :: "int \<Rightarrow> int \<Rightarrow> int \<Rightarrow> cert" where
  "ca_template serial notBefore notAfter =
     (leaf_template serial \<lparr>pn_CommonName = ''dumbodb parity test CA'',
        pn_Organization = [''dumbodb-parity-testing'']\<rparr> notBefore notAfter [] [] [])
     \<lparr>crt_IsCA := True, crt_KeyUsage := [CertSign, CRLSign, DigitalSignature]\<rparr>"

definition signLeaf :: "'w crypto \<Rightarrow> cert \<Rightarrow> nat \<Rightarrow> string \<Rightarrow> bool \<Rightarrow> ('w lab, cert \<times> nat) act" where
  "signLeaf c caCert caKey commonName server =
     and_then (GenerateKey c (''generating key for '' @ commonName @ '': '')) (\<lambda>key.
     and_then (serialNumber c) (\<lambda>serial.
     and_then (time_now c) (\<lambda>t1.
     and_then (time_now c) (\<lambda>t2.
     and_then (CreateCertificate c (''signing '' @ commonName @ '': '')
        (leaf_template serial \<lparr>pn_CommonName = commonName, pn_Organization = [''dumbodb-parity-testing'']\<rparr>
          (t1 - hour) (t2 + 24 * hour)
          (if server then [ServerAuth, ClientAuth] else [ClientAuth])
          (if server then [''localhost''] else [])
          (if server then [''127.0.0.1'', ''::1''] else []))
        (crt_Subject caCert) key caKey) (\<lambda>der. ok (der, key))))))"

definition NewTLSFixture :: "'w crypto \<Rightarrow> ('w lab, TLSFixture) act" where
  "NewTLSFixture c =
     and_then (MkdirTemp c ''tls-fixture-'' ''NewTLSFixture: '') (\<lambda>dir.
      let f = fixture_in dir in
      and_then (change (\<lambda>m. m\<lparr>lab_removals := dir # lab_removals m\<rparr>)) (\<lambda>_.
      and_then (GenerateKey c ''NewTLSFixture: generating CA key: '') (\<lambda>caKey.
      and_then (serialNumber c) (\<lambda>serial.
      and_then (time_now c) (\<lambda>t1.
      and_then (time_now c) (\<lambda>t2.
      and_then (CreateCertificate c ''NewTLSFixture: signing CA: '' (ca_template serial (t1 - hour) (t2 + 24 * hour))
         (crt_Subject (ca_template serial (t1 - hour) (t2 + 24 * hour))) caKey caKey) (\<lambda>caCert.
      and_then (attempt c ''x509.ParseCertificate'' ''NewTLSFixture: parsing CA: '') (\<lambda>_.
      and_then (writePEM c (fx_CAFile f) (Certificate caCert)) (\<lambda>_.
      and_then (writeKey c (caKeyFile f) caKey) (\<lambda>_.
      and_then (signLeaf c caCert caKey ''127.0.0.1'' True) (\<lambda>(serverDER, serverKey).
      and_then (writePEM c (fx_ServerCertFile f) (Certificate serverDER)) (\<lambda>_.
      and_then (writeKey c (fx_ServerKeyFile f) serverKey) (\<lambda>_.
      and_then (writeCombined c (fx_ServerPEMFile f) serverDER serverKey) (\<lambda>_.
      and_then (signLeaf c caCert caKey ''dumbodb parity test client'' False) (\<lambda>(clientDER, clientKey).
      and_then (writePEM c (fx_ClientCertFile f) (Certificate clientDER)) (\<lambda>_.
      and_then (writeKey c (fx_ClientKeyFile f) clientKey) (\<lambda>_.
      and_then (writeCombined c (fx_ClientPEMFile f) clientDER clientKey) (\<lambda>_.
        ok f))))))))))))))))))"

text \<open>\<open>ca\<close>: the authority read back from its two files; \<open>pem.Decode\<close> finds the first block.\<close>

definition pem_Decode :: "pem list \<Rightarrow> pem option" where
  "pem_Decode body = find (\<lambda>b. case b of NotPEM s \<Rightarrow> False | _ \<Rightarrow> True) body"

definition fixture_ca :: "'w crypto \<Rightarrow> TLSFixture \<Rightarrow> ('w lab, cert \<times> nat) act" where
  "fixture_ca c f =
     and_then (ReadFile c ''reading CA certificate: '' (fx_CAFile f)) (\<lambda>certPEM.
     case pem_Decode certPEM of
       None \<Rightarrow> fail (ErrText ''the CA certificate is not valid PEM'')
     | Some (Certificate caCert) \<Rightarrow>
        and_then (ReadFile c ''reading CA key: '' (caKeyFile f)) (\<lambda>keyPEM.
        case pem_Decode keyPEM of
          None \<Rightarrow> fail (ErrText ''the CA key is not valid PEM'')
        | Some (RSAPrivateKey key) \<Rightarrow> ok (caCert, key)
        | Some b \<Rightarrow> fail (ErrText ''parsing CA key: malformed key''))
     | Some b \<Rightarrow> fail (ErrText ''parsing CA certificate: malformed certificate''))"

section \<open>Faulty material\<close>

definition ExpiredPEM :: "'w crypto \<Rightarrow> TLSFixture \<Rightarrow> ('w lab, string) act" where
  "ExpiredPEM c f =
     (let path = Join (fx_Dir f) ''expired.pem'' in
      unless_exists path (
      and_then (fixture_ca c f) (\<lambda>(caCert, caKey).
      and_then (GenerateKey c ''ExpiredPEM: '') (\<lambda>key.
      and_then (serialNumber c) (\<lambda>serial.
      and_then (time_now c) (\<lambda>t1.
      and_then (time_now c) (\<lambda>t2.
      and_then (CreateCertificate c ''ExpiredPEM: signing: ''
        (leaf_template serial \<lparr>pn_CommonName = ''expired.localhost'', pn_Organization = []\<rparr>
          (t1 - 48 * hour) (t2 - 24 * hour) [ServerAuth] [''localhost''] [''127.0.0.1''])
        (crt_Subject caCert) key caKey) (\<lambda>der.
      and_then (writeCombined c path der key) (\<lambda>_. ok path)))))))))"

definition MismatchedPEM :: "'w crypto \<Rightarrow> TLSFixture \<Rightarrow> ('w lab, string) act" where
  "MismatchedPEM c f =
     (let path = Join (fx_Dir f) ''mismatched.pem'' in
      unless_exists path (
      and_then (ReadFile c ''MismatchedPEM: '' (fx_ServerCertFile f)) (\<lambda>certPEM.
      and_then (GenerateKey c ''MismatchedPEM: '') (\<lambda>strangerKey.
      and_then (WriteFile c ''MismatchedPEM: '' path (certPEM @ [RSAPrivateKey strangerKey]) mode_0600) (\<lambda>_.
        ok path)))))"

text \<open>\<open>net.ParseIP\<close> on dotted IPv4 names; the names the file passes are never IPv6.\<close>

fun split_dots :: "string \<Rightarrow> string list" where
  "split_dots [] = [[]]"
| "split_dots (x # s) =
     (if x = CHR ''.'' then [] # split_dots s
      else case split_dots s of [] \<Rightarrow> [[x]] | p # ps \<Rightarrow> (x # p) # ps)"

definition is_octet :: "string \<Rightarrow> bool" where
  "is_octet p \<longleftrightarrow> p \<noteq> [] \<and> length p \<le> 3 \<and> list_all is_digit p \<and> read_digits 0 p \<le> 255 \<and>
     (hd p = CHR ''0'' \<longrightarrow> p = ''0'')"

definition ParseIP :: "string \<Rightarrow> string option" where
  "ParseIP s = (let ps = split_dots s in if length ps = 4 \<and> list_all is_octet ps then Some s else None)"

definition leafPEM ::
    "'w crypto \<Rightarrow> TLSFixture \<Rightarrow> string \<Rightarrow> string \<Rightarrow> int \<Rightarrow> int \<Rightarrow> string list \<Rightarrow> ('w lab, string) act" where
  "leafPEM c f name commonName notBefore notAfter dnsNames =
     (let path = Join (fx_Dir f) name in
      unless_exists path (
      and_then (fixture_ca c f) (\<lambda>(caCert, caKey).
      and_then (GenerateKey c (name @ '': '')) (\<lambda>key.
      and_then (serialNumber c) (\<lambda>serial.
      and_then (CreateCertificate c (name @ '': signing: '')
        (leaf_template serial \<lparr>pn_CommonName = commonName, pn_Organization = []\<rparr> notBefore notAfter
          [ServerAuth] dnsNames (List.map_filter ParseIP dnsNames))
        (crt_Subject caCert) key caKey) (\<lambda>der.
      and_then (writeCombined c path der key) (\<lambda>_. ok path)))))))"

definition NotYetValidPEM :: "'w crypto \<Rightarrow> TLSFixture \<Rightarrow> ('w lab, string) act" where
  "NotYetValidPEM c f =
     and_then (time_now c) (\<lambda>t1. and_then (time_now c) (\<lambda>t2.
       leafPEM c f ''notyetvalid.pem'' ''localhost'' (t1 + 24 * hour) (t2 + 48 * hour) [''localhost'']))"

definition WrongHostPEM :: "'w crypto \<Rightarrow> TLSFixture \<Rightarrow> ('w lab, string) act" where
  "WrongHostPEM c f =
     and_then (time_now c) (\<lambda>t1. and_then (time_now c) (\<lambda>t2.
       leafPEM c f ''wronghost.pem'' ''elsewhere.invalid'' (t1 - hour) (t2 + 24 * hour) [''elsewhere.invalid'']))"

definition ShortLivedPEM :: "'w crypto \<Rightarrow> TLSFixture \<Rightarrow> string \<Rightarrow> duration \<Rightarrow> ('w lab, string) act" where
  "ShortLivedPEM c f name lifetime =
     and_then (change (\<lambda>m. m\<lparr>lab_files := (lab_files m)(Join (fx_Dir f) name := None)\<rparr>)) (\<lambda>_.
     and_then (time_now c) (\<lambda>t1. and_then (time_now c) (\<lambda>t2.
       leafPEM c f name ''localhost'' (t1 - minute) (t2 + lifetime) [''localhost'', ''127.0.0.1''])))"

text \<open>Files that are not what their place asks for.\<close>

definition GarbageCAFile :: "'w crypto \<Rightarrow> TLSFixture \<Rightarrow> ('w lab, string) act" where
  "GarbageCAFile c f =
     (let path = Join (fx_Dir f) ''garbage-ca.crt'' in
      and_then (WriteFile c ''GarbageCAFile: '' path [NotPEM (''this is not a certificate'' @ [CHR 0x0A])] mode_0600)
        (\<lambda>_. ok path))"

definition NotARevocationList :: "'w crypto \<Rightarrow> TLSFixture \<Rightarrow> ('w lab, string) act" where
  "NotARevocationList c f =
     (let path = Join (fx_Dir f) ''not-a-crl.pem'' in
      and_then (ReadFile c ''NotARevocationList: '' (fx_CAFile f)) (\<lambda>body.
      and_then (WriteFile c ''NotARevocationList: '' path body mode_0600) (\<lambda>_. ok path)))"

definition WorldReadableServerPEM :: "'w crypto \<Rightarrow> TLSFixture \<Rightarrow> ('w lab, string) act" where
  "WorldReadableServerPEM c f =
     (let path = Join (fx_Dir f) ''world-readable.pem'' in
      and_then (ReadFile c ''WorldReadableServerPEM: '' (fx_ServerPEMFile f)) (\<lambda>body.
      and_then (WriteFile c ''WorldReadableServerPEM: '' path body mode_0644) (\<lambda>_.
      and_then (attempt c (''chmod '' @ path) ''WorldReadableServerPEM: '') (\<lambda>_.
      and_then (change (\<lambda>m. m\<lparr>lab_files := (lab_files m)(path :=
          map_option (\<lambda>(b, old). (b, mode_0644)) (lab_files m path))\<rparr>)) (\<lambda>_. ok path)))))"

section \<open>Revocation lists\<close>

fun revocation_entries :: "'w crypto \<Rightarrow> string list \<Rightarrow> ('w lab, (int \<times> int) list) act" where
  "revocation_entries c [] = ok []"
| "revocation_entries c (path # paths) =
     and_then (ReadFile c (''RevocationListFor: reading '' @ path @ '': '') path) (\<lambda>certPEM.
     case pem_Decode certPEM of
       None \<Rightarrow> fail (ErrText (''RevocationListFor: '' @ path @ '' is not valid PEM''))
     | Some (Certificate crt) \<Rightarrow>
         and_then (time_now c) (\<lambda>t.
         and_then (revocation_entries c paths) (\<lambda>es. ok ((crt_SerialNumber crt, t - hour) # es)))
     | Some b \<Rightarrow> fail (ErrText (''RevocationListFor: parsing '' @ path @ '': malformed certificate'')))"

definition RevocationListFor :: "'w crypto \<Rightarrow> TLSFixture \<Rightarrow> string list \<Rightarrow> ('w lab, string) act" where
  "RevocationListFor c f revoked =
     and_then (fixture_ca c f) (\<lambda>(caCert, caKey).
     and_then (revocation_entries c revoked) (\<lambda>es.
     and_then (serialNumber c) (\<lambda>serial.
     and_then (time_now c) (\<lambda>t1. and_then (time_now c) (\<lambda>t2.
     and_then (attempt c ''x509.CreateRevocationList'' ''RevocationListFor: '') (\<lambda>_.
       let path = Join (fx_Dir f) (''crl-'' @ itoa (int (length revoked)) @ ''.pem'') in
       and_then (writePEM c path (X509CRL \<lparr>rl_Number = serial, rl_ThisUpdate = t1 - hour,
           rl_NextUpdate = t2 + 24 * hour, rl_Entries = es, rl_SignedBy = caKey\<rparr>)) (\<lambda>_. ok path)))))))"

definition ExpiredRevocationList :: "'w crypto \<Rightarrow> TLSFixture \<Rightarrow> ('w lab, string) act" where
  "ExpiredRevocationList c f =
     and_then (fixture_ca c f) (\<lambda>(caCert, caKey).
     and_then (serialNumber c) (\<lambda>serial.
     and_then (time_now c) (\<lambda>t1. and_then (time_now c) (\<lambda>t2.
     and_then (attempt c ''x509.CreateRevocationList'' ''ExpiredRevocationList: '') (\<lambda>_.
       let path = Join (fx_Dir f) ''crl-expired.pem'' in
       and_then (writePEM c path (X509CRL \<lparr>rl_Number = serial, rl_ThisUpdate = t1 - 48 * hour,
           rl_NextUpdate = t2 - 24 * hour, rl_Entries = [], rl_SignedBy = caKey\<rparr>)) (\<lambda>_. ok path))))))"

section \<open>Material made by openssl\<close>

text \<open>Running openssl: its output and the files it leaves, or its error with its output.\<close>

definition run_openssl :: "'w crypto \<Rightarrow> (goerror \<Rightarrow> string \<Rightarrow> string) \<Rightarrow> string list \<Rightarrow> ('w lab, string) act" where
  "run_openssl c message args m =
     (case cr_openssl c args (lab_files m) (lab_world m) of
        (Inl (e, out), w) \<Rightarrow> Some (Inl (ErrText (message e out)), m\<lparr>lab_world := w\<rparr>)
      | (Inr (out, fs), w) \<Rightarrow> Some (Inr out, m\<lparr>lab_world := w, lab_files := fs\<rparr>))"

definition encryptedPEM :: "'w crypto \<Rightarrow> TLSFixture \<Rightarrow> string \<Rightarrow> string \<Rightarrow> string \<Rightarrow> ('w lab, string) act" where
  "encryptedPEM c f name password form =
     (if \<not> cr_hasOpenssl c then fail (ErrText ''openssl not found; cannot generate encrypted key material'')
      else
        let path = Join (fx_Dir f) name; keyPath = Join (fx_Dir f) (name @ ''.key'') in
        unless_exists path (
        and_then (run_openssl c (\<lambda>e out. name @ '': openssl: '' @ error_text e @ '': '' @ out)
          (if form = ''pkcs8''
           then [''pkcs8'', ''-topk8'', ''-in'', fx_ServerKeyFile f, ''-out'', keyPath, ''-passout'', ''pass:'' @ password]
           else [''rsa'', ''-in'', fx_ServerKeyFile f, ''-aes256'', ''-traditional'', ''-out'', keyPath,
                 ''-passout'', ''pass:'' @ password])) (\<lambda>_.
        and_then (ReadFile c (name @ '': '') (fx_ServerCertFile f)) (\<lambda>certPEM.
        and_then (ReadFile c (name @ '': '') keyPath) (\<lambda>key.
        and_then (WriteFile c (name @ '': '') path (certPEM @ key) mode_0600) (\<lambda>_. ok path))))))"

definition EncryptedPKCS8PEM :: "'w crypto \<Rightarrow> TLSFixture \<Rightarrow> string \<Rightarrow> ('w lab, string) act" where
  "EncryptedPKCS8PEM c f password = encryptedPEM c f ''encrypted-pkcs8.pem'' password ''pkcs8''"

definition LegacyEncryptedPEM :: "'w crypto \<Rightarrow> TLSFixture \<Rightarrow> string \<Rightarrow> ('w lab, string) act" where
  "LegacyEncryptedPEM c f password = encryptedPEM c f ''encrypted-legacy.pem'' password ''legacy''"

text \<open>Only the line ending and the prefix are trimmed.\<close>

definition trim_line_end :: "string \<Rightarrow> string" where
  "trim_line_end s = rev (dropWhile (\<lambda>x. x = CHR 0x0D \<or> x = CHR 0x0A) (rev s))"

definition SubjectRFC2253 :: "'w crypto \<Rightarrow> string \<Rightarrow> ('w lab, string) act" where
  "SubjectRFC2253 c pemPath =
     (if \<not> cr_hasOpenssl c then fail (ErrText ''openssl not found; cannot render a subject for comparison'')
      else and_then (run_openssl c (\<lambda>e out. ''reading subject of '' @ pemPath @ '': '' @ error_text e)
             [''x509'', ''-in'', pemPath, ''-noout'', ''-subject'', ''-nameopt'', ''RFC2253''])
           (\<lambda>out. ok (TrimPrefix (trim_line_end out) ''subject='')))"

definition ClientPEMWithSubject ::
    "'w crypto \<Rightarrow> TLSFixture \<Rightarrow> string \<Rightarrow> pkixName \<Rightarrow> ('w lab, string \<times> string) act" where
  "ClientPEMWithSubject c f name subject =
     (let path = Join (fx_Dir f) name in
      and_then (fixture_ca c f) (\<lambda>(caCert, caKey).
      and_then (GenerateKey c (name @ '': '')) (\<lambda>key.
      and_then (serialNumber c) (\<lambda>serial.
      and_then (time_now c) (\<lambda>t1. and_then (time_now c) (\<lambda>t2.
      and_then (CreateCertificate c (name @ '': signing: '')
        (leaf_template serial subject (t1 - hour) (t2 + 24 * hour) [ClientAuth] [] [])
        (crt_Subject caCert) key caKey) (\<lambda>der.
      and_then (writeCombined c path der key) (\<lambda>_.
      and_then (SubjectRFC2253 c path) (\<lambda>rfc2253. ok (path, rfc2253))))))))))"

text \<open>The options of \<open>opensslClient\<close>: no extensions, and the days. A \<open>-days\<close> without its number
  would index past the end; no caller passes one.\<close>

fun client_options :: "string list \<Rightarrow> bool \<times> string \<Rightarrow> (bool \<times> string) option" where
  "client_options [] acc = Some acc"
| "client_options (x # xs) (noExt, days) =
     (if x = ''-noext'' then client_options xs (True, days)
      else if x = ''-days'' then (case xs of [] \<Rightarrow> None | d # ys \<Rightarrow> client_options ys (noExt, d))
      else client_options xs (noExt, days))"

definition openssl_step :: "'w crypto \<Rightarrow> string \<Rightarrow> string list \<Rightarrow> ('w lab, string) act" where
  "openssl_step c name args =
     run_openssl c (\<lambda>e out. name @ '': openssl ['' @ join '' '' args @ '']: '' @ error_text e @ '': '' @ out) args"

definition request_args :: "string \<Rightarrow> string \<Rightarrow> string \<Rightarrow> string list" where
  "request_args key csr subj =
     [''req'', ''-utf8'', ''-newkey'', ''rsa:2048'', ''-nodes'', ''-keyout'', key, ''-out'', csr, ''-subj'', subj]"

definition sign_args :: "TLSFixture \<Rightarrow> string \<Rightarrow> string \<Rightarrow> string \<Rightarrow> string list" where
  "sign_args f csr crt days =
     [''x509'', ''-req'', ''-in'', csr, ''-CA'', fx_CAFile f, ''-CAkey'', caKeyFile f,
      ''-CAcreateserial'', ''-out'', crt, ''-days'', days]"

text \<open>The certificate and the key joined into one file, and the request removed.\<close>

definition combine_files :: "'w crypto \<Rightarrow> string \<Rightarrow> string \<Rightarrow> string \<Rightarrow> string \<Rightarrow> ('w lab, unit) act" where
  "combine_files c name crt key path =
     and_then (ReadFile c (name @ '': '') crt) (\<lambda>certPEM.
     and_then (ReadFile c (name @ '': '') key) (\<lambda>keyPEM.
       WriteFile c (name @ '': '') path (certPEM @ keyPEM) mode_0600))"

definition Remove :: "string \<Rightarrow> ('w lab, unit) act" where
  "Remove path = change (\<lambda>m. m\<lparr>lab_files := (lab_files m)(path := None)\<rparr>)"

definition opensslClient ::
    "'w crypto \<Rightarrow> TLSFixture \<Rightarrow> string \<Rightarrow> string \<Rightarrow> string list \<Rightarrow> ('w lab, string \<times> string) act" where
  "opensslClient c f name subj extra =
     (if \<not> cr_hasOpenssl c then fail (ErrText ''openssl not found; cannot generate client material'')
      else
        let path = Join (fx_Dir f) name; key = Join (fx_Dir f) (name @ ''.key'');
            csr = Join (fx_Dir f) (name @ ''.csr''); crt = Join (fx_Dir f) (name @ ''.crt'');
            ext = Join (fx_Dir f) (name @ ''.ext'') in
        and_then (openssl_step c name (request_args key csr subj)) (\<lambda>_.
        case client_options extra (False, ''365'') of
          None \<Rightarrow> fail (ErrText ''runtime error: index out of range'')
        | Some (noExt, days) \<Rightarrow>
            and_then (if noExt then ok ()
                      else WriteFile c (name @ '': '') ext
                             [NotPEM (''extendedKeyUsage=clientAuth'' @ [CHR 0x0A])] mode_0600) (\<lambda>_.
            and_then (openssl_step c name
                (sign_args f csr crt days @ (if noExt then [] else [''-extfile'', ext]))) (\<lambda>_.
            and_then (combine_files c name crt key path) (\<lambda>_.
            and_then (Remove csr) (\<lambda>_.
            and_then (SubjectRFC2253 c crt) (\<lambda>rfc2253. ok (path, rfc2253))))))))"

definition ClientPEMWithSubjectString where
  "ClientPEMWithSubjectString c f name subj = opensslClient c f name subj []"

definition ExpiredClientPEM where
  "ExpiredClientPEM c f name subj = opensslClient c f name subj [''-days'', ''-1'']"

definition ClientPEMWithoutClientAuth where
  "ClientPEMWithoutClientAuth c f name subj = opensslClient c f name subj [''-noext'']"

definition clusterMembershipOID :: string where
  "clusterMembershipOID = ''1.3.6.1.4.1.34601.2.1.2''"

definition cluster_extensions :: "string \<Rightarrow> string" where
  "cluster_extensions extensionValue =
     ''subjectAltName=IP:127.0.0.1,DNS:localhost'' @ [CHR 0x0A] @
     ''extendedKeyUsage=serverAuth,clientAuth'' @ [CHR 0x0A] @
     (if extensionValue \<noteq> []
      then clusterMembershipOID @ ''=ASN1:UTF8String:'' @ extensionValue @ [CHR 0x0A] else [])"

definition ClusterMemberPEM ::
    "'w crypto \<Rightarrow> TLSFixture \<Rightarrow> string \<Rightarrow> string \<Rightarrow> string \<Rightarrow> ('w lab, string) act" where
  "ClusterMemberPEM c f name organization extensionValue =
     (if \<not> cr_hasOpenssl c then fail (ErrText ''openssl not found; cannot generate cluster member material'')
      else
        let path = Join (fx_Dir f) name; key = Join (fx_Dir f) (name @ ''.key'');
            csr = Join (fx_Dir f) (name @ ''.csr''); crt = Join (fx_Dir f) (name @ ''.crt'');
            ext = Join (fx_Dir f) (name @ ''.ext'') in
        unless_exists path (
        and_then (openssl_step c name (request_args key csr (''/CN=127.0.0.1/O='' @ organization))) (\<lambda>_.
        and_then (WriteFile c (name @ '': '') ext [NotPEM (cluster_extensions extensionValue)] mode_0600) (\<lambda>_.
        and_then (openssl_step c name (sign_args f csr crt ''1'' @ [''-extfile'', ext])) (\<lambda>_.
        and_then (combine_files c name crt key path) (\<lambda>_.
        and_then (Remove csr) (\<lambda>_. ok path)))))))"

definition EncryptedClusterPEM ::
    "'w crypto \<Rightarrow> TLSFixture \<Rightarrow> string \<Rightarrow> string \<Rightarrow> string \<Rightarrow> ('w lab, string) act" where
  "EncryptedClusterPEM c f name organization password =
     and_then (ClusterMemberPEM c f (name @ ''-plain.pem'') organization []) (\<lambda>_.
     let path = Join (fx_Dir f) name; encrypted = Join (fx_Dir f) (name @ ''.key'') in
     unless_exists path (
     and_then (run_openssl c (\<lambda>e out. name @ '': openssl pkcs8: '' @ error_text e @ '': '' @ out)
       [''pkcs8'', ''-topk8'', ''-in'', Join (fx_Dir f) (name @ ''-plain.pem.key''),
        ''-out'', encrypted, ''-passout'', ''pass:'' @ password]) (\<lambda>_.
     and_then (combine_files c name (Join (fx_Dir f) (name @ ''-plain.pem.crt'')) encrypted path) (\<lambda>_.
       ok path))))"

end
