(* ===== verification/TlsFixtureFacts.thy ===== *)
theory TlsFixtureFacts
  imports TlsFixture
begin

text \<open>
  What the material of the fixture is good for. \<open>problems\<close> says what a verifier finds wrong with a
  server's combined file: its validity window, its name, its authority, its key, its usage. The
  fixture's own material has none of them, and each faulty file has exactly the one it is named
  after, so that a refusal in the suite has one possible cause.
\<close>

section \<open>Verification\<close>

datatype problem = OutsideWindow | WrongName | Untrusted | KeyMismatch | WrongUsage | Malformed

definition problems :: "nat \<Rightarrow> int \<Rightarrow> string \<Rightarrow> pem list option \<Rightarrow> problem list" where
  "problems caKey t host body =
     (case body of
        Some [Certificate c, RSAPrivateKey k] \<Rightarrow>
          (if crt_NotBefore c \<le> t \<and> t \<le> crt_NotAfter c then [] else [OutsideWindow]) @
          (if host \<in> set (crt_DNSNames c) \<union> set (crt_IPAddresses c) then [] else [WrongName]) @
          (if crt_SignedBy c = caKey then [] else [Untrusted]) @
          (if crt_PublicKey c = k then [] else [KeyMismatch]) @
          (if ServerAuth \<in> set (crt_ExtKeyUsage c) then [] else [WrongUsage])
      | _ \<Rightarrow> [Malformed])"

definition contents :: "'w lab \<Rightarrow> string \<Rightarrow> pem list option" where
  "contents m path = map_option fst (lab_files m path)"

definition clock_within :: "int \<Rightarrow> int \<Rightarrow> 'w crypto \<Rightarrow> bool" where
  "clock_within lo hi c \<longleftrightarrow> (\<forall>w. lo \<le> fst (cr_now c w) \<and> fst (cr_now c w) \<le> hi)"

section \<open>Steps\<close>

abbreviation on_success :: "('a \<Rightarrow> 'm \<Rightarrow> bool) \<Rightarrow> goerror + 'a \<Rightarrow> 'm \<Rightarrow> bool" where
  "on_success Q \<equiv> (\<lambda>r m. case r of Inl e \<Rightarrow> True | Inr x \<Rightarrow> Q x m)"

lemma lab_world_outermost [simp]:
  "m\<lparr>lab_world := w, lab_keys := k\<rparr> = m\<lparr>lab_keys := k, lab_world := w\<rparr>"
  "m\<lparr>lab_world := w, lab_files := fs\<rparr> = m\<lparr>lab_files := fs, lab_world := w\<rparr>"
  "m\<lparr>lab_world := w, lab_removals := ds\<rparr> = m\<lparr>lab_removals := ds, lab_world := w\<rparr>"
  by simp_all

lemma wp_then:
  "wp a (on_success (\<lambda>x. wp (k x) (on_success Q))) m \<Longrightarrow> wp (and_then a k) (on_success Q) m"
  unfolding wp_and_then by (erule wp_mono) (auto split: sum.splits)

lemma wp_step:
  assumes "wp a (on_success R) m" and "\<And>x m'. R x m' \<Longrightarrow> wp (k x) (on_success Q) m'"
  shows "wp (and_then a k) (on_success Q) m"
  by (rule wp_then, rule wp_mono[OF assms(1)]) (auto split: sum.splits dest: assms(2))

lemma wp_done: "Q x m \<Longrightarrow> wp (ok x) (on_success Q) m"
  by (simp add: wp_ok)

lemma wp_fails: "wp (fail e) (on_success Q) m"
  by (simp add: wp_fail)

lemma wp_changed: "Q () (f m) \<Longrightarrow> wp (change f) (on_success Q) m"
  by (simp add: wp_change)

lemma wp_attempt:
  "(\<And>w. Q () (m\<lparr>lab_world := w\<rparr>)) \<Longrightarrow> wp (attempt c step msg) (on_success Q) m"
  by (auto simp: wp_def attempt_def split: prod.splits option.splits)

lemma wp_time_now:
  assumes "clock_within lo hi c" and "\<And>t w. lo \<le> t \<Longrightarrow> t \<le> hi \<Longrightarrow> Q t (m\<lparr>lab_world := w\<rparr>)"
  shows "wp (time_now c) (on_success Q) m"
  using assms unfolding clock_within_def
  by (auto simp: wp_def time_now_def split: prod.split) (metis fst_conv)

lemma wp_GenerateKey:
  "(\<And>w. Q (lab_keys m) (m\<lparr>lab_keys := Suc (lab_keys m), lab_world := w\<rparr>)) \<Longrightarrow>
    wp (GenerateKey c msg) (on_success Q) m"
  unfolding GenerateKey_def by (rule wp_then, rule wp_attempt) (simp add: wp_def)

lemma wp_serialNumber:
  "(\<And>n w. Q n (m\<lparr>lab_world := w\<rparr>)) \<Longrightarrow> wp (serialNumber c) (on_success Q) m"
  unfolding serialNumber_def by (rule wp_then, rule wp_attempt) (simp add: wp_def split: prod.split)

lemma wp_MkdirTemp:
  assumes "\<And>w w' dir. cr_MkdirTemp c pattern w = (dir, w') \<Longrightarrow> Q dir (m\<lparr>lab_world := w'\<rparr>)"
  shows "wp (MkdirTemp c pattern msg) (on_success Q) m"
  unfolding MkdirTemp_def using assms
  by (intro wp_then wp_attempt) (auto simp: wp_def split: prod.split)

lemma wp_CreateCertificate:
  "(\<And>w. Q (template\<lparr>crt_Issuer := parent, crt_PublicKey := pub, crt_SignedBy := priv\<rparr>) (m\<lparr>lab_world := w\<rparr>)) \<Longrightarrow>
    wp (CreateCertificate c msg template parent pub priv) (on_success Q) m"
  unfolding CreateCertificate_def by (rule wp_then, rule wp_attempt, rule wp_done)

lemma wp_WriteFile:
  "(\<And>w mode. Q () (m\<lparr>lab_files := (lab_files m)(path \<mapsto> (body, mode)), lab_world := w\<rparr>)) \<Longrightarrow>
    wp (WriteFile c msg path body perm) (on_success Q) m"
  unfolding WriteFile_def by (rule wp_then, rule wp_attempt, rule wp_changed) simp

lemma wp_ReadFile:
  "(\<And>w body. contents m path = Some body \<Longrightarrow> Q body (m\<lparr>lab_world := w\<rparr>)) \<Longrightarrow>
    wp (ReadFile c msg path) (on_success Q) m"
  unfolding ReadFile_def
  by (rule wp_then, rule wp_attempt) (auto simp: wp_def contents_def split: option.split)

lemma wp_unless_exists:
  "\<not> exists_file path m \<Longrightarrow> wp c (on_success Q) m \<Longrightarrow> wp (unless_exists path c) (on_success Q) m"
  by (simp add: wp_def unless_exists_def)

lemma wp_writePEM:
  "(\<And>w mode. Q () (m\<lparr>lab_files := (lab_files m)(path \<mapsto> ([block], mode)), lab_world := w\<rparr>)) \<Longrightarrow>
    wp (writePEM c path block) (on_success Q) m"
  unfolding writePEM_def by (rule wp_WriteFile)

lemma wp_writeKey:
  "(\<And>w mode. Q () (m\<lparr>lab_files := (lab_files m)(path \<mapsto> ([RSAPrivateKey k], mode)), lab_world := w\<rparr>)) \<Longrightarrow>
    wp (writeKey c path k) (on_success Q) m"
  unfolding writeKey_def by (rule wp_writePEM)

lemma wp_writeCombined:
  "(\<And>w mode. Q () (m\<lparr>lab_files := (lab_files m)(path \<mapsto> ([Certificate der, RSAPrivateKey k], mode)),
        lab_world := w\<rparr>)) \<Longrightarrow>
    wp (writeCombined c path der k) (on_success Q) m"
  unfolding writeCombined_def by (rule wp_WriteFile)

lemmas lab_steps = wp_then wp_done wp_changed wp_attempt wp_GenerateKey wp_serialNumber
  wp_CreateCertificate wp_WriteFile wp_ReadFile wp_writePEM wp_writeKey wp_writeCombined

section \<open>The authority and the server's material\<close>

lemma Join_inject [simp]: "Join d a = Join d b \<longleftrightarrow> a = b"
  by (simp add: Join_def)

text \<open>The fixture is in place: its authority under key \<open>k\<close>, and the server's certificate and
  combined file, good from before \<open>lo\<close> to after \<open>hi\<close>.\<close>

definition ready :: "int \<Rightarrow> int \<Rightarrow> TLSFixture \<Rightarrow> nat \<Rightarrow> 'w lab \<Rightarrow> bool" where
  "ready lo hi f k m \<longleftrightarrow>
     (\<exists>ca. contents m (fx_CAFile f) = Some [Certificate ca]) \<and>
     contents m (caKeyFile f) = Some [RSAPrivateKey k] \<and>
     (\<exists>der key. contents m (fx_ServerCertFile f) = Some [Certificate der] \<and>
        contents m (fx_ServerPEMFile f) = Some [Certificate der, RSAPrivateKey key] \<and>
        crt_SignedBy der = k \<and> crt_PublicKey der = key \<and> key < lab_keys m \<and>
        crt_NotBefore der \<le> hi - hour \<and> lo + 24 * hour \<le> crt_NotAfter der \<and>
        crt_DNSNames der = [''localhost''] \<and> crt_IPAddresses der = [''127.0.0.1'', ''::1''] \<and>
        crt_ExtKeyUsage der = [ServerAuth, ClientAuth])"

definition plain_paths :: "TLSFixture \<Rightarrow> bool" where
  "plain_paths f \<longleftrightarrow> (\<exists>dir. f = fixture_in dir)"

lemma fixture_paths:
  assumes "plain_paths f"
  shows "fx_CAFile f = Join (fx_Dir f) ''ca.crt''" "caKeyFile f = Join (fx_Dir f) ''ca.key''"
    "fx_ServerCertFile f = Join (fx_Dir f) ''server.crt''"
    "fx_ServerPEMFile f = Join (fx_Dir f) ''server.pem''"
  using assms by (auto simp: plain_paths_def fixture_in_def caKeyFile_def)

lemma wp_signLeaf:
  assumes "clock_within lo hi c"
    and "\<And>serial t1 t2 w. lo \<le> t1 \<Longrightarrow> t1 \<le> hi \<Longrightarrow> lo \<le> t2 \<Longrightarrow> t2 \<le> hi \<Longrightarrow>
      Q ((leaf_template serial \<lparr>pn_CommonName = name, pn_Organization = [''dumbodb-parity-testing'']\<rparr>
          (t1 - hour) (t2 + 24 * hour)
          (if server then [ServerAuth, ClientAuth] else [ClientAuth])
          (if server then [''localhost''] else [])
          (if server then [''127.0.0.1'', ''::1''] else []))
         \<lparr>crt_Issuer := crt_Subject ca, crt_PublicKey := lab_keys m, crt_SignedBy := k\<rparr>, lab_keys m)
        (m\<lparr>lab_keys := Suc (lab_keys m), lab_world := w\<rparr>)"
  shows "wp (signLeaf c ca k name server) (on_success Q) m"
  unfolding signLeaf_def
  by (intro lab_steps wp_time_now[OF assms(1)]) (insert assms(2), simp split del: if_split)

definition fresh_dir :: "'w crypto \<Rightarrow> 'w lab \<Rightarrow> bool" where
  "fresh_dir c m \<longleftrightarrow> (\<forall>w name. lab_files m (Join (fst (cr_MkdirTemp c ''tls-fixture-'' w)) name) = None)"

definition unused :: "TLSFixture \<Rightarrow> 'w lab \<Rightarrow> string \<Rightarrow> bool" where
  "unused f m name \<longleftrightarrow> contents m (Join (fx_Dir f) name) = None"

lemma wp_NewTLSFixture:
  assumes "clock_within lo hi c" "fresh_dir c m"
  shows "wp (NewTLSFixture c) (on_success (\<lambda>f m'. plain_paths f \<and> (\<exists>k. ready lo hi f k m') \<and>
    fx_Dir f \<in> set (lab_removals m') \<and>
    list_all (unused f m') [''expired.pem'', ''notyetvalid.pem'', ''wronghost.pem'', ''mismatched.pem''])) m"
proof -
  have none: "lab_files m (Join dir name) = None" if "cr_MkdirTemp c ''tls-fixture-'' w = (dir, w')" for w dir w' name
    using assms(2) that unfolding fresh_dir_def by (metis fst_conv)
  show ?thesis
    unfolding NewTLSFixture_def Let_def
    by (intro lab_steps wp_time_now[OF assms(1)] wp_signLeaf[OF assms(1)] wp_MkdirTemp,
        simp del: fun_upd_apply,
        intro lab_steps wp_time_now[OF assms(1)] wp_signLeaf[OF assms(1)],
        simp only: prod.case,
        intro lab_steps)
      (auto simp: ready_def plain_paths_def fixture_in_def caKeyFile_def contents_def
        leaf_template_def unused_def none)
qed

section \<open>Faulty material\<close>

definition kept :: "string \<Rightarrow> 'w lab \<Rightarrow> 'w lab \<Rightarrow> bool" where
  "kept path m m' \<longleftrightarrow> (\<forall>q. q \<noteq> path \<longrightarrow> contents m' q = contents m q) \<and> lab_keys m \<le> lab_keys m'"

lemma kept_writes:
  "kept path m (m\<lparr>lab_keys := Suc (lab_keys m), lab_files := (lab_files m)(path \<mapsto> b), lab_world := w\<rparr>)"
  by (simp add: kept_def contents_def)

definition fixture_names :: "string list" where
  "fixture_names = [''ca.crt'', ''ca.key'', ''server.crt'', ''server.pem'']"

lemma ready_kept:
  assumes "ready lo hi f k m" "kept (Join (fx_Dir f) name) m m'" "plain_paths f"
    "name \<notin> set fixture_names"
  shows "ready lo hi f k m'"
  using assms by (fastforce simp: ready_def kept_def fixture_names_def fixture_paths)

lemma contents_world [simp]: "contents (m\<lparr>lab_world := w\<rparr>) path = contents m path"
  by (simp add: contents_def)

lemma kept_world [simp]: "kept p (m\<lparr>lab_world := w\<rparr>) m' = kept p m m'"
  by (simp add: kept_def)

lemma ready_world [simp]: "ready lo hi f k (m\<lparr>lab_world := w\<rparr>) = ready lo hi f k m"
  by (simp add: ready_def)

lemma unused_world [simp]: "unused f (m\<lparr>lab_world := w\<rparr>) name = unused f m name"
  by (simp add: unused_def)

lemma unused_not_exists: "unused f m name \<Longrightarrow> \<not> exists_file (Join (fx_Dir f) name) m"
  by (simp add: unused_def exists_file_def contents_def)

lemma wp_fixture_ca:
  assumes "ready lo hi f k m" and "\<And>ca w. Q (ca, k) (m\<lparr>lab_world := w\<rparr>)"
  shows "wp (fixture_ca c f) (on_success Q) m"
  unfolding fixture_ca_def
  by (intro lab_steps)
    (use assms in \<open>auto simp: ready_def pem_Decode_def contents_def split: option.splits pem.splits
       intro!: lab_steps\<close>)

text \<open>A step that leaves the fixture ready and gives its file the problems \<open>bad\<close> at every time
  \<open>t\<close> from \<open>lo\<close> to \<open>until\<close>.\<close>

definition has_problems :: "int \<Rightarrow> int \<Rightarrow> nat \<Rightarrow> string \<Rightarrow> string \<Rightarrow> problem list \<Rightarrow> 'w lab \<Rightarrow> bool" where
  "has_problems lo until k host path bad m \<longleftrightarrow>
     (\<forall>t. lo \<le> t \<and> t \<le> until \<longrightarrow> problems k t host (contents m path) = bad)"

lemma wp_ExpiredPEM:
  assumes "clock_within lo hi c" "hi < lo + 24 * hour" "ready lo hi f k m" "unused f m ''expired.pem''"
  shows "wp (ExpiredPEM c f) (on_success (\<lambda>p m'. p = Join (fx_Dir f) ''expired.pem'' \<and>
    kept p m m' \<and> has_problems lo until k ''localhost'' p [OutsideWindow] m' \<and>
    has_problems lo until k ''127.0.0.1'' p [OutsideWindow] m')) m"
  unfolding ExpiredPEM_def Let_def
  by (intro wp_unless_exists unused_not_exists[OF assms(4)] wp_then wp_fixture_ca[OF assms(3)],
      simp only: prod.case, intro lab_steps wp_time_now[OF assms(1)])
    (use assms(2) in \<open>auto simp: kept_def contents_def has_problems_def problems_def leaf_template_def\<close>)

lemma ParseIP_names:
  "ParseIP ''localhost'' = None" "ParseIP ''elsewhere.invalid'' = None"
  "ParseIP ''127.0.0.1'' = Some ''127.0.0.1''"
  by (simp_all add: ParseIP_def is_octet_def is_digit_def read_digits_def digit_val_def)

lemma wp_leafPEM:
  assumes "ready lo hi f k m" "unused f m name"
    and "\<And>serial ca m'. kept (Join (fx_Dir f) name) m m' \<Longrightarrow>
      contents m' (Join (fx_Dir f) name) = Some [Certificate
        ((leaf_template serial \<lparr>pn_CommonName = cn, pn_Organization = []\<rparr> notBefore notAfter
          [ServerAuth] dnsNames (List.map_filter ParseIP dnsNames))
         \<lparr>crt_Issuer := ca, crt_PublicKey := lab_keys m, crt_SignedBy := k\<rparr>),
        RSAPrivateKey (lab_keys m)] \<Longrightarrow> Q (Join (fx_Dir f) name) m'"
  shows "wp (leafPEM c f name cn notBefore notAfter dnsNames) (on_success Q) m"
  unfolding leafPEM_def Let_def
  by (intro wp_unless_exists unused_not_exists[OF assms(2)] wp_then wp_fixture_ca[OF assms(1)],
      simp only: prod.case, intro lab_steps)
    (rule assms(3), simp_all add: kept_def contents_def)

lemma wp_NotYetValidPEM:
  assumes "clock_within lo hi c" "ready lo hi f k m" "unused f m ''notyetvalid.pem''"
  shows "wp (NotYetValidPEM c f) (on_success (\<lambda>p m'. p = Join (fx_Dir f) ''notyetvalid.pem'' \<and>
    kept p m m' \<and> has_problems lo (lo + 24 * hour - 1) k ''localhost'' p [OutsideWindow] m' \<and>
    has_problems lo (lo + 24 * hour - 1) k ''127.0.0.1'' p [OutsideWindow, WrongName] m')) m"
  unfolding NotYetValidPEM_def
  by (intro wp_then wp_time_now[OF assms(1)], rule wp_leafPEM[where k = k])
    (use assms(2,3) in \<open>auto simp: has_problems_def problems_def leaf_template_def ParseIP_names
      List.map_filter_def\<close>)

lemma wp_WrongHostPEM:
  assumes "clock_within lo hi c" "hi \<le> lo + hour" "ready lo hi f k m" "unused f m ''wronghost.pem''"
    and "host \<noteq> ''elsewhere.invalid''"
  shows "wp (WrongHostPEM c f) (on_success (\<lambda>p m'. p = Join (fx_Dir f) ''wronghost.pem'' \<and>
    kept p m m' \<and> has_problems lo (lo + 24 * hour) k host p [WrongName] m')) m"
  unfolding WrongHostPEM_def
  by (intro wp_then wp_time_now[OF assms(1)], rule wp_leafPEM[where k = k])
    (use assms(2-) in \<open>auto simp: has_problems_def problems_def leaf_template_def ParseIP_names
      List.map_filter_def\<close>)

lemma wp_MismatchedPEM:
  assumes "hi \<le> lo + hour" "ready lo hi f k m" "unused f m ''mismatched.pem''"
    and "host \<in> {''localhost'', ''127.0.0.1'', ''::1''}"
  shows "wp (MismatchedPEM c f) (on_success (\<lambda>p m'. p = Join (fx_Dir f) ''mismatched.pem'' \<and>
    kept p m m' \<and> has_problems lo (lo + 24 * hour) k host p [KeyMismatch] m')) m"
  unfolding MismatchedPEM_def Let_def
  by (intro wp_unless_exists unused_not_exists[OF assms(3)] lab_steps)
    (use assms in \<open>auto simp: ready_def kept_def has_problems_def problems_def\<close>,
     auto simp: contents_def)

lemma server_sound:
  assumes "hi \<le> lo + hour" "ready lo hi f k m" "host \<in> {''localhost'', ''127.0.0.1'', ''::1''}"
  shows "has_problems lo (lo + 24 * hour) k host (fx_ServerPEMFile f) [] m"
  using assms by (auto simp: ready_def has_problems_def problems_def)

section \<open>The suite's material\<close>

definition suite_material ::
    "'w crypto \<Rightarrow> ('w lab, TLSFixture \<times> string \<times> string \<times> string \<times> string) act" where
  "suite_material c =
     and_then (NewTLSFixture c) (\<lambda>f.
     and_then (ExpiredPEM c f) (\<lambda>e.
     and_then (NotYetValidPEM c f) (\<lambda>n.
     and_then (WrongHostPEM c f) (\<lambda>h.
     and_then (MismatchedPEM c f) (\<lambda>x. ok (f, e, n, h, x))))))"

lemma unused_kept:
  "unused f m name \<Longrightarrow> kept (Join (fx_Dir f) other) m m' \<Longrightarrow> name \<noteq> other \<Longrightarrow> unused f m' name"
  by (simp add: unused_def kept_def)

lemma wp_suite_material:
  assumes clock: "clock_within lo hi c" "hi \<le> lo + hour" and "fresh_dir c m"
  shows "wp (suite_material c) (on_success (\<lambda>(f, e, n, h, x) m'.
    \<exists>k. has_problems lo (lo + 24 * hour - 1) k ''127.0.0.1'' (fx_ServerPEMFile f) [] m' \<and>
        has_problems lo (lo + 24 * hour - 1) k ''127.0.0.1'' e [OutsideWindow] m' \<and>
        has_problems lo (lo + 24 * hour - 1) k ''localhost'' n [OutsideWindow] m' \<and>
        has_problems lo (lo + 24 * hour - 1) k ''127.0.0.1'' n [OutsideWindow, WrongName] m' \<and>
        has_problems lo (lo + 24 * hour - 1) k ''127.0.0.1'' h [WrongName] m' \<and>
        has_problems lo (lo + 24 * hour - 1) k ''127.0.0.1'' x [KeyMismatch] m')) m"
  unfolding suite_material_def
proof (rule wp_step[OF wp_NewTLSFixture[OF clock(1) assms(3)]], elim conjE exE, goal_cases)
  case (1 f m1 k)
  then have u1: "unused f m1 ''expired.pem''" "unused f m1 ''notyetvalid.pem''"
    "unused f m1 ''wronghost.pem''" "unused f m1 ''mismatched.pem''" by simp_all
  have early: "hi < lo + 24 * hour" using clock(2) by (simp add: hour_def)
  note ready = ready_kept[OF _ _ \<open>plain_paths f\<close>]
  show ?case
  proof (rule wp_step[OF wp_ExpiredPEM[OF clock(1) early \<open>ready lo hi f k m1\<close> u1(1), of "lo + 24 * hour - 1"]],
      goal_cases)
    case (1 e m2)
    then have kept2: "kept (Join (fx_Dir f) ''expired.pem'') m1 m2" by auto
    have r2: "ready lo hi f k m2"
      by (rule ready[OF \<open>ready lo hi f k m1\<close> kept2]) (simp add: fixture_names_def)
    note u2 = u1(2-)[THEN unused_kept[OF _ kept2], simplified]
    note e = 1
    show ?case
    proof (rule wp_step[OF wp_NotYetValidPEM[OF clock(1) r2 u2(1)]], goal_cases)
      case (1 n m3)
      then have kept3: "kept (Join (fx_Dir f) ''notyetvalid.pem'') m2 m3" by auto
      have r3: "ready lo hi f k m3"
        by (rule ready[OF r2 kept3]) (simp add: fixture_names_def)
      note u3 = u2(2-)[THEN unused_kept[OF _ kept3], simplified]
      note n = 1
      show ?case
      proof (rule wp_step[OF wp_WrongHostPEM[OF clock r3 u3(1), of "''127.0.0.1''"]], simp, goal_cases)
        case (1 h m4)
        then have kept4: "kept (Join (fx_Dir f) ''wronghost.pem'') m3 m4" by auto
        have r4: "ready lo hi f k m4"
          by (rule ready[OF r3 kept4]) (simp add: fixture_names_def)
        note u4 = u3(2)[THEN unused_kept[OF _ kept4], simplified]
        note h = 1
        show ?case
        proof (rule wp_step[OF wp_MismatchedPEM[OF clock(2) r4 u4, of "''127.0.0.1''"]], simp, goal_cases)
          case (1 x m5)
          then have kept5: "kept (Join (fx_Dir f) ''mismatched.pem'') m4 m5" by auto
          have r5: "ready lo hi f k m5"
            by (rule ready[OF r4 kept5]) (simp add: fixture_names_def)
          show ?case
            using 1 e n h server_sound[OF clock(2) r5, of "''127.0.0.1''"] kept3 kept4 kept5
            by (intro wp_done) (auto simp: has_problems_def kept_def intro!: exI[of _ k])
        qed
      qed
    qed
  qed
qed


text \<open>An authority on which nothing fails, whose clock stands still.\<close>

definition quiet_crypto :: "nat crypto" where
  "quiet_crypto = \<lparr>cr_fault = (\<lambda>step w. (None, w)), cr_now = (\<lambda>w. (1700000000000000000, w)),
     cr_serial = (\<lambda>w. (int w, Suc w)), cr_MkdirTemp = (\<lambda>p w. (''/tmp/'' @ p @ ntoa w, Suc w)),
     cr_mask = (\<lambda>mode. mode), cr_hasOpenssl = False,
     cr_openssl = (\<lambda>args fs w. (Inl (ErrText ''not found'', []), w))\<rparr>"

definition empty_lab :: "nat lab" where
  "empty_lab = \<lparr>lab_files = Map.empty, lab_keys = 0, lab_removals = [], lab_world = 0\<rparr>"


section \<open>Other material\<close>

text \<open>The world-readable copy has mode 0644 whatever the umask and whatever file was there.\<close>

lemma WorldReadableServerPEM_mode:
  "wp (WorldReadableServerPEM c f) (on_success (\<lambda>p m'. map_option snd (lab_files m' p) = Some mode_0644)) m"
  unfolding WorldReadableServerPEM_def Let_def
  by (intro lab_steps) simp

text \<open>A second request finds the first one's file: its key is encrypted under the first password,
  whatever password is asked for.\<close>

lemma EncryptedPKCS8PEM_first_password:
  assumes "exists_file (Join (fx_Dir f) ''encrypted-pkcs8.pem'') m"
  shows "EncryptedPKCS8PEM c f password m = EncryptedPKCS8PEM c f other m"
  using assms by (simp add: EncryptedPKCS8PEM_def encryptedPEM_def Let_def unless_exists_def)

text \<open>The subject keeps an escaped space at its end; only the line ending goes.\<close>

lemma SubjectRFC2253_exact:
  assumes "cr_hasOpenssl c" "subject = [] \<or> last subject \<notin> {CHR 0x0D, CHR 0x0A}"
    and "cr_openssl c [''x509'', ''-in'', path, ''-noout'', ''-subject'', ''-nameopt'', ''RFC2253'']
           (lab_files m) (lab_world m) = (Inr (''subject='' @ subject @ [CHR 0x0A], fs), w)"
  shows "SubjectRFC2253 c path m = Some (Inr subject, m\<lparr>lab_world := w, lab_files := fs\<rparr>)"
proof -
  have "trim_line_end (''subject='' @ subject @ [CHR 0x0A]) = ''subject='' @ subject"
  proof (cases subject rule: rev_cases)
    case (snoc s x)
    with assms(2) show ?thesis by (simp add: trim_line_end_def)
  qed (simp add: trim_line_end_def)
  then have "TrimPrefix (trim_line_end (''subject='' @ subject @ [CHR 0x0A])) ''subject='' = subject"
    by (simp only: TrimPrefix_def HasPrefix_append) simp
  with assms(1,3) show ?thesis
    by (simp add: SubjectRFC2253_def and_then_def run_openssl_def ok_def)
qed

end
