(* ===== verification/TlsLab.thy ===== *)
theory TlsLab
  imports Servers TlsFixture
begin

text \<open>
  The TLS lab (src/harness/tlslab.go): one server started with TLS, the command line both servers
  get, how a start ends, how connections are judged, and the flags mongod advertises. A failed
  \<open>t.Fatalf\<close> is an error with its text; what the test registers with \<open>t.Cleanup\<close> stands in the
  machine, newest first. What the started process does (when it listens, when it exits, what it
  logs) is an argument.
\<close>

section \<open>Options and command lines\<close>

record TLSOptions =
  to_CertificateKeyFile :: string
  to_CAFile :: string
  to_AllowConnectionsWithoutCertificates :: bool
  to_CRLFile :: string
  to_DisabledProtocols :: string
  to_NoCAFile :: bool
  to_ExtraArgs :: "string list"
  to_Mode :: string
  to_KeyPassword :: string
  to_Auth :: bool

definition orDefault :: "string \<Rightarrow> string \<Rightarrow> string" where
  "orDefault v fallback = (if v = [] then fallback else v)"

definition optionalTLSArgs :: "TLSOptions \<Rightarrow> string list" where
  "optionalTLSArgs opts =
     (if to_AllowConnectionsWithoutCertificates opts then [''--tlsAllowConnectionsWithoutCertificates''] else []) @
     (if to_CRLFile opts \<noteq> [] then [''--tlsCRLFile'', to_CRLFile opts] else []) @
     (if to_DisabledProtocols opts \<noteq> [] then [''--tlsDisabledProtocols'', to_DisabledProtocols opts] else []) @
     (if to_KeyPassword opts \<noteq> [] then [''--tlsCertificateKeyFilePassword'', to_KeyPassword opts] else []) @
     to_ExtraArgs opts"

definition dumbodb_tls_args :: "TLSFixture \<Rightarrow> TLSOptions \<Rightarrow> string \<Rightarrow> string \<Rightarrow> string list" where
  "dumbodb_tls_args f opts addr dir =
     [''--addr'', addr, ''--data-dir'', dir,
      ''--tlsMode'', orDefault (to_Mode opts) ''requireTLS'',
      ''--tlsCertificateKeyFile'', orDefault (to_CertificateKeyFile opts) (fx_ServerPEMFile f)] @
     (if \<not> to_NoCAFile opts then [''--tlsCAFile'', orDefault (to_CAFile opts) (fx_CAFile f)] else []) @
     (if to_Auth opts then [''--auth''] else []) @
     optionalTLSArgs opts"

definition mongod_tls_args :: "TLSFixture \<Rightarrow> TLSOptions \<Rightarrow> int \<Rightarrow> string \<Rightarrow> string list" where
  "mongod_tls_args f opts port dir =
     [''--port'', itoa port, ''--dbpath'', dir, ''--bind_ip'', ''127.0.0.1'', ''--nounixsocket'',
      ''--wiredTigerCacheSizeGB'', ''0.25'',
      ''--tlsMode'', orDefault (to_Mode opts) ''requireTLS'',
      ''--tlsCertificateKeyFile'', orDefault (to_CertificateKeyFile opts) (fx_ServerPEMFile f)] @
     (if \<not> to_NoCAFile opts then [''--tlsCAFile'', orDefault (to_CAFile opts) (fx_CAFile f)] else []) @
     (if to_Auth opts then [''--auth''] else []) @
     optionalTLSArgs opts"

section \<open>Starting a server\<close>

record TLSServer =
  ts_Addr :: string
  ts_StartFailed :: bool
  ts_FailureOutput :: string
  ts_fixture :: TLSFixture
  ts_proc :: "serverProc option"
  ts_exited :: "int option"        \<comment> \<open>the process whose exit the channel reports\<close>
  ts_bin :: string
  ts_name :: string
  ts_dir :: string
  ts_args :: "string list"

text \<open>\<open>strings.ToLower\<close> as far as ASCII can tell: besides the ASCII capitals, only the runes U+0130
  and U+212A have a lower case that is ASCII.\<close>

fun to_lower :: "string \<Rightarrow> string" where
  "to_lower [] = []"
| "to_lower (x # s) =
     (if x = CHR 0xC4 \<and> take 1 s = [CHR 0xB0] then CHR ''i'' # to_lower (drop 1 s)
      else if x = CHR 0xE2 \<and> take 2 s = [CHR 0x84, CHR 0xAA] then CHR ''k'' # to_lower (drop 2 s)
      else (if (65 :: nat) \<le> of_char x \<and> of_char x \<le> (90 :: nat) then char_of (of_char x + 32 :: nat) else x)
        # to_lower s)"

definition addressInUse :: "string \<Rightarrow> bool" where
  "addressInUse output \<longleftrightarrow>
     list_ex (contains (to_lower output))
       [''address already in use'', ''address in use'', ''addrinuse'', ''failed to set up listener'']"

text \<open>What \<open>waitListeningOrExit\<close> will see: in each round the dials of its 200 milliseconds, whether
  the process has exited after them, and the dials of the last look.\<close>

record startup =
  st_start :: int
  st_clock :: "nat \<Rightarrow> int"
  st_dials :: "nat \<Rightarrow> wait"
  st_exited :: "nat \<Rightarrow> bool"
  st_again :: "nat \<Rightarrow> wait"

definition short_wait :: duration where "short_wait = 200000000"

partial_function (option) listening_rounds :: "startup \<Rightarrow> int \<Rightarrow> nat \<Rightarrow> bool option" where
  "listening_rounds st deadline i =
     (if st_clock st i < deadline
      then Option.bind (waitPort (st_dials st i) short_wait) (\<lambda>up.
             if up then Some True
             else if st_exited st i then waitPort (st_again st i) short_wait
             else listening_rounds st deadline (Suc i))
      else Some False)"

definition waitListeningOrExit :: "startup \<Rightarrow> duration \<Rightarrow> bool option" where
  "waitListeningOrExit st timeout = listening_rounds st (st_start st + timeout) 0"

record 'w process_world =
  pw_startup :: "int \<Rightarrow> string \<Rightarrow> 'w \<Rightarrow> startup \<times> 'w"    \<comment> \<open>process, address\<close>
  pw_readLog :: "string \<Rightarrow> 'w \<Rightarrow> string"                   \<comment> \<open>\<open>readServerLog\<close>: empty when unreadable\<close>

definition await_start :: "'w process_world \<Rightarrow> int \<Rightarrow> string \<Rightarrow> ('w machine, bool) act" where
  "await_start pw pid addr m =
     (case pw_startup pw pid addr (world m) of
        (st, w) \<Rightarrow> map_option (\<lambda>b. (Inr b, m\<lparr>world := w\<rparr>)) (waitListeningOrExit st 25000000000))"

definition register :: "cleanup \<Rightarrow> 'w machine \<Rightarrow> 'w machine" where
  "register x m = m\<lparr>cleanups := x # cleanups m\<rparr>"

definition startTLSServer ::
    "'w os \<Rightarrow> 'w process_world \<Rightarrow> TLSFixture \<Rightarrow> string \<Rightarrow> string \<Rightarrow> string \<Rightarrow> string \<Rightarrow> string list \<Rightarrow>
     ('w machine, TLSServer) act" where
  "startTLSServer os pw f bin name addr dir args =
     handling (startProc os (bin # args) name dir) (\<lambda>r. case r of
       Inl e \<Rightarrow> fail (ErrText (''launching '' @ name @ '': '' @ error_text e))
     | Inr p \<Rightarrow>
       and_then (change (register (ReapServer p))) (\<lambda>_.
       let s = \<lparr>ts_Addr = addr, ts_StartFailed = False, ts_FailureOutput = [], ts_fixture = f,
                ts_proc = Some p, ts_exited = Some (sp_pid p), ts_bin = bin, ts_name = name,
                ts_dir = dir, ts_args = args\<rparr> in
       and_then (await_start pw (sp_pid p) addr) (\<lambda>up.
       if up then ok s
       else reading (\<lambda>m. pw_readLog pw (sp_log p) (world m)) (\<lambda>output.
         if addressInUse output
         then fail (ErrText (name @ '' could not bind '' @ addr @
                '': the harness handed out a port something else holds.'' @ [CHR 0x0A] @ output))
         else and_then (change (stop p)) (\<lambda>_.
                ok (s\<lparr>ts_StartFailed := True, ts_FailureOutput := output, ts_proc := None\<rparr>))))))"

definition tlsPortAndDir :: "'w os \<Rightarrow> string \<Rightarrow> ('w machine, int \<times> string) act" where
  "tlsPortAndDir os pattern =
     handling (freePort os) (\<lambda>r. case r of
       Inl e \<Rightarrow> fail (ErrText (''allocating a port: '' @ error_text e))
     | Inr port \<Rightarrow>
       handling (makeDir os pattern) (\<lambda>r. case r of
         Inl e \<Rightarrow> fail (ErrText (''allocating a data directory: '' @ error_text e))
       | Inr dir \<Rightarrow> and_then (change (register (RemoveDir dir))) (\<lambda>_. ok (port, dir))))"

definition StartTLSDumboDB where
  "StartTLSDumboDB os pw f opts =
     (if findDumboDBBinary os = [] then fail (ErrText ''dumbodb binary not found (set DUMBODB_BIN)'')
      else and_then (tlsPortAndDir os ''dumbodb-tls-'') (\<lambda>(port, dir).
        let addr = ''127.0.0.1:'' @ itoa port in
        startTLSServer os pw f (findDumboDBBinary os) ''dumbodb-tls'' addr dir (dumbodb_tls_args f opts addr dir)))"

definition StartTLSMongod where
  "StartTLSMongod os pw f opts =
     (if findMongodBin os = [] then fail (ErrText ''mongod binary not found (set MONGOD_BIN)'')
      else and_then (tlsPortAndDir os ''mongod-tls-'') (\<lambda>(port, dir).
        let addr = ''127.0.0.1:'' @ itoa port in
        startTLSServer os pw f (findMongodBin os) ''mongod-tls'' addr dir (mongod_tls_args f opts port dir)))"

definition Exited :: "(int \<Rightarrow> bool) \<Rightarrow> TLSServer \<Rightarrow> bool" where
  "Exited gone s \<longleftrightarrow> (case ts_exited s of None \<Rightarrow> True | Some pid \<Rightarrow> gone pid)"

text \<open>\<open>Restart\<close>: kill, wait for the reaper, start again on the same command line.\<close>

definition Restart :: "'w os \<Rightarrow> 'w process_world \<Rightarrow> TLSServer \<Rightarrow> ('w machine, TLSServer) act" where
  "Restart os pw s =
     and_then (change (\<lambda>m. case ts_exited s of None \<Rightarrow> m | Some pid \<Rightarrow> m\<lparr>running := running m - {pid}\<rparr>)) (\<lambda>_.
       startTLSServer os pw (ts_fixture s) (ts_bin s) (ts_name s) (ts_Addr s) (ts_dir s) (ts_args s))"

text \<open>The test's cleanups, newest first.\<close>

fun run_cleanup :: "cleanup \<Rightarrow> 'w machine \<Rightarrow> 'w machine" where
  "run_cleanup (RemoveDir dir) m = m\<lparr>tempDirs := tempDirs m - {dir}\<rparr>"
| "run_cleanup (ReapServer p) m =
     m\<lparr>running := running m - {sp_pid p}, openLogs := openLogs m - {sp_log p}\<rparr>"

definition run_cleanups :: "'w machine \<Rightarrow> 'w machine" where
  "run_cleanups m = (fold run_cleanup (cleanups m) m)\<lparr>cleanups := []\<rparr>"

section \<open>Connections\<close>

record Credential =
  cd_AuthMechanism :: string
  cd_AuthSource :: string
  cd_Username :: string
  cd_Password :: string

text \<open>What a client asks for: the address, the certificate and key it presents over TLS (\<open>None\<close>
  without TLS, \<open>Some None\<close> without a certificate), and its credentials.\<close>

record conn_request =
  cn_URI :: string
  cn_TLS :: "(string \<times> string) option option"
  cn_Auth :: "Credential option"

datatype conn_outcome = Fatal string | Refused goerror | Connected conn_request

text \<open>What the files and the server answer: reading the CA, loading a key pair, \<open>mongo.Connect\<close> and
  the ping over the connection.\<close>

record dialer =
  dl_readCA :: "string \<Rightarrow> goerror option"
  dl_loadPair :: "string \<Rightarrow> string \<Rightarrow> goerror option"
  dl_connect :: "conn_request \<Rightarrow> goerror option"
  dl_ping :: "conn_request \<Rightarrow> goerror option"

definition direct_uri :: "TLSServer \<Rightarrow> string" where
  "direct_uri s = ''mongodb://'' @ ts_Addr s @ ''/?directConnection=true''"

definition never_started :: "TLSServer \<Rightarrow> conn_outcome" where
  "never_started s = Fatal (''cannot connect to '' @ ts_Addr s @ '': it never started'')"

text \<open>Pinging rather than trusting the connection: a client whose ping fails is disconnected.\<close>

definition pinged :: "dialer \<Rightarrow> conn_request \<Rightarrow> conn_outcome" where
  "pinged d q =
     (case dl_connect d q of Some e \<Rightarrow> Refused e
      | None \<Rightarrow> (case dl_ping d q of Some e \<Rightarrow> Refused e | None \<Rightarrow> Connected q))"

definition connect_tls :: "dialer \<Rightarrow> TLSServer \<Rightarrow> string \<Rightarrow> string \<Rightarrow> string \<Rightarrow> Credential option \<Rightarrow> conn_outcome" where
  "connect_tls d s loading certFile keyFile cred =
     (if ts_StartFailed s then never_started s
      else case dl_readCA d (fx_CAFile (ts_fixture s)) of
        Some e \<Rightarrow> Fatal (''reading CA: '' @ error_text e)
      | None \<Rightarrow>
         if certFile = [] then pinged d \<lparr>cn_URI = direct_uri s, cn_TLS = Some None, cn_Auth = cred\<rparr>
         else case dl_loadPair d certFile keyFile of
           Some e \<Rightarrow> Fatal (''loading client certificate'' @ loading @ '': '' @ error_text e)
         | None \<Rightarrow> pinged d \<lparr>cn_URI = direct_uri s, cn_TLS = Some (Some (certFile, keyFile)), cn_Auth = cred\<rparr>)"

definition connectAuth where
  "connectAuth d s certFile cred = connect_tls d s ('' '' @ certFile) certFile certFile (Some cred)"

definition connectWith where
  "connectWith d s certFile keyFile = connect_tls d s [] certFile keyFile None"

definition x509_credential :: "string \<Rightarrow> Credential" where
  "x509_credential user = \<lparr>cd_AuthMechanism = ''MONGODB-X509'', cd_AuthSource = ''$external'',
     cd_Username = user, cd_Password = []\<rparr>"

definition scram_credential :: "string \<Rightarrow> string \<Rightarrow> Credential" where
  "scram_credential user password = \<lparr>cd_AuthMechanism = ''SCRAM-SHA-256'', cd_AuthSource = ''admin'',
     cd_Username = user, cd_Password = password\<rparr>"

definition ConnectX509 where
  "ConnectX509 d s certFile = connectAuth d s certFile (x509_credential [])"

definition ConnectX509Claiming where
  "ConnectX509Claiming d s certFile claimedDN = connectAuth d s certFile (x509_credential claimedDN)"

definition ConnectX509Plaintext where
  "ConnectX509Plaintext d s =
     (if ts_StartFailed s then never_started s
      else pinged d \<lparr>cn_URI = direct_uri s, cn_TLS = None, cn_Auth = Some (x509_credential [])\<rparr>)"

definition ConnectAsUserWithout where
  "ConnectAsUserWithout d s user password = connectAuth d s [] (scram_credential user password)"

definition ConnectAsUser where
  "ConnectAsUser d s user password =
     connectAuth d s (fx_ClientPEMFile (ts_fixture s)) (scram_credential user password)"

definition ConnectAs where
  "ConnectAs d s client = connectWith d s (fx_ClientCertFile client) (fx_ClientKeyFile client)"

definition Connect where
  "Connect d s withClientCertificate =
     (if ts_StartFailed s then never_started s
      else if \<not> withClientCertificate then connectWith d s [] []
      else connectWith d s (fx_ClientCertFile (ts_fixture s)) (fx_ClientKeyFile (ts_fixture s)))"

definition ConnectPlaintext :: "dialer \<Rightarrow> TLSServer \<Rightarrow> goerror option" where
  "ConnectPlaintext d s =
     (let q = \<lparr>cn_URI = direct_uri s, cn_TLS = None, cn_Auth = None\<rparr>
      in case dl_connect d q of Some e \<Rightarrow> Some e | None \<Rightarrow> dl_ping d q)"

section \<open>Negotiated versions\<close>

text \<open>The error of a read, and whether its chain holds a \<open>net.Error\<close>, with its \<open>Timeout\<close>.\<close>

definition isBenignReadError :: "goerror \<times> bool option \<Rightarrow> bool" where
  "isBenignReadError e \<longleftrightarrow> snd e = Some True"

record raw_dial =
  rd_readCA :: "goerror option"
  rd_loadPair :: "goerror option"
  rd_dial :: "goerror + int"                      \<comment> \<open>the version of the handshake\<close>
  rd_write :: "goerror option"
  rd_read :: "(goerror \<times> bool option) option"

datatype raw_outcome = RawFatal string | Negotiated int "goerror option"

definition connect_version :: "TLSServer \<Rightarrow> (int \<Rightarrow> int \<Rightarrow> raw_dial) \<Rightarrow> int \<Rightarrow> int \<Rightarrow> raw_outcome" where
  "connect_version s dial minVersion maxVersion =
     (let rd = dial minVersion maxVersion in
      if ts_StartFailed s then RawFatal (''cannot connect to '' @ ts_Addr s @ '': it never started'')
      else case rd_readCA rd of
        Some e \<Rightarrow> RawFatal (''reading CA: '' @ error_text e)
      | None \<Rightarrow> (case rd_loadPair rd of
        Some e \<Rightarrow> RawFatal (''loading client certificate: '' @ error_text e)
      | None \<Rightarrow> (case rd_dial rd of
        Inl e \<Rightarrow> Negotiated 0 (Some e)
      | Inr version \<Rightarrow> (case rd_write rd of
        Some e \<Rightarrow> Negotiated version (Some e)
      | None \<Rightarrow> (case rd_read rd of
        Some e \<Rightarrow> Negotiated version (if isBenignReadError e then None else Some (fst e))
      | None \<Rightarrow> Negotiated version None)))))"

definition ConnectWithVersion where
  "ConnectWithVersion s dial version = connect_version s dial version version"

definition VersionTLS10 :: int where "VersionTLS10 = 0x0301"
definition VersionTLS13 :: int where "VersionTLS13 = 0x0304"

definition ConnectAnyVersion where
  "ConnectAnyVersion s dial = connect_version s dial VersionTLS10 VersionTLS13"

section \<open>The flags mongod advertises\<close>

definition is_alnum :: "char \<Rightarrow> bool" where
  "is_alnum x \<longleftrightarrow> is_digit x \<or> (let n = of_char x :: nat in 65 \<le> n \<and> n \<le> 90 \<or> 97 \<le> n \<and> n \<le> 122)"

text \<open>\<open>FindAllString\<close> of the pattern \<open>--tls[A-Za-z0-9]*\<close>: leftmost, longest, without overlap.\<close>

function tls_matches :: "string \<Rightarrow> string list" where
  "tls_matches s =
     (if s = [] then []
      else if HasPrefix s ''--tls''
      then (''--tls'' @ takeWhile is_alnum (drop 5 s)) # tls_matches (dropWhile is_alnum (drop 5 s))
      else tls_matches (tl s))"
  by pat_completeness auto
termination
  by (relation "measure length")
    (auto simp: HasPrefix_def intro: le_less_trans[OF length_dropWhile_le])

declare tls_matches.simps [simp del]

definition collect_flags :: "string list \<Rightarrow> string list" where
  "collect_flags matches =
     fold (\<lambda>x flags. let name = TrimPrefix x ''--'' in if name \<in> set flags then flags else flags @ [name])
       matches []"

definition MongodTLSFlags :: "string \<Rightarrow> goerror + string \<Rightarrow> goerror + string list" where
  "MongodTLSFlags bin help =
     (if bin = [] then Inl (ErrText ''mongod binary not found (set MONGOD_BIN)'')
      else case help of
        Inl e \<Rightarrow> Inl (ErrText (''mongod --help: '' @ error_text e))
      | Inr out \<Rightarrow>
         let flags = collect_flags (tls_matches out)
         in if flags = []
            then Inl (ErrText (''mongod --help listed no TLS options, so this cannot tell a complete list '' @
                   ''from a broken parse''))
            else Inr (sort flags))"

end
