(* ===== verification/TlsLabFacts.thy ===== *)
theory TlsLabFacts
  imports TlsLab ServersFacts
begin

text \<open>
  What the TLS lab guarantees: both servers get the same TLS command line; a start always ends, its
  outcome says what happened, and the test's cleanups leave nothing behind; an accepted connection
  is one that answered; the list of mongod's flags is complete.
\<close>

section \<open>Command lines\<close>

text \<open>After the address, the data directory and mongod's own three settings, the two servers are
  started with the same arguments, so that a difference in what they do is not a difference in what
  they were asked.\<close>

theorem same_tls_arguments:
  "drop 4 (dumbodb_tls_args f opts addr dir) = drop 9 (mongod_tls_args f opts port dir') \<and>
   take 4 (dumbodb_tls_args f opts addr dir) = [''--addr'', addr, ''--data-dir'', dir] \<and>
   take 4 (mongod_tls_args f opts port dir') = [''--port'', itoa port, ''--dbpath'', dir']"
  by (simp add: dumbodb_tls_args_def mongod_tls_args_def)

section \<open>Waiting for a start\<close>

definition startup_sane :: "startup \<Rightarrow> bool" where
  "startup_sane st \<longleftrightarrow> (\<exists>d. sleeps d (st_clock st)) \<and>
     (\<forall>i. (\<exists>d. sleeps d (wt_clock (st_dials st i))) \<and> (\<exists>d. sleeps d (wt_clock (st_again st i))))"

text \<open>An address answers within the 200 milliseconds of one look.\<close>

definition answers :: "wait \<Rightarrow> bool" where
  "answers wt \<longleftrightarrow> waitPort wt short_wait = Some True"

lemma look:
  assumes "\<exists>d. sleeps d (wt_clock wt)"
  shows "waitPort wt short_wait = Some (answers wt)"
proof -
  obtain b where "waitPort wt short_wait = Some b" using assms waitPort_returns by blast
  then show ?thesis by (simp add: answers_def)
qed

text \<open>A round ends the wait when the address answers or the process has gone.\<close>

definition round_ends :: "startup \<Rightarrow> nat \<Rightarrow> bool" where
  "round_ends st i \<longleftrightarrow> answers (st_dials st i) \<or> st_exited st i"

lemma listening_rounds_unfold:
  assumes "startup_sane st"
  shows "listening_rounds st deadline i =
    (if st_clock st i < deadline
     then if answers (st_dials st i) then Some True
          else if st_exited st i then Some (answers (st_again st i))
          else listening_rounds st deadline (Suc i)
     else Some False)"
  using assms by (subst listening_rounds.simps) (auto simp: startup_sane_def look)

lemma listening_rounds_returns:
  assumes "startup_sane st"
  shows "\<exists>b. listening_rounds st deadline i = Some b"
proof -
  obtain d where d: "sleeps d (st_clock st)" using assms by (auto simp: startup_sane_def)
  show ?thesis
  proof (induction "nat (deadline - st_clock st i)" arbitrary: i rule: less_induct)
    case less
    show ?case
    proof (cases "st_clock st i < deadline")
      case True
      then have "nat (deadline - st_clock st (Suc i)) < nat (deadline - st_clock st i)"
        using sleeps_less[OF d, of i] by simp
      from less[OF this] show ?thesis by (subst listening_rounds_unfold[OF assms]) auto
    qed (subst listening_rounds_unfold[OF assms], auto)
  qed
qed

text \<open>A true answer means that some look saw the address answer.\<close>

lemma listening_rounds_true:
  assumes "startup_sane st" "listening_rounds st deadline i = Some True"
  shows "\<exists>j \<ge> i. st_clock st j < deadline \<and> (answers (st_dials st j) \<or> (st_exited st j \<and> answers (st_again st j)))"
proof -
  obtain d where d: "sleeps d (st_clock st)" using assms(1) by (auto simp: startup_sane_def)
  show ?thesis using assms(2)
  proof (induction "nat (deadline - st_clock st i)" arbitrary: i rule: less_induct)
    case less
    have now: "st_clock st i < deadline"
      using less.prems by (subst (asm) listening_rounds_unfold[OF assms(1)]) (simp split: if_splits)
    show ?case
    proof (cases "round_ends st i")
      case True
      then show ?thesis
        using less.prems now unfolding round_ends_def
        by (subst (asm) listening_rounds_unfold[OF assms(1)]) (auto split: if_splits)
    next
      case False
      then have rest: "listening_rounds st deadline (Suc i) = Some True"
        using less.prems now unfolding round_ends_def
        by (subst (asm) listening_rounds_unfold[OF assms(1)]) simp
      have "nat (deadline - st_clock st (Suc i)) < nat (deadline - st_clock st i)"
        using now sleeps_less[OF d, of i] by simp
      from less.hyps[OF this rest] show ?thesis using Suc_leD by blast
    qed
  qed
qed

text \<open>With no address answering and no exit before the deadline, the wait is over with a false, though
  the process is still running: the caller reports it as having refused its configuration.\<close>

lemma listening_rounds_slow:
  assumes "startup_sane st"
    and "\<And>j. st_clock st j < deadline \<Longrightarrow> \<not> answers (st_dials st j) \<and> \<not> st_exited st j"
  shows "listening_rounds st deadline i = Some False"
proof -
  obtain b where b: "listening_rounds st deadline i = Some b"
    using listening_rounds_returns[OF assms(1)] by blast
  then show ?thesis using listening_rounds_true[OF assms(1)] assms(2) by (cases b) auto
qed

section \<open>Starting a server\<close>

definition worlds_sane :: "'w process_world \<Rightarrow> bool" where
  "worlds_sane pw \<longleftrightarrow> (\<forall>pid addr w. startup_sane (fst (pw_startup pw pid addr w)))"

text \<open>Everything open is in the hands of a registered cleanup, or is the directory being set up.\<close>

definition reaped :: "cleanup list \<Rightarrow> serverProc set" where
  "reaped cs = {p. ReapServer p \<in> set cs}"

definition removed :: "cleanup list \<Rightarrow> string set" where
  "removed cs = {d. RemoveDir d \<in> set cs}"

definition in_hand :: "string set \<Rightarrow> 'w machine \<Rightarrow> bool" where
  "in_hand dirs m \<longleftrightarrow>
     running m \<subseteq> sp_pid ` reaped (cleanups m) \<and>
     openLogs m \<subseteq> sp_log ` reaped (cleanups m) \<and>
     tempDirs m \<subseteq> dirs \<union> removed (cleanups m)"

lemma reaped_simps [simp]:
  "reaped [] = {}" "reaped (ReapServer p # cs) = insert p (reaped cs)"
  "reaped (RemoveDir d # cs) = reaped cs"
  by (auto simp: reaped_def)

lemma removed_simps [simp]:
  "removed [] = {}" "removed (RemoveDir d # cs) = insert d (removed cs)"
  "removed (ReapServer p # cs) = removed cs"
  by (auto simp: removed_def)

lemma fold_cleanup_selectors:
  "running (fold run_cleanup cs m) = running m - sp_pid ` reaped cs"
  "openLogs (fold run_cleanup cs m) = openLogs m - sp_log ` reaped cs"
  "tempDirs (fold run_cleanup cs m) = tempDirs m - removed cs"
  "spawnedServers (fold run_cleanup cs m) = spawnedServers m"
proof (induction cs arbitrary: m)
  case (Cons x cs)
  { case 1 show ?case using Cons(1) by (cases x) auto }
  { case 2 show ?case using Cons(2) by (cases x) auto }
  { case 3 show ?case using Cons(3) by (cases x) auto }
  { case 4 show ?case using Cons(4) by (cases x) auto }
qed simp_all

lemma cleaned_up:
  "in_hand {} m \<Longrightarrow> running (run_cleanups m) = {} \<and> openLogs (run_cleanups m) = {} \<and>
    tempDirs (run_cleanups m) = {}"
  by (auto simp: in_hand_def run_cleanups_def fold_cleanup_selectors)

lemma in_hand_world [simp]: "in_hand dirs (m\<lparr>world := w\<rparr>) = in_hand dirs m"
  by (simp add: in_hand_def)

lemma in_hand_ports [simp]: "in_hand dirs (m\<lparr>issuedPorts := ps\<rparr>) = in_hand dirs m"
  by (simp add: in_hand_def)

lemma wp_await_start:
  assumes "worlds_sane pw" and "\<And>b w. Q (Inr b) (m\<lparr>world := w\<rparr>)"
  shows "wp (await_start pw pid addr) Q m"
proof -
  obtain st w where st: "pw_startup pw pid addr (world m) = (st, w)" by force
  then have "startup_sane st" using assms(1) unfolding worlds_sane_def by (metis fst_conv)
  then obtain b where "waitListeningOrExit st 25000000000 = Some b"
    using listening_rounds_returns by (fastforce simp: waitListeningOrExit_def)
  with st assms(2) show ?thesis by (simp add: wp_def await_start_def)
qed

definition judged :: "'w process_world \<Rightarrow> goerror + TLSServer \<Rightarrow> 'w machine \<Rightarrow> bool" where
  "judged pw r m \<longleftrightarrow> (\<forall>s. r = Inr s \<longrightarrow>
     (ts_StartFailed s \<longleftrightarrow> ts_proc s = None) \<and>
     (ts_StartFailed s \<longrightarrow> \<not> addressInUse (ts_FailureOutput s) \<and> (\<forall>pid. ts_exited s = Some pid \<longrightarrow> pid \<notin> running m)) \<and>
     (\<forall>p. ts_proc s = Some p \<longrightarrow> sp_pid p \<in> running m))"

lemma wp_startProc:
  assumes "in_hand {} m" and "\<And>e m'. in_hand {} m' \<Longrightarrow> Q (Inl e) m'"
    and "\<And>p m'. in_hand {} (register (ReapServer p) m') \<Longrightarrow> sp_pid p \<in> running m' \<Longrightarrow> Q (Inr p) m'"
  shows "wp (startProc os cmd name dir) Q m"
proof -
  have "wp (startProc os cmd name dir) (\<lambda>r m'. case r of Inl e \<Rightarrow> in_hand {} m'
      | Inr p \<Rightarrow> in_hand {} (register (ReapServer p) m') \<and> sp_pid p \<in> running m') m"
    using assms(1) unfolding startProc_def
    by (auto simp: wp_simps in_hand_def register_def split: sum.splits prod.splits)
  then show ?thesis by (rule wp_mono) (auto split: sum.splits intro: assms(2,3))
qed

lemma in_hand_stop: "in_hand {} m \<Longrightarrow> in_hand {} (stop p m)"
  by (auto simp: in_hand_def)

lemma wp_startTLSServer:
  assumes "worlds_sane pw" "in_hand {} m"
  shows "wp (startTLSServer os pw f bin name addr dir args) (\<lambda>r m'. in_hand {} m' \<and> judged pw r m') m"
  unfolding startTLSServer_def Let_def wp_handling
proof (rule wp_startProc[OF assms(2)], goal_cases)
  case (1 e m')
  then show ?case by (simp add: wp_fail judged_def)
next
  case (2 p m1)
  show ?case
    unfolding sum.case wp_and_then
  proof (simp add: wp_change, rule wp_await_start[OF assms(1)], goal_cases)
    case (1 b w)
    let ?m = "register (ReapServer p) m1\<lparr>world := w\<rparr>"
    have "in_hand {} ?m" "sp_pid p \<in> running ?m" using 2 by (simp_all add: register_def)
    then show ?case
      by (auto simp: wp_simps judged_def in_hand_stop wp_def ok_def fail_def and_then_def change_def reading_def)
  qed
qed

lemma wp_makeDir_in_hand:
  assumes "in_hand {} m" and "\<And>e m'. in_hand {} m' \<Longrightarrow> Q (Inl e) m'"
    and "\<And>dir m'. in_hand {} (register (RemoveDir dir) m') \<Longrightarrow> Q (Inr dir) m'"
  shows "wp (makeDir os pattern) Q m"
proof -
  have "wp (makeDir os pattern) (\<lambda>r m'. case r of Inl e \<Rightarrow> in_hand {} m'
      | Inr dir \<Rightarrow> in_hand {} (register (RemoveDir dir) m')) m"
    using assms(1) unfolding makeDir_def
    by (auto simp: wp_simps in_hand_def register_def split: sum.splits prod.splits)
  then show ?thesis by (rule wp_mono) (auto split: sum.splits intro: assms(2,3))
qed

lemma wp_tlsPortAndDir:
  assumes "in_hand {} m" and "\<And>r m'. in_hand {} m' \<Longrightarrow> Q r m'"
  shows "wp (tlsPortAndDir os pattern) Q m"
  unfolding tlsPortAndDir_def wp_handling
  by (rule wp_freePort)
    (auto simp: assms wp_simps split: sum.split intro!: wp_makeDir_in_hand)

lemma wp_started:
  assumes "worlds_sane pw" "in_hand {} m"
  shows "wp (StartTLSMongod os pw f opts) (\<lambda>r m'. in_hand {} m' \<and> judged pw r m') m"
    "wp (StartTLSDumboDB os pw f opts) (\<lambda>r m'. in_hand {} m' \<and> judged pw r m') m"
  unfolding StartTLSMongod_def StartTLSDumboDB_def Let_def
  by (auto simp: wp_fail wp_and_then judged_def[of _ "Inl _"] assms(2) split: sum.split
      intro!: wp_tlsPortAndDir[OF assms(2)] wp_startTLSServer[OF assms(1)])


text \<open>A process that rejects its configuration at once: it never listens, and has exited by the first
  look.\<close>

definition silent :: wait where
  "silent = \<lparr>wt_start = 0, wt_clock = (\<lambda>i. int i * 200000000), wt_answer = (\<lambda>i. Some (ErrText ''refused''))\<rparr>"

definition rejecting :: "nat process_world" where
  "rejecting = \<lparr>pw_startup = (\<lambda>pid addr w. (\<lparr>st_start = 0, st_clock = (\<lambda>i. int i * 200000000),
       st_dials = (\<lambda>i. silent), st_exited = (\<lambda>i. True), st_again = (\<lambda>i. silent)\<rparr>, w)),
     pw_readLog = (\<lambda>path w. ''Error: bad certificate'')\<rparr>"

definition default_options :: TLSOptions where
  "default_options = \<lparr>to_CertificateKeyFile = [], to_CAFile = [], to_AllowConnectionsWithoutCertificates = False,
     to_CRLFile = [], to_DisabledProtocols = [], to_NoCAFile = False, to_ExtraArgs = [], to_Mode = [],
     to_KeyPassword = [], to_Auth = False\<rparr>"

lemma rejecting_sane: "worlds_sane rejecting"
  by (auto simp: worlds_sane_def rejecting_def startup_sane_def silent_def intro: exI[of _ 200000000])


text \<open>Restarting keeps the address, the directory and the command line.\<close>

lemma startTLSServer_same:
  assumes "startTLSServer os pw f bin name addr dir args m = Some (Inr s, m')"
  shows "ts_Addr s = addr \<and> ts_dir s = dir \<and> ts_args s = args \<and> ts_bin s = bin \<and> ts_name s = name \<and>
    ts_fixture s = f"
  using assms unfolding startTLSServer_def
  by (auto simp: handling_def and_then_def change_def ok_def fail_def reading_def Let_def
      split: option.splits sum.splits prod.splits if_splits)

lemma Restart_same:
  "Restart os pw s m = Some (Inr s', m') \<Longrightarrow>
    ts_Addr s' = ts_Addr s \<and> ts_dir s' = ts_dir s \<and> ts_args s' = ts_args s \<and> ts_bin s' = ts_bin s"
  by (auto simp: Restart_def and_then_def change_def dest!: startTLSServer_same)

section \<open>Accepted connections\<close>

text \<open>A version counts as negotiated without an error exactly when the handshake and the write
  succeeded and the read answered or timed out: a peer that closes has refused.\<close>

lemma connect_version_accepted:
  assumes "rd = dial lo hi"
  shows "connect_version s dial lo hi = Negotiated v None \<longleftrightarrow>
    \<not> ts_StartFailed s \<and> rd_readCA rd = None \<and> rd_loadPair rd = None \<and>
    rd_dial rd = Inr v \<and> rd_write rd = None \<and> (\<forall>e. rd_read rd = Some e \<longrightarrow> snd e = Some True)"
  unfolding connect_version_def assms[symmetric]
  by (auto simp: Let_def isBenignReadError_def split: option.splits sum.splits)

lemma connect_tls_accepted:
  "connect_tls d s loading certFile keyFile cred = Connected q \<Longrightarrow>
    \<not> ts_StartFailed s \<and> dl_connect d q = None \<and> dl_ping d q = None \<and> cn_Auth q = cred \<and>
    cn_TLS q = Some (if certFile = [] then None else Some (certFile, keyFile))"
  by (auto simp: connect_tls_def pinged_def never_started_def split: if_splits option.splits)

section \<open>The flags mongod advertises\<close>

lemma is_alnum_dash: "\<not> is_alnum (CHR ''-'')"
  by (simp add: is_alnum_def is_digit_def)

definition flag_at :: "string \<Rightarrow> nat \<Rightarrow> bool" where
  "flag_at s i \<longleftrightarrow> HasPrefix (drop i s) ''--tls''"

definition flag_text :: "string \<Rightarrow> nat \<Rightarrow> string" where
  "flag_text s i = ''--tls'' @ takeWhile is_alnum (drop (i + 5) s)"

lemma flag_at_first: "flag_at s i \<Longrightarrow> \<exists>t. drop i s = CHR ''-'' # t"
  unfolding flag_at_def HasPrefix_split by auto

lemma nth_flag_at: "flag_at s i \<Longrightarrow> i < length s \<and> s ! i = CHR ''-''"
  using flag_at_first[of s i] by (metis hd_drop_conv_nth drop_eq_Nil2 leI list.distinct(1) list.sel(1))

lemma no_flag_inside:
  assumes "flag_at s 0" "0 < i" "i < 5 + length (takeWhile is_alnum (drop 5 s))"
  shows "\<not> flag_at s i"
proof
  assume at: "flag_at s i"
  obtain t where s: "s = ''--tls'' @ t" using assms(1) by (auto simp: flag_at_def HasPrefix_split)
  show False
  proof (cases "i < 5")
    case True
    then consider "i = 1" | "i = 2" | "i = 3" | "i = 4" using assms(2) by linarith
    then show False using at by cases (auto simp: flag_at_def HasPrefix_split s)
  next
    case False
    define j where "j = i - 5"
    have j: "i = 5 + j" "j < length (takeWhile is_alnum t)" using False assms(3) s by (auto simp: j_def)
    then have "is_alnum (t ! j)"
      by (metis nth_mem set_takeWhileD takeWhile_nth)
    moreover have "t ! j = CHR ''-''"
      using nth_flag_at[OF at] j s by (simp add: nth_append)
    ultimately show False using is_alnum_dash by simp
  qed
qed

lemma flag_shift: "flag_at (drop k s) i \<longleftrightarrow> flag_at s (i + k)" "flag_text (drop k s) i = flag_text s (i + k)"
  by (simp_all add: flag_at_def flag_text_def ac_simps)

lemma tls_matches_all: "set (tls_matches s) = {flag_text s i | i. flag_at s i}"
proof (induction s rule: tls_matches.induct)
  case (1 s)
  show ?case
  proof (cases "flag_at s 0")
    case True
    define k where "k = 5 + length (takeWhile is_alnum (drop 5 s))"
    have ne: "s \<noteq> []" using nth_flag_at[OF True] by auto
    have rest: "dropWhile is_alnum (drop 5 s) = drop k s"
      by (simp add: k_def dropWhile_eq_drop ac_simps)
    have head: "tls_matches s = flag_text s 0 # tls_matches (drop k s)"
      using True ne rest by (subst tls_matches.simps) (simp add: flag_at_def flag_text_def)
    have IH: "set (tls_matches (drop k s)) = {flag_text s (i + k) | i. flag_at s (i + k)}"
      using "1.IH"(1)[OF ne] True rest by (simp add: flag_at_def flag_shift[symmetric])
    have later: "flag_at s i \<Longrightarrow> i = 0 \<or> (\<exists>j. i = j + k)" for i
      using no_flag_inside[OF True, of i] True unfolding k_def[symmetric]
      by (metis gr0I le_add_diff_inverse2 not_less)
    show ?thesis
      unfolding head using True by (auto simp: IH) (metis later)
  next
    case False
    show ?thesis
    proof (cases "s = []")
      case True
      then show ?thesis by (subst tls_matches.simps) (auto simp: flag_at_def HasPrefix_def)
    next
      case ne: False
      have drop1: "tl s = drop 1 s" by (simp add: drop_Suc)
      have tail: "tls_matches s = tls_matches (drop 1 s)"
        using ne False by (subst tls_matches.simps) (simp add: flag_at_def drop_Suc)
      have IH: "set (tls_matches (drop 1 s)) = {flag_text s (i + 1) | i. flag_at s (i + 1)}"
        using "1.IH"(2)[OF ne] False unfolding drop1 flag_shift[of 1] by (simp add: flag_at_def)
      have later: "flag_at s i \<Longrightarrow> \<exists>j. i = j + 1" for i using False by (cases i) auto
      show ?thesis unfolding tail IH by (auto; metis later Suc_eq_plus1)
    qed
  qed
qed

lemma collect_flags_set:
  "distinct flags \<Longrightarrow>
    distinct (fold (\<lambda>x fs. let name = TrimPrefix x ''--'' in if name \<in> set fs then fs else fs @ [name]) xs flags) \<and>
    set (fold (\<lambda>x fs. let name = TrimPrefix x ''--'' in if name \<in> set fs then fs else fs @ [name]) xs flags) =
      set flags \<union> (\<lambda>x. TrimPrefix x ''--'') ` set xs"
  by (induction xs arbitrary: flags) (auto simp: Let_def)

text \<open>The flags the lab reports are exactly the TLS options that occur anywhere in mongod's help
  text, each once and in order; with none it is an error, so that a broken parse never passes for a
  complete list.\<close>

theorem MongodTLSFlags_complete:
  "MongodTLSFlags (x # bin) (Inr out) =
     (if \<exists>i. flag_at out i
      then Inr (sorted_list_of_set {drop 2 (flag_text out i) | i. flag_at out i})
      else Inl (ErrText (''mongod --help listed no TLS options, so this cannot tell a complete list '' @
             ''from a broken parse'')))"
proof -
  have trim: "TrimPrefix (flag_text out i) ''--'' = drop 2 (flag_text out i)" for i
    by (simp add: TrimPrefix_def flag_text_def HasPrefix_def)
  have flags: "set (collect_flags (tls_matches out)) = {drop 2 (flag_text out i) | i. flag_at out i}"
    and dist: "distinct (collect_flags (tls_matches out))"
    using collect_flags_set[of "[]" "tls_matches out"]
    by (simp_all add: collect_flags_def tls_matches_all setcompr_eq_image image_image trim)
  have "sort (collect_flags (tls_matches out)) = sorted_list_of_set (set (collect_flags (tls_matches out)))"
    using dist by (simp add: sorted_list_of_set_sort_remdups distinct_remdups_id)
  moreover have "collect_flags (tls_matches out) = [] \<longleftrightarrow> \<not> (\<exists>i. flag_at out i)"
    unfolding set_empty[symmetric] flags by blast
  ultimately show ?thesis by (auto simp: MongodTLSFlags_def flags Let_def)
qed

end
