(* ===== verification/ReplicaLab.thy ===== *)
theory ReplicaLab
  imports TlsLab ReplicaWaits
begin

text \<open>
  Replica sets the harness starts itself (src/harness/replicaset.go, replicasettls.go) and the
  DumboDB member it adds to them (src/harness/dumbomember.go): the command lines, keyfile and
  credentials, starting the members one by one, initiating, and the life of the added member. The
  set is threaded with the machine it runs on; a test's \<open>t.Fatalf\<close> is an error with its text. What
  the servers answer is an argument.
\<close>

section \<open>Options, flags and credentials\<close>

record ReplicaSetOptions =
  ro_TLS :: "TLSFixture option"
  ro_KeyFile :: string

definition replica_memberArgs :: "ReplicaSetOptions \<Rightarrow> string list" where
  "replica_memberArgs opts =
     (case ro_TLS opts of None \<Rightarrow> []
      | Some f \<Rightarrow> [''--tlsMode'', ''requireTLS'', ''--tlsCertificateKeyFile'', fx_ServerPEMFile f,
                  ''--tlsCAFile'', fx_CAFile f]) @
     (if ro_KeyFile opts \<noteq> [] then [''--keyFile'', ro_KeyFile opts] else [])"

record DumboMemberOptions =
  do_TLS :: "TLSFixture option"
  do_KeyFile :: string

definition dumbo_memberArgs :: "DumboMemberOptions \<Rightarrow> string list" where
  "dumbo_memberArgs opts =
     (case do_TLS opts of None \<Rightarrow> []
      | Some f \<Rightarrow> [''--tlsMode'', ''requireTLS'', ''--tlsCertificateKeyFile'', fx_ServerPEMFile f,
                  ''--tlsCAFile'', fx_CAFile f,
                  ''--tlsClusterFile'', fx_ServerPEMFile f, ''--tlsClusterCAFile'', fx_CAFile f]) @
     (if do_KeyFile opts \<noteq> [] then [''--keyFile'', do_KeyFile opts] else [])"

definition MatchingDumboOptions :: "ReplicaSetOptions \<Rightarrow> DumboMemberOptions" where
  "MatchingDumboOptions opts = \<lparr>do_TLS = ro_TLS opts, do_KeyFile = ro_KeyFile opts\<rparr>"

definition rootUser :: string where "rootUser = ''root''"
definition rootPassword :: string where "rootPassword = ''root''"

text \<open>\<open>base64.StdEncoding.EncodeToString\<close>.\<close>

definition base64_digit :: "nat \<Rightarrow> char" where
  "base64_digit n =
     (''ABCDEFGHIJKLMNOPQRSTUVWXYZabcdefghijklmnopqrstuvwxyz0123456789+/'') ! (n mod 64)"

fun base64 :: "byte list \<Rightarrow> string" where
  "base64 [] = []"
| "base64 [a] = (let n = unat a * 65536
     in [base64_digit (n div 262144), base64_digit (n div 4096), CHR ''='', CHR ''=''])"
| "base64 [a, b] = (let n = unat a * 65536 + unat b * 256
     in [base64_digit (n div 262144), base64_digit (n div 4096), base64_digit (n div 64), CHR ''=''])"
| "base64 (a # b # c # bs) = (let n = unat a * 65536 + unat b * 256 + unat c
     in base64_digit (n div 262144) # base64_digit (n div 4096) # base64_digit (n div 64) #
        base64_digit n # base64 bs)"

text \<open>\<open>NewKeyFile\<close>: the path and the text written there with mode 0600.\<close>

definition NewKeyFile :: "string \<Rightarrow> goerror + byte list \<Rightarrow> (string \<Rightarrow> string \<Rightarrow> goerror option) \<Rightarrow>
    goerror + string \<times> string" where
  "NewKeyFile dir random write_file =
     (case random of Inl e \<Rightarrow> Inl (ErrText (''NewKeyFile: '' @ error_text e))
      | Inr secret \<Rightarrow>
         let path = Join dir ''keyfile'' in
         (case write_file path (base64 secret) of
            Some e \<Rightarrow> Inl (ErrText (''NewKeyFile: '' @ error_text e))
          | None \<Rightarrow> Inr (path, base64 secret)))"

text \<open>The client side of a connection: verify against the fixture's CA and present its client
  certificate.\<close>

record pki =
  pk_readCA :: "string \<Rightarrow> goerror option"
  pk_hasCertificate :: "string \<Rightarrow> bool"
  pk_loadPair :: "string \<Rightarrow> string \<Rightarrow> goerror option"

definition clientTLSConfig :: "pki \<Rightarrow> TLSFixture \<Rightarrow> goerror + string \<times> string" where
  "clientTLSConfig pk f =
     (case pk_readCA pk (fx_CAFile f) of Some e \<Rightarrow> Inl (ErrWrap ''reading CA: '' e)
      | None \<Rightarrow>
         if \<not> pk_hasCertificate pk (fx_CAFile f)
         then Inl (ErrText (''CA '' @ fx_CAFile f @ '' held no certificate''))
         else case pk_loadPair pk (fx_ClientCertFile f) (fx_ClientKeyFile f) of
           Some e \<Rightarrow> Inl (ErrWrap ''loading client certificate: '' e)
         | None \<Rightarrow> Inr (fx_ClientCertFile f, fx_ClientKeyFile f))"

definition clientOptions :: "pki \<Rightarrow> TLSFixture option \<Rightarrow> Credential option \<Rightarrow> string \<Rightarrow> goerror + conn_request" where
  "clientOptions pk tls cred uri =
     (case tls of
        None \<Rightarrow> Inr \<lparr>cn_URI = uri, cn_TLS = None, cn_Auth = cred\<rparr>
      | Some f \<Rightarrow> map_sum id (\<lambda>pair. \<lparr>cn_URI = uri, cn_TLS = Some (Some pair), cn_Auth = cred\<rparr>)
                    (clientTLSConfig pk f))"

definition member_dial :: "pki \<Rightarrow> (conn_request \<Rightarrow> goerror option) \<Rightarrow> TLSFixture option \<Rightarrow> Credential option \<Rightarrow>
    string \<Rightarrow> goerror + conn_request" where
  "member_dial pk connect tls cred addr =
     (case clientOptions pk tls cred (''mongodb://'' @ addr @ ''/?directConnection=true'') of
        Inl e \<Rightarrow> Inl e
      | Inr q \<Rightarrow> (case connect q of
          Some e \<Rightarrow> Inl (ErrWrap (''connect '' @ addr @ '': '') e) | None \<Rightarrow> Inr q))"

section \<open>The lab\<close>

record DumboMember =
  dm_Member :: Member
  dm_DataDir :: string
  dm_bin :: string
  dm_proc :: "serverProc option"
  dm_opts :: DumboMemberOptions

record 'w replica_lab =
  rl_machine :: "'w machine"
  rl_set :: ReplicaSet
  rl_procs :: "string \<Rightarrow> serverProc option"    \<comment> \<open>the process of a member, by address\<close>
  rl_external :: bool
  rl_opts :: ReplicaSetOptions
  rl_cred :: "Credential option"
  rl_dumbo :: "DumboMember option"

definition on_machine :: "('w machine, 'a) act \<Rightarrow> ('w replica_lab, 'a) act" where
  "on_machine c m =
     (case c (rl_machine m) of None \<Rightarrow> None | Some (r, mm) \<Rightarrow> Some (r, m\<lparr>rl_machine := mm\<rparr>))"

text \<open>The readiness poll of one member, which asks ping without credentials.\<close>

definition waitReady :: "wait \<Rightarrow> string \<Rightarrow> duration \<Rightarrow> goerror option option" where
  "waitReady wt addr timeout =
     map_option (\<lambda>q. case q of Inl u \<Rightarrow> None
       | Inr prev \<Rightarrow> Some (wrap_last (''no response to ping on '' @ addr @ '' within '' @
                             Duration_String timeout @ '': '') prev))
       (poll (wt_clock wt) (wt_start wt + timeout) (ping_pass wt) 0 None)"

definition await_ready :: "(string \<Rightarrow> 'w \<Rightarrow> wait \<times> 'w) \<Rightarrow> string \<Rightarrow> duration \<Rightarrow> ('w machine, goerror option) act" where
  "await_ready pings addr timeout m =
     (case pings addr (world m) of
        (wt, w) \<Rightarrow> map_option (\<lambda>e. (Inr e, m\<lparr>world := w\<rparr>)) (waitReady wt addr timeout))"

section \<open>Starting the set\<close>

definition spawn_args :: "string \<Rightarrow> ReplicaSetOptions \<Rightarrow> int \<Rightarrow> string \<Rightarrow> string list" where
  "spawn_args name opts port dir =
     [''--replSet'', name, ''--port'', itoa port, ''--dbpath'', dir, ''--bind_ip'', ''127.0.0.1'',
      ''--nounixsocket'', ''--wiredTigerCacheSizeGB'', ''0.25''] @ replica_memberArgs opts"

definition spawnMongod ::
    "'w os \<Rightarrow> (string \<Rightarrow> 'w \<Rightarrow> wait \<times> 'w) \<Rightarrow> string \<Rightarrow> ReplicaSetOptions \<Rightarrow> string \<Rightarrow> int \<Rightarrow>
     ('w machine, Member \<times> serverProc) act" where
  "spawnMongod os pings name opts bin ident =
     and_then (freePort os) (\<lambda>port.
     let label = ''mongod-'' @ name @ ''-'' @ itoa ident; addr = ''127.0.0.1:'' @ itoa port in
     and_then (makeDir os (label @ ''-'')) (\<lambda>dir.
     handling (startProc os (bin # spawn_args name opts port dir) label dir) (\<lambda>r. case r of
       Inl e \<Rightarrow> and_then (change (removeDir dir)) (\<lambda>_. fail e)
     | Inr p \<Rightarrow>
       and_then (listening os addr 40000000000) (\<lambda>up.
       and_then (require up (ErrText (''mongod '' @ name @ '' did not listen on '' @ addr @
                   '' (log '' @ sp_log p @ '')''))) (\<lambda>_.
       and_then (await_ready pings addr 60000000000) (\<lambda>e. case e of
         Some err \<Rightarrow> fail (ErrWrap (''mongod '' @ name @ '' on '' @ addr @ '' never became ready (log '' @
                      sp_log p @ ''): '') err)
       | None \<Rightarrow> ok (\<lparr>mb_ID = ident, mb_Addr = addr, mb_URI = ''mongodb://'' @ addr, mb_running = True\<rparr>, p)))))))"

definition append_member :: "Member \<times> serverProc \<Rightarrow> 'w replica_lab \<Rightarrow> 'w replica_lab" where
  "append_member mp m =
     m\<lparr>rl_set := (rl_set m)\<lparr>rset_Members := rset_Members (rl_set m) @ [fst mp]\<rparr>,
       rl_procs := (rl_procs m)(mb_Addr (fst mp) := Some (snd mp))\<rparr>"

fun spawn_members where
  "spawn_members os pings name opts bin prefix [] = ok ()"
| "spawn_members os pings name opts bin prefix (i # is) =
     handling (on_machine (spawnMongod os pings name opts bin (int i))) (\<lambda>r. case r of
       Inl e \<Rightarrow> fail (ErrText (prefix @ '': member '' @ itoa (int i) @ '': '' @ error_text e))
     | Inr mp \<Rightarrow> and_then (change (append_member mp)) (\<lambda>_. spawn_members os pings name opts bin prefix is))"

text \<open>The cleanup of the test: \<open>rs.stop\<close>.\<close>

definition rs_stop :: "'w replica_lab \<Rightarrow> 'w replica_lab" where
  "rs_stop m =
     m\<lparr>rl_set := closePool (rl_set m),
       rl_machine := fold stop (List.map_filter (\<lambda>mb. rl_procs m (mb_Addr mb)) (rset_Members (rl_set m)))
         (rl_machine m)\<rparr>"

definition bootstrap_command :: doc where
  "bootstrap_command = [(''createUser'', BString rootUser), (''pwd'', BString rootPassword),
     (''roles'', BArr [BString ''root''])]"

text \<open>\<open>bootstrapRoot\<close>: nothing without a keyfile; otherwise the first user, after which every dial
  carries its credentials.\<close>

definition bootstrapRoot ::
    "world \<Rightarrow> (string \<Rightarrow> goerror option) \<Rightarrow> (doc \<Rightarrow> goerror option) \<Rightarrow> ('w replica_lab, unit) act" where
  "bootstrapRoot w dial run m =
     (if ro_KeyFile (rl_opts m) = [] then Some (Inr (), m)
      else case Primary (rl_set m) w of
        Inl e \<Rightarrow> Some (Inl e, m)
      | Inr primary \<Rightarrow> (case rs_client dial (mb_Addr primary) (rl_set m) of
          (Some e, rs) \<Rightarrow> Some (Inl e, m\<lparr>rl_set := rs\<rparr>)
        | (None, rs) \<Rightarrow> (case run bootstrap_command of
            Some e \<Rightarrow> Some (Inl (ErrWrap (''creating the bootstrap user on '' @ mb_Addr primary @ '': '') e),
                           m\<lparr>rl_set := rs\<rparr>)
          | None \<Rightarrow> Some (Inr (), m\<lparr>rl_set := closePool rs,
                             rl_cred := Some (scram_credential rootUser rootPassword)\<rparr>))))"

text \<open>What initiating meets, in order: dialling the first member, the command, the polls for a
  primary, the bootstrap, the polls for a steady state.\<close>

record initiation =
  in_dial :: "string \<Rightarrow> goerror option"
  in_run :: "doc \<Rightarrow> goerror option"
  in_primaryStart :: int
  in_primaryWorlds :: "nat \<Rightarrow> world"
  in_primaryClock :: "nat \<Rightarrow> int"
  in_world :: world
  in_steadyStart :: int
  in_steadyWorlds :: "nat \<Rightarrow> world"
  in_steadyClock :: "nat \<Rightarrow> int"

definition replSetInitiate :: "ReplicaSet \<Rightarrow> doc" where
  "replSetInitiate rs =
     [(''replSetInitiate'', BDoc [(''_id'', BString (rset_Name rs)),
        (''members'', BArr (map (\<lambda>m. BDoc [(''_id'', BInt32 (mb_ID m)), (''host'', BString (mb_Addr m))])
           (rset_Members rs)))])]"

definition initiate :: "initiation \<Rightarrow> ('w replica_lab, unit) act" where
  "initiate q m =
     (let rs = rl_set m in
      case in_dial q (mb_Addr (hd (rset_Members rs))) of
        Some e \<Rightarrow> Some (Inl e, m)
      | None \<Rightarrow>
         let carry = Option.bind
               (WaitForPrimary Duration_String rs (in_primaryWorlds q) (in_primaryClock q)
                  (in_primaryStart q) 60000000000)
               (\<lambda>r. case r of Inl e \<Rightarrow> Some (Inl e, m)
                 | Inr p \<Rightarrow> and_then (bootstrapRoot (in_world q) (in_dial q) (in_run q)) (\<lambda>_ m'.
                     map_option (\<lambda>r. (r, m'))
                       (WaitForSteadyState Duration_String (rl_set m') (in_steadyWorlds q) (in_steadyClock q)
                          (in_steadyStart q) 90000000000)) m)
         in case in_run q (replSetInitiate rs) of
              None \<Rightarrow> carry
            | Some e \<Rightarrow> if contains (error_text e) ''already initialized'' then carry
                        else Some (Inl (ErrWrap (''replSetInitiate '' @ rset_Name rs @ '': '') e), m))"

definition start_set ::
    "'w os \<Rightarrow> (string \<Rightarrow> 'w \<Rightarrow> wait \<times> 'w) \<Rightarrow> initiation \<Rightarrow> string \<Rightarrow> string \<Rightarrow> nat \<Rightarrow> ('w replica_lab, unit) act" where
  "start_set os pings q caller bin n =
     reading (\<lambda>m. (rset_Name (rl_set m), rl_opts m)) (\<lambda>(name, opts).
      and_then (spawn_members os pings name opts bin caller [0..<n]) (\<lambda>_.
      handling (initiate q) (\<lambda>r. case r of
        Inl e \<Rightarrow> fail (ErrText (caller @ '': '' @ error_text e)) | Inr u \<Rightarrow> ok ())))"

text \<open>\<open>StartReplicaSetWith\<close>; \<open>nano\<close> is the clock its name comes from.\<close>

definition new_set :: "int \<Rightarrow> ReplicaSetOptions \<Rightarrow> 'w machine \<Rightarrow> 'w replica_lab" where
  "new_set nano opts mm =
     \<lparr>rl_machine = mm, rl_set = \<lparr>rset_Name = ''repl'' @ itoa (nano mod 100000), rset_Members = [], rset_pool = []\<rparr>,
      rl_procs = (\<lambda>addr. None), rl_external = False, rl_opts = opts, rl_cred = None, rl_dumbo = None\<rparr>"

definition StartReplicaSetWith ::
    "'w os \<Rightarrow> (string \<Rightarrow> 'w \<Rightarrow> wait \<times> 'w) \<Rightarrow> initiation \<Rightarrow> int \<Rightarrow> int \<Rightarrow> ('w replica_lab, unit) act" where
  "StartReplicaSetWith os pings q nano n m =
     (if n < 1 then Some (Inl (ErrText (''StartReplicaSetWith: need at least 1 member, got '' @ itoa n)), m)
      else if findMongodBin os = []
      then Some (Inl (ErrText ''mongod binary not found (set MONGOD_BIN)''), m)
      else start_set os pings q ''StartReplicaSetWith'' (findMongodBin os) (nat n)
             (new_set nano (rl_opts m) (rl_machine m)))"

text \<open>\<open>StartReplicaSet\<close>, when no set is supplied by the environment.\<close>

definition StartReplicaSet ::
    "'w os \<Rightarrow> (string \<Rightarrow> 'w \<Rightarrow> wait \<times> 'w) \<Rightarrow> initiation \<Rightarrow> int \<Rightarrow> int \<Rightarrow> ('w replica_lab, unit) act" where
  "StartReplicaSet os pings q nano n m =
     (if n < 1 then Some (Inl (ErrText (''StartReplicaSet: need at least 1 member, got '' @ itoa n)), m)
      else if findMongodBin os = []
      then Some (Inl (ErrText ''mongod binary not found (set MONGOD_BIN or MONGO_REPL_SET_URI)''), m)
      else start_set os pings q ''StartReplicaSet'' (findMongodBin os) (nat n)
             (new_set nano \<lparr>ro_TLS = None, ro_KeyFile = []\<rparr> (rl_machine m)))"

end
