(* ===== verification/DumboMember.thy ===== *)
theory DumboMember
  imports ReplicaLab
begin

text \<open>
  The DumboDB member of src/harness/dumbomember.go: its life (join, stop, kill, start, restart,
  teardown) as actions on the lab, and the configuration of the set it is added to and removed from.
  Integers of the configuration are read back as the int32 the driver sends.
\<close>

section \<open>The configuration\<close>

definition nextMemberID :: "Member list \<Rightarrow> int" where
  "nextMemberID members = fold (\<lambda>m highest. if highest < mb_ID m then mb_ID m else highest) members (-1) + 1"

definition host_of :: "goval \<Rightarrow> string option" where
  "host_of v = map_option (\<lambda>d. asString (key d ''host'')) (as_document v)"

definition hidden_entry :: "Member \<Rightarrow> goval" where
  "hidden_entry m = VMap [(''_id'', VInt32 (mb_ID m)), (''host'', VString (mb_Addr m)),
     (''hidden'', VBool True), (''priority'', VInt32 0), (''votes'', VInt32 0)]"

definition add_hidden :: "Member \<Rightarrow> (string \<times> goval) list \<Rightarrow> goerror + (string \<times> goval) list" where
  "add_hidden m cfg =
     (let members = asArray (key cfg ''members'') in
      if list_ex (\<lambda>v. host_of v = Some (mb_Addr m)) members
      then Inl (ErrText (''member '' @ mb_Addr m @ '' is already configured''))
      else Inr (AList.update ''members'' (VArr (members @ [hidden_entry m])) cfg))"

definition without_host :: "string \<Rightarrow> (string \<times> goval) list \<Rightarrow> goerror + (string \<times> goval) list" where
  "without_host addr cfg =
     Inr (AList.update ''members''
            (VArr (filter (\<lambda>v. host_of v \<noteq> Some addr) (asArray (key cfg ''members'')))) cfg)"

text \<open>The exchange of one reconfiguration: the worlds it finds its primary in, the reply to
  replSetGetConfig, and the server's answer to what it sends.\<close>

record exchange =
  xc_before :: world
  xc_reply :: "goerror + (string \<times> goval) list"
  xc_after :: world
  xc_sent :: "(string \<times> goval) list \<Rightarrow> goerror option"

definition reconfigure where
  "reconfigure wild fmt rs x mutate =
     Reconfig wild rs (xc_before x) (xc_reply x) fmt mutate (xc_after x) (xc_sent x)"

definition addHiddenMember where
  "addHiddenMember wild fmt rs x m =
     (case snd (reconfigure wild fmt rs x (add_hidden m)) of
        Some e \<Rightarrow> Some (ErrWrap (''adding '' @ mb_Addr m @ '' as a hidden non-voting member: '') e)
      | None \<Rightarrow> None)"

fun remove_first :: "string \<Rightarrow> Member list \<Rightarrow> Member list" where
  "remove_first addr [] = []"
| "remove_first addr (m # ms) = (if mb_Addr m = addr then ms else m # remove_first addr ms)"

definition removeMember where
  "removeMember wild fmt rs x addr =
     (case snd (reconfigure wild fmt rs x (without_host addr)) of
        Some e \<Rightarrow> (Some e, rs)
      | None \<Rightarrow> (None, rs\<lparr>rset_Members := remove_first addr (rset_Members rs)\<rparr>))"

definition AddMember where
  "AddMember wild fmt rs x m =
     (case addHiddenMember wild fmt rs x m of
        Some e \<Rightarrow> (Some e, rs)
      | None \<Rightarrow> (None, rs\<lparr>rset_Members := rset_Members rs @ [m]\<rparr>))"

text \<open>\<open>AssertHiddenNonVoting\<close>: the texts of its \<open>t.Errorf\<close>, or that of its \<open>t.Fatalf\<close>; \<open>shown\<close>
  prints a value.\<close>

definition AssertHiddenNonVoting where
  "AssertHiddenNonVoting wild shown name addr config =
     (case config of
        Inl e \<Rightarrow> Inl (ErrText (''AssertHiddenNonVoting: '' @ error_text e))
      | Inr cfg \<Rightarrow>
         (case find (\<lambda>d. asString (key d ''host'') = addr)
                 (List.map_filter as_document (asArray (key cfg ''members''))) of
            None \<Rightarrow> Inl (ErrText (''member '' @ addr @ '' is not in the configuration of '' @ name))
          | Some m \<Rightarrow> Inr (
              (if key m ''hidden'' \<noteq> VBool True
               then [''member '' @ addr @ '': hidden is '' @ shown (key m ''hidden'') @ '', want true''] else []) @
              (let got = asInt64 wild (key m ''priority'') in
               if got \<noteq> 0 then [''member '' @ addr @ '': priority is '' @ itoa got @ '', want 0''] else []) @
              (let got = asInt64 wild (key m ''votes'') in
               if got \<noteq> 0 then [''member '' @ addr @ '': votes is '' @ itoa got @ '', want 0''] else []))))"

section \<open>The life of the member\<close>

definition with_dumbo :: "DumboMember \<Rightarrow> 'w replica_lab \<Rightarrow> 'w replica_lab" where
  "with_dumbo d m = m\<lparr>rl_dumbo := Some d\<rparr>"

definition launch_args :: "string \<Rightarrow> DumboMember \<Rightarrow> string list" where
  "launch_args name d =
     [''--replSet'', name, ''--addr'', mb_Addr (dm_Member d), ''--data-dir'', dm_DataDir d] @
     dumbo_memberArgs (dm_opts d)"

text \<open>The process is the member's as soon as it starts; its serverProc has no directory, which is
  the member's to remove.\<close>

definition launch ::
    "'w os \<Rightarrow> (string \<Rightarrow> 'w \<Rightarrow> wait \<times> 'w) \<Rightarrow> DumboMember \<Rightarrow> ('w replica_lab, unit) act" where
  "launch os pings d =
     (let addr = mb_Addr (dm_Member d) in
      reading (rset_Name \<circ> rl_set) (\<lambda>name.
      handling (on_machine (startProc os (dm_bin d # launch_args name d) ''dumbodb-member'' []))
        (\<lambda>r. case r of
          Inl e \<Rightarrow> fail (ErrText (''launch dumbodb: '' @ error_text e))
        | Inr p \<Rightarrow>
          and_then (change (with_dumbo (d\<lparr>dm_proc := Some p\<rparr>))) (\<lambda>_.
          and_then (on_machine (listening os addr 60000000000)) (\<lambda>up.
          and_then (require up (ErrText (''dumbodb did not listen on '' @ addr @ '' (log '' @ sp_log p @ '')''))) (\<lambda>_.
          and_then (on_machine (await_ready pings addr 60000000000)) (\<lambda>e. case e of
            None \<Rightarrow> ok ()
          | Some err \<Rightarrow> fail (ErrText (''dumbodb on '' @ addr @ '' never became ready (log '' @ sp_log p @
                          ''): '' @ error_text err)))))))))"

definition dumboMemberGrace :: duration where "dumboMemberGrace = 15000000000"

text \<open>A process that is gone: reaped, its log closed.\<close>

definition reap :: "serverProc \<Rightarrow> 'w machine \<Rightarrow> 'w machine" where
  "reap p mm = mm\<lparr>running := running mm - {sp_pid p}, openLogs := openLogs mm - {sp_log p}\<rparr>"

definition member_down :: "('w machine \<Rightarrow> 'w machine) \<Rightarrow> DumboMember \<Rightarrow> 'w replica_lab \<Rightarrow> 'w replica_lab" where
  "member_down f d m = with_dumbo (d\<lparr>dm_proc := None\<rparr>) (m\<lparr>rl_machine := f (rl_machine m)\<rparr>)"

definition Stop :: "bool \<Rightarrow> DumboMember \<Rightarrow> 'w replica_lab \<Rightarrow> proc_signal list \<times> 'w replica_lab" where
  "Stop exitsInTime d m =
     (case dm_proc d of None \<Rightarrow> ([], m)
      | Some p \<Rightarrow> (fst (shutdownGraceful exitsInTime p (rl_machine m)),
                   member_down (snd \<circ> shutdownGraceful exitsInTime p) d m))"

definition Kill :: "DumboMember \<Rightarrow> 'w replica_lab \<Rightarrow> 'w replica_lab" where
  "Kill d m = (case dm_proc d of None \<Rightarrow> m | Some p \<Rightarrow> member_down (reap p) d m)"

definition Start ::
    "'w os \<Rightarrow> (string \<Rightarrow> 'w \<Rightarrow> wait \<times> 'w) \<Rightarrow> DumboMember \<Rightarrow> ('w replica_lab, unit) act" where
  "Start os pings d =
     (if dm_proc d \<noteq> None then fail (ErrText ''DumboMember.Start: already running'') else launch os pings d)"

definition Restart_member ::
    "'w os \<Rightarrow> (string \<Rightarrow> 'w \<Rightarrow> wait \<times> 'w) \<Rightarrow> bool \<Rightarrow> DumboMember \<Rightarrow> ('w replica_lab, unit) act" where
  "Restart_member os pings exitsInTime d m =
     Start os pings (d\<lparr>dm_proc := None\<rparr>) (snd (Stop exitsInTime d m))"

definition ReadLog :: "(string \<Rightarrow> goerror + string) \<Rightarrow> DumboMember \<Rightarrow> goerror + string" where
  "ReadLog read_file d =
     (case dm_proc d of
        None \<Rightarrow> Inl (ErrText (''dumbodb member '' @ mb_Addr (dm_Member d) @ '' is not running''))
      | Some p \<Rightarrow> (case read_file (sp_log p) of
          Inl e \<Rightarrow> Inl (ErrWrap ''read dumbodb member log: '' e) | Inr s \<Rightarrow> Inr s))"

definition Commit :: "goerror option \<Rightarrow> goerror + (string \<times> goval) list \<Rightarrow> goerror + string" where
  "Commit dial buildInfo =
     (case dial of Some e \<Rightarrow> Inl e
      | None \<Rightarrow> (case buildInfo of
          Inl e \<Rightarrow> Inl (ErrWrap ''buildInfo: '' e) | Inr res \<Rightarrow> Inr (asString (key res ''gitVersion''))))"

text \<open>The teardown of the test: an adopted set is not left with a member that is going away.\<close>

definition dumbo_teardown where
  "dumbo_teardown wild fmt x m =
     (case rl_dumbo m of None \<Rightarrow> m
      | Some d \<Rightarrow>
         let m = (if rl_external m
                  then m\<lparr>rl_set := snd (removeMember wild fmt (rl_set m) x (mb_Addr (dm_Member d)))\<rparr> else m);
             m = Kill d m
         in if dm_DataDir d \<noteq> [] then m\<lparr>rl_machine := removeDir (dm_DataDir d) (rl_machine m)\<rparr> else m)"

definition fresh_member :: "'w os \<Rightarrow> ReplicaSet \<Rightarrow> DumboMemberOptions \<Rightarrow> int \<Rightarrow> string \<Rightarrow> DumboMember" where
  "fresh_member os rs opts port dir =
     (let addr = ''127.0.0.1:'' @ itoa port in
      \<lparr>dm_Member = \<lparr>mb_ID = nextMemberID (rset_Members rs), mb_Addr = addr,
                    mb_URI = ''mongodb://'' @ addr, mb_running = False\<rparr>,
       dm_DataDir = dir, dm_bin = findDumboDBBinary os, dm_proc = None, dm_opts = opts\<rparr>)"

definition join_member where
  "join_member wild fmt os pings x d =
     and_then (change (with_dumbo d)) (\<lambda>_.
     and_then (launch os pings d) (\<lambda>_.
     reading rl_set (\<lambda>rs.
       case addHiddenMember wild fmt rs x (dm_Member d) of
         Some e \<Rightarrow> fail (ErrText (''JoinDumboDB: '' @ error_text e))
       | None \<Rightarrow> change (\<lambda>m. m\<lparr>rl_set := rs\<lparr>rset_Members := rset_Members rs @ [dm_Member d]\<rparr>\<rparr>))))"

definition JoinDumboDBWith where
  "JoinDumboDBWith wild fmt os pings x opts =
     (if findDumboDBBinary os = [] then fail (ErrText ''dumbodb binary not found (set DUMBODB_BIN)'')
      else
        handling (on_machine (freePort os)) (\<lambda>r. case r of
          Inl e \<Rightarrow> fail (ErrText (''JoinDumboDB: '' @ error_text e))
        | Inr port \<Rightarrow>
        handling (on_machine (makeDir os ''dumbodb-member-'')) (\<lambda>r. case r of
          Inl e \<Rightarrow> fail (ErrText (''JoinDumboDB: '' @ error_text e))
        | Inr dir \<Rightarrow>
        reading rl_set (\<lambda>rs. join_member wild fmt os pings x (fresh_member os rs opts port dir)))))"

definition JoinDumboDB where
  "JoinDumboDB wild fmt os pings x =
     reading rl_opts (\<lambda>opts. JoinDumboDBWith wild fmt os pings x (MatchingDumboOptions opts))"

end
