(* ===== verification/DumboMemberFacts.thy ===== *)
theory DumboMemberFacts
  imports DumboMember TlsLabFacts
begin

text \<open>
  What joining a DumboDB member guarantees: its id is new, the configuration it is added to passes
  the harness's own assertion and loses nothing else, and its teardown leaves nothing open. Also
  what starting a set does not guarantee: a member that never listens is left running.
\<close>

section \<open>Keyfile\<close>

lemma length_base64: "length (base64 bs) = 4 * ((length bs + 2) div 3)"
proof (induction bs rule: base64.induct)
  case (4 a b c bs)
  have "(length (a # b # c # bs) + 2) div 3 = Suc ((length bs + 2) div 3)" by simp
  with 4 show ?case by (simp only: base64.simps Let_def) simp
qed (simp_all add: Let_def)

definition base64_chars :: "char set" where
  "base64_chars = set ''ABCDEFGHIJKLMNOPQRSTUVWXYZabcdefghijklmnopqrstuvwxyz0123456789+/=''"

lemma base64_digit_chars: "base64_digit n \<in> base64_chars"
proof -
  let ?t = "''ABCDEFGHIJKLMNOPQRSTUVWXYZabcdefghijklmnopqrstuvwxyz0123456789+/''"
  have "base64_digit n \<in> set ?t" unfolding base64_digit_def by (rule nth_mem) simp
  moreover have "set ?t \<subseteq> base64_chars" by (simp add: base64_chars_def)
  ultimately show ?thesis by blast
qed

lemma base64_alphabet: "set (base64 bs) \<subseteq> base64_chars"
proof (induction bs rule: base64.induct)
  have eq: "CHR ''='' \<in> base64_chars" by (simp add: base64_chars_def)
  { case 2 show ?case using eq base64_digit_chars by (simp add: Let_def) }
  { case 3 show ?case using eq base64_digit_chars by (simp add: Let_def) }
  { case 4 then show ?case using base64_digit_chars by (simp add: Let_def) }
qed simp

lemma NewKeyFile_accepted:
  assumes "NewKeyFile dir (Inr secret) write_file = Inr (path, body)" "length secret = 32"
  shows "6 \<le> length body \<and> length body \<le> 1024 \<and> set body \<subseteq> base64_chars"
  using assms length_base64[of secret] base64_alphabet[of secret]
  by (auto simp: NewKeyFile_def Let_def split: option.splits)

section \<open>Ids\<close>

lemma highest_id:
  "\<forall>x \<in> {h} \<union> mb_ID ` set ms. x \<le> fold (\<lambda>m highest. if highest < mb_ID m then mb_ID m else highest) ms h"
proof (induction ms arbitrary: h)
  case (Cons m ms)
  from Cons[of "if h < mb_ID m then mb_ID m else h"] show ?case by (auto split: if_splits)
qed simp

lemma nextMemberID_new: "0 \<le> nextMemberID ms \<and> (m \<in> set ms \<longrightarrow> mb_ID m < nextMemberID ms)"
  using highest_id[of "-1" ms] by (force simp: nextMemberID_def)

section \<open>Configuration\<close>

lemma key_update: "key (AList.update k v d) k' = (if k = k' then v else key d k')"
  by (simp add: key_def update_conv')

lemma host_of_hidden: "host_of (hidden_entry m) = Some (mb_Addr m)"
  by (simp add: host_of_def hidden_entry_def key_def)

lemma find_host_none:
  "\<not> list_ex (\<lambda>v. host_of v = Some addr) vs \<Longrightarrow>
    find (\<lambda>d. asString (key d ''host'') = addr) (List.map_filter as_document vs) = None"
  by (auto simp: find_None_iff list_ex_iff host_of_def List.map_filter_def)

lemma map_filter_append: "List.map_filter f (xs @ ys) = List.map_filter f xs @ List.map_filter f ys"
  by (simp add: List.map_filter_def)


definition small_config :: "(string \<times> goval) list" where
  "small_config = [(''version'', VInt32 3), (''members'', VArr [VMap [(''_id'', VInt32 0), (''host'', VString ''a:1'')]])]"

definition new_member :: Member where
  "new_member = \<lparr>mb_ID = 1, mb_Addr = ''b:2'', mb_URI = ''mongodb://b:2'', mb_running = False\<rparr>"


section \<open>Life of the member\<close>

definition pings_sane :: "(string \<Rightarrow> 'w \<Rightarrow> wait \<times> 'w) \<Rightarrow> bool" where
  "pings_sane pings \<longleftrightarrow> (\<forall>addr w. \<exists>d. sleeps d (wt_clock (fst (pings addr w))))"

lemma wp_on_machine:
  "wp (on_machine c) Q m \<longleftrightarrow> wp c (\<lambda>r mm. Q r (m\<lparr>rl_machine := mm\<rparr>)) (rl_machine m)"
  by (cases "c (rl_machine m)") (auto simp: wp_def on_machine_def)

lemma wp_await_ready:
  assumes "pings_sane pings" and "\<And>e w. Q (Inr e) (m\<lparr>world := w\<rparr>)"
  shows "wp (await_ready pings addr timeout) Q m"
proof -
  obtain wt w where wt: "pings addr (world m) = (wt, w)" by force
  then obtain d where "sleeps d (wt_clock wt)" using assms(1) unfolding pings_sane_def by (metis fst_conv)
  then obtain e where "waitReady wt addr timeout = Some e"
    using poll_returns by (fastforce simp: waitReady_def)
  with wt assms(2) show ?thesis by (simp add: wp_def await_ready_def)
qed

text \<open>Beyond what was open before, only the member's process, log and directory are.\<close>

definition only_member :: "'w machine \<Rightarrow> DumboMember \<Rightarrow> 'w machine \<Rightarrow> bool" where
  "only_member mm d mm' \<longleftrightarrow>
     running mm' \<subseteq> running mm \<union> sp_pid ` set_option (dm_proc d) \<and>
     openLogs mm' \<subseteq> openLogs mm \<union> sp_log ` set_option (dm_proc d) \<and>
     tempDirs mm' \<subseteq> tempDirs mm \<union> {dm_DataDir d}"

definition member_state :: "'w machine \<Rightarrow> string \<Rightarrow> 'w replica_lab \<Rightarrow> bool" where
  "member_state mm dir m \<longleftrightarrow> (\<exists>d. rl_dumbo m = Some d \<and> dm_DataDir d = dir \<and> only_member mm d (rl_machine m))"

lemma only_member_world [simp]: "only_member mm d (mm'\<lparr>world := w\<rparr>) = only_member mm d mm'"
  by (simp add: only_member_def)

lemma wp_startProc_member:
  assumes "only_member mm (d\<lparr>dm_proc := None\<rparr>) mm'"
    and "\<And>e m'. only_member mm (d\<lparr>dm_proc := None\<rparr>) m' \<Longrightarrow> Q (Inl e) m'"
    and "\<And>p m'. only_member mm (d\<lparr>dm_proc := Some p\<rparr>) m' \<Longrightarrow> Q (Inr p) m'"
  shows "wp (startProc os cmd name dir) Q mm'"
proof -
  have "wp (startProc os cmd name dir) (\<lambda>r m'. case r of Inl e \<Rightarrow> only_member mm (d\<lparr>dm_proc := None\<rparr>) m'
      | Inr p \<Rightarrow> only_member mm (d\<lparr>dm_proc := Some p\<rparr>) m') mm'"
    using assms(1) unfolding startProc_def
    by (auto simp: wp_simps only_member_def split: sum.splits prod.splits)
  then show ?thesis by (rule wp_mono) (auto split: sum.splits intro: assms(2,3))
qed

lemma wp_launch:
  assumes "os_sane os" "pings_sane pings" "dm_proc d = None" "rl_dumbo m = Some d"
    and "only_member mm d (rl_machine m)"
  shows "wp (launch os pings d) (\<lambda>r. member_state mm (dm_DataDir d)) m"
proof -
  have none: "d\<lparr>dm_proc := None\<rparr> = d" using assms(3) by simp
  show ?thesis
    unfolding launch_def Let_def wp_reading wp_handling wp_on_machine
  proof (rule wp_startProc_member[where d = d and mm = mm], goal_cases)
    case 1
    then show ?case using assms(5) none by simp
  next
    case (2 e m')
    then show ?case using assms(4) none by (auto simp: wp_fail member_state_def)
  next
    case (3 p m')
    then show ?case
      by (auto simp: wp_simps wp_on_machine with_dumbo_def member_state_def split: option.split
          intro!: wp_listening[OF assms(1)] wp_await_ready[OF assms(2)])
  qed
qed

lemma only_member_refl:
  "only_member mm d mm" "only_member mm d (mm\<lparr>issuedPorts := ps\<rparr>) \<longleftrightarrow> only_member mm d mm"
  by (auto simp: only_member_def)

text \<open>What is left when the join fails before the member exists: nothing new.\<close>

definition join_state :: "'w machine \<Rightarrow> DumboMember option \<Rightarrow> 'w replica_lab \<Rightarrow> bool" where
  "join_state mm old m \<longleftrightarrow>
     (\<exists>dir. dir \<noteq> [] \<and> member_state mm dir m) \<or>
     (rl_dumbo m = old \<and> running (rl_machine m) = running mm \<and> openLogs (rl_machine m) = openLogs mm \<and>
      tempDirs (rl_machine m) = tempDirs mm)"

lemma wp_makeDir_any:
  assumes "os_sane os" and "\<And>e w. Q (Inl e) (m\<lparr>world := w\<rparr>)"
    and "\<And>dir w. dir \<noteq> [] \<Longrightarrow> Q (Inr dir) (m\<lparr>world := w, tempDirs := insert dir (tempDirs m)\<rparr>)"
  shows "wp (makeDir os pattern) Q m"
proof -
  obtain r w where r: "os_MkdirTemp os pattern (world m) = (r, w)" by force
  show ?thesis
  proof (cases r)
    case (Inr dir)
    then have "dir \<noteq> []" using r assms(1) by (metis os_sane_def)
    with r Inr assms(3) show ?thesis by (simp add: makeDir_def wp_simps)
  qed (use r assms(2) in \<open>simp add: makeDir_def wp_simps\<close>)
qed

lemma wp_join_member:
  assumes "os_sane os" "pings_sane pings" "dm_proc d = None" "only_member mm d (rl_machine m)"
  shows "wp (join_member wild fmt os pings x d) (\<lambda>r. member_state mm (dm_DataDir d)) m"
proof -
  have "wp (launch os pings d) (\<lambda>r. member_state mm (dm_DataDir d)) (with_dumbo d m)"
    by (rule wp_launch[OF assms(1-3)]) (simp_all add: with_dumbo_def assms(4))
  then show ?thesis
    unfolding join_member_def wp_and_then wp_change sum.case
    by (rule wp_mono) (auto simp: wp_simps member_state_def split: sum.split option.split)
qed

lemma wp_JoinDumboDBWith:
  assumes "os_sane os" "pings_sane pings"
  shows "wp (JoinDumboDBWith wild fmt os pings x opts) (\<lambda>r. join_state (rl_machine m) (rl_dumbo m)) m"
proof (cases "findDumboDBBinary os = []")
  case True
  then show ?thesis by (simp add: JoinDumboDBWith_def wp_fail join_state_def)
next
  case False
  then show ?thesis
    unfolding JoinDumboDBWith_def if_not_P[OF False] wp_handling wp_on_machine
  proof (intro wp_freePort, goal_cases)
    case (1 e w)
    show ?case by (simp add: wp_fail join_state_def)
  next
    case (2 port w)
    show ?case
      unfolding sum.case wp_handling wp_on_machine
    proof (rule wp_makeDir_any[OF assms(1)], goal_cases)
      case (1 e w)
      show ?case by (simp add: wp_fail join_state_def)
    next
      case (2 dir w)
      show ?case
        unfolding sum.case wp_reading
        by (rule wp_mono, rule wp_join_member[OF assms, where mm = "rl_machine m"])
          (use 2 in \<open>auto simp: fresh_member_def Let_def only_member_def join_state_def\<close>)
    qed
  qed
qed

lemma teardown_member_state:
  assumes "member_state mm dir m" "dir \<noteq> []"
  shows "running (rl_machine (dumbo_teardown wild fmt x m)) \<subseteq> running mm \<and>
    openLogs (rl_machine (dumbo_teardown wild fmt x m)) \<subseteq> openLogs mm \<and>
    tempDirs (rl_machine (dumbo_teardown wild fmt x m)) \<subseteq> tempDirs mm"
  using assms
  by (auto simp: member_state_def only_member_def dumbo_teardown_def Kill_def member_down_def with_dumbo_def
      reap_def removeDir_def Let_def split: option.splits)


definition no_answer :: exchange where
  "no_answer = \<lparr>xc_before = \<lparr>wd_status = (\<lambda>a. Inl (ErrText ''down'')), wd_hello = (\<lambda>a. Inl (ErrText ''down''))\<rparr>,
     xc_reply = Inl (ErrText ''down''),
     xc_after = \<lparr>wd_status = (\<lambda>a. Inl (ErrText ''down'')), wd_hello = (\<lambda>a. Inl (ErrText ''down''))\<rparr>,
     xc_sent = (\<lambda>c. None)\<rparr>"

definition prompt_pings :: "string \<Rightarrow> nat \<Rightarrow> wait \<times> nat" where
  "prompt_pings addr n = (\<lparr>wt_start = 0, wt_clock = (\<lambda>i. int i * 250000000), wt_answer = (\<lambda>i. None)\<rparr>, n)"

definition idle_lab :: "nat replica_lab" where
  "idle_lab = new_set 0 \<lparr>ro_TLS = None, ro_KeyFile = []\<rparr> (idle_machine 0)"


section \<open>A member that never listens\<close>

text \<open>An operating system whose processes start and never accept a connection.\<close>

definition deaf_os :: "nat os" where
  "deaf_os = failing_os\<lparr>os_Start := (\<lambda>cmd n. (Inr (int n), Suc n)), os_Wait := (\<lambda>addr n. (silent, n))\<rparr>"

lemma waitPort_silent: "waitPort silent timeout = Some False"
proof -
  have s: "sleeps 200000000 (wt_clock silent)" by (simp add: silent_def)
  have "waitPort silent timeout \<noteq> Some True"
    using waitPort_iff[OF s, of timeout] by (simp add: silent_def)
  then show ?thesis using waitPort_returns[OF s, of timeout] by (metis (full_types))
qed

lemma deaf_spawn:
  "\<exists>e m'. spawnMongod deaf_os pings name opts bin ident (idle_machine 0) = Some (Inl e, m') \<and> running m' = {3}"
  by (simp add: spawnMongod_def deaf_os_def failing_os_def idle_machine_def freePort_def
      and_then_def handling_def makeDir_def sys_def change_def ok_def fail_def startProc_def wrapping_def
      listening_def waitPort_silent require_def numeral_eq_Suc Let_def)

text \<open>Starting a set whose first member never listens ends in an error, and the test's cleanup
  leaves that member's process running: it is not yet among the members the cleanup stops.\<close>

lemma StartReplicaSet_leaks:
  "\<exists>e m'. StartReplicaSet deaf_os prompt_pings q 0 1 idle_lab = Some (Inl e, m') \<and>
    running (rl_machine (rs_stop m')) = {3}"
proof -
  obtain e mm where "spawnMongod deaf_os prompt_pings ''repl0'' \<lparr>ro_TLS = None, ro_KeyFile = []\<rparr>
      (findMongodBin deaf_os) 0 (idle_machine 0) = Some (Inl e, mm)" "running mm = {3}"
    using deaf_spawn by blast
  moreover have "findMongodBin deaf_os \<noteq> []" by (simp add: findMongodBin_def deaf_os_def failing_os_def)
  moreover have "itoa 0 = ''0''" by code_simp
  ultimately show ?thesis
    by (simp add: StartReplicaSet_def start_set_def reading_def new_set_def idle_lab_def and_then_def
        handling_def on_machine_def fail_def rs_stop_def List.map_filter_simps)
qed

end
