(* ===== verification/ShopData.thy ===== *)
theory ShopData
  imports GoText Workload
begin

text \<open>
  The e-commerce dataset of src/shopdata/shopdata.go and the program that loads it
  (src/cmd/gendata/main.go). The random generator, the ObjectIDs and the clock are a source threaded
  by the state monad, drawn in the order Go evaluates the composite literals. A Decimal128 is the
  text it is parsed from; floating-point operations round one by one, as on baseline amd64.
\<close>

section \<open>Sources and values\<close>

record 'g shop_source =
  sh_Intn :: "'g source"
  sh_Float64 :: "('g, float64) state"
  sh_ObjectID :: "('g, byte list) state"
  sh_now :: "('g, int) state"

datatype shop_value =
    SString string
  | SInt32 int
  | SBool bool
  | SDecimal string
  | STime int
  | SObjectID "byte list"
  | SUuid "byte list"
  | SDoc "(string \<times> shop_value) list"
  | SArr "shop_value list"

type_synonym shop_doc = "(string \<times> shop_value) list"

definition firstNames :: "string list" where
  "firstNames = [''Ava'', ''Liam'', ''Mia'', ''Noah'', ''Zoe'', ''Kai'', ''Ivy'', ''Leo'', ''Ada'', ''Max'', ''Nora'', ''Eli'']"
definition lastNames :: "string list" where
  "lastNames = [''Stone'', ''Reyes'', ''Chen'', ''Okafor'', ''Meyer'', ''Patel'', ''Novak'', ''Ali'', ''Frost'', ''Lund'']"
definition categories :: "string list" where
  "categories = [''electronics'', ''home'', ''garden'', ''toys'', ''apparel'', ''grocery'', ''sports'', ''books'']"
definition adjectives :: "string list" where
  "adjectives = [''premium'', ''compact'', ''wireless'', ''organic'', ''stainless'', ''ergonomic'', ''recycled'',
     ''heavy-duty'', ''portable'', ''artisan'', ''limited'', ''refurbished'', ''eco'', ''deluxe'']"
definition streets :: "string list" where
  "streets = [''Main St'', ''Oak Ave'', ''Pine Rd'', ''Elm Blvd'', ''Cedar Ln'', ''Maple Way'']"
definition tiers :: "string list" where
  "tiers = [''bronze'', ''silver'', ''gold'', ''platinum'']"
definition statuses :: "string list" where
  "statuses = [''pending'', ''paid'', ''shipped'', ''delivered'', ''cancelled'', ''refunded'']"
definition payMethod :: "string list" where
  "payMethod = [''card'', ''paypal'', ''applepay'']"
definition cities :: "(string \<times> string \<times> string) list" where
  "cities = [(''Seattle'', ''WA'', ''98101''), (''Austin'', ''TX'', ''73301''), (''Denver'', ''CO'', ''80201''),
     (''Miami'', ''FL'', ''33101''), (''Boise'', ''ID'', ''83701'')]"

text \<open>\<open>pick\<close>, \<open>pickFloat\<close> and an index into \<open>cities\<close> are one draw of an index.\<close>

definition pick :: "'g shop_source \<Rightarrow> 'a list \<Rightarrow> ('g, 'a) state" where
  "pick src a = do { n \<leftarrow> sh_Intn src (int (length a)); State_Monad.return (a ! nat n) }"

definition ri :: "'g shop_source \<Rightarrow> int \<Rightarrow> int \<Rightarrow> ('g, int) state" where
  "ri src lo hi = do { n \<leftarrow> sh_Intn src (hi - lo + 1); State_Monad.return (lo + n) }"

fun times :: "nat \<Rightarrow> ('g, 'a) state \<Rightarrow> ('g, 'a list) state" where
  "times 0 m = State_Monad.return []"
| "times (Suc n) m = do { x \<leftarrow> m; xs \<leftarrow> times n m; State_Monad.return (x # xs) }"

definition sentence :: "'g shop_source \<Rightarrow> int \<Rightarrow> ('g, string) state" where
  "sentence src n = do { ws \<leftarrow> times (nat n) (pick src adjectives); State_Monad.return (join '' '' ws) }"

definition tags :: "'g shop_source \<Rightarrow> ('g, shop_value) state" where
  "tags src = do {
     n \<leftarrow> ri src 2 5; ts \<leftarrow> times (nat n) (pick src adjectives);
     State_Monad.return (SArr (map SString ts)) }"

definition uuidV4 :: "'g shop_source \<Rightarrow> ('g, byte list) state" where
  "uuidV4 src = do {
     ns \<leftarrow> times 16 (sh_Intn src 256);
     let b = map word_of_int ns;
     State_Monad.return (b[6 := or (and (b ! 6) 0x0F) 0x40, 8 := or (and (b ! 8) 0x3F) 0x80]) }"

definition day :: duration where "day = 86400000000000"

definition daysAgo :: "'g shop_source \<Rightarrow> int \<Rightarrow> ('g, shop_value) state" where
  "daysAgo src maxDays = do {
     now \<leftarrow> sh_now src; n \<leftarrow> sh_Intn src (maxDays + 1); State_Monad.return (STime (now - n * day)) }"

definition decimal2 :: "float64 \<Rightarrow> shop_value" where
  "decimal2 x = SDecimal (fmt_fixed False 2 x)"

definition money :: "'g shop_source \<Rightarrow> float64 \<Rightarrow> float64 \<Rightarrow> ('g, shop_value) state" where
  "money src lo hi = do {
     x \<leftarrow> sh_Float64 src; State_Monad.return (decimal2 (float_add lo (float_mul x (float_sub hi lo)))) }"

definition address :: "'g shop_source \<Rightarrow> string \<times> string \<times> string \<Rightarrow> ('g, shop_value) state" where
  "address src city = do {
     n \<leftarrow> ri src 1 9999; s \<leftarrow> pick src streets;
     State_Monad.return (SDoc [(''street'', SString (itoa n @ '' '' @ s)), (''city'', SString (fst city)),
       (''state'', SString (fst (snd city))), (''zip'', SString (snd (snd city))), (''country'', SString ''US'')]) }"

section \<open>Documents\<close>

definition Customer :: "'g shop_source \<Rightarrow> int \<Rightarrow> ('g, shop_doc \<times> byte list) state" where
  "Customer src i = do {
     ident \<leftarrow> uuidV4 src; city \<leftarrow> pick src cities;
     f \<leftarrow> pick src firstNames; l \<leftarrow> pick src lastNames; tier \<leftarrow> pick src tiers;
     a \<leftarrow> address src city; points \<leftarrow> ri src 0 50000; created \<leftarrow> daysAgo src 1200;
     active \<leftarrow> sh_Float64 src;
     State_Monad.return ([(''_id'', SUuid ident), (''name'', SString (f @ '' '' @ l)),
       (''email'', SString (''user'' @ itoa i @ ''@example.com'')), (''tier'', SString tier), (''address'', a),
       (''loyaltyPoints'', SInt32 points), (''createdAt'', created),
       (''active'', SBool (float_less (round64 (1 / 10)) active))], ident) }"

definition Product :: "'g shop_source \<Rightarrow> int \<Rightarrow> ('g, shop_doc \<times> string) state" where
  "Product src i = do {
     let sku = ''SKU-'' @ itoa_pad 5 i;
     oid \<leftarrow> sh_ObjectID src; name \<leftarrow> sentence src 2;
     n \<leftarrow> ri src 20 40; description \<leftarrow> sentence src n; category \<leftarrow> pick src categories;
     price \<leftarrow> money src (float_of_int 3) (float_of_int 900); ts \<leftarrow> tags src;
     stock \<leftarrow> ri src 0 500; rating \<leftarrow> sh_Float64 src;
     State_Monad.return ([(''_id'', SObjectID oid), (''sku'', SString sku), (''name'', SString (name @ '' item'')),
       (''description'', SString description), (''category'', SString category), (''price'', price), (''tags'', ts),
       (''inStock'', SInt32 stock), (''rating'', SDecimal (fmt_fixed False 1 (float_mul rating (float_of_int 5))))], sku) }"

text \<open>One line of an order, with what it adds to the subtotal.\<close>

definition order_line :: "'g shop_source \<Rightarrow> string list \<Rightarrow> ('g, shop_value \<times> float64) state" where
  "order_line src skus = do {
     qty \<leftarrow> ri src 1 6; x \<leftarrow> sh_Float64 src;
     let price = float_add (float_of_int 3) (float_mul x (float_of_int 300));
     let line = float_mul (float_of_int qty) price;
     sku \<leftarrow> pick src skus; name \<leftarrow> sentence src 2;
     State_Monad.return (SDoc [(''sku'', SString sku), (''name'', SString name), (''qty'', SInt32 qty),
       (''unitPrice'', decimal2 price), (''lineTotal'', decimal2 line)], line) }"

definition shipping_rates :: "float64 list" where
  "shipping_rates = [FZero False, round64 (499 / 100), round64 (999 / 100)]"

text \<open>\<open>Order\<close>; a draw from no SKUs or no customers is the panic of \<open>Intn(0)\<close>.\<close>

definition Order :: "'g shop_source \<Rightarrow> int \<Rightarrow> byte list list \<Rightarrow> string list \<Rightarrow> ('g, shop_doc option) state" where
  "Order src i customerIDs skus =
     (if customerIDs = [] \<or> skus = [] then State_Monad.return None
      else do {
        nItems \<leftarrow> ri src 1 4;
        items \<leftarrow> times (nat nItems) (order_line src skus);
        let subtotal = fold (\<lambda>item s. float_add s (snd item)) items (FZero False);
        let tax = float_mul subtotal (round64 (8 / 100));
        shipping \<leftarrow> pick src shipping_rates; city \<leftarrow> pick src cities;
        oid \<leftarrow> sh_ObjectID src; date \<leftarrow> daysAgo src 365; customer \<leftarrow> pick src customerIDs;
        status \<leftarrow> pick src statuses; a \<leftarrow> address src city; payment \<leftarrow> pick src payMethod;
        last4 \<leftarrow> ri src 0 9999; n \<leftarrow> ri src 15 30; notes \<leftarrow> sentence src n;
        State_Monad.return (Some [(''_id'', SObjectID oid), (''orderNumber'', SString (''ORD-'' @ itoa_pad 7 i)),
          (''orderDate'', date), (''customerId'', SUuid customer), (''status'', SString status),
          (''items'', SArr (map fst items)), (''subtotal'', decimal2 subtotal), (''tax'', decimal2 tax),
          (''shipping'', decimal2 shipping),
          (''total'', decimal2 (float_add (float_add subtotal tax) shipping)),
          (''shippingAddress'', a),
          (''payment'', SDoc [(''method'', SString payment), (''last4'', SString (itoa_pad 4 last4))]),
          (''notes'', SString notes)]) })"

section \<open>The dataset\<close>

definition DefaultSeed :: int where "DefaultSeed = 1"
definition DefaultCustomers :: nat where "DefaultCustomers = 3000"
definition DefaultProducts :: nat where "DefaultProducts = 800"
definition DefaultOrders :: nat where "DefaultOrders = 10000"

fun each :: "(int \<Rightarrow> ('g, 'a) state) \<Rightarrow> nat list \<Rightarrow> ('g, 'a list) state" where
  "each f [] = State_Monad.return []"
| "each f (i # is) = do { x \<leftarrow> f (int i); xs \<leftarrow> each f is; State_Monad.return (x # xs) }"

text \<open>Customers, then products, then orders, all from one source: what gendata inserts.\<close>

definition dataset :: "'g shop_source \<Rightarrow> nat \<Rightarrow> nat \<Rightarrow> nat \<Rightarrow>
    ('g, shop_doc list \<times> shop_doc list \<times> shop_doc option list) state" where
  "dataset src nCustomers nProducts nOrders = do {
     cs \<leftarrow> each (Customer src) [0..<nCustomers];
     ps \<leftarrow> each (Product src) [0..<nProducts];
     os \<leftarrow> each (\<lambda>i. Order src i (map snd cs) (map snd ps)) [0..<nOrders];
     State_Monad.return (map fst cs, map fst ps, os) }"

definition Orders :: "'g shop_source \<Rightarrow> nat \<Rightarrow> ('g, shop_doc option list) state" where
  "Orders src n = do {
     (cs, ps, os) \<leftarrow> dataset src DefaultCustomers DefaultProducts n; State_Monad.return os }"

text \<open>An index: its keys with their directions, and whether it is unique.\<close>

definition CustomerIndexes :: "((string \<times> int) list \<times> bool) list" where
  "CustomerIndexes = [([(''email'', 1)], True), ([(''tier'', 1)], False)]"
definition ProductIndexes :: "((string \<times> int) list \<times> bool) list" where
  "ProductIndexes = [([(''sku'', 1)], True), ([(''category'', 1)], False), ([(''tags'', 1)], False)]"
definition OrderIndexes :: "((string \<times> int) list \<times> bool) list" where
  "OrderIndexes = [([(''customerId'', 1)], False), ([(''orderDate'', -1)], False),
     ([(''status'', 1), (''orderDate'', -1)], False)]"

section \<open>Loading\<close>

text \<open>The inserter: its buffer, and the batches it has sent. An insert the server refuses ends the
  program.\<close>

record 'd inserter =
  is_docs :: "'d list"
  is_sent :: "'d list list"

definition flush_batch :: "'d inserter \<Rightarrow> 'd inserter" where
  "flush_batch s = (if is_docs s = [] then s else s\<lparr>is_docs := [], is_sent := is_sent s @ [is_docs s]\<rparr>)"

definition add_doc :: "int \<Rightarrow> 'd \<Rightarrow> 'd inserter \<Rightarrow> 'd inserter" where
  "add_doc batch d s =
     (let s = s\<lparr>is_docs := is_docs s @ [d]\<rparr>
      in if int (length (is_docs s)) = batch then flush_batch s else s)"

definition insert_all :: "int \<Rightarrow> 'd list \<Rightarrow> 'd list list" where
  "insert_all batch docs =
     is_sent (flush_batch (fold (add_doc batch) docs \<lparr>is_docs = [], is_sent = []\<rparr>))"

fun toFloat :: "bval option \<Rightarrow> float64 \<times> bool" where
  "toFloat (Some (BInt32 n)) = (float_of_int n, True)"
| "toFloat (Some (BInt64 n)) = (float_of_int n, True)"
| "toFloat (Some (BDouble f)) = (f, True)"
| "toFloat v = (FZero False, False)"

definition gendata_report :: "(float64 \<Rightarrow> int) \<Rightarrow> string \<Rightarrow> goerror + doc \<Rightarrow> string" where
  "gendata_report wild coll stats =
     (case stats of
        Inl e \<Rightarrow> coll @ '': (collStats unavailable: '' @ error_text e @ '')''
      | Inr d \<Rightarrow> coll @ '': '' @ itoa (float_to_int64 wild (fst (toFloat (map_of d ''count'')))) @ '' docs, '' @
           fmt_fixed False 1 (float_div (fst (toFloat (map_of d ''size''))) (float_of_int (1024 * 1024))) @ '' MB'')"

end
