(* ===== verification/ShopDataFacts.thy ===== *)
theory ShopDataFacts
  imports ShopData WorkloadFacts TxnScenario
begin

text \<open>
  What the dataset guarantees: its unique indexes can be built, its references resolve, and the
  loader sends every document once, in order, in full batches.
\<close>

section \<open>Loading\<close>

definition full_batches :: "int \<Rightarrow> 'd list list \<Rightarrow> bool" where
  "full_batches batch bs \<longleftrightarrow> (\<forall>b \<in> set bs. int (length b) = batch)"

lemma add_doc_inv:
  assumes "0 < batch" "full_batches batch (is_sent s)" "int (length (is_docs s)) < batch"
  shows "full_batches batch (is_sent (add_doc batch d s)) \<and> int (length (is_docs (add_doc batch d s))) < batch \<and>
    concat (is_sent (add_doc batch d s)) @ is_docs (add_doc batch d s) = concat (is_sent s) @ is_docs s @ [d]"
  using assms by (auto simp: add_doc_def flush_batch_def full_batches_def Let_def)

lemma fold_add_doc:
  assumes "0 < batch" "full_batches batch (is_sent s)" "int (length (is_docs s)) < batch"
  shows "full_batches batch (is_sent (fold (add_doc batch) ds s)) \<and>
    int (length (is_docs (fold (add_doc batch) ds s))) < batch \<and>
    concat (is_sent (fold (add_doc batch) ds s)) @ is_docs (fold (add_doc batch) ds s) =
      concat (is_sent s) @ is_docs s @ ds"
  using assms(2,3)
proof (induction ds arbitrary: s)
  case (Cons d ds)
  note one = add_doc_inv[OF assms(1) Cons.prems, of d]
  show ?case using Cons.IH[of "add_doc batch d s"] one by (metis append_Cons append_Nil append_assoc fold_simps(2))
qed simp

text \<open>The loader sends every document exactly once and in order; every batch it sends has the
  batch size except the last, which is shorter or equal and never empty.\<close>

theorem insert_all_batches:
  assumes "0 < batch"
  shows "concat (insert_all batch docs) = docs \<and>
    (\<forall>b \<in> set (butlast (insert_all batch docs)). int (length b) = batch) \<and>
    (\<forall>b \<in> set (insert_all batch docs). b \<noteq> [] \<and> int (length b) \<le> batch)"
proof -
  let ?s = "fold (add_doc batch) docs \<lparr>is_docs = [], is_sent = []\<rparr>"
  have s: "full_batches batch (is_sent ?s)" "int (length (is_docs ?s)) < batch"
    "concat (is_sent ?s) @ is_docs ?s = docs"
    using fold_add_doc[OF assms, of "\<lparr>is_docs = [], is_sent = []\<rparr>" docs] assms
    by (simp_all add: full_batches_def)
  then show ?thesis
    using assms by (auto simp: insert_all_def flush_batch_def full_batches_def butlast_append
      dest: in_set_butlastD)
qed

lemma insert_all_batches_witness:
  "concat (insert_all 2 [1, 2, 3 :: int]) = [1, 2, 3] \<and>
    (\<forall>b \<in> set (butlast (insert_all 2 [1, 2, 3 :: int])). int (length b) = 2) \<and>
    (\<forall>b \<in> set (insert_all 2 [1, 2, 3 :: int]). b \<noteq> [] \<and> int (length b) \<le> 2)"
  by (rule insert_all_batches) simp

section \<open>The dataset\<close>

definition doc_field :: "shop_doc \<Rightarrow> string \<Rightarrow> shop_value option" where
  "doc_field d k = map_of d k"

lemma each_pred:
  assumes "\<And>i. pred_state (P i) (f i)"
  shows "pred_state (\<lambda>xs. list_all2 (\<lambda>i x. P (int i) x) is xs) (each f is)"
proof (induction "is")
  case (Cons i "is")
  show ?case
    unfolding each.simps
    by (rule bind_pred[OF assms], rule bind_pred[OF Cons]) (auto intro: return_pred)
qed (auto intro: return_pred)

lemma times_pred: "pred_state P m \<Longrightarrow> pred_state (\<lambda>xs. list_all P xs \<and> length xs = n) (times n m)"
proof (induction n)
  case (Suc n)
  show ?case
    unfolding times.simps
    by (rule bind_pred[OF Suc.prems], rule bind_pred[OF Suc.IH[OF Suc.prems]]) (auto intro: return_pred)
qed (auto intro: return_pred)

lemma any_pred: "pred_state (\<lambda>x. True) m"
  by (rule pred_stateI) simp

lemma Customer_pred:
  "pred_state (\<lambda>(d, ident). doc_field d ''email'' = Some (SString (''user'' @ itoa i @ ''@example.com'')) \<and>
     doc_field d ''_id'' = Some (SUuid ident)) (Customer src i)"
  unfolding Customer_def
  by (rule bind_pred[OF any_pred])+ (auto simp: doc_field_def intro: return_pred)

lemma Product_pred:
  "pred_state (\<lambda>(d, sku). sku = ''SKU-'' @ itoa_pad 5 i \<and> doc_field d ''sku'' = Some (SString sku)) (Product src i)"
  unfolding Product_def Let_def
  by (rule bind_pred[OF any_pred])+ (auto simp: doc_field_def intro: return_pred)

lemma pick_pred:
  assumes "in_range (sh_Intn src)" "a \<noteq> []"
  shows "pred_state (\<lambda>x. x \<in> set a) (pick src a)"
  unfolding pick_def
proof (rule bind_pred[OF intn_pred[OF assms(1)]])
  show "0 < int (length a)" using assms(2) by simp
  fix n assume "0 \<le> n \<and> n < int (length a)"
  then show "pred_state (\<lambda>x. x \<in> set a) (State_Monad.return (a ! nat n))"
    by (intro return_pred nth_mem) (simp add: nat_less_iff)
qed

definition sound_line :: "string list \<Rightarrow> shop_value \<Rightarrow> bool" where
  "sound_line skus v \<longleftrightarrow> (\<exists>d sku. v = SDoc d \<and> doc_field d ''sku'' = Some (SString sku) \<and> sku \<in> set skus)"

lemma order_line_pred:
  assumes "in_range (sh_Intn src)" "skus \<noteq> []"
  shows "pred_state (\<lambda>p. sound_line skus (fst p)) (order_line src skus)"
  unfolding order_line_def Let_def
  by (rule bind_pred[OF any_pred], rule bind_pred[OF any_pred], rule bind_pred[OF pick_pred[OF assms]],
      rule bind_pred[OF any_pred]) (auto simp: sound_line_def doc_field_def intro: return_pred)

definition sound_order :: "byte list list \<Rightarrow> string list \<Rightarrow> int \<Rightarrow> shop_doc option \<Rightarrow> bool" where
  "sound_order ids skus i od \<longleftrightarrow> (\<exists>d c items. od = Some d \<and>
     doc_field d ''orderNumber'' = Some (SString (''ORD-'' @ itoa_pad 7 i)) \<and>
     doc_field d ''customerId'' = Some (SUuid c) \<and> c \<in> set ids \<and>
     doc_field d ''items'' = Some (SArr items) \<and> 1 \<le> length items \<and> length items \<le> 4 \<and>
     list_all (sound_line skus) items)"

lemma ri_pred:
  assumes "in_range (sh_Intn src)" "lo \<le> hi"
  shows "pred_state (\<lambda>n. lo \<le> n \<and> n \<le> hi) (ri src lo hi)"
  unfolding ri_def
  by (rule bind_pred[OF intn_pred[OF assms(1)]]) (use assms(2) in \<open>auto intro: return_pred\<close>)

lemma Order_pred:
  assumes "in_range (sh_Intn src)" "ids \<noteq> []" "skus \<noteq> []"
  shows "pred_state (sound_order ids skus i) (Order src i ids skus)"
proof -
  have nonempty: "\<not> (ids = [] \<or> skus = [])" using assms(2,3) by simp
  have one_four: "(1 :: int) \<le> 4" by simp
  show ?thesis
    unfolding Order_def if_not_P[OF nonempty] Let_def
  proof (rule bind_pred[OF ri_pred[OF assms(1) one_four]],
      rule bind_pred[OF times_pred[OF order_line_pred[OF assms(1,3)]]], goal_cases)
    case (1 nItems items)
    then have "1 \<le> length items" "length items \<le> 4" "list_all (sound_line skus) (map fst items)"
      by (auto simp: list_all_iff)
    then show ?case
      by (rule_tac bind_pred[OF any_pred], rule_tac bind_pred[OF any_pred], rule_tac bind_pred[OF any_pred],
          rule_tac bind_pred[OF any_pred], rule_tac bind_pred[OF pick_pred[OF assms(1,2)]],
          (rule_tac bind_pred[OF any_pred])+)
        (auto simp: sound_order_def doc_field_def intro: return_pred)
  qed
qed

lemma list_all2_upt: "list_all2 P [0..<n] xs \<longleftrightarrow> length xs = n \<and> (\<forall>i < n. P i (xs ! i))"
  by (auto simp: list_all2_conv_all_nth)

lemma distinct_by_index:
  assumes "\<And>i. i < length xs \<Longrightarrow> f (xs ! i) = g i" "inj g"
  shows "distinct (map f xs)"
  unfolding distinct_conv_nth using assms by (auto simp: inj_eq)

lemma inj_names:
  "inj (\<lambda>i :: nat. Some (SString (''user'' @ itoa (int i) @ ''@example.com'')))"
  "inj (\<lambda>i :: nat. Some (SString (''SKU-'' @ itoa_pad 5 (int i))))"
  "inj (\<lambda>i :: nat. Some (SString (''ORD-'' @ itoa_pad 7 (int i))))"
  by (auto intro!: injI simp: itoa_inject itoa_pad_inject)

lemma dataset_facts:
  assumes "in_range (sh_Intn src)" "0 < nC" "0 < nP"
    and "run_state (dataset src nC nP nO) s = ((cs, ps, os), s')"
  shows "length cs = nC \<and> length ps = nP \<and> length os = nO \<and>
    distinct (map (\<lambda>d. doc_field d ''email'') cs) \<and> distinct (map (\<lambda>d. doc_field d ''sku'') ps) \<and>
    (\<exists>ids skus ds. os = map Some ds \<and>
       map (\<lambda>d. doc_field d ''_id'') cs = map (\<lambda>c. Some (SUuid c)) ids \<and>
       map (\<lambda>d. doc_field d ''sku'') ps = map (\<lambda>k. Some (SString k)) skus \<and>
       distinct (map (\<lambda>d. doc_field d ''orderNumber'') ds) \<and>
       (\<forall>i < nO. sound_order ids skus (int i) (Some (ds ! i))))"
proof -
  define rel where "rel = (\<lambda>(cs, ps, os). \<exists>cs' ps'. cs = map fst cs' \<and> ps = map fst ps' \<and>
    list_all2 (\<lambda>i (d, ident). doc_field d ''email'' = Some (SString (''user'' @ itoa (int i) @ ''@example.com'')) \<and>
      doc_field d ''_id'' = Some (SUuid ident)) [0..<nC] cs' \<and>
    list_all2 (\<lambda>i (d, sku). sku = ''SKU-'' @ itoa_pad 5 (int i) \<and> doc_field d ''sku'' = Some (SString sku))
      [0..<nP] ps' \<and>
    list_all2 (\<lambda>i. sound_order (map snd cs') (map snd ps') (int i)) [0..<nO] os)"
  have "pred_state rel (dataset src nC nP nO)"
    unfolding dataset_def
  proof (rule bind_pred[OF each_pred[OF Customer_pred]], rule bind_pred[OF each_pred[OF Product_pred]], goal_cases)
    case (1 cs' ps')
    have "cs' \<noteq> []" "ps' \<noteq> []" using 1 assms(2,3) by (auto dest!: list_all2_lengthD)
    then have "map snd cs' \<noteq> []" "map snd ps' \<noteq> []" by simp_all
    from Order_pred[OF assms(1) this] show ?case
      by (rule bind_pred[OF each_pred]) (use 1 in \<open>auto simp: rel_def intro!: return_pred\<close>)
  qed
  then have "rel (cs, ps, os)" using assms(4) by (rule pred_stateD)
  then obtain cs' ps' where eq: "cs = map fst cs'" "ps = map fst ps'"
    and len: "length cs' = nC" "length ps' = nP" "length os = nO"
    and c: "\<And>i. i < nC \<Longrightarrow> doc_field (fst (cs' ! i)) ''email'' =
        Some (SString (''user'' @ itoa (int i) @ ''@example.com'')) \<and>
        doc_field (fst (cs' ! i)) ''_id'' = Some (SUuid (snd (cs' ! i)))"
    and p: "\<And>i. i < nP \<Longrightarrow> snd (ps' ! i) = ''SKU-'' @ itoa_pad 5 (int i) \<and>
        doc_field (fst (ps' ! i)) ''sku'' = Some (SString (snd (ps' ! i)))"
    and o: "\<And>i. i < nO \<Longrightarrow> sound_order (map snd cs') (map snd ps') (int i) (os ! i)"
    unfolding rel_def prod.case list_all2_upt by (auto simp: case_prod_beta)
  define ds where "ds = map the os"
  have some: "os ! i = Some (ds ! i)" if "i < nO" for i
    using o[OF that] that len(3) by (auto simp: ds_def sound_order_def)
  have number: "doc_field (ds ! i) ''orderNumber'' = Some (SString (''ORD-'' @ itoa_pad 7 (int i)))"
    if "i < nO" for i
    using o[OF that] some[OF that] by (auto simp: sound_order_def)
  have "distinct (map (\<lambda>d. doc_field d ''email'') cs)"
    by (rule distinct_by_index[OF _ inj_names(1)]) (use c len in \<open>simp add: eq\<close>)
  moreover have "distinct (map (\<lambda>d. doc_field d ''sku'') ps)"
    by (rule distinct_by_index[OF _ inj_names(2)]) (use p len in \<open>simp add: eq\<close>)
  moreover have "distinct (map (\<lambda>d. doc_field d ''orderNumber'') ds)"
    by (rule distinct_by_index[OF _ inj_names(3)]) (use number len(3) in \<open>simp add: ds_def\<close>)
  moreover have "os = map Some ds" using some len(3) by (intro nth_equalityI) (simp_all add: ds_def)
  moreover have "map (\<lambda>d. doc_field d ''_id'') cs = map (\<lambda>c. Some (SUuid c)) (map snd cs')"
    "map (\<lambda>d. doc_field d ''sku'') ps = map (\<lambda>k. Some (SString k)) (map snd ps')"
    using c p len unfolding eq by (simp_all only: map_map comp_def) (intro nth_equalityI; simp)+
  moreover have "\<forall>i < nO. sound_order (map snd cs') (map snd ps') (int i) (Some (ds ! i))"
    using o some by simp
  moreover have "length cs = nC" "length ps = nP" by (simp_all add: eq len)
  ultimately show ?thesis using len(3) by (intro conjI exI) (assumption | simp)+
qed

text \<open>Whatever the random source draws, the unique indexes of the dataset can be built (emails,
  SKUs and order numbers are distinct) and every order is there, has one to four lines, and
  refers to a customer and to products that exist.\<close>

theorem dataset_sound:
  assumes "in_range (sh_Intn src)" "0 < nC" "0 < nP"
    and "run_state (dataset src nC nP nO) s = ((cs, ps, os), s')"
  shows "length cs = nC \<and> length ps = nP \<and> length os = nO \<and>
    distinct (map (\<lambda>d. doc_field d ''email'') cs) \<and> distinct (map (\<lambda>d. doc_field d ''sku'') ps) \<and>
    (\<exists>ids skus ds. os = map Some ds \<and>
       map (\<lambda>d. doc_field d ''_id'') cs = map (\<lambda>c. Some (SUuid c)) ids \<and>
       map (\<lambda>d. doc_field d ''sku'') ps = map (\<lambda>k. Some (SString k)) skus \<and>
       distinct (map (\<lambda>d. doc_field d ''orderNumber'') ds) \<and>
       (\<forall>i < nO. sound_order ids skus (int i) (Some (ds ! i))))"
  by (rule dataset_facts[OF assms])

text \<open>A source that always draws the first.\<close>

definition first_source :: "unit shop_source" where
  "first_source = \<lparr>sh_Intn = (\<lambda>n. State_Monad.return 0), sh_Float64 = State_Monad.return (FZero False),
     sh_ObjectID = State_Monad.return [], sh_now = State_Monad.return 0\<rparr>"

lemma dataset_sound_witness:
  "\<exists>cs ps os. run_state (dataset first_source 2 1 3) () = ((cs, ps, os), ()) \<and>
    length cs = 2 \<and> length ps = 1 \<and> length os = 3 \<and>
    distinct (map (\<lambda>d. doc_field d ''email'') cs) \<and> distinct (map (\<lambda>d. doc_field d ''sku'') ps) \<and>
    (\<exists>ids skus ds. os = map Some ds \<and>
       map (\<lambda>d. doc_field d ''_id'') cs = map (\<lambda>c. Some (SUuid c)) ids \<and>
       map (\<lambda>d. doc_field d ''sku'') ps = map (\<lambda>k. Some (SString k)) skus \<and>
       distinct (map (\<lambda>d. doc_field d ''orderNumber'') ds) \<and>
       (\<forall>i < 3. sound_order ids skus (int i) (Some (ds ! i))))"
proof -
  have range: "in_range (sh_Intn first_source)" by (simp add: in_range_def first_source_def)
  obtain cs ps os s' where r: "run_state (dataset first_source 2 1 3) () = ((cs, ps, os), s')"
    by (metis prod.exhaust)
  then have "run_state (dataset first_source 2 1 3) () = ((cs, ps, os), ())" by simp
  with dataset_sound[OF range _ _ r] show ?thesis by auto
qed

section \<open>Identifiers\<close>

lemma and_or_bits:
  fixes b :: byte
  shows "and (or (and b 0x0F) 0x40) 0xF0 = 0x40" "and (or (and b 0x3F) 0x80) 0xC0 = 0x80"
  by (simp_all add: bit.conj_disj_distrib2 and.assoc)

text \<open>A customer's id is a version 4, variant 1 UUID.\<close>

lemma uuidV4_version:
  "pred_state (\<lambda>b. length b = 16 \<and> and (b ! 6) 0xF0 = 0x40 \<and> and (b ! 8) 0xC0 = 0x80) (uuidV4 src)"
  unfolding uuidV4_def Let_def
  by (rule bind_pred[OF times_pred[OF any_pred]]) (auto intro!: return_pred simp: and_or_bits)

end
