(* ===== verification/Storage.thy ===== *)
theory Storage
  imports GoText Client
begin

text \<open>
  The storage benchmarks (src/storage): the three backends as the calls they make on their
  database (\<open>dumbodb.go\<close>, \<open>dolt.go\<close>, \<open>dolt_json.go\<close>), and the measuring and printing of sizes
  (\<open>metrics.go\<close>). A backend is its database, branch and data directory; what a call answers is an
  argument. Texts in JSON are valid UTF-8, as the documents of the benchmarks are.
\<close>

section \<open>Backends\<close>

record Doc =
  dc_ID :: string
  dc_Email :: string
  dc_Name :: string
  dc_Age :: int

datatype sql_arg = ArgText string | ArgInt int

datatype backend_call =
    InsertMany string "doc list"                \<comment> \<open>database, documents\<close>
  | UpdateOne string doc doc
  | RunCommand string doc
  | Exec string "sql_arg list"
  | DropDatabase string

text \<open>Calls made one after the other until one fails.\<close>

fun run_calls :: "(backend_call \<Rightarrow> goerror option) \<Rightarrow> backend_call list \<Rightarrow> goerror option" where
  "run_calls answer [] = None"
| "run_calls answer (c # cs) = (case answer c of Some e \<Rightarrow> Some e | None \<Rightarrow> run_calls answer cs)"

text \<open>The batches of 500.\<close>

definition batchSize :: nat where "batchSize = 500"

function chunks :: "nat \<Rightarrow> 'a list \<Rightarrow> 'a list list" where
  "chunks n xs = (if xs = [] \<or> n = 0 then [] else take n xs # chunks n (drop n xs))"
  by pat_completeness auto
termination by (relation "measure (length \<circ> snd)") auto

declare chunks.simps [simp del]

section \<open>DumboDB\<close>

record DumboDBBackend =
  db_dbName :: string
  db_currentBranch :: string
  db_dataDir :: string
  db_lastGC :: "(int \<times> int) option"      \<comment> \<open>size and chunks of the last collection\<close>

definition encodedDB :: "DumboDBBackend \<Rightarrow> string" where
  "encodedDB b = db_dbName b @ ''@'' @ db_currentBranch b"

definition NewDumboDBBackend :: "string \<Rightarrow> string \<Rightarrow> goerror option \<Rightarrow> goerror option \<Rightarrow> int \<Rightarrow> goerror + DumboDBBackend" where
  "NewDumboDBBackend uri dataDir connect ping nano =
     (let uri = (if uri = [] then ''mongodb://localhost:27018'' else uri) in
      if dataDir = [] then Inl (ErrText ''DUMBODB_DATA_DIR is required'')
      else case connect of Some e \<Rightarrow> Inl (ErrWrap ''dumbodb: connect: '' e)
        | None \<Rightarrow> (case ping of Some e \<Rightarrow> Inl (ErrWrap (''dumbodb: ping '' @ uri @ '': '') e)
          | None \<Rightarrow> Inr \<lparr>db_dbName = ''storage_'' @ itoa nano, db_currentBranch = ''main'', db_dataDir = dataDir,
                          db_lastGC = None\<rparr>))"

definition doc_bson :: "Doc \<Rightarrow> doc" where
  "doc_bson d = [(''_id'', BString (dc_ID d)), (''email'', BString (dc_Email d)),
     (''name'', BString (dc_Name d)), (''age'', BInt64 (dc_Age d))]"

text \<open>Collections are made by the first insertion.\<close>

definition dumbo_Setup :: "backend_call list" where
  "dumbo_Setup = []"

definition dumbo_InsertBatch :: "DumboDBBackend \<Rightarrow> Doc list \<Rightarrow> backend_call list" where
  "dumbo_InsertBatch b docs = map (\<lambda>c. InsertMany (encodedDB b) (map doc_bson c)) (chunks batchSize docs)"

definition dumbo_UpdateEmail :: "DumboDBBackend \<Rightarrow> string \<Rightarrow> string \<Rightarrow> backend_call list" where
  "dumbo_UpdateEmail b ident newEmail =
     [UpdateOne (encodedDB b) [(''_id'', BString ident)] [(''$set'', BDoc [(''email'', BString newEmail)])]]"

definition dumbo_Commit :: "DumboDBBackend \<Rightarrow> string \<Rightarrow> backend_call list" where
  "dumbo_Commit b msg = [RunCommand (encodedDB b) [(''dumboCommit'', BInt32 1), (''message'', BString msg)]]"

definition dumbo_CreateBranch :: "DumboDBBackend \<Rightarrow> string \<Rightarrow> backend_call list" where
  "dumbo_CreateBranch b branch =
     [RunCommand (encodedDB b) [(''dumboBranch'', BInt32 1), (''action'', BString ''add''), (''branch'', BString branch)]]"

definition dumbo_Checkout :: "string \<Rightarrow> DumboDBBackend \<Rightarrow> DumboDBBackend" where
  "dumbo_Checkout branch b = b\<lparr>db_currentBranch := branch\<rparr>"

definition dumbo_Merge :: "DumboDBBackend \<Rightarrow> string \<Rightarrow> backend_call list" where
  "dumbo_Merge b fromBranch =
     [RunCommand (encodedDB b) [(''dumboMerge'', BInt32 1), (''mergeIn'', BString fromBranch)]]"

definition LastGCStats :: "DumboDBBackend \<Rightarrow> int \<times> int \<times> bool" where
  "LastGCStats b = (case db_lastGC b of None \<Rightarrow> (0, 0, False) | Some (sz, n) \<Rightarrow> (sz, n, True))"

definition dumbo_Close :: "DumboDBBackend \<Rightarrow> backend_call list" where
  "dumbo_Close b = [DropDatabase (db_dbName b)]"

section \<open>Dolt\<close>

definition quoted :: "string \<Rightarrow> string" where
  "quoted name = ''`'' @ name @ ''`''"

definition NewDoltBackend_calls :: "string \<Rightarrow> backend_call list" where
  "NewDoltBackend_calls dbName = [Exec (''CREATE DATABASE '' @ quoted dbName) [], Exec (''USE '' @ quoted dbName) []]"

definition NewDoltBackend :: "string \<Rightarrow> string \<Rightarrow> goerror option \<Rightarrow> goerror option \<Rightarrow> int \<Rightarrow>
    (backend_call \<Rightarrow> goerror option) \<Rightarrow> goerror + string \<times> string" where
  "NewDoltBackend uri dataDir opened ping nano answer =
     (let uri = (if uri = [] then ''root:@tcp(localhost:3306)/'' else uri);
          dbName = ''storage_'' @ itoa nano in
      if dataDir = [] then Inl (ErrText ''DOLT_DATA_DIR is required'')
      else case opened of Some e \<Rightarrow> Inl (ErrWrap ''dolt: open: '' e)
        | None \<Rightarrow> (case ping of Some e \<Rightarrow> Inl (ErrWrap (''dolt: ping '' @ uri @ '': '') e)
          | None \<Rightarrow> (case answer (NewDoltBackend_calls dbName ! 0) of
              Some e \<Rightarrow> Inl (ErrWrap ''dolt: create database: '' e)
            | None \<Rightarrow> (case answer (NewDoltBackend_calls dbName ! 1) of
                Some e \<Rightarrow> Inl (ErrWrap ''dolt: use database: '' e)
              | None \<Rightarrow> Inr (dbName, dataDir)))))"

text \<open>The statement has its lines indented by tabs.\<close>

definition sql_lines :: "(nat \<times> string) list \<Rightarrow> string" where
  "sql_lines lines = concat (map (\<lambda>(n, l). [CHR 0x0A] @ replicate n (CHR 0x09) @ l) lines)"

definition dolt_Setup :: "backend_call list" where
  "dolt_Setup = [Exec (sql_lines [(2, ''CREATE TABLE users (''),
     (3, ''_id   VARCHAR(64)  PRIMARY KEY,''),
     (3, ''email VARCHAR(255) NOT NULL,''),
     (3, ''name  VARCHAR(255),''),
     (3, ''age   INT''),
     (2, '')'')]) []]"

definition dolt_insert :: "Doc list \<Rightarrow> backend_call" where
  "dolt_insert batch =
     Exec (''INSERT INTO users (_id, email, name, age) VALUES '' @ join '','' (map (\<lambda>d. ''(?,?,?,?)'') batch))
       (concat (map (\<lambda>d. [ArgText (dc_ID d), ArgText (dc_Email d), ArgText (dc_Name d), ArgInt (dc_Age d)]) batch))"

definition dolt_InsertBatch :: "Doc list \<Rightarrow> backend_call list" where
  "dolt_InsertBatch docs = map dolt_insert (chunks batchSize docs)"

definition dolt_UpdateEmail :: "string \<Rightarrow> string \<Rightarrow> backend_call list" where
  "dolt_UpdateEmail ident newEmail = [Exec ''UPDATE users SET email=? WHERE _id=?'' [ArgText newEmail, ArgText ident]]"

definition dolt_Commit :: "string \<Rightarrow> backend_call list" where
  "dolt_Commit msg = [Exec (''CALL DOLT_ADD('' @ [CHR 0x27] @ ''-A'' @ [CHR 0x27] @ '')'') [],
     Exec (''CALL DOLT_COMMIT('' @ [CHR 0x27] @ ''-m'' @ [CHR 0x27] @ '', ?)'') [ArgText msg]]"

definition dolt_CreateBranch :: "string \<Rightarrow> backend_call list" where
  "dolt_CreateBranch branch = [Exec ''CALL DOLT_BRANCH(?)'' [ArgText branch]]"

definition dolt_Checkout :: "string \<Rightarrow> backend_call list" where
  "dolt_Checkout branch = [Exec ''CALL DOLT_CHECKOUT(?)'' [ArgText branch]]"

definition dolt_Merge :: "string \<Rightarrow> backend_call list" where
  "dolt_Merge fromBranch = [Exec ''CALL DOLT_MERGE(?)'' [ArgText fromBranch]]"

definition dolt_Close :: "string \<Rightarrow> backend_call list" where
  "dolt_Close dbName = [Exec (''DROP DATABASE IF EXISTS '' @ quoted dbName) []]"

text \<open>A merge is timed; a failed one reports no time.\<close>

definition timed_merge :: "goerror option \<Rightarrow> duration \<Rightarrow> duration \<times> goerror option" where
  "timed_merge result elapsed = (case result of Some e \<Rightarrow> (0, Some e) | None \<Rightarrow> (elapsed, None))"

section \<open>Dolt with a JSON column\<close>

definition hex_digits :: string where "hex_digits = ''0123456789abcdef''"

text \<open>\<open>json.Marshal\<close> of a string: the escapes of encoding/json, HTML-safe.\<close>

fun json_chars :: "string \<Rightarrow> string" where
  "json_chars [] = []"
| "json_chars (x # s) =
     (let n = of_char x :: nat in
      if x = CHR 0x22 \<or> x = CHR 0x5C then CHR 0x5C # x # json_chars s
      else if n = 8 then CHR 0x5C # CHR ''b'' # json_chars s
      else if n = 12 then CHR 0x5C # CHR ''f'' # json_chars s
      else if n = 10 then CHR 0x5C # CHR ''n'' # json_chars s
      else if n = 13 then CHR 0x5C # CHR ''r'' # json_chars s
      else if n = 9 then CHR 0x5C # CHR ''t'' # json_chars s
      else if n < 32 \<or> x = CHR ''<'' \<or> x = CHR ''>'' \<or> x = CHR ''&''
      then CHR 0x5C # ''u00'' @ [hex_digits ! (n div 16), hex_digits ! (n mod 16)] @ json_chars s
      else if x = CHR 0xE2 \<and> (take 2 s = [CHR 0x80, CHR 0xA8] \<or> take 2 s = [CHR 0x80, CHR 0xA9])
      then CHR 0x5C # ''u202'' @ (if take 2 s = [CHR 0x80, CHR 0xA8] then ''8'' else ''9'') @ json_chars (drop 2 s)
      else x # json_chars s)"

definition json_string :: "string \<Rightarrow> string" where
  "json_string s = [CHR 0x22] @ json_chars s @ [CHR 0x22]"

text \<open>The keys of a marshalled map are sorted.\<close>

definition json_payload :: "Doc \<Rightarrow> string" where
  "json_payload d =
     ''{'' @ json_string ''age'' @ '':'' @ itoa (dc_Age d) @ '','' @ json_string ''email'' @ '':'' @ json_string (dc_Email d) @
     '','' @ json_string ''name'' @ '':'' @ json_string (dc_Name d) @ ''}''"

definition json_Setup :: "backend_call list" where
  "json_Setup = [Exec (sql_lines [(2, ''CREATE TABLE users (''),
     (3, ''_id VARCHAR(64) PRIMARY KEY,''),
     (3, ''doc JSON        NOT NULL''),
     (2, '')'')]) []]"

definition json_insert :: "Doc list \<Rightarrow> backend_call" where
  "json_insert batch =
     Exec (''INSERT INTO users (_id, doc) VALUES '' @ join '','' (map (\<lambda>d. ''(?, ?)'') batch))
       (concat (map (\<lambda>d. [ArgText (dc_ID d), ArgText (json_payload d)]) batch))"

definition json_InsertBatch :: "Doc list \<Rightarrow> backend_call list" where
  "json_InsertBatch docs = map json_insert (chunks batchSize docs)"

definition json_UpdateEmail :: "string \<Rightarrow> string \<Rightarrow> backend_call list" where
  "json_UpdateEmail ident newEmail =
     [Exec (''UPDATE users SET doc = JSON_SET(doc, '' @ [CHR 0x27] @ ''$.email'' @ [CHR 0x27] @ '', ?) WHERE _id=?'')
        [ArgText newEmail, ArgText ident]]"

section \<open>Sizes\<close>

text \<open>\<open>dirBytes\<close>: the walk visits entries in order and stops at the first error.\<close>

datatype dir_entry = DirEntry | FileEntry "goerror + int" | BadEntry goerror

fun dirBytes :: "dir_entry list \<Rightarrow> int \<Rightarrow> int \<times> goerror option" where
  "dirBytes [] t = (t, None)"
| "dirBytes (DirEntry # es) t = dirBytes es t"
| "dirBytes (FileEntry (Inr n) # es) t = dirBytes es (t + n)"
| "dirBytes (FileEntry (Inl e) # es) t = (t, Some e)"
| "dirBytes (BadEntry e # es) t = (t, Some e)"

text \<open>\<open>settledDirBytes\<close>: collect and measure again until a pass no longer shrinks the store by more
  than a thousandth (at least 64 bytes). \<open>gc p\<close> is the collection of pass \<open>p\<close>, which may change the
  backend, and \<open>walk p\<close> what it measures; the initial previous size is -1.\<close>

definition tolerance :: "int \<Rightarrow> int" where
  "tolerance prev = (let tol = prev div 1000 in if tol < 64 then 64 else tol)"

fun settle :: "(nat \<Rightarrow> 's \<Rightarrow> goerror option \<times> 's) \<Rightarrow> (nat \<Rightarrow> int \<times> goerror option) \<Rightarrow> nat \<Rightarrow> nat \<Rightarrow> int \<Rightarrow> 's \<Rightarrow>
    (goerror + int) \<times> 's" where
  "settle gc walk 0 pass prev st = (Inr prev, st)"
| "settle gc walk (Suc left) pass prev st =
     (case gc pass st of
        (Some e, st') \<Rightarrow> (Inl e, st')
      | (None, st') \<Rightarrow> (case walk pass of
          (_, Some e) \<Rightarrow> (Inl e, st')
        | (cur, None) \<Rightarrow>
            if 0 \<le> prev \<and> cur \<ge> prev - tolerance prev then (Inr (if cur < prev then cur else prev), st')
            else settle gc walk left (Suc pass) cur st'))"

definition settledDirBytes :: "nat \<Rightarrow> (nat \<Rightarrow> 's \<Rightarrow> goerror option \<times> 's) \<Rightarrow> (nat \<Rightarrow> int \<times> goerror option) \<Rightarrow> 's \<Rightarrow>
    (goerror + int) \<times> 's" where
  "settledDirBytes maxPasses gc walk st = settle gc walk maxPasses 0 (-1) st"

text \<open>A collection of DumboDB answers the size and the number of chunks it left, which the backend
  keeps.\<close>

definition dumbo_gc :: "(nat \<Rightarrow> goerror + int \<times> int) \<Rightarrow> nat \<Rightarrow> DumboDBBackend \<Rightarrow> goerror option \<times> DumboDBBackend" where
  "dumbo_gc answer pass b =
     (case answer pass of
        Inl e \<Rightarrow> (Some (ErrWrap ''dumbodb gc: '' e), b)
      | Inr stats \<Rightarrow> (None, b\<lparr>db_lastGC := Some stats\<rparr>))"

definition dumbo_StorageBytes :: "(nat \<Rightarrow> goerror + int \<times> int) \<Rightarrow> (nat \<Rightarrow> int \<times> goerror option) \<Rightarrow> DumboDBBackend \<Rightarrow>
    (goerror + int) \<times> DumboDBBackend" where
  "dumbo_StorageBytes answer walk b = settledDirBytes 4 (dumbo_gc answer) walk b"

definition dolt_StorageBytes :: "goerror option \<Rightarrow> int \<times> goerror option \<Rightarrow> int \<times> goerror option" where
  "dolt_StorageBytes gc walk = (case gc of Some e \<Rightarrow> (0, Some (ErrWrap ''dolt gc: '' e)) | None \<Rightarrow> walk)"

definition fmtBytes :: "int \<Rightarrow> string" where
  "fmtBytes b =
     (if 2 ^ 30 \<le> b then fmt_fixed False 1 (float_div (float_of_int b) (float_of_int (2 ^ 30))) @ '' GB''
      else if 2 ^ 20 \<le> b then fmt_fixed False 1 (float_div (float_of_int b) (float_of_int (2 ^ 20))) @ '' MB''
      else if 2 ^ 10 \<le> b then fmt_fixed False 1 (float_div (float_of_int b) (float_of_int (2 ^ 10))) @ '' KB''
      else itoa b @ '' B'')"

definition logStorageDiag :: "string \<Rightarrow> (int \<times> int \<times> bool) option \<Rightarrow> int \<Rightarrow> int \<Rightarrow> string option" where
  "logStorageDiag name stats n dirSize =
     (case stats of None \<Rightarrow> None
      | Some (sizeAfter, chunksAfter, present) \<Rightarrow>
          if \<not> present \<or> sizeAfter \<le> 0 then None
          else Some (''[storage-diag] '' @ name @ '' n='' @ itoa n @ '' dirBytes='' @ itoa dirSize @ '' gcSizeAfter='' @
            itoa sizeAfter @ '' chunksAfter='' @ itoa chunksAfter @ '' dir/gc='' @
            fmt_fixed False 3 (float_div (float_of_int dirSize) (float_of_int sizeAfter))))"

section \<open>Tables\<close>

definition widen :: "string list \<Rightarrow> nat list \<Rightarrow> nat list" where
  "widen row widths = map (\<lambda>i. if i < length row then max (widths ! i) (length (row ! i)) else widths ! i)
     [0..<length widths]"

definition column_widths :: "string list \<Rightarrow> string list list \<Rightarrow> nat list" where
  "column_widths headers rows = fold widen rows (map length headers)"

text \<open>\<open>%-*s\<close> pads to a number of runes: bytes that do not continue a rune.\<close>

definition rune_count :: "string \<Rightarrow> nat" where
  "rune_count s = length (filter (\<lambda>x. \<not> (128 \<le> (of_char x :: nat) \<and> of_char x < (192 :: nat))) s)"

definition pad_right :: "nat \<Rightarrow> string \<Rightarrow> string" where
  "pad_right w s = s @ replicate (w - rune_count s) (CHR '' '')"

text \<open>A row with more cells than there are headers indexes past the widths: a panic.\<close>

definition format_row :: "nat list \<Rightarrow> string list \<Rightarrow> string option" where
  "format_row widths cells =
     (if length widths < length cells then None
      else Some (join '' | '' (map2 pad_right widths cells)))"

definition separator :: "nat list \<Rightarrow> string" where
  "separator widths = join ''-+-'' (map (\<lambda>w. replicate w (CHR ''-'')) widths)"

definition printTable :: "string list \<Rightarrow> string list list \<Rightarrow> string option list" where
  "printTable headers rows =
     (let widths = column_widths headers rows
      in format_row widths headers # Some (separator widths) # map (format_row widths) rows)"

end
