(* ===== verification/StorageFacts.thy ===== *)
theory StorageFacts
  imports Storage
begin

text \<open>
  What the storage benchmarks rely on: every backend is sent the same documents in the same batches;
  the size reported is the smallest one measured; a table's lines have one length.
\<close>

section \<open>Batches\<close>

lemma chunks_concat: "0 < n \<Longrightarrow> concat (chunks n xs) = xs"
proof (induction n xs rule: chunks.induct)
  case (1 n xs)
  then show ?case by (subst chunks.simps) auto
qed

lemma chunks_bounds: "c \<in> set (chunks n xs) \<Longrightarrow> c \<noteq> [] \<and> length c \<le> n"
proof (induction n xs rule: chunks.induct)
  case (1 n xs)
  from "1.prems" show ?case
    by (subst (asm) chunks.simps) (use "1.IH" in \<open>auto split: if_splits\<close>)
qed

text \<open>The documents a call inserts, read back from what it sends.\<close>

definition bson_doc :: "doc \<Rightarrow> Doc option" where
  "bson_doc d =
     (case d of [(_, BString i), (_, BString e), (_, BString n), (_, BInt64 a)] \<Rightarrow>
        Some \<lparr>dc_ID = i, dc_Email = e, dc_Name = n, dc_Age = a\<rparr> | _ \<Rightarrow> None)"

fun arg_docs :: "sql_arg list \<Rightarrow> Doc list option" where
  "arg_docs [] = Some []"
| "arg_docs (ArgText i # ArgText e # ArgText n # ArgInt a # as) =
     map_option ((#) \<lparr>dc_ID = i, dc_Email = e, dc_Name = n, dc_Age = a\<rparr>) (arg_docs as)"
| "arg_docs as = None"

lemma bson_doc_bson: "bson_doc (doc_bson d) = Some d"
  by (simp add: bson_doc_def doc_bson_def)

lemma arg_docs_insert:
  "arg_docs (concat (map (\<lambda>d. [ArgText (dc_ID d), ArgText (dc_Email d), ArgText (dc_Name d), ArgInt (dc_Age d)]) ds)) = Some ds"
  by (induction ds) auto

fun json_args :: "sql_arg list \<Rightarrow> (string \<times> string) list option" where
  "json_args [] = Some []"
| "json_args (ArgText i # ArgText p # as) = map_option ((#) (i, p)) (json_args as)"
| "json_args as = None"

lemma json_args_insert:
  "json_args (concat (map (\<lambda>d. [ArgText (dc_ID d), ArgText (json_payload d)]) ds)) =
    Some (map (\<lambda>d. (dc_ID d, json_payload d)) ds)"
  by (induction ds) auto

fun inserted :: "backend_call \<Rightarrow> Doc list option" where
  "inserted (InsertMany db ds) = those (map bson_doc ds)"
| "inserted (Exec sql as) = arg_docs as"
| "inserted c = None"

lemma inserted_dumbo: "inserted (InsertMany db (map doc_bson ds)) = Some ds"
  by (simp add: comp_def bson_doc_bson) (induction ds, auto)

lemma inserted_dolt: "inserted (dolt_insert ds) = Some ds"
  by (simp add: dolt_insert_def arg_docs_insert)

text \<open>The two backends that are compared are given the same documents in the same batches, all
  of them, once and in order, in batches of at most 500.\<close>

theorem same_documents_inserted:
  "map inserted (dumbo_InsertBatch b docs) = map inserted (dolt_InsertBatch docs) \<and>
   (\<exists>batches. map inserted (dolt_InsertBatch docs) = map Some batches \<and> concat batches = docs \<and>
     list_all (\<lambda>c. c \<noteq> [] \<and> length c \<le> 500) batches)"
proof -
  let ?c = "chunks batchSize docs"
  have "map inserted (dumbo_InsertBatch b docs) = map Some ?c"
    unfolding dumbo_InsertBatch_def by (simp only: map_map comp_def inserted_dumbo) 
  moreover have "map inserted (dolt_InsertBatch docs) = map Some ?c"
    unfolding dolt_InsertBatch_def by (simp only: map_map comp_def inserted_dolt)
  moreover have "concat ?c = docs" by (rule chunks_concat) (simp add: batchSize_def)
  moreover have "list_all (\<lambda>c. c \<noteq> [] \<and> length c \<le> 500) ?c"
    unfolding list_all_iff using chunks_bounds[of _ batchSize docs] by (simp add: batchSize_def)
  ultimately show ?thesis by metis
qed

section \<open>Settling\<close>

text \<open>The state after the collections of the passes from \<open>p\<close> to \<open>n\<close>.\<close>

definition collected :: "(nat \<Rightarrow> 's \<Rightarrow> goerror option \<times> 's) \<Rightarrow> nat \<Rightarrow> nat \<Rightarrow> 's \<Rightarrow> 's" where
  "collected gc p n st = fold (\<lambda>q s. snd (gc q s)) [p..<Suc n] st"

lemma collected_self: "collected gc p p st = snd (gc p st)"
  by (simp add: collected_def)

lemma collected_Suc: "Suc p \<le> n \<Longrightarrow> collected gc p n st = collected gc (Suc p) n (snd (gc p st))"
  by (simp add: collected_def upt_conv_Cons del: upt_Suc)

text \<open>The sizes measured before the loop ends, given that nothing fails.\<close>

lemma settle_min:
  assumes "\<And>p s. fst (gc p s) = None" "\<And>p. walk p = (sz p, None)" "\<And>p. 0 \<le> sz p"
  shows "0 < left \<Longrightarrow> (0 < pass \<longrightarrow> prev = sz (pass - 1)) \<Longrightarrow> (pass = 0 \<longrightarrow> prev = -1) \<Longrightarrow>
    (\<forall>p < pass. prev \<le> sz p) \<Longrightarrow>
    \<exists>n. pass \<le> n \<and> n < pass + left \<and>
      settle gc walk left pass prev st = (Inr (Min (sz ` {0..n})), collected gc pass n st)"
proof (induction left arbitrary: pass prev st)
  case (Suc left)
  let ?cur = "sz pass"
  obtain st' where gc: "gc pass st = (None, st')" using assms(1) by (metis prod.collapse)
  have below: "prev \<le> sz p" if "p < pass" for p using Suc.prems(4) that by blast
  show ?case
  proof (cases "0 \<le> prev \<and> ?cur \<ge> prev - tolerance prev")
    case True
    then have "0 < pass" "prev = sz (pass - 1)" using Suc.prems(2,3) by auto
    have le: "(if ?cur < prev then ?cur else prev) \<le> sz p" if "p \<le> pass" for p
      using that below[of p] by (cases "p = pass") (auto simp: le_less)
    have "(if ?cur < prev then ?cur else prev) \<in> sz ` {0..pass}"
    proof (cases "?cur < prev")
      case False
      have "sz (pass - 1) \<in> sz ` {0..pass}" by (rule imageI) simp
      with False show ?thesis using \<open>prev = sz (pass - 1)\<close> by simp
    qed simp
    then have "Min (sz ` {0..pass}) = (if ?cur < prev then ?cur else prev)"
      by (intro Min_eqI) (simp, use le in \<open>auto simp del: if_split\<close>)
    then show ?thesis using True assms(2) gc by (intro exI[of _ pass]) (simp add: collected_self)
  next
    case False
    have step: "settle gc walk (Suc left) pass prev st = settle gc walk left (Suc pass) ?cur st'"
      using False assms(2) gc by auto
    have smaller: "\<forall>p < Suc pass. ?cur \<le> sz p"
    proof (intro allI impI)
      fix p assume "p < Suc pass"
      then consider "p = pass" | "p < pass" by linarith
      then show "?cur \<le> sz p"
      proof cases
        case 2
        then have "0 \<le> prev" using Suc.prems(2) assms(3) by auto
        with False have "?cur < prev" by (auto simp: tolerance_def Let_def split: if_splits)
        then show ?thesis using below[OF 2] by linarith
      qed simp
    qed
    show ?thesis
    proof (cases left)
      case 0
      have "Min (sz ` {0..pass}) = ?cur" by (intro Min_eqI) (use smaller in auto)
      then show ?thesis using step 0 gc by (intro exI[of _ pass]) (simp add: collected_self)
    next
      case (Suc k)
      with Suc.IH[of "Suc pass" ?cur st'] smaller obtain n where
        "Suc pass \<le> n" "n < Suc pass + left"
        "settle gc walk left (Suc pass) ?cur st' = (Inr (Min (sz ` {0..n})), collected gc (Suc pass) n st')"
        by auto
      then show ?thesis using step gc by (intro exI[of _ n]) (simp add: collected_Suc)
    qed
  qed
qed simp

lemma collected_dumbo:
  "(\<And>p. answer p = Inr (stats p)) \<Longrightarrow> collected (dumbo_gc answer) p n b = (if n < p then b else b\<lparr>db_lastGC := Some (stats n)\<rparr>)"
  by (induction n) (auto simp: collected_def dumbo_gc_def)

text \<open>When nothing fails, the size reported is the smallest measured in any of the passes made,
  of which there are at least one and at most four; and the statistics kept are those of the last of
  them.\<close>

theorem settled_size_minimum:
  assumes "\<And>p. answer p = Inr (stats p)" "\<And>p. walk p = (sz p, None)" "\<And>p. 0 \<le> sz p"
  shows "\<exists>n < 4. dumbo_StorageBytes answer walk b = (Inr (Min (sz ` {0..n})), b\<lparr>db_lastGC := Some (stats n)\<rparr>)"
proof -
  have "fst (dumbo_gc answer p s) = None" for p s by (simp add: dumbo_gc_def assms(1))
  with settle_min[of "dumbo_gc answer" walk sz 4 0 "-1" b] assms(2,3) show ?thesis
    by (auto simp: dumbo_StorageBytes_def settledDirBytes_def collected_dumbo[OF assms(1)])
qed

lemma settled_size_minimum_witness:
  "\<exists>n < 4. dumbo_StorageBytes (\<lambda>p. Inr (900, 7 - int p)) (\<lambda>p. (if p = 0 then 3000 else 1000, None))
      \<lparr>db_dbName = ''storage_1'', db_currentBranch = ''main'', db_dataDir = ''/data'', db_lastGC = None\<rparr> =
    (Inr (Min ((\<lambda>p :: nat. if p = 0 then 3000 else 1000) ` {0..n})),
      \<lparr>db_dbName = ''storage_1'', db_currentBranch = ''main'', db_dataDir = ''/data'', db_lastGC = None\<rparr>\<lparr>db_lastGC := Some (900, 7 - int n)\<rparr>)"
  by (rule settled_size_minimum) simp_all

section \<open>Tables\<close>

lemma length_widen [simp]: "length (widen row ws) = length ws"
  by (simp add: widen_def)

lemma widen_ge: "i < length ws \<Longrightarrow> ws ! i \<le> widen row ws ! i \<and> (i < length row \<longrightarrow> length (row ! i) \<le> widen row ws ! i)"
  by (simp add: widen_def)

lemma fold_widen:
  "length (fold widen rows ws) = length ws \<and>
   (\<forall>i < length ws. ws ! i \<le> fold widen rows ws ! i \<and>
      (\<forall>row \<in> set rows. i < length row \<longrightarrow> length (row ! i) \<le> fold widen rows ws ! i))"
proof (induction rows arbitrary: ws)
  case (Cons row rows)
  from Cons[of "widen row ws"] widen_ge[of _ ws row] show ?case by (auto intro: order_trans)
qed simp

definition ascii_text :: "string \<Rightarrow> bool" where
  "ascii_text s \<longleftrightarrow> list_all (\<lambda>x. (of_char x :: nat) < 128) s"

lemma pad_right_length:
  assumes "ascii_text s" "length s \<le> w"
  shows "length (pad_right w s) = w"
proof -
  have "rune_count s = length s"
    using assms(1) unfolding rune_count_def ascii_text_def
    by (subst filter_True) (auto simp: list_all_iff)
  then show ?thesis using assms(2) by (simp add: pad_right_def)
qed

lemma join_length: "length (join sep xs) = sum_list (map length xs) + (length xs - 1) * length sep"
  by (induction sep xs rule: join.induct) simp_all

lemma row_length:
  assumes "length cells = length ws" "\<And>i. i < length ws \<Longrightarrow> ascii_text (cells ! i) \<and> length (cells ! i) \<le> ws ! i"
  shows "\<exists>l. format_row ws cells = Some l \<and> length l = sum_list ws + (length ws - 1) * 3"
proof -
  have "map length (map2 pad_right ws cells) = ws"
    using assms by (intro nth_equalityI) (simp_all add: pad_right_length)
  then show ?thesis using assms(1) by (simp add: format_row_def join_length)
qed

text \<open>When every row has a cell for every header and the cells are ASCII, the table prints, and
  its heading, its rule and all its rows have the same length.\<close>

theorem printTable_aligned:
  assumes "\<forall>row \<in> set (headers # rows). length row = length headers \<and> list_all ascii_text row"
  shows "\<exists>n. list_all (\<lambda>l. \<exists>s. l = Some s \<and> length s = n) (printTable headers rows)"
proof -
  let ?ws = "column_widths headers rows"
  have ws: "length ?ws = length headers"
    "\<And>i row. i < length headers \<Longrightarrow> row \<in> set (headers # rows) \<Longrightarrow> i < length row \<Longrightarrow> length (row ! i) \<le> ?ws ! i"
    using fold_widen[of rows "map length headers"] by (auto simp: column_widths_def)
  have row: "\<exists>l. format_row ?ws row = Some l \<and> length l = sum_list ?ws + (length ?ws - 1) * 3"
    if "row \<in> set (headers # rows)" for row
    using assms ws that by (intro row_length) (auto simp: list_all_length)
  have "length (separator ?ws) = sum_list ?ws + (length ?ws - 1) * 3"
    by (simp add: separator_def join_length comp_def)
  then show ?thesis
    using row by (intro exI[of _ "sum_list ?ws + (length ?ws - 1) * 3"])
      (auto simp: printTable_def Let_def list_all_iff)
qed

lemma printTable_aligned_witness:
  "\<exists>n. list_all (\<lambda>l. \<exists>s. l = Some s \<and> length s = n) (printTable [''name'', ''n''] [[''dolt'', ''12'']])"
  by (rule printTable_aligned) (simp add: ascii_text_def)

end
