(* ===== verification/Connections.thy ===== *)
theory Connections
  imports Servers TlsLab
begin

text \<open>
  The harness's client connections: the shared clients of the suite and the database of one test
  (src/harness/setup.go), the administrators of the access-controlled servers and their bootstrap
  (auth.go), connecting as a user (auth_user.go), and the commands of the user and role fixtures
  (auth_fixtures.go). The driver is a record of operations on an unknown world; a session keeps the
  clients that have been connected and not yet disconnected.
\<close>

section \<open>The driver\<close>

record 'w session =
  ss_open :: "int set"
  ss_world :: 'w

record 'w client_driver =
  dr_Connect :: "string \<Rightarrow> Credential option \<Rightarrow> 'w \<Rightarrow> (goerror + int) \<times> 'w"
  dr_Ping :: "int \<Rightarrow> duration option \<Rightarrow> 'w \<Rightarrow> goerror option \<times> 'w"     \<comment> \<open>with its own timeout, or the caller's\<close>
  dr_RunCommand :: "int \<Rightarrow> string \<Rightarrow> doc \<Rightarrow> 'w \<Rightarrow> goerror option \<times> 'w"

definition dialed :: "'w client_driver \<Rightarrow> string \<Rightarrow> Credential option \<Rightarrow> ('w session, int) act" where
  "dialed d uri cred m =
     (case dr_Connect d uri cred (ss_world m) of
        (Inl e, w) \<Rightarrow> Some (Inl e, m\<lparr>ss_world := w\<rparr>)
      | (Inr c, w) \<Rightarrow> Some (Inr c, m\<lparr>ss_world := w, ss_open := insert c (ss_open m)\<rparr>))"

text \<open>A call that returns only an error.\<close>

definition calling :: "('w \<Rightarrow> goerror option \<times> 'w) \<Rightarrow> ('w session, goerror option) act" where
  "calling f m = (case f (ss_world m) of (e, w) \<Rightarrow> Some (Inr e, m\<lparr>ss_world := w\<rparr>))"

definition disconnect :: "int \<Rightarrow> ('w session, unit) act" where
  "disconnect c = change (\<lambda>m. m\<lparr>ss_open := ss_open m - {c}\<rparr>)"

section \<open>Connecting\<close>

definition connect :: "'w client_driver \<Rightarrow> string \<Rightarrow> Credential option \<Rightarrow> ('w session, int) act" where
  "connect d uri cred =
     and_then (dialed d uri cred) (\<lambda>c.
     and_then (calling (dr_Ping d c (Some 10000000000))) (\<lambda>e. case e of
       Some err \<Rightarrow> and_then (disconnect c) (\<lambda>_. fail err)
     | None \<Rightarrow> ok c))"

definition user_credential :: "string \<Rightarrow> string \<Rightarrow> string \<Rightarrow> Credential" where
  "user_credential user password authSource =
     \<lparr>cd_AuthMechanism = [], cd_AuthSource = authSource, cd_Username = user, cd_Password = password\<rparr>"

definition user_ConnectAs :: "'w client_driver \<Rightarrow> string \<Rightarrow> string \<Rightarrow> string \<Rightarrow> string \<Rightarrow> ('w session, int) act" where
  "user_ConnectAs d baseURI user password authSource =
     connect d baseURI (Some (user_credential user password authSource))"

definition ConnectAsMech ::
    "'w client_driver \<Rightarrow> string \<Rightarrow> string \<Rightarrow> string \<Rightarrow> string \<Rightarrow> string \<Rightarrow> ('w session, int) act" where
  "ConnectAsMech d baseURI user password authSource mechanism =
     (let cred = user_credential user password authSource in
      connect d baseURI (Some (if mechanism \<noteq> [] then cred\<lparr>cd_AuthMechanism := mechanism\<rparr> else cred)))"

definition ConnectNoAuth :: "'w client_driver \<Rightarrow> string \<Rightarrow> ('w session, int) act" where
  "ConnectNoAuth d baseURI = connect d baseURI None"

text \<open>The code and name of an error, and whether it has one; the code of a write error is an
  \<open>int\<close> truncated to 32 bits.\<close>

definition CommandErrorCode :: "goerror option \<Rightarrow> int \<times> string \<times> bool" where
  "CommandErrorCode err =
     (case err of None \<Rightarrow> (0, [], False)
      | Some e \<Rightarrow> (case as_CommandError e of
          Some ce \<Rightarrow> (ce_Code ce, ce_Name ce, True)
        | None \<Rightarrow> (case as_WriteException e of
            Some we \<Rightarrow> (case wx_WriteErrors we of
                w # _ \<Rightarrow> (signed_take_bit 31 (we_Code w), [], True)
              | [] \<Rightarrow> (0, [], False))
          | None \<Rightarrow> (0, [], False))))"

section \<open>The administrators\<close>

definition envOr :: "'w os \<Rightarrow> string \<Rightarrow> string \<Rightarrow> string" where
  "envOr os k d = (if os_Getenv os k \<noteq> [] then os_Getenv os k else d)"

definition AdminUser :: "'w os \<Rightarrow> string" where
  "AdminUser os = envOr os ''MONGO_ADMIN_USER'' ''admin''"

definition AdminPassword :: "'w os \<Rightarrow> string" where
  "AdminPassword os = envOr os ''MONGO_ADMIN_PWD'' ''admin-pw''"

definition admin_credential :: "'w os \<Rightarrow> Credential" where
  "admin_credential os = user_credential (AdminUser os) (AdminPassword os) ''admin''"

definition create_admin_command :: "'w os \<Rightarrow> doc" where
  "create_admin_command os =
     [(''createUser'', BString (AdminUser os)), (''pwd'', BString (AdminPassword os)),
      (''roles'', BArr [BDoc [(''role'', BString ''root''), (''db'', BString ''admin'')]])]"

definition isAlreadyBootstrapped :: "goerror \<Rightarrow> bool" where
  "isAlreadyBootstrapped e =
     (case as_CommandError e of
        Some ce \<Rightarrow> ce_Code ce = 13 \<or> ce_Code ce = 11000 \<or> ce_Code ce = 51003
      | None \<Rightarrow> False)"

text \<open>The unauthenticated client is disconnected when the function returns.\<close>

definition confirm_admin :: "'w os \<Rightarrow> 'w client_driver \<Rightarrow> string \<Rightarrow> goerror \<Rightarrow> ('w session, unit) act" where
  "confirm_admin os d baseURI createErr =
     handling (connect d baseURI (Some (admin_credential os))) (\<lambda>r. case r of
       Inl e \<Rightarrow> fail (ErrWrap ''admin already present but auth failed: ''
                 (ErrSuffix e ('' (createUser: '' @ error_text createErr @ '')'')))
     | Inr c \<Rightarrow> disconnect c)"

definition bootstrapAdmin :: "'w os \<Rightarrow> 'w client_driver \<Rightarrow> string \<Rightarrow> ('w session, unit) act" where
  "bootstrapAdmin os d baseURI =
     and_then (connect d baseURI None) (\<lambda>noAuth.
     handling
       (and_then (calling (dr_RunCommand d noAuth ''admin'' (create_admin_command os))) (\<lambda>e. case e of
          None \<Rightarrow> ok ()
        | Some createErr \<Rightarrow>
            if isAlreadyBootstrapped createErr then confirm_admin os d baseURI createErr else fail createErr))
       (\<lambda>r. and_then (disconnect noAuth) (\<lambda>_. case r of Inl e \<Rightarrow> fail e | Inr _ \<Rightarrow> ok ())))"

record AuthClients =
  ac_MongoAdmin :: int
  ac_DumboDBAdmin :: int

text \<open>An action that, when it fails, disconnects the clients already opened.\<close>

definition or_disconnect :: "int list \<Rightarrow> ('w session, 'a) act \<Rightarrow> ('w session, 'a) act" where
  "or_disconnect cs c =
     handling c (\<lambda>r. case r of
       Inr x \<Rightarrow> ok x
     | Inl e \<Rightarrow> and_then (change (\<lambda>m. m\<lparr>ss_open := ss_open m - set cs\<rparr>)) (\<lambda>_. fail e))"

definition open_auth_clients :: "'w os \<Rightarrow> 'w client_driver \<Rightarrow> serverSet \<Rightarrow> ('w session, AuthClients) act" where
  "open_auth_clients os d servers =
     (let cred = Some (admin_credential os) in
      and_then (wrapping ''bootstrap mongo admin: '' (bootstrapAdmin os d (ss_authMongoURI servers))) (\<lambda>_.
      and_then (wrapping ''connect mongo admin: '' (connect d (ss_authMongoURI servers) cred)) (\<lambda>mc.
      and_then (or_disconnect [mc]
        (wrapping ''bootstrap dumbodb admin: '' (bootstrapAdmin os d (ss_authDumboURI servers)))) (\<lambda>_.
      and_then (or_disconnect [mc]
        (wrapping ''connect dumbodb admin: '' (connect d (ss_authDumboURI servers) cred))) (\<lambda>dc.
        ok \<lparr>ac_MongoAdmin = mc, ac_DumboDBAdmin = dc\<rparr>)))))"

text \<open>\<open>sync.Once\<close>: the outcome of the first call is every call's.\<close>

definition once :: "('m, 'a) act \<Rightarrow> (goerror + 'a) option \<Rightarrow> 'm \<Rightarrow> ((goerror + 'a) option \<times> 'm) option" where
  "once c before m = (case before of Some r \<Rightarrow> Some (Some r, m) | None \<Rightarrow> map_option (\<lambda>(r, m'). (Some r, m')) (c m))"

definition GetAuthClients where
  "GetAuthClients os d servers = once (open_auth_clients os d servers)"

section \<open>The shared clients\<close>

record Clients =
  cl_Mongo :: int
  cl_MongoRS :: "int option"
  cl_DumboDB :: int

definition ping :: "'w client_driver \<Rightarrow> int \<Rightarrow> ('w session, unit) act" where
  "ping d c = and_then (calling (dr_Ping d c None)) (\<lambda>e. case e of None \<Rightarrow> ok () | Some err \<Rightarrow> fail err)"

definition open_clients :: "'w client_driver \<Rightarrow> serverSet \<Rightarrow> ('w session, Clients) act" where
  "open_clients d servers =
     and_then (wrapping ''connect mongo: '' (dialed d (ss_mongoURI servers) None)) (\<lambda>mc.
     and_then (wrapping ''ping mongo: '' (ping d mc)) (\<lambda>_.
     and_then (or_disconnect [mc]
       (wrapping ''connect mongo replica set: '' (dialed d (ss_rsURI servers) None))) (\<lambda>rsc.
     and_then (or_disconnect [mc, rsc] (wrapping ''ping mongo replica set: '' (ping d rsc))) (\<lambda>_.
     and_then (or_disconnect [mc, rsc]
       (wrapping ''connect dumbodb: '' (dialed d (ss_dumboURI servers) None))) (\<lambda>dc.
     and_then (wrapping ''ping dumbodb: '' (ping d dc)) (\<lambda>_.
       ok \<lparr>cl_Mongo = mc, cl_MongoRS = Some rsc, cl_DumboDB = dc\<rparr>))))))"

definition GetClients where
  "GetClients d servers = once (open_clients d servers)"

datatype Topology = TopologyStandalone | TopologyReplicaSet

definition mongoURIForTopology :: "serverSet \<Rightarrow> Topology \<Rightarrow> string" where
  "mongoURIForTopology servers topo =
     (case topo of TopologyReplicaSet \<Rightarrow> ss_rsURI servers | TopologyStandalone \<Rightarrow> ss_mongoURI servers)"

definition clientForTopology :: "Clients \<Rightarrow> Topology \<Rightarrow> int option" where
  "clientForTopology c topo =
     (case topo of TopologyReplicaSet \<Rightarrow> cl_MongoRS c | TopologyStandalone \<Rightarrow> Some (cl_Mongo c))"

section \<open>The database of a test\<close>

fun sanitize :: "nat \<Rightarrow> string \<Rightarrow> string" where
  "sanitize 0 s = []"
| "sanitize (Suc n) [] = []"
| "sanitize (Suc n) (c # s) = (if is_alnum c then c else CHR ''_'') # sanitize n s"

definition sanitizeName :: "string \<Rightarrow> string" where
  "sanitizeName = sanitize 36"

definition test_database :: "string \<Rightarrow> int \<Rightarrow> string" where
  "test_database testName nano = ''parity_'' @ sanitizeName testName @ ''_'' @ itoa nano"

definition ErrTopologyUnavailable :: goerror where
  "ErrTopologyUnavailable =
     ErrText ''harness: requested Mongo topology not configured (set MONGO_RS_URI for ReplicaSet)''"

text \<open>The clients and the database name the two collections are in; the cleanup drops that database
  on both.\<close>

record test_db =
  td_mongo :: int
  td_dumbo :: int
  td_name :: string

definition TestDBForTopology ::
    "'w client_driver \<Rightarrow> Clients \<Rightarrow> string \<Rightarrow> Topology \<Rightarrow> int \<Rightarrow> ('w session, test_db) act" where
  "TestDBForTopology d c testName topo nano =
     (case clientForTopology c topo of
        None \<Rightarrow> fail ErrTopologyUnavailable
      | Some mongo \<Rightarrow>
          and_then (calling (dr_Ping d (cl_DumboDB c) (Some 2000000000))) (\<lambda>e. case e of
            Some err \<Rightarrow> fail (ErrWrap ''dumbodb unreachable (crashed?): '' err)
          | None \<Rightarrow> ok \<lparr>td_mongo = mongo, td_dumbo = cl_DumboDB c, td_name = test_database testName nano\<rparr>))"

definition TestDB where
  "TestDB d c testName = TestDBForTopology d c testName TopologyStandalone"

definition test_db_cleanup :: "test_db \<Rightarrow> (int \<times> string) list" where
  "test_db_cleanup t = [(td_mongo t, td_name t), (td_dumbo t, td_name t)]"

section \<open>User and role fixtures\<close>

record RoleRef =
  rr_Role :: string
  rr_DB :: string

text \<open>A nil list of actions is encoded as null.\<close>

record Privilege =
  pv_Resource :: doc
  pv_Actions :: "string list option"

definition rolesArray :: "RoleRef list \<Rightarrow> bval" where
  "rolesArray roles = BArr (map (\<lambda>r. BDoc [(''role'', BString (rr_Role r)), (''db'', BString (rr_DB r))]) roles)"

definition privilegesArray :: "Privilege list \<Rightarrow> bval" where
  "privilegesArray privs =
     BArr (map (\<lambda>p. BDoc [(''resource'', BDoc (pv_Resource p)),
       (''actions'', case pv_Actions p of None \<Rightarrow> BNull | Some as \<Rightarrow> BArr (map BString as))]) privs)"

definition CreateUser where
  "CreateUser d admin db user pwd roles = dr_RunCommand d admin db
     [(''createUser'', BString user), (''pwd'', BString pwd), (''roles'', rolesArray roles)]"

definition DropUser where
  "DropUser d admin db user = dr_RunCommand d admin db [(''dropUser'', BString user)]"

definition GrantRolesToUser where
  "GrantRolesToUser d admin db user roles = dr_RunCommand d admin db
     [(''grantRolesToUser'', BString user), (''roles'', rolesArray roles)]"

definition RevokeRolesFromUser where
  "RevokeRolesFromUser d admin db user roles = dr_RunCommand d admin db
     [(''revokeRolesFromUser'', BString user), (''roles'', rolesArray roles)]"

definition CreateRole where
  "CreateRole d admin db role privs roles = dr_RunCommand d admin db
     [(''createRole'', BString role), (''privileges'', privilegesArray privs), (''roles'', rolesArray roles)]"

definition DropRole where
  "DropRole d admin db role = dr_RunCommand d admin db [(''dropRole'', BString role)]"

text \<open>\<open>UsersInfo\<close>, up to decoding the reply.\<close>

definition UsersInfo where
  "UsersInfo d admin db user = dr_RunCommand d admin db
     [(''usersInfo'', BDoc [(''user'', BString user), (''db'', BString db)])]"

end
