(* ===== verification/ConnectionsFacts.thy ===== *)
theory ConnectionsFacts
  imports Connections TlsLabFacts
begin

text \<open>
  What the connections guarantee: which clients stay open on each path, the idempotence of the
  administrators' bootstrap, and the bounds and uniqueness of the names of the test databases.
\<close>

section \<open>Open clients\<close>

text \<open>The documented behaviour of the driver: a connection is a new client, and pinging or running a
  command makes none. \<open>used w\<close> are the clients it has made by \<open>w\<close>.\<close>

definition allots :: "'w client_driver \<Rightarrow> ('w \<Rightarrow> int set) \<Rightarrow> bool" where
  "allots d used \<longleftrightarrow>
     (\<forall>uri cred w r w'. dr_Connect d uri cred w = (r, w') \<longrightarrow>
        (case r of Inl e \<Rightarrow> used w' = used w | Inr c \<Rightarrow> c \<notin> used w \<and> used w' = insert c (used w))) \<and>
     (\<forall>c t w. used (snd (dr_Ping d c t w)) = used w) \<and>
     (\<forall>c db cmd w. used (snd (dr_RunCommand d c db cmd w)) = used w)"

definition holding :: "('w \<Rightarrow> int set) \<Rightarrow> int set \<Rightarrow> 'w session \<Rightarrow> bool" where
  "holding used S m \<longleftrightarrow> ss_open m = S \<and> S \<subseteq> used (ss_world m)"

lemma wp_dialed:
  assumes "allots d used" "holding used S m"
    and "\<And>e m'. holding used S m' \<Longrightarrow> Q (Inl e) m'"
    and "\<And>c m'. c \<notin> S \<Longrightarrow> holding used (insert c S) m' \<Longrightarrow> Q (Inr c) m'"
  shows "wp (dialed d uri cred) Q m"
proof -
  obtain r w where r: "dr_Connect d uri cred (ss_world m) = (r, w)" by force
  with assms(1) have w: "case r of Inl e \<Rightarrow> used w = used (ss_world m)
      | Inr c \<Rightarrow> c \<notin> used (ss_world m) \<and> used w = insert c (used (ss_world m))"
    unfolding allots_def by blast
  show ?thesis
  proof (cases r)
    case (Inl e)
    then show ?thesis using r w assms(2,3) by (simp add: wp_def dialed_def holding_def)
  next
    case (Inr c)
    then show ?thesis using r w assms(2) assms(4)[of c "m\<lparr>ss_world := w, ss_open := insert c (ss_open m)\<rparr>"]
      by (auto simp: wp_def dialed_def holding_def)
  qed
qed

lemma wp_calling:
  assumes "holding used S m" "\<And>w. used (snd (f w)) = used w" "\<And>e m'. holding used S m' \<Longrightarrow> Q (Inr e) m'"
  shows "wp (calling f) Q m"
proof -
  obtain e w where f: "f (ss_world m) = (e, w)" by force
  with assms(2)[of "ss_world m"] have "used w = used (ss_world m)" by simp
  with assms(1) f have "holding used S (m\<lparr>ss_world := w\<rparr>)" by (simp add: holding_def)
  with f assms(3) show ?thesis by (simp add: wp_def calling_def)
qed

lemma wp_pinging:
  assumes "allots d used" "holding used S m" "\<And>e m'. holding used S m' \<Longrightarrow> Q (Inr e) m'"
  shows "wp (calling (dr_Ping d c t)) Q m"
  by (rule wp_calling[OF assms(2)]) (use assms(1,3) in \<open>simp_all add: allots_def\<close>)

lemma wp_commanding:
  assumes "allots d used" "holding used S m" "\<And>e m'. holding used S m' \<Longrightarrow> Q (Inr e) m'"
  shows "wp (calling (dr_RunCommand d c db cmd)) Q m"
  by (rule wp_calling[OF assms(2)]) (use assms(1,3) in \<open>simp_all add: allots_def\<close>)

lemma holding_drop: "holding used S m \<Longrightarrow> holding used (S - set cs) (m\<lparr>ss_open := ss_open m - set cs\<rparr>)"
  by (auto simp: holding_def)

lemma wp_disconnect:
  assumes "holding used (insert c S) m" "c \<notin> S" "\<And>m'. holding used S m' \<Longrightarrow> Q (Inr ()) m'"
  shows "wp (disconnect c) Q m"
  using holding_drop[OF assms(1), of "[c]"] assms(2,3) by (simp add: disconnect_def wp_change)

lemma wp_connect:
  assumes "allots d used" "holding used S m"
    and "\<And>e m'. holding used S m' \<Longrightarrow> Q (Inl e) m'"
    and "\<And>c m'. c \<notin> S \<Longrightarrow> holding used (insert c S) m' \<Longrightarrow> Q (Inr c) m'"
  shows "wp (connect d uri cred) Q m"
  unfolding connect_def wp_and_then
proof (rule wp_dialed[OF assms(1,2)])
  fix c m' assume c: "c \<notin> S" and m': "holding used (insert c S) m'"
  have "wp (case e of Some err \<Rightarrow> and_then (disconnect c) (\<lambda>_. fail err) | None \<Rightarrow> ok c) Q m''"
    if "holding used (insert c S) m''" for e m''
    using that c assms(3,4) by (auto simp: wp_simps split: option.split intro: wp_disconnect)
  then show "case Inr c of Inl e \<Rightarrow> Q (Inl e) m' | Inr c \<Rightarrow>
      wp (calling (dr_Ping d c (Some 10000000000))) (\<lambda>r m'. case r of Inl e \<Rightarrow> Q (Inl e) m'
        | Inr e \<Rightarrow> wp (case e of None \<Rightarrow> ok c | Some err \<Rightarrow> and_then (disconnect c) (\<lambda>_. fail err)) Q m') m'"
    using wp_pinging[OF assms(1) m'] by simp
qed (simp add: assms(3))

lemma wp_or_disconnect:
  "wp (or_disconnect cs c) Q m \<longleftrightarrow>
    wp c (\<lambda>r m'. case r of Inl e \<Rightarrow> Q (Inl e) (m'\<lparr>ss_open := ss_open m' - set cs\<rparr>) | Inr x \<Rightarrow> Q (Inr x) m') m"
proof -
  have "(\<lambda>r. wp (case r of Inr x \<Rightarrow> ok x
        | Inl e \<Rightarrow> and_then (change (\<lambda>m. m\<lparr>ss_open := ss_open m - set cs\<rparr>)) (\<lambda>_. fail e)) Q) =
      (\<lambda>r m'. case r of Inl e \<Rightarrow> Q (Inl e) (m'\<lparr>ss_open := ss_open m' - set cs\<rparr>) | Inr x \<Rightarrow> Q (Inr x) m')"
    by (intro ext) (simp add: wp_simps split: sum.split)
  then show ?thesis by (simp add: or_disconnect_def wp_handling)
qed

lemma wp_confirm_admin:
  assumes "allots d used" "holding used S m" "\<And>r m'. holding used S m' \<Longrightarrow> Q r m'"
  shows "wp (confirm_admin os d baseURI err) Q m"
  unfolding confirm_admin_def wp_handling
proof (rule wp_connect[OF assms(1,2)])
  fix c m' assume "c \<notin> S" "holding used (insert c S) m'"
  then show "wp (case Inr c of Inl e \<Rightarrow> fail (ErrWrap ''admin already present but auth failed: ''
      (ErrSuffix e ('' (createUser: '' @ error_text err @ '')''))) | Inr c \<Rightarrow> disconnect c) Q m'"
    by (simp add: wp_disconnect assms(3))
qed (simp add: wp_fail assms(3))

text \<open>A client that is disconnected on the way out.\<close>

lemma wp_disconnecting:
  assumes "wp k (\<lambda>r. holding used (insert c S)) m" "c \<notin> S" "\<And>r m'. holding used S m' \<Longrightarrow> Q r m'"
  shows "wp (handling k (\<lambda>r. and_then (disconnect c) (\<lambda>_. case r of Inl e \<Rightarrow> fail e | Inr x \<Rightarrow> ok (f x)))) Q m"
  unfolding wp_handling
proof (rule wp_mono[OF assms(1)])
  fix r m' assume "holding used (insert c S) m'"
  then show "wp (and_then (disconnect c) (\<lambda>_. case r of Inl e \<Rightarrow> fail e | Inr x \<Rightarrow> ok (f x))) Q m'"
    unfolding wp_and_then
    by (rule wp_disconnect[OF _ assms(2)]) (auto simp: wp_simps assms(3) split: sum.split)
qed

lemma wp_bootstrapAdmin:
  assumes "allots d used" "holding used S m" "\<And>r m'. holding used S m' \<Longrightarrow> Q r m'"
  shows "wp (bootstrapAdmin os d baseURI) Q m"
  unfolding bootstrapAdmin_def wp_and_then
proof (rule wp_connect[OF assms(1,2)])
  fix c m' assume c: "c \<notin> S" and m': "holding used (insert c S) m'"
  have "wp (and_then (calling (dr_RunCommand d c ''admin'' (create_admin_command os))) (\<lambda>e. case e of
          None \<Rightarrow> ok ()
        | Some err \<Rightarrow> if isAlreadyBootstrapped err then confirm_admin os d baseURI err else fail err))
      (\<lambda>r. holding used (insert c S)) m'"
    unfolding wp_and_then
    by (rule wp_commanding[OF assms(1) m'])
      (auto simp: wp_simps split: option.split intro: wp_confirm_admin[OF assms(1)])
  from wp_disconnecting[OF this c assms(3), where f = "\<lambda>_. ()"]
  show "case Inr c of Inl e \<Rightarrow> Q (Inl e) m' | Inr noAuth \<Rightarrow> wp (handling
       (and_then (calling (dr_RunCommand d noAuth ''admin'' (create_admin_command os))) (\<lambda>e. case e of
          None \<Rightarrow> ok ()
        | Some createErr \<Rightarrow>
            if isAlreadyBootstrapped createErr then confirm_admin os d baseURI createErr else fail createErr))
       (\<lambda>r. and_then (disconnect noAuth) (\<lambda>_. case r of Inl e \<Rightarrow> fail e | Inr _ \<Rightarrow> ok ()))) Q m'"
    by simp
qed (simp add: assms(3))

section \<open>The administrators' clients\<close>

lemma wp_open_auth_clients:
  assumes "allots d used" "holding used S m"
    and "\<And>e m'. holding used S m' \<Longrightarrow> Q (Inl e) m'"
    and "\<And>mc dc m'. mc \<notin> S \<Longrightarrow> dc \<notin> insert mc S \<Longrightarrow> holding used (insert dc (insert mc S)) m' \<Longrightarrow>
      Q (Inr \<lparr>ac_MongoAdmin = mc, ac_DumboDBAdmin = dc\<rparr>) m'"
  shows "wp (open_auth_clients os d servers) Q m"
proof -
  have undone: "Q (Inl e) (m'\<lparr>ss_open := ss_open m' - set [mc]\<rparr>)" if "mc \<notin> S" "holding used (insert mc S) m'" for e mc m'
    using holding_drop[OF that(2), of "[mc]"] that(1) assms(3) by simp
  have second: "wp (connect d uri cred) (\<lambda>r m'. case r of
        Inl e \<Rightarrow> Q (Inl (f e)) (m'\<lparr>ss_open := ss_open m' - set [mc]\<rparr>)
      | Inr dc \<Rightarrow> Q (Inr \<lparr>ac_MongoAdmin = mc, ac_DumboDBAdmin = dc\<rparr>) m') m'"
    if "mc \<notin> S" "holding used (insert mc S) m'" for mc uri cred f m'
    by (rule wp_connect[OF assms(1) that(2)]) (use that undone assms(4) in auto)
  show ?thesis
    unfolding open_auth_clients_def Let_def wp_and_then wp_wrapping wp_or_disconnect wp_ok
    apply (rule wp_bootstrapAdmin[OF assms(1,2)])
    subgoal for r m'
      apply (cases r)
       apply (simp add: assms(3))
      apply simp
      apply (erule wp_connect[OF assms(1)])
       apply (simp add: assms(3))
      apply simp
      apply (rule wp_bootstrapAdmin[OF assms(1)])
       apply assumption
      subgoal for mc m1 r' m2
        apply (cases r')
         apply (use undone in simp)
        apply simp
        apply (rule wp_mono[OF second[where f = "ErrWrap ''connect dumbodb admin: ''"]])
          apply (auto split: sum.splits)
        done
      done
    done
qed

text \<open>What \<open>once\<close> makes of an action that returns.\<close>

lemma once_returns:
  "wp c Q m \<Longrightarrow> \<exists>r m'. once c None m = Some (Some r, m') \<and> Q r m' \<and> (\<forall>m''. once c (Some r) m'' = Some (Some r, m''))"
  unfolding wp_def once_def by auto

text \<open>C23: the first request for the administrators' clients always returns, and every later one gives
  the same outcome without doing anything; a failure at any step, a bootstrap or a connection to the
  second server included, leaves exactly the clients open that were open before, and success exactly
  two more.\<close>

theorem auth_clients_held:
  assumes "allots d used" "ss_open m \<subseteq> used (ss_world m)"
  shows "\<exists>r m'. GetAuthClients os d servers None m = Some (Some r, m') \<and>
    (\<forall>m''. GetAuthClients os d servers (Some r) m'' = Some (Some r, m'')) \<and>
    (case r of Inl e \<Rightarrow> ss_open m' = ss_open m
     | Inr ac \<Rightarrow> ss_open m' = ss_open m \<union> {ac_MongoAdmin ac, ac_DumboDBAdmin ac} \<and>
         card (ss_open m' - ss_open m) = 2)"
proof -
  have "holding used (ss_open m) m" using assms(2) by (simp add: holding_def)
  then have "wp (open_auth_clients os d servers) (\<lambda>r m'. case r of Inl e \<Rightarrow> ss_open m' = ss_open m
     | Inr ac \<Rightarrow> ss_open m' = ss_open m \<union> {ac_MongoAdmin ac, ac_DumboDBAdmin ac} \<and>
         card (ss_open m' - ss_open m) = 2) m"
  proof (rule wp_open_auth_clients[OF assms(1)])
    fix mc dc and m' :: "'a session"
    assume "mc \<notin> ss_open m" "dc \<notin> insert mc (ss_open m)" "holding used (insert dc (insert mc (ss_open m))) m'"
    moreover from this have "insert dc (insert mc (ss_open m)) - ss_open m = {mc, dc}" by auto
    ultimately show "case Inr \<lparr>ac_MongoAdmin = mc, ac_DumboDBAdmin = dc\<rparr> of Inl e \<Rightarrow> ss_open m' = ss_open m
     | Inr ac \<Rightarrow> ss_open m' = ss_open m \<union> {ac_MongoAdmin ac, ac_DumboDBAdmin ac} \<and>
         card (ss_open m' - ss_open m) = 2"
      by (auto simp: holding_def)
  qed (simp add: holding_def)
  from once_returns[OF this] show ?thesis unfolding GetAuthClients_def by auto
qed

text \<open>A driver for a witness: its world is the number of clients made, the server it last connected
  to, and whether the servers have an administrator.\<close>

record lab_world =
  lw_clients :: int
  lw_server :: string
  lw_admin :: bool

definition lab_driver :: "lab_world client_driver" where
  "lab_driver =
     \<lparr>dr_Connect = (\<lambda>uri cred w. (Inr (lw_clients w), w\<lparr>lw_clients := lw_clients w + 1, lw_server := uri\<rparr>)),
      dr_Ping = (\<lambda>c t w. (if lw_server w = ''down'' then Some (ErrText ''no server'') else None, w)),
      dr_RunCommand = (\<lambda>c db cmd w. (if lw_admin w then Some (ErrCommand \<lparr>ce_Code = 13, ce_Name = ''Unauthorized'',
         ce_Labels = [], ce_Text = ''not authorized''\<rparr> None) else None, w\<lparr>lw_admin := True\<rparr>))\<rparr>"

definition lab_used :: "lab_world \<Rightarrow> int set" where
  "lab_used w = {x. x < lw_clients w}"

definition empty_session :: "lab_world session" where
  "empty_session = \<lparr>ss_open = {}, ss_world = \<lparr>lw_clients = 0, lw_server = [], lw_admin = False\<rparr>\<rparr>"

lemma lab_allots: "allots lab_driver lab_used"
  unfolding allots_def lab_driver_def by (auto simp: lab_used_def)

definition bare_os :: "lab_world os" where
  "bare_os = \<lparr>os_Getenv = (\<lambda>k. []), os_LookPath = (\<lambda>p. None), os_Stat = (\<lambda>p. False),
     os_Listen = (\<lambda>w. (Inl (ErrText ''denied''), w)), os_MkdirTemp = (\<lambda>p w. (Inl (ErrText ''denied''), w)),
     os_CreateTemp = (\<lambda>p w. (Inl (ErrText ''denied''), w)), os_Start = (\<lambda>c w. (Inl (ErrText ''denied''), w)),
     os_Wait = (\<lambda>a w. (silent, w))\<rparr>"

definition lab_servers :: serverSet where
  "lab_servers = \<lparr>ss_mongoURI = ''a'', ss_dumboURI = ''down'', ss_authMongoURI = ''b'',
     ss_authDumboURI = ''down'', ss_rsURI = ''r''\<rparr>"

lemma auth_clients_held_witness:
  "\<exists>r m'. GetAuthClients bare_os lab_driver lab_servers None empty_session = Some (Some r, m') \<and>
    (\<forall>m''. GetAuthClients bare_os lab_driver lab_servers (Some r) m'' = Some (Some r, m'')) \<and>
    (case r of Inl e \<Rightarrow> ss_open m' = ss_open empty_session
     | Inr ac \<Rightarrow> ss_open m' = ss_open empty_session \<union> {ac_MongoAdmin ac, ac_DumboDBAdmin ac} \<and>
         card (ss_open m' - ss_open empty_session) = 2)"
  by (rule auth_clients_held[OF lab_allots]) (simp add: empty_session_def)

section \<open>The bootstrap\<close>

text \<open>The documented behaviour of a server with access control and the localhost exception, as the
  bootstrap meets it at \<open>uri\<close>: it accepts unauthenticated connections; creating the first user
  succeeds, and afterwards creating one is refused with a code that says so; the administrator can
  authenticate once created. \<open>up c w\<close> says client \<open>c\<close> answers in \<open>w\<close>.\<close>

definition localhost_exception :: "'w os \<Rightarrow> 'w client_driver \<Rightarrow> string \<Rightarrow> ('w \<Rightarrow> bool) \<Rightarrow> bool" where
  "localhost_exception os d uri admin \<longleftrightarrow>
     (\<forall>cred w. cred = None \<or> (cred = Some (admin_credential os) \<and> admin w) \<longrightarrow>
        (\<exists>c w' w''. dr_Connect d uri cred w = (Inr c, w') \<and> dr_Ping d c (Some 10000000000) w' = (None, w'') \<and>
           admin w'' = admin w)) \<and>
     (\<forall>c w. \<exists>e w'. dr_RunCommand d c ''admin'' (create_admin_command os) w = (e, w') \<and> admin w' \<and>
        (if admin w then \<exists>err. e = Some err \<and> isAlreadyBootstrapped err else e = None))"

lemma connect_accepted:
  assumes "localhost_exception os d uri admin"
    and "cred = None \<or> (cred = Some (admin_credential os) \<and> admin (ss_world m))"
  shows "\<exists>c m'. connect d uri cred m = Some (Inr c, m') \<and> admin (ss_world m') = admin (ss_world m)"
proof -
  obtain c w' w'' where "dr_Connect d uri cred (ss_world m) = (Inr c, w')"
    "dr_Ping d c (Some 10000000000) w' = (None, w'')" "admin w'' = admin (ss_world m)"
    using assms(1)[unfolded localhost_exception_def, THEN conjunct1, rule_format, OF assms(2)] by blast
  then show ?thesis
    by (simp add: connect_def and_then_def dialed_def calling_def ok_def)
qed

lemma bootstrapAdmin_succeeds:
  assumes "localhost_exception os d uri admin"
  shows "\<exists>m'. bootstrapAdmin os d uri m = Some (Inr (), m') \<and> admin (ss_world m')"
proof -
  obtain c m1 where c: "connect d uri None m = Some (Inr c, m1)" "admin (ss_world m1) = admin (ss_world m)"
    using connect_accepted[OF assms, of None m] by auto
  obtain e w where e: "dr_RunCommand d c ''admin'' (create_admin_command os) (ss_world m1) = (e, w)" "admin w"
    "if admin (ss_world m1) then \<exists>err. e = Some err \<and> isAlreadyBootstrapped err else e = None"
    using assms unfolding localhost_exception_def by meson
  obtain c' m2 where c': "connect d uri (Some (admin_credential os)) (m1\<lparr>ss_world := w\<rparr>) = Some (Inr c', m2)"
    "admin (ss_world m2)"
    using connect_accepted[OF assms, of "Some (admin_credential os)" "m1\<lparr>ss_world := w\<rparr>"] e(2) by auto
  show ?thesis
    using c e c' by (cases "admin (ss_world m1)")
      (auto simp: bootstrapAdmin_def and_then_def handling_def calling_def ok_def confirm_admin_def
        disconnect_def change_def)
qed

text \<open>The bootstrap is idempotent: on a server that grants the localhost exception it succeeds
  whether or not the server has its administrator already, and leaves a server that has one, so that
  it succeeds again.\<close>

theorem bootstrapAdmin_idempotent:
  assumes "localhost_exception os d uri admin"
  shows "\<exists>m' m''. bootstrapAdmin os d uri m = Some (Inr (), m') \<and> admin (ss_world m') \<and>
    bootstrapAdmin os d uri m' = Some (Inr (), m'') \<and> admin (ss_world m'')"
  using bootstrapAdmin_succeeds[OF assms] by metis

lemma lab_exception: "localhost_exception bare_os lab_driver ''b'' lw_admin"
  unfolding localhost_exception_def
  by (auto simp: lab_driver_def isAlreadyBootstrapped_def errors_As_defs)

lemma bootstrapAdmin_idempotent_witness:
  "\<exists>m' m''. bootstrapAdmin bare_os lab_driver ''b'' empty_session = Some (Inr (), m') \<and> lw_admin (ss_world m') \<and>
    bootstrapAdmin bare_os lab_driver ''b'' m' = Some (Inr (), m'') \<and> lw_admin (ss_world m'')"
  by (rule bootstrapAdmin_idempotent[OF lab_exception])

section \<open>The shared clients\<close>

text \<open>A failed ping of the first or the last server leaves the clients of that moment open.\<close>

lemma GetClients_leaks:
  "\<exists>m'. GetClients lab_driver lab_servers None empty_session =
     Some (Some (Inl (ErrWrap ''ping dumbodb: '' (ErrText ''no server''))), m') \<and> card (ss_open m') = 3"
  by (simp add: GetClients_def once_def open_clients_def and_then_def wrapping_def handling_def dialed_def
      or_disconnect_def ping_def calling_def ok_def fail_def lab_driver_def lab_servers_def empty_session_def)

section \<open>The names of test databases\<close>

lemma sanitize_chars: "x \<in> set (sanitize n s) \<Longrightarrow> is_alnum x \<or> x = CHR ''_''"
  by (induction n s rule: sanitize.induct) auto

lemma length_sanitize: "length (sanitize n s) = min n (length s)"
  by (induction n s rule: sanitize.induct) auto

lemma ntoa_no_underscore: "CHR ''_'' \<notin> set (ntoa n)"
  using ntoa_digits[of "CHR ''_''" n] by (auto simp: is_digit_def)

lemma digits_suffix: "takeWhile (\<lambda>x. x \<noteq> CHR ''_'') (rev (a @ ''_'' @ ntoa n)) = rev (ntoa n)"
proof -
  have "\<forall>x \<in> set (rev (ntoa n)). x \<noteq> CHR ''_''" using ntoa_no_underscore[of n] by auto
  then have "takeWhile (\<lambda>x. x \<noteq> CHR ''_'') (rev (ntoa n) @ CHR ''_'' # rev a) = rev (ntoa n)"
    by (subst takeWhile_append2) auto
  then show ?thesis by simp
qed

text \<open>The database of a test has at most 63 bytes, all of them letters, digits or underscores,
  whatever the name of the test; and two tests whose clocks differ never share one, whatever their
  names.\<close>

theorem test_database_valid:
  assumes "0 \<le> nano" "nano < 2 ^ 63" "0 \<le> nano'" "nano \<noteq> nano'"
  shows "length (test_database testName nano) \<le> 63 \<and>
    list_all (\<lambda>x. is_alnum x \<or> x = CHR ''_'') (test_database testName nano) \<and>
    test_database testName nano \<noteq> test_database testName' nano'"
proof (intro conjI)
  have "nat nano < 10 ^ 19" using assms(1,2) by (simp add: nat_less_iff)
  then have "length (ntoa (nat nano)) \<le> 19" by (rule length_ntoa) simp
  then show "length (test_database testName nano) \<le> 63"
    using assms(1) by (simp add: test_database_def sanitizeName_def length_sanitize itoa_def)
  show "list_all (\<lambda>x. is_alnum x \<or> x = CHR ''_'') (test_database testName nano)"
    using assms(1) ntoa_digits[of _ "nat nano"]
    by (auto simp: test_database_def sanitizeName_def list_all_iff itoa_def is_alnum_def dest: sanitize_chars)
  show "test_database testName nano \<noteq> test_database testName' nano'"
  proof
    assume eq: "test_database testName nano = test_database testName' nano'"
    have form: "test_database t k = (''parity_'' @ sanitizeName t) @ ''_'' @ ntoa (nat k)" if "0 \<le> k" for t k
      using that by (simp add: test_database_def itoa_def)
    from eq assms(1,3) have "rev (ntoa (nat nano)) = rev (ntoa (nat nano'))"
      using digits_suffix[of "''parity_'' @ sanitizeName testName" "nat nano"]
        digits_suffix[of "''parity_'' @ sanitizeName testName'" "nat nano'"] by (simp only: form)
    with assms show False by (simp add: ntoa_inject nat_eq_iff)
  qed
qed

lemma test_database_valid_witness:
  "length (test_database ''Test/A'' 7) \<le> 63 \<and>
    list_all (\<lambda>x. is_alnum x \<or> x = CHR ''_'') (test_database ''Test/A'' 7) \<and>
    test_database ''Test/A'' 7 \<noteq> test_database ''Test/A_7'' 8"
  by (rule test_database_valid) simp_all

end
