(* ===== verification/TestServers.thy ===== *)
theory TestServers
  imports Servers
begin

text \<open>
  The private pairs of servers a test starts for itself: the access-controlled pair without users,
  thrown away afterwards (src/harness/auth_ephemeral.go), and the pair whose data directories outlive
  a restart (src/harness/restart.go). The pair is threaded with the machine it runs on, because the
  cleanup the test registers reads whatever the pair holds when the test ends; \<open>t.Fatalf\<close> is an
  error with its text.
\<close>

section \<open>A test's own servers\<close>

record ('w, 's) bench =
  bn_machine :: "'w machine"
  bn_servers :: 's

definition on_bench :: "('w machine, 'a) act \<Rightarrow> (('w, 's) bench, 'a) act" where
  "on_bench c b = (case c (bn_machine b) of None \<Rightarrow> None | Some (r, m) \<Rightarrow> Some (r, b\<lparr>bn_machine := m\<rparr>))"

definition servers_change :: "('s \<Rightarrow> 's) \<Rightarrow> (('w, 's) bench, unit) act" where
  "servers_change f = change (\<lambda>b. b\<lparr>bn_servers := f (bn_servers b)\<rparr>)"

text \<open>A step whose error ends the test.\<close>

definition fatal_on :: "string \<Rightarrow> ('m, 'a) act \<Rightarrow> ('m, 'a) act" where
  "fatal_on t c = handling c (\<lambda>r. case r of Inl e \<Rightarrow> fail (ErrText (t @ error_text e)) | Inr x \<Rightarrow> ok x)"

definition mustFreePort :: "'w os \<Rightarrow> ('w machine, int) act" where
  "mustFreePort os = fatal_on ''allocate free port: '' (freePort os)"

definition mustTempDir :: "'w os \<Rightarrow> string \<Rightarrow> ('w machine, string) act" where
  "mustTempDir os prefix = fatal_on ''temp dir: '' (makeDir os prefix)"

definition loopback :: "int \<Rightarrow> string" where
  "loopback port = ''127.0.0.1:'' @ itoa port"

definition server_uri :: "int \<Rightarrow> string" where
  "server_uri port = ''mongodb://'' @ loopback port"

section \<open>The throwaway pair\<close>

record EphemeralServers =
  es_MongoURI :: string
  es_DumboDBURI :: string
  es_mongo :: "serverProc option"
  es_dumbo :: "serverProc option"

definition no_servers :: EphemeralServers where
  "no_servers = \<lparr>es_MongoURI = [], es_DumboDBURI = [], es_mongo = None, es_dumbo = None\<rparr>"

definition stop_if :: "serverProc option \<Rightarrow> 'w machine \<Rightarrow> 'w machine" where
  "stop_if p m = (case p of None \<Rightarrow> m | Some q \<Rightarrow> stop q m)"

definition ephemeral_Stop :: "('w, EphemeralServers) bench \<Rightarrow> ('w, EphemeralServers) bench" where
  "ephemeral_Stop b =
     b\<lparr>bn_machine := stop_if (es_dumbo (bn_servers b)) (stop_if (es_mongo (bn_servers b)) (bn_machine b)),
       bn_servers := (bn_servers b)\<lparr>es_mongo := None, es_dumbo := None\<rparr>\<rparr>"

definition ephemeral_mongod :: "'w os \<Rightarrow> int \<Rightarrow> string \<Rightarrow> string list" where
  "ephemeral_mongod os port dir =
     [findMongodBin os, ''--auth'', ''--port'', itoa port, ''--dbpath'', dir, ''--bind_ip'', ''127.0.0.1'',
      ''--nounixsocket'']"

definition ephemeral_dumbodb :: "'w os \<Rightarrow> int \<Rightarrow> string \<Rightarrow> string list" where
  "ephemeral_dumbodb os port dir =
     [findDumboDBBinary os, ''--auth'', ''--addr'', loopback port, ''--data-dir'', dir]"

definition ephemeral_start ::
    "'w os \<Rightarrow> string \<Rightarrow> string \<Rightarrow> (int \<Rightarrow> string \<Rightarrow> string list) \<Rightarrow>
     (serverProc \<Rightarrow> string \<Rightarrow> EphemeralServers \<Rightarrow> EphemeralServers) \<Rightarrow> (('w, EphemeralServers) bench, int) act" where
  "ephemeral_start os name prefix cmd keep =
     and_then (on_bench (mustFreePort os)) (\<lambda>port.
     and_then (on_bench (mustTempDir os prefix)) (\<lambda>dir.
     and_then (fatal_on (''start ephemeral '' @ name @ '': '') (on_bench (startProc os (cmd port dir) name dir))) (\<lambda>p.
     and_then (servers_change (keep p (server_uri port))) (\<lambda>_. ok port))))"

definition await_port :: "'w os \<Rightarrow> string \<Rightarrow> int \<Rightarrow> (('w, 's) bench, unit) act" where
  "await_port os what port =
     and_then (on_bench (listening os (loopback port) 25000000000)) (\<lambda>up.
       require up (ErrText (what @ itoa port)))"

definition StartEphemeralServers :: "'w os \<Rightarrow> (('w, EphemeralServers) bench, unit) act" where
  "StartEphemeralServers os =
     (if findMongodBin os = []
      then fail (ErrText ''mongod binary not found; set MONGOD_BIN to run localhost-exception tests'')
      else if findDumboDBBinary os = []
      then fail (ErrText ''dumbodb binary not found; set DUMBODB_BIN to run localhost-exception tests'')
      else
        and_then (ephemeral_start os ''mongod'' ''eph-mongo-'' (ephemeral_mongod os)
          (\<lambda>p uri es. es\<lparr>es_mongo := Some p, es_MongoURI := uri\<rparr>)) (\<lambda>mp.
        and_then (ephemeral_start os ''dumbodb'' ''eph-dumbo-'' (ephemeral_dumbodb os)
          (\<lambda>p uri es. es\<lparr>es_dumbo := Some p, es_DumboDBURI := uri\<rparr>)) (\<lambda>dp.
        and_then (await_port os ''ephemeral mongod did not become ready on port '' mp) (\<lambda>_.
          await_port os ''ephemeral dumbodb did not become ready on port '' dp))))"

section \<open>The restartable pair\<close>

definition restartGrace :: duration where "restartGrace = 15000000000"

record restartTarget =
  rt_bin :: string
  rt_dir :: string
  rt_args :: serverArgs
  rt_proc :: "serverProc option"

text \<open>A target is \<open>None\<close> before the pair exists and again once it is stopped.\<close>

record RestartableServers =
  rs_MongoURI :: string
  rs_DumboDBURI :: string
  rs_mongo :: "restartTarget option"
  rs_dumbo :: "restartTarget option"

definition no_pair :: RestartableServers where
  "no_pair = \<lparr>rs_MongoURI = [], rs_DumboDBURI = [], rs_mongo = None, rs_dumbo = None\<rparr>"

text \<open>A process is stopped by signal and keeps its directory; \<open>exits\<close> says which processes exit within
  the grace period.\<close>

definition shutdown_target :: "(int \<Rightarrow> bool) \<Rightarrow> restartTarget \<Rightarrow> 'w machine \<Rightarrow> 'w machine" where
  "shutdown_target exits rt m =
     (case rt_proc rt of None \<Rightarrow> m | Some p \<Rightarrow> snd (shutdownGraceful (exits (sp_pid p)) p m))"

text \<open>\<open>launch\<close> of the target that \<open>get\<close> reads and \<open>put\<close> writes: the process is the target's as soon as
  it starts, and has no directory of its own.\<close>

definition launch_target ::
    "'w os \<Rightarrow> (RestartableServers \<Rightarrow> restartTarget option) \<Rightarrow>
     (restartTarget option \<Rightarrow> RestartableServers \<Rightarrow> RestartableServers) \<Rightarrow>
     (('w, RestartableServers) bench, string) act" where
  "launch_target os get put =
     reading (\<lambda>b. the (get (bn_servers b))) (\<lambda>rt.
     let name = sa_binName (rt_args rt) in
     and_then (on_bench (mustFreePort os)) (\<lambda>port.
     and_then (fatal_on (''start '' @ name @ '': '')
       (on_bench (startProc os (rt_bin rt # sa_flags (rt_args rt) port (rt_dir rt)) name []))) (\<lambda>p.
     and_then (servers_change (put (Some (rt\<lparr>rt_proc := Some p\<rparr>)))) (\<lambda>_.
     and_then (on_bench (listening os (loopback port) 25000000000)) (\<lambda>up.
     and_then (require up (ErrText (name @ '' did not become ready on '' @ loopback port))) (\<lambda>_.
       ok (server_uri port)))))))"

definition launch_mongo where
  "launch_mongo os =
     and_then (launch_target os rs_mongo (\<lambda>t s. s\<lparr>rs_mongo := t\<rparr>)) (\<lambda>uri.
       servers_change (\<lambda>s. s\<lparr>rs_MongoURI := uri\<rparr>))"

definition launch_dumbo where
  "launch_dumbo os =
     and_then (launch_target os rs_dumbo (\<lambda>t s. s\<lparr>rs_dumbo := t\<rparr>)) (\<lambda>uri.
       servers_change (\<lambda>s. s\<lparr>rs_DumboDBURI := uri\<rparr>))"

definition StartRestartableServers :: "'w os \<Rightarrow> (('w, RestartableServers) bench, unit) act" where
  "StartRestartableServers os =
     (if findMongodBin os = []
      then fail (ErrText ''mongod binary not found; set MONGOD_BIN to run durability tests'')
      else if findDumboDBBinary os = []
      then fail (ErrText ''dumbodb binary not found; set DUMBODB_BIN to run durability tests'')
      else
        and_then (on_bench (mustTempDir os ''restart-mongo-'')) (\<lambda>mdir.
        and_then (on_bench (mustTempDir os ''restart-dumbo-'')) (\<lambda>ddir.
        and_then (servers_change (\<lambda>s. s\<lparr>
          rs_mongo := Some \<lparr>rt_bin = findMongodBin os, rt_dir = mdir, rt_args = mongodArgs os False, rt_proc = None\<rparr>,
          rs_dumbo := Some \<lparr>rt_bin = findDumboDBBinary os, rt_dir = ddir, rt_args = dumbodbArgs os False,
                            rt_proc = None\<rparr>\<rparr>)) (\<lambda>_.
        and_then (launch_mongo os) (\<lambda>_. launch_dumbo os)))))"

definition shutdown_both :: "(int \<Rightarrow> bool) \<Rightarrow> ('w, RestartableServers) bench \<Rightarrow> ('w, RestartableServers) bench" where
  "shutdown_both exits b =
     b\<lparr>bn_machine := shutdown_target exits (the (rs_dumbo (bn_servers b)))
         (shutdown_target exits (the (rs_mongo (bn_servers b))) (bn_machine b))\<rparr>"

definition Restart_pair :: "'w os \<Rightarrow> (int \<Rightarrow> bool) \<Rightarrow> (('w, RestartableServers) bench, unit) act" where
  "Restart_pair os exits =
     and_then (change (shutdown_both exits)) (\<lambda>_.
     and_then (launch_mongo os) (\<lambda>_. launch_dumbo os))"

definition stop_target :: "(int \<Rightarrow> bool) \<Rightarrow> restartTarget option \<Rightarrow> 'w machine \<Rightarrow> 'w machine" where
  "stop_target exits t m =
     (case t of None \<Rightarrow> m | Some rt \<Rightarrow> removeDir (rt_dir rt) (shutdown_target exits rt m))"

definition restart_Stop :: "(int \<Rightarrow> bool) \<Rightarrow> ('w, RestartableServers) bench \<Rightarrow> ('w, RestartableServers) bench" where
  "restart_Stop exits b =
     b\<lparr>bn_machine := stop_target exits (rs_dumbo (bn_servers b)) (stop_target exits (rs_mongo (bn_servers b)) (bn_machine b)),
       bn_servers := (bn_servers b)\<lparr>rs_mongo := None, rs_dumbo := None\<rparr>\<rparr>"

end
