(* ===== verification/TestServersFacts.thy ===== *)
theory TestServersFacts
  imports TestServers ServersFacts
begin

text \<open>
  What the private pairs guarantee: their start always returns and their cleanup leaves nothing
  running on any path; a restart keeps the data directories and moves both servers to fresh ports.
\<close>

section \<open>Steps on the bench\<close>

lemma wp_on_bench: "wp (on_bench c) Q b \<longleftrightarrow> wp c (\<lambda>r m. Q r (b\<lparr>bn_machine := m\<rparr>)) (bn_machine b)"
  by (cases "c (bn_machine b)") (auto simp: wp_def on_bench_def)

lemma wp_servers_change: "wp (servers_change f) Q b \<longleftrightarrow> Q (Inr ()) (b\<lparr>bn_servers := f (bn_servers b)\<rparr>)"
  by (simp add: servers_change_def wp_change)

lemma wp_fatal_on:
  "wp (fatal_on t c) Q m \<longleftrightarrow> wp c (\<lambda>r. Q (case r of Inl e \<Rightarrow> Inl (ErrText (t @ error_text e)) | Inr x \<Rightarrow> Inr x)) m"
proof -
  have "(\<lambda>r. wp (case r of Inl e \<Rightarrow> fail (ErrText (t @ error_text e)) | Inr x \<Rightarrow> ok x) Q) =
      (\<lambda>r. Q (case r of Inl e \<Rightarrow> Inl (ErrText (t @ error_text e)) | Inr x \<Rightarrow> Inr x))"
    by (intro ext) (simp add: wp_simps split: sum.split)
  then show ?thesis by (simp add: fatal_on_def wp_handling)
qed

lemmas wp_bench = wp_on_bench wp_servers_change wp_fatal_on

text \<open>Beyond \<open>mm\<close>, only the processes \<open>P\<close> and their logs are open; the directories are \<open>T\<close>.\<close>

definition bounded :: "'w machine \<Rightarrow> serverProc set \<Rightarrow> string set \<Rightarrow> 'w machine \<Rightarrow> bool" where
  "bounded mm P T m \<longleftrightarrow>
     running m \<subseteq> running mm \<union> sp_pid ` P \<and> openLogs m \<subseteq> openLogs mm \<union> sp_log ` P \<and> tempDirs m = T"

lemma bounded_updates [simp]:
  "bounded mm P T (m\<lparr>world := w\<rparr>) = bounded mm P T m"
  "bounded mm P T (m\<lparr>issuedPorts := ps\<rparr>) = bounded mm P T m"
  by (simp_all add: bounded_def)

lemma bounded_refl: "bounded m {} (tempDirs m) m"
  by (simp add: bounded_def)

lemma wp_mustFreePort:
  assumes "bounded mm P T m"
    and "\<And>e m'. bounded mm P T m' \<Longrightarrow> Q (Inl e) m'"
    and "\<And>p m'. bounded mm P T m' \<Longrightarrow> p \<notin> issuedPorts m \<Longrightarrow> issuedPorts m' = insert p (issuedPorts m) \<Longrightarrow> Q (Inr p) m'"
  shows "wp (mustFreePort os) Q m"
  unfolding mustFreePort_def wp_fatal_on
  by (rule wp_freePort) (use assms in \<open>auto\<close>)

lemma wp_mustTempDir:
  assumes "os_sane os" "bounded mm P T m"
    and "\<And>e m'. bounded mm P T m' \<Longrightarrow> Q (Inl e) m'"
    and "\<And>dir m'. bounded mm P (insert dir T) m' \<Longrightarrow> dir \<noteq> [] \<Longrightarrow> issuedPorts m' = issuedPorts m \<Longrightarrow> Q (Inr dir) m'"
  shows "wp (mustTempDir os prefix) Q m"
proof -
  obtain r w where r: "os_MkdirTemp os prefix (world m) = (r, w)" by force
  show ?thesis
  proof (cases r)
    case (Inl e)
    with r assms(2,3) show ?thesis by (simp add: mustTempDir_def wp_fatal_on makeDir_def wp_simps)
  next
    case (Inr dir)
    then have "dir \<noteq> []" using r assms(1) by (metis os_sane_def)
    moreover from assms(2) have "bounded mm P (insert dir T) (m\<lparr>world := w, tempDirs := insert dir (tempDirs m)\<rparr>)"
      by (auto simp: bounded_def)
    ultimately show ?thesis using r Inr assms(4) by (simp add: mustTempDir_def wp_fatal_on makeDir_def wp_simps)
  qed
qed

lemma wp_startProc_bounded:
  assumes "bounded mm P T m"
    and "\<And>e m'. bounded mm P T m' \<Longrightarrow> Q (Inl e) m'"
    and "\<And>p m'. bounded mm (insert p P) T m' \<Longrightarrow> sp_dir p = dir \<Longrightarrow> issuedPorts m' = issuedPorts m \<Longrightarrow> Q (Inr p) m'"
  shows "wp (startProc os cmd name dir) Q m"
proof -
  have "wp (startProc os cmd name dir) (\<lambda>r m'. case r of Inl e \<Rightarrow> bounded mm P T m'
      | Inr p \<Rightarrow> bounded mm (insert p P) T m' \<and> sp_dir p = dir \<and> issuedPorts m' = issuedPorts m) m"
    using assms(1) unfolding startProc_def
    by (auto simp: wp_simps bounded_def split: sum.splits prod.splits)
  then show ?thesis by (rule wp_mono) (auto split: sum.splits intro: assms(2,3))
qed

section \<open>The throwaway pair\<close>

definition eph_procs :: "EphemeralServers \<Rightarrow> serverProc set" where
  "eph_procs es = set_option (es_mongo es) \<union> set_option (es_dumbo es)"

text \<open>Every directory belongs to a process of the pair, but for \<open>lost\<close>.\<close>

definition eph_inv :: "'w machine \<Rightarrow> string set \<Rightarrow> ('w, EphemeralServers) bench \<Rightarrow> bool" where
  "eph_inv mm lost b \<longleftrightarrow> [] \<notin> sp_dir ` eph_procs (bn_servers b) \<and>
     bounded mm (eph_procs (bn_servers b)) (tempDirs mm \<union> sp_dir ` eph_procs (bn_servers b) \<union> lost) (bn_machine b)"

lemma eph_torn_down:
  assumes "eph_inv mm lost b"
  shows "running (bn_machine (ephemeral_Stop b)) \<subseteq> running mm \<and>
    openLogs (bn_machine (ephemeral_Stop b)) \<subseteq> openLogs mm \<and>
    tempDirs (bn_machine (ephemeral_Stop b)) \<subseteq> tempDirs mm \<union> lost"
  using assms
  by (auto simp: eph_inv_def eph_procs_def bounded_def ephemeral_Stop_def stop_if_def split: option.splits)

lemma wp_ephemeral_start:
  assumes "os_sane os" "eph_inv mm {} b"
    and keep: "\<And>p uri. eph_procs (keep p uri (bn_servers b)) = insert p (eph_procs (bn_servers b))"
    and Q: "\<And>e dir D b'. eph_inv mm D b' \<Longrightarrow> D \<subseteq> {dir} \<Longrightarrow> Q (Inl e) b'"
      "\<And>port p uri b'. eph_inv mm {} b' \<Longrightarrow> bn_servers b' = keep p uri (bn_servers b) \<Longrightarrow> Q (Inr port) b'"
  shows "wp (ephemeral_start os name prefix cmd keep) Q b"
proof -
  let ?P = "eph_procs (bn_servers b)" and ?T = "tempDirs mm \<union> sp_dir ` eph_procs (bn_servers b)"
  have b: "bounded mm ?P ?T (bn_machine b)" "[] \<notin> sp_dir ` ?P" using assms(2) by (simp_all add: eph_inv_def)
  have failed: "Q (Inl e) (b\<lparr>bn_machine := m\<rparr>)" if "bounded mm ?P (?T \<union> D) m" "D \<subseteq> {dir}" for e m D dir
    by (rule Q(1)[of D _ dir]) (use that b in \<open>simp_all add: eph_inv_def\<close>)
  show ?thesis
    unfolding ephemeral_start_def wp_and_then wp_bench
  proof (rule wp_mustFreePort[OF b(1)], goal_cases)
    case (1 e m)
    then show ?case using failed[of "{}" m] by simp
  next
    case (2 port m)
    show ?case
    proof (simp, rule wp_mustTempDir[OF assms(1) 2(1)], goal_cases)
      case (1 e m)
      then show ?case using failed[of "{}" m] by simp
    next
      case (2 dir m)
      show ?case
      proof (simp, rule wp_startProc_bounded[OF 2(1)], goal_cases)
        case (1 e m)
        then show ?case using failed[of "{dir}" m dir] by (simp add: insert_commute)
      next
        case (2 p m)
        let ?b = "b\<lparr>bn_machine := m, bn_servers := keep p (server_uri port) (bn_servers b)\<rparr>"
        have "insert dir ?T = tempDirs mm \<union> sp_dir ` insert p ?P" using 2(2) by auto
        then have "eph_inv mm {} ?b" using 2 \<open>dir \<noteq> []\<close> b(2) keep by (simp add: eph_inv_def)
        then show ?case using Q(2)[of ?b p "server_uri port" port] by (simp add: wp_bench wp_simps)
      qed
    qed
  qed
qed

lemma wp_await_port:
  assumes "os_sane os" "\<And>r w. Q r (b\<lparr>bn_machine := (bn_machine b)\<lparr>world := w\<rparr>\<rparr>)"
  shows "wp (await_port os what port) Q b"
  unfolding await_port_def wp_and_then wp_on_bench
  by (rule wp_listening[OF assms(1)]) (simp add: wp_simps assms(2))

definition eph_end :: "'w machine \<Rightarrow> goerror + unit \<Rightarrow> ('w, EphemeralServers) bench \<Rightarrow> bool" where
  "eph_end mm r b \<longleftrightarrow> (\<exists>D dir. eph_inv mm D b \<and> D \<subseteq> {dir} \<and> (isl r \<or> D = {}))"

lemma eph_inv_world [simp]: "eph_inv mm D (b\<lparr>bn_machine := (bn_machine b)\<lparr>world := w\<rparr>\<rparr>) = eph_inv mm D b"
  by (simp add: eph_inv_def)

lemma wp_StartEphemeralServers:
  assumes "os_sane os" "bn_servers b = no_servers"
  shows "wp (StartEphemeralServers os) (eph_end (bn_machine b)) b"
proof -
  let ?mm = "bn_machine b"
  have b: "eph_inv ?mm {} b"
    using assms(2) by (simp add: eph_inv_def eph_procs_def no_servers_def bounded_refl)
  have early: "eph_end ?mm (Inl e) b" for e using b by (auto simp: eph_end_def)
  have awaiting: "wp (and_then (await_port os what mp) (\<lambda>_. await_port os what' dp)) (eph_end ?mm) b'"
    if "eph_inv ?mm {} b'" for b' mp dp what what'
    unfolding wp_and_then
    by (rule wp_await_port[OF assms(1)])
      (use that in \<open>auto split: sum.split intro!: wp_await_port[OF assms(1)] simp: eph_end_def\<close>, blast+)
  show ?thesis
    unfolding StartEphemeralServers_def
  proof (simp add: wp_fail early, intro impI, subst wp_and_then, goal_cases)
    case 1
    show ?case
    proof (rule wp_ephemeral_start[OF assms(1) b], goal_cases)
      case (1 p uri)
      then show ?case by (simp add: assms(2) no_servers_def eph_procs_def)
    next
      case (2 e dir D b')
      then show ?case by (auto simp: eph_end_def)
    next
      case (3 port p uri b')
      then have none: "es_dumbo (bn_servers b') = None" by (simp add: assms(2) no_servers_def)
      show ?case
        unfolding sum.case wp_and_then[of "ephemeral_start _ _ _ _ _"]
      proof (rule wp_ephemeral_start[OF assms(1) 3(1)], goal_cases)
        case (1 p uri)
        then show ?case using none by (simp add: eph_procs_def)
      next
        case (2 e dir D b')
        then show ?case by (auto simp: eph_end_def)
      next
        case (3 port p uri b')
        then show ?case unfolding sum.case by (intro awaiting)
      qed
    qed
  qed
qed

text \<open>Starting the throwaway pair always returns, and the cleanup its test registered leaves no
  process and no log of it on any path, a server that never became ready included; of its directories
  it leaves none when the start succeeded, and otherwise at most one, that of a server that could not
  be started.\<close>

theorem ephemeral_cleanup:
  assumes "os_sane os" "bn_servers b = no_servers"
  shows "\<exists>r b' dir. StartEphemeralServers os b = Some (r, b') \<and>
    running (bn_machine (ephemeral_Stop b')) \<subseteq> running (bn_machine b) \<and>
    openLogs (bn_machine (ephemeral_Stop b')) \<subseteq> openLogs (bn_machine b) \<and>
    tempDirs (bn_machine (ephemeral_Stop b')) \<subseteq> tempDirs (bn_machine b) \<union> (if isl r then {dir} else {})"
proof -
  obtain r b' where r: "StartEphemeralServers os b = Some (r, b')" "eph_end (bn_machine b) r b'"
    using wp_StartEphemeralServers[OF assms] unfolding wp_def by blast
  from r(2) obtain D dir where D: "eph_inv (bn_machine b) D b'" "D \<subseteq> {dir}" "isl r \<or> D = {}"
    unfolding eph_end_def by blast
  have "tempDirs (bn_machine (ephemeral_Stop b')) \<subseteq> tempDirs (bn_machine b) \<union> (if isl r then {dir} else {})"
    using eph_torn_down[OF D(1)] D(2,3) by auto
  with r(1) eph_torn_down[OF D(1)] show ?thesis by blast
qed

lemma ephemeral_cleanup_witness:
  "\<exists>r b' dir. StartEphemeralServers failing_os \<lparr>bn_machine = idle_machine 0, bn_servers = no_servers\<rparr> = Some (r, b') \<and>
    running (bn_machine (ephemeral_Stop b')) \<subseteq> running (idle_machine (0 :: nat)) \<and>
    openLogs (bn_machine (ephemeral_Stop b')) \<subseteq> openLogs (idle_machine (0 :: nat)) \<and>
    tempDirs (bn_machine (ephemeral_Stop b')) \<subseteq> tempDirs (idle_machine (0 :: nat)) \<union> (if isl r then {dir} else {})"
  using ephemeral_cleanup[OF failing_os_sane(1), of "\<lparr>bn_machine = idle_machine 0, bn_servers = no_servers\<rparr>"] by simp

section \<open>The restartable pair\<close>

lemma wp_launch_target:
  assumes "os_sane os" "get (bn_servers b) = Some rt" "bounded mm P T (bn_machine b)"
    and Q: "\<And>e b'. bounded mm P T (bn_machine b') \<Longrightarrow> bn_servers b' = bn_servers b \<Longrightarrow> Q (Inl e) b'"
      "\<And>r p b'. bounded mm (insert p P) T (bn_machine b') \<Longrightarrow>
        bn_servers b' = put (Some (rt\<lparr>rt_proc := Some p\<rparr>)) (bn_servers b) \<Longrightarrow>
        (\<And>uri. r = Inr uri \<Longrightarrow> \<exists>port. uri = server_uri port \<and> port \<notin> issuedPorts (bn_machine b) \<and>
          issuedPorts (bn_machine b') = insert port (issuedPorts (bn_machine b))) \<Longrightarrow> Q r b'"
  shows "wp (launch_target os get put) Q b"
  unfolding launch_target_def wp_reading Let_def wp_and_then wp_bench
proof (rule wp_mustFreePort[OF assms(3)], goal_cases)
  case (1 e m)
  then show ?case using Q(1)[of "b\<lparr>bn_machine := m\<rparr>"] by simp
next
  case (2 port m)
  note fresh = 2(2,3)
  show ?case
  proof (simp, rule wp_startProc_bounded[OF 2(1)], goal_cases)
    case (1 e m)
    then show ?case using Q(1)[of "b\<lparr>bn_machine := m\<rparr>"] by simp
  next
    case (2 p m)
    show ?case
    proof (simp, rule wp_listening[OF assms(1)], goal_cases)
      case (1 up w)
      let ?b = "b\<lparr>bn_servers := put (Some (rt\<lparr>rt_proc := Some p\<rparr>)) (bn_servers b), bn_machine := m\<lparr>world := w\<rparr>\<rparr>"
      have started: "Q r ?b" if "r = Inr (server_uri port) \<or> isl r" for r
      proof (rule Q(2)[of p])
        show "\<exists>port. uri = server_uri port \<and> port \<notin> issuedPorts (bn_machine b) \<and>
            issuedPorts (bn_machine ?b) = insert port (issuedPorts (bn_machine b))" if "r = Inr uri" for uri
          using that \<open>r = Inr (server_uri port) \<or> isl r\<close> 2(3) fresh by auto
      qed (use 2 in simp_all)
      show ?case using started[of "Inr (server_uri port)"] started[of "Inl e" for e] assms(2)
        by (simp add: wp_simps)
    qed
  qed
qed

text \<open>Both targets exist, on the directories \<open>md\<close> and \<open>dd\<close>; what is open belongs to them.\<close>

definition target_procs :: "restartTarget option \<Rightarrow> serverProc set" where
  "target_procs t = (case t of None \<Rightarrow> {} | Some rt \<Rightarrow> set_option (rt_proc rt))"

definition pair_dirs :: "restartTarget \<Rightarrow> restartTarget \<Rightarrow> RestartableServers \<Rightarrow> bool" where
  "pair_dirs rm rd s \<longleftrightarrow> (\<exists>pm pd. rs_mongo s = Some (rm\<lparr>rt_proc := pm\<rparr>) \<and> rs_dumbo s = Some (rd\<lparr>rt_proc := pd\<rparr>))"

definition pair_inv :: "'w machine \<Rightarrow> string set \<Rightarrow> restartTarget \<Rightarrow> restartTarget \<Rightarrow> ('w, RestartableServers) bench \<Rightarrow> bool" where
  "pair_inv mm T rm rd b \<longleftrightarrow> pair_dirs rm rd (bn_servers b) \<and>
     bounded mm (target_procs (rs_mongo (bn_servers b)) \<union> target_procs (rs_dumbo (bn_servers b))) T (bn_machine b)"

lemma shutdown_target_bounded:
  "bounded mm (target_procs (Some rt) \<union> P) T m \<Longrightarrow> bounded mm P T (shutdown_target exits rt m)"
  by (auto simp: bounded_def target_procs_def shutdown_target_def shutdownGraceful_def split: option.splits)

lemma shutdown_target_ports [simp]: "issuedPorts (shutdown_target exits rt m) = issuedPorts m"
  by (simp add: shutdown_target_def shutdownGraceful_def split: option.split)

text \<open>Where the pair is after a launch of both: the same targets, and on success two fresh ports.\<close>

definition relaunched :: "'w machine \<Rightarrow> int set \<Rightarrow> string set \<Rightarrow> restartTarget \<Rightarrow> restartTarget \<Rightarrow> goerror + unit \<Rightarrow>
    ('w, RestartableServers) bench \<Rightarrow> bool" where
  "relaunched mm ports T rm rd r b \<longleftrightarrow> pair_inv mm T rm rd b \<and>
     (r = Inr () \<longrightarrow> (\<exists>p q. p \<notin> ports \<and> q \<notin> ports \<and> p \<noteq> q \<and>
        rs_MongoURI (bn_servers b) = server_uri p \<and> rs_DumboDBURI (bn_servers b) = server_uri q))"

lemma wp_launch_both:
  assumes "os_sane os" "pair_dirs rm rd (bn_servers b)" "bounded mm {} T (bn_machine b)"
  shows "wp (and_then (launch_mongo os) (\<lambda>_. launch_dumbo os)) (relaunched mm (issuedPorts (bn_machine b)) T rm rd) b"
proof -
  obtain pm pd where s: "rs_mongo (bn_servers b) = Some (rm\<lparr>rt_proc := pm\<rparr>)"
    "rs_dumbo (bn_servers b) = Some (rd\<lparr>rt_proc := pd\<rparr>)"
    using assms(2) unfolding pair_dirs_def by blast
  have weaken: "bounded mm P T m \<Longrightarrow> P \<subseteq> P' \<Longrightarrow> bounded mm P' T m" for P P' m
    unfolding bounded_def by blast
  show ?thesis
    unfolding launch_mongo_def launch_dumbo_def wp_and_then
  proof (rule wp_launch_target[where get = rs_mongo, OF assms(1) s(1) assms(3)], goal_cases)
    case (1 e b')
    then show ?case
      using assms(2) weaken by (auto simp: relaunched_def pair_inv_def)
  next
    case (2 r p b')
    show ?case
    proof (cases r)
      case (Inl e)
      then show ?thesis using 2(1,2) weaken[OF 2(1)] s
        by (auto simp: relaunched_def pair_inv_def pair_dirs_def target_procs_def)
    next
      case (Inr uri)
      with 2(3) obtain port where port: "uri = server_uri port" "port \<notin> issuedPorts (bn_machine b)"
        "issuedPorts (bn_machine b') = insert port (issuedPorts (bn_machine b))" by blast
      let ?b = "b'\<lparr>bn_servers := (bn_servers b')\<lparr>rs_MongoURI := uri\<rparr>\<rparr>"
      have s': "rs_dumbo (bn_servers ?b) = Some (rd\<lparr>rt_proc := pd\<rparr>)"
        "rs_mongo (bn_servers ?b) = Some (rm\<lparr>rt_proc := Some p\<rparr>)" using 2(2) s by simp_all
      have b': "bounded mm {p} T (bn_machine ?b)" using 2(1) by simp
      have "wp (launch_target os rs_dumbo (\<lambda>t s. s\<lparr>rs_dumbo := t\<rparr>)) (\<lambda>r m'. case r of
              Inl e \<Rightarrow> relaunched mm (issuedPorts (bn_machine b)) T rm rd (Inl e) m'
            | Inr uri \<Rightarrow> relaunched mm (issuedPorts (bn_machine b)) T rm rd (Inr ())
                (m'\<lparr>bn_servers := (bn_servers m')\<lparr>rs_DumboDBURI := uri\<rparr>\<rparr>)) ?b"
      proof (rule wp_launch_target[where get = rs_dumbo, OF assms(1) s'(1) b'], goal_cases)
        case (1 e b'')
        then show ?case using s' weaken[OF 1(1)] by (auto simp: relaunched_def pair_inv_def pair_dirs_def target_procs_def)
      next
        case (2 r q b'')
        have inv: "pair_inv mm T rm rd b''"
          using 2(1,2) s' by (auto simp: pair_inv_def pair_dirs_def target_procs_def insert_commute bounded_def)
        show ?case
        proof (cases r)
          case (Inr uri')
          with 2(3) port(3) obtain port' where "uri' = server_uri port'" "port' \<notin> insert port (issuedPorts (bn_machine b))"
            by auto
          then show ?thesis using Inr inv 2(2) port(1,2)
            by (auto simp: relaunched_def pair_inv_def pair_dirs_def)
        qed (use inv in \<open>simp add: relaunched_def\<close>)
      qed
      then have "wp (launch_target os rs_dumbo (\<lambda>t s. s\<lparr>rs_dumbo := t\<rparr>)) (\<lambda>r m'. case r of
              Inl e \<Rightarrow> relaunched mm (issuedPorts (bn_machine b)) T rm rd (Inl e) m'
            | Inr uri \<Rightarrow> wp (servers_change (\<lambda>s. s\<lparr>rs_DumboDBURI := uri\<rparr>))
                (relaunched mm (issuedPorts (bn_machine b)) T rm rd) m') ?b"
        by (rule wp_mono) (simp add: wp_servers_change split: sum.splits)
      then show ?thesis using Inr by (simp add: wp_servers_change[of "\<lambda>s. s\<lparr>rs_MongoURI := uri\<rparr>"])
    qed
  qed
qed

lemma shutdown_both_bounded:
  assumes "pair_inv mm T rm rd b"
  shows "bounded mm {} T (bn_machine (shutdown_both exits b)) \<and>
    bn_servers (shutdown_both exits b) = bn_servers b \<and>
    issuedPorts (bn_machine (shutdown_both exits b)) = issuedPorts (bn_machine b)"
proof -
  obtain tm td where t: "rs_mongo (bn_servers b) = Some tm" "rs_dumbo (bn_servers b) = Some td"
    using assms by (auto simp: pair_inv_def pair_dirs_def)
  with assms have "bounded mm (target_procs (Some tm) \<union> (target_procs (Some td) \<union> {})) T (bn_machine b)"
    by (simp add: pair_inv_def)
  from shutdown_target_bounded[OF shutdown_target_bounded[OF this]] t show ?thesis
    by (simp add: shutdown_both_def)
qed

lemma wp_Restart_pair:
  assumes "os_sane os" "pair_inv mm T rm rd b"
  shows "wp (Restart_pair os exits) (relaunched mm (issuedPorts (bn_machine b)) T rm rd) b"
  using wp_launch_both[OF assms(1), of rm rd "shutdown_both exits b" mm T] shutdown_both_bounded[OF assms(2), of exits]
    assms(2)
  by (simp add: Restart_pair_def wp_simps pair_inv_def)

text \<open>A restart always returns; whatever becomes of the processes, the data directories are
  exactly the ones there were, both targets keep their own, and when it succeeds each server is on a
  port no earlier server of the process was given, so an address from before never reaches them.\<close>

theorem restart_keeps_data:
  assumes "os_sane os" "rs_mongo (bn_servers b) = Some rm" "rs_dumbo (bn_servers b) = Some rd"
  shows "\<exists>r b'. Restart_pair os exits b = Some (r, b') \<and>
    tempDirs (bn_machine b') = tempDirs (bn_machine b) \<and>
    map_option rt_dir (rs_mongo (bn_servers b')) = Some (rt_dir rm) \<and>
    map_option rt_dir (rs_dumbo (bn_servers b')) = Some (rt_dir rd) \<and>
    (isl r \<or> (\<exists>p q. p \<notin> issuedPorts (bn_machine b) \<and> q \<notin> issuedPorts (bn_machine b) \<and> p \<noteq> q \<and>
       rs_MongoURI (bn_servers b') = server_uri p \<and> rs_DumboDBURI (bn_servers b') = server_uri q))"
proof -
  have "rs_mongo (bn_servers b) = Some (rm\<lparr>rt_proc := rt_proc rm\<rparr>)"
    "rs_dumbo (bn_servers b) = Some (rd\<lparr>rt_proc := rt_proc rd\<rparr>)" using assms by simp_all
  then have "pair_dirs rm rd (bn_servers b)" unfolding pair_dirs_def by blast
  then have "pair_inv (bn_machine b) (tempDirs (bn_machine b)) rm rd b"
    by (auto simp: pair_inv_def bounded_def)
  from wp_Restart_pair[OF assms(1) this] obtain r b' where r: "Restart_pair os exits b = Some (r, b')"
    "relaunched (bn_machine b) (issuedPorts (bn_machine b)) (tempDirs (bn_machine b)) rm rd r b'"
    unfolding wp_def by blast
  then show ?thesis
    by (cases r) (auto simp: relaunched_def pair_inv_def pair_dirs_def bounded_def)
qed

definition sample_mongo :: restartTarget where
  "sample_mongo = \<lparr>rt_bin = ''mongod'', rt_dir = ''/m'', rt_args = mongodArgs failing_os False, rt_proc = None\<rparr>"

definition sample_dumbo :: restartTarget where
  "sample_dumbo = \<lparr>rt_bin = ''dumbodb'', rt_dir = ''/d'', rt_args = dumbodbArgs failing_os False, rt_proc = None\<rparr>"

definition sample_bench :: "(nat, RestartableServers) bench" where
  "sample_bench = \<lparr>bn_machine = idle_machine 0, bn_servers =
     \<lparr>rs_MongoURI = server_uri 1, rs_DumboDBURI = server_uri 2, rs_mongo = Some sample_mongo,
      rs_dumbo = Some sample_dumbo\<rparr>\<rparr>"

lemma restart_keeps_data_witness:
  "\<exists>r b'. Restart_pair failing_os (\<lambda>p. True) sample_bench = Some (r, b') \<and>
    tempDirs (bn_machine b') = tempDirs (bn_machine sample_bench) \<and>
    map_option rt_dir (rs_mongo (bn_servers b')) = Some (rt_dir sample_mongo) \<and>
    map_option rt_dir (rs_dumbo (bn_servers b')) = Some (rt_dir sample_dumbo) \<and>
    (isl r \<or> (\<exists>p q. p \<notin> issuedPorts (bn_machine sample_bench) \<and> q \<notin> issuedPorts (bn_machine sample_bench) \<and> p \<noteq> q \<and>
       rs_MongoURI (bn_servers b') = server_uri p \<and> rs_DumboDBURI (bn_servers b') = server_uri q))"
  by (rule restart_keeps_data[OF failing_os_sane(1)]) (simp_all add: sample_bench_def)

section \<open>Cleanup of the restartable pair\<close>

lemma stop_target_bounded:
  assumes "bounded mm (target_procs t \<union> P) T m"
  shows "bounded mm P (T - rt_dir ` set_option t) (stop_target exits t m)"
proof (cases t)
  case (Some rt)
  with assms have "bounded mm P T (shutdown_target exits rt m)" by (intro shutdown_target_bounded) simp
  with Some show ?thesis by (simp add: stop_target_def bounded_def removeDir_def)
qed (use assms in \<open>simp add: stop_target_def bounded_def target_procs_def\<close>)

lemma pair_torn_down:
  assumes "pair_inv mm T rm rd b"
  shows "bounded mm {} (T - {rt_dir rm, rt_dir rd}) (bn_machine (restart_Stop exits b))"
proof -
  let ?s = "bn_servers b"
  have "bounded mm (target_procs (rs_mongo ?s) \<union> (target_procs (rs_dumbo ?s) \<union> {})) T (bn_machine b)"
    using assms by (simp add: pair_inv_def)
  from stop_target_bounded[OF stop_target_bounded[OF this], of exits exits]
  have "bounded mm {} (T - rt_dir ` set_option (rs_mongo ?s) - rt_dir ` set_option (rs_dumbo ?s))
      (bn_machine (restart_Stop exits b))"
    by (simp add: restart_Stop_def)
  then show ?thesis using assms by (auto simp: pair_inv_def pair_dirs_def bounded_def)
qed

text \<open>A test that starts the pair and restarts it any number of times; the first failure ends it.\<close>

fun restarts :: "'w os \<Rightarrow> (int \<Rightarrow> bool) \<Rightarrow> nat \<Rightarrow> (('w, RestartableServers) bench, unit) act" where
  "restarts os exits 0 = ok ()"
| "restarts os exits (Suc n) = and_then (Restart_pair os exits) (\<lambda>_. restarts os exits n)"

definition durability_test where
  "durability_test os exits n = and_then (StartRestartableServers os) (\<lambda>_. restarts os exits n)"

text \<open>Where a test ends: with its pair, on two directories of its own; or without one, having lost at
  most one directory.\<close>

definition test_end :: "'w machine \<Rightarrow> ('w, RestartableServers) bench \<Rightarrow> bool" where
  "test_end mm b \<longleftrightarrow>
     (\<exists>rm rd. pair_inv mm (insert (rt_dir rd) (insert (rt_dir rm) (tempDirs mm))) rm rd b) \<or>
     (\<exists>D dir. bn_servers b = no_pair \<and> bounded mm {} (tempDirs mm \<union> D) (bn_machine b) \<and> D \<subseteq> {dir})"

definition test_running :: "'w machine \<Rightarrow> goerror + unit \<Rightarrow> ('w, RestartableServers) bench \<Rightarrow> bool" where
  "test_running mm r b \<longleftrightarrow> test_end mm b \<and>
     (r = Inr () \<longrightarrow> (\<exists>rm rd. pair_inv mm (insert (rt_dir rd) (insert (rt_dir rm) (tempDirs mm))) rm rd b))"

lemma pair_end:
  "pair_inv mm (insert (rt_dir rd) (insert (rt_dir rm) (tempDirs mm))) rm rd b \<Longrightarrow> test_end mm b"
  unfolding test_end_def by blast

lemma pair_running:
  "pair_inv mm (insert (rt_dir rd) (insert (rt_dir rm) (tempDirs mm))) rm rd b \<Longrightarrow> test_running mm r b"
  unfolding test_running_def using pair_end by blast

lemma wp_restarts:
  assumes "os_sane os" "pair_inv mm (insert (rt_dir rd) (insert (rt_dir rm) (tempDirs mm))) rm rd b"
  shows "wp (restarts os exits n) (\<lambda>r. test_end mm) b"
  using assms(2)
proof (induction n arbitrary: b)
  case 0
  then show ?case by (simp add: wp_ok pair_end)
next
  case (Suc n)
  show ?case
    unfolding restarts.simps wp_and_then
    by (rule wp_mono[OF wp_Restart_pair[OF assms(1) Suc.prems]])
      (auto simp: relaunched_def split: sum.split intro: pair_end Suc.IH)
qed

lemma wp_StartRestartableServers:
  assumes "os_sane os" "bn_servers b = no_pair"
  shows "wp (StartRestartableServers os) (test_running (bn_machine b)) b"
proof -
  let ?mm = "bn_machine b"
  have lost: "test_running ?mm (Inl e) (b\<lparr>bn_machine := m\<rparr>)" if "bounded ?mm {} (tempDirs ?mm \<union> D) m" "D \<subseteq> {dir}" for e m D dir
    using that assms(2) unfolding test_running_def test_end_def by auto
  have early: "test_running ?mm (Inl e) b" for e
    using lost[of "{}" ?mm] bounded_refl[of ?mm] by simp
  show ?thesis
    unfolding StartRestartableServers_def
  proof (simp add: wp_fail early, intro impI, subst wp_and_then, subst wp_on_bench,
      rule wp_mustTempDir[OF assms(1) bounded_refl], goal_cases)
    case (1 e m)
    then show ?case using lost[of "{}" m] by simp
  next
    case (2 mdir m)
    show ?case
    proof (simp add: wp_and_then[of "on_bench _"] wp_on_bench, rule wp_mustTempDir[OF assms(1) 2(3)], goal_cases)
      case (1 e m)
      then show ?case using lost[of "{mdir}" m mdir] by simp
    next
      case (2 ddir m)
      let ?rm = "\<lparr>rt_bin = findMongodBin os, rt_dir = mdir, rt_args = mongodArgs os False, rt_proc = None\<rparr>"
      let ?rd = "\<lparr>rt_bin = findDumboDBBinary os, rt_dir = ddir, rt_args = dumbodbArgs os False, rt_proc = None\<rparr>"
      let ?b = "b\<lparr>bn_machine := m, bn_servers := (bn_servers b)\<lparr>rs_mongo := Some ?rm, rs_dumbo := Some ?rd\<rparr>\<rparr>"
      have "?rm = ?rm\<lparr>rt_proc := None\<rparr>" "?rd = ?rd\<lparr>rt_proc := None\<rparr>" by simp_all
      then have "pair_dirs ?rm ?rd (bn_servers ?b)" unfolding pair_dirs_def by auto
      moreover have "bounded ?mm {} (insert ddir (insert mdir (tempDirs ?mm))) (bn_machine ?b)" using 2(1) by simp
      ultimately have "wp (and_then (launch_mongo os) (\<lambda>_. launch_dumbo os))
          (relaunched ?mm (issuedPorts (bn_machine ?b)) (insert ddir (insert mdir (tempDirs ?mm))) ?rm ?rd) ?b"
        by (rule wp_launch_both[OF assms(1)])
      then have "wp (and_then (launch_mongo os) (\<lambda>_. launch_dumbo os)) (test_running ?mm) ?b"
        by (rule wp_mono) (rule pair_running[of _ ?rd ?rm], simp add: relaunched_def)
      then show ?case by (simp add: wp_and_then[of "servers_change _"] wp_servers_change)
    qed
  qed
qed

text \<open>A durability test that starts its pair and restarts it any number of times, ended by the
  first failure, always returns; and the cleanup it registered leaves no process, no log and none of
  the data directories, unless the second directory could not be made, when the first one stays.\<close>

theorem durability_cleanup:
  assumes "os_sane os" "bn_servers b = no_pair"
  shows "\<exists>r b' dir. durability_test os exits n b = Some (r, b') \<and>
    running (bn_machine (restart_Stop exits b')) \<subseteq> running (bn_machine b) \<and>
    openLogs (bn_machine (restart_Stop exits b')) \<subseteq> openLogs (bn_machine b) \<and>
    tempDirs (bn_machine (restart_Stop exits b')) \<subseteq>
      tempDirs (bn_machine b) \<union> (if bn_servers b' = no_pair then {dir} else {})"
proof -
  let ?mm = "bn_machine b"
  have "wp (durability_test os exits n) (\<lambda>r. test_end ?mm) b"
    unfolding durability_test_def wp_and_then
    by (rule wp_mono[OF wp_StartRestartableServers[OF assms]])
      (auto simp: test_running_def split: sum.split intro: wp_restarts[OF assms(1)])
  then obtain r b' where r: "durability_test os exits n b = Some (r, b')" "test_end ?mm b'"
    unfolding wp_def by blast
  from r(2) consider rm rd where "pair_inv ?mm (insert (rt_dir rd) (insert (rt_dir rm) (tempDirs ?mm))) rm rd b'"
    | D dir where "bn_servers b' = no_pair" "bounded ?mm {} (tempDirs ?mm \<union> D) (bn_machine b')" "D \<subseteq> {dir}"
    unfolding test_end_def by blast
  then show ?thesis
  proof cases
    case 1
    from pair_torn_down[OF this, of exits] r(1) show ?thesis by (auto simp: bounded_def)
  next
    case 2
    then show ?thesis using r(1)
      by (intro exI[of _ r] exI[of _ b'] exI[of _ dir]) (auto simp: restart_Stop_def no_pair_def stop_target_def bounded_def)
  qed
qed

lemma durability_cleanup_witness:
  "\<exists>r b' dir. durability_test failing_os (\<lambda>p. True) 2 \<lparr>bn_machine = idle_machine 0, bn_servers = no_pair\<rparr> = Some (r, b') \<and>
    running (bn_machine (restart_Stop (\<lambda>p. True) b')) \<subseteq> running (idle_machine (0 :: nat)) \<and>
    openLogs (bn_machine (restart_Stop (\<lambda>p. True) b')) \<subseteq> openLogs (idle_machine (0 :: nat)) \<and>
    tempDirs (bn_machine (restart_Stop (\<lambda>p. True) b')) \<subseteq>
      tempDirs (idle_machine (0 :: nat)) \<union> (if bn_servers b' = no_pair then {dir} else {})"
  using durability_cleanup[OF failing_os_sane(1), of "\<lparr>bn_machine = idle_machine 0, bn_servers = no_pair\<rparr>"] by simp

end
