(* ===== verification/RunReport.thy ===== *)
theory RunReport
  imports Lifecycle GoText
begin

text \<open>
  What a concurrency run reports: the rates with their Wilson intervals
  (src/concurrency/statistics.go), the throughput and the summary line (report.go), and the command
  that runs a scenario, writes the report and finalises the target (src/cmd/concurrency/main.go).
  Floating-point operations round one by one, as on baseline amd64.
\<close>

section \<open>Square roots, maxima and minima\<close>

function isqrt :: "nat \<Rightarrow> nat" where
  "isqrt n = (if n = 0 then 0
     else let s = 2 * isqrt (n div 4) in if (s + 1) * (s + 1) \<le> n then s + 1 else s)"
  by pat_completeness auto
termination by (relation "measure id") auto

declare isqrt.simps [simp del]

text \<open>\<open>math.Sqrt\<close>: the root rounded to nearest. A root of two floating-point neighbours' midpoint is
  not a floating-point number, so there are no ties.\<close>

fun float_sqrt :: "float64 \<Rightarrow> float64" where
  "float_sqrt FNaN = FNaN"
| "float_sqrt (FInf neg) = (if neg then FNaN else FInf False)"
| "float_sqrt (FZero neg) = FZero neg"
| "float_sqrt (FFin r) =
     (if r < 0 then FNaN
      else let u = exponent_of r div 2 - 52; t = r / 2 powi (2 * u); f = isqrt (nat \<lfloor>t\<rfloor>);
               m = (if (of_nat f + 1 / 2) ^ 2 < t then f + 1 else f)
           in FFin (of_nat m * 2 powi u))"

definition float_max :: "float64 \<Rightarrow> float64 \<Rightarrow> float64" where
  "float_max x y =
     (if x = FInf False \<or> y = FInf False then FInf False
      else if x = FNaN \<or> y = FNaN then FNaN
      else if float_eq x (FZero False) \<and> float_eq x y then (if float_sign x then y else x)
      else if float_less y x then x else y)"

definition float_min :: "float64 \<Rightarrow> float64 \<Rightarrow> float64" where
  "float_min x y =
     (if x = FInf True \<or> y = FInf True then FInf True
      else if x = FNaN \<or> y = FNaN then FNaN
      else if float_eq x (FZero False) \<and> float_eq x y then (if float_sign x then x else y)
      else if float_less x y then x else y)"

section \<open>Rates\<close>

record RateEstimate =
  re_Count :: int
  re_SampleSize :: int
  re_Rate :: float64
  re_Lower95 :: float64
  re_Upper95 :: float64

record RunStatistics =
  st_MatchRate :: RateEstimate
  st_NoMatchRate :: RateEstimate
  st_RejectedRate :: RateEstimate
  st_IndeterminateRate :: RateEstimate

text \<open>The quantile is a decimal constant; its square is a constant expression, rounded once.\<close>

definition z_quantile :: rat where "z_quantile = 1959963984540054 / 10 ^ 15"
definition z_float :: float64 where "z_float = round64 z_quantile"
definition zSquared :: float64 where "zSquared = round64 (z_quantile * z_quantile)"

definition wilson_center :: "float64 \<Rightarrow> float64 \<Rightarrow> float64" where
  "wilson_center p n =
     float_div (float_add p (float_div zSquared (float_mul (float_of_int 2) n)))
       (float_add (float_of_int 1) (float_div zSquared n))"

definition wilson_margin :: "float64 \<Rightarrow> float64 \<Rightarrow> float64" where
  "wilson_margin p n =
     float_div
       (float_mul z_float (float_sqrt (float_div
          (float_add (float_mul p (float_sub (float_of_int 1) p)) (float_div zSquared (float_mul (float_of_int 4) n))) n)))
       (float_add (float_of_int 1) (float_div zSquared n))"

definition wilsonRate :: "int \<Rightarrow> int \<Rightarrow> RateEstimate" where
  "wilsonRate hits sampleSize =
     (if sampleSize \<le> 0
      then \<lparr>re_Count = hits, re_SampleSize = sampleSize, re_Rate = FZero False, re_Lower95 = FZero False,
            re_Upper95 = FZero False\<rparr>
      else let n = float_of_int sampleSize; p = float_div (float_of_int hits) n
           in \<lparr>re_Count = hits, re_SampleSize = sampleSize, re_Rate = p,
               re_Lower95 = float_max (FZero False) (float_sub (wilson_center p n) (wilson_margin p n)),
               re_Upper95 = float_min (float_of_int 1) (float_add (wilson_center p n) (wilson_margin p n))\<rparr>)"

definition calculateStatistics :: "LedgerSnapshot \<Rightarrow> RunStatistics" where
  "calculateStatistics ledger =
     \<lparr>st_MatchRate = wilsonRate (Matched ledger) (Attempts ledger),
      st_NoMatchRate = wilsonRate (NoMatch ledger) (Attempts ledger),
      st_RejectedRate = wilsonRate (Rejected ledger) (Attempts ledger),
      st_IndeterminateRate = wilsonRate (Indeterminate ledger) (Attempts ledger)\<rparr>"

section \<open>Throughput and summary\<close>

text \<open>\<open>Duration.Seconds\<close>: whole seconds and nanoseconds, with Go's division towards zero.\<close>

definition duration_seconds :: "duration \<Rightarrow> float64" where
  "duration_seconds d =
     (let s = sgn d * (\<bar>d\<bar> div 10 ^ 9); ns = sgn d * (\<bar>d\<bar> mod 10 ^ 9)
      in float_add (float_of_int s) (float_div (float_of_int ns) (float_of_int (10 ^ 9))))"

definition OperationsPerSecond :: "LifecycleResult \<Rightarrow> float64" where
  "OperationsPerSecond r =
     (let elapsed = duration_seconds (time_sub (Some (lr_WorkloadFinishedAt r)) (Some (lr_WorkloadStartedAt r)))
      in if float_le elapsed (FZero False) then FZero False
         else float_div (float_of_int (Attempts (lr_Ledger r))) elapsed)"

fun Verdict_text :: "Verdict \<Rightarrow> string" where
  "Verdict_text VerdictConclusivePass = ''conclusivePass''"
| "Verdict_text VerdictInconclusive = ''inconclusive''"
| "Verdict_text VerdictFailed = ''failed''"

definition run_Summary :: "LifecycleResult \<Rightarrow> string" where
  "run_Summary r =
     lr_Product r @ '' '' @ lr_Version r @ '' scenario='' @ lr_Scenario r @
     '' attempts='' @ itoa (Attempts (lr_Ledger r)) @ '' matched='' @ itoa (Matched (lr_Ledger r)) @
     '' noMatch='' @ itoa (NoMatch (lr_Ledger r)) @ '' rejected='' @ itoa (Rejected (lr_Ledger r)) @
     '' indeterminate='' @ itoa (Indeterminate (lr_Ledger r)) @
     '' opsPerSecond='' @ fmt_fixed False 1 (OperationsPerSecond r) @
     '' verdict='' @ Verdict_text (lifecycle_Verdict r)"

section \<open>The command\<close>

datatype command_effect =
    Stderr string
  | Stdout string
  | WriteReport string           \<comment> \<open>the path, empty for standard output\<close>
  | TargetCall string

text \<open>What the run meets: the configuration's and scenario's errors, the result of the run, creating,
  writing and closing the report, dropping and disconnecting the target.\<close>

record command_world =
  cw_invalid :: "goerror option"
  cw_scenario :: "goerror option"
  cw_run :: "LifecycleResult \<times> goerror option"
  cw_create :: "goerror option"
  cw_write :: "goerror option"
  cw_close :: "goerror option"
  cw_drop :: "goerror option"
  cw_disconnect :: "goerror option"

definition print_err :: "goerror option \<Rightarrow> command_effect list" where
  "print_err e = (case e of None \<Rightarrow> [] | Some err \<Rightarrow> [Stderr (error_text err)])"

definition command_finalize :: "command_world \<Rightarrow> bool \<Rightarrow> command_effect list" where
  "command_finalize w preserve =
     (case Finalize preserve (cw_drop w) (cw_disconnect w) (fst (cw_run w)) of
        ((calls, err), r) \<Rightarrow> map TargetCall calls @ print_err err)"

definition report_error :: "command_world \<Rightarrow> string \<Rightarrow> goerror option" where
  "report_error w outputPath =
     (case cw_write w of Some e \<Rightarrow> Some e | None \<Rightarrow> if outputPath \<noteq> [] then cw_close w else None)"

definition command_main :: "Config \<Rightarrow> string \<Rightarrow> command_world \<Rightarrow> command_effect list \<times> int" where
  "command_main cfg outputPath w =
     (case cw_invalid w of Some e \<Rightarrow> ([Stderr (error_text e)], 2)
      | None \<Rightarrow> (case cw_scenario w of Some e \<Rightarrow> ([Stderr (error_text e)], 2)
      | None \<Rightarrow>
        let (result, runErr) = cw_run w in
        if lr_Product result = []
        then ([Stderr (case runErr of None \<Rightarrow> ''<nil>'' | Some e \<Rightarrow> error_text e)], 1)
        else
          let summary = Stdout (run_Summary result) in
          if outputPath \<noteq> [] \<and> cw_create w \<noteq> None
          then (summary # print_err (cw_create w) @ command_finalize w True, 1)
          else case report_error w outputPath of
            Some e \<Rightarrow> ([summary, WriteReport outputPath, Stderr (error_text e)] @ command_finalize w True, 1)
          | None \<Rightarrow>
              ([summary, WriteReport outputPath] @
               command_finalize w (preserve_data cfg result runErr) @ print_err runErr,
               resultExitCode result runErr)))"

end
