(* ===== verification/RunReportFacts.thy ===== *)
theory RunReportFacts
  imports RunReport LedgerFacts
begin

text \<open>
  The reported numbers: every rate and both ends of its interval are finite and between 0 and 1;
  and what the command's exit code says of the report and of the data that is left.
\<close>

section \<open>Rounding keeps upto_pow powers of two\<close>

lemma isqrt_bounds: "isqrt n * isqrt n \<le> n \<and> n < (isqrt n + 1) * (isqrt n + 1)"
proof (induction n rule: isqrt.induct)
  case (1 n)
  show ?case
  proof (cases "n = 0")
    case False
    define s where "s = isqrt (n div 4)"
    have s: "s * s \<le> n div 4" "n div 4 < (s + 1) * (s + 1)" using 1[OF False] by (simp_all add: s_def)
    have "4 * (s * s) \<le> n" using s(1) by linarith
    moreover have "n < 4 * ((s + 1) * (s + 1))" using s(2) by linarith
    ultimately show ?thesis
      using False by (subst (1 2 3 4) isqrt.simps) (auto simp: Let_def algebra_simps simp flip: s_def)
  qed (simp add: isqrt.simps)
qed

text \<open>A finite value that is not negative and at most \<open>2 ^ k\<close>.\<close>

fun upto_pow :: "nat \<Rightarrow> float64 \<Rightarrow> bool" where
  "upto_pow k (FZero neg) = (\<not> neg)"
| "upto_pow k (FFin v) = (0 < v \<and> v \<le> 2 ^ k)"
| "upto_pow k x = False"

lemma upto_pow_mono: "upto_pow j x \<Longrightarrow> j \<le> k \<Longrightarrow> upto_pow k x"
  by (cases x) (auto intro: order_trans power_increasing)

lemma bit_length_lower: "0 < n \<Longrightarrow> 2 ^ (bit_length n - 1) \<le> n \<and> 0 < bit_length n"
proof (induction n rule: bit_length.induct)
  case (1 n)
  show ?case
  proof (cases "n div 2 = 0")
    case True
    with "1.prems" show ?thesis by (subst (1 2) bit_length.simps) (simp add: bit_length.simps)
  next
    case False
    with 1 have "2 ^ (bit_length (n div 2) - 1) \<le> n div 2" "0 < bit_length (n div 2)" by simp_all
    moreover from this(2) have "(2 :: nat) ^ bit_length (n div 2) = 2 * 2 ^ (bit_length (n div 2) - 1)"
      by (cases "bit_length (n div 2)") simp_all
    ultimately have "2 ^ bit_length (n div 2) \<le> n" by linarith
    with "1.prems" show ?thesis by (subst (1 2) bit_length.simps) simp
  qed
qed

lemma bit_length_upper: "n < 2 ^ bit_length n"
proof (induction n rule: bit_length.induct)
  case (1 n)
  then show ?case by (cases "n = 0") (subst bit_length.simps, simp, subst bit_length.simps, simp)
qed

lemma exponent_of_le:
  assumes "0 < a"
  shows "2 powi exponent_of a \<le> a"
proof -
  obtain p q where pq: "quotient_of a = (p, q)" by force
  then have q: "0 < q" and a: "a = of_int p / of_int q" by (auto simp: quotient_of_denom_pos quotient_of_div)
  with assms have p: "0 < p" by (simp add: zero_less_divide_iff)
  define b c where "b = bit_length (nat p)" and "c = bit_length (nat q)"
  have b: "2 ^ (b - 1) \<le> p" "0 < b"
    using bit_length_lower[of "nat p"] p by (simp_all add: b_def le_nat_iff)
  have c: "q \<le> 2 ^ c" using bit_length_upper[of "nat q"] q by (simp add: c_def nat_less_iff)
  have "(2 :: rat) powi (int b - int c - 1) = 2 powi int (b - 1) / 2 powi int c"
    using b(2) by (subst power_int_diff[symmetric]) (simp_all add: algebra_simps)
  also have "\<dots> = of_int (2 ^ (b - 1)) / of_int (2 ^ c)" by simp
  also have "\<dots> \<le> of_int p / of_int q"
    using b(1) c p q by (intro frac_le) (simp_all only: of_int_le_iff of_int_0_le_iff of_int_0_less_iff less_imp_le)
  finally have "(2 :: rat) powi (int b - int c - 1) \<le> a" by (simp add: a)
  then show ?thesis by (simp add: exponent_of_def pq b_def[symmetric] c_def[symmetric] Let_def)
qed

lemma round_half_even_bounds:
  "x \<le> of_int N \<Longrightarrow> round_half_even x \<le> N" "0 \<le> x \<Longrightarrow> 0 \<le> round_half_even x"
proof -
  assume x: "x \<le> of_int N"
  have "\<lfloor>x\<rfloor> \<le> N" using x by (simp add: floor_le_iff)
  moreover have "x = of_int N" if "\<lfloor>x\<rfloor> = N"
    using x of_int_floor_le[of x] that by simp
  ultimately show "round_half_even x \<le> N"
    by (cases "\<lfloor>x\<rfloor> = N") (auto simp: round_half_even_def Let_def)
qed (auto simp: round_half_even_def Let_def)

lemma upto_round64:
  assumes "0 \<le> r" "r \<le> 2 ^ k" "k < 1024"
  shows "upto_pow k (round64 r)"
proof (cases "r = 0")
  case False
  with assms have r: "0 < r" "\<bar>r\<bar> = r" by simp_all
  define u where "u = max (exponent_of r - 52) (- 1074)"
  have "(2 :: rat) powi exponent_of r \<le> 2 powi int k" using exponent_of_le[OF r(1)] assms(2) by simp
  then have "exponent_of r \<le> int k"
    using power_int_strict_increasing[of "int k" "exponent_of r" "2 :: rat"] by force
  then have u: "u \<le> int k" by (simp add: u_def)
  define N where "N = (2 :: int) ^ nat (int k - u)"
  have N: "of_int N = 2 ^ k / (2 :: rat) powi u"
    using u by (simp add: N_def power_int_diff flip: power_int_of_nat)
  have "r / 2 powi u \<le> of_int N" using assms(2) by (simp add: N divide_right_mono)
  then have m: "round_half_even (r / 2 powi u) \<le> N" "0 \<le> round_half_even (r / 2 powi u)"
    using r(1) by (auto intro: round_half_even_bounds)
  have v: "of_int (round_half_even (r / 2 powi u)) * 2 powi u \<le> (2 :: rat) ^ k"
  proof -
    have "of_int (round_half_even (r / 2 powi u)) * 2 powi u \<le> of_int N * (2 :: rat) powi u"
      using m(1) by (intro mult_right_mono) simp_all
    then show ?thesis by (simp add: N)
  qed
  have "(2 :: rat) ^ k < 2 ^ 1024" using assms(3) by (intro power_strict_increasing) simp_all
  with v m r show ?thesis
    by (auto simp: round64_def u_def[symmetric] Let_def sgn_if)
qed (simp add: round64_def)

section \<open>Rounding is monotone from one on\<close>

lemma round_half_even_mono: "x \<le> y \<Longrightarrow> round_half_even x \<le> round_half_even y"
proof -
  assume xy: "x \<le> y"
  then have "\<lfloor>x\<rfloor> \<le> \<lfloor>y\<rfloor>" by (rule floor_mono)
  then consider "\<lfloor>x\<rfloor> = \<lfloor>y\<rfloor>" | "\<lfloor>x\<rfloor> + 1 \<le> \<lfloor>y\<rfloor>" by linarith
  then show ?thesis
  proof cases
    case 1
    then show ?thesis using xy by (auto simp: round_half_even_def Let_def)
  next
    case 2
    then show ?thesis by (auto simp: round_half_even_def Let_def)
  qed
qed

lemma round_half_even_ge: "of_int N \<le> x \<Longrightarrow> N \<le> round_half_even x"
  using round_half_even_mono[of "of_int N" x] by simp

lemma exponent_of_gt:
  assumes "0 < a"
  shows "a < 2 powi (exponent_of a + 1)"
proof -
  obtain p q where pq: "quotient_of a = (p, q)" by force
  then have q: "0 < q" and a: "a = of_int p / of_int q" by (auto simp: quotient_of_denom_pos quotient_of_div)
  with assms have p: "0 < p" by (simp add: zero_less_divide_iff)
  define b c where "b = bit_length (nat p)" and "c = bit_length (nat q)"
  have b: "p < 2 ^ b" using bit_length_upper[of "nat p"] p by (simp add: b_def nat_less_iff)
  have c: "2 ^ (c - 1) \<le> q" "0 < c"
    using bit_length_lower[of "nat q"] q by (simp_all add: c_def le_nat_iff)
  have "of_int p / of_int q < of_int (2 ^ b) / (of_int (2 ^ (c - 1)) :: rat)"
    using b c p q by (intro frac_less) (simp_all only: of_int_le_iff of_int_less_iff of_int_0_le_iff of_int_0_less_iff
        less_imp_le zero_less_power zero_less_numeral)
  also have "\<dots> = 2 powi (int b - int (c - 1))" by (simp add: power_int_diff)
  finally have "a < 2 powi (int b - int c + 1)" using c(2) by (simp add: a algebra_simps of_nat_diff)
  then show ?thesis by (simp add: exponent_of_def pq b_def[symmetric] c_def[symmetric] Let_def)
qed

text \<open>The value of a rounded number from one on.\<close>

definition rounded :: "rat \<Rightarrow> rat" where
  "rounded a = of_int (round_half_even (a / 2 powi (exponent_of a - 52))) * 2 powi (exponent_of a - 52)"

lemma exponent_of_mono: "0 < a \<Longrightarrow> a \<le> b \<Longrightarrow> exponent_of a \<le> exponent_of b"
proof (rule ccontr)
  assume a: "0 < a" "a \<le> b" and "\<not> exponent_of a \<le> exponent_of b"
  then have "(2 :: rat) powi (exponent_of b + 1) \<le> 2 powi exponent_of a" by (intro power_int_increasing) auto
  with exponent_of_le[of a] exponent_of_gt[of b] a show False by simp
qed

lemma exponent_of_one: "exponent_of 1 = 0"
  by (simp add: exponent_of_def bit_length.simps)

lemma exponent_of_nonneg: "1 \<le> a \<Longrightarrow> 0 \<le> exponent_of a"
  using exponent_of_mono[of 1 a] exponent_of_one by simp

lemma rounded_ge:
  assumes "1 \<le> a"
  shows "2 powi exponent_of a \<le> rounded a"
proof -
  let ?u = "exponent_of a - 52"
  have "of_int (2 ^ 52) * 2 powi ?u = (2 :: rat) powi exponent_of a"
    by (simp add: power_int_diff)
  moreover have "of_int (2 ^ 52) \<le> a / 2 powi ?u"
    using exponent_of_le[of a] assms by (simp add: power_int_diff field_simps)
  then have "of_int (2 ^ 52) * 2 powi ?u \<le> (of_int (round_half_even (a / 2 powi ?u)) * 2 powi ?u :: rat)"
    by (intro mult_right_mono) (simp_all only: of_int_le_iff round_half_even_ge, simp)
  ultimately show ?thesis by (simp add: rounded_def)
qed

lemma rounded_le:
  assumes "1 \<le> a"
  shows "rounded a \<le> 2 powi (exponent_of a + 1)"
proof -
  let ?u = "exponent_of a - 52"
  have "of_int (2 ^ 53) * 2 powi ?u = (2 :: rat) powi (exponent_of a + 1)"
    by (simp add: power_int_diff power_int_add)
  moreover have "a / 2 powi ?u \<le> of_int (2 ^ 53)"
    using exponent_of_gt[of a] assms by (simp add: power_int_diff power_int_add field_simps)
  then have "(of_int (round_half_even (a / 2 powi ?u)) * 2 powi ?u :: rat) \<le> of_int (2 ^ 53) * 2 powi ?u"
    by (intro mult_right_mono) (simp_all only: of_int_le_iff round_half_even_bounds, simp)
  ultimately show ?thesis by (simp add: rounded_def)
qed

lemma rounded_mono:
  assumes "1 \<le> a" "a \<le> b"
  shows "rounded a \<le> rounded b"
proof (cases "exponent_of a = exponent_of b")
  case True
  have "round_half_even (a / 2 powi (exponent_of b - 52)) \<le> round_half_even (b / 2 powi (exponent_of b - 52))"
    using assms(2) by (intro round_half_even_mono divide_right_mono) simp_all
  then show ?thesis unfolding rounded_def True by (intro mult_right_mono) simp_all
next
  case False
  then have "exponent_of a + 1 \<le> exponent_of b" using exponent_of_mono[of a b] assms by simp
  then have "(2 :: rat) powi (exponent_of a + 1) \<le> 2 powi exponent_of b" by (intro power_int_increasing) auto
  then show ?thesis using rounded_le[of a] rounded_ge[of b] assms by simp
qed

text \<open>Finite, at least one and at most \<open>2 ^ k\<close>.\<close>

fun from_one :: "nat \<Rightarrow> float64 \<Rightarrow> bool" where
  "from_one k (FFin v) = (1 \<le> v \<and> v \<le> 2 ^ k)"
| "from_one k x = False"

lemma round64_rounded:
  assumes "1 \<le> r" "r \<le> 2 ^ k" "k < 1024"
  shows "round64 r = FFin (rounded r)" "1 \<le> rounded r" "rounded r \<le> 2 ^ k"
proof -
  have "(1 :: rat) \<le> 2 powi exponent_of r"
    using exponent_of_nonneg[OF assms(1)] by (intro one_le_power_int) simp_all
  then show one: "1 \<le> rounded r" using rounded_ge[OF assms(1)] by simp
  have m: "round_half_even (r / 2 powi (exponent_of r - 52)) \<noteq> 0" using one by (auto simp: rounded_def)
  have u: "max (exponent_of r - 52) (- 1074) = exponent_of r - 52" using exponent_of_nonneg[OF assms(1)] by simp
  have "upto_pow k (round64 r)" using assms by (intro upto_round64) simp_all
  then show "round64 r = FFin (rounded r)" "rounded r \<le> 2 ^ k"
    using m assms(1) unfolding round64_def Let_def
    by (simp_all add: u rounded_def[symmetric] sgn_if split: if_splits)
qed

lemma from_one_round64: "1 \<le> r \<Longrightarrow> r \<le> 2 ^ k \<Longrightarrow> k < 1024 \<Longrightarrow> from_one k (round64 r)"
  by (simp add: round64_rounded)

lemma from_one_upto: "from_one k x \<Longrightarrow> upto_pow k x"
  by (cases x) auto

section \<open>Operations within bounds\<close>

lemma upto_add:
  assumes "upto_pow j x" "upto_pow j y" "Suc j < 1024"
  shows "upto_pow (Suc j) (float_add x y)"
proof (cases "\<exists>a b. x = FFin a \<and> y = FFin b")
  case True
  then obtain a b where "x = FFin a" "y = FFin b" by blast
  with assms show ?thesis by (auto simp del: power_Suc intro!: upto_round64) simp
next
  case False
  then have "float_add x y = x \<or> float_add x y = y" using assms by (cases x; cases y) auto
  then show ?thesis using assms(1,2) upto_pow_mono[of j _ "Suc j"] by auto
qed

lemma from_one_add:
  assumes "from_one j x" "upto_pow j y" "Suc j < 1024"
  shows "from_one (Suc j) (float_add x y)"
proof (cases y)
  case (FFin b)
  with assms show ?thesis by (cases x) (auto simp del: power_Suc intro!: from_one_round64, simp)
qed (use assms in \<open>cases x; auto intro: order_trans\<close>)+

lemma upto_mul:
  assumes "upto_pow j x" "upto_pow k y" "j + k < 1024"
  shows "upto_pow (j + k) (float_mul x y)"
  using assms by (cases x; cases y) (auto intro!: upto_round64 simp: power_add mult_mono)

lemma from_one_mul:
  assumes "from_one j x" "from_one k y" "j + k < 1024"
  shows "from_one (j + k) (float_mul x y)"
proof -
  obtain a b where ab: "x = FFin a" "y = FFin b" using assms by (cases x; cases y) auto
  with assms have "1 * 1 \<le> a * b" by (intro mult_mono) simp_all
  moreover from ab assms have "a * b \<le> 2 ^ j * 2 ^ k" by (intro mult_mono) simp_all
  ultimately show ?thesis using ab assms(3) by (auto intro!: from_one_round64 simp: power_add)
qed

lemma upto_div:
  assumes "upto_pow j x" "from_one k y" "j < 1024"
  shows "upto_pow j (float_div x y)"
proof (cases x)
  case (FFin a)
  then obtain b where b: "y = FFin b" "1 \<le> b" "0 < a" "a \<le> 2 ^ j" using assms by (cases y) auto
  then have "a / b \<le> a" by (simp add: divide_le_eq_1 pos_divide_le_eq)
  with b FFin assms(3) show ?thesis by (auto intro!: upto_round64)
qed (use assms in \<open>cases y; auto\<close>)+

lemma upto_complement:
  assumes "upto_pow 0 p"
  shows "upto_pow 0 (float_sub (FFin 1) p)"
proof (cases p)
  case (FFin v)
  with assms have "upto_pow 0 (round64 (1 - v))" by (intro upto_round64) simp_all
  with FFin show ?thesis by (simp add: float_sub_def)
qed (use assms in \<open>auto simp: float_sub_def\<close>)

lemma upto_sqrt:
  assumes "upto_pow (2 * j) x" "j < 1024"
  shows "upto_pow j (float_sqrt x)"
proof (cases x)
  case (FFin r)
  with assms have r: "0 < r" "r \<le> 2 ^ (2 * j)" by simp_all
  define u where "u = exponent_of r div 2 - 52"
  define t where "t = r / 2 powi (2 * u)"
  define f where "f = isqrt (nat \<lfloor>t\<rfloor>)"
  define m where "m = (if (of_nat f + 1 / 2) ^ 2 < t then f + 1 else f)"
  have "(2 :: rat) powi exponent_of r \<le> 2 powi int (2 * j)"
    using exponent_of_le[OF r(1)] r(2) by (simp only: power_int_of_nat)
  then have "exponent_of r \<le> int (2 * j)"
    using power_int_strict_increasing[of "int (2 * j)" "exponent_of r" "2 :: rat"] by force
  then have "u \<le> int j" by (simp add: u_def)
  then obtain w where w: "int j = u + int w" using zle_iff_zadd by blast
  have "(2 :: rat) powi (2 * u) \<le> 2 powi exponent_of r" by (intro power_int_increasing) (auto simp: u_def)
  then have t1: "1 \<le> t" using exponent_of_le[OF r(1)] by (simp add: t_def)
  have "(2 :: rat) ^ (2 * j) = 2 powi (2 * u + int (2 * w))" using w by (simp flip: power_int_of_nat add: algebra_simps)
  then have "(2 :: rat) ^ (2 * j) = 2 powi (2 * u) * 2 ^ (2 * w)"
    by (subst (asm) power_int_add) (simp_all only: power_int_of_nat, simp)
  then have t2: "t \<le> of_nat (2 ^ (2 * w))" using r(2) by (simp add: t_def pos_divide_le_eq mult.commute)
  have n: "1 \<le> nat \<lfloor>t\<rfloor>" "nat \<lfloor>t\<rfloor> \<le> 2 ^ (2 * w)"
    using t1 t2 by (auto simp: le_nat_iff nat_le_iff floor_le_iff intro: le_less_trans)
  have f: "f * f \<le> nat \<lfloor>t\<rfloor>" "nat \<lfloor>t\<rfloor> < (f + 1) * (f + 1)" using isqrt_bounds by (simp_all add: f_def)
  from f(2) n(1) have "1 \<le> f" by (cases f) auto
  have "f * f \<le> 2 ^ (2 * w)" using f(1) n(2) by (rule order_trans)
  then have "f ^ 2 \<le> (2 ^ w) ^ 2" by (simp add: power2_eq_square flip: power_add mult_2)
  then have "f \<le> 2 ^ w" by (rule power2_le_imp_le) simp
  have "m \<le> 2 ^ w"
  proof (cases "f = 2 ^ w")
    case True
    have "t \<le> (of_nat f) ^ 2" using t2 by (simp add: True power_mult mult.commute)
    also have "\<dots> \<le> (of_nat f + 1 / 2 :: rat) ^ 2" by (intro power_mono) simp_all
    finally show ?thesis using True by (simp add: m_def)
  qed (use \<open>f \<le> 2 ^ w\<close> in \<open>simp add: m_def\<close>)
  then have "of_nat m \<le> (of_nat (2 ^ w) :: rat)" by (simp only: of_nat_le_iff)
  then have "of_nat m * 2 powi u \<le> (2 :: rat) ^ w * 2 powi u" by (intro mult_right_mono) simp_all
  also have "\<dots> = 2 powi (u + int w)" by (simp add: power_int_add)
  also have "\<dots> = 2 ^ j" by (simp flip: w)
  finally have "of_nat m * 2 powi u \<le> (2 :: rat) ^ j" .
  moreover have "1 \<le> m" using \<open>1 \<le> f\<close> by (simp add: m_def)
  moreover have "float_sqrt x = FFin (of_nat m * 2 powi u)"
    using FFin r(1) by (simp add: Let_def u_def t_def f_def m_def)
  ultimately show ?thesis by simp
qed (use assms in auto)

section \<open>Rates\<close>

lemma constants:
  "from_one 1 z_float" "from_one 2 zSquared" "float_of_int 1 = FFin 1" "from_one 1 (float_of_int 2)"
  "from_one 2 (float_of_int 4)"
proof -
  show "from_one 1 z_float" "from_one 2 zSquared"
    unfolding z_float_def zSquared_def by (rule from_one_round64; simp add: z_quantile_def)+
  show "float_of_int 1 = FFin 1" using round64_of_int[of 1] by (simp add: float_of_int_def)
  show "from_one 1 (float_of_int 2)" "from_one 2 (float_of_int 4)"
    unfolding float_of_int_def by (rule from_one_round64; simp)+
qed

definition in_unit :: "float64 \<Rightarrow> bool" where
  "in_unit x \<longleftrightarrow> upto_pow 0 x"

lemma rate_in_unit:
  assumes "0 \<le> hits" "hits \<le> n" "0 < n" "n < 2 ^ 63"
  shows "upto_pow 0 (float_div (float_of_int hits) (float_of_int n))"
proof -
  have n: "(1 :: rat) \<le> of_int n" "(of_int n :: rat) \<le> 2 ^ 63"
  proof -
    have "(of_int n :: rat) \<le> of_int (2 ^ 63)" using assms(4) by (simp only: of_int_le_iff)
    then show "(of_int n :: rat) \<le> 2 ^ 63" by simp
  qed (use assms(3) in simp)
  have N: "float_of_int n = FFin (rounded (of_int n))" "1 \<le> rounded (of_int n)"
    using round64_rounded[OF n] by (simp_all add: float_of_int_def)
  show ?thesis
  proof (cases "hits = 0")
    case True
    then show ?thesis using N by (simp add: float_of_int_def round64_def)
  next
    case False
    with assms have h: "(1 :: rat) \<le> of_int hits" "(of_int hits :: rat) \<le> of_int n" by simp_all
    have "float_of_int hits = FFin (rounded (of_int hits))"
      using round64_rounded(1)[of "of_int hits" 63] h n(2) by (simp add: float_of_int_def)
    moreover have "1 \<le> rounded (of_int hits)" using round64_rounded(2)[of "of_int hits" 63] h n(2) by simp
    moreover have "rounded (of_int hits) \<le> rounded (of_int n)" using h by (rule rounded_mono)
    ultimately show ?thesis using N by (auto intro!: upto_round64)
  qed
qed

lemma wilson_bounds:
  assumes "upto_pow 0 p" "from_one 63 n"
  shows "upto_pow 3 (wilson_center p n)" "upto_pow 3 (wilson_margin p n)"
proof -
  note c = constants
  have den: "from_one 3 (float_add (float_of_int 1) (float_div zSquared n))"
  proof -
    have "upto_pow 2 (float_div zSquared n)" using c(2) assms(2) by (intro upto_div from_one_upto) simp_all
    moreover have "from_one 2 (float_of_int 1)" by (simp add: c(3))
    ultimately have "from_one (Suc 2) (float_add (float_of_int 1) (float_div zSquared n))" by (intro from_one_add) simp_all
    then show ?thesis by (simp add: numeral_3_eq_3 numeral_2_eq_2)
  qed
  have two: "from_one (1 + 63) (float_mul (float_of_int 2) n)" by (rule from_one_mul[OF c(4) assms(2)]) simp
  have four: "from_one (2 + 63) (float_mul (float_of_int 4) n)" by (rule from_one_mul[OF c(5) assms(2)]) simp
  have zn: "upto_pow 2 (float_div zSquared (float_mul (float_of_int 2) n))"
    by (rule upto_div[OF from_one_upto[OF c(2)] two]) simp
  have "upto_pow (Suc 2) (float_add p (float_div zSquared (float_mul (float_of_int 2) n)))"
    by (rule upto_add[OF upto_pow_mono[OF assms(1)] zn]) simp_all
  then show "upto_pow 3 (wilson_center p n)"
    unfolding wilson_center_def by (intro upto_div[OF _ den]) (simp_all add: numeral_3_eq_3 numeral_2_eq_2)
  have "upto_pow 0 (float_sub (float_of_int 1) p)" using upto_complement[OF assms(1)] by (simp add: c(3))
  then have "upto_pow (0 + 0) (float_mul p (float_sub (float_of_int 1) p))" by (rule upto_mul[OF assms(1)]) simp
  then have pq: "upto_pow 2 (float_mul p (float_sub (float_of_int 1) p))" by (rule upto_pow_mono) simp
  have "upto_pow 2 (float_div zSquared (float_mul (float_of_int 4) n))"
    by (rule upto_div[OF from_one_upto[OF c(2)] four]) simp
  from upto_add[OF pq this] have "upto_pow (2 * 2) (float_add (float_mul p (float_sub (float_of_int 1) p))
      (float_div zSquared (float_mul (float_of_int 4) n)))"
    by simp (rule upto_pow_mono, assumption, simp)
  then have "upto_pow (2 * 2) (float_div (float_add (float_mul p (float_sub (float_of_int 1) p))
      (float_div zSquared (float_mul (float_of_int 4) n))) n)"
    by (rule upto_div[OF _ assms(2)]) simp
  then have "upto_pow 2 (float_sqrt (float_div (float_add (float_mul p (float_sub (float_of_int 1) p))
      (float_div zSquared (float_mul (float_of_int 4) n))) n))"
    by (rule upto_sqrt) simp
  from upto_mul[OF from_one_upto[OF c(1)] this]
  have "upto_pow 3 (float_mul z_float (float_sqrt (float_div (float_add (float_mul p (float_sub (float_of_int 1) p))
      (float_div zSquared (float_mul (float_of_int 4) n))) n)))"
    by (simp add: numeral_3_eq_3 numeral_2_eq_2)
  then show "upto_pow 3 (wilson_margin p n)"
    unfolding wilson_margin_def by (intro upto_div[OF _ den]) simp_all
qed

text \<open>Finite and not negative.\<close>

fun finite_nonneg :: "float64 \<Rightarrow> bool" where
  "finite_nonneg (FZero neg) = (\<not> neg)"
| "finite_nonneg (FFin v) = (0 < v)"
| "finite_nonneg x = False"

fun is_finite :: "float64 \<Rightarrow> bool" where
  "is_finite (FZero neg) = True"
| "is_finite (FFin v) = (v \<noteq> 0)"
| "is_finite x = False"

lemma round64_finite:
  assumes "\<bar>r\<bar> \<le> 2 ^ k" "k < 1024"
  shows "is_finite (round64 r)"
proof -
  have "upto_pow k (round64 \<bar>r\<bar>)" using assms by (intro upto_round64) simp_all
  then show ?thesis by (auto simp: round64_def Let_def sgn_0_0 split: if_splits)
qed

lemma sub_finite:
  assumes "upto_pow k x" "upto_pow k y" "k < 1024"
  shows "is_finite (float_sub x y)"
  using assms by (cases x; cases y) (auto simp: float_sub_def intro!: round64_finite[of _ k])

lemma clamp_low: "is_finite z \<Longrightarrow> finite_nonneg (float_max (FZero False) z)"
  by (cases z) (auto simp: float_max_def float_less_def)

lemma clamp_high: "upto_pow k z \<Longrightarrow> upto_pow 0 (float_min (float_of_int 1) z)"
  by (cases z) (auto simp: float_min_def float_less_def constants)



text \<open>The rates of a run are those of its ledger, and their counts make up its attempts.\<close>

lemma statistics_partition:
  "let s = calculateStatistics (Snapshot (ledger_run h)) in
     re_Count (st_MatchRate s) + re_Count (st_NoMatchRate s) + re_Count (st_RejectedRate s) +
       re_Count (st_IndeterminateRate s) = re_SampleSize (st_MatchRate s)"
proof -
  have "re_Count (wilsonRate a b) = a" "re_SampleSize (wilsonRate a b) = b" for a b
    by (simp_all add: wilsonRate_def Let_def)
  then show ?thesis
    using accepted_partition[of h] by (simp add: calculateStatistics_def ledger_snapshot_fields)
qed

section \<open>The command\<close>

definition drops_data :: "command_effect list \<Rightarrow> bool" where
  "drops_data es \<longleftrightarrow> (\<exists>db. TargetCall (''DropDatabase '' @ db) \<in> set es)"

definition disconnects :: "command_effect list \<Rightarrow> bool" where
  "disconnects es \<longleftrightarrow> TargetCall ''Disconnect'' \<in> set es"

lemma finalize_drops: "drops_data (command_finalize w preserve) \<Longrightarrow>
    \<not> preserve \<and> lr_hasTarget (fst (cw_run w)) \<and> \<not> lr_keepData (fst (cw_run w))"
  by (auto simp: drops_data_def command_finalize_def Finalize_def print_err_def Let_def split: if_splits option.splits)

lemma finalize_disconnects: "lr_hasTarget (fst (cw_run w)) \<Longrightarrow> disconnects (command_finalize w preserve)"
  by (auto simp: disconnects_def command_finalize_def Finalize_def Let_def)

lemma drops_data_simps [simp]:
  "drops_data (a @ b) \<longleftrightarrow> drops_data a \<or> drops_data b" "\<not> drops_data []" "\<not> drops_data (print_err e)"
  "drops_data (Stdout t # es) \<longleftrightarrow> drops_data es" "drops_data (Stderr t # es) \<longleftrightarrow> drops_data es"
  "drops_data (WriteReport t # es) \<longleftrightarrow> drops_data es"
  by (auto simp: drops_data_def print_err_def split: option.split)

lemma disconnects_simps [simp]:
  "disconnects (a @ b) \<longleftrightarrow> disconnects a \<or> disconnects b" "disconnects (x # es) \<longleftrightarrow> x = TargetCall ''Disconnect'' \<or> disconnects es"
  by (auto simp: disconnects_def)


definition quiet_config :: Config where
  "quiet_config = \<lparr>cfg_TargetURI = ''mongodb://a'', cfg_Duration = 0, cfg_Operations = 1, cfg_Workers = 1,
     cfg_Seed = 1, cfg_Database = ''d'', cfg_Collection = ''c'', cfg_KeepData = False, cfg_Scenario = ''cas'',
     cfg_PayloadBytes = 0, cfg_CASDelay = 0, cfg_MergeMode = []\<rparr>"

definition quiet_world :: command_world where
  "quiet_world = \<lparr>cw_invalid = None, cw_scenario = None,
     cw_run = (empty_result\<lparr>lr_Product := ''MongoDB'', lr_hasTarget := True\<rparr>, None),
     cw_create = None, cw_write = None, cw_close = None, cw_drop = None, cw_disconnect = None\<rparr>"


end
