(* ===== verification/WireLoads.thy ===== *)
theory WireLoads
  imports Machine ShopData
begin

text \<open>
  The workloads whose traffic is captured (src/cmd/wirecompress/main.go): a fixed sequence of driver
  calls under workload labels, on the orders that gendata inserted. The server answers each call
  from an unknown world; an update or a find that is answered has no reply to read, a command
  answers a document. A draw from no orders is the panic of \<open>Intn(0)\<close>: the run has no outcome.
\<close>

section \<open>Calls\<close>

datatype load_call =
    FindOne doc
  | UpdateOne doc doc
  | UpdateMany doc doc
  | FindDrain doc
  | AggregateDrain "doc list"
  | RunCmd doc

record ('g, 'w) load =
  ld_rand :: 'g
  ld_world :: 'w
  ld_workload :: string
  ld_log :: "(string \<times> load_call) list"     \<comment> \<open>the calls made, each with the workload of the moment\<close>

type_synonym 'w server_answers = "load_call \<Rightarrow> 'w \<Rightarrow> (goerror + doc) \<times> 'w"

definition perform :: "'w server_answers \<Rightarrow> string \<Rightarrow> load_call \<Rightarrow> (('g, 'w) load, doc) act" where
  "perform answer prefix c m =
     (case answer c (ld_world m) of
        (r, w) \<Rightarrow> Some (map_sum (ErrWrap prefix) id r,
          m\<lparr>ld_world := w, ld_log := ld_log m @ [(ld_workload m, c)]\<rparr>))"

definition setWorkload :: "string \<Rightarrow> (('g, 'w) load, unit) act" where
  "setWorkload name = change (\<lambda>m. m\<lparr>ld_workload := name\<rparr>)"

definition draw :: "'g source \<Rightarrow> int \<Rightarrow> (('g, 'w) load, int) act" where
  "draw intn n m =
     (if n \<le> 0 then None
      else case run_state (intn n) (ld_rand m) of (x, g) \<Rightarrow> Some (Inr x, m\<lparr>ld_rand := g\<rparr>))"

fun repeat_act :: "nat \<Rightarrow> ('m, 'a) act \<Rightarrow> ('m, 'a list) act" where
  "repeat_act 0 c = ok []"
| "repeat_act (Suc n) c = and_then c (\<lambda>x. and_then (repeat_act n c) (\<lambda>xs. ok (x # xs)))"

fun for_each :: "('a \<Rightarrow> ('m, 'b) act) \<Rightarrow> 'a list \<Rightarrow> ('m, unit) act" where
  "for_each f [] = ok ()"
| "for_each f (x # xs) = and_then (f x) (\<lambda>_. for_each f xs)"

section \<open>The workloads\<close>

definition orderNumber :: "int \<Rightarrow> string" where
  "orderNumber i = ''ORD-'' @ itoa_pad 7 i"

definition by_number :: "int \<Rightarrow> doc" where
  "by_number i = [(''orderNumber'', BString (orderNumber i))]"

definition set_doc :: "doc \<Rightarrow> doc" where
  "set_doc d = [(''$set'', BDoc d)]"

definition point_read where
  "point_read intn answer orders =
     and_then (draw intn orders) (\<lambda>i. perform answer ''point read: '' (FindOne (by_number i)))"

definition point_update where
  "point_update intn answer orders =
     and_then (draw intn orders) (\<lambda>i. perform answer ''point update: ''
       (UpdateOne (by_number i) (set_doc [(''status'', BString ''shipped'')])))"

definition pipelines :: "doc list list" where
  "pipelines =
     [[[(''$match'', BDoc [(''status'', BString ''delivered'')])],
       [(''$sort'', BDoc [(''orderDate'', BInt32 (- 1))])],
       [(''$limit'', BInt32 500)]],
      [[(''$group'', BDoc [(''_id'', BString ''$status''), (''orders'', BDoc [(''$sum'', BInt32 1)]),
          (''subtotal'', BDoc [(''$sum'', BString ''$subtotal'')])])]]]"

text \<open>The DumboDB workloads: a seed commit, five rounds of updating and committing, then the log and
  the difference since the seed. A commit's identity is empty when the reply has none.\<close>

definition dolt_commit :: "'w server_answers \<Rightarrow> string \<Rightarrow> (('g, 'w) load, string) act" where
  "dolt_commit answer message =
     and_then (perform answer ''doltCommit: '' (RunCmd [(''doltCommit'', BInt32 1), (''message'', BString message)]))
       (\<lambda>reply. ok (case map_of reply ''commitId'' of Some (BString s) \<Rightarrow> s | _ \<Rightarrow> []))"

definition dolt_round where
  "dolt_round intn answer orders round_no =
     and_then (repeat_act 200 (draw intn orders)) (\<lambda>is.
     and_then (perform answer ''dolt round update: ''
       (UpdateMany [(''orderNumber'', BDoc [(''$in'', BArr (map (BString \<circ> orderNumber) is))])]
          (set_doc [(''status'', BString ''refunded''), (''auditRound'', BInt32 round_no)]))) (\<lambda>_.
       dolt_commit answer (''round '' @ itoa round_no)))"

definition dolt_commands :: "string \<Rightarrow> (string \<times> doc) list" where
  "dolt_commands first =
     [(''dolt_log'', [(''doltLog'', BInt32 1), (''limit'', BInt32 10)]),
      (''dolt_log_patch'', [(''doltLog'', BInt32 1), (''limit'', BInt32 5), (''patch'', BBool True)]),
      (''dolt_diff'', [(''doltDiff'', BInt32 1), (''from'', BString first), (''to'', BString ''HEAD'')])]"

definition runDoltWorkloads where
  "runDoltWorkloads intn answer orders =
     and_then (setWorkload ''dolt_setup'') (\<lambda>_.
     and_then (dolt_commit answer ''seed'') (\<lambda>first.
     and_then (for_each (dolt_round intn answer orders) [0, 1, 2, 3, 4]) (\<lambda>_.
       for_each (\<lambda>(workload, command). and_then (setWorkload workload) (\<lambda>_.
         perform answer (workload @ '': '') (RunCmd command))) (dolt_commands first))))"

definition runWorkloads where
  "runWorkloads intn answer orders dolt =
     and_then (setWorkload ''point_reads'') (\<lambda>_.
     and_then (repeat_act 2000 (point_read intn answer orders)) (\<lambda>_.
     and_then (setWorkload ''point_updates'') (\<lambda>_.
     and_then (repeat_act 1000 (point_update intn answer orders)) (\<lambda>_.
     and_then (setWorkload ''find_all'') (\<lambda>_.
     and_then (perform answer ''find all: '' (FindDrain [])) (\<lambda>_.
     and_then (setWorkload ''aggregate'') (\<lambda>_.
     and_then (for_each (\<lambda>p. perform answer ''aggregate: '' (AggregateDrain p)) pipelines) (\<lambda>_.
       if dolt then runDoltWorkloads intn answer orders else ok ()))))))))"

end
