(* ===== verification/WireLoadsFacts.thy ===== *)
theory WireLoadsFacts
  imports WireLoads ShopDataFacts
begin

text \<open>
  What the captured workloads measure: every call is made under its own label, in a fixed number,
  and every order it names is one that gendata inserted.
\<close>

section \<open>Calls on existing orders\<close>

fun named_orders :: "load_call \<Rightarrow> string list" where
  "named_orders (FindOne [(_, BString s)]) = [s]"
| "named_orders (UpdateOne [(_, BString s)] u) = [s]"
| "named_orders (UpdateMany [(_, BDoc [(_, BArr vs)])] u) = List.map_filter (\<lambda>v. case v of BString s \<Rightarrow> Some s | _ \<Rightarrow> None) vs"
| "named_orders c = []"

definition on_orders :: "int \<Rightarrow> load_call \<Rightarrow> bool" where
  "on_orders orders c \<longleftrightarrow> set (named_orders c) \<subseteq> orderNumber ` {0..<orders}"

text \<open>What was called since \<open>m\<close>: the labels \<open>ls\<close>, on existing orders.\<close>

definition called :: "int \<Rightarrow> string list \<Rightarrow> ('g, 'w) load \<Rightarrow> ('g, 'w) load \<Rightarrow> bool" where
  "called orders ls m m' \<longleftrightarrow> (\<exists>cs. ld_log m' = ld_log m @ zip ls cs \<and> length cs = length ls \<and> list_all (on_orders orders) cs)"

lemma called_refl: "called orders [] m m"
  by (simp add: called_def)

lemma called_trans: "called orders ls m m1 \<Longrightarrow> called orders ls' m1 m2 \<Longrightarrow> called orders (ls @ ls') m m2"
  unfolding called_def by (elim exE conjE, rule_tac x = "cs @ csa" in exI) simp

lemma called_rand: "called orders ls (m\<lparr>ld_rand := g\<rparr>) m' \<longleftrightarrow> called orders ls m m'"
  by (simp add: called_def)

text \<open>Started under the label \<open>w\<close>, the action returns; on success it has made the calls \<open>ls\<close> and left the
  label \<open>w'\<close>, on failure it has made the first of them.\<close>

definition calls :: "int \<Rightarrow> string \<Rightarrow> string list \<Rightarrow> string \<Rightarrow> (('g, 'w) load, 'a) act \<Rightarrow> bool" where
  "calls orders w ls w' c \<longleftrightarrow> (\<forall>m. ld_workload m = w \<longrightarrow>
     (\<exists>r m'. c m = Some (r, m') \<and>
        (case r of Inl e \<Rightarrow> \<exists>n. called orders (take n ls) m m'
         | Inr x \<Rightarrow> called orders ls m m' \<and> ld_workload m' = w')))"

lemma calls_and_then:
  assumes "calls orders w ls w' c" "\<And>x. calls orders w' ls' w'' (k x)"
  shows "calls orders w (ls @ ls') w'' (and_then c k)"
  unfolding calls_def
proof (intro allI impI)
  fix m :: "('a, 'b) load" assume w: "ld_workload m = w"
  obtain r m1 where r: "c m = Some (r, m1)" "case r of Inl e \<Rightarrow> \<exists>n. called orders (take n ls) m m1
      | Inr x \<Rightarrow> called orders ls m m1 \<and> ld_workload m1 = w'"
    using assms(1) w unfolding calls_def by blast
  show "\<exists>r m'. and_then c k m = Some (r, m') \<and> (case r of Inl e \<Rightarrow> \<exists>n. called orders (take n (ls @ ls')) m m'
      | Inr x \<Rightarrow> called orders (ls @ ls') m m' \<and> ld_workload m' = w'')"
  proof (cases r)
    case (Inl e)
    then obtain n where "called orders (take n ls) m m1" using r(2) by auto
    moreover have "take (min n (length ls)) (ls @ ls') = take n ls" by (simp add: min_def)
    ultimately have "called orders (take (min n (length ls)) (ls @ ls')) m m1" by (simp only:)
    then show ?thesis using r(1) Inl by (auto simp: and_then_def simp del: take_append)
  next
    case (Inr x)
    then have m1: "called orders ls m m1" "ld_workload m1 = w'" using r(2) by auto
    obtain q m2 where q: "k x m1 = Some (q, m2)" "case q of Inl e \<Rightarrow> \<exists>n. called orders (take n ls') m1 m2
        | Inr x \<Rightarrow> called orders ls' m1 m2 \<and> ld_workload m2 = w''"
      using assms(2)[of x] m1(2) unfolding calls_def by blast
    show ?thesis
    proof (cases q)
      case (Inl e)
      then obtain n where "called orders (take n ls') m1 m2" using q(2) by auto
      from called_trans[OF m1(1) this] have "called orders (take (length ls + n) (ls @ ls')) m m2" by simp
      then show ?thesis using r(1) q(1) Inl \<open>r = Inr x\<close> by (auto simp: and_then_def simp del: take_append)
    next
      case (Inr y)
      then show ?thesis using r(1) q \<open>r = Inr x\<close> called_trans[OF m1(1)] by (auto simp: and_then_def)
    qed
  qed
qed

lemma calls_ok: "calls orders w [] w (ok x)"
  by (simp add: calls_def ok_def called_refl)

lemma calls_setWorkload: "calls orders w [] w' (setWorkload w')"
  by (simp add: calls_def setWorkload_def change_def called_def)

lemma calls_draw: "0 < orders \<Longrightarrow> calls orders w [] w (draw intn orders)"
  by (auto simp: calls_def draw_def called_def split: prod.split)

lemma calls_perform:
  assumes "on_orders orders c"
  shows "calls orders w [w] w (perform answer pre c)"
  unfolding calls_def
proof (intro allI impI)
  fix m :: "('a, 'b) load" assume w: "ld_workload m = w"
  obtain r w1 where r: "answer c (ld_world m) = (r, w1)" by force
  let ?m = "m\<lparr>ld_world := w1, ld_log := ld_log m @ [(w, c)]\<rparr>"
  have "called orders [w] m ?m" unfolding called_def using assms by (intro exI[of _ "[c]"]) simp
  then have "\<exists>n. called orders (take n [w]) m ?m" "called orders [w] m ?m" by (auto intro: exI[of _ 1])
  then show "\<exists>r m'. perform answer pre c m = Some (r, m') \<and> (case r of Inl e \<Rightarrow> \<exists>n. called orders (take n [w]) m m'
      | Inr x \<Rightarrow> called orders [w] m m' \<and> ld_workload m' = w)"
    using r w by (cases r) (auto simp: perform_def)
qed

lemma calls_repeat:
  assumes "calls orders w ls w c"
  shows "calls orders w (concat (replicate n ls)) w (repeat_act n c)"
proof (induction n)
  case (Suc n)
  have "calls orders w (ls @ concat (replicate n ls) @ []) w (repeat_act (Suc n) c)"
    unfolding repeat_act.simps by (rule calls_and_then[OF assms calls_and_then[OF Suc calls_ok]])
  then show ?case by simp
qed (simp add: calls_ok)

lemma calls_for_each:
  assumes "\<And>x. x \<in> set xs \<Longrightarrow> calls orders w (f x) w (g x)"
  shows "calls orders w (concat (map f xs)) w (for_each g xs)"
  using assms
proof (induction xs)
  case (Cons x xs)
  then show ?case by (auto intro!: calls_and_then)
qed (simp add: calls_ok)

text \<open>A drawn number is one of an existing order.\<close>

lemma calls_drawn:
  assumes "in_range intn" "0 < orders" "\<And>i. 0 \<le> i \<Longrightarrow> i < orders \<Longrightarrow> calls orders w ls w' (k i)"
  shows "calls orders w ls w' (and_then (draw intn orders) k)"
  unfolding calls_def
proof (intro allI impI)
  fix m :: "('a, 'b) load" assume w: "ld_workload m = w"
  obtain i g where i: "run_state (intn orders) (ld_rand m) = (i, g)" by force
  have "fst (run_state (intn orders) (ld_rand m)) \<in> {0..<orders}" using assms(1,2) unfolding in_range_def by blast
  then have "0 \<le> i" "i < orders" using i by simp_all
  from assms(3)[OF this] w have "\<exists>r m'. k i (m\<lparr>ld_rand := g\<rparr>) = Some (r, m') \<and>
      (case r of Inl e \<Rightarrow> \<exists>n. called orders (take n ls) (m\<lparr>ld_rand := g\<rparr>) m'
       | Inr x \<Rightarrow> called orders ls (m\<lparr>ld_rand := g\<rparr>) m' \<and> ld_workload m' = w')"
    unfolding calls_def by simp
  then show "\<exists>r m'. and_then (draw intn orders) k m = Some (r, m') \<and> (case r of Inl e \<Rightarrow> \<exists>n. called orders (take n ls) m m'
      | Inr x \<Rightarrow> called orders ls m m' \<and> ld_workload m' = w')"
    using assms(2) i by (simp add: and_then_def draw_def called_rand cong: sum.case_cong)
qed

lemma draw_many:
  assumes "in_range intn" "0 < orders"
  shows "\<exists>xs g. repeat_act n (draw intn orders) m = Some (Inr xs, m\<lparr>ld_rand := g\<rparr>) \<and> set xs \<subseteq> {0..<orders}"
proof (induction n arbitrary: m)
  case 0
  have "m\<lparr>ld_rand := ld_rand m\<rparr> = m" by simp
  then show ?case by (auto simp: ok_def intro: exI[of _ "ld_rand m"])
next
  case (Suc n)
  obtain i g where i: "run_state (intn orders) (ld_rand m) = (i, g)" by force
  have "fst (run_state (intn orders) (ld_rand m)) \<in> {0..<orders}" using assms unfolding in_range_def by blast
  moreover obtain xs g' where "repeat_act n (draw intn orders) (m\<lparr>ld_rand := g\<rparr>) = Some (Inr xs, m\<lparr>ld_rand := g'\<rparr>)"
    "set xs \<subseteq> {0..<orders}"
    using Suc[of "m\<lparr>ld_rand := g\<rparr>"] by auto
  moreover have "draw intn orders m = Some (Inr i, m\<lparr>ld_rand := g\<rparr>)" using i assms(2) by (simp add: draw_def)
  ultimately show ?case using i by (auto simp: and_then_def ok_def)
qed

lemma calls_drawn_many:
  assumes "in_range intn" "0 < orders" "\<And>xs. set xs \<subseteq> {0..<orders} \<Longrightarrow> calls orders w ls w' (k xs)"
  shows "calls orders w ls w' (and_then (repeat_act n (draw intn orders)) k)"
  unfolding calls_def
proof (intro allI impI)
  fix m :: "('a, 'b) load" assume w: "ld_workload m = w"
  obtain xs g where xs: "repeat_act n (draw intn orders) m = Some (Inr xs, m\<lparr>ld_rand := g\<rparr>)" "set xs \<subseteq> {0..<orders}"
    using draw_many[OF assms(1,2)] by blast
  from assms(3)[OF xs(2)] w have "\<exists>r m'. k xs (m\<lparr>ld_rand := g\<rparr>) = Some (r, m') \<and>
      (case r of Inl e \<Rightarrow> \<exists>n. called orders (take n ls) (m\<lparr>ld_rand := g\<rparr>) m'
       | Inr x \<Rightarrow> called orders ls (m\<lparr>ld_rand := g\<rparr>) m' \<and> ld_workload m' = w')"
    unfolding calls_def by simp
  then show "\<exists>r m'. and_then (repeat_act n (draw intn orders)) k m = Some (r, m') \<and>
      (case r of Inl e \<Rightarrow> \<exists>n. called orders (take n ls) m m'
       | Inr x \<Rightarrow> called orders ls m m' \<and> ld_workload m' = w')"
    using xs(1) by (simp add: and_then_def called_rand cong: sum.case_cong)
qed

section \<open>The workloads\<close>

lemma calls_dolt_commit: "calls orders w [w] w (dolt_commit answer message)"
proof -
  have "calls orders w ([w] @ []) w (dolt_commit answer message)"
    unfolding dolt_commit_def by (rule calls_and_then[OF calls_perform calls_ok]) (simp add: on_orders_def)
  then show ?thesis by simp
qed

lemma map_filter_strings: "List.map_filter (\<lambda>v. case v of BString s \<Rightarrow> Some s | _ \<Rightarrow> None) (map (BString \<circ> f) xs) = map f xs"
  by (induction xs) (simp_all add: List.map_filter_def)

lemma calls_dolt_round:
  assumes "in_range intn" "0 < orders"
  shows "calls orders w [w, w] w (dolt_round intn answer orders n)"
  unfolding dolt_round_def
proof (rule calls_drawn_many[OF assms])
  fix xs assume "set xs \<subseteq> {0..<orders}"
  then have "on_orders orders (UpdateMany [(''orderNumber'', BDoc [(''$in'', BArr (map (BString \<circ> orderNumber) xs))])]
      (set_doc [(''status'', BString ''refunded''), (''auditRound'', BInt32 n)]))"
    by (simp add: on_orders_def map_filter_strings image_mono)
  from calls_and_then[OF calls_perform[OF this] calls_dolt_commit]
  show "calls orders w [w, w] w (and_then (perform answer ''dolt round update: ''
       (UpdateMany [(''orderNumber'', BDoc [(''$in'', BArr (map (BString \<circ> orderNumber) xs))])]
          (set_doc [(''status'', BString ''refunded''), (''auditRound'', BInt32 n)]))) (\<lambda>_.
       dolt_commit answer (''round '' @ itoa n)))"
    by simp
qed

definition dolt_labels :: "string list" where
  "dolt_labels = replicate 11 ''dolt_setup'' @ [''dolt_log'', ''dolt_log_patch'', ''dolt_diff'']"

lemma calls_command:
  "calls orders w [w'] w' (and_then (setWorkload w') (\<lambda>_. perform answer pre (RunCmd command)))"
  using calls_and_then[OF calls_setWorkload calls_perform[of orders "RunCmd command" w' answer pre]]
  by (simp add: on_orders_def)

lemma calls_runDoltWorkloads:
  assumes "in_range intn" "0 < orders"
  shows "calls orders w dolt_labels ''dolt_diff'' (runDoltWorkloads intn answer orders)"
proof -
  have rounds: "calls orders ''dolt_setup'' (replicate 10 ''dolt_setup'') ''dolt_setup''
      (for_each (dolt_round intn answer orders) [0, 1, 2, 3, 4])"
    using calls_for_each[of "[0, 1, 2, 3, 4]" orders "''dolt_setup''" "\<lambda>n. [''dolt_setup'', ''dolt_setup'']",
        OF calls_dolt_round[OF assms]]
    by (simp add: eval_nat_numeral)
  have last_calls: "calls orders ''dolt_setup'' ([''dolt_log''] @ [''dolt_log_patch''] @ [''dolt_diff''] @ []) ''dolt_diff''
      (for_each (\<lambda>(workload, command). and_then (setWorkload workload) (\<lambda>_.
         perform answer (workload @ '': '') (RunCmd command))) (dolt_commands first))" for first
    unfolding dolt_commands_def for_each.simps prod.case
    by (intro calls_and_then[OF calls_command] calls_ok)
  have "calls orders w ([] @ [''dolt_setup''] @ replicate 10 ''dolt_setup'' @ [''dolt_log'', ''dolt_log_patch'', ''dolt_diff''])
      ''dolt_diff'' (runDoltWorkloads intn answer orders)"
    unfolding runDoltWorkloads_def
    by (rule calls_and_then[OF calls_setWorkload calls_and_then[OF calls_dolt_commit calls_and_then[OF rounds]]])
      (use last_calls in simp)
  then show ?thesis by (simp add: dolt_labels_def eval_nat_numeral)
qed

definition load_labels :: "bool \<Rightarrow> string list" where
  "load_labels dolt = replicate 2000 ''point_reads'' @ replicate 1000 ''point_updates'' @
     [''find_all'', ''aggregate'', ''aggregate''] @ (if dolt then dolt_labels else [])"

lemma calls_point:
  assumes "in_range intn" "0 < orders"
  shows "calls orders w [w] w (point_read intn answer orders)" "calls orders w [w] w (point_update intn answer orders)"
  unfolding point_read_def point_update_def
  by (auto intro!: calls_drawn[OF assms] calls_perform simp: on_orders_def by_number_def)

lemma concat_replicate_one: "concat (replicate n [x]) = replicate n x"
  by (induction n) simp_all

lemma calls_runWorkloads:
  assumes "in_range intn" "0 < orders"
  shows "\<exists>w'. calls orders w (load_labels dolt) w' (runWorkloads intn answer orders dolt)"
proof -
  have aggregates: "calls orders ''aggregate'' [''aggregate'', ''aggregate''] ''aggregate''
      (for_each (\<lambda>p. perform answer ''aggregate: '' (AggregateDrain p)) pipelines)"
  proof -
    have one: "calls orders ''aggregate'' [''aggregate''] ''aggregate'' (perform answer ''aggregate: '' (AggregateDrain p))" for p
      by (rule calls_perform) (simp add: on_orders_def)
    have "concat (map (\<lambda>p. [''aggregate'']) pipelines) = [''aggregate'', ''aggregate'']" by (simp add: pipelines_def)
    with calls_for_each[OF one, of pipelines] show ?thesis by simp
  qed
  have finds: "calls orders ''find_all'' [''find_all''] ''find_all'' (perform answer ''find all: '' (FindDrain []))"
    by (rule calls_perform) (simp add: on_orders_def)
  have ending: "calls orders ''aggregate'' (if dolt then dolt_labels else []) (if dolt then ''dolt_diff'' else ''aggregate'')
      (if dolt then runDoltWorkloads intn answer orders else ok ())"
    by (simp add: calls_runDoltWorkloads[OF assms] calls_ok)
  note reads = calls_repeat[OF calls_point(1)[OF assms], of "''point_reads''" 2000 answer, unfolded concat_replicate_one]
  note updates = calls_repeat[OF calls_point(2)[OF assms], of "''point_updates''" 1000 answer, unfolded concat_replicate_one]
  have "calls orders w ([] @ replicate 2000 ''point_reads'' @ [] @ replicate 1000 ''point_updates'' @ [] @ [''find_all''] @
      [] @ [''aggregate'', ''aggregate''] @ (if dolt then dolt_labels else []))
      (if dolt then ''dolt_diff'' else ''aggregate'') (runWorkloads intn answer orders dolt)"
    unfolding runWorkloads_def
    by (rule calls_and_then[OF calls_setWorkload calls_and_then[OF reads calls_and_then[OF calls_setWorkload
      calls_and_then[OF updates calls_and_then[OF calls_setWorkload calls_and_then[OF finds
      calls_and_then[OF calls_setWorkload calls_and_then[OF aggregates ending]]]]]]]])
  then show ?thesis unfolding load_labels_def append_Nil append.assoc append_Cons by blast
qed


text \<open>A server that answers everything with an empty document.\<close>

definition idle_load :: "(unit, unit) load" where
  "idle_load = \<lparr>ld_rand = (), ld_world = (), ld_workload = [], ld_log = []\<rparr>"

definition willing :: "unit server_answers" where
  "willing c w = (Inr [], w)"


end
