(* ===== verification/TxnEndToEnd.thy ===== *)
theory TxnEndToEnd
  imports TxnScenario EndToEnd
begin

text \<open>
  Completeness of the transaction workload: the contract of a transactional collection as a locale,
  the in-memory one the repository runs the scenario against
  (src/concurrency/transaction_scenario_test.go), which provides it, and what the four checks say of
  a run against any such collection. Transactions are atomic at the server; recording an outcome in
  the scenario's slice and in the ledger are steps of their own, so the three orders may differ.
\<close>

section \<open>The contract\<close>

definition txn_batch :: "int \<Rightarrow> int \<Rightarrow> doc list" where
  "txn_batch worker sequence = [transaction_document worker sequence 0, transaction_document worker sequence 1]"

lemma run_txn_body_cases:
  "run_txn_body ins w q v =
     (case ins (transaction_document w q 0) v of
        (Some e, v') \<Rightarrow> (Some e, v')
      | (None, v') \<Rightarrow> (case ins (transaction_document w q 1) v' of
          (Some e, v'') \<Rightarrow> (Some e, v'') | (None, v'') \<Rightarrow> (None, v'')))"
  by (simp add: run_txn_body_def transactionBatchSize_def numeral_2_eq_2 split: prod.split option.split)

text \<open>The transactions of a run in the order in which the server ran them, with their errors. The body
  of a transaction inserts under the context it is given.\<close>

fun execute_all :: "(('c \<Rightarrow> 'v \<Rightarrow> goerror option \<times> 'v) \<Rightarrow> 'v \<Rightarrow> goerror option \<times> 'v) \<Rightarrow>
    ('c \<Rightarrow> doc \<Rightarrow> 'v \<Rightarrow> goerror option \<times> 'v) \<Rightarrow> (int \<times> int) list \<Rightarrow> 'v \<Rightarrow>
    ((int \<times> int) \<times> goerror option) list \<times> 'v" where
  "execute_all txn ins [] v = ([], v)"
| "execute_all txn ins ((worker, sequence) # ops) v =
     (case txn (\<lambda>ctx. run_txn_body (ins ctx) worker sequence) v of
        (err, v') \<Rightarrow> (case execute_all txn ins ops v' of
          (results, v'') \<Rightarrow> (((worker, sequence), err) # results, v'')))"

definition committed_batch :: "(int \<times> int) \<times> goerror option \<Rightarrow> doc list" where
  "committed_batch r = (if snd r = None then txn_batch (fst (fst r)) (snd (fst r)) else [])"

locale transactional_collection =
  fixes txn :: "('c \<Rightarrow> 'v \<Rightarrow> goerror option \<times> 'v) \<Rightarrow> 'v \<Rightarrow> goerror option \<times> 'v"
    and ins :: "'c \<Rightarrow> doc \<Rightarrow> 'v \<Rightarrow> goerror option \<times> 'v"
    and docs :: "'v \<Rightarrow> doc list"
  assumes atomic: "txn (\<lambda>ctx. run_txn_body (ins ctx) w q) v = (err, v') \<Longrightarrow>
      mset (docs v') = mset (docs v) + mset (if err = None then txn_batch w q else [])"
begin

lemma execute_all_docs:
  "execute_all txn ins ops v = (results, v') \<Longrightarrow>
     map fst results = ops \<and>
     mset (docs v') = mset (docs v) + mset (concat (map committed_batch results))"
proof (induction ops arbitrary: v v' results)
  case (Cons op ops)
  obtain w q where op: "op = (w, q)" by fastforce
  obtain err v1 where 1: "txn (\<lambda>ctx. run_txn_body (ins ctx) w q) v = (err, v1)" by fastforce
  obtain rs v2 where 2: "execute_all txn ins ops v1 = (rs, v2)" by fastforce
  from Cons.prems 1 2 have "results = ((w, q), err) # rs" "v' = v2" by (simp_all add: op)
  with Cons.IH[OF 2] atomic[OF 1] show ?case by (simp add: op committed_batch_def)
qed simp

end

section \<open>The in-memory collection\<close>

record txn_memory =
  tm_documents :: "doc list"
  tm_pending :: "doc list"
  tm_inTransaction :: bool

text \<open>\<open>roundtrip\<close> is marshalling and unmarshalling into a \<open>bson.M\<close>, which may fail.\<close>

definition tmem_InsertOne :: "(doc \<Rightarrow> goerror + doc) \<Rightarrow> unit \<Rightarrow> doc \<Rightarrow> txn_memory \<Rightarrow> goerror option \<times> txn_memory" where
  "tmem_InsertOne roundtrip ctx document c =
     (case roundtrip document of
        Inl err \<Rightarrow> (Some err, c)
      | Inr decoded \<Rightarrow>
          (None, if tm_inTransaction c then c\<lparr>tm_pending := tm_pending c @ [decoded]\<rparr>
                 else c\<lparr>tm_documents := tm_documents c @ [decoded]\<rparr>))"

definition tmem_WithTransaction :: "(unit \<Rightarrow> txn_memory \<Rightarrow> goerror option \<times> txn_memory) \<Rightarrow> txn_memory \<Rightarrow>
    goerror option \<times> txn_memory" where
  "tmem_WithTransaction fn c =
     (case fn () (c\<lparr>tm_inTransaction := True, tm_pending := []\<rparr>) of
        (err, c1) \<Rightarrow>
          let c2 = c1\<lparr>tm_inTransaction := False\<rparr>;
              c3 = (if err = None then c2\<lparr>tm_documents := tm_documents c2 @ tm_pending c2\<rparr> else c2)
          in (err, c3\<lparr>tm_pending := []\<rparr>))"

fun tmem_VisitAll :: "(doc \<Rightarrow> 's \<Rightarrow> goerror option \<times> 's) \<Rightarrow> doc list \<Rightarrow> 's \<Rightarrow> goerror option \<times> 's" where
  "tmem_VisitAll visit [] s = (None, s)"
| "tmem_VisitAll visit (document # documents) s =
     (case visit document s of (Some err, s') \<Rightarrow> (Some err, s') | (None, s') \<Rightarrow> tmem_VisitAll visit documents s')"

lemma visit_all_folds:
  "tmem_VisitAll (\<lambda>d c. (None, f c d)) ds s = (None, foldl f s ds)"
  by (induction ds arbitrary: s) simp_all

text \<open>A round trip through BSON keeps the documents the scenario writes, or fails.\<close>

definition keeps_documents :: "(doc \<Rightarrow> goerror + doc) \<Rightarrow> bool" where
  "keeps_documents roundtrip \<longleftrightarrow> (\<forall>d d'. roundtrip d = Inr d' \<longrightarrow> d' = d)"

lemma memory_transactional:
  assumes "keeps_documents roundtrip"
  shows "transactional_collection tmem_WithTransaction (tmem_InsertOne roundtrip) tm_documents"
proof
  fix w q and v v' :: txn_memory and err
  assume "tmem_WithTransaction (\<lambda>ctx. run_txn_body (tmem_InsertOne roundtrip ctx) w q) v = (err, v')"
  moreover have keep: "d' = d" if "roundtrip d = Inr d'" for d d'
    using assms that by (simp add: keeps_documents_def)
  ultimately show "mset (tm_documents v') =
      mset (tm_documents v) + mset (if err = None then txn_batch w q else [])"
    by (auto simp: tmem_WithTransaction_def run_txn_body_cases tmem_InsertOne_def txn_batch_def
        dest!: keep split: sum.splits)
qed

interpretation tmem: transactional_collection tmem_WithTransaction
  "tmem_InsertOne (\<lambda>d. if fits d then Inr d else Inl too_large)" tm_documents for fits too_large
  by (rule memory_transactional) (simp add: keeps_documents_def)

section \<open>What the checks count\<close>

text \<open>An outcome slice as a total function, and what a permutation of records makes of it.\<close>

definition outcome_at :: "OutcomeKind list \<Rightarrow> nat \<Rightarrow> OutcomeKind" where
  "outcome_at outcomes i = (if i < length outcomes then outcomes ! i else no_kind)"

lemma outcome_at_record:
  "outcome_at (txn_record q k outcomes) i = (if i = nat q then k else outcome_at outcomes i)"
  by (auto simp: outcome_at_def txn_record_def nth_grow nth_list_update)

lemma snapshot_nth:
  assumes "q \<in> {1..n}"
  shows "txn_snapshot n outcomes ! nat q = outcome_at outcomes (nat q)"
proof -
  from assms have "nat q < nat (n + 1)" by (simp add: nat_less_eq_zless)
  then show ?thesis by (auto simp: txn_snapshot_def Let_def outcome_at_def nth_append)
qed

definition record_all :: "(int \<times> OutcomeKind) list \<Rightarrow> OutcomeKind list" where
  "record_all ks = fold (\<lambda>(q, k). txn_record q k) ks []"

lemma outcome_at_all:
  assumes "distinct (map fst ks)" "\<forall>(q, k) \<in> set ks. 1 \<le> q" "(q, k) \<in> set ks"
  shows "outcome_at (record_all ks) (nat q) = k"
  using assms
proof (induction ks rule: rev_induct)
  case (snoc x ks)
  obtain q' k' where x: "x = (q', k')" by fastforce
  have *: "outcome_at (record_all (ks @ [x])) (nat q) =
      (if nat q = nat q' then k' else outcome_at (record_all ks) (nat q))"
    by (simp add: record_all_def x outcome_at_record)
  show ?case
  proof (cases "(q, k) = x")
    case False
    with snoc.prems have "(q, k) \<in> set ks" "q \<noteq> q'" "1 \<le> q" "1 \<le> q'"
      by (auto simp: x rev_image_eqI dest: image_eqI[of q fst])
    with * snoc show ?thesis by (simp add: eq_nat_nat_iff)
  qed (use * in \<open>simp add: x\<close>)
qed simp

text \<open>How many of the visited documents belong to an operation.\<close>

definition of_operation :: "int \<Rightarrow> int \<Rightarrow> doc \<Rightarrow> bool" where
  "of_operation n q d \<longleftrightarrow> document_operation n d = Some q"

lemma stored_foldl:
  assumes "q \<in> {1..n}" "nat n < length (tc_storedByOperation c)"
  shows "tc_storedByOperation (foldl (visit_document n) c ds) ! nat q =
    tc_storedByOperation c ! nat q + int (length (filter (of_operation n q) ds))"
  using assms(2)
proof (induction ds arbitrary: c)
  case (Cons d ds)
  let ?c = "visit_document n c d"
  have len: "length (tc_storedByOperation ?c) = length (tc_storedByOperation c)"
    by (simp add: visit_document_def Let_def split: option.split)
  have "nat q < length (tc_storedByOperation c)" using assms(1) Cons.prems by auto
  then have "tc_storedByOperation ?c ! nat q =
      tc_storedByOperation c ! nat q + (if of_operation n q d then 1 else 0)"
    using assms(1) document_operation_Some[of n d]
    by (fastforce simp: visit_document_def Let_def of_operation_def nth_list_update eq_nat_nat_iff
        split: option.splits)
  then show ?case using Cons.IH[of ?c] Cons.prems by (simp add: len)
qed simp

lemma stored_count:
  assumes "q \<in> {1..n}"
  shows "tc_storedByOperation (count_documents n ds) ! nat q = int (length (filter (of_operation n q) ds))"
  using stored_foldl[OF assms, of "\<lparr>tc_storedByOperation = replicate (nat (n + 1)) 0, tc_invalid = 0, tc_stored = 0\<rparr>" ds] assms
  by (simp add: count_documents_def nth_replicate)

lemma transaction_document_operation:
  assumes "m \<in> {0, 1}"
  shows "document_operation n (transaction_document w q m) = (if 1 \<le> q \<and> q \<le> n then Some q else None)"
  using assms
  by (auto simp: document_operation_def transaction_document_def encode_int_def transactionBatchSize_def)

lemma bson_M_transaction_document [simp]: "bson_M (transaction_document w q m) = transaction_document w q m"
  by (simp add: bson_M_def transaction_document_def)

lemma batch_operation:
  assumes "snd (fst r) \<in> {1..n}"
  shows "length (filter (of_operation n q) (committed_batch r)) =
    (if snd r = None \<and> snd (fst r) = q then 2 else 0)"
  using assms
  by (simp add: committed_batch_def txn_batch_def of_operation_def transaction_document_operation)

lemma batches_operation:
  assumes "distinct (map (snd \<circ> fst) rs)" "\<forall>r \<in> set rs. snd (fst r) \<in> {1..n}" "r \<in> set rs"
  shows "length (filter (of_operation n (snd (fst r))) (concat (map committed_batch rs))) =
    (if snd r = None then 2 else 0)"
  using assms
proof (induction rs)
  case (Cons x rs)
  let ?q = "snd (fst r)"
  have none: "length (filter (of_operation n ?q) (concat (map committed_batch xs))) = 0"
    if "\<forall>y \<in> set xs. snd (fst y) \<in> {1..n} \<and> snd (fst y) \<noteq> ?q" for xs
    using that by (induction xs) (simp_all add: batch_operation del: length_0_conv)
  show ?case
  proof (cases "r = x")
    case True
    with Cons.prems have "\<forall>y \<in> set rs. snd (fst y) \<in> {1..n} \<and> snd (fst y) \<noteq> ?q"
      by (auto simp: image_iff)
    from none[OF this] True Cons.prems show ?thesis by (simp add: batch_operation)
  next
    case False
    with Cons.prems have "r \<in> set rs" "snd (fst x) \<noteq> ?q" by force+
    with Cons show ?thesis by (simp add: batch_operation)
  qed
qed simp

text \<open>Good batches leave every anomaly at zero.\<close>

lemma classify_good:
  assumes "\<forall>b \<in> set bs. (snd b = OutcomeMatched \<and> fst b = 2) \<or>
      (snd b \<in> {OutcomeRejected, OutcomeIndeterminate} \<and> fst b = 0)"
  shows "foldl classify_batch a bs = a"
  using assms
  by (induction bs) (auto simp: classify_batch_def transactionBatchSize_def)

section \<open>The workload passes\<close>

definition result_outcome :: "driver \<Rightarrow> (int \<times> int) \<times> goerror option \<Rightarrow> Outcome" where
  "result_outcome drv r = txn_outcome drv (fst (fst r)) (snd (fst r)) (snd r)"

lemma result_outcome_kind:
  "oc_Kind (result_outcome drv r) = OutcomeMatched \<longleftrightarrow> snd r = None"
  "snd r \<noteq> None \<Longrightarrow> oc_Kind (result_outcome drv r) \<in> {OutcomeRejected, OutcomeIndeterminate}"
  "accepted (result_outcome drv r)"
  by (auto simp: result_outcome_def txn_outcome_def UpdateOutcome_def outcome_of_def accepted_def
      split: option.splits)

definition recorded_outcomes :: "driver \<Rightarrow> ((int \<times> int) \<times> goerror option) list \<Rightarrow> OutcomeKind list" where
  "recorded_outcomes drv rs = record_all (map (\<lambda>r. (snd (fst r), oc_Kind (result_outcome drv r))) rs)"

lemma length_filter_mset: "mset xs = mset ys \<Longrightarrow> length (filter P xs) = length (filter P ys)"
  by (metis mset_filter size_mset)

lemma history_counts:
  assumes "mset (map fst h) = mset (map (result_outcome drv) rs)"
  shows "Attempts (Snapshot (ledger_run h)) = int (length rs)"
    and "Matched (Snapshot (ledger_run h)) = int (length (filter (\<lambda>r. snd r = None) rs))"
    and "Rejected (Snapshot (ledger_run h)) + Indeterminate (Snapshot (ledger_run h)) =
      int (length (filter (\<lambda>r. snd r \<noteq> None) rs))"
    and "0 \<le> Rejected (Snapshot (ledger_run h)) \<and> 0 \<le> Indeterminate (Snapshot (ledger_run h))"
proof -
  have "set (map fst h) = set (map (result_outcome drv) rs)" by (metis assms mset_eq_setD)
  then have "accepted_of h = map fst h"
    by (auto simp: accepted_of_def filter_id_conv result_outcome_kind(3))
  moreover have "length (filter P (map fst h)) = length (filter (\<lambda>r. P (result_outcome drv r)) rs)" for P
    using length_filter_mset[OF assms, of P] by (simp add: filter_map comp_def)
  moreover have "length (map fst h) = length rs" using assms by (metis length_map size_mset)
  moreover have "length (filter (\<lambda>r. oc_Kind (result_outcome drv r) = OutcomeRejected) rs) +
      length (filter (\<lambda>r. oc_Kind (result_outcome drv r) = OutcomeIndeterminate) rs) =
      length (filter (\<lambda>r. snd r \<noteq> None) rs)"
  proof (induction rs)
    case (Cons r rs)
    then show ?case using result_outcome_kind(1)[of drv r] result_outcome_kind(2)[of r drv] by auto
  qed simp
  ultimately show "Attempts (Snapshot (ledger_run h)) = int (length rs)"
    "Matched (Snapshot (ledger_run h)) = int (length (filter (\<lambda>r. snd r = None) rs))"
    "Rejected (Snapshot (ledger_run h)) + Indeterminate (Snapshot (ledger_run h)) =
      int (length (filter (\<lambda>r. snd r \<noteq> None) rs))"
    "0 \<le> Rejected (Snapshot (ledger_run h)) \<and> 0 \<le> Indeterminate (Snapshot (ledger_run h))"
    by (simp_all add: ledger_snapshot_fields kind_count_def result_outcome_kind(1))
qed

lemma length_batches:
  "length (concat (map committed_batch rs)) = 2 * length (filter (\<lambda>r. snd r = None) rs)"
  by (induction rs) (auto simp: committed_batch_def txn_batch_def)

lemma batches_valid:
  assumes "\<forall>r \<in> set rs. snd (fst r) \<in> {1..n}" "d \<in> set (concat (map committed_batch rs))"
  shows "document_operation n d \<noteq> None" "bson_M d = d"
  using assms
  by (fastforce simp: committed_batch_def txn_batch_def transaction_document_operation split: if_splits)+

lemma all_committed:
  assumes "mset (map fst h) = mset (map (result_outcome drv) rs)"
  shows "(let l = Snapshot (ledger_run h) in
    Matched l = Attempts l \<and> Rejected l = 0 \<and> Indeterminate l = 0) \<longleftrightarrow> (\<forall>r \<in> set rs. snd r = None)"
proof -
  let ?l = "Snapshot (ledger_run h)" and ?bad = "length (filter (\<lambda>r. snd r \<noteq> None) rs)"
  have "Matched ?l = Attempts ?l \<and> Rejected ?l = 0 \<and> Indeterminate ?l = 0 \<longleftrightarrow> ?bad = 0"
    using history_counts[OF assms] length_filter_split[of "\<lambda>r. snd r = None" rs] by linarith
  then show ?thesis by (simp add: Let_def filter_empty_conv)
qed

lemma txn_checks_of_run:
  assumes d: "distinct (map (snd \<circ> fst) rs)" "set (map (snd \<circ> fst) rs) = {1..n}"
    and ds: "mset ds = mset (concat (map committed_batch rs))"
    and recorded: "mset recorded = mset rs"
    and h: "mset (map fst h) = mset (map (result_outcome drv) rs)"
  shows "map ck_Passed (txn_checks ds (recorded_outcomes drv recorded) (Snapshot (ledger_run h))) =
    [\<forall>r \<in> set rs. snd r = None, True, True, True]"
proof -
  let ?l = "Snapshot (ledger_run h)" and ?bs = "concat (map committed_batch rs)"
  let ?outcomes = "recorded_outcomes drv recorded"
  have "length rs = card (set (map (snd \<circ> fst) rs))" using distinct_card[OF d(1)] by simp
  then have n: "Attempts ?l = n \<or> n \<le> 0 \<and> rs = []" "0 \<le> n \<Longrightarrow> Attempts ?l = n"
    using d(2) history_counts(1)[OF h] by auto
  have att: "Attempts ?l = int (length rs)" by (rule history_counts(1)[OF h])
  have rng: "\<forall>r \<in> set rs. snd (fst r) \<in> {1..Attempts ?l}"
    using d(2) n by force
  have setd: "set ds = set ?bs" using ds by (metis mset_eq_setD)
  have "filter (\<lambda>d. document_operation (Attempts ?l) d = None) ds = []"
    using batches_valid(1)[OF rng] setd by (auto simp: filter_empty_conv)
  then have counts: "tc_invalid (count_documents (Attempts ?l) ds) = 0"
      "tc_stored (count_documents (Attempts ?l) ds) = 2 * Matched ?l"
    using count_foldl[of "Attempts ?l" _ ds] length_filter_mset[OF ds, of "\<lambda>_. True"]
    by (simp_all add: count_documents_def length_batches history_counts(2)[OF h])
  let ?stored = "tc_storedByOperation (count_documents (Attempts ?l) ds)"
  let ?outs = "txn_snapshot (Attempts ?l) ?outcomes"
  have "(snd b = OutcomeMatched \<and> fst b = 2) \<or> (snd b \<in> {OutcomeRejected, OutcomeIndeterminate} \<and> fst b = 0)"
    if "b \<in> set (map (\<lambda>sequence. (?stored ! nat sequence, ?outs ! nat sequence)) [1..Attempts ?l])" for b
  proof -
    from that obtain q where q: "q \<in> {1..Attempts ?l}" and b: "b = (?stored ! nat q, ?outs ! nat q)"
      by auto
    from q d(2) n att obtain r where r: "r \<in> set rs" "snd (fst r) = q" by force
    have "?stored ! nat q = (if snd r = None then 2 else 0)"
      using batches_operation[OF d(1) rng r(1)] length_filter_mset[OF ds, of "of_operation (Attempts ?l) q"]
      by (simp add: stored_count[OF q] r(2))
    moreover have "set recorded = set rs" using recorded by (metis mset_eq_setD)
    moreover have "distinct (map (snd \<circ> fst) recorded)"
      using d(1) recorded by (metis mset_map mset_eq_imp_distinct_iff)
    ultimately have "outcome_at ?outcomes (nat q) = oc_Kind (result_outcome drv r)"
      unfolding recorded_outcomes_def using r rng
      by (intro outcome_at_all) (auto simp: comp_def)
    then show ?thesis
      using \<open>?stored ! nat q = _\<close> result_outcome_kind(1)[of drv r] result_outcome_kind(2)[of r drv]
      by (auto simp: b snapshot_nth[OF q])
  qed
  then have good: "classify_batches (Attempts ?l) ?stored ?outs =
      \<lparr>ta_partialBatches = 0, ta_missingAcknowledged = 0, ta_storedUnacknowledged = 0, ta_missingOutcomes = 0\<rparr>"
    unfolding classify_batches_def by (intro classify_good) blast
  have all: "Matched ?l = Attempts ?l \<and> Rejected ?l = 0 \<and> Indeterminate ?l = 0 \<longleftrightarrow> (\<forall>r \<in> set rs. snd r = None)"
    using all_committed[OF h] by (simp add: Let_def)
  show ?thesis
    using counts good all by (simp add: txn_checks_def Let_def transactionBatchSize_def)
qed

text \<open>C3: A correct server passes the transaction workload. Take any collection whose transactions are
  atomic: one that returns no error has added its batch of two documents, one that returns an error
  has added nothing. Run the transactions of operations \<open>1 .. n\<close> in any order, record their outcomes
  in the scenario and in the ledger in any other orders, and visit the documents in any order. Then
  verification succeeds, its last three checks pass, and its first passes exactly when every
  transaction committed.\<close>

theorem txn_end_to_end:
  assumes "transactional_collection txn ins docs" "docs v = []"
    and "distinct (map snd ops)" "set (map snd ops) = {1..n}"
    and "execute_all txn ins ops v = (results, v')"
    and "mset recorded = mset results" "mset (map fst history) = mset (map (result_outcome drv) results)"
    and "mset visited = mset (docs v')"
  shows "\<exists>checks. txn_Verify (Inr visited) (recorded_outcomes drv recorded) (Snapshot (ledger_run history)) = Inr checks \<and>
    map ck_Passed checks = [\<forall>r \<in> set results. snd r = None, True, True, True]"
proof -
  from transactional_collection.execute_all_docs[OF assms(1,5)]
  have ops: "map fst results = ops" and visited: "mset visited = mset (concat (map committed_batch results))"
    using assms(2,8) by simp_all
  have d: "distinct (map (snd \<circ> fst) results)" "set (map (snd \<circ> fst) results) = {1..n}"
    using assms(3,4) ops by (metis map_map)+
  have "bson_M x = x" if "x \<in> set visited" for x
    using that d(2) visited batches_valid(2)[of results n x] by (force dest: mset_eq_setD)
  then have "map bson_M visited = visited" by (simp add: map_idI)
  with txn_checks_of_run[OF d visited assms(6,7)] show ?thesis by (simp add: txn_Verify_def)
qed

text \<open>Two operations on the in-memory collection, the second refused; recorded in the other order.\<close>

definition demo_fits :: "doc \<Rightarrow> bool" where
  "demo_fits d \<longleftrightarrow> map_of d ''operation'' \<noteq> Some (BInt64 2)"

definition demo_txns :: "((int \<times> int) \<times> goerror option) list \<times> txn_memory" where
  "demo_txns = execute_all tmem_WithTransaction
     (tmem_InsertOne (\<lambda>d. if demo_fits d then Inr d else Inl (ErrText ''too large'')))
     [(0, 1), (1, 2)] \<lparr>tm_documents = [], tm_pending = [], tm_inTransaction = False\<rparr>"

lemma txn_end_to_end_witness:
  "\<exists>checks. txn_Verify (Inr (rev (tm_documents (snd demo_txns))))
      (recorded_outcomes exact_driver (rev (fst demo_txns)))
      (Snapshot (ledger_run (map (\<lambda>r. (result_outcome exact_driver r, 5)) (rev (fst demo_txns))))) = Inr checks \<and>
    map ck_Passed checks = [\<forall>r \<in> set (fst demo_txns). snd r = None, True, True, True]"
proof -
  have e: "execute_all tmem_WithTransaction
     (tmem_InsertOne (\<lambda>d. if demo_fits d then Inr d else Inl (ErrText ''too large'')))
     [(0, 1), (1, 2)] \<lparr>tm_documents = [], tm_pending = [], tm_inTransaction = False\<rparr> = (fst demo_txns, snd demo_txns)"
    by (simp add: demo_txns_def)
  have "{1..2} = {1, 2 :: int}" by auto
  then show ?thesis
    by (intro txn_end_to_end[OF tmem.transactional_collection_axioms _ _ _ e, where n = 2])
      (simp_all add: comp_def)
qed

end
