(* ===== verification/Adapter.thy ===== *)
theory Adapter
  imports Lifecycle TxnEndToEnd
begin

text \<open>
  The MongoDB driver behind the harness's interfaces (src/concurrency/adapter.go), and how a run gets
  its target and collection (runner.go: fixtures, Run, RunWithTarget, RunWithFixture up to the
  workers). The driver is third-party: a record of operations on an unknown world, called through a
  connection that keeps the clients, sessions and cursors that are open. Reading leaves the world as
  it is.
\<close>

section \<open>The driver\<close>

text \<open>A write's result is nil only together with an error. A command's single result is what reading
  its bytes, decoding it into a \<open>bson.M\<close> and asking for its error give. A cursor is the documents
  it delivers, each as it decodes, and the error it ends with.\<close>

datatype 'a reply = Failed goerror | Replied 'a "goerror option"

record single_result =
  sr_Raw :: "byte list option \<times> goerror option"
  sr_Decode :: "goerror + doc"
  sr_Err :: "goerror option"

record cursor =
  cu_id :: nat
  cu_documents :: "(goerror + doc) list"
  cu_Err :: "goerror option"

record 'w conn =
  cn_world :: 'w
  cn_clients :: "nat set"
  cn_sessions :: "nat set"
  cn_cursors :: "nat set"

record 'w mongo_driver =
  md_Connect :: "string \<Rightarrow> 'w \<Rightarrow> (goerror + nat) \<times> 'w"
  md_Ping :: "nat \<Rightarrow> 'w \<Rightarrow> goerror option \<times> 'w"
  md_Disconnect :: "nat \<Rightarrow> 'w \<Rightarrow> goerror option \<times> 'w"
  md_RunCommand :: "nat \<Rightarrow> string \<Rightarrow> doc \<Rightarrow> 'w \<Rightarrow> single_result \<times> 'w"
  md_Unmarshal :: "byte list \<Rightarrow> goerror + doc"
  md_Drop :: "nat \<Rightarrow> string \<Rightarrow> 'w \<Rightarrow> goerror option \<times> 'w"
  md_InsertOne :: "nat \<Rightarrow> nat option \<Rightarrow> string \<Rightarrow> string \<Rightarrow> doc \<Rightarrow> 'w \<Rightarrow> unit reply \<times> 'w"
  md_FindOne :: "nat \<Rightarrow> string \<Rightarrow> string \<Rightarrow> doc \<Rightarrow> 'w \<Rightarrow> goerror + doc"
  md_UpdateOne :: "nat \<Rightarrow> string \<Rightarrow> string \<Rightarrow> doc \<Rightarrow> doc \<Rightarrow> 'w \<Rightarrow> (int \<times> int) reply \<times> 'w"
  md_DeleteOne :: "nat \<Rightarrow> string \<Rightarrow> string \<Rightarrow> doc \<Rightarrow> 'w \<Rightarrow> int reply \<times> 'w"
  md_Find :: "nat \<Rightarrow> string \<Rightarrow> string \<Rightarrow> doc \<Rightarrow> 'w \<Rightarrow> (goerror + cursor) \<times> 'w"
  md_StartSession :: "nat \<Rightarrow> 'w \<Rightarrow> (goerror + nat) \<times> 'w"
  md_EndSession :: "nat \<Rightarrow> 'w \<Rightarrow> 'w"
  md_WithTransaction :: "nat \<Rightarrow> ('w conn \<Rightarrow> goerror option \<times> 'w conn) \<Rightarrow> 'w conn \<Rightarrow> goerror option \<times> 'w conn"

text \<open>A call of the driver: it changes the world of the connection.\<close>

definition on_world :: "('w \<Rightarrow> 'a \<times> 'w) \<Rightarrow> 'w conn \<Rightarrow> 'a \<times> 'w conn" where
  "on_world f c = (case f (cn_world c) of (x, w) \<Rightarrow> (x, c\<lparr>cn_world := w\<rparr>))"

section \<open>mongoCollection\<close>

record mongoCollection =
  mc_client :: nat
  mc_database :: string
  mc_collection :: string

fun reply_error :: "'a reply \<Rightarrow> goerror option" where
  "reply_error (Failed e) = Some e"
| "reply_error (Replied x e) = e"

text \<open>The counts of a write, nothing when the write has an error.\<close>

fun write_result :: "('a \<Rightarrow> WriteResult) \<Rightarrow> 'a reply \<Rightarrow> WriteResult \<times> goerror option" where
  "write_result counts (Failed e) = (no_result, Some e)"
| "write_result counts (Replied x (Some e)) = (no_result, Some e)"
| "write_result counts (Replied x None) = (counts x, None)"

definition adapter_InsertOne :: "'w mongo_driver \<Rightarrow> mongoCollection \<Rightarrow> nat option \<Rightarrow> doc \<Rightarrow> 'w conn \<Rightarrow>
    goerror option \<times> 'w conn" where
  "adapter_InsertOne d c ctx document cn =
     (case on_world (md_InsertOne d (mc_client c) ctx (mc_database c) (mc_collection c) document) cn of
        (r, cn') \<Rightarrow> (reply_error r, cn'))"

definition adapter_FindOne :: "'w mongo_driver \<Rightarrow> mongoCollection \<Rightarrow> doc \<Rightarrow> 'w conn \<Rightarrow> goerror + doc" where
  "adapter_FindOne d c f cn = md_FindOne d (mc_client c) (mc_database c) (mc_collection c) f (cn_world cn)"

definition adapter_UpdateOne :: "'w mongo_driver \<Rightarrow> mongoCollection \<Rightarrow> doc \<Rightarrow> doc \<Rightarrow> 'w conn \<Rightarrow>
    (WriteResult \<times> goerror option) \<times> 'w conn" where
  "adapter_UpdateOne d c f u cn =
     (case on_world (md_UpdateOne d (mc_client c) (mc_database c) (mc_collection c) f u) cn of
        (r, cn') \<Rightarrow> (write_result (\<lambda>(matched, modified). \<lparr>wr_Matched = matched, wr_Modified = modified\<rparr>) r, cn'))"

definition adapter_DeleteOne :: "'w mongo_driver \<Rightarrow> mongoCollection \<Rightarrow> doc \<Rightarrow> 'w conn \<Rightarrow>
    (WriteResult \<times> goerror option) \<times> 'w conn" where
  "adapter_DeleteOne d c f cn =
     (case on_world (md_DeleteOne d (mc_client c) (mc_database c) (mc_collection c) f) cn of
        (r, cn') \<Rightarrow> (write_result (\<lambda>deleted. \<lparr>wr_Matched = deleted, wr_Modified = deleted\<rparr>) r, cn'))"

text \<open>\<open>WithTransaction\<close>: the session ends whatever the transaction returns.\<close>

definition adapter_WithTransaction :: "'w mongo_driver \<Rightarrow> mongoCollection \<Rightarrow>
    (nat \<Rightarrow> 'w conn \<Rightarrow> goerror option \<times> 'w conn) \<Rightarrow> 'w conn \<Rightarrow> goerror option \<times> 'w conn" where
  "adapter_WithTransaction d c fn cn =
     (case on_world (md_StartSession d (mc_client c)) cn of
        (Inl err, cn1) \<Rightarrow> (Some err, cn1)
      | (Inr session, cn1) \<Rightarrow>
          (case md_WithTransaction d session (fn session) (cn1\<lparr>cn_sessions := insert session (cn_sessions cn1)\<rparr>) of
             (err, cn2) \<Rightarrow>
               (err, cn2\<lparr>cn_world := md_EndSession d session (cn_world cn2),
                         cn_sessions := cn_sessions cn2 - {session}\<rparr>)))"

text \<open>\<open>VisitAll\<close>: the first error of decoding or of the visitor ends it; the cursor is closed on
  every path. The visitor keeps a state of its own.\<close>

fun visit_documents :: "(doc \<Rightarrow> 's \<Rightarrow> goerror option \<times> 's) \<Rightarrow> goerror option \<Rightarrow> (goerror + doc) list \<Rightarrow> 's \<Rightarrow>
    goerror option \<times> 's" where
  "visit_documents visit err [] s = (err, s)"
| "visit_documents visit err (Inl e # ds) s = (Some e, s)"
| "visit_documents visit err (Inr d # ds) s =
     (case visit (bson_M d) s of
        (Some e, s') \<Rightarrow> (Some e, s')
      | (None, s') \<Rightarrow> visit_documents visit err ds s')"

definition adapter_VisitAll :: "'w mongo_driver \<Rightarrow> mongoCollection \<Rightarrow> doc \<Rightarrow>
    (doc \<Rightarrow> 's \<Rightarrow> goerror option \<times> 's) \<Rightarrow> 's \<Rightarrow> 'w conn \<Rightarrow> (goerror option \<times> 's) \<times> 'w conn" where
  "adapter_VisitAll d c f visit s cn =
     (case on_world (md_Find d (mc_client c) (mc_database c) (mc_collection c) f) cn of
        (Inl err, cn1) \<Rightarrow> ((Some err, s), cn1)
      | (Inr cu, cn1) \<Rightarrow>
          let cn2 = cn1\<lparr>cn_cursors := insert (cu_id cu) (cn_cursors cn1)\<rparr>;
              r = visit_documents visit (cu_Err cu) (cu_documents cu) s
          in (r, cn2\<lparr>cn_cursors := cn_cursors cn2 - {cu_id cu}\<rparr>))"

definition AtDatabase :: "string \<Rightarrow> mongoCollection \<Rightarrow> mongoCollection" where
  "AtDatabase database c = c\<lparr>mc_database := database\<rparr>"

definition DatabaseName :: "mongoCollection \<Rightarrow> string" where
  "DatabaseName c = mc_database c"

text \<open>\<open>RunCommand\<close>: the reply of a command that failed is returned with its error.\<close>

definition adapter_RunCommand :: "'w mongo_driver \<Rightarrow> mongoCollection \<Rightarrow> string \<Rightarrow> doc \<Rightarrow> 'w conn \<Rightarrow>
    (doc \<times> goerror option) \<times> 'w conn" where
  "adapter_RunCommand d c database command cn =
     (case on_world (md_RunCommand d (mc_client c) database command) cn of
        (r, cn') \<Rightarrow>
          ((case sr_Raw r of
              (None, commandErr) \<Rightarrow> ([], commandErr)
            | (Some raw, commandErr) \<Rightarrow>
                (case md_Unmarshal d raw of
                   Inl err \<Rightarrow> ([], Some err)
                 | Inr response \<Rightarrow> (bson_M response, commandErr))), cn'))"

text \<open>The interfaces it implements.\<close>

definition as_collection :: "'w mongo_driver \<Rightarrow> mongoCollection \<Rightarrow> 'w conn collection" where
  "as_collection d c =
     \<lparr>col_InsertOne = adapter_InsertOne d c None, col_FindOne = adapter_FindOne d c,
      col_UpdateOne = adapter_UpdateOne d c\<rparr>"

definition as_branch_ops :: "'w mongo_driver \<Rightarrow> mongoCollection \<Rightarrow> 'w conn branch_ops" where
  "as_branch_ops d c =
     \<lparr>br_InsertOne = (\<lambda>db. adapter_InsertOne d (AtDatabase db c) None),
      br_FindOne = (\<lambda>db. adapter_FindOne d (AtDatabase db c)),
      br_UpdateOne = (\<lambda>db. adapter_UpdateOne d (AtDatabase db c)),
      br_DeleteOne = (\<lambda>db. adapter_DeleteOne d (AtDatabase db c)),
      br_RunCommand = adapter_RunCommand d c\<rparr>"

section \<open>mongoTarget\<close>

text \<open>The \<open>Target\<close> interface; a target that can create configured collections offers that too.\<close>

record ('v, 'c) target =
  tg_Ping :: "'v \<Rightarrow> goerror option \<times> 'v"
  tg_Identity :: "'v \<Rightarrow> (goerror + ServerInfo) \<times> 'v"
  tg_Collection :: "string \<Rightarrow> string \<Rightarrow> 'c"
  tg_DropDatabase :: "string \<Rightarrow> 'v \<Rightarrow> goerror option \<times> 'v"
  tg_Disconnect :: "'v \<Rightarrow> goerror option \<times> 'v"
  tg_CreateCollection :: "(string \<Rightarrow> string \<Rightarrow> string \<Rightarrow> 'v \<Rightarrow> (goerror + 'c option) \<times> 'v) option"

definition connectMongoTarget :: "'w mongo_driver \<Rightarrow> string \<Rightarrow> 'w conn \<Rightarrow> (goerror + nat) \<times> 'w conn" where
  "connectMongoTarget d uri cn =
     (case on_world (md_Connect d uri) cn of
        (Inl err, cn') \<Rightarrow> (Inl err, cn')
      | (Inr client, cn') \<Rightarrow> (Inr client, cn'\<lparr>cn_clients := insert client (cn_clients cn')\<rparr>))"

definition target_Identity :: "'w mongo_driver \<Rightarrow> nat \<Rightarrow> 'w conn \<Rightarrow> (goerror + ServerInfo) \<times> 'w conn" where
  "target_Identity d client cn =
     (case on_world (md_RunCommand d client ''admin'' [(''buildInfo'', BInt32 1)]) cn of
        (r, cn') \<Rightarrow> (mongo_Identity (map_sum id bson_M (sr_Decode r)), cn'))"

definition mergeModeCreateCommand :: "string \<Rightarrow> string \<Rightarrow> doc" where
  "mergeModeCreateCommand collection mergeMode =
     [(''create'', BString collection), (''mergeMode'', BString mergeMode)]"

definition target_Collection :: "nat \<Rightarrow> string \<Rightarrow> string \<Rightarrow> mongoCollection" where
  "target_Collection client database collection =
     \<lparr>mc_client = client, mc_database = database, mc_collection = collection\<rparr>"

definition target_CreateCollection :: "'w mongo_driver \<Rightarrow> nat \<Rightarrow> string \<Rightarrow> string \<Rightarrow> string \<Rightarrow> 'w conn \<Rightarrow>
    (goerror + mongoCollection option) \<times> 'w conn" where
  "target_CreateCollection d client database collection mergeMode cn =
     (case on_world (md_RunCommand d client database (mergeModeCreateCommand collection mergeMode)) cn of
        (r, cn') \<Rightarrow> (case sr_Err r of
            Some err \<Rightarrow> (Inl err, cn')
          | None \<Rightarrow> (Inr (Some (target_Collection client database collection)), cn')))"

definition target_Disconnect :: "'w mongo_driver \<Rightarrow> nat \<Rightarrow> 'w conn \<Rightarrow> goerror option \<times> 'w conn" where
  "target_Disconnect d client cn =
     (case on_world (md_Disconnect d client) cn of
        (e, cn') \<Rightarrow> (e, cn'\<lparr>cn_clients := cn_clients cn' - {client}\<rparr>))"

definition target_Ping :: "'w mongo_driver \<Rightarrow> nat \<Rightarrow> 'w conn \<Rightarrow> goerror option \<times> 'w conn" where
  "target_Ping d client = on_world (md_Ping d client)"

definition target_DropDatabase :: "'w mongo_driver \<Rightarrow> nat \<Rightarrow> string \<Rightarrow> 'w conn \<Rightarrow> goerror option \<times> 'w conn" where
  "target_DropDatabase d client database = on_world (md_Drop d client database)"

definition mongoTarget :: "'w mongo_driver \<Rightarrow> nat \<Rightarrow> ('w conn, mongoCollection) target" where
  "mongoTarget d client =
     \<lparr>tg_Ping = target_Ping d client, tg_Identity = target_Identity d client,
      tg_Collection = target_Collection client, tg_DropDatabase = target_DropDatabase d client,
      tg_Disconnect = target_Disconnect d client,
      tg_CreateCollection = Some (target_CreateCollection d client)\<rparr>"

section \<open>Fixtures\<close>

type_synonym ('v, 'c) fixture = "('v, 'c) target \<Rightarrow> Config \<Rightarrow> 'v \<Rightarrow> (goerror + 'c option) \<times> 'v"

definition defaultFixture :: "('v, 'c) fixture" where
  "defaultFixture t cfg v = (Inr (Some (tg_Collection t (cfg_Database cfg) (cfg_Collection cfg))), v)"

definition mergeModeFixture :: "('v, 'c) fixture" where
  "mergeModeFixture t cfg v =
     (case tg_CreateCollection t of
        None \<Rightarrow> (Inl (ErrText ''target does not support configured collection creation''), v)
      | Some create \<Rightarrow> create (cfg_Database cfg) (cfg_Collection cfg) (cfg_MergeMode cfg) v)"

section \<open>Up to the workers\<close>

text \<open>A scenario by its name and its Setup. What a run has when its workers start, or does not start:
  the phase, the collection and the target.\<close>

record ('v, 'c) run_scenario =
  rn_Name :: string
  rn_Setup :: "'c \<Rightarrow> 'v \<Rightarrow> goerror option \<times> 'v"

definition failed_early :: "LifecycleResult \<Rightarrow> goerror \<Rightarrow> run_phase" where
  "failed_early result err = (case lifecycleFailure result err of (r, e) \<Rightarrow> FailedEarly r (the e))"

definition disconnecting :: "('v, 'c) target \<Rightarrow> goerror \<Rightarrow> 'v \<Rightarrow> run_phase \<times> 'v" where
  "disconnecting t err v = (RefusedEarly err True, snd (tg_Disconnect t v))"

definition RunWithFixture_start :: "(config_error \<Rightarrow> string) \<Rightarrow> Config \<Rightarrow> ('v, 'c) run_scenario option \<Rightarrow>
    ('v, 'c) target option \<Rightarrow> ('v, 'c) fixture option \<Rightarrow> 'v \<Rightarrow> run_phase \<times> 'v" where
  "RunWithFixture_start text cfg scenario tgt fxt v =
     (case config_Validate cfg of Some e \<Rightarrow> (RefusedEarly (ErrText (text e)) False, v)
      | None \<Rightarrow> (case scenario of None \<Rightarrow> (RefusedEarly (ErrText ''scenario is required'') False, v)
      | Some sc \<Rightarrow> (case tgt of None \<Rightarrow> (RefusedEarly (ErrText ''target is required'') False, v)
      | Some t \<Rightarrow> (case fxt of None \<Rightarrow> (RefusedEarly (ErrText ''fixture is required'') False, v)
      | Some fx \<Rightarrow> (case tg_Ping t v of
          (Some err, v1) \<Rightarrow> disconnecting t (ErrWrap ''ping: '' err) v1
        | (None, v1) \<Rightarrow> (case tg_Identity t v1 of
          (Inl err, v2) \<Rightarrow> disconnecting t err v2
        | (Inr identity, v2) \<Rightarrow>
            if cfg_MergeMode cfg \<noteq> [] \<and> si_Product identity \<noteq> ''DumboDB''
            then disconnecting t (ErrText (''merge mode requires DumboDB, got '' @ si_Product identity)) v2
            else
              let result = fresh_result cfg (rn_Name sc) identity in
              (case fx t cfg v2 of
                 (Inl err, v3) \<Rightarrow> (failed_early result (ErrWrap ''create fixture: '' err), v3)
               | (Inr None, v3) \<Rightarrow> (failed_early result (ErrText ''create fixture: collection is required''), v3)
               | (Inr (Some c), v3) \<Rightarrow> (case rn_Setup sc c v3 of
                   (Some err, v4) \<Rightarrow> (failed_early result (ErrWrap (''setup '' @ rn_Name sc @ '': '') err), v4)
                 | (None, v4) \<Rightarrow> (ReadyToRun result, v4)))))))))"

definition RunWithTarget_start where
  "RunWithTarget_start text cfg scenario tgt v =
     RunWithFixture_start text cfg scenario tgt
       (Some (if cfg_MergeMode cfg \<noteq> [] then mergeModeFixture else defaultFixture)) v"

text \<open>\<open>Run\<close> gives the phase and the client it connected.\<close>

definition Run_start :: "(config_error \<Rightarrow> string) \<Rightarrow> 'w mongo_driver \<Rightarrow> Config \<Rightarrow>
    ('w conn, mongoCollection) run_scenario option \<Rightarrow> 'w conn \<Rightarrow> (run_phase \<times> nat option) \<times> 'w conn" where
  "Run_start text d cfg scenario cn =
     (case config_Validate cfg of Some e \<Rightarrow> ((RefusedEarly (ErrText (text e)) False, None), cn)
      | None \<Rightarrow>
      if scenario = None then ((RefusedEarly (ErrText ''scenario is required'') False, None), cn)
      else (case connectMongoTarget d (cfg_TargetURI cfg) cn of
          (Inl err, cn1) \<Rightarrow> ((RefusedEarly (ErrWrap ''connect: '' err) False, None), cn1)
        | (Inr client, cn1) \<Rightarrow>
            (case RunWithTarget_start text cfg scenario (Some (mongoTarget d client)) cn1 of
               (phase, cn2) \<Rightarrow> ((phase, Some client), cn2))))"

text \<open>\<open>Finalize\<close> on a target: the calls of Lifecycle's \<open>Finalize\<close>, made.\<close>

definition Finalize_target :: "('v, 'c) target \<Rightarrow> bool \<Rightarrow> LifecycleResult \<Rightarrow> 'v \<Rightarrow>
    (goerror option \<times> LifecycleResult) \<times> 'v" where
  "Finalize_target t preserve r v =
     (if \<not> lr_hasTarget r then ((None, r), v)
      else
        let (dropErr, v1) = (if \<not> preserve \<and> \<not> lr_keepData r then tg_DropDatabase t (lr_database r) v else (None, v));
            (disconnectErr, v2) = tg_Disconnect t v1
        in ((if dropErr \<noteq> None then dropErr else disconnectErr, r\<lparr>lr_hasTarget := False\<rparr>), v2))"

end
