(* ===== verification/AdapterFacts.thy ===== *)
theory AdapterFacts
  imports Adapter
begin

text \<open>
  What the driver's adapter guarantees: sessions and cursors are closed on every path, a write with an
  error never counts, transactions on a driver that keeps its documentation are the atomic ones the
  transaction workload needs, and every client a run connects is disconnected in the end. The start
  of a run on a real target gives the phases of Lifecycle's \<open>run_preflight\<close>.
\<close>

section \<open>What stays open\<close>

lemma on_world_keeps [simp]:
  "cn_clients (snd (on_world f cn)) = cn_clients cn"
  "cn_sessions (snd (on_world f cn)) = cn_sessions cn"
  "cn_cursors (snd (on_world f cn)) = cn_cursors cn"
  by (simp_all add: on_world_def split: prod.split)

lemma on_world_eq:
  "on_world f cn = (x, cn') \<longleftrightarrow> (\<exists>w. f (cn_world cn) = (x, w) \<and> cn' = cn\<lparr>cn_world := w\<rparr>)"
  by (auto simp: on_world_def split: prod.split)

lemma WithTransaction_ends_session:
  assumes "\<And>s c. cn_sessions (snd (md_WithTransaction d s (fn s) c)) = cn_sessions c"
    and "\<And>s w. md_StartSession d (mc_client c) (cn_world cn) = (Inr s, w) \<Longrightarrow> s \<notin> cn_sessions cn"
  shows "cn_sessions (snd (adapter_WithTransaction d c fn cn)) = cn_sessions cn"
proof (cases "md_StartSession d (mc_client c) (cn_world cn)")
  case (Pair r w)
  show ?thesis
  proof (cases r)
    case (Inr s)
    let ?c = "cn\<lparr>cn_world := w, cn_sessions := insert s (cn_sessions cn)\<rparr>"
    obtain err c2 where r: "md_WithTransaction d s (fn s) ?c = (err, c2)" by fastforce
    with assms(1)[of s ?c] have "cn_sessions c2 = insert s (cn_sessions cn)" by simp
    with r Pair Inr assms(2)[of s w] show ?thesis
      by (simp add: adapter_WithTransaction_def on_world_def)
  qed (simp add: Pair adapter_WithTransaction_def on_world_def)
qed

lemma VisitAll_closes_cursor:
  assumes "\<And>cu w. md_Find d (mc_client c) (mc_database c) (mc_collection c) f (cn_world cn) = (Inr cu, w) \<Longrightarrow>
    cu_id cu \<notin> cn_cursors cn"
  shows "cn_cursors (snd (adapter_VisitAll d c f visit s cn)) = cn_cursors cn"
  using assms
  by (auto simp: adapter_VisitAll_def on_world_def Let_def split: prod.split sum.split)

text \<open>What a verification reads: the visitor is given every document of a cursor that ends without an
  error, in order.\<close>

lemma visit_documents_folds:
  "visit_documents (\<lambda>d c. (None, f c d)) err (map Inr ds) s = (err, foldl f s (map bson_M ds))"
  by (induction ds arbitrary: s) simp_all

lemma VisitAll_counts:
  assumes "md_Find d (mc_client c) (mc_database c) (mc_collection c) f (cn_world cn) = (Inr cu, w)"
    and "cu_documents cu = map Inr ds"
  shows "fst (adapter_VisitAll d c f (\<lambda>x counts. (None, visit_document n counts x))
      \<lparr>tc_storedByOperation = replicate (nat (n + 1)) 0, tc_invalid = 0, tc_stored = 0\<rparr> cn) =
    (cu_Err cu, count_documents n (map bson_M ds))"
  using assms
  by (simp add: adapter_VisitAll_def on_world_def Let_def visit_documents_folds count_documents_def)

text \<open>A write that has an error is never taken for a match.\<close>

lemma failed_write_never_matches:
  "oc_Kind (UpdateOutcome net (fst (write_result f r)) (snd (write_result f r))) = OutcomeMatched \<Longrightarrow>
     \<exists>x. r = Replied x None"
  by (induction f r rule: write_result.induct)
    (auto simp: UpdateOutcome_def outcome_of_def split: if_splits)

section \<open>Transactions on the driver\<close>

text \<open>The driver's documentation, for one collection: \<open>vis w\<close> are its committed documents, \<open>pending s w\<close>
  what session \<open>s\<close> has inserted in its transaction. Sessions start and end without effect; an
  insertion that is answered without error is in the transaction; a transaction that returns an error
  has no effect, and one that returns none has committed what a last, successful run of its callback
  inserted, however often it ran the callback before.\<close>

definition driver_transacts :: "'w mongo_driver \<Rightarrow> mongoCollection \<Rightarrow> ('w \<Rightarrow> doc list) \<Rightarrow> (nat \<Rightarrow> 'w \<Rightarrow> doc list) \<Rightarrow> bool" where
  "driver_transacts d c vis pending \<longleftrightarrow>
     (\<forall>w. vis (snd (md_StartSession d (mc_client c) w)) = vis w) \<and>
     (\<forall>s w. vis (md_EndSession d s w) = vis w) \<and>
     (\<forall>s x w w'. md_InsertOne d (mc_client c) (Some s) (mc_database c) (mc_collection c) x w = (Replied () None, w') \<longrightarrow>
        pending s w' = pending s w @ [x]) \<and>
     (\<forall>s fn cn err cn'. md_WithTransaction d s fn cn = (err, cn') \<longrightarrow>
        (case err of
           Some e \<Rightarrow> mset (vis (cn_world cn')) = mset (vis (cn_world cn))
         | None \<Rightarrow> \<exists>c1 c2. pending s (cn_world c1) = [] \<and> fn c1 = (None, c2) \<and>
             mset (vis (cn_world cn')) = mset (vis (cn_world cn)) + mset (pending s (cn_world c2))))"

lemma driver_transaction:
  assumes "driver_transacts d c vis pending" "md_WithTransaction d s fn cn = (err, cn')"
  shows "err \<noteq> None \<Longrightarrow> mset (vis (cn_world cn')) = mset (vis (cn_world cn))"
    and "err = None \<Longrightarrow> \<exists>c1 c2. pending s (cn_world c1) = [] \<and> fn c1 = (None, c2) \<and>
      mset (vis (cn_world cn')) = mset (vis (cn_world cn)) + mset (pending s (cn_world c2))"
proof -
  from assms have "case err of
      Some e \<Rightarrow> mset (vis (cn_world cn')) = mset (vis (cn_world cn))
    | None \<Rightarrow> \<exists>c1 c2. pending s (cn_world c1) = [] \<and> fn c1 = (None, c2) \<and>
        mset (vis (cn_world cn')) = mset (vis (cn_world cn)) + mset (pending s (cn_world c2))"
    unfolding driver_transacts_def by presburger
  then show "err \<noteq> None \<Longrightarrow> mset (vis (cn_world cn')) = mset (vis (cn_world cn))"
    "err = None \<Longrightarrow> \<exists>c1 c2. pending s (cn_world c1) = [] \<and> fn c1 = (None, c2) \<and>
      mset (vis (cn_world cn')) = mset (vis (cn_world cn)) + mset (pending s (cn_world c2))"
    by auto
qed

lemma adapter_insert_pending:
  assumes "driver_transacts d c vis pending" "adapter_InsertOne d c (Some s) x cn = (None, cn')"
  shows "pending s (cn_world cn') = pending s (cn_world cn) @ [x]"
proof -
  obtain r w where r: "md_InsertOne d (mc_client c) (Some s) (mc_database c) (mc_collection c) x (cn_world cn) = (r, w)"
    by fastforce
  with assms(2) have "reply_error r = None" "cn' = cn\<lparr>cn_world := w\<rparr>"
    by (auto simp: adapter_InsertOne_def on_world_def)
  moreover from this have "r = Replied () None" by (cases r) auto
  ultimately show ?thesis using assms(1) r by (auto simp: driver_transacts_def)
qed

lemma adapter_body_pending:
  assumes "driver_transacts d c vis pending" "pending s (cn_world cn) = []"
    and "run_txn_body (adapter_InsertOne d c (Some s)) w q cn = (None, cn')"
  shows "pending s (cn_world cn') = txn_batch w q"
  using assms(2,3) adapter_insert_pending[OF assms(1)]
  by (fastforce simp: run_txn_body_cases txn_batch_def split: prod.splits option.splits)


text \<open>A driver that runs the callback once and keeps the pending documents of each session.\<close>

definition demo_transaction :: "nat \<Rightarrow> ((doc list \<times> (nat \<Rightarrow> doc list)) conn \<Rightarrow> goerror option \<times> (doc list \<times> (nat \<Rightarrow> doc list)) conn) \<Rightarrow>
    (doc list \<times> (nat \<Rightarrow> doc list)) conn \<Rightarrow> goerror option \<times> (doc list \<times> (nat \<Rightarrow> doc list)) conn" where
  "demo_transaction s fn cn =
     (case fn (cn\<lparr>cn_world := (fst (cn_world cn), (snd (cn_world cn))(s := []))\<rparr>) of
        (err, c2) \<Rightarrow> (err, c2\<lparr>cn_world :=
          (fst (cn_world cn) @ (if err = None then snd (cn_world c2) s else []), snd (cn_world c2))\<rparr>))"

definition demo_mongo :: "(doc list \<times> (nat \<Rightarrow> doc list)) mongo_driver" where
  "demo_mongo =
     \<lparr>md_Connect = (\<lambda>uri w. (Inr 1, w)), md_Ping = (\<lambda>k w. (None, w)), md_Disconnect = (\<lambda>k w. (None, w)),
      md_RunCommand = (\<lambda>k db x w. (\<lparr>sr_Raw = (Some [], None),
        sr_Decode = Inr [(''version'', BString ''7'')], sr_Err = None\<rparr>, w)),
      md_Unmarshal = (\<lambda>b. Inr []), md_Drop = (\<lambda>k db w. (None, w)),
      md_InsertOne = (\<lambda>k s db c x (docs, pend). (Replied () None, case s of
          None \<Rightarrow> (docs @ [x], pend) | Some n \<Rightarrow> (docs, pend(n := pend n @ [x])))),
      md_FindOne = (\<lambda>k db c f w. Inl ErrNoDocuments),
      md_UpdateOne = (\<lambda>k db c f u w. (Replied (0, 0) None, w)),
      md_DeleteOne = (\<lambda>k db c f w. (Replied 0 None, w)),
      md_Find = (\<lambda>k db c f w. (Inr \<lparr>cu_id = 0, cu_documents = map Inr (fst w), cu_Err = None\<rparr>, w)),
      md_StartSession = (\<lambda>k w. (Inr 0, w)), md_EndSession = (\<lambda>s w. w),
      md_WithTransaction = demo_transaction\<rparr>"

lemma demo_transacts: "driver_transacts demo_mongo c fst (\<lambda>s w. snd w s)"
proof -
  have "case err of
      Some e \<Rightarrow> mset (fst (cn_world cn')) = mset (fst (cn_world cn))
    | None \<Rightarrow> \<exists>c1 c2. snd (cn_world c1) s = [] \<and> fn c1 = (None, c2) \<and>
        mset (fst (cn_world cn')) = mset (fst (cn_world cn)) + mset (snd (cn_world c2) s)"
    if "demo_transaction s fn cn = (err, cn')" for s fn cn err cn'
  proof -
    let ?c1 = "cn\<lparr>cn_world := (fst (cn_world cn), (snd (cn_world cn))(s := []))\<rparr>"
    obtain e c2 where "fn ?c1 = (e, c2)" by fastforce
    with that show ?thesis
      by (cases e) (force simp: demo_transaction_def intro: exI[of _ ?c1])+
  qed
  then show ?thesis
    unfolding driver_transacts_def by (auto simp: demo_mongo_def split: prod.splits)
qed


section \<open>The start of a run\<close>

text \<open>What the calls of a start answer, as the inputs of \<open>run_preflight\<close>.\<close>

definition start_inputs :: "(config_error \<Rightarrow> string) \<Rightarrow> Config \<Rightarrow> ('v, 'c) run_scenario option \<Rightarrow>
    ('v, 'c) target option \<Rightarrow> ('v, 'c) fixture option \<Rightarrow> 'v \<Rightarrow> run_inputs" where
  "start_inputs text cfg scenario tgt fxt v =
     (let (ping, v1) = tg_Ping (the tgt) v; (identity, v2) = tg_Identity (the tgt) v1;
          (made, v3) = the fxt (the tgt) cfg v2
      in \<lparr>ri_Config = cfg, ri_config_text = text, ri_scenario_given = scenario \<noteq> None,
          ri_target_given = tgt \<noteq> None, ri_fixture_given = fxt \<noteq> None, ri_Ping = ping,
          ri_Identity = identity, ri_CreateCollection = map_sum id (\<lambda>c. c \<noteq> None) made,
          ri_Setup = (case made of Inr (Some c) \<Rightarrow> fst (rn_Setup (the scenario) c v3) | _ \<Rightarrow> None)\<rparr>)"

lemma start_refines_preflight:
  "fst (RunWithFixture_start text cfg scenario tgt fxt v) =
     run_preflight (rn_Name (the scenario)) (start_inputs text cfg scenario tgt fxt v)"
proof (cases "config_Validate cfg = None \<and> scenario \<noteq> None \<and> tgt \<noteq> None \<and> fxt \<noteq> None")
  case True
  then obtain sc t fx where given: "scenario = Some sc" "tgt = Some t" "fxt = Some fx" by blast
  obtain ping v1 where 1: "tg_Ping t v = (ping, v1)" by fastforce
  obtain identity v2 where 2: "tg_Identity t v1 = (identity, v2)" by fastforce
  obtain made v3 where 3: "fx t cfg v2 = (made, v3)" by fastforce
  show ?thesis
    using True
    by (simp add: RunWithFixture_start_def run_preflight_def start_inputs_def disconnecting_def
        failed_early_def Let_def given 1 2 3 split: option.split sum.split prod.split)
next
  case False
  then show ?thesis
    by (cases scenario; cases tgt; cases fxt)
      (auto simp: RunWithFixture_start_def run_preflight_def start_inputs_def split: option.split prod.split)
qed

text \<open>The result a phase carries, with its hold on the target.\<close>

fun run_result :: "run_phase \<Rightarrow> LifecycleResult option" where
  "run_result (RefusedEarly e b) = None"
| "run_result (FailedEarly r e) = Some r"
| "run_result (ReadyToRun r) = Some r"

lemma failed_early_result [simp]: "run_result (failed_early r e) = Some (r\<lparr>lr_RunError := error_text e\<rparr>)"
  by (simp add: failed_early_def lifecycleFailure_def)

lemma target_clients [simp]:
  "cn_clients (snd (tg_Ping (mongoTarget d k) cn)) = cn_clients cn"
  "cn_clients (snd (tg_Identity (mongoTarget d k) cn)) = cn_clients cn"
  "cn_clients (snd (tg_DropDatabase (mongoTarget d k) db cn)) = cn_clients cn"
  "cn_clients (snd (tg_Disconnect (mongoTarget d k) cn)) = cn_clients cn - {k}"
  by (simp_all add: mongoTarget_def target_Ping_def target_DropDatabase_def target_Identity_def target_Disconnect_def on_world_def split: prod.split)

lemma fixture_clients [simp]:
  "cn_clients (snd (defaultFixture (mongoTarget d k) cfg cn)) = cn_clients cn"
  "cn_clients (snd (mergeModeFixture (mongoTarget d k) cfg cn)) = cn_clients cn"
  by (simp_all add: defaultFixture_def mergeModeFixture_def mongoTarget_def target_CreateCollection_def
      on_world_def split: prod.split option.split)

lemma Finalize_target_clients:
  assumes "lr_hasTarget r"
  shows "cn_clients (snd (Finalize_target (mongoTarget d k) preserve r cn)) = cn_clients cn - {k}"
proof -
  have *: "cn_clients cn2 = cn_clients cn1 - {k}" if "tg_Disconnect (mongoTarget d k) cn1 = (e, cn2)" for e cn1 cn2
    using target_clients(4)[of d k cn1] that by simp
  moreover have "cn_clients cn2 = cn_clients cn1" if "tg_DropDatabase (mongoTarget d k) db cn1 = (e, cn2)" for e db cn1 cn2
    using target_clients(3)[of d k db cn1] that by simp
  ultimately show ?thesis using assms by (simp add: Finalize_target_def split: prod.split)
qed

text \<open>A start either keeps the target connected and says so, or has disconnected it.\<close>

lemma start_holds_target:
  assumes "\<And>sc c v. scenario = Some sc \<Longrightarrow> cn_clients (snd (rn_Setup sc c v)) = cn_clients v"
    and "config_Validate cfg = None" "scenario \<noteq> None"
    and "RunWithTarget_start text cfg scenario (Some (mongoTarget d k)) cn = (phase, cn1)"
  shows "case run_result phase of
      None \<Rightarrow> cn_clients cn1 = cn_clients cn - {k}
    | Some r \<Rightarrow> lr_hasTarget r \<and> cn_clients cn1 = cn_clients cn"
proof -
  let ?t = "mongoTarget d k"
  obtain sc where sc: "scenario = Some sc" using assms(3) by blast
  define fx :: "('a conn, mongoCollection) fixture" where
    "fx = (if cfg_MergeMode cfg \<noteq> [] then mergeModeFixture else defaultFixture)"
  obtain ping v1 where 1: "tg_Ping ?t cn = (ping, v1)" by fastforce
  obtain identity v2 where 2: "tg_Identity ?t v1 = (identity, v2)" by fastforce
  obtain made v3 where 3: "fx ?t cfg v2 = (made, v3)" by fastforce
  have fx: "cn_clients (snd (fx ?t cfg v2)) = cn_clients v2" by (simp add: fx_def)
  have "cn_clients v1 = cn_clients cn" "cn_clients v2 = cn_clients v1" "cn_clients v3 = cn_clients v2"
    using target_clients(1)[of d k cn] target_clients(2)[of d k v1] fx 1 2 3 by simp_all
  moreover have "cn_clients v4 = cn_clients v3" if "rn_Setup sc c v3 = (e, v4)" for c e v4
    using assms(1)[OF sc, of c v3] that by simp
  moreover have "lr_hasTarget (fresh_result cfg name i)" for name i by (simp add: fresh_result_def)
  ultimately show ?thesis
    using assms(4)[symmetric] assms(2)
    by (auto simp: RunWithTarget_start_def RunWithFixture_start_def sc fx_def[symmetric] 1 2 3
        disconnecting_def Let_def split: option.splits sum.splits prod.splits if_splits)
qed

text \<open>C10: every client a run connects is disconnected in the end. Whatever the server answers, a start
  of a run that returns no result has left no client open; one that returns a result, failed or ready,
  holds exactly the client it connected, and once the workload is over finalising that result
  disconnects it, whether or not its data is kept.\<close>

theorem run_releases_target:
  assumes "\<And>sc c v. scenario = Some sc \<Longrightarrow> cn_clients (snd (rn_Setup sc c v)) = cn_clients v"
    and "\<And>k w. md_Connect d (cfg_TargetURI cfg) (cn_world cn) = (Inr k, w) \<Longrightarrow> k \<notin> cn_clients cn"
    and "Run_start text d cfg scenario cn = ((phase, client), cn1)"
  shows "case run_result phase of
      None \<Rightarrow> cn_clients cn1 = cn_clients cn
    | Some r \<Rightarrow> \<exists>k. client = Some k \<and> k \<notin> cn_clients cn \<and> cn_clients cn1 = insert k (cn_clients cn) \<and>
        (\<forall>preserve cn2. cn_clients cn2 = cn_clients cn1 \<longrightarrow>
           cn_clients (snd (Finalize_target (mongoTarget d k) preserve r cn2)) = cn_clients cn)"
proof (cases "config_Validate cfg = None \<and> scenario \<noteq> None")
  case True
  obtain r w where c: "md_Connect d (cfg_TargetURI cfg) (cn_world cn) = (r, w)" by fastforce
  show ?thesis
  proof (cases r)
    case (Inr k)
    let ?cn = "cn\<lparr>cn_world := w, cn_clients := insert k (cn_clients cn)\<rparr>"
    have start: "RunWithTarget_start text cfg scenario (Some (mongoTarget d k)) ?cn = (phase, cn1)"
        "client = Some k" and new: "k \<notin> cn_clients cn"
      using assms(2,3) True c Inr
      by (auto simp: Run_start_def connectMongoTarget_def on_world_def split: prod.splits)
    from start_holds_target[OF assms(1) _ _ start(1)] True start(2) new show ?thesis
      by (auto simp: Finalize_target_clients split: option.splits)
  qed (use assms(3) True c in \<open>auto simp: Run_start_def connectMongoTarget_def on_world_def\<close>)
next
  case False
  with assms(3) show ?thesis by (auto simp: Run_start_def split: option.splits if_splits)
qed

lemma adapter_InsertOne_clients [simp]: "cn_clients (snd (adapter_InsertOne d c s x cn)) = cn_clients cn"
  by (simp add: adapter_InsertOne_def on_world_def split: prod.split)

text \<open>A run on the demonstration driver whose Setup writes one document.\<close>

definition adapter_config :: Config where
  "adapter_config = \<lparr>cfg_TargetURI = ''mongodb://a'', cfg_Duration = 0, cfg_Operations = 1, cfg_Workers = 1,
     cfg_Seed = 0, cfg_Database = ''db'', cfg_Collection = ''c'', cfg_KeepData = False, cfg_Scenario = ''cas'',
     cfg_PayloadBytes = 0, cfg_CASDelay = 0, cfg_MergeMode = []\<rparr>"

definition adapter_scenario :: "((doc list \<times> (nat \<Rightarrow> doc list)) conn, mongoCollection) run_scenario" where
  "adapter_scenario = \<lparr>rn_Name = ''cas'', rn_Setup = (\<lambda>c. adapter_InsertOne demo_mongo c None [(''_id'', BString ''counter'')])\<rparr>"

definition adapter_start where
  "adapter_start = Run_start (\<lambda>e. []) demo_mongo adapter_config (Some adapter_scenario)
     \<lparr>cn_world = ([], \<lambda>s. []), cn_clients = {}, cn_sessions = {}, cn_cursors = {}\<rparr>"

lemma run_releases_target_witness:
  "\<exists>r k. run_result (fst (fst adapter_start)) = Some r \<and> snd (fst adapter_start) = Some k \<and>
     cn_clients (snd adapter_start) = {k} \<and>
     cn_clients (snd (Finalize_target (mongoTarget demo_mongo k) False r (snd adapter_start))) = {}"
proof -
  let ?cn = "\<lparr>cn_world = ([], \<lambda>s. []), cn_clients = {}, cn_sessions = {}, cn_cursors = {}\<rparr> ::
    (doc list \<times> (nat \<Rightarrow> doc list)) conn"
  have su: "cn_clients (snd (rn_Setup sc c v)) = cn_clients v" if "Some adapter_scenario = Some sc" for sc c v
    using that by (auto simp: adapter_scenario_def)
  obtain phase client cn1 where start: "Run_start (\<lambda>e. []) demo_mongo adapter_config (Some adapter_scenario) ?cn = ((phase, client), cn1)"
    by (metis prod.exhaust)
  have "run_result (fst (fst adapter_start)) \<noteq> None"
    by code_simp
  then obtain r where "run_result phase = Some r" using start by (auto simp: adapter_start_def)
  with run_releases_target[OF su _ start] start show ?thesis by (auto simp: adapter_start_def)
qed

end
