(* ===== verification/Loader.thy ===== *)
theory Loader
  imports ShopDataFacts WireAnalysis WireLoads
begin

text \<open>
  The programs around the data set and the captured traffic: the loader (src/cmd/gendata/main.go) as
  the calls it makes to the server, and the report and main function of the compression measurement
  (src/cmd/wirecompress/analyze.go, main.go). \<open>log.Fatal\<close> is an error: it exits at once, without the
  deferred disconnection. Flags are arguments; what the server answers is a parameter.
\<close>

section \<open>gendata\<close>

record load_flags =
  lf_uri :: string
  lf_customers :: int
  lf_products :: int
  lf_orders :: int
  lf_batch :: int
  lf_drop :: bool

datatype loader_call =
    Dial string
  | PingServer
  | DropCollection string
  | InsertMany string "shop_doc list"
  | CreateIndexes string "((string \<times> int) list \<times> bool) list"
  | CollStats string
  | Disconnected

record 'w loading =
  lo_world :: 'w
  lo_calls :: "loader_call list"
  lo_output :: "string list"

definition asking :: "(loader_call \<Rightarrow> 'w \<Rightarrow> (goerror + doc) \<times> 'w) \<Rightarrow> loader_call \<Rightarrow> ('w loading, goerror + doc) act" where
  "asking answer c m =
     (case answer c (lo_world m) of
        (r, w) \<Rightarrow> Some (Inr r, m\<lparr>lo_world := w, lo_calls := lo_calls m @ [c]\<rparr>))"

definition must :: "(loader_call \<Rightarrow> 'w \<Rightarrow> (goerror + doc) \<times> 'w) \<Rightarrow> string \<Rightarrow> loader_call \<Rightarrow> ('w loading, unit) act" where
  "must answer what c =
     and_then (asking answer c) (\<lambda>r. case r of
       Inl e \<Rightarrow> fail (ErrText (what @ '': '' @ error_text e)) | Inr d \<Rightarrow> ok ())"

fun in_turn :: "('a \<Rightarrow> ('m, unit) act) \<Rightarrow> 'a list \<Rightarrow> ('m, unit) act" where
  "in_turn f [] = ok ()"
| "in_turn f (x # xs) = and_then (f x) (\<lambda>_. in_turn f xs)"

definition panic :: "('m, 'a) act" where
  "panic m = None"

text \<open>The batches of one collection, as the inserter sends them while the documents are generated. A
  document whose generation panics (an order without customers or products) stops the program after
  the full batches before it.\<close>

definition send_batches :: "(loader_call \<Rightarrow> 'w \<Rightarrow> (goerror + doc) \<times> 'w) \<Rightarrow> string \<Rightarrow> shop_doc list list \<Rightarrow>
    ('w loading, unit) act" where
  "send_batches answer coll batches = in_turn (\<lambda>b. must answer (''insert '' @ coll) (InsertMany coll b)) batches"

definition load_collection :: "(loader_call \<Rightarrow> 'w \<Rightarrow> (goerror + doc) \<times> 'w) \<Rightarrow> int \<Rightarrow> string \<Rightarrow> shop_doc option list \<Rightarrow>
    ('w loading, unit) act" where
  "load_collection answer batch coll docs =
     (let made = map the (takeWhile (\<lambda>d. d \<noteq> None) docs) in
      if None \<in> set docs
      then and_then (send_batches answer coll (is_sent (fold (add_doc batch) made \<lparr>is_docs = [], is_sent = []\<rparr>))) (\<lambda>_. panic)
      else send_batches answer coll (insert_all batch made))"

definition shop_collections :: "string list" where
  "shop_collections = [''customers'', ''products'', ''orders'']"

definition shop_indexes :: "(string \<times> ((string \<times> int) list \<times> bool) list) list" where
  "shop_indexes = [(''customers'', CustomerIndexes), (''products'', ProductIndexes), (''orders'', OrderIndexes)]"

definition report_collection :: "(loader_call \<Rightarrow> 'w \<Rightarrow> (goerror + doc) \<times> 'w) \<Rightarrow> (float64 \<Rightarrow> int) \<Rightarrow> string \<Rightarrow>
    ('w loading, unit) act" where
  "report_collection answer wild coll =
     and_then (asking answer (CollStats coll)) (\<lambda>stats.
       change (\<lambda>m. m\<lparr>lo_output := lo_output m @ [gendata_report wild coll stats]\<rparr>))"

text \<open>Making a slice with a negative capacity panics. The data set is drawn from the source in the
  order of the code, which does not depend on what the server answers.\<close>

definition gendata_main :: "(loader_call \<Rightarrow> 'w \<Rightarrow> (goerror + doc) \<times> 'w) \<Rightarrow> (float64 \<Rightarrow> int) \<Rightarrow> 'g shop_source \<Rightarrow> 'g \<Rightarrow>
    load_flags \<Rightarrow> ('w loading, unit) act" where
  "gendata_main answer wild src g fl =
     and_then (must answer (''connect '' @ lf_uri fl) (Dial (lf_uri fl))) (\<lambda>_.
     and_then (must answer (''ping '' @ lf_uri fl) PingServer) (\<lambda>_.
     and_then (in_turn (\<lambda>c. must answer (''drop '' @ c) (DropCollection c))
                 (if lf_drop fl then shop_collections else [])) (\<lambda>_.
     if lf_batch fl < 0 \<or> lf_customers fl < 0 then panic
     else case fst (run_state (dataset src (nat (lf_customers fl)) (nat (lf_products fl)) (nat (lf_orders fl))) g) of
       (cs, ps, os) \<Rightarrow>
         and_then (load_collection answer (lf_batch fl) ''customers'' (map Some cs)) (\<lambda>_.
         if lf_products fl < 0 then panic else
         and_then (load_collection answer (lf_batch fl) ''products'' (map Some ps)) (\<lambda>_.
         and_then (load_collection answer (lf_batch fl) ''orders'' os) (\<lambda>_.
         and_then (in_turn (\<lambda>(c, ix). must answer (''indexes on '' @ c) (CreateIndexes c ix)) shop_indexes) (\<lambda>_.
         and_then (in_turn (report_collection answer wild) shop_collections) (\<lambda>_.
         and_then (asking answer Disconnected) (\<lambda>_. ok ())))))))))"

section \<open>The report of the measurement\<close>

definition codecNames :: "wire_codec list \<Rightarrow> string list" where
  "codecNames all = map wc_name all"

definition pad_left :: "nat \<Rightarrow> string \<Rightarrow> string" where
  "pad_left w s = replicate (w - length s) CHR '' '' @ s"

definition pad_to :: "nat \<Rightarrow> string \<Rightarrow> string" where
  "pad_to w s = s @ replicate (w - length s) CHR '' ''"

definition newline :: string where "newline = [CHR 0x0A]"

definition summary_line :: "string \<times> groupStats \<Rightarrow> string" where
  "summary_line lt =
     pad_to 32 (fst lt) @ '' '' @ pad_left 12 (itoa (gs_rawWire (snd lt))) @
     concat (map (\<lambda>n. '' '' @ pad_left 7 (fmt_fixed False 1 (percent_of_raw (snd lt) n)) @ ''%'') [''snappy'', ''zlib'', ''zstd'']) @
     newline"

text \<open>Throughput: megabytes of input per second of the fastest pass.\<close>

definition per_second :: "int \<Rightarrow> duration \<Rightarrow> float64" where
  "per_second bytes d =
     float_div (float_div (float_of_int bytes) (float_of_int 1000000))
       (float_add (float_of_int (d div 1000000000))
          (float_div (float_of_int (d mod 1000000000)) (float_of_int 1000000000)))"

definition throughput_line :: "(string \<times> cpuStats) list \<Rightarrow> string \<Rightarrow> string" where
  "throughput_line cpu n =
     (let c = (case map_of cpu n of None \<Rightarrow> \<lparr>cs_inputBytes = 0, cs_compressTime = 0, cs_decompressTime = 0\<rparr>
                                  | Some c \<Rightarrow> c)
      in pad_to 16 n @ '' compress '' @ pad_left 8 (fmt_fixed False 1 (per_second (cs_inputBytes c) (cs_compressTime c))) @
         '' MB/s   decompress '' @ pad_left 8 (fmt_fixed False 1 (per_second (cs_inputBytes c) (cs_decompressTime c))) @
         '' MB/s'' @ newline)"

definition printSummary :: "string \<Rightarrow> string list \<Rightarrow> groups \<Rightarrow> (string \<times> cpuStats) list \<Rightarrow> string" where
  "printSummary target names groups cpu =
     newline @ target @ '': wire bytes, and size after compression as a percentage of raw'' @ newline @
     pad_to 32 ''workload direction'' @ '' '' @ pad_left 12 ''raw'' @
     concat (map (\<lambda>n. '' '' @ pad_left 8 n) [''snappy'', ''zlib'', ''zstd'']) @ newline @
     concat (map summary_line (summary_totals groups)) @
     newline @ target @ '': codec throughput over the compressible corpus'' @ newline @
     concat (map (throughput_line cpu) names)"

text \<open>\<open>writeCSV\<close>: the file is created and the rows handed to the writer, whose error it returns.\<close>

definition writeCSV :: "goerror option \<Rightarrow> goerror option \<Rightarrow> string \<Rightarrow> string list \<Rightarrow> groups \<Rightarrow>
    (string \<times> cpuStats) list \<Rightarrow> string list list option \<times> goerror option" where
  "writeCSV created written target names groups cpu =
     (case created of Some e \<Rightarrow> (None, Some e)
      | None \<Rightarrow> (Some (csv_rows target names groups cpu), written))"

section \<open>wirecompress\<close>

record wire_flags =
  wf_name :: string
  wf_gendata :: string
  wf_orders :: int
  wf_dolt :: bool
  wf_csv :: string

text \<open>What the parts of the run that are not code of the program give: listening, the seeding program,
  connecting through the proxy, the messages the proxy recorded, and the output file.\<close>

record wire_run =
  wr_listen :: "goerror option"
  wr_seed :: "goerror option"
  wr_connect :: "goerror option"
  wr_messages :: "captured list"
  wr_created :: "goerror option"
  wr_written :: "goerror option"

definition fatal_on_error :: "goerror option \<Rightarrow> ('m, unit) act" where
  "fatal_on_error e = (case e of None \<Rightarrow> ok () | Some err \<Rightarrow> fail err)"

text \<open>The printed summary, the rows of the file if one was made, and the error that ends the program
  after the summary.\<close>

definition wirecompress_main where
  "wirecompress_main all timings intn answer run fl =
     (if wf_gendata fl = [] then fail (ErrText ''-gendata is required'')
      else
        and_then (fatal_on_error (wr_listen run)) (\<lambda>_.
        and_then (setWorkload ''seed_gendata'') (\<lambda>_.
        and_then (wrapping ''gendata: '' (fatal_on_error (wr_seed run))) (\<lambda>_.
        and_then (setWorkload ''setup'') (\<lambda>_.
        and_then (fatal_on_error (wr_connect run)) (\<lambda>_.
        and_then (runWorkloads intn answer (wf_orders fl) (wf_dolt fl)) (\<lambda>_.
        case analyze all timings (wr_messages run) of
          Inl e \<Rightarrow> fail e
        | Inr (groups, cpu) \<Rightarrow>
            let summary = printSummary (wf_name fl) (codecNames all) groups cpu;
                (rows, e) = (if wf_csv fl = [] then (None, None)
                  else writeCSV (wr_created run) (wr_written run) (wf_name fl) (codecNames all) groups cpu)
            in ok (summary, rows, e))))))))"

end
