(* ===== verification/LoaderFacts.thy ===== *)
theory LoaderFacts
  imports Loader "HOL-Library.Sublist"
begin

text \<open>
  What the loader guarantees: it always ends; the calls it makes are a beginning of one plan, all of it
  when it ends normally; and the plan inserts the documents of the data set, each once and in order,
  before the indexes are built.
\<close>

text \<open>An action that returns and makes the planned calls up to its first failure.\<close>

definition makes :: "loader_call list \<Rightarrow> ('w loading, unit) act \<Rightarrow> bool" where
  "makes cs c \<longleftrightarrow> (\<forall>m. \<exists>r m' k. c m = Some (r, m') \<and> lo_calls m' = lo_calls m @ take k cs \<and>
     (\<not> isl r \<longrightarrow> take k cs = cs))"

lemma makesI:
  "(\<And>m. \<exists>r m' k. c m = Some (r, m') \<and> lo_calls m' = lo_calls m @ take k cs \<and> (\<not> isl r \<longrightarrow> take k cs = cs)) \<Longrightarrow>
     makes cs c"
  unfolding makes_def by blast

lemma makes_ok: "makes [] (ok ())"
  by (simp add: makes_def ok_def)

lemma makes_and_then:
  assumes "makes cs a" "makes ds b"
  shows "makes (cs @ ds) (and_then a (\<lambda>_. b))"
proof (rule makesI)
  fix m
  obtain r m1 k where a: "a m = Some (r, m1)" "lo_calls m1 = lo_calls m @ take k cs" "\<not> isl r \<longrightarrow> take k cs = cs"
    using assms(1) unfolding makes_def by blast
  show "\<exists>r m' k. and_then a (\<lambda>_. b) m = Some (r, m') \<and> lo_calls m' = lo_calls m @ take k (cs @ ds) \<and>
      (\<not> isl r \<longrightarrow> take k (cs @ ds) = cs @ ds)"
  proof (cases r)
    case (Inl e)
    have "take (min k (length cs)) (cs @ ds) = take k cs" by (simp add: take_append min_def)
    with a Inl show ?thesis by (intro exI[of _ "Inl e"] exI[of _ m1] exI[of _ "min k (length cs)"]) (simp add: and_then_def)
  next
    case (Inr x)
    obtain r' m2 k' where b: "b m1 = Some (r', m2)" "lo_calls m2 = lo_calls m1 @ take k' ds" "\<not> isl r' \<longrightarrow> take k' ds = ds"
      using assms(2) unfolding makes_def by blast
    with a Inr show ?thesis
      by (intro exI[of _ r'] exI[of _ m2] exI[of _ "length cs + k'"]) (simp add: and_then_def)
  qed
qed

lemma makes_asking: "makes [c] (and_then (asking answer c) (\<lambda>r. change (f r)))"
  if "\<And>r m. lo_calls (f r m) = lo_calls m"
  using that by (intro makesI) (auto simp: and_then_def asking_def change_def split: prod.split intro!: exI[of _ 1])

lemma makes_must: "makes [c] (must answer what c)"
  by (intro makesI) (auto simp: must_def and_then_def asking_def fail_def ok_def split: prod.split sum.split
    intro!: exI[of _ 1])

lemma makes_in_turn:
  "(\<And>x. x \<in> set xs \<Longrightarrow> makes (f x) (c x)) \<Longrightarrow> makes (concat (map f xs)) (in_turn c xs)"
  by (induction xs) (auto intro: makes_ok makes_and_then)

lemma makes_each:
  "(\<And>x. makes [f x] (c x)) \<Longrightarrow> makes (map f xs) (in_turn c xs)"
  using makes_in_turn[of xs "\<lambda>x. [f x]" c] by simp

lemma makes_collection:
  "makes (map (InsertMany coll) (insert_all batch docs)) (load_collection answer batch coll (map Some docs))"
proof -
  have "takeWhile (\<lambda>d. d \<noteq> None) (map Some docs) = map Some docs" by (simp add: takeWhile_eq_all_conv)
  then have "load_collection answer batch coll (map Some docs) = send_batches answer coll (insert_all batch docs)"
    unfolding load_collection_def Let_def by (simp only:) (auto simp: comp_def)
  then show ?thesis unfolding send_batches_def by (simp add: makes_each makes_must)
qed

definition load_plan :: "load_flags \<Rightarrow> shop_doc list \<Rightarrow> shop_doc list \<Rightarrow> shop_doc list \<Rightarrow> loader_call list" where
  "load_plan fl cs ps ds =
     [Dial (lf_uri fl)] @ [PingServer] @ map DropCollection (if lf_drop fl then shop_collections else []) @
     map (InsertMany ''customers'') (insert_all (lf_batch fl) cs) @
     map (InsertMany ''products'') (insert_all (lf_batch fl) ps) @
     map (InsertMany ''orders'') (insert_all (lf_batch fl) ds) @
     map (\<lambda>(c, ix). CreateIndexes c ix) shop_indexes @ map CollStats shop_collections @ [Disconnected]"

text \<open>What a call inserts into a collection.\<close>

fun inserts :: "string \<Rightarrow> loader_call \<Rightarrow> shop_doc list" where
  "inserts coll (InsertMany c docs) = (if c = coll then docs else [])"
| "inserts coll _ = []"

lemma inserts_batches:
  "concat (map (inserts coll) (map (InsertMany c) bs)) = (if c = coll then concat bs else [])"
  by (induction bs) auto

lemma plan_inserts:
  assumes "0 < lf_batch fl"
  shows "concat (map (inserts ''customers'') (load_plan fl cs ps ds)) = cs"
    "concat (map (inserts ''products'') (load_plan fl cs ps ds)) = ps"
    "concat (map (inserts ''orders'') (load_plan fl cs ps ds)) = ds"
  using insert_all_batches[OF assms, THEN conjunct1]
  by (simp_all add: load_plan_def inserts_batches shop_collections_def shop_indexes_def del: map_map)

lemma makes_report: "makes [CollStats c] (report_collection answer wild c)"
  unfolding report_collection_def by (rule makes_asking) simp

lemma makes_end: "makes [Disconnected] (and_then (asking answer Disconnected) (\<lambda>_. ok ()))"
  using makes_asking[of "\<lambda>_ m. m" Disconnected answer] by (simp add: change_def ok_def)

lemma gendata_makes:
  assumes "in_range (sh_Intn src)" "0 \<le> lf_batch fl" "0 < lf_customers fl" "0 < lf_products fl"
    and "run_state (dataset src (nat (lf_customers fl)) (nat (lf_products fl)) (nat (lf_orders fl))) g = ((cs, ps, os), g')"
  shows "\<exists>ds. os = map Some ds \<and> makes (load_plan fl cs ps ds) (gendata_main answer wild src g fl)"
proof -
  have pos: "0 < nat (lf_customers fl)" "0 < nat (lf_products fl)" using assms(3,4) by simp_all
  obtain ds where ds: "os = map Some ds" using dataset_facts[OF assms(1) pos assms(5)] by blast
  have flags: "\<not> (lf_batch fl < 0 \<or> lf_customers fl < 0)" "\<not> lf_products fl < 0" using assms(2-4) by simp_all
  have "makes (load_plan fl cs ps ds) (gendata_main answer wild src g fl)"
    unfolding gendata_main_def load_plan_def assms(5) fst_conv prod.case if_not_P[OF flags(1)] if_not_P[OF flags(2)] ds
    by (intro makes_and_then makes_must makes_collection makes_end makes_each) (auto intro: makes_must makes_report)
  with ds show ?thesis by blast
qed


definition demo_load :: load_flags where
  "demo_load = \<lparr>lf_uri = ''mongodb://a'', lf_customers = 2, lf_products = 1, lf_orders = 3, lf_batch = 2, lf_drop = True\<rparr>"


end
