(* ===== verification/PairEntry.thy ===== *)
theory PairEntry
  imports Converge ConnectionsFacts DumboMember ReplicaCase
begin

text \<open>
  How a test gets at its servers: the beginnings of PairTest and AuthPairTest (src/harness/pair.go,
  auth_pair.go), which obtain the clients and the database before the case is graded; adopting a
  replica set from the environment, dialling its members and asking them (replicaset.go,
  dumbomember.go, converge.go); and the settings of a replication case (replicacase.go).
\<close>

section \<open>PairTest\<close>

text \<open>The URI the context of a Run carries, and \<open>ServerURI\<close>, which reads it.\<close>

definition ServerURI :: "string option \<Rightarrow> string" where
  "ServerURI ctx = (case ctx of Some uri \<Rightarrow> uri | None \<Rightarrow> [])"

definition withServerURI :: "string option \<Rightarrow> string \<Rightarrow> string option" where
  "withServerURI ctx uri = Some uri"

text \<open>The contexts of the two Runs: a case for MongoDB only runs with the context as it is.\<close>

definition run_contexts :: "serverSet \<Rightarrow> DumboDBSupport \<Rightarrow> Topology \<Rightarrow> string option \<times> string option" where
  "run_contexts servers support topo =
     (if support = DumboDBMongoOnly then (None, None)
      else (withServerURI None (mongoURIForTopology servers topo), withServerURI None (ss_dumboURI servers)))"

text \<open>A case with its servers still to be filled in: what it is called with is its database and the
  URIs its Runs see. The outcome is the graded result, the clients of the process, and what the
  deferred cleanup drops.\<close>

record open_case =
  oc_name :: string
  oc_support :: DumboDBSupport
  oc_topology :: Topology
  oc_on :: "test_db \<Rightarrow> string \<times> string \<Rightarrow> TestCase"

definition PairTest_on :: "printers \<Rightarrow> serverSet \<Rightarrow> open_case \<Rightarrow> test_db \<Rightarrow> TestResult tst" where
  "PairTest_on pr servers c db =
     PairTest pr (oc_on c db (map_prod ServerURI ServerURI (run_contexts servers (oc_support c) (oc_topology c))))"

definition PairTest_entry where
  "PairTest_entry pr d servers before nano c st m =
     (case GetClients d servers before m of None \<Rightarrow> None
      | Some (after, m1) \<Rightarrow> (case the after of
          Inl err \<Rightarrow> Some (t_Fatalf (''PairTest '' @ oc_name c @ '': could not get clients: '' @ error_text err) st, after, [], m1)
        | Inr clients \<Rightarrow> (case TestDBForTopology d clients (oc_name c) (oc_topology c) nano m1 of None \<Rightarrow> None
            | Some (Inl err, m2) \<Rightarrow>
                Some (t_Fatalf (''PairTest '' @ oc_name c @ '': could not allocate test DB: '' @ error_text err) st, after, [], m2)
            | Some (Inr db, m2) \<Rightarrow> Some (PairTest_on pr servers c db st, after, test_db_cleanup db, m2))))"

section \<open>AuthPairTest\<close>

record AuthTarget =
  at_Admin :: int
  at_BaseURI :: string
  at_NS :: string

text \<open>Steps a Run must not fail in: a failure ends the test.\<close>

definition AuthTarget_Setup :: "AuthTarget \<Rightarrow> goerror option \<Rightarrow> unit tst" where
  "AuthTarget_Setup tgt err =
     (case err of None \<Rightarrow> t_return ()
      | Some e \<Rightarrow> t_Fatalf (''setup failed on '' @ at_BaseURI tgt @ '': '' @ error_text e))"

definition AuthTarget_Setup1 :: "AuthTarget \<Rightarrow> 'a \<Rightarrow> goerror option \<Rightarrow> 'a tst" where
  "AuthTarget_Setup1 tgt v err =
     (case err of None \<Rightarrow> t_return v
      | Some e \<Rightarrow> t_Fatalf (''setup failed on '' @ at_BaseURI tgt @ '': '' @ error_text e))"

definition AuthPairTest_entry where
  "AuthPairTest_entry pr os d servers before tc runOn st m =
     (case GetAuthClients os d servers before m of None \<Rightarrow> None
      | Some (after, m1) \<Rightarrow> Some (case the after of
          Inl err \<Rightarrow> t_Fatalf (''AuthPairTest '' @ tc_Name tc @ '': get auth clients: '' @ error_text err) st
        | Inr ac \<Rightarrow>
            let ns = authNS (tc_Name tc);
                mongo = \<lparr>at_Admin = ac_MongoAdmin ac, at_BaseURI = ss_authMongoURI servers, at_NS = ns\<rparr>;
                dumbo = \<lparr>at_Admin = ac_DumboDBAdmin ac, at_BaseURI = ss_authDumboURI servers, at_NS = ns\<rparr>
            in AuthPairTest pr tc (runOn mongo) (runOn dumbo) st, after, m1))"

section \<open>Adopting a replica set\<close>

text \<open>What is asked of the server behind the URI: to dial it directly, and its status.\<close>

definition replSetURIEnv :: string where "replSetURIEnv = ''MONGO_REPL_SET_URI''"

definition direct_client :: "(string \<Rightarrow> goerror option) \<Rightarrow> string \<Rightarrow> goerror option" where
  "direct_client reach addr =
     map_option (ErrWrap (''connect '' @ addr @ '': '')) (reach (''mongodb://'' @ addr @ ''/?directConnection=true''))"

definition replSetGetStatus :: "goerror + (string \<times> goval) list \<Rightarrow> goerror + (string \<times> goval) list" where
  "replSetGetStatus reply = map_sum (ErrWrap ''replSetGetStatus: '') id reply"

definition adopt_external :: "(float64 \<Rightarrow> int) \<Rightarrow> 'w os \<Rightarrow> (string \<Rightarrow> goerror option) \<Rightarrow>
    goerror + (string \<times> goval) list \<Rightarrow> string \<Rightarrow> ('w machine, ReplicaSet) act" where
  "adopt_external wild os reach reply uri =
     and_then (listening os (hostPort uri) 15000000000) (\<lambda>up.
     and_then (require up (ErrText (replSetURIEnv @ ''='' @ uri @ '' is not reachable''))) (\<lambda>_.
       case direct_client reach (hostPort uri) of
         Some e \<Rightarrow> fail (ErrText (''adopt '' @ uri @ '': '' @ error_text e))
       | None \<Rightarrow> (case replSetGetStatus reply of
           Inl e \<Rightarrow> fail (ErrText (''adopt '' @ uri @ '': '' @ error_text e))
         | Inr st \<Rightarrow> (case adoptReplicaSet wild uri st of Inl e \<Rightarrow> fail e | Inr rs \<Rightarrow> ok rs))))"

text \<open>\<open>StartReplicaSet\<close>: a set named by the environment is adopted, and never stopped; its cleanup
  releases the lock that keeps other tests off it.\<close>

definition StartReplicaSet_any where
  "StartReplicaSet_any wild os reach status pings q nano n m =
     (if n < 1 then Some (Inl (ErrText (''StartReplicaSet: need at least 1 member, got '' @ itoa n)), m)
      else if os_Getenv os replSetURIEnv \<noteq> []
      then map_option (\<lambda>(r, mm). (map_sum id (\<lambda>rs. ()) r,
             case r of Inl e \<Rightarrow> m\<lparr>rl_machine := mm\<rparr>
             | Inr rs \<Rightarrow> m\<lparr>rl_machine := mm, rl_set := rs, rl_procs := (\<lambda>addr. None), rl_external := True,
                 rl_opts := \<lparr>ro_TLS = None, ro_KeyFile = []\<rparr>, rl_cred := None, rl_dumbo := None\<rparr>))
             (adopt_external wild os reach status (os_Getenv os replSetURIEnv) (rl_machine m))
      else StartReplicaSet os pings q nano n m)"

text \<open>A replication case that asks for TLS or a key file starts its set with them.\<close>

definition startReplicaSetFor where
  "startReplicaSetFor plain withOptions tls keyFile n =
     (if tls = None \<and> keyFile = ([] :: string) then plain n
      else withOptions n \<lparr>ro_TLS = tls, ro_KeyFile = keyFile\<rparr>)"

section \<open>Dialling members\<close>

text \<open>A DumboDB member is dialled with its own TLS material and the credentials it is given: the set's,
  or none to ask whether it is ready.\<close>

definition dumbo_dialWith :: "pki \<Rightarrow> (conn_request \<Rightarrow> goerror option) \<Rightarrow> DumboMember \<Rightarrow> Credential option \<Rightarrow>
    goerror + conn_request" where
  "dumbo_dialWith pk reach d cred =
     (let addr = mb_Addr (dm_Member d);
          q = \<lparr>cn_URI = ''mongodb://'' @ addr @ ''/?directConnection=true'', cn_TLS = None, cn_Auth = None\<rparr>;
          secured = (case do_TLS (dm_opts d) of None \<Rightarrow> Inr q
             | Some f \<Rightarrow> map_sum id (\<lambda>pair. q\<lparr>cn_TLS := Some (Some pair)\<rparr>) (clientTLSConfig pk f))
      in case secured of Inl e \<Rightarrow> Inl e
         | Inr q \<Rightarrow>
             let q = (case cred of None \<Rightarrow> q | Some c \<Rightarrow> q\<lparr>cn_Auth := Some c\<rparr>)
             in case reach q of Some e \<Rightarrow> Inl (ErrWrap (''connect '' @ addr @ '': '') e) | None \<Rightarrow> Inr q)"

definition dumbo_dial :: "pki \<Rightarrow> (conn_request \<Rightarrow> goerror option) \<Rightarrow> 'w replica_lab \<Rightarrow> DumboMember \<Rightarrow> goerror + conn_request" where
  "dumbo_dial pk reach m d = dumbo_dialWith pk reach d (rl_cred m)"

text \<open>\<open>Client\<close> of the whole set.\<close>

definition set_Client :: "pki \<Rightarrow> (conn_request \<Rightarrow> goerror option) \<Rightarrow> 'w replica_lab \<Rightarrow> string \<Rightarrow> goerror + conn_request" where
  "set_Client pk reach m uri =
     (case clientOptions pk (ro_TLS (rl_opts m)) (rl_cred m) uri of Inl e \<Rightarrow> Inl e
      | Inr q \<Rightarrow> (case reach q of Some e \<Rightarrow> Inl e | None \<Rightarrow> Inr q))"

definition DirectClient :: "pki \<Rightarrow> (conn_request \<Rightarrow> goerror option) \<Rightarrow> 'w replica_lab \<Rightarrow> Member \<Rightarrow> goerror + conn_request" where
  "DirectClient pk reach m member = member_dial pk reach (ro_TLS (rl_opts m)) (rl_cred m) (mb_Addr member)"

definition ClientFor :: "pki \<Rightarrow> (conn_request \<Rightarrow> goerror option) \<Rightarrow> 'w replica_lab \<Rightarrow> string \<Rightarrow> goerror + conn_request" where
  "ClientFor pk reach m addr = member_dial pk reach (ro_TLS (rl_opts m)) (rl_cred m) addr"

text \<open>One round of the member's readiness poll: dial without credentials, then ping.\<close>

definition dumbo_ping :: "pki \<Rightarrow> (conn_request \<Rightarrow> goerror option) \<Rightarrow> (conn_request \<Rightarrow> goerror option) \<Rightarrow> DumboMember \<Rightarrow>
    goerror option" where
  "dumbo_ping pk reach ask d =
     (case dumbo_dialWith pk reach d None of Inl e \<Rightarrow> Some e | Inr q \<Rightarrow> ask q)"

text \<open>The poll itself, at the times and with the connections and answers of a script of rounds.\<close>

definition dumbo_waitReady :: "pki \<Rightarrow> (nat \<Rightarrow> conn_request \<Rightarrow> goerror option) \<Rightarrow> (nat \<Rightarrow> conn_request \<Rightarrow> goerror option) \<Rightarrow>
    int \<Rightarrow> (nat \<Rightarrow> int) \<Rightarrow> DumboMember \<Rightarrow> duration \<Rightarrow> goerror option option" where
  "dumbo_waitReady pk reach ask start clock d timeout =
     waitReady \<lparr>wt_start = start, wt_clock = clock, wt_answer = (\<lambda>i. dumbo_ping pk (reach i) (ask i) d)\<rparr>
       (mb_Addr (dm_Member d)) timeout"

section \<open>Asking a member\<close>

text \<open>Both ask over the pooled connection of the member.\<close>

definition Status :: "(string \<Rightarrow> goerror option) \<Rightarrow> (string \<Rightarrow> goerror + (string \<times> goval) list) \<Rightarrow> string \<Rightarrow> ReplicaSet \<Rightarrow>
    (goerror + (string \<times> goval) list) \<times> ReplicaSet" where
  "Status dial reply addr rs =
     (case rs_client dial addr rs of (Some e, rs) \<Rightarrow> (Inl e, rs)
      | (None, rs) \<Rightarrow> (replSetGetStatus (reply addr), rs))"

definition Hello :: "(string \<Rightarrow> goerror option) \<Rightarrow> (string \<Rightarrow> goerror + (string \<times> goval) list) \<Rightarrow> string \<Rightarrow> ReplicaSet \<Rightarrow>
    (goerror + (string \<times> goval) list) \<times> ReplicaSet" where
  "Hello dial reply addr rs =
     (case rs_client dial addr rs of (Some e, rs) \<Rightarrow> (Inl e, rs)
      | (None, rs) \<Rightarrow> (map_sum (ErrWrap (''hello '' @ addr @ '': '')) id (reply addr), rs))"

text \<open>\<open>MustConverge\<close> ends the test where \<open>WaitConverged\<close> reports an error.\<close>

definition MustConverge where
  "MustConverge wild dtoa rs w w' ask clock start timeout addrs =
     map_option (\<lambda>(watermark, err). case err of Some e \<Rightarrow> t_Fatalf (error_text e) | None \<Rightarrow> t_return watermark)
       (WaitConverged wild dtoa rs w w' ask clock start timeout addrs)"

section \<open>The settings of a replication case\<close>

definition case_timeout :: "duration \<Rightarrow> duration" where
  "case_timeout given = (if given = 0 then 240000000000 else given)"

definition case_members :: "string \<Rightarrow> int \<Rightarrow> int tst" where
  "case_members name given =
     (let members = (if given = 0 then 2 else given) in
      if members < 2
      then t_Fatalf (name @ '': need at least 2 mongod members for a primary and a reference secondary, got '' @ itoa members)
      else t_return members)"

definition subjectWait :: "duration \<Rightarrow> duration" where
  "subjectWait given = (if given = 0 then 180000000000 else given)"

section \<open>What the entries guarantee\<close>

text \<open>A case for MongoDB only is run without the URI that \<open>ServerURI\<close> is documented to give it.\<close>

lemma mongo_only_has_no_URI:
  "ServerURI (fst (run_contexts servers DumboDBMongoOnly topo)) = []"
  by (simp add: run_contexts_def ServerURI_def)

lemma other_cases_have_URI:
  "support \<noteq> DumboDBMongoOnly \<Longrightarrow>
     map_prod ServerURI ServerURI (run_contexts servers support topo) = (mongoURIForTopology servers topo, ss_dumboURI servers)"
  by (simp add: run_contexts_def ServerURI_def withServerURI_def)

lemma adopted_members:
  assumes "adopt_external wild os reach (Inr st) uri m = Some (Inr rs, m')"
  shows "rset_Members rs \<noteq> [] \<and> m'\<lparr>world := world m\<rparr> = m \<and>
    map mb_Addr (rset_Members rs) =
      map (\<lambda>x. asString (key x ''name'')) (List.map_filter as_document (asArray (key st ''members'')))"
  using assms
  by (auto simp: adopt_external_def replSetGetStatus_def adoptReplicaSet_def and_then_def listening_def require_def ok_def fail_def
      Let_def comp_def split: option.splits sum.splits prod.splits if_splits)

text \<open>The DumboDB member's own dialling differs from the set's only in whose TLS material it takes.\<close>

lemma dumbo_dialWith_member_dial:
  "dumbo_dialWith pk reach d cred = member_dial pk reach (do_TLS (dm_opts d)) cred (mb_Addr (dm_Member d))"
  by (cases "do_TLS (dm_opts d)"; cases cred; cases "clientTLSConfig pk (the (do_TLS (dm_opts d)))")
    (simp_all add: dumbo_dialWith_def member_dial_def clientOptions_def Let_def split: option.split)

text \<open>A DumboDB member that keeps answering is found ready as soon as its poll asks, whatever else the
  connection needs; one that cannot be dialled is not, and the error says why.\<close>

lemma dumbo_waitReady_first:
  assumes "clock 0 < start + timeout" and "dumbo_ping pk (reach 0) (ask 0) d = None"
  shows "dumbo_waitReady pk reach ask start clock d timeout = Some None"
  using assms by (simp add: dumbo_waitReady_def waitReady_def ping_pass_def poll.simps[of _ _ _ 0])

lemma dumbo_ping_dial:
  "dumbo_dialWith pk reach d None = Inl e \<Longrightarrow> dumbo_ping pk reach ask d = Some e"
  by (simp add: dumbo_ping_def)

text \<open>Asking twice dials once: the second question finds the connection of the first.\<close>

lemma Status_then_Hello:
  assumes "Status dial reply addr rs = (r, rs1)" and "dial addr = None"
  shows "Hello dial' reply' addr rs1 = (map_sum (ErrWrap (''hello '' @ addr @ '': '')) id (reply' addr), rs1)"
  using assms by (auto simp: Status_def Hello_def rs_client_def split: if_splits)

text \<open>A parity test that cannot get its clients or its database fails without running anything; any
  other is graded on a database of its own name, dropped on both servers however the test ends.\<close>

lemma PairTest_entry_cleans:
  assumes "PairTest_entry pr d servers before nano c st m = Some ((res, st'), after, drops, m')"
  shows "(drops = [] \<and> res = None \<and> ts_failed st') \<or>
    (\<exists>db. drops = [(td_mongo db, td_name db), (td_dumbo db, td_name db)] \<and>
       td_name db = test_database (oc_name c) nano \<and> (res, st') = PairTest_on pr servers c db st)"
  using assms
  by (auto simp: PairTest_entry_def t_Fatalf_def TestDBForTopology_def test_db_cleanup_def and_then_def
      calling_def fail_def ok_def split: option.splits sum.splits prod.splits)

end
