(* ===== verification/Corpora.thy ===== *)
theory Corpora
  imports Workload
begin

text \<open>
  The fixed documents of the replication tests (src/harness/workload.go): one per BSON type, the large
  ones, and those of the deprecated types. Strings are their UTF-8 bytes, except that a non-ASCII one
  is given by its bytes; a Decimal128 is the text it is parsed from. The encoded size and the type
  byte of a value are those of the BSON specification.
\<close>

section \<open>Values\<close>

datatype corpus_value =
    CDouble float64
  | CString string
  | CUtf8 "nat list"
  | CDoc "(string \<times> corpus_value) list"
  | CArr "corpus_value list"
  | CBinary nat "nat list"
  | CObjectID "nat list"
  | CBool bool
  | CDateTime int
  | CNull
  | CRegex string string
  | CInt32 int
  | CTimestamp int int
  | CInt64 int
  | CDecimal128 string
  | CMinKey
  | CMaxKey
  | CJavaScript string
  | CSymbol string
  | CUndefined

type_synonym corpus_doc = "(string \<times> corpus_value) list"

definition typed :: "string \<Rightarrow> corpus_value \<Rightarrow> corpus_doc" where
  "typed i v = [(''_id'', CString i), (''v'', v)]"

section \<open>The corpora\<close>

text \<open>\<open>oid\<close> is the ObjectID drawn when the corpus is made. The unicode string is an e with acute
  accent, two Chinese characters and an emoji.\<close>

definition BSONTypeCorpus :: "nat list \<Rightarrow> corpus_doc list" where
  "BSONTypeCorpus oid =
     [typed ''t-double'' (CDouble (round64 (314159 / 100000))),
      typed ''t-double-neg-zero'' (CDouble (FZero True)),
      typed ''t-double-inf'' (CDouble (FInf False)),
      typed ''t-string'' (CString ''hello''),
      typed ''t-string-unicode'' (CUtf8 [0xC3, 0xA9, 0xE4, 0xB8, 0xAD, 0xE6, 0x96, 0x87, 0xF0, 0x9F, 0x98, 0x80]),
      typed ''t-string-empty'' (CString []),
      typed ''t-object'' (CDoc [(''a'', CInt32 1), (''b'', CDoc [(''c'', CString ''deep'')])]),
      typed ''t-object-empty'' (CDoc []),
      typed ''t-array'' (CArr [CInt32 1, CString ''two'', CDouble (FFin 3), CNull, CDoc [(''k'', CString ''v'')]]),
      typed ''t-array-empty'' (CArr []),
      typed ''t-array-nested'' (CArr [CArr [CArr [CInt32 1]]]),
      typed ''t-binary-generic'' (CBinary 0 [0, 1, 2, 255]),
      typed ''t-binary-uuid'' (CBinary 4 (replicate 16 0)),
      typed ''t-binary-md5'' (CBinary 5 (replicate 16 0)),
      typed ''t-objectid'' (CObjectID oid),
      typed ''t-bool-true'' (CBool True),
      typed ''t-bool-false'' (CBool False),
      typed ''t-date'' (CDateTime 1700000000000),
      typed ''t-date-epoch'' (CDateTime 0),
      typed ''t-null'' CNull,
      typed ''t-regex'' (CRegex ''^a.*z$'' ''im''),
      typed ''t-int32'' (CInt32 2147483647),
      typed ''t-int32-min'' (CInt32 (- 2147483648)),
      typed ''t-timestamp'' (CTimestamp 1700000000 7),
      typed ''t-int64'' (CInt64 9223372036854775807),
      typed ''t-int64-min'' (CInt64 (- 9223372036854775808)),
      typed ''t-decimal128'' (CDecimal128 ''1234.5678901234567890123456789''),
      typed ''t-minkey'' CMinKey,
      typed ''t-maxkey'' CMaxKey,
      typed ''t-num-int32'' (CInt32 42),
      typed ''t-num-int64'' (CInt64 42),
      typed ''t-num-double'' (CDouble (FFin 42)),
      [(''_id'', CDoc [(''a'', CInt32 1), (''b'', CInt32 2)]), (''v'', CString ''ab'')],
      [(''_id'', CDoc [(''b'', CInt32 2), (''a'', CInt32 1)]), (''v'', CString ''ba'')]]"

fun deep :: "nat \<Rightarrow> corpus_doc" where
  "deep 0 = [(''leaf'', CInt32 1)]"
| "deep (Suc n) = [(''n'', CDoc (deep n))]"

definition manyFields :: "nat \<Rightarrow> corpus_doc" where
  "manyFields n = map (\<lambda>i. (''f'' @ itoa_pad 4 (int i), CInt32 (int i))) [0..<n]"

definition LargeDocumentCorpus :: "corpus_doc list" where
  "LargeDocumentCorpus =
     [typed ''big-payload-4mb'' (CString (replicate (4 * 1024 * 1024) CHR ''x'')),
      typed ''big-payload-12mb'' (CString (replicate (12 * 1024 * 1024) CHR ''y'')),
      typed ''deep-nesting'' (CDoc (deep 40)),
      typed ''large-array'' (CArr (map (\<lambda>i. CInt32 (int i)) [0..<5000])),
      typed ''many-fields'' (CDoc (manyFields 1000))]"

definition UndecodableTypeCorpus :: "corpus_doc list" where
  "UndecodableTypeCorpus =
     [typed ''u-javascript'' (CJavaScript ''function () { return 1; }''),
      typed ''u-symbol'' (CSymbol ''sym''),
      typed ''u-undefined'' CUndefined]"

section \<open>Type bytes, sizes and depths\<close>

fun type_byte :: "corpus_value \<Rightarrow> nat" where
  "type_byte (CDouble x) = 1" | "type_byte (CString x) = 2" | "type_byte (CUtf8 x) = 2"
| "type_byte (CDoc x) = 3" | "type_byte (CArr x) = 4" | "type_byte (CBinary t x) = 5"
| "type_byte CUndefined = 6" | "type_byte (CObjectID x) = 7" | "type_byte (CBool x) = 8"
| "type_byte (CDateTime x) = 9" | "type_byte CNull = 10" | "type_byte (CRegex x y) = 11"
| "type_byte (CJavaScript x) = 13" | "type_byte (CSymbol x) = 14" | "type_byte (CInt32 x) = 16"
| "type_byte (CTimestamp x y) = 17" | "type_byte (CInt64 x) = 18" | "type_byte (CDecimal128 x) = 19"
| "type_byte CMinKey = 255" | "type_byte CMaxKey = 127"

text \<open>A document is its length, an element per field (type, name, value) and a final zero; an array is
  the document whose names are its indices.\<close>

function (sequential) value_size :: "corpus_value \<Rightarrow> nat" and fields_size :: "corpus_doc \<Rightarrow> nat"
  and items_size :: "nat \<Rightarrow> corpus_value list \<Rightarrow> nat" where
  "value_size (CDouble x) = 8"
| "value_size (CString s) = 5 + length s"
| "value_size (CUtf8 s) = 5 + length s"
| "value_size (CDoc d) = 5 + fields_size d"
| "value_size (CArr xs) = 5 + items_size 0 xs"
| "value_size (CBinary t b) = 5 + length b"
| "value_size (CObjectID x) = 12"
| "value_size (CBool b) = 1"
| "value_size (CDateTime x) = 8"
| "value_size (CRegex p q) = 2 + length p + length q"
| "value_size (CInt32 x) = 4"
| "value_size (CTimestamp t i) = 8"
| "value_size (CInt64 x) = 8"
| "value_size (CDecimal128 s) = 16"
| "value_size (CJavaScript s) = 5 + length s"
| "value_size (CSymbol s) = 5 + length s"
| "value_size v = 0"
| "fields_size [] = 0"
| "fields_size ((n, v) # d) = 2 + length n + value_size v + fields_size d"
| "items_size i [] = 0"
| "items_size i (v # vs) = 2 + length (itoa (int i)) + value_size v + items_size (Suc i) vs"
  by pat_completeness auto
termination
  by (relation "measure (\<lambda>x. case x of Inl v \<Rightarrow> size v | Inr (Inl d) \<Rightarrow> size_list (size_prod (\<lambda>_. 0) size) d
      | Inr (Inr (i, vs)) \<Rightarrow> size_list size vs)") auto

function (sequential) value_depth :: "corpus_value \<Rightarrow> nat" and fields_depth :: "corpus_doc \<Rightarrow> nat"
  and items_depth :: "corpus_value list \<Rightarrow> nat" where
  "value_depth (CDoc d) = Suc (fields_depth d)"
| "value_depth (CArr xs) = Suc (items_depth xs)"
| "value_depth v = 0"
| "fields_depth [] = 0"
| "fields_depth ((n, v) # d) = max (value_depth v) (fields_depth d)"
| "items_depth [] = 0"
| "items_depth (v # vs) = max (value_depth v) (items_depth vs)"
  by pat_completeness auto
termination
  by (relation "measure (\<lambda>x. case x of Inl v \<Rightarrow> size v | Inr (Inl d) \<Rightarrow> size_list (size_prod (\<lambda>_. 0) size) d
      | Inr (Inr vs) \<Rightarrow> size_list size vs)") auto

text \<open>The limits of the server: 16 MiB and a hundred levels, counting the document itself.\<close>

definition storable :: "corpus_doc \<Rightarrow> bool" where
  "storable d \<longleftrightarrow> 5 + fields_size d \<le> 16 * 1024 * 1024 \<and> Suc (fields_depth d) \<le> 100"

section \<open>What the corpora are good for\<close>

lemma deep_bounds: "fields_size (deep n) = 10 + 8 * n" "fields_depth (deep n) = n"
  by (induction n) simp_all

lemma length_itoa_le: "i < 10000 \<Longrightarrow> length (itoa (int i)) \<le> 4"
  using length_ntoa[of i 4] by (simp add: itoa_def)

lemma int32_items_size:
  "i + length ns \<le> 10000 \<Longrightarrow> items_size i (map CInt32 ns) \<le> 10 * length ns"
proof (induction ns arbitrary: i)
  case (Cons n ns)
  show ?case using length_itoa_le[of i] Cons.IH[of "Suc i"] Cons.prems by simp
qed simp

lemma int32_items_depth: "items_depth (map CInt32 ns) = 0"
  by (induction ns) simp_all

lemma many_fields_size:
  "\<forall>i \<in> set is. i < 10000 \<Longrightarrow>
     fields_size (map (\<lambda>i. (''f'' @ itoa_pad 4 (int i), CInt32 (int i))) is) \<le> 11 * length is \<and>
     fields_depth (map (\<lambda>i. (''f'' @ itoa_pad 4 (int i), CInt32 (int i))) is) = 0"
proof (induction "is")
  case (Cons i "is")
  then have "length (itoa_pad 4 (int i)) \<le> 4"
    using length_ntoa[of i 4] by (simp add: itoa_pad_def pad0_def)
  with Cons show ?case by simp
qed simp

lemma large_storable: "list_all storable LargeDocumentCorpus"
proof -
  have "items_size 0 (map (\<lambda>i. CInt32 (int i)) [0..<5000]) \<le> 50000"
    using int32_items_size[of 0 "map int [0..<5000]"] by (simp add: comp_def)
  moreover have "items_depth (map (\<lambda>i. CInt32 (int i)) [0..<5000]) = 0"
    using int32_items_depth[of "map int [0..<5000]"] by (simp add: comp_def)
  moreover have "fields_size (manyFields 1000) \<le> 11000" "fields_depth (manyFields 1000) = 0"
    using many_fields_size[of "[0..<1000]"] by (simp_all add: manyFields_def)
  ultimately show ?thesis
    by (simp add: LargeDocumentCorpus_def storable_def typed_def deep_bounds del: upt_rec_numeral)
qed

text \<open>The documents of the type corpus have distinct identifiers, so that inserting them all stores them
  all, and hold a value of every BSON type that is not deprecated, whatever ObjectID was drawn; the
  second corpus holds the deprecated ones the driver can build; and the large documents are within the
  size and depth a server stores.\<close>

theorem corpora_sound:
  "distinct (map (\<lambda>d. map_of d ''_id'') (BSONTypeCorpus oid)) \<and>
   type_byte ` the ` (\<lambda>d. map_of d ''v'') ` set (BSONTypeCorpus oid) =
     {1, 2, 3, 4, 5, 7, 8, 9, 10, 11, 16, 17, 18, 19, 127, 255} \<and>
   type_byte ` the ` (\<lambda>d. map_of d ''v'') ` set UndecodableTypeCorpus = {6, 13, 14} \<and>
   list_all storable LargeDocumentCorpus"
proof (intro conjI)
  show "distinct (map (\<lambda>d. map_of d ''_id'') (BSONTypeCorpus oid))"
    by (simp add: BSONTypeCorpus_def typed_def)
  show "type_byte ` the ` (\<lambda>d. map_of d ''v'') ` set (BSONTypeCorpus oid) =
     {1, 2, 3, 4, 5, 7, 8, 9, 10, 11, 16, 17, 18, 19, 127, 255}"
    by (simp add: BSONTypeCorpus_def typed_def insert_commute)
  show "type_byte ` the ` (\<lambda>d. map_of d ''v'') ` set UndecodableTypeCorpus = {6, 13, 14}"
    by (simp add: UndecodableTypeCorpus_def typed_def insert_commute)
qed (rule large_storable)

end
