(* ===== verification/Spec2Isabelle.thy ===== *)
theory Spec2Isabelle
  imports WireFacts ReplicaCase EndToEnd MergeModes Lifecycle CompareFacts Capture NegativeControl
    PerfGateFacts WireCaptureFacts WireAnalysis WorkloadFacts ReplicaFacts ServersFacts
    TlsFixtureFacts TlsLabFacts DumboMemberFacts ShopDataFacts StorageFacts ConnectionsFacts
    TestServersFacts RunReportFacts WireLoadsFacts AdapterFacts LoaderFacts PairEntry Corpora
begin

text \<open>
  A verification development for dumbodb-parity-testing, the Go program that tests whether DumboDB
  behaves like MongoDB. This root imports every theory; each theory opens with a note on the files
  it models. The Go program under src/ is translated operation by operation into HOL functions,
  state-passing actions and step relations; nothing below is axiomatised.

  The program and its parts.

  1. The concurrency harness (src/concurrency, src/cmd/concurrency). Workers run a scenario
     against one server for a bounded number of operations; a ledger accounts for every attempt; the
     scenario's checks on the final document decide the verdict and the exit code.
     Client: the Collection interface; a scenario is a program, a tree of calls.
     Ledger, LedgerFacts: ledger.go, the counters and the causal ledger, and that a snapshot is a
     function of the recorded history.
     Config, Checks: validation, the delay, the check lists and what a passing list proves.
     Scenarios, FieldScenarios, TxnScenario, MergeMatrix: the workloads of scenarios.go,
     transaction_scenario.go and field_divergent_matrix.go.
     Adapter, AdapterFacts: adapter.go, the same interfaces on a driver's collection and database.
     Runner, RunnerFacts: runner.go as an interleaving machine of atomic steps, its invariants.
     MemoryCollection: the contract of a counter collection (a locale) and the in-memory server of
     runner_test.go that provides it (its interpretation).
     EndToEnd: completeness, the composition of Client, Scenarios, Ledger, Checks and Runner: a
     server that keeps the contract passes the compare-and-set workload under every interleaving.
     TxnEndToEnd: the same for the transaction workload, over the contract of a transactional
     collection, provided by the in-memory one of transaction_scenario_test.go and, in AdapterFacts,
     by the adapter on a driver that keeps its documentation.
     MergeModes: the documented merge contract, and that the matrix accepts it and separates modes.
     Lifecycle, RunReport, RunReportFacts: preflight, verdict, report, statistics and the command.

  2. The parity harness (src/harness). A case runs on MongoDB and on DumboDB and is graded.
     Compare, CompareFacts: compare.go. ParityReport: report.go, pair.go, auth_pair.go.
     StateCompare, StateFacts, Capture, NegativeControl: statecompare.go and negativecontrol.go; the
     comparison of whole server states decides equality of canonical forms, the capture loses
     nothing, and the control's corruptions are all found.
     Poll, Replica, ReplicaWaits, ReplicaFacts, OpTimes, Converge, ReplicaCase: replica sets, their
     waits and failovers (replicaset.go, failover.go, converge.go, replicacase.go).
     Workload, WorkloadFacts: workload.go, the replication workload.
     Machine, Servers, ServersFacts: servers.go, processes, ports, directories and the shared
     servers. TestServers, TestServersFacts: the throwaway and the restartable pair.
     TlsFixture, TlsFixtureFacts, TlsLab, TlsLabFacts: certificates and TLS servers.
     ReplicaLab, DumboMember, DumboMemberFacts: the processes of a set and its DumboDB member.
     Connections, ConnectionsFacts: clients, administrators, users and test databases.
     PairEntry: how a test obtains its servers, its database and its connections to a set.
     Corpora: the fixed documents of workload.go and the limits they keep.

  3. The wire tools (src/wire, src/cmd/wirecompress). WireBytes, Wire, WireFacts: the client of
     conn.go. WireCapture, WireCaptureFacts: the proxy. WireAnalysis: its totals. WireLoads,
     WireLoadsFacts: the captured workloads, on the data set of ShopData. Loader: its main function
     and its report.

  4. Data and benchmarks. ShopData, ShopDataFacts: src/shopdata and the inserter of src/cmd/gendata.
     Loader, LoaderFacts: the whole of gendata, and what it inserts. Storage,
     StorageFacts: src/storage. PerfStats, PerfGate, PerfGateFacts: src/benchmarks/cmd/perfgate.

  Shared: Prelude (decimal text, growing lists, saturating counts and 64-bit marks), GoErrors
  (error values and their chains), Float64 (binary64 with rounding), GoText (strings, bufio, fmt).

  How code becomes definitions. A struct is a record with the code's field names, a method a
  function of its receiver. A test's fatal end and a Go error are the left of a sum. Actions on the
  harness's machine, lab, session or pair have the type act of Machine: from a state they give a
  result and a state, or None when they never return; wp is their weakest precondition and its
  equations carry the proofs. Concurrent code is a step relation over atomic steps (Runner,
  WireCapture), explored in every order. A random source is threaded by the state monad.

  Interfaces. counter_collection (MemoryCollection) is what the compare-and-set workload needs of a
  server, transactional_collection (TxnEndToEnd) what the transaction workload needs. poll_loop
  (Poll) is a loop that asks, sleeps and gives up at a deadline; it is interpreted for each loop of
  the replica waits, the convergence, the ports, the pings and the elections. OpTime and the group
  keys of the analysis are instances of linorder.

  Bounds and termination. draw_while of Workload has a fuel of one more than the number of elements
  to draw from, and its lemmas show that more fuel changes nothing. Loops that wait are partial
  functions; poll and listening_rounds are shown to return when the clock advances over the sleeps.
  freePort makes a hundred attempts and settle four passes, as the code does. first_command,
  trim_runes, tls_matches, chunks and isqrt have termination proofs. Widths: the causal
  ledger's marks and saturating counters, the mixing function, optimes, message headers and
  checksums are words or written with their wrap-around; counters of one run, sizes and
  nanosecond times are integers, far below the 64-bit range.

  Third-party code is a parameter: the MongoDB driver and the servers behind it, BSON
  marshalling, snappy and zlib, SHA-256, certificate and key generation, openssl, the operating
  system's processes, files, ports and clocks, and the printing of values by %v. What is relied on is
  a named hypothesis (os_sane, worlds_sane, allots, in_range, the round trips of the codecs), each
  met by a concrete instance in the witness of the theorem that uses it.

  What the properties show, by group. Accounting: no attempt is lost or counted twice, under every
  interleaving, and a report is a function of the history. Soundness of verdicts: what a passing
  check list, transaction run, replication case, gate or parity case proves, and what makes it
  fail. Completeness: a correct server passes. Decision: the comparisons decide what they claim to,
  and find each seeded corruption. Round trips: of the wire client, of the captured commands, of
  the reconfiguration. Termination and clean-up: waits and starts return, and leave no process,
  log, directory or client behind, with the exceptions stated. Numbers: exact p-values, rates in
  the unit interval, balanced shards.

  Not modelled. src/tests and the benchmark functions are cases over live servers, not a program
  with a contract of its own. src/benchmarks/cmd/compare starts containers and runs go test. The
  parsing of flags, the writing of output files, log lines, the JSON text of reports and wall-clock
  stamps that are only printed are left out. Mutexes are modelled by their effect: what runs under
  one is one step.
\<close>

end
